(* ===== verification/Mk_Prelude.thy ===== *)
theory Mk_Prelude
  imports Main "HOL-Library.Word"
begin

text \<open>
  What every component of the model shares: bytes and byte strings, the outcome of a fallible
  Rust call (a value, an error, or a panic) with the lemmas that let the simplifier walk through
  the \<^verbatim>\<open>?\<close> operator, \<^verbatim>\<open>iter().map(f).collect::<Result<Vec<_>, _>>()\<close>, checked subtraction on
  \<^verbatim>\<open>usize\<close>, and generic facts on lists and partial maps.
\<close>

section \<open>Bytes and outcomes\<close>

type_synonym byte = "8 word"
type_synonym bytes = "8 word list"
type_synonym u16 = "16 word"

text \<open>
  A Rust function that returns \<^verbatim>\<open>Result<T, E>\<close> may also panic (a slice of the wrong length given
  to \<^verbatim>\<open>from_slice\<close>, an arithmetic overflow in a checked build). The three outcomes are kept apart.
\<close>

datatype ('e, 'a) outcome = Ok 'a | Err 'e | Panic

text \<open>The \<^verbatim>\<open>?\<close> operator: go on with the value, or return the error, or unwind.\<close>

fun and_then :: "('e, 'a) outcome \<Rightarrow> ('a \<Rightarrow> ('e, 'b) outcome) \<Rightarrow> ('e, 'b) outcome" where
  "and_then (Ok x) f = f x"
| "and_then (Err e) f = Err e"
| "and_then Panic f = Panic"

fun map_err :: "('e \<Rightarrow> 'f) \<Rightarrow> ('e, 'a) outcome \<Rightarrow> ('f, 'a) outcome" where
  "map_err g (Ok x) = Ok x"
| "map_err g (Err e) = Err (g e)"
| "map_err g Panic = Panic"

definition ok_or :: "'e \<Rightarrow> 'a option \<Rightarrow> ('e, 'a) outcome" where
  "ok_or e m = (case m of None \<Rightarrow> Err e | Some x \<Rightarrow> Ok x)"

definition ensure :: "bool \<Rightarrow> 'e \<Rightarrow> ('e, unit) outcome" where
  "ensure b e = (if b then Ok () else Err e)"

fun is_ok :: "('e, 'a) outcome \<Rightarrow> bool" where
  "is_ok (Ok _) = True"
| "is_ok (Err _) = False"
| "is_ok Panic = False"

fun is_err :: "('e, 'a) outcome \<Rightarrow> bool" where
  "is_err (Err _) = True"
| "is_err (Ok _) = False"
| "is_err Panic = False"

text \<open>\<^verbatim>\<open>usize\<close> subtraction of a checked build: an underflow panics.\<close>

definition usize_sub :: "nat \<Rightarrow> nat \<Rightarrow> ('e, nat) outcome" where
  "usize_sub a b = (if b \<le> a then Ok (a - b) else Panic)"

text \<open>Collecting the results of a fallible map stops at the first failure.\<close>

fun collect :: "('a \<Rightarrow> ('e, 'b) outcome) \<Rightarrow> 'a list \<Rightarrow> ('e, 'b list) outcome" where
  "collect f [] = Ok []"
| "collect f (x # xs) = and_then (f x) (\<lambda>y. and_then (collect f xs) (\<lambda>ys. Ok (y # ys)))"

text \<open>A loop over a list whose body only checks: \<^verbatim>\<open>for x in xs { check(x)?; }\<close>.\<close>

fun check_all :: "('a \<Rightarrow> ('e, unit) outcome) \<Rightarrow> 'a list \<Rightarrow> ('e, unit) outcome" where
  "check_all f [] = Ok ()"
| "check_all f (x # xs) = and_then (f x) (\<lambda>_. check_all f xs)"

section \<open>Automation for outcomes\<close>

named_theorems outcome_simps \<open>equations that push a fallible computation forward\<close>

lemma and_then_eq_Ok [outcome_simps]:
  "and_then m f = Ok y \<longleftrightarrow> (\<exists>x. m = Ok x \<and> f x = Ok y)"
  by (cases m) auto

lemma and_then_eq_Err:
  "and_then m f = Err e \<longleftrightarrow> m = Err e \<or> (\<exists>x. m = Ok x \<and> f x = Err e)"
  by (cases m) auto

lemma and_then_eq_Panic:
  "and_then m f = Panic \<longleftrightarrow> m = Panic \<or> (\<exists>x. m = Ok x \<and> f x = Panic)"
  by (cases m) auto

lemma and_then_assoc: "and_then (and_then m f) g = and_then m (\<lambda>x. and_then (f x) g)"
  by (cases m) auto

lemma and_then_cong [fundef_cong]:
  "m = m' \<Longrightarrow> (\<And>x. m' = Ok x \<Longrightarrow> f x = f' x) \<Longrightarrow> and_then m f = and_then m' f'"
  by (cases m') auto

lemma map_err_eq_Ok [outcome_simps]: "map_err g m = Ok x \<longleftrightarrow> m = Ok x"
  by (cases m) auto

lemma map_err_eq_Err: "map_err g m = Err e \<longleftrightarrow> (\<exists>e'. m = Err e' \<and> e = g e')"
  by (cases m) auto

lemma ok_or_Some [simp]: "ok_or e (Some x) = Ok x"
  by (simp add: ok_or_def)

lemma ok_or_None [simp]: "ok_or e None = Err e"
  by (simp add: ok_or_def)

lemma ok_or_eq_Ok [outcome_simps]: "ok_or e m = Ok x \<longleftrightarrow> m = Some x"
  by (cases m) auto

lemma ok_or_not_Panic [simp]: "ok_or e m \<noteq> Panic"
  by (cases m) auto

lemma ensure_True [simp]: "ensure True e = Ok ()"
  by (simp add: ensure_def)

lemma ensure_False [simp]: "ensure False e = Err e"
  by (simp add: ensure_def)

lemma ensure_eq_Ok [outcome_simps]: "ensure b e = Ok u \<longleftrightarrow> b"
  by (simp add: ensure_def)

lemma ensure_not_Panic [simp]: "ensure b e \<noteq> Panic"
  by (simp add: ensure_def)

lemma and_then_not_Panic:
  "m \<noteq> Panic \<Longrightarrow> (\<And>x. m = Ok x \<Longrightarrow> f x \<noteq> Panic) \<Longrightarrow> and_then m f \<noteq> Panic"
  by (cases m) auto

lemma usize_sub_eq_Ok [outcome_simps]: "usize_sub a b = Ok c \<longleftrightarrow> b \<le> a \<and> c = a - b"
  by (auto simp: usize_sub_def)

lemma is_ok_iff: "is_ok m \<longleftrightarrow> (\<exists>x. m = Ok x)"
  by (cases m) auto

lemma is_err_iff: "is_err m \<longleftrightarrow> (\<exists>e. m = Err e)"
  by (cases m) auto

lemma is_err_and_thenI: "is_err m \<Longrightarrow> is_err (and_then m f)"
  by (cases m) auto

section \<open>Collecting and checking\<close>

lemma collect_eq_Ok:
  "collect f xs = Ok ys \<longleftrightarrow> list_all2 (\<lambda>x y. f x = Ok y) xs ys"
  by (induction xs arbitrary: ys)
     (auto simp: and_then_eq_Ok list_all2_Cons1)

lemma collect_length: "collect f xs = Ok ys \<Longrightarrow> length ys = length xs"
  by (auto simp: collect_eq_Ok dest: list_all2_lengthD)

lemma collect_map_Ok: "(\<And>x. x \<in> set xs \<Longrightarrow> f x = Ok (g x)) \<Longrightarrow> collect f xs = Ok (map g xs)"
  by (induction xs) auto

lemma collect_set_Ok:
  "collect f xs = Ok ys \<Longrightarrow> y \<in> set ys \<Longrightarrow> \<exists>x \<in> set xs. f x = Ok y"
  by (induction xs arbitrary: ys) (auto simp: and_then_eq_Ok)

lemma collect_not_Panic: "(\<And>x. x \<in> set xs \<Longrightarrow> f x \<noteq> Panic) \<Longrightarrow> collect f xs \<noteq> Panic"
  by (induction xs) (auto simp: and_then_eq_Panic)

lemma check_all_eq_Ok: "check_all f xs = Ok u \<longleftrightarrow> (\<forall>x \<in> set xs. f x = Ok ())"
  by (induction xs) (auto simp: and_then_eq_Ok)

lemma check_all_not_Panic: "(\<And>x. x \<in> set xs \<Longrightarrow> f x \<noteq> Panic) \<Longrightarrow> check_all f xs \<noteq> Panic"
  by (induction xs) (auto simp: and_then_eq_Panic)

section \<open>Positions in a list\<close>

text \<open>The position of the first occurrence, used to number the elements of an enumeration.\<close>

definition index_of :: "'a list \<Rightarrow> 'a \<Rightarrow> nat" where
  "index_of xs x = length (takeWhile (\<lambda>y. y \<noteq> x) xs)"

lemma index_of_less: "x \<in> set xs \<Longrightarrow> index_of xs x < length xs"
  unfolding index_of_def by (induction xs) auto

lemma nth_index_of: "x \<in> set xs \<Longrightarrow> xs ! index_of xs x = x"
  unfolding index_of_def by (induction xs) auto

lemma index_of_inject: "x \<in> set xs \<Longrightarrow> y \<in> set xs \<Longrightarrow> index_of xs x = index_of xs y \<longleftrightarrow> x = y"
  by (metis nth_index_of)

end
