(* ===== verification/Mk_Codec.thy ===== *)
theory Mk_Codec
  imports Mk_Prelude
begin

text \<open>
  The key codecs. \<^verbatim>\<open>multi_codec::Codec\<close> is a flat enum of an external crate; the variants below are
  the ones this repository names, with the name factored into a family and its parameters:
  \<^verbatim>\<open>Codec::LamportMerkleSha3256Priv\<close> is \<open>LamportMerkle Sha3_256 LPriv\<close>, \<^verbatim>\<open>Codec::Mayo3Pub\<close> is
  \<open>Mayo Mayo_3 SPub\<close>, \<^verbatim>\<open>Codec::Bls12381G2PrivShare\<close> is \<open>Bls12381 G2 BPrivShare\<close>. The factoring is
  one to one on the variants that are named; \<open>OtherCodec\<close> stands for every variant this repository
  never names. The numeric codes of the codecs belong to the external crate and are a parameter
  (theory \<open>Mk_Wire\<close>).
\<close>

section \<open>Parameters of the codec families\<close>

datatype kpart = Pub | Priv
datatype spart = SPub | SPriv | SMsig
datatype lpart = LPub | LPriv | LPrivShare | LSig | LSigShare
datatype bpart = BPub | BPriv | BPubShare | BPrivShare | BMsig | BShareMsig

datatype bls_group = G1 | G2
datatype thresh_curve = TEd25519 | TP256 | TP384 | TSecp256K1 | TBls12381 | TEd448
datatype rsa_size = Rsa2048 | Rsa3072 | Rsa4096
datatype fn_set = Fn512 | Fn1024
datatype ml_set = Ml65 | Ml87
datatype mayo_set = Mayo_1 | Mayo_2 | Mayo_3 | Mayo_5
datatype slh_set =
    SlhSha2_128F | SlhSha2_128S | SlhSha2_192F | SlhSha2_192S | SlhSha2_256F | SlhSha2_256S
  | SlhShake_128F | SlhShake_128S | SlhShake_192F | SlhShake_192S | SlhShake_256F | SlhShake_256S
datatype kem_set = K768 | K1024
datatype sntrup_set = S761 | S857 | S953 | S1013 | S1277
datatype frodo_prf = Aes | Shake
datatype frodo_set = F640Aes | F976Aes | F1344Aes | F640Shake | F976Shake | F1344Shake
datatype xmss_height = H10 | H16 | H20
datatype lamport_digest =
    Sha3_256 | Sha3_384 | Sha3_512 | Sha2_256 | Sha2_384 | Sha2_512
  | Blake2B_512 | Blake2S_256 | Blake3_256 | Shake_128 | Shake_256

section \<open>The codecs\<close>

datatype (plugins only: code size) codec =
    Identity | CMultikey | CNonce | KeySplitShare | BcryptPbkdf
  | Chacha20Poly1305 | Xchacha20Poly1305 | AesGcm128 | AesGcm256 | Blake2S256 | Sha3256
  | EddsaMsig | Es256KMsig | Es256Msig | Es384Msig | Es521Msig | Rs256Msig | XeddsaMsig
  | Ed25519 kpart | Secp256K1 kpart | P256 kpart | P384 kpart | P521 kpart
  | Rsa rsa_size kpart
  | Bls12381 bls_group bpart
  | Thresh thresh_curve kpart
  | FnDsa fn_set spart | MlDsa ml_set spart | Mayo mayo_set spart
  | SlhDsa slh_set spart
  | Mlkem kem_set kpart | Sntrup sntrup_set kpart | Mceliece348864 kpart
  | FrodoKem frodo_set kpart
  | X25519 kpart | X25519Sntrup761 kpart | X25519Mceliece348864 kpart
  | X25519Mlkem768 kpart | X25519Frodokem640 frodo_prf kpart
  | Ed25519Mayo2 spart | Ed25519Mldsa65 spart | Ed25519Fndsa512 spart
  | Bls12381G1Mldsa65 spart | Bls12381G1Fndsa512 spart
  | Bls12381G1Mayo1 spart | Bls12381G1Mayo2 spart
  | Lamport lamport_digest lpart | LamportMerkle lamport_digest lpart
  | Xmss xmss_height spart
  | OtherCodec "16 word"

section \<open>Enumeration of the named codecs\<close>

text \<open>
  All codecs but \<open>OtherCodec\<close>, family by family; used to give concrete codes to the codecs where a
  concrete instance of the external interface is needed.
\<close>

definition kparts :: "kpart list" where "kparts = [Pub, Priv]"
definition sparts :: "spart list" where "sparts = [SPub, SPriv, SMsig]"
definition lparts :: "lpart list" where "lparts = [LPub, LPriv, LPrivShare, LSig, LSigShare]"
definition bparts :: "bpart list" where
  "bparts = [BPub, BPriv, BPubShare, BPrivShare, BMsig, BShareMsig]"

definition lamport_digests :: "lamport_digest list" where
  "lamport_digests = [Sha3_256, Sha3_384, Sha3_512, Sha2_256, Sha2_384, Sha2_512,
     Blake2B_512, Blake2S_256, Blake3_256, Shake_128, Shake_256]"

definition rsa_sizes :: "rsa_size list" where
  "rsa_sizes = [Rsa2048, Rsa3072, Rsa4096]"
definition bls_groups :: "bls_group list" where
  "bls_groups = [G1, G2]"
definition thresh_curves :: "thresh_curve list" where
  "thresh_curves = [TEd25519, TP256, TP384, TSecp256K1, TBls12381, TEd448]"
definition fn_sets :: "fn_set list" where
  "fn_sets = [Fn512, Fn1024]"
definition ml_sets :: "ml_set list" where
  "ml_sets = [Ml65, Ml87]"
definition mayo_sets :: "mayo_set list" where
  "mayo_sets = [Mayo_1, Mayo_2, Mayo_3, Mayo_5]"
definition slh_sets :: "slh_set list" where
  "slh_sets = [SlhSha2_128F, SlhSha2_128S, SlhSha2_192F, SlhSha2_192S, SlhSha2_256F, SlhSha2_256S,
     SlhShake_128F, SlhShake_128S, SlhShake_192F, SlhShake_192S, SlhShake_256F, SlhShake_256S]"
definition kem_sets :: "kem_set list" where
  "kem_sets = [K768, K1024]"
definition sntrup_sets :: "sntrup_set list" where
  "sntrup_sets = [S761, S857, S953, S1013, S1277]"
definition frodo_prfs :: "frodo_prf list" where
  "frodo_prfs = [Aes, Shake]"
definition frodo_sets :: "frodo_set list" where
  "frodo_sets = [F640Aes, F976Aes, F1344Aes, F640Shake, F976Shake, F1344Shake]"
definition xmss_heights :: "xmss_height list" where
  "xmss_heights = [H10, H16, H20]"

definition all2 :: "('a \<Rightarrow> 'b \<Rightarrow> 'c) \<Rightarrow> 'a list \<Rightarrow> 'b list \<Rightarrow> 'c list" where
  "all2 f xs ys = concat (map (\<lambda>x. map (f x) ys) xs)"

lemma in_all2 [simp]: "z \<in> set (all2 f xs ys) \<longleftrightarrow> (\<exists>x \<in> set xs. \<exists>y \<in> set ys. z = f x y)"
  by (auto simp: all2_def)

definition simple_codecs :: "codec list" where
  "simple_codecs = [Identity, CMultikey, CNonce, KeySplitShare, BcryptPbkdf,
     Chacha20Poly1305, Xchacha20Poly1305, AesGcm128, AesGcm256, Blake2S256, Sha3256,
     EddsaMsig, Es256KMsig, Es256Msig, Es384Msig, Es521Msig, Rs256Msig, XeddsaMsig]"

definition all_codecs :: "codec list" where
  "all_codecs = simple_codecs
     @ map Ed25519 kparts @ map Secp256K1 kparts @ map P256 kparts @ map P384 kparts
     @ map P521 kparts @ all2 Rsa rsa_sizes kparts @ all2 Bls12381 bls_groups bparts
     @ all2 Thresh thresh_curves kparts @ all2 FnDsa fn_sets sparts @ all2 MlDsa ml_sets sparts
     @ all2 Mayo mayo_sets sparts @ all2 SlhDsa slh_sets sparts @ all2 Mlkem kem_sets kparts
     @ all2 Sntrup sntrup_sets kparts @ map Mceliece348864 kparts
     @ all2 FrodoKem frodo_sets kparts
     @ map X25519 kparts @ map X25519Sntrup761 kparts @ map X25519Mceliece348864 kparts
     @ map X25519Mlkem768 kparts @ all2 X25519Frodokem640 frodo_prfs kparts
     @ map Ed25519Mayo2 sparts @ map Ed25519Mldsa65 sparts @ map Ed25519Fndsa512 sparts
     @ map Bls12381G1Mldsa65 sparts @ map Bls12381G1Fndsa512 sparts
     @ map Bls12381G1Mayo1 sparts @ map Bls12381G1Mayo2 sparts
     @ all2 Lamport lamport_digests lparts @ all2 LamportMerkle lamport_digests lparts
     @ all2 Xmss xmss_heights sparts"

lemma in_kparts [simp]: "x \<in> set kparts"
  by (cases x) (simp_all add: kparts_def)
lemma in_sparts [simp]: "x \<in> set sparts"
  by (cases x) (simp_all add: sparts_def)
lemma in_lparts [simp]: "x \<in> set lparts"
  by (cases x) (simp_all add: lparts_def)
lemma in_bparts [simp]: "x \<in> set bparts"
  by (cases x) (simp_all add: bparts_def)
lemma in_lamport_digests [simp]: "x \<in> set lamport_digests"
  by (cases x) (simp_all add: lamport_digests_def)

lemma in_rsa_sizes [simp]: "x \<in> set rsa_sizes"
  by (cases x) (simp_all add: rsa_sizes_def)
lemma in_bls_groups [simp]: "x \<in> set bls_groups"
  by (cases x) (simp_all add: bls_groups_def)
lemma in_thresh_curves [simp]: "x \<in> set thresh_curves"
  by (cases x) (simp_all add: thresh_curves_def)
lemma in_fn_sets [simp]: "x \<in> set fn_sets"
  by (cases x) (simp_all add: fn_sets_def)
lemma in_ml_sets [simp]: "x \<in> set ml_sets"
  by (cases x) (simp_all add: ml_sets_def)
lemma in_mayo_sets [simp]: "x \<in> set mayo_sets"
  by (cases x) (simp_all add: mayo_sets_def)
lemma in_slh_sets [simp]: "x \<in> set slh_sets"
  by (cases x) (simp_all add: slh_sets_def)
lemma in_kem_sets [simp]: "x \<in> set kem_sets"
  by (cases x) (simp_all add: kem_sets_def)
lemma in_sntrup_sets [simp]: "x \<in> set sntrup_sets"
  by (cases x) (simp_all add: sntrup_sets_def)
lemma in_frodo_prfs [simp]: "x \<in> set frodo_prfs"
  by (cases x) (simp_all add: frodo_prfs_def)
lemma in_frodo_sets [simp]: "x \<in> set frodo_sets"
  by (cases x) (simp_all add: frodo_sets_def)
lemma in_xmss_heights [simp]: "x \<in> set xmss_heights"
  by (cases x) (simp_all add: xmss_heights_def)

lemma in_all_codecs: "(\<forall>w. c \<noteq> OtherCodec w) \<Longrightarrow> c \<in> set all_codecs"
  by (cases c) (simp_all add: all_codecs_def simple_codecs_def)

lemma OtherCodec_notin [simp]: "OtherCodec w \<notin> set all_codecs"
  by (auto simp: all_codecs_def simple_codecs_def)

text \<open>The number of a named codec in the enumeration, and the codec with a given number.\<close>

definition codec_number :: "codec \<Rightarrow> nat" where
  "codec_number c = (case c of OtherCodec w \<Rightarrow> 1000 + unat w | _ \<Rightarrow> index_of all_codecs c)"

definition codec_numbered :: "nat \<Rightarrow> codec option" where
  "codec_numbered n =
     (if n < length all_codecs then Some (all_codecs ! n)
      else if 1000 \<le> n \<and> n < 1000 + 65536 then Some (OtherCodec (of_nat (n - 1000)))
      else None)"

lemma length_all_codecs [simp]: "length all_codecs = 298"
  by code_simp

lemma codec_number_named: "(\<forall>w. c \<noteq> OtherCodec w) \<Longrightarrow> codec_number c = index_of all_codecs c"
  by (cases c) (simp_all add: codec_number_def)

lemma codec_number_less: "codec_number c < 66536"
proof (cases "\<exists>w. c = OtherCodec w")
  case True
  then show ?thesis
    using unsigned_less [where 'a = nat and 'b = 16] by (fastforce simp: codec_number_def)
next
  case False
  then have "index_of all_codecs c < 298"
    using index_of_less [OF in_all_codecs, of c] by simp
  then show ?thesis
    using False codec_number_named [of c] by auto
qed

lemma codec_numbered_number [simp]: "codec_numbered (codec_number c) = Some c"
proof (cases "\<exists>w. c = OtherCodec w")
  case True
  then obtain w where w: "c = OtherCodec w" by blast
  have "unat w < 65536"
    using unsigned_less [of w, where 'a = nat] by simp
  then show ?thesis
    using w by (simp add: codec_number_def codec_numbered_def)
next
  case False
  then have c: "c \<in> set all_codecs"
    by (intro in_all_codecs) blast
  then have "codec_number c = index_of all_codecs c"
    using False by (intro codec_number_named) blast
  then show ?thesis
    using index_of_less [OF c] nth_index_of [OF c] by (simp add: codec_numbered_def)
qed

end
