(* ===== verification/Mk_Error.thy ===== *)
theory Mk_Error
  imports Mk_Codec
begin

text \<open>
  The errors of \<^verbatim>\<open>src/error.rs\<close>. A nested Rust enum is a datatype of its own; a constructor carries
  a short prefix for its enum (\<open>A\<close> attributes, \<open>Cv\<close> conversions, \<open>Ci\<close> cipher, \<open>Kd\<close> kdf, \<open>No\<close>
  nonce, \<open>Se\<close> seal, \<open>Si\<close> sign, \<open>Th\<close> threshold, \<open>Ve\<close> verify), because Rust qualifies the
  names and Isabelle shares one name space. An error of an external crate is an opaque string.
\<close>

type_synonym lib_error = string

datatype attributes_error =
    AUnsupportedCodec codec
  | AMissingKey
  | ANotSecretKey codec
  | AEncryptedKey
  | AInvalidAttributeName string
  | AInvalidAttributeValue byte
  | AMissingThreshold
  | AMissingLimit
  | AMissingShareIdentifier
  | AMissingThresholdData
  | AMissingGroupPublicKey
  | AMissingThresholdParticipants
  | AThresholdMarkerCbor string
  | AMissingThresholdMarkerSig
  | AThresholdMarkerSigInvalid
  | ADepthMismatch byte byte

datatype ssh_errors = SshKey lib_error | SshKeyLabel lib_error | SshEncoding lib_error

datatype conversions_error =
    CvSsh ssh_errors
  | CvPublicKeyFailure string
  | CvSecretKeyFailure string
  | CvUnsupportedAlgorithm string
  | CvUnsupportedCodec codec

datatype cipher_error =
    CiUnsupportedCodec codec
  | CiMissingCodec
  | CiMissingNonce
  | CiInvalidNonceLen
  | CiInvalidNonce
  | CiMissingKey
  | CiMissingKeyLen
  | CiInvalidKey
  | CiEncryptionFailed string
  | CiDecryptionFailed

datatype kdf_error =
    KdBcrypt lib_error
  | KdUnsupportedCodec codec
  | KdMissingCodec
  | KdMissingSalt
  | KdInvalidSaltLen
  | KdMissingRounds

datatype nonce_error = NoMissingSigil | NoMissingBytes

datatype seal_error =
    SeNotEncryptionKey
  | SeNotDecapsulationKey
  | SeNotEncapsulationKey
  | SeUnsupportedAeadCodec codec
  | SeEncapsulationFailed string
  | SeDecapsulationFailed string
  | SeAeadSealFailed string
  | SeAeadOpenFailed
  | SeInvalidFormat string
  | SeKeyDerivationFailed string
  | SeRngFailure string

datatype sign_error =
    SiNotSigningKey
  | SiSigningFailed string
  | SiMissingScheme
  | SiRngFailure string

datatype threshold_error =
    ThBls lib_error
  | ThInvalidThresholdLimit nat nat
  | ThNotASecretKey
  | ThIsAKeyShare
  | ThNotEnoughShares
  | ThShareCombineFailed string
  | ThMetaEncryption string
  | ThMissingMetaKey
  | ThDisclosureMismatch byte byte
  | ThDuplicateShare

datatype verify_error = VeMissingSignature | VeMissingMessage | VeBadSignature string

datatype error =
    Attributes attributes_error
  | Conversions conversions_error
  | Cipher cipher_error
  | Kdf kdf_error
  | NonceE nonce_error
  | Seal seal_error
  | Sign sign_error
  | Threshold threshold_error
  | Verify verify_error
  | KeySplit string
  | Multibase lib_error
  | Multicodec lib_error
  | Multiutil lib_error
  | Multisig lib_error
  | Multitrait lib_error
  | Multihash lib_error
  | Utf8
  | DuplicateAttribute byte
  | TooManyAttributes nat nat
  | InputTooLarge nat nat
  | MissingSigil
  | UnsupportedAlgorithm string

type_synonym 'a res = "(error, 'a) outcome"

text \<open>\<^verbatim>\<open>Error::kind\<close>: the name of the outermost variant.\<close>

fun kind :: "error \<Rightarrow> string" where
  "kind (Attributes _) = ''Attributes''"
| "kind (Conversions _) = ''Conversions''"
| "kind (Cipher _) = ''Cipher''"
| "kind (Kdf _) = ''Kdf''"
| "kind (NonceE _) = ''Nonce''"
| "kind (Seal _) = ''Seal''"
| "kind (Sign _) = ''Sign''"
| "kind (Threshold _) = ''Threshold''"
| "kind (Verify _) = ''Verify''"
| "kind (KeySplit _) = ''KeySplit''"
| "kind (Multibase _) = ''Multibase''"
| "kind (Multicodec _) = ''Multicodec''"
| "kind (Multiutil _) = ''Multiutil''"
| "kind (Multisig _) = ''Multisig''"
| "kind (Multitrait _) = ''Multitrait''"
| "kind (Multihash _) = ''Multihash''"
| "kind Utf8 = ''Utf8''"
| "kind (DuplicateAttribute _) = ''DuplicateAttribute''"
| "kind (TooManyAttributes _ _) = ''TooManyAttributes''"
| "kind (InputTooLarge _ _) = ''InputTooLarge''"
| "kind MissingSigil = ''MissingSigil''"
| "kind (UnsupportedAlgorithm _) = ''UnsupportedAlgorithm''"

end
