(* ===== verification/Mk_Attr.thy ===== *)
theory Mk_Attr
  imports Mk_Error
begin

text \<open>
  \<^verbatim>\<open>src/attrid.rs\<close>: the attribute identifiers, their one-byte codes and their names, and the attribute
  map \<^verbatim>\<open>BTreeMap<AttrId, Zeroizing<Vec<u8>>>\<close> of \<^verbatim>\<open>src/mk.rs\<close>. There are thirty identifiers, so the map is a
  partial function on a finite type; iteration in key order is \<open>attr_entries\<close>.
\<close>

section \<open>Attribute identifiers\<close>

datatype attr_id =
    KeyIsEncrypted
  | KeyData
  | CipherCodec
  | CipherKeyLen
  | CipherNonce
  | KdfCodec
  | KdfSalt
  | KdfRounds
  | Threshold
  | Limit
  | ShareIdentifier
  | ThresholdData
  | DkgOwnerId
  | DkgParticipants
  | DkgThreshold
  | DkgLimit
  | DkgGroupPublicKey
  | DkgIdentifier
  | DkgSessionId
  | ShareVerifiers
  | ShareDual
  | ThresholdGroupPublicKey
  | ThresholdParticipants
  | ThresholdMarkerSig
  | ThresholdDisclosure
  | EncryptedThresholdMeta
  | ThresholdMetaCipher
  | AlgorithmName
  | KeyType
  | Depth

text \<open>\<^verbatim>\<open>val as u8\<close>: the discriminants of the \<^verbatim>\<open>repr(u8)\<close> enum count from 0 in declaration order.\<close>

fun attr_code :: "attr_id \<Rightarrow> byte" where
  "attr_code KeyIsEncrypted = 0"
| "attr_code KeyData = 1"
| "attr_code CipherCodec = 2"
| "attr_code CipherKeyLen = 3"
| "attr_code CipherNonce = 4"
| "attr_code KdfCodec = 5"
| "attr_code KdfSalt = 6"
| "attr_code KdfRounds = 7"
| "attr_code Threshold = 8"
| "attr_code Limit = 9"
| "attr_code ShareIdentifier = 10"
| "attr_code ThresholdData = 11"
| "attr_code DkgOwnerId = 12"
| "attr_code DkgParticipants = 13"
| "attr_code DkgThreshold = 14"
| "attr_code DkgLimit = 15"
| "attr_code DkgGroupPublicKey = 16"
| "attr_code DkgIdentifier = 17"
| "attr_code DkgSessionId = 18"
| "attr_code ShareVerifiers = 19"
| "attr_code ShareDual = 20"
| "attr_code ThresholdGroupPublicKey = 21"
| "attr_code ThresholdParticipants = 22"
| "attr_code ThresholdMarkerSig = 23"
| "attr_code ThresholdDisclosure = 24"
| "attr_code EncryptedThresholdMeta = 25"
| "attr_code ThresholdMetaCipher = 26"
| "attr_code AlgorithmName = 27"
| "attr_code KeyType = 28"
| "attr_code Depth = 29"

text \<open>\<^verbatim>\<open>TryFrom<u8>\<close>.\<close>

definition attr_of_code :: "byte \<Rightarrow> attr_id res" where
  "attr_of_code c =
    (if c = 0 then Ok KeyIsEncrypted
     else if c = 1 then Ok KeyData
     else if c = 2 then Ok CipherCodec
     else if c = 3 then Ok CipherKeyLen
     else if c = 4 then Ok CipherNonce
     else if c = 5 then Ok KdfCodec
     else if c = 6 then Ok KdfSalt
     else if c = 7 then Ok KdfRounds
     else if c = 8 then Ok Threshold
     else if c = 9 then Ok Limit
     else if c = 10 then Ok ShareIdentifier
     else if c = 11 then Ok ThresholdData
     else if c = 12 then Ok DkgOwnerId
     else if c = 13 then Ok DkgParticipants
     else if c = 14 then Ok DkgThreshold
     else if c = 15 then Ok DkgLimit
     else if c = 16 then Ok DkgGroupPublicKey
     else if c = 17 then Ok DkgIdentifier
     else if c = 18 then Ok DkgSessionId
     else if c = 19 then Ok ShareVerifiers
     else if c = 20 then Ok ShareDual
     else if c = 21 then Ok ThresholdGroupPublicKey
     else if c = 22 then Ok ThresholdParticipants
     else if c = 23 then Ok ThresholdMarkerSig
     else if c = 24 then Ok ThresholdDisclosure
     else if c = 25 then Ok EncryptedThresholdMeta
     else if c = 26 then Ok ThresholdMetaCipher
     else if c = 27 then Ok AlgorithmName
     else if c = 28 then Ok KeyType
     else if c = 29 then Ok Depth
     else Err (Attributes (AInvalidAttributeValue c)))"

text \<open>\<^verbatim>\<open>as_str\<close> (and \<^verbatim>\<open>Display\<close>).\<close>

fun attr_as_str :: "attr_id \<Rightarrow> string" where
  "attr_as_str KeyIsEncrypted = ''key-is-encrypted''"
| "attr_as_str KeyData = ''key-data''"
| "attr_as_str CipherCodec = ''cipher-codec''"
| "attr_as_str CipherKeyLen = ''cipher-key-len''"
| "attr_as_str CipherNonce = ''cipher-nonce''"
| "attr_as_str KdfCodec = ''kdf-codec''"
| "attr_as_str KdfSalt = ''kdf-salt''"
| "attr_as_str KdfRounds = ''kdf-rounds''"
| "attr_as_str Threshold = ''threshold''"
| "attr_as_str Limit = ''limit''"
| "attr_as_str ShareIdentifier = ''share-identifier''"
| "attr_as_str ThresholdData = ''threshold-data''"
| "attr_as_str DkgOwnerId = ''dkg-owner-id''"
| "attr_as_str DkgParticipants = ''dkg-participants''"
| "attr_as_str DkgThreshold = ''dkg-threshold''"
| "attr_as_str DkgLimit = ''dkg-limit''"
| "attr_as_str DkgGroupPublicKey = ''dkg-group-public-key''"
| "attr_as_str DkgIdentifier = ''dkg-identifier''"
| "attr_as_str DkgSessionId = ''dkg-session-id''"
| "attr_as_str ShareVerifiers = ''share-verifiers''"
| "attr_as_str ShareDual = ''share-dual''"
| "attr_as_str ThresholdGroupPublicKey = ''threshold-group-public-key''"
| "attr_as_str ThresholdParticipants = ''threshold-participants''"
| "attr_as_str ThresholdMarkerSig = ''threshold-marker-sig''"
| "attr_as_str ThresholdDisclosure = ''threshold-disclosure''"
| "attr_as_str EncryptedThresholdMeta = ''encrypted-threshold-meta''"
| "attr_as_str ThresholdMetaCipher = ''threshold-meta-cipher''"
| "attr_as_str AlgorithmName = ''algorithm-name''"
| "attr_as_str KeyType = ''key-type''"
| "attr_as_str Depth = ''depth''"

text \<open>\<^verbatim>\<open>str::to_ascii_lowercase\<close> on the bytes of a string.\<close>

definition ascii_lower :: "char \<Rightarrow> char" where
  "ascii_lower c = (let n = of_char c :: nat in if 65 \<le> n \<and> n \<le> 90 then char_of (n + 32) else c)"

definition to_ascii_lowercase :: "string \<Rightarrow> string" where
  "to_ascii_lowercase = map ascii_lower"

text \<open>\<^verbatim>\<open>FromStr\<close> (and \<^verbatim>\<open>TryFrom<&str>\<close>): the error keeps the string as given, not the folded one.\<close>

definition attr_from_str :: "string \<Rightarrow> attr_id res" where
  "attr_from_str s = (let l = to_ascii_lowercase s in
    if l = ''key-is-encrypted'' then Ok KeyIsEncrypted
     else if l = ''key-data'' then Ok KeyData
     else if l = ''cipher-codec'' then Ok CipherCodec
     else if l = ''cipher-key-len'' then Ok CipherKeyLen
     else if l = ''cipher-nonce'' then Ok CipherNonce
     else if l = ''kdf-codec'' then Ok KdfCodec
     else if l = ''kdf-salt'' then Ok KdfSalt
     else if l = ''kdf-rounds'' then Ok KdfRounds
     else if l = ''threshold'' then Ok Threshold
     else if l = ''limit'' then Ok Limit
     else if l = ''share-identifier'' then Ok ShareIdentifier
     else if l = ''threshold-data'' then Ok ThresholdData
     else if l = ''dkg-owner-id'' then Ok DkgOwnerId
     else if l = ''dkg-participants'' then Ok DkgParticipants
     else if l = ''dkg-threshold'' then Ok DkgThreshold
     else if l = ''dkg-limit'' then Ok DkgLimit
     else if l = ''dkg-group-public-key'' then Ok DkgGroupPublicKey
     else if l = ''dkg-identifier'' then Ok DkgIdentifier
     else if l = ''dkg-session-id'' then Ok DkgSessionId
     else if l = ''share-verifiers'' then Ok ShareVerifiers
     else if l = ''share-dual'' then Ok ShareDual
     else if l = ''threshold-group-public-key'' then Ok ThresholdGroupPublicKey
     else if l = ''threshold-participants'' then Ok ThresholdParticipants
     else if l = ''threshold-marker-sig'' then Ok ThresholdMarkerSig
     else if l = ''threshold-disclosure'' then Ok ThresholdDisclosure
     else if l = ''encrypted-threshold-meta'' then Ok EncryptedThresholdMeta
     else if l = ''threshold-meta-cipher'' then Ok ThresholdMetaCipher
     else if l = ''algorithm-name'' then Ok AlgorithmName
     else if l = ''key-type'' then Ok KeyType
     else if l = ''depth'' then Ok Depth
     else Err (Attributes (AInvalidAttributeName s)))"

section \<open>Codes and names identify the attribute\<close>

lemma attr_of_code_code [simp]: "attr_of_code (attr_code a) = Ok a"
  by (cases a) (simp_all add: attr_of_code_def)

lemma attr_code_inject [simp]: "attr_code a = attr_code b \<longleftrightarrow> a = b"
  by (metis attr_of_code_code outcome.inject(1))

lemma attr_code_less: "unat (attr_code a) < 30"
  by (cases a) simp_all

lemma attr_of_code_sound: "attr_of_code c = Ok a \<Longrightarrow> attr_code a = c"
  by (auto simp: attr_of_code_def split: if_splits)

lemma attr_of_code_eq_Ok: "attr_of_code c = Ok a \<longleftrightarrow> attr_code a = c"
  using attr_of_code_sound by auto

lemma ascii_lower_name [simp]: "to_ascii_lowercase (attr_as_str a) = attr_as_str a"
  by (cases a) (simp_all add: to_ascii_lowercase_def ascii_lower_def)

section \<open>The derived order\<close>

text \<open>\<^verbatim>\<open>derive(Ord)\<close>: the declaration order, which is the order of the codes.\<close>

instantiation attr_id :: linorder
begin

definition less_eq_attr_id :: "attr_id \<Rightarrow> attr_id \<Rightarrow> bool" where
  "less_eq_attr_id a b \<longleftrightarrow> attr_code a \<le> attr_code b"

definition less_attr_id :: "attr_id \<Rightarrow> attr_id \<Rightarrow> bool" where
  "less_attr_id a b \<longleftrightarrow> attr_code a < attr_code b"

instance
proof
  fix a b c :: attr_id
  show "a < b \<longleftrightarrow> a \<le> b \<and> \<not> b \<le> a"
    unfolding less_eq_attr_id_def less_attr_id_def by (rule less_le_not_le)
  show "a \<le> a"
    by (simp add: less_eq_attr_id_def)
  show "a \<le> b \<Longrightarrow> b \<le> c \<Longrightarrow> a \<le> c"
    by (auto simp: less_eq_attr_id_def)
  show "a \<le> b \<Longrightarrow> b \<le> a \<Longrightarrow> a = b"
    by (simp add: less_eq_attr_id_def attr_code_inject)
  show "a \<le> b \<or> b \<le> a"
    by (auto simp: less_eq_attr_id_def)
qed

end

definition attr_ids :: "attr_id list" where
  "attr_ids = [KeyIsEncrypted, KeyData, CipherCodec, CipherKeyLen, CipherNonce,
     KdfCodec, KdfSalt, KdfRounds, Threshold, Limit,
     ShareIdentifier, ThresholdData, DkgOwnerId, DkgParticipants, DkgThreshold,
     DkgLimit, DkgGroupPublicKey, DkgIdentifier, DkgSessionId, ShareVerifiers,
     ShareDual, ThresholdGroupPublicKey, ThresholdParticipants, ThresholdMarkerSig, ThresholdDisclosure,
     EncryptedThresholdMeta, ThresholdMetaCipher, AlgorithmName, KeyType, Depth]"

lemma in_attr_ids [simp]: "a \<in> set attr_ids"
  by (cases a) (simp_all add: attr_ids_def)

lemma length_attr_ids [simp]: "length attr_ids = 30"
  by (simp add: attr_ids_def)

lemma attr_ids_sorted: "map attr_code attr_ids = map of_nat [0..<30]"
  by (simp add: attr_ids_def upt_rec)

lemma distinct_attr_ids [simp]: "distinct attr_ids"
  by (simp add: attr_ids_def)

section \<open>The attribute map\<close>

type_synonym attributes = "attr_id \<rightharpoonup> bytes"

text \<open>Iteration over the \<^verbatim>\<open>BTreeMap\<close>, in key order, and its \<^verbatim>\<open>len()\<close>.\<close>

definition attr_entries :: "attributes \<Rightarrow> (attr_id \<times> bytes) list" where
  "attr_entries m = concat (map (\<lambda>a. case m a of None \<Rightarrow> [] | Some v \<Rightarrow> [(a, v)]) attr_ids)"

definition attr_len :: "attributes \<Rightarrow> nat" where
  "attr_len m = length (attr_entries m)"

definition attr_insert :: "attr_id \<Rightarrow> bytes \<Rightarrow> attributes \<Rightarrow> attributes" where
  "attr_insert a v m = m(a \<mapsto> v)"

definition attr_remove :: "attr_id \<Rightarrow> attributes \<Rightarrow> attributes" where
  "attr_remove a m = m(a := None)"

lemma attr_insert_apply [simp]: "attr_insert a v m b = (if b = a then Some v else m b)"
  by (simp add: attr_insert_def)

lemma attr_remove_apply [simp]: "attr_remove a m b = (if b = a then None else m b)"
  by (simp add: attr_remove_def)

lemma set_attr_entries: "(a, v) \<in> set (attr_entries m) \<longleftrightarrow> m a = Some v"
  by (auto simp: attr_entries_def split: option.splits intro: bexI [of _ a])

lemma map_fst_entries_on:
  "map fst (concat (map (\<lambda>a. case m a of None \<Rightarrow> [] | Some v \<Rightarrow> [(a, v)]) xs)) =
   filter (\<lambda>a. m a \<noteq> None) xs"
  by (induction xs) (auto split: option.splits)

lemma map_fst_attr_entries: "map fst (attr_entries m) = filter (\<lambda>a. m a \<noteq> None) attr_ids"
  unfolding attr_entries_def by (rule map_fst_entries_on)

lemma distinct_attr_entries: "distinct (map fst (attr_entries m))"
  by (simp add: map_fst_attr_entries)

lemma map_of_attr_entries [simp]: "map_of (attr_entries m) = m"
proof (rule ext)
  fix a
  show "map_of (attr_entries m) a = m a"
  proof (cases "m a")
    case None
    then have "a \<notin> fst ` set (attr_entries m)"
      by (force simp: set_attr_entries)
    then show ?thesis
      using None by (simp add: map_of_eq_None_iff)
  next
    case (Some v)
    then show ?thesis
      by (simp add: map_of_eq_Some_iff distinct_attr_entries set_attr_entries)
  qed
qed

lemma attr_len_le: "attr_len m \<le> 30"
proof -
  have "length (map fst (attr_entries m)) \<le> length attr_ids"
    unfolding map_fst_attr_entries by (rule length_filter_le)
  then show ?thesis
    by (simp add: attr_len_def)
qed

lemma attr_entries_empty [simp]: "attr_entries Map.empty = []"
  by (simp add: attr_entries_def attr_ids_def)

lemma attr_len_empty_iff: "attr_len m = 0 \<longleftrightarrow> m = Map.empty"
proof
  assume "attr_len m = 0"
  then have "map_of (attr_entries m) = map_of []"
    by (simp add: attr_len_def)
  then show "m = Map.empty"
    by simp
qed (simp add: attr_len_def)

text \<open>A list of entries without duplicate keys never holds more than thirty of them.\<close>

lemma distinct_attr_keys_le: "distinct (as :: attr_id list) \<Longrightarrow> length as \<le> 30"
proof -
  assume "distinct as"
  then have "length as = card (set as)"
    by (simp add: distinct_card)
  also have "\<dots> \<le> card (set attr_ids)"
    by (rule card_mono) auto
  also have "\<dots> = 30"
    by (simp add: distinct_card)
  finally show ?thesis .
qed


section \<open>Properties\<close>

lemma attr_ids_nth: "attr_ids ! unat (attr_code a) = a"
  by (cases a) (simp_all add: attr_ids_def)

lemma attr_of_code_high: "30 \<le> unat c \<Longrightarrow> attr_of_code c = Err (Attributes (AInvalidAttributeValue c))"
  by (auto simp: attr_of_code_def)

lemma attr_of_code_low:
  assumes "unat c < 30"
  shows "attr_of_code c = Ok (attr_ids ! unat c)"
proof -
  have "\<exists>a. attr_code a = c"
  proof -
    have "attr_code (attr_ids ! unat c) = map attr_code attr_ids ! unat c"
      using assms by simp
    also have "\<dots> = of_nat (unat c)"
      unfolding attr_ids_sorted using assms by simp
    finally show ?thesis by auto
  qed
  then show ?thesis
    using attr_ids_nth attr_of_code_eq_Ok by auto
qed

text \<open>
  The code of an attribute is read back to that attribute: the thirty codes below 30 are the
  attributes in their declaration order, and every other byte is rejected with that byte in the error.
\<close>

theorem attr_of_code_characterisation:
  "attr_of_code c =
     (if unat c < 30 then Ok (attr_ids ! unat c) else Err (Attributes (AInvalidAttributeValue c)))
   \<and> (attr_of_code c = Ok a \<longleftrightarrow> attr_code a = c)"
  by (simp add: attr_of_code_low attr_of_code_high attr_of_code_eq_Ok)

text \<open>
  Parsing an attribute name ignores ASCII case and nothing else: a string parses to an
  attribute exactly when its lower-case form is the printed name of that attribute.
\<close>

theorem attr_from_str_iff:
  "attr_from_str s = Ok a \<longleftrightarrow> to_ascii_lowercase s = attr_as_str a"
proof
  assume "attr_from_str s = Ok a"
  then show "to_ascii_lowercase s = attr_as_str a"
    by (auto simp: attr_from_str_def Let_def split: if_splits)
next
  assume "to_ascii_lowercase s = attr_as_str a"
  then show "attr_from_str s = Ok a"
    by (cases a) (simp_all add: attr_from_str_def)
qed

end
