(* ===== verification/Mk_Wire.thy ===== *)
theory Mk_Wire
  imports Mk_Attr
begin

text \<open>
  The wire primitives. Variable-length integers, length-prefixed byte strings and codec codes are
  encoded by the external crates \<^verbatim>\<open>multi_trait\<close>, \<^verbatim>\<open>multi_util\<close> and \<^verbatim>\<open>multi_codec\<close>, so they are
  a parameter of the model: a record \<open>wire\<close> of their functions, with the documented behaviour the
  code relies on as the predicate \<open>wire_ok\<close>. The contract that every encoder and decoder of this
  repository meets on top of them is the locale \<open>prefix_codec\<close>. The theory ends with a
  concrete instance (\<open>leb_wire\<close>, the unsigned LEB128 integers of the multiformats family), used
  to show that the contract can be met and to evaluate examples.
\<close>

section \<open>The external functions\<close>

record wire =
  put_uint :: "nat \<Rightarrow> bytes"                         \<comment> \<open>encode a u8, u64 or usize\<close>
  get_u8 :: "bytes \<Rightarrow> (lib_error, byte \<times> bytes) outcome"
  get_usize :: "bytes \<Rightarrow> (lib_error, nat \<times> bytes) outcome"  \<comment> \<open>\<^verbatim>\<open>Varuint::<usize>::try_decode_from\<close>\<close>
  usize_of :: "bytes \<Rightarrow> (lib_error, nat) outcome"     \<comment> \<open>\<^verbatim>\<open>Varuint::<usize>::try_from\<close>\<close>
  put_bool :: "bool \<Rightarrow> bytes"                        \<comment> \<open>\<^verbatim>\<open>Varuint(b).into()\<close>\<close>
  get_bool :: "bytes \<Rightarrow> (lib_error, bool \<times> bytes) outcome" \<comment> \<open>\<^verbatim>\<open>Varuint::<bool>::try_decode_from\<close>\<close>
  bool_of :: "bytes \<Rightarrow> (lib_error, bool) outcome"     \<comment> \<open>\<^verbatim>\<open>Varuint::<bool>::try_from\<close>\<close>
  codec_code :: "codec \<Rightarrow> nat"                       \<comment> \<open>\<^verbatim>\<open>u64::from(codec)\<close>\<close>
  codec_of_code :: "nat \<Rightarrow> (lib_error, codec) outcome" \<comment> \<open>\<^verbatim>\<open>Codec::try_from(u64)\<close>\<close>
  get_codec :: "bytes \<Rightarrow> (lib_error, codec \<times> bytes) outcome"
  codec_of :: "bytes \<Rightarrow> (lib_error, codec) outcome"   \<comment> \<open>\<^verbatim>\<open>Codec::try_from(&[u8])\<close>\<close>
  get_varbytes :: "bytes \<Rightarrow> (lib_error, bytes \<times> bytes) outcome"
  default_codec :: codec                             \<comment> \<open>\<^verbatim>\<open>Codec::default()\<close>\<close>

text \<open>\<^verbatim>\<open>Codec\<close> into bytes: the code of the codec as a variable-length integer.\<close>

definition put_codec :: "wire \<Rightarrow> codec \<Rightarrow> bytes" where
  "put_codec W c = put_uint W (codec_code W c)"

text \<open>
  \<^verbatim>\<open>mk::encode_varbytes_into\<close>: append a byte string in the \<^verbatim>\<open>Varbytes\<close> form, its length and then
  its bytes.
\<close>

definition encode_varbytes_into :: "wire \<Rightarrow> bytes \<Rightarrow> bytes \<Rightarrow> bytes" where
  "encode_varbytes_into W out data = out @ put_uint W (length data) @ data"

abbreviation varbytes :: "wire \<Rightarrow> bytes \<Rightarrow> bytes" where
  "varbytes W data \<equiv> encode_varbytes_into W [] data"

text \<open>\<^verbatim>\<open>mk::MAX_DECODED_SIZE\<close>, which is also the cap of a single \<^verbatim>\<open>Varbytes\<close>.\<close>

definition MAX_DECODED_SIZE :: nat where
  "MAX_DECODED_SIZE = 16 * 1024 * 1024"

definition suffix_decoder :: "(bytes \<Rightarrow> ('e, 'a \<times> bytes) outcome) \<Rightarrow> bool" where
  "suffix_decoder dec \<longleftrightarrow>
     (\<forall>bs. dec bs \<noteq> Panic) \<and> (\<forall>bs x r. dec bs = Ok (x, r) \<longrightarrow> (\<exists>p. bs = p @ r))"

text \<open>
  What the code relies on: every decoder reads back what the encoder wrote and leaves the rest of
  the input, and a decoder never panics and returns a suffix of its input.
\<close>

definition wire_ok :: "wire \<Rightarrow> bool" where
  "wire_ok W \<longleftrightarrow>
     (\<forall>b r. get_u8 W (put_uint W (unat b) @ r) = Ok (b, r))
   \<and> (\<forall>n r. n < 2 ^ 64 \<longrightarrow> get_usize W (put_uint W n @ r) = Ok (n, r))
   \<and> (\<forall>n. n < 2 ^ 64 \<longrightarrow> usize_of W (put_uint W n) = Ok n)
   \<and> (\<forall>b r. get_bool W (put_bool W b @ r) = Ok (b, r))
   \<and> (\<forall>b. bool_of W (put_bool W b) = Ok b)
   \<and> (\<forall>c. codec_code W c < 2 ^ 64 \<and> codec_of_code W (codec_code W c) = Ok c)
   \<and> (\<forall>c r. get_codec W (put_codec W c @ r) = Ok (c, r))
   \<and> (\<forall>c. codec_of W (put_codec W c) = Ok c)
   \<and> (\<forall>d r. length d \<le> MAX_DECODED_SIZE \<longrightarrow> get_varbytes W (varbytes W d @ r) = Ok (d, r))
   \<and> suffix_decoder (get_u8 W) \<and> suffix_decoder (get_usize W) \<and> suffix_decoder (get_codec W)
   \<and> suffix_decoder (get_varbytes W)"

section \<open>The contract of an encoder and its decoder\<close>

text \<open>
  A decoder reads back an encoded value and returns the rest of the input. The values it is
  promised for are those in \<open>valid\<close>, so that a promise may depend on the external functions.
\<close>

locale prefix_codec =
  fixes enc :: "'a \<Rightarrow> bytes"
    and dec :: "bytes \<Rightarrow> ('e, 'a \<times> bytes) outcome"
    and valid :: "'a \<Rightarrow> bool"
  assumes dec_enc: "valid x \<Longrightarrow> dec (enc x @ r) = Ok (x, r)"
begin

lemma dec_enc_nil: "valid x \<Longrightarrow> dec (enc x) = Ok (x, [])"
  using dec_enc [of x "[]"] by simp

lemma prefix_free:
  assumes "valid x" and "valid y" and "enc x @ r = enc y @ s"
  shows "x = y \<and> r = s"
proof -
  have "Ok (x, r) = dec (enc x @ r)"
    using assms(1) by (simp add: dec_enc)
  also have "\<dots> = Ok (y, s)"
    using assms(2,3) by (simp add: dec_enc)
  finally show ?thesis by simp
qed

lemma enc_inject: "valid x \<Longrightarrow> valid y \<Longrightarrow> enc x = enc y \<longleftrightarrow> x = y"
  using prefix_free [of x y "[]" "[]"] by auto

lemma no_strict_prefix: "valid x \<Longrightarrow> valid y \<Longrightarrow> enc y = enc x @ s \<Longrightarrow> s = []"
  using prefix_free [of x y s "[]"] by auto

end

text \<open>The codec of pairs: one value after the other, each with its own contract.\<close>

locale prefix_codec_pair =
  fst: prefix_codec enc1 dec1 valid1 + snd: prefix_codec enc2 dec2 valid2
  for enc1 :: "'a \<Rightarrow> bytes" and dec1 :: "bytes \<Rightarrow> ('e, 'a \<times> bytes) outcome" and valid1
    and enc2 :: "'b \<Rightarrow> bytes" and dec2 :: "bytes \<Rightarrow> ('e, 'b \<times> bytes) outcome" and valid2
begin

sublocale pair: prefix_codec "\<lambda>(x, y). enc1 x @ enc2 y"
  "\<lambda>bs. and_then (dec1 bs) (\<lambda>(x, p). and_then (dec2 p) (\<lambda>(y, q). Ok ((x, y), q)))"
  "\<lambda>(x, y). valid1 x \<and> valid2 y"
  by unfold_locales (auto simp: fst.dec_enc snd.dec_enc)

end

section \<open>Facts about the primitives\<close>

lemma wire_ok_bool: "wire_ok W \<Longrightarrow> get_bool W (put_bool W b @ r) = Ok (b, r)"
  by (simp add: wire_ok_def)

lemma wire_ok_bool_nil: "wire_ok W \<Longrightarrow> get_bool W (put_bool W b) = Ok (b, [])"
  using wire_ok_bool [of W b "[]"] by simp

lemma wire_ok_bool_of: "wire_ok W \<Longrightarrow> bool_of W (put_bool W b) = Ok b"
  by (simp add: wire_ok_def)

lemma wire_ok_usize_of: "wire_ok W \<Longrightarrow> n < 2 ^ 64 \<Longrightarrow> usize_of W (put_uint W n) = Ok n"
  by (simp add: wire_ok_def)

lemma wire_ok_codec_of: "wire_ok W \<Longrightarrow> codec_of W (put_codec W c) = Ok c"
  by (simp add: wire_ok_def)

lemma wire_ok_codec_of_code: "wire_ok W \<Longrightarrow> codec_of_code W (codec_code W c) = Ok c"
  by (simp add: wire_ok_def)

lemma codec_code_inject: "wire_ok W \<Longrightarrow> codec_code W c = codec_code W d \<longleftrightarrow> c = d"
  by (metis wire_ok_codec_of_code outcome.inject(1))

lemma wire_ok_suffix:
  "wire_ok W \<Longrightarrow> get_u8 W bs = Ok (b, r) \<Longrightarrow> \<exists>p. bs = p @ r"
  "wire_ok W \<Longrightarrow> get_usize W bs = Ok (n, r) \<Longrightarrow> \<exists>p. bs = p @ r"
  "wire_ok W \<Longrightarrow> get_codec W bs = Ok (c, r) \<Longrightarrow> \<exists>p. bs = p @ r"
  "wire_ok W \<Longrightarrow> get_varbytes W bs = Ok (d, r) \<Longrightarrow> \<exists>p. bs = p @ r"
  unfolding wire_ok_def suffix_decoder_def by blast+

lemma wire_ok_no_panic:
  "wire_ok W \<Longrightarrow> get_u8 W bs \<noteq> Panic" "wire_ok W \<Longrightarrow> get_usize W bs \<noteq> Panic"
  "wire_ok W \<Longrightarrow> get_codec W bs \<noteq> Panic" "wire_ok W \<Longrightarrow> get_varbytes W bs \<noteq> Panic"
  unfolding wire_ok_def suffix_decoder_def by blast+

interpretation u8_wire: prefix_codec "\<lambda>b. put_uint W (unat b)" "get_u8 W" "\<lambda>_. wire_ok W" for W
  by unfold_locales (simp add: wire_ok_def)

interpretation usize_wire: prefix_codec "put_uint W" "get_usize W" "\<lambda>n. wire_ok W \<and> n < 2 ^ 64" for W
  by unfold_locales (simp add: wire_ok_def)

interpretation codec_wire: prefix_codec "put_codec W" "get_codec W" "\<lambda>_. wire_ok W" for W
  by unfold_locales (simp add: wire_ok_def)

interpretation varbytes_wire: prefix_codec "varbytes W" "get_varbytes W"
  "\<lambda>d. wire_ok W \<and> length d \<le> MAX_DECODED_SIZE" for W
  by unfold_locales (simp add: wire_ok_def)

lemma encode_varbytes_into_eq: "encode_varbytes_into W out d = out @ varbytes W d"
  by (simp add: encode_varbytes_into_def)

section \<open>Attribute identifiers on the wire\<close>

text \<open>\<^verbatim>\<open>From<AttrId> for Vec<u8>\<close> and \<^verbatim>\<open>TryDecodeFrom\<close>, \<^verbatim>\<open>TryFrom<&[u8]>\<close> for \<^verbatim>\<open>AttrId\<close>.\<close>

definition attr_encode :: "wire \<Rightarrow> attr_id \<Rightarrow> bytes" where
  "attr_encode W a = put_uint W (unat (attr_code a))"

definition attr_try_decode_from :: "wire \<Rightarrow> bytes \<Rightarrow> (attr_id \<times> bytes) res" where
  "attr_try_decode_from W bs =
     and_then (map_err Multitrait (get_u8 W bs)) (\<lambda>(code, p).
     and_then (attr_of_code code) (\<lambda>a. Ok (a, p)))"

definition attr_try_from :: "wire \<Rightarrow> bytes \<Rightarrow> attr_id res" where
  "attr_try_from W bs = and_then (attr_try_decode_from W bs) (\<lambda>(a, _). Ok a)"

interpretation attr_wire: prefix_codec "attr_encode W" "attr_try_decode_from W" "\<lambda>_. wire_ok W" for W
  by unfold_locales (simp add: attr_encode_def attr_try_decode_from_def u8_wire.dec_enc)

text \<open>An attribute entry on the wire is the pair of an identifier and a \<^verbatim>\<open>Varbytes\<close> value.\<close>

interpretation entry_wire: prefix_codec_pair "attr_encode W" "attr_try_decode_from W" "\<lambda>_. wire_ok W"
  "varbytes W" "\<lambda>bs. map_err Multiutil (get_varbytes W bs)" "\<lambda>d. wire_ok W \<and> length d \<le> MAX_DECODED_SIZE" for W
  by unfold_locales (simp add: varbytes_wire.dec_enc)

lemma attr_of_code_no_panic [simp]: "attr_of_code c \<noteq> Panic"
  by (simp add: attr_of_code_def)

lemma attr_decode_suffix:
  "wire_ok W \<Longrightarrow> attr_try_decode_from W bs = Ok (a, r) \<Longrightarrow> \<exists>p. bs = p @ r"
  by (auto simp: attr_try_decode_from_def outcome_simps dest: wire_ok_suffix(1))

lemma attr_decode_no_panic: "wire_ok W \<Longrightarrow> attr_try_decode_from W bs \<noteq> Panic"
  unfolding attr_try_decode_from_def
  using wire_ok_no_panic(1) [of W bs] by (cases "get_u8 W bs") (auto simp: and_then_eq_Panic)

section \<open>UTF-8\<close>

text \<open>
  \<^verbatim>\<open>String::from_utf8\<close> accepts exactly the well-formed byte sequences of the Unicode standard: no
  overlong forms, no surrogates, nothing above U+10FFFF. A \<^verbatim>\<open>String\<close> is modelled by its bytes.
\<close>

definition utf8_cont :: "byte \<Rightarrow> bool" where
  "utf8_cont b \<longleftrightarrow> 0x80 \<le> b \<and> b \<le> 0xBF"

definition utf8_second3 :: "byte \<Rightarrow> byte \<Rightarrow> bool" where
  "utf8_second3 a b \<longleftrightarrow>
     (if a = 0xE0 then 0xA0 \<le> b \<and> b \<le> 0xBF
      else if a = 0xED then 0x80 \<le> b \<and> b \<le> 0x9F else utf8_cont b)"

definition utf8_second4 :: "byte \<Rightarrow> byte \<Rightarrow> bool" where
  "utf8_second4 a b \<longleftrightarrow>
     (if a = 0xF0 then 0x90 \<le> b \<and> b \<le> 0xBF
      else if a = 0xF4 then 0x80 \<le> b \<and> b \<le> 0x8F else utf8_cont b)"

fun utf8_valid :: "bytes \<Rightarrow> bool" where
  "utf8_valid [] = True"
| "utf8_valid (a # bs) =
    (if a < 0x80 then utf8_valid bs
     else if 0xC2 \<le> a \<and> a \<le> 0xDF then
       (case bs of b # r \<Rightarrow> utf8_cont b \<and> utf8_valid r | _ \<Rightarrow> False)
     else if 0xE0 \<le> a \<and> a \<le> 0xEF then
       (case bs of b # c # r \<Rightarrow> utf8_second3 a b \<and> utf8_cont c \<and> utf8_valid r | _ \<Rightarrow> False)
     else if 0xF0 \<le> a \<and> a \<le> 0xF4 then
       (case bs of b # c # d # r \<Rightarrow>
          utf8_second4 a b \<and> utf8_cont c \<and> utf8_cont d \<and> utf8_valid r | _ \<Rightarrow> False)
     else False)"

definition from_utf8 :: "bytes \<Rightarrow> bytes res" where
  "from_utf8 bs = (if utf8_valid bs then Ok bs else Err Utf8)"

lemma from_utf8_eq_Ok [outcome_simps]: "from_utf8 bs = Ok s \<longleftrightarrow> utf8_valid bs \<and> s = bs"
  by (auto simp: from_utf8_def)

lemma utf8_valid_ascii: "(\<forall>b \<in> set bs. b < 0x80) \<Longrightarrow> utf8_valid bs"
  by (induction bs) auto

section \<open>A concrete instance\<close>

fun leb_put :: "nat \<Rightarrow> bytes" where
  "leb_put n = (if n < 128 then [of_nat n] else of_nat (128 + n mod 128) # leb_put (n div 128))"

declare leb_put.simps [simp del]

fun leb_get :: "bytes \<Rightarrow> (lib_error, nat \<times> bytes) outcome" where
  "leb_get [] = Err ''insufficient data''"
| "leb_get (b # bs) =
     (if unat b < 128 then Ok (unat b, bs)
      else and_then (leb_get bs) (\<lambda>(n, r). Ok (unat b - 128 + 128 * n, r)))"

lemma unat_of_nat_byte: "n < 256 \<Longrightarrow> unat (of_nat n :: byte) = n"
  by (simp add: unat_of_nat take_bit_nat_eq_self)

lemma leb_get_put [simp]: "leb_get (leb_put n @ r) = Ok (n, r)"
proof (induction n rule: leb_put.induct)
  case (1 n)
  show ?case
  proof (cases "n < 128")
    case True
    then show ?thesis
      by (simp add: leb_put.simps [of n] unat_of_nat_byte)
  next
    case False
    have "unat (of_nat (128 + n mod 128) :: byte) = 128 + n mod 128"
      by (rule unat_of_nat_byte) simp
    then show ?thesis
      using 1 False by (simp add: leb_put.simps [of n] del: of_nat_add)
  qed
qed

lemma leb_get_put_nil [simp]: "leb_get (leb_put n) = Ok (n, [])"
  using leb_get_put [of n "[]"] by simp

lemma leb_get_suffix: "leb_get bs = Ok (n, r) \<Longrightarrow> \<exists>p. bs = p @ r"
proof (induction bs arbitrary: n)
  case (Cons b bs)
  then show ?case
    by (fastforce simp: and_then_eq_Ok intro: exI [of _ "[b]"] split: if_splits)
qed simp

lemma leb_get_no_panic [simp]: "leb_get bs \<noteq> Panic"
  by (induction bs) (auto simp: and_then_eq_Panic)

definition leb_get_codec :: "bytes \<Rightarrow> (lib_error, codec \<times> bytes) outcome" where
  "leb_get_codec bs = and_then (leb_get bs) (\<lambda>(n, r).
     and_then (ok_or ''unknown codec'' (codec_numbered n)) (\<lambda>c. Ok (c, r)))"

definition leb_get_varbytes :: "bytes \<Rightarrow> (lib_error, bytes \<times> bytes) outcome" where
  "leb_get_varbytes bs = and_then (leb_get bs) (\<lambda>(n, r).
     if MAX_DECODED_SIZE < n then Err ''too large''
     else if length r < n then Err ''insufficient data'' else Ok (take n r, drop n r))"

definition leb_wire :: wire where
  "leb_wire = \<lparr>
     put_uint = leb_put,
     get_u8 = (\<lambda>bs. and_then (leb_get bs) (\<lambda>(n, r).
        if n < 256 then Ok (of_nat n, r) else Err ''overflow'')),
     get_usize = leb_get,
     usize_of = (\<lambda>bs. and_then (leb_get bs) (\<lambda>(n, r). Ok n)),
     put_bool = (\<lambda>b. [if b then 1 else 0]),
     get_bool = (\<lambda>bs. and_then (leb_get bs) (\<lambda>(n, r). Ok (n \<noteq> 0, r))),
     bool_of = (\<lambda>bs. and_then (leb_get bs) (\<lambda>(n, r). Ok (n \<noteq> 0))),
     codec_code = codec_number,
     codec_of_code = (\<lambda>n. ok_or ''unknown codec'' (codec_numbered n)),
     get_codec = leb_get_codec,
     codec_of = (\<lambda>bs. and_then (leb_get_codec bs) (\<lambda>(c, r). Ok c)),
     get_varbytes = leb_get_varbytes,
     default_codec = Identity \<rparr>"

lemma leb_wire_ok: "wire_ok leb_wire"
proof -
  have n: "codec_number c < 2 ^ 64" for c
    using codec_number_less [of c] by simp
  have b: "unat (b :: byte) < 256" for b
    using unsigned_less [of b, where 'a = nat] by simp
  have sd1: "suffix_decoder (get_u8 leb_wire)"
    by (auto simp: suffix_decoder_def leb_wire_def outcome_simps and_then_eq_Panic split: if_splits
        dest: leb_get_suffix)
  have sd2: "suffix_decoder (get_usize leb_wire)"
    by (auto simp: suffix_decoder_def leb_wire_def dest: leb_get_suffix)
  have sd3: "suffix_decoder (get_codec leb_wire)"
    by (auto simp: suffix_decoder_def leb_wire_def leb_get_codec_def outcome_simps
        and_then_eq_Panic dest: leb_get_suffix)
  have "\<exists>p. bs = p @ drop k r" if "leb_get bs = Ok (n, r)" for bs n r k
    using leb_get_suffix [OF that] by (metis append_assoc append_take_drop_id)
  then have sd4: "suffix_decoder (get_varbytes leb_wire)"
    by (auto simp: suffix_decoder_def leb_wire_def leb_get_varbytes_def outcome_simps
        and_then_eq_Panic split: if_splits)
  show ?thesis
    unfolding wire_ok_def
    using sd1 sd2 sd3 sd4 n b
    by (simp add: leb_wire_def put_codec_def leb_get_codec_def leb_get_varbytes_def
        encode_varbytes_into_def)
qed

end
