(* ===== verification/Mk_Multikey.thy ===== *)
theory Mk_Multikey
  imports Mk_Wire "HOL-Library.Multiset"
begin

text \<open>
  The \<^verbatim>\<open>Multikey\<close> of \<^verbatim>\<open>src/mk.rs\<close>: the record, its binary encoder and decoder with the three limits
  on untrusted input (attribute count, duplicate attributes, decoded size), the null key and the
  constant-time comparison. The lemmas show the round trip, that the encoder is the field by field
  reference layout, that the decoder does not depend on the order of the attributes on the wire,
  and what every accepted input satisfies.
\<close>

section \<open>The record\<close>

record multikey =
  mk_codec :: codec
  mk_comment :: bytes
  mk_attributes :: attributes

abbreviation SIGIL :: codec where "SIGIL \<equiv> CMultikey"

definition MAX_ATTRIBUTES :: nat where
  "MAX_ATTRIBUTES = 256"

text \<open>\<^verbatim>\<open>mk.attributes.get(&id)\<close>.\<close>

definition get_attr :: "multikey \<Rightarrow> attr_id \<Rightarrow> bytes option" where
  "get_attr k a = mk_attributes k a"

section \<open>Encoding\<close>

text \<open>One attribute is appended as its identifier and its bytes.\<close>

definition encode_attr_into :: "wire \<Rightarrow> bytes \<Rightarrow> attr_id \<times> bytes \<Rightarrow> bytes" where
  "encode_attr_into W v = (\<lambda>(id, attr). encode_varbytes_into W (v @ put_uint W (unat (attr_code id))) attr)"

text \<open>\<^verbatim>\<open>From<&Multikey> for Vec<u8>\<close>: everything is appended to one buffer.\<close>

definition multikey_encode :: "wire \<Rightarrow> multikey \<Rightarrow> bytes" where
  "multikey_encode W k =
     (let v = put_codec W SIGIL;
          v = v @ put_codec W (mk_codec k);
          v = encode_varbytes_into W v (mk_comment k);
          v = v @ put_uint W (attr_len (mk_attributes k))
      in foldl (encode_attr_into W) v (attr_entries (mk_attributes k)))"

section \<open>Decoding\<close>

text \<open>The loop \<^verbatim>\<open>for _ in 0..*num_attr\<close>; \<open>start_len\<close> is the length of the whole input.\<close>

fun decode_attrs :: "wire \<Rightarrow> nat \<Rightarrow> nat \<Rightarrow> attributes \<Rightarrow> bytes \<Rightarrow> (attributes \<times> bytes) res" where
  "decode_attrs W start_len 0 attrs p = Ok (attrs, p)"
| "decode_attrs W start_len (Suc n) attrs p =
     and_then (attr_try_decode_from W p) (\<lambda>(id, q).
     and_then (map_err Multiutil (get_varbytes W q)) (\<lambda>(attr, r).
     if attrs id \<noteq> None then Err (DuplicateAttribute (attr_code id))
     else and_then (usize_sub start_len (length r)) (\<lambda>consumed.
     if MAX_DECODED_SIZE < consumed then Err (InputTooLarge consumed MAX_DECODED_SIZE)
     else decode_attrs W start_len n (attr_insert id attr attrs) r)))"

text \<open>\<^verbatim>\<open>TryDecodeFrom for Multikey\<close>.\<close>

definition multikey_try_decode_from :: "wire \<Rightarrow> bytes \<Rightarrow> (multikey \<times> bytes) res" where
  "multikey_try_decode_from W bs =
     and_then (map_err Multicodec (get_codec W bs)) (\<lambda>(sigil, p1).
     if sigil \<noteq> SIGIL then Err MissingSigil
     else
     and_then (map_err Multicodec (get_codec W p1)) (\<lambda>(c, p2).
     and_then (map_err Multiutil (get_varbytes W p2)) (\<lambda>(comment_bytes, p3).
     and_then (from_utf8 comment_bytes) (\<lambda>comment.
     and_then (map_err Multiutil (get_usize W p3)) (\<lambda>(num_attr, p4).
     if MAX_ATTRIBUTES < num_attr then Err (TooManyAttributes num_attr MAX_ATTRIBUTES)
     else
     and_then (if num_attr = 0 then Ok (Map.empty, p4)
               else decode_attrs W (length bs) num_attr Map.empty p4) (\<lambda>(attrs, p5).
     Ok (\<lparr>mk_codec = c, mk_comment = comment, mk_attributes = attrs\<rparr>, p5)))))))"

text \<open>\<^verbatim>\<open>TryFrom<&[u8]> for Multikey\<close>: the rest of the input is dropped.\<close>

definition multikey_try_from :: "wire \<Rightarrow> bytes \<Rightarrow> multikey res" where
  "multikey_try_from W bs = and_then (multikey_try_decode_from W bs) (\<lambda>(k, _). Ok k)"

section \<open>The null key and the constant-time comparison\<close>

definition multikey_null :: "wire \<Rightarrow> multikey" where
  "multikey_null W = \<lparr>mk_codec = default_codec W, mk_comment = [], mk_attributes = Map.empty\<rparr>"

definition multikey_is_null :: "wire \<Rightarrow> multikey \<Rightarrow> bool" where
  "multikey_is_null W k \<longleftrightarrow>
     mk_codec k = default_codec W \<and> mk_comment k = [] \<and> attr_len (mk_attributes k) = 0"

text \<open>
  \<^verbatim>\<open>ConstantTimeEq for Multikey\<close>: the slice comparison of the \<^verbatim>\<open>subtle\<close> crate, a parameter, on the
  two wire encodings.
\<close>

definition multikey_ct_eq :: "(bytes \<Rightarrow> bytes \<Rightarrow> bool) \<Rightarrow> wire \<Rightarrow> multikey \<Rightarrow> multikey \<Rightarrow> bool" where
  "multikey_ct_eq slice_ct_eq W k1 k2 = slice_ct_eq (multikey_encode W k1) (multikey_encode W k2)"

section \<open>The reference layout\<close>

text \<open>
  The layout that the encoder produces, field by field: sigil, codec, comment, number of attributes,
  attributes. It takes the entries in any order, because the decoder accepts them in any order.
\<close>

definition encode_entry :: "wire \<Rightarrow> attr_id \<times> bytes \<Rightarrow> bytes" where
  "encode_entry W = (\<lambda>(id, attr). attr_encode W id @ varbytes W attr)"

definition layout :: "wire \<Rightarrow> codec \<Rightarrow> bytes \<Rightarrow> (attr_id \<times> bytes) list \<Rightarrow> bytes" where
  "layout W c comment entries =
     put_codec W SIGIL @ put_codec W c @ varbytes W comment @ put_uint W (length entries) @
     concat (map (encode_entry W) entries)"

lemma foldl_encode_attr_into:
  "foldl (encode_attr_into W) v es = v @ concat (map (encode_entry W) es)"
  by (induction es arbitrary: v)
     (auto simp: encode_attr_into_def encode_entry_def attr_encode_def encode_varbytes_into_def)

lemma multikey_encode_layout:
  "multikey_encode W k = layout W (mk_codec k) (mk_comment k) (attr_entries (mk_attributes k))"
  by (simp add: multikey_encode_def layout_def foldl_encode_attr_into attr_len_def
      encode_varbytes_into_def)

section \<open>Decoding a layout\<close>

text \<open>The entries of a layout that the decoder accepts.\<close>

definition entries_ok :: "(attr_id \<times> bytes) list \<Rightarrow> bool" where
  "entries_ok es \<longleftrightarrow> distinct (map fst es) \<and> (\<forall>(a, v) \<in> set es. length v \<le> MAX_DECODED_SIZE)"

lemma length_attr_encode_le: "length (concat (map (encode_entry W) es) @ r) \<ge> length r"
  by simp

lemma decode_attrs_append:
  assumes W: "wire_ok W"
  shows "entries_ok es \<Longrightarrow> fst ` set es \<inter> dom m = {} \<Longrightarrow>
    length (concat (map (encode_entry W) es) @ r) \<le> sl \<Longrightarrow> sl - length r \<le> MAX_DECODED_SIZE \<Longrightarrow>
    decode_attrs W sl (length es + n) m (concat (map (encode_entry W) es) @ r) =
    decode_attrs W sl n (m ++ map_of es) r"
proof (induction es arbitrary: m)
  case Nil
  then show ?case by simp
next
  case (Cons e es)
  obtain a v where e: "e = (a, v)" by (cases e)
  let ?rest = "concat (map (encode_entry W) es) @ r"
  have v: "length v \<le> MAX_DECODED_SIZE" and es: "entries_ok es" and a: "a \<notin> fst ` set es"
    using Cons.prems(1) e by (auto simp: entries_ok_def)
  have m: "m a = None"
    using Cons.prems(2) e by auto
  have dom: "fst ` set es \<inter> dom (attr_insert a v m) = {}"
    using Cons.prems(2) a e by (auto simp: attr_insert_def)
  have len: "length ?rest \<le> sl"
    using Cons.prems(3) by simp
  have size: "sl - length ?rest \<le> MAX_DECODED_SIZE"
    using Cons.prems(4) by simp
  have "decode_attrs W sl (length (e # es) + n) m (encode_entry W e @ ?rest) =
        decode_attrs W sl (length es + n) (attr_insert a v m) ?rest"
    using W v m len size e
    by (simp add: encode_entry_def attr_wire.dec_enc varbytes_wire.dec_enc usize_sub_def)
  also have "\<dots> = decode_attrs W sl n (attr_insert a v m ++ map_of es) r"
    by (rule Cons.IH [OF es dom len Cons.prems(4)])
  also have "attr_insert a v m ++ map_of es = m ++ map_of (e # es)"
    unfolding attr_insert_def e
    using map_add_upd_left [of a "map_of es" m v] a
    by (simp add: dom_map_of_conv_image_fst)
  finally show ?case
    by (simp only: list.map concat.simps append_assoc)
qed

lemma decode_attrs_entries:
  assumes "wire_ok W" and "entries_ok es" and "length (concat (map (encode_entry W) es) @ r) \<le> sl"
    and "sl - length r \<le> MAX_DECODED_SIZE"
  shows "decode_attrs W sl (length es) Map.empty (concat (map (encode_entry W) es) @ r) =
         Ok (map_of es, r)"
  using decode_attrs_append [OF assms(1,2), of Map.empty r sl 0] assms(3,4) by simp

lemma decode_attrs_duplicate:
  assumes "wire_ok W" and "entries_ok es" and "a \<in> fst ` set es" and "length v \<le> MAX_DECODED_SIZE"
    and "length (concat (map (encode_entry W) es) @ encode_entry W (a, v) @ r) \<le> sl"
    and "sl - length (encode_entry W (a, v) @ r) \<le> MAX_DECODED_SIZE"
  shows "decode_attrs W sl (length es + Suc n) Map.empty
      (concat (map (encode_entry W) es) @ encode_entry W (a, v) @ r) =
    Err (DuplicateAttribute (attr_code a))"
proof -
  have "map_of es a \<noteq> None"
    using assms(3) by (simp add: map_of_eq_None_iff)
  then show ?thesis
    using decode_attrs_append [OF assms(1,2), of Map.empty "encode_entry W (a, v) @ r" sl "Suc n"]
      assms
    by (simp add: encode_entry_def attr_wire.dec_enc varbytes_wire.dec_enc)
qed

lemma decode_layout:
  assumes W: "wire_ok W" and u: "utf8_valid comment" and c: "length comment \<le> MAX_DECODED_SIZE"
    and es: "entries_ok es" and size: "es \<noteq> [] \<Longrightarrow> length (layout W c comment es) \<le> MAX_DECODED_SIZE"
  shows "multikey_try_decode_from W (layout W c comment es @ r) =
         Ok (\<lparr>mk_codec = c, mk_comment = comment, mk_attributes = map_of es\<rparr>, r)"
proof -
  have n: "length es \<le> 30"
    using es distinct_attr_keys_le [of "map fst es"] by (simp add: entries_ok_def)
  have attrs: "decode_attrs W (length (layout W c comment es @ r)) (length es) Map.empty
      (concat (map (encode_entry W) es) @ r) = Ok (map_of es, r)" if "es \<noteq> []"
    using decode_attrs_entries [OF W es, of r "length (layout W c comment es @ r)"]
      size [OF that] by (simp add: layout_def)
  show ?thesis
  proof (cases "es = []")
    case True
    then show ?thesis
      using W u c unfolding layout_def multikey_try_decode_from_def
      by (simp add: codec_wire.dec_enc varbytes_wire.dec_enc usize_wire.dec_enc from_utf8_def
          MAX_ATTRIBUTES_def)
  next
    case False
    have "multikey_try_decode_from W (layout W c comment es @ r) =
      and_then (decode_attrs W (length (layout W c comment es @ r)) (length es) Map.empty
        (concat (map (encode_entry W) es) @ r))
       (\<lambda>(attrs, p5). Ok (\<lparr>mk_codec = c, mk_comment = comment, mk_attributes = attrs\<rparr>, p5))"
      using W u c n False unfolding multikey_try_decode_from_def
      by (simp add: layout_def codec_wire.dec_enc varbytes_wire.dec_enc usize_wire.dec_enc
          from_utf8_def MAX_ATTRIBUTES_def)
    then show ?thesis
      using attrs [OF False] by simp
  qed
qed

section \<open>Well-formed keys and the round trip\<close>

text \<open>
  A key the encoder and the decoder agree on: its comment is a Rust string, no field passes the cap
  of a single \<^verbatim>\<open>Varbytes\<close>, and a key with attributes encodes to at most \<open>MAX_DECODED_SIZE\<close> bytes.
\<close>

definition multikey_wf :: "wire \<Rightarrow> multikey \<Rightarrow> bool" where
  "multikey_wf W k \<longleftrightarrow>
     utf8_valid (mk_comment k) \<and> length (mk_comment k) \<le> MAX_DECODED_SIZE
   \<and> (mk_attributes k \<noteq> Map.empty \<longrightarrow> length (multikey_encode W k) \<le> MAX_DECODED_SIZE)"

lemma length_entry_le:
  "(a, v) \<in> set es \<Longrightarrow> length v \<le> length (concat (map (encode_entry W) es))"
proof (induction es)
  case (Cons e es)
  then show ?case
    by (cases "e = (a, v)") (auto simp: encode_entry_def encode_varbytes_into_def)
qed simp

lemma multikey_wf_entries_ok:
  assumes "multikey_wf W k"
  shows "entries_ok (attr_entries (mk_attributes k))"
proof -
  have "length v \<le> MAX_DECODED_SIZE" if v: "(a, v) \<in> set (attr_entries (mk_attributes k))" for a v
  proof -
    have "mk_attributes k \<noteq> Map.empty"
      using v by (auto simp: set_attr_entries)
    then have "length (multikey_encode W k) \<le> MAX_DECODED_SIZE"
      using assms by (simp add: multikey_wf_def)
    then show ?thesis
      using length_entry_le [OF v, of W] by (simp add: multikey_encode_layout layout_def)
  qed
  then show ?thesis
    by (auto simp: entries_ok_def distinct_attr_entries)
qed

lemma multikey_roundtrip_rest:
  assumes "wire_ok W" and "multikey_wf W k"
  shows "multikey_try_decode_from W (multikey_encode W k @ r) = Ok (k, r)"
proof -
  have "attr_entries (mk_attributes k) \<noteq> [] \<Longrightarrow> mk_attributes k \<noteq> Map.empty"
    by auto
  then have "multikey_try_decode_from W
      (layout W (mk_codec k) (mk_comment k) (attr_entries (mk_attributes k)) @ r) =
    Ok (\<lparr>mk_codec = mk_codec k, mk_comment = mk_comment k,
         mk_attributes = map_of (attr_entries (mk_attributes k))\<rparr>, r)"
    using assms multikey_wf_entries_ok [OF assms(2)]
    by (intro decode_layout) (auto simp: multikey_wf_def multikey_encode_layout)
  then show ?thesis
    by (simp add: multikey_encode_layout)
qed

text \<open>The multikey codec meets the contract, on well-formed keys.\<close>

interpretation mk_wire: prefix_codec "multikey_encode W" "multikey_try_decode_from W"
  "\<lambda>k. wire_ok W \<and> multikey_wf W k" for W
  by unfold_locales (simp add: multikey_roundtrip_rest)

section \<open>What the decoder accepts\<close>

lemma decode_attrs_invariant:
  assumes "wire_ok W" and "decode_attrs W sl n m p = Ok (m', r)"
  shows "(\<exists>q. p = q @ r) \<and> attr_len m \<le> attr_len m' \<and> card (dom m') = card (dom m) + n
       \<and> (0 < n \<longrightarrow> sl - length r \<le> MAX_DECODED_SIZE)"
  using assms(2)
proof (induction n arbitrary: m p)
  case 0
  then show ?case by simp
next
  case (Suc n)
  from Suc.prems obtain a q v s where a: "attr_try_decode_from W p = Ok (a, q)"
    and v: "get_varbytes W q = Ok (v, s)" and new: "m a = None"
    and size: "sl - length s \<le> MAX_DECODED_SIZE"
    and rec: "decode_attrs W sl n (attr_insert a v m) s = Ok (m', r)"
    by (auto simp: outcome_simps split: if_splits)
  obtain x y where "p = x @ q" "q = y @ s"
    using attr_decode_suffix [OF assms(1) a] wire_ok_suffix(4) [OF assms(1) v] by blast
  moreover obtain z where "s = z @ r"
    using Suc.IH [OF rec] by blast
  ultimately have suffix: "\<exists>q. p = q @ r"
    by (metis append_assoc)
  have fin: "finite (dom m)" for m :: attributes
    by (rule finite_subset [of _ "set attr_ids"]) auto
  have "card (dom (attr_insert a v m)) = Suc (card (dom m))"
    unfolding attr_insert_def using new fin by (simp add: domIff)
  moreover have "card (dom m') = card (dom (attr_insert a v m)) + n"
    using Suc.IH [OF rec] by blast
  ultimately have card: "card (dom m') = card (dom m) + Suc n"
    by linarith
  have len: "attr_len m = card (dom m)" for m
  proof -
    have "attr_len m = length (filter (\<lambda>a. m a \<noteq> None) attr_ids)"
      unfolding attr_len_def map_fst_attr_entries [symmetric] by simp
    also have "\<dots> = card (set (filter (\<lambda>a. m a \<noteq> None) attr_ids))"
      by (simp add: distinct_card del: set_filter)
    also have "set (filter (\<lambda>a. m a \<noteq> None) attr_ids) = dom m"
      by auto
    finally show ?thesis .
  qed
  moreover have "sl - length r \<le> MAX_DECODED_SIZE"
  proof (cases n)
    case 0
    then show ?thesis
      using rec size by simp
  next
    case (Suc n')
    then show ?thesis
      using Suc.IH [OF rec] by simp
  qed
  ultimately show ?case
    using suffix card len by simp
qed

lemma decode_attrs_no_panic:
  assumes "wire_ok W"
  shows "length p \<le> sl \<Longrightarrow> decode_attrs W sl n m p \<noteq> Panic"
proof (induction n arbitrary: m p)
  case 0
  then show ?case by simp
next
  case (Suc n)
  show ?case
  proof
    assume "decode_attrs W sl (Suc n) m p = Panic"
    then obtain a q v s where a: "attr_try_decode_from W p = Ok (a, q)"
      and v: "get_varbytes W q = Ok (v, s)"
      and rest: "usize_sub sl (length s) = (Panic :: nat res) \<or>
        decode_attrs W sl n (attr_insert a v m) s = Panic"
      using attr_decode_no_panic [OF assms] wire_ok_no_panic(4) [OF assms]
      by (auto simp: and_then_eq_Panic outcome_simps split: if_splits)
         (metis map_err.simps(1) map_err.simps(2) outcome.exhaust outcome.distinct(3,5))
    have "length s \<le> sl"
      using attr_decode_suffix [OF assms a] wire_ok_suffix(4) [OF assms v] Suc.prems by auto
    then show False
      using rest Suc.IH by (auto simp: usize_sub_def)
  qed
qed

lemma multikey_decode_cases:
  assumes "multikey_try_decode_from W bs = Ok (k, rest)"
  obtains p1 p2 p3 p4 n where
    "get_codec W bs = Ok (SIGIL, p1)" "get_codec W p1 = Ok (mk_codec k, p2)"
    "get_varbytes W p2 = Ok (mk_comment k, p3)" "utf8_valid (mk_comment k)"
    "get_usize W p3 = Ok (n, p4)" "n \<le> MAX_ATTRIBUTES"
    "decode_attrs W (length bs) n Map.empty p4 = Ok (mk_attributes k, rest)"
  using assms unfolding multikey_try_decode_from_def
  by (auto simp: outcome_simps split: if_splits)

lemma multikey_decode_no_panic:
  assumes W: "wire_ok W"
  shows "multikey_try_decode_from W bs \<noteq> Panic"
proof
  assume "multikey_try_decode_from W bs = Panic"
  then obtain s p1 c p2 d p3 n p4 where
    steps: "get_codec W bs = Ok (s, p1)" "get_codec W p1 = Ok (c, p2)"
      "get_varbytes W p2 = Ok (d, p3)" "get_usize W p3 = Ok (n, p4)"
    and last: "decode_attrs W (length bs) n Map.empty p4 = Panic"
    unfolding multikey_try_decode_from_def
    using wire_ok_no_panic [OF W]
    by (auto simp: and_then_eq_Panic outcome_simps from_utf8_def split: if_splits)
       (metis map_err.simps(1) map_err.simps(2) outcome.exhaust outcome.distinct(3,5))+
  have "length p4 \<le> length bs"
    using wire_ok_suffix(3) [OF W steps(1)] wire_ok_suffix(3) [OF W steps(2)]
      wire_ok_suffix(4) [OF W steps(3)] wire_ok_suffix(2) [OF W steps(4)] by auto
  then show False
    using decode_attrs_no_panic [OF W] last by blast
qed

lemma put_codec_nonempty: "wire_ok W \<Longrightarrow> put_codec W c \<noteq> []"
proof
  assume W: "wire_ok W" and "put_codec W c = []"
  obtain d where d: "d \<noteq> c"
    by (metis codec.distinct(1))
  have "get_codec W (put_codec W c @ put_codec W d) = Ok (c, put_codec W d)"
    using W by (simp add: codec_wire.dec_enc)
  moreover have "get_codec W (put_codec W d) = Ok (d, [])"
    using W by (simp add: codec_wire.dec_enc_nil)
  ultimately show False
    using \<open>put_codec W c = []\<close> d by simp
qed

lemma mset_entries_ok:
  assumes "mset es = mset fs"
  shows "entries_ok es \<longleftrightarrow> entries_ok fs"
proof -
  have "mset (map fst es) = mset (map fst fs)"
    using assms by simp
  then have "distinct (map fst es) \<longleftrightarrow> distinct (map fst fs)"
    by (rule mset_eq_imp_distinct_iff)
  moreover have "set es = set fs"
    using assms by (metis set_mset_mset)
  ultimately show ?thesis
    by (simp add: entries_ok_def)
qed

lemma mset_map_of:
  assumes "mset es = mset fs" and "distinct (map fst fs)"
  shows "map_of es = map_of fs"
proof -
  have "mset (map fst es) = mset (map fst fs)"
    using assms by simp
  then have "distinct (map fst es)"
    using assms(2) mset_eq_imp_distinct_iff by blast
  moreover have "set es = set fs"
    using assms by (metis set_mset_mset)
  ultimately show ?thesis
    using assms(2) map_of_inject_set by blast
qed

lemma mset_length_layout:
  assumes "mset es = mset fs"
  shows "length (layout W c comment es) = length (layout W c comment fs)"
proof -
  have "sum_mset (image_mset (length \<circ> encode_entry W) (mset es)) =
        sum_mset (image_mset (length \<circ> encode_entry W) (mset fs))"
    using assms by simp
  then have "length (concat (map (encode_entry W) es)) = length (concat (map (encode_entry W) fs))"
    by (simp add: length_concat sum_mset_sum_list [symmetric] multiset.map_comp)
  moreover have "length es = length fs"
    using assms by (metis size_mset)
  ultimately show ?thesis
    by (simp add: layout_def)
qed

section \<open>An example key\<close>

definition example_key :: multikey where
  "example_key = \<lparr>mk_codec = Ed25519 Pub, mk_comment = [104, 105],
     mk_attributes = [KeyData \<mapsto> [1, 2, 3], KeyIsEncrypted \<mapsto> [0]]\<rparr>"

lemma example_entries: "attr_entries (mk_attributes example_key) = [(KeyIsEncrypted, [0]), (KeyData, [1, 2, 3])]"
  by (simp add: example_key_def attr_entries_def attr_ids_def)

lemma example_key_length: "length (multikey_encode leb_wire example_key) \<le> 40"
  by code_simp

lemma example_key_wf: "multikey_wf leb_wire example_key"
  using example_key_length
  by (simp add: multikey_wf_def MAX_DECODED_SIZE_def) (simp add: example_key_def)

lemma example_layout_length:
  "length (layout leb_wire (Ed25519 Pub) [] ([(KeyData, [1])] @ (KeyData, [2]) # [])) \<le> 40"
  by code_simp

section \<open>Properties\<close>

text \<open>
  C1: Every well-formed multikey survives the wire: decoding its encoding, whatever bytes follow,
  returns exactly that key and exactly the bytes that follow.
\<close>

theorem multikey_roundtrip:
  assumes "wire_ok W" and "multikey_wf W k"
  shows "multikey_try_decode_from W (multikey_encode W k @ rest) = Ok (k, rest)"
  using assms by (simp add: mk_wire.dec_enc)

theorem multikey_roundtrip_witness:
  "multikey_try_decode_from leb_wire (multikey_encode leb_wire example_key @ [7]) = Ok (example_key, [7])"
  by (rule multikey_roundtrip [OF leb_wire_ok example_key_wf])

text \<open>
  The encoder that appends to one buffer produces, byte for byte, the field by field layout:
  sigil, key codec, comment, number of attributes, and then every attribute in identifier order.
\<close>

lemma multikey_encode_reference:
  "multikey_encode W k = layout W (mk_codec k) (mk_comment k) (attr_entries (mk_attributes k))"
  by (rule multikey_encode_layout)

text \<open>
  The decoder does not depend on the order of the attributes: any permutation of the attributes
  of a well-formed key decodes to that key, so the wire form of a key is not unique.
\<close>

lemma multikey_any_order:
  assumes "wire_ok W" and "multikey_wf W k" and "mset es = mset (attr_entries (mk_attributes k))"
  shows "multikey_try_decode_from W (layout W (mk_codec k) (mk_comment k) es @ rest) = Ok (k, rest)"
proof -
  have "entries_ok es"
    using mset_entries_ok [OF assms(3)] multikey_wf_entries_ok [OF assms(2)] by simp
  moreover have "map_of es = mk_attributes k"
    using mset_map_of [OF assms(3) distinct_attr_entries] by simp
  moreover have "es \<noteq> [] \<Longrightarrow> mk_attributes k \<noteq> Map.empty"
    using assms(3) by auto
  ultimately show ?thesis
    using assms decode_layout [OF assms(1), of "mk_comment k" es "mk_codec k" rest]
      mset_length_layout [OF assms(3), of W]
    by (auto simp: multikey_wf_def multikey_encode_layout)
qed

lemma multikey_any_order_witness:
  "multikey_try_decode_from leb_wire
     (layout leb_wire (Ed25519 Pub) [104, 105] [(KeyData, [1, 2, 3]), (KeyIsEncrypted, [0])] @ []) =
   Ok (example_key, [])"
  using multikey_any_order [OF leb_wire_ok example_key_wf,
      of "[(KeyData, [1, 2, 3]), (KeyIsEncrypted, [0])]" "[]"]
  by (simp add: example_entries) (simp add: example_key_def)

text \<open>
  C32: What an accepted input satisfies: the decoder returns a suffix of its input, the comment is
  well-formed UTF-8, and a key with attributes was read from at most 16 MiB of input.
\<close>

theorem multikey_decode_bounded:
  assumes "wire_ok W" and "multikey_try_decode_from W bs = Ok (k, rest)"
  shows "(\<exists>p. bs = p @ rest) \<and> utf8_valid (mk_comment k) \<and>
    (mk_attributes k \<noteq> Map.empty \<longrightarrow> length bs - length rest \<le> MAX_DECODED_SIZE)"
  using assms(2)
proof (rule multikey_decode_cases)
  fix p1 p2 p3 p4 n
  assume steps: "get_codec W bs = Ok (SIGIL, p1)" "get_codec W p1 = Ok (mk_codec k, p2)"
    "get_varbytes W p2 = Ok (mk_comment k, p3)" "get_usize W p3 = Ok (n, p4)"
    and u: "utf8_valid (mk_comment k)"
    and loop: "decode_attrs W (length bs) n Map.empty p4 = Ok (mk_attributes k, rest)"
  note inv = decode_attrs_invariant [OF assms(1) loop]
  obtain q1 q2 q3 q4 q5 where "bs = q1 @ p1" "p1 = q2 @ p2" "p2 = q3 @ p3" "p3 = q4 @ p4" "p4 = q5 @ rest"
    using wire_ok_suffix(3) [OF assms(1) steps(1)] wire_ok_suffix(3) [OF assms(1) steps(2)]
      wire_ok_suffix(4) [OF assms(1) steps(3)] wire_ok_suffix(2) [OF assms(1) steps(4)] inv by blast
  then have "bs = (q1 @ q2 @ q3 @ q4 @ q5) @ rest"
    by simp
  moreover have "length bs - length rest \<le> MAX_DECODED_SIZE" if "mk_attributes k \<noteq> Map.empty"
    using that inv loop by (cases n) auto
  ultimately show ?thesis
    using u by blast
qed

theorem multikey_decode_bounded_witness:
  "(\<exists>p. multikey_encode leb_wire example_key @ [7] = p @ [7]) \<and> utf8_valid (mk_comment example_key) \<and>
    length (multikey_encode leb_wire example_key @ [7]) - length [7 :: byte] \<le> MAX_DECODED_SIZE"
proof -
  have "mk_attributes example_key KeyData \<noteq> None"
    by (simp add: example_key_def)
  then have "mk_attributes example_key \<noteq> Map.empty"
    by auto
  then show ?thesis
    using multikey_decode_bounded [OF leb_wire_ok
        mk_wire.dec_enc [OF conjI [OF leb_wire_ok example_key_wf], of "[7]"]] by blast
qed

text \<open>
  Decoding untrusted input never panics, whatever the bytes: it returns a key or an error.
\<close>

lemma multikey_decode_total:
  assumes "wire_ok W"
  shows "is_ok (multikey_try_decode_from W bs) \<or> is_err (multikey_try_decode_from W bs)"
  using multikey_decode_no_panic [OF assms, of bs] by (cases "multikey_try_decode_from W bs") auto

lemma multikey_decode_total_witness:
  "is_ok (multikey_try_decode_from leb_wire [1, 2, 3]) \<or> is_err (multikey_try_decode_from leb_wire [1, 2, 3])"
  by (rule multikey_decode_total [OF leb_wire_ok])

text \<open>
  C31: A second value for an attribute is rejected with that attribute's code, wherever it stands
  and whatever follows it; the first value is never silently replaced.
\<close>

theorem multikey_duplicate_rejected:
  assumes "wire_ok W" and "utf8_valid comment" and "length comment \<le> MAX_DECODED_SIZE"
    and "entries_ok es" and "a \<in> fst ` set es" and "length v \<le> MAX_DECODED_SIZE"
    and "length es + length fs < 256"
    and "length (layout W c comment (es @ (a, v) # fs)) \<le> MAX_DECODED_SIZE"
  shows "multikey_try_decode_from W (layout W c comment (es @ (a, v) # fs)) =
    Err (DuplicateAttribute (attr_code a))"
proof -
  let ?all = "es @ (a, v) # fs" and ?r = "concat (map (encode_entry W) fs)"
  let ?sl = "length (layout W c comment ?all)"
  have "decode_attrs W ?sl (length es + Suc (length fs)) Map.empty
      (concat (map (encode_entry W) es) @ encode_entry W (a, v) @ ?r) =
    Err (DuplicateAttribute (attr_code a))"
    by (rule decode_attrs_duplicate [OF assms(1,4,5,6)]) (use assms(8) in \<open>auto simp: layout_def\<close>)
  then show ?thesis
    using assms(1,2,3,7) unfolding multikey_try_decode_from_def
    by (simp add: layout_def codec_wire.dec_enc varbytes_wire.dec_enc usize_wire.dec_enc
        from_utf8_def MAX_ATTRIBUTES_def)
qed

theorem multikey_duplicate_rejected_witness:
  "multikey_try_decode_from leb_wire
     (layout leb_wire (Ed25519 Pub) [] ([(KeyData, [1])] @ (KeyData, [2]) # [])) =
   Err (DuplicateAttribute (attr_code KeyData))"
  by (rule multikey_duplicate_rejected [OF leb_wire_ok])
     (use example_layout_length in \<open>simp_all add: entries_ok_def MAX_DECODED_SIZE_def\<close>)

text \<open>
  An input that announces more than 256 attributes is rejected before any attribute is read,
  whatever its attributes are.
\<close>

theorem multikey_too_many_rejected:
  assumes "wire_ok W" and "utf8_valid comment" and "length comment \<le> MAX_DECODED_SIZE"
    and "MAX_ATTRIBUTES < n" and "n < 2 ^ 64"
  shows "multikey_try_decode_from W
      (put_codec W SIGIL @ put_codec W c @ varbytes W comment @ put_uint W n @ rest) =
    Err (TooManyAttributes n MAX_ATTRIBUTES)"
  using assms unfolding multikey_try_decode_from_def
  by (simp add: codec_wire.dec_enc varbytes_wire.dec_enc usize_wire.dec_enc from_utf8_def)

theorem multikey_too_many_rejected_witness:
  "multikey_try_decode_from leb_wire
     (put_codec leb_wire SIGIL @ put_codec leb_wire (Ed25519 Priv) @ varbytes leb_wire [] @
      put_uint leb_wire 257 @ []) =
   Err (TooManyAttributes 257 MAX_ATTRIBUTES)"
  by (rule multikey_too_many_rejected [OF leb_wire_ok]) (simp_all add: MAX_ATTRIBUTES_def)

text \<open>
  The constant-time comparison decides equality of well-formed keys: two keys compare equal
  exactly when they are the same key, because the canonical encoding is injective.
\<close>

lemma multikey_ct_eq_iff:
  assumes "wire_ok W" and "multikey_wf W k1" and "multikey_wf W k2"
    and "\<And>a b. slice_ct_eq a b \<longleftrightarrow> a = b"
  shows "multikey_ct_eq slice_ct_eq W k1 k2 \<longleftrightarrow> k1 = k2"
  using assms mk_wire.enc_inject [of W k1 k2] by (simp add: multikey_ct_eq_def)

lemma multikey_ct_eq_iff_witness:
  "multikey_ct_eq (=) leb_wire example_key example_key \<longleftrightarrow> example_key = example_key"
  by (rule multikey_ct_eq_iff [OF leb_wire_ok example_key_wf example_key_wf]) simp

text \<open>
  The 16 MiB limit is only enforced after an attribute is read: a key without attributes is
  accepted although more than \<open>MAX_DECODED_SIZE\<close> bytes were decoded.
\<close>

theorem multikey_size_cap_needs_attributes:
  assumes "wire_ok W"
  shows "\<exists>k bs. multikey_try_decode_from W bs = Ok (k, []) \<and> MAX_DECODED_SIZE < length bs"
proof -
  let ?c = "replicate MAX_DECODED_SIZE (97 :: byte)"
  let ?bs = "layout W (Ed25519 Pub) ?c []"
  have "utf8_valid ?c"
    by (rule utf8_valid_ascii) simp
  then have "multikey_try_decode_from W (?bs @ []) =
      Ok (\<lparr>mk_codec = Ed25519 Pub, mk_comment = ?c, mk_attributes = map_of []\<rparr>, [])"
    by (intro decode_layout [OF assms]) (simp_all add: entries_ok_def)
  moreover have "MAX_DECODED_SIZE < length ?bs"
    using put_codec_nonempty [OF assms, of SIGIL]
    by (cases "put_codec W SIGIL") (simp_all add: layout_def encode_varbytes_into_def)
  ultimately show ?thesis
    by auto
qed

theorem multikey_size_cap_needs_attributes_witness:
  "\<exists>k bs. multikey_try_decode_from leb_wire bs = Ok (k, []) \<and> MAX_DECODED_SIZE < length bs"
  by (rule multikey_size_cap_needs_attributes [OF leb_wire_ok])

end
