(* ===== verification/Mk_Views.thy ===== *)
theory Mk_Views
  imports Mk_Multikey
begin

text \<open>
  The view modules of \<^verbatim>\<open>src/views/*.rs\<close>: which module implements a view (\<open>view\<close>, one tag per
  module) and the \<^verbatim>\<open>AttrView\<close> and \<^verbatim>\<open>DataView\<close> methods each of them gives a key (\<open>key_view\<close>).
  A \<^verbatim>\<open>Box<dyn AttrView>\<close> is the tag of the module together with the viewed key. Two shapes occur:
  a module that reads the \<^verbatim>\<open>KeyIsEncrypted\<close> attribute (\<open>sealed_view\<close>) and a module that answers
  \<open>False\<close> without looking (\<open>plain_view\<close>).
\<close>

section \<open>The view modules\<close>

datatype (plugins only: code size) view =
    VBls12381
  | VEd25519
  | VSecp256K1
  | VChacha20
  | VSlhDsa
  | VMlDsa
  | VMayo
  | VFnDsa
  | VMlKem
  | VSntrup
  | VClassicMceliece
  | VFrodokem
  | VX25519
  | VX25519Sntrup761
  | VX25519Frodokem640
  | VX25519Mceliece348864
  | VX25519Mlkem768
  | VEd25519Mayo2
  | VEd25519Mldsa65
  | VBlsG1Mldsa65
  | VBlsG1Fndsa512
  | VBlsG1Mayo1
  | VBlsG1Mayo2
  | VEd25519Fndsa512
  | VNistP
  | VRsa
  | VLamport
  | VLamportMerkle
  | VXmss
  | VXeddsa

section \<open>The methods of AttrView and DataView\<close>

record key_view =
  is_encrypted :: bool
  is_secret_key :: bool
  is_public_key :: bool
  is_secret_key_share :: bool
  key_bytes :: "bytes res"
  secret_bytes :: "bytes res"

text \<open>The \<^verbatim>\<open>KeyIsEncrypted\<close> attribute as a bool; absent or undecodable means \<open>False\<close>.\<close>

definition encrypted_flag :: "wire \<Rightarrow> multikey \<Rightarrow> bool" where
  "encrypted_flag W k =
     (case get_attr k KeyIsEncrypted of None \<Rightarrow> False
      | Some v \<Rightarrow> (case get_bool W v of Ok (b, _) \<Rightarrow> b | _ \<Rightarrow> False))"

text \<open>The BLS view reads it with \<^verbatim>\<open>try_from\<close> rather than \<^verbatim>\<open>try_decode_from\<close>.\<close>

definition bls_encrypted_flag :: "wire \<Rightarrow> multikey \<Rightarrow> bool" where
  "bls_encrypted_flag W k =
     (case get_attr k KeyIsEncrypted of None \<Rightarrow> False
      | Some v \<Rightarrow> (case bool_of W v of Ok b \<Rightarrow> b | _ \<Rightarrow> False))"

definition key_data :: "multikey \<Rightarrow> bytes res" where
  "key_data k = ok_or (Attributes AMissingKey) (get_attr k KeyData)"

definition sealed_view :: "bool \<Rightarrow> bool \<Rightarrow> bool \<Rightarrow> bool \<Rightarrow> multikey \<Rightarrow> key_view" where
  "sealed_view encrypted secret public share k =
     \<lparr>is_encrypted = encrypted, is_secret_key = secret, is_public_key = public,
      is_secret_key_share = share, key_bytes = key_data k,
      secret_bytes =
        (if \<not> secret then Err (Attributes (ANotSecretKey (mk_codec k)))
         else if encrypted then Err (Attributes AEncryptedKey)
         else key_data k)\<rparr>"

definition plain_view :: "bool \<Rightarrow> bool \<Rightarrow> bool \<Rightarrow> multikey \<Rightarrow> key_view" where
  "plain_view secret public share k =
     \<lparr>is_encrypted = False, is_secret_key = secret, is_public_key = public,
      is_secret_key_share = share, key_bytes = key_data k,
      secret_bytes =
        (if \<not> secret then Err (Attributes (ANotSecretKey (mk_codec k))) else key_data k)\<rparr>"

section \<open>Which codecs are private, public or shares\<close>

definition bls_priv :: "codec \<Rightarrow> bool" where
  "bls_priv c \<longleftrightarrow> (case c of Bls12381 _ p \<Rightarrow> p = BPriv \<or> p = BPrivShare | _ \<Rightarrow> False)"
definition bls_pub :: "codec \<Rightarrow> bool" where
  "bls_pub c \<longleftrightarrow> (case c of Bls12381 _ p \<Rightarrow> p = BPub | _ \<Rightarrow> False)"
definition bls_priv_share :: "codec \<Rightarrow> bool" where
  "bls_priv_share c \<longleftrightarrow> (case c of Bls12381 _ p \<Rightarrow> p = BPrivShare | _ \<Rightarrow> False)"
definition is_slh_dsa_priv :: "codec \<Rightarrow> bool" where
  "is_slh_dsa_priv c \<longleftrightarrow> (case c of SlhDsa _ p \<Rightarrow> p = SPriv | _ \<Rightarrow> False)"
definition is_slh_dsa_pub :: "codec \<Rightarrow> bool" where
  "is_slh_dsa_pub c \<longleftrightarrow> (case c of SlhDsa _ p \<Rightarrow> p = SPub | _ \<Rightarrow> False)"
definition is_ml_dsa_priv :: "codec \<Rightarrow> bool" where
  "is_ml_dsa_priv c \<longleftrightarrow> (case c of MlDsa _ p \<Rightarrow> p = SPriv | _ \<Rightarrow> False)"
definition is_ml_dsa_pub :: "codec \<Rightarrow> bool" where
  "is_ml_dsa_pub c \<longleftrightarrow> (case c of MlDsa _ p \<Rightarrow> p = SPub | _ \<Rightarrow> False)"
definition is_mayo_priv :: "codec \<Rightarrow> bool" where
  "is_mayo_priv c \<longleftrightarrow> (case c of Mayo _ p \<Rightarrow> p = SPriv | _ \<Rightarrow> False)"
definition is_mayo_pub :: "codec \<Rightarrow> bool" where
  "is_mayo_pub c \<longleftrightarrow> (case c of Mayo _ p \<Rightarrow> p = SPub | _ \<Rightarrow> False)"
definition is_ml_kem_priv :: "codec \<Rightarrow> bool" where
  "is_ml_kem_priv c \<longleftrightarrow> (case c of Mlkem _ p \<Rightarrow> p = Priv | _ \<Rightarrow> False)"
definition is_ml_kem_pub :: "codec \<Rightarrow> bool" where
  "is_ml_kem_pub c \<longleftrightarrow> (case c of Mlkem _ p \<Rightarrow> p = Pub | _ \<Rightarrow> False)"
definition is_sntrup_priv :: "codec \<Rightarrow> bool" where
  "is_sntrup_priv c \<longleftrightarrow> (case c of Sntrup _ p \<Rightarrow> p = Priv | _ \<Rightarrow> False)"
definition is_sntrup_pub :: "codec \<Rightarrow> bool" where
  "is_sntrup_pub c \<longleftrightarrow> (case c of Sntrup _ p \<Rightarrow> p = Pub | _ \<Rightarrow> False)"
definition is_frodokem_priv :: "codec \<Rightarrow> bool" where
  "is_frodokem_priv c \<longleftrightarrow> (case c of FrodoKem _ p \<Rightarrow> p = Priv | _ \<Rightarrow> False)"
definition is_frodokem_pub :: "codec \<Rightarrow> bool" where
  "is_frodokem_pub c \<longleftrightarrow> (case c of FrodoKem _ p \<Rightarrow> p = Pub | _ \<Rightarrow> False)"
definition is_x25519_frodo_priv :: "codec \<Rightarrow> bool" where
  "is_x25519_frodo_priv c \<longleftrightarrow> (case c of X25519Frodokem640 _ p \<Rightarrow> p = Priv | _ \<Rightarrow> False)"
definition is_x25519_frodo_pub :: "codec \<Rightarrow> bool" where
  "is_x25519_frodo_pub c \<longleftrightarrow> (case c of X25519Frodokem640 _ p \<Rightarrow> p = Pub | _ \<Rightarrow> False)"
definition is_rsa_priv :: "codec \<Rightarrow> bool" where
  "is_rsa_priv c \<longleftrightarrow> (case c of Rsa _ p \<Rightarrow> p = Priv | _ \<Rightarrow> False)"
definition is_rsa_pub :: "codec \<Rightarrow> bool" where
  "is_rsa_pub c \<longleftrightarrow> (case c of Rsa _ p \<Rightarrow> p = Pub | _ \<Rightarrow> False)"
definition is_lamport_priv :: "codec \<Rightarrow> bool" where
  "is_lamport_priv c \<longleftrightarrow> (case c of Lamport _ p \<Rightarrow> p = LPriv | _ \<Rightarrow> False)"
definition is_lamport_pub :: "codec \<Rightarrow> bool" where
  "is_lamport_pub c \<longleftrightarrow> (case c of Lamport _ p \<Rightarrow> p = LPub | _ \<Rightarrow> False)"
definition is_merkle_priv :: "codec \<Rightarrow> bool" where
  "is_merkle_priv c \<longleftrightarrow> (case c of LamportMerkle _ p \<Rightarrow> p = LPriv | _ \<Rightarrow> False)"
definition is_merkle_pub :: "codec \<Rightarrow> bool" where
  "is_merkle_pub c \<longleftrightarrow> (case c of LamportMerkle _ p \<Rightarrow> p = LPub | _ \<Rightarrow> False)"
definition is_xmss_priv :: "codec \<Rightarrow> bool" where
  "is_xmss_priv c \<longleftrightarrow> (case c of Xmss _ p \<Rightarrow> p = SPriv | _ \<Rightarrow> False)"
definition is_xmss_pub :: "codec \<Rightarrow> bool" where
  "is_xmss_pub c \<longleftrightarrow> (case c of Xmss _ p \<Rightarrow> p = SPub | _ \<Rightarrow> False)"
definition is_lamport_priv_share :: "codec \<Rightarrow> bool" where
  "is_lamport_priv_share c \<longleftrightarrow> (case c of Lamport _ p \<Rightarrow> p = LPrivShare | _ \<Rightarrow> False)"
definition is_merkle_priv_share :: "codec \<Rightarrow> bool" where
  "is_merkle_priv_share c \<longleftrightarrow> (case c of LamportMerkle _ p \<Rightarrow> p = LPrivShare | _ \<Rightarrow> False)"
definition nist_p_priv :: "codec \<Rightarrow> bool" where
  "nist_p_priv c \<longleftrightarrow> c = P256 Priv \<or> c = P384 Priv \<or> c = P521 Priv"
definition nist_p_pub :: "codec \<Rightarrow> bool" where
  "nist_p_pub c \<longleftrightarrow> c = P256 Pub \<or> c = P384 Pub \<or> c = P521 Pub"

section \<open>The views\<close>

definition bls12381_view :: "wire \<Rightarrow> multikey \<Rightarrow> key_view" where
  "bls12381_view W k = sealed_view (bls_encrypted_flag W k) (bls_priv (mk_codec k))
     (bls_pub (mk_codec k)) (bls_priv_share (mk_codec k)) k"

definition ed25519_view :: "wire \<Rightarrow> multikey \<Rightarrow> key_view" where
  "ed25519_view W k = sealed_view (encrypted_flag W k) (mk_codec k = Ed25519 Priv)
     (mk_codec k = Ed25519 Pub) (False) k"

definition secp256k1_view :: "wire \<Rightarrow> multikey \<Rightarrow> key_view" where
  "secp256k1_view W k = sealed_view (encrypted_flag W k) (mk_codec k = Secp256K1 Priv)
     (mk_codec k = Secp256K1 Pub) (False) k"

text \<open>A symmetric key: always secret, and its secret bytes are refused only while encrypted.\<close>

definition chacha20_view :: "wire \<Rightarrow> multikey \<Rightarrow> key_view" where
  "chacha20_view W k =
     \<lparr>is_encrypted = encrypted_flag W k, is_secret_key = True, is_public_key = False,
      is_secret_key_share = False, key_bytes = key_data k,
      secret_bytes =
        (if encrypted_flag W k then Err (Attributes AEncryptedKey) else key_data k)\<rparr>"

definition slh_dsa_view :: "wire \<Rightarrow> multikey \<Rightarrow> key_view" where
  "slh_dsa_view W k = plain_view (is_slh_dsa_priv (mk_codec k))
     (is_slh_dsa_pub (mk_codec k)) (False) k"

definition ml_dsa_view :: "wire \<Rightarrow> multikey \<Rightarrow> key_view" where
  "ml_dsa_view W k = plain_view (is_ml_dsa_priv (mk_codec k))
     (is_ml_dsa_pub (mk_codec k)) (False) k"

definition mayo_view :: "wire \<Rightarrow> multikey \<Rightarrow> key_view" where
  "mayo_view W k = plain_view (is_mayo_priv (mk_codec k))
     (is_mayo_pub (mk_codec k)) (False) k"

definition fn_dsa_view :: "wire \<Rightarrow> multikey \<Rightarrow> key_view" where
  "fn_dsa_view W k = sealed_view False
     (mk_codec k = FnDsa Fn512 SPriv \<or> mk_codec k = FnDsa Fn1024 SPriv)
     (mk_codec k = FnDsa Fn512 SPub \<or> mk_codec k = FnDsa Fn1024 SPub) (False) k"

definition ml_kem_view :: "wire \<Rightarrow> multikey \<Rightarrow> key_view" where
  "ml_kem_view W k = plain_view (is_ml_kem_priv (mk_codec k))
     (is_ml_kem_pub (mk_codec k)) (False) k"

definition sntrup_view :: "wire \<Rightarrow> multikey \<Rightarrow> key_view" where
  "sntrup_view W k = plain_view (is_sntrup_priv (mk_codec k))
     (is_sntrup_pub (mk_codec k)) (False) k"

definition classic_mceliece_view :: "wire \<Rightarrow> multikey \<Rightarrow> key_view" where
  "classic_mceliece_view W k = plain_view (mk_codec k = Mceliece348864 Priv)
     (mk_codec k = Mceliece348864 Pub) (False) k"

definition frodokem_view :: "wire \<Rightarrow> multikey \<Rightarrow> key_view" where
  "frodokem_view W k = plain_view (is_frodokem_priv (mk_codec k))
     (is_frodokem_pub (mk_codec k)) (False) k"

definition x25519_view :: "wire \<Rightarrow> multikey \<Rightarrow> key_view" where
  "x25519_view W k = plain_view (mk_codec k = X25519 Priv)
     (mk_codec k = X25519 Pub) (False) k"

definition x25519_sntrup761_view :: "wire \<Rightarrow> multikey \<Rightarrow> key_view" where
  "x25519_sntrup761_view W k = plain_view (mk_codec k = X25519Sntrup761 Priv)
     (mk_codec k = X25519Sntrup761 Pub) (False) k"

definition x25519_frodokem640_view :: "wire \<Rightarrow> multikey \<Rightarrow> key_view" where
  "x25519_frodokem640_view W k = plain_view (is_x25519_frodo_priv (mk_codec k))
     (is_x25519_frodo_pub (mk_codec k)) (False) k"

definition x25519_mceliece348864_view :: "wire \<Rightarrow> multikey \<Rightarrow> key_view" where
  "x25519_mceliece348864_view W k = plain_view (mk_codec k = X25519Mceliece348864 Priv)
     (mk_codec k = X25519Mceliece348864 Pub) (False) k"

definition x25519_mlkem768_view :: "wire \<Rightarrow> multikey \<Rightarrow> key_view" where
  "x25519_mlkem768_view W k = plain_view (mk_codec k = X25519Mlkem768 Priv)
     (mk_codec k = X25519Mlkem768 Pub) (False) k"

definition ed25519_mayo2_view :: "wire \<Rightarrow> multikey \<Rightarrow> key_view" where
  "ed25519_mayo2_view W k = plain_view (mk_codec k = Ed25519Mayo2 SPriv)
     (mk_codec k = Ed25519Mayo2 SPub) (False) k"

definition ed25519_mldsa65_view :: "wire \<Rightarrow> multikey \<Rightarrow> key_view" where
  "ed25519_mldsa65_view W k = plain_view (mk_codec k = Ed25519Mldsa65 SPriv)
     (mk_codec k = Ed25519Mldsa65 SPub) (False) k"

definition bls12381_g1_mldsa65_view :: "wire \<Rightarrow> multikey \<Rightarrow> key_view" where
  "bls12381_g1_mldsa65_view W k = plain_view (mk_codec k = Bls12381G1Mldsa65 SPriv)
     (mk_codec k = Bls12381G1Mldsa65 SPub) (False) k"

definition bls12381_g1_fndsa512_view :: "wire \<Rightarrow> multikey \<Rightarrow> key_view" where
  "bls12381_g1_fndsa512_view W k = plain_view (mk_codec k = Bls12381G1Fndsa512 SPriv)
     (mk_codec k = Bls12381G1Fndsa512 SPub) (False) k"

definition bls12381_g1_mayo1_view :: "wire \<Rightarrow> multikey \<Rightarrow> key_view" where
  "bls12381_g1_mayo1_view W k = plain_view (mk_codec k = Bls12381G1Mayo1 SPriv)
     (mk_codec k = Bls12381G1Mayo1 SPub) (False) k"

definition bls12381_g1_mayo2_view :: "wire \<Rightarrow> multikey \<Rightarrow> key_view" where
  "bls12381_g1_mayo2_view W k = plain_view (mk_codec k = Bls12381G1Mayo2 SPriv)
     (mk_codec k = Bls12381G1Mayo2 SPub) (False) k"

definition ed25519_fndsa512_view :: "wire \<Rightarrow> multikey \<Rightarrow> key_view" where
  "ed25519_fndsa512_view W k = plain_view (mk_codec k = Ed25519Fndsa512 SPriv)
     (mk_codec k = Ed25519Fndsa512 SPub) (False) k"

definition nist_p_view :: "wire \<Rightarrow> multikey \<Rightarrow> key_view" where
  "nist_p_view W k = sealed_view (encrypted_flag W k) (nist_p_priv (mk_codec k))
     (nist_p_pub (mk_codec k)) (False) k"

definition rsa_view :: "wire \<Rightarrow> multikey \<Rightarrow> key_view" where
  "rsa_view W k = sealed_view (encrypted_flag W k) (is_rsa_priv (mk_codec k))
     (is_rsa_pub (mk_codec k)) (False) k"

definition lamport_view :: "wire \<Rightarrow> multikey \<Rightarrow> key_view" where
  "lamport_view W k = plain_view (is_lamport_priv (mk_codec k))
     (is_lamport_pub (mk_codec k)) (is_lamport_priv_share (mk_codec k)) k"

definition lamport_merkle_view :: "wire \<Rightarrow> multikey \<Rightarrow> key_view" where
  "lamport_merkle_view W k = plain_view (is_merkle_priv (mk_codec k))
     (is_merkle_pub (mk_codec k)) (is_merkle_priv_share (mk_codec k)) k"

definition xmss_view :: "wire \<Rightarrow> multikey \<Rightarrow> key_view" where
  "xmss_view W k = plain_view (is_xmss_priv (mk_codec k))
     (is_xmss_pub (mk_codec k)) (False) k"

definition xeddsa_view :: "wire \<Rightarrow> multikey \<Rightarrow> key_view" where
  "xeddsa_view W k = plain_view (mk_codec k = X25519 Priv)
     (mk_codec k = X25519 Pub) (False) k"

text \<open>The methods a boxed view answers with.\<close>

fun view_methods :: "wire \<Rightarrow> view \<Rightarrow> multikey \<Rightarrow> key_view" where
  "view_methods W VBls12381 k = bls12381_view W k"
| "view_methods W VEd25519 k = ed25519_view W k"
| "view_methods W VSecp256K1 k = secp256k1_view W k"
| "view_methods W VChacha20 k = chacha20_view W k"
| "view_methods W VSlhDsa k = slh_dsa_view W k"
| "view_methods W VMlDsa k = ml_dsa_view W k"
| "view_methods W VMayo k = mayo_view W k"
| "view_methods W VFnDsa k = fn_dsa_view W k"
| "view_methods W VMlKem k = ml_kem_view W k"
| "view_methods W VSntrup k = sntrup_view W k"
| "view_methods W VClassicMceliece k = classic_mceliece_view W k"
| "view_methods W VFrodokem k = frodokem_view W k"
| "view_methods W VX25519 k = x25519_view W k"
| "view_methods W VX25519Sntrup761 k = x25519_sntrup761_view W k"
| "view_methods W VX25519Frodokem640 k = x25519_frodokem640_view W k"
| "view_methods W VX25519Mceliece348864 k = x25519_mceliece348864_view W k"
| "view_methods W VX25519Mlkem768 k = x25519_mlkem768_view W k"
| "view_methods W VEd25519Mayo2 k = ed25519_mayo2_view W k"
| "view_methods W VEd25519Mldsa65 k = ed25519_mldsa65_view W k"
| "view_methods W VBlsG1Mldsa65 k = bls12381_g1_mldsa65_view W k"
| "view_methods W VBlsG1Fndsa512 k = bls12381_g1_fndsa512_view W k"
| "view_methods W VBlsG1Mayo1 k = bls12381_g1_mayo1_view W k"
| "view_methods W VBlsG1Mayo2 k = bls12381_g1_mayo2_view W k"
| "view_methods W VEd25519Fndsa512 k = ed25519_fndsa512_view W k"
| "view_methods W VNistP k = nist_p_view W k"
| "view_methods W VRsa k = rsa_view W k"
| "view_methods W VLamport k = lamport_view W k"
| "view_methods W VLamportMerkle k = lamport_merkle_view W k"
| "view_methods W VXmss k = xmss_view W k"
| "view_methods W VXeddsa k = xeddsa_view W k"

lemmas codec_part_defs =
  bls_priv_def bls_pub_def bls_priv_share_def nist_p_priv_def nist_p_pub_def
  is_slh_dsa_priv_def is_slh_dsa_pub_def
  is_ml_dsa_priv_def is_ml_dsa_pub_def
  is_mayo_priv_def is_mayo_pub_def
  is_ml_kem_priv_def is_ml_kem_pub_def
  is_sntrup_priv_def is_sntrup_pub_def
  is_frodokem_priv_def is_frodokem_pub_def
  is_x25519_frodo_priv_def is_x25519_frodo_pub_def
  is_rsa_priv_def is_rsa_pub_def
  is_lamport_priv_def is_lamport_pub_def
  is_merkle_priv_def is_merkle_pub_def
  is_xmss_priv_def is_xmss_pub_def
  is_lamport_priv_share_def is_merkle_priv_share_def

lemmas view_defs =
  bls12381_view_def ed25519_view_def secp256k1_view_def chacha20_view_def
  slh_dsa_view_def ml_dsa_view_def mayo_view_def fn_dsa_view_def
  ml_kem_view_def sntrup_view_def classic_mceliece_view_def frodokem_view_def
  x25519_view_def x25519_sntrup761_view_def x25519_frodokem640_view_def x25519_mceliece348864_view_def
  x25519_mlkem768_view_def ed25519_mayo2_view_def ed25519_mldsa65_view_def bls12381_g1_mldsa65_view_def
  bls12381_g1_fndsa512_view_def bls12381_g1_mayo1_view_def bls12381_g1_mayo2_view_def ed25519_fndsa512_view_def
  nist_p_view_def rsa_view_def lamport_view_def lamport_merkle_view_def
  xmss_view_def xeddsa_view_def

lemma key_bytes_view_methods [simp]: "key_bytes (view_methods W v k) = key_data k"
  by (cases v) (simp_all add: sealed_view_def plain_view_def view_defs)

lemma key_data_eq_Ok [outcome_simps]: "key_data k = Ok b \<longleftrightarrow> mk_attributes k KeyData = Some b"
  by (simp add: key_data_def get_attr_def outcome_simps)

lemma key_data_no_panic [simp]: "key_data k \<noteq> Panic"
  by (simp add: key_data_def)

text \<open>The secret bytes of a key, when a view gives them out, are its key data.\<close>

lemma secret_bytes_view_methods:
  "secret_bytes (view_methods W v k) = Ok b \<Longrightarrow>
   mk_attributes k KeyData = Some b \<and> is_secret_key (view_methods W v k) \<and>
   \<not> is_encrypted (view_methods W v k)"
  by (cases v)
     (auto simp: sealed_view_def plain_view_def view_defs outcome_simps split: if_splits)

lemma secret_bytes_of_secret_key:
  "is_secret_key (view_methods W v k) \<Longrightarrow> \<not> is_encrypted (view_methods W v k) \<Longrightarrow>
   secret_bytes (view_methods W v k) = key_data k"
  by (cases v) (auto simp: sealed_view_def plain_view_def view_defs)

end
