(* ===== verification/Mk_Dispatch.thy ===== *)
theory Mk_Dispatch
  imports Mk_Views
begin

text \<open>
  \<^verbatim>\<open>src/views/dispatch.rs\<close>: one constructor function per kind of view, each a match on the key codec
  whose arms exist only when the cargo features of the arm are enabled. The features of a build are
  a parameter \<open>F\<close>; a function returns the tag of the module whose view it boxes, or its error for a
  codec without an arm. The arms of the source that list every codec of a family are one equation
  with a guard on the part (\<open>bls_key\<close>, \<open>spart_key\<close>, \<open>lpart_key\<close>: key codecs, not signatures).
\<close>

section \<open>Features\<close>

datatype feature =
    FBls12381 | FCurve25519 | FSecp256k1 | FChacha20 | FSlhDsa | FMlDsa | FMayo | FFnDsa | FMlKem
  | FSntrup | FDeprecated | FFrodokem | FP256 | FP384 | FP521 | FRsa | FLamport | FXmss | FBcrypt
  | FLegacyChacha20Fallback

type_synonym features = "feature set"

definition bls_key :: "bpart \<Rightarrow> bool" where
  "bls_key p \<longleftrightarrow> p = BPub \<or> p = BPriv \<or> p = BPubShare \<or> p = BPrivShare"
definition spart_key :: "spart \<Rightarrow> bool" where
  "spart_key p \<longleftrightarrow> p = SPub \<or> p = SPriv"
definition lpart_key :: "lpart \<Rightarrow> bool" where
  "lpart_key p \<longleftrightarrow> p = LPub \<or> p = LPriv \<or> p = LPrivShare"

text \<open>One arm of a dispatch: it matches when its guard holds and its features are enabled.\<close>

definition arm :: "features \<Rightarrow> 'a res \<Rightarrow> bool \<Rightarrow> feature list \<Rightarrow> 'a \<Rightarrow> 'a res" where
  "arm F otherwise guard needs v = (if guard \<and> set needs \<subseteq> F then Ok v else otherwise)"

section \<open>The dispatch functions\<close>

text \<open>
  The last arms of the six long matches, from RSA on, are functions of their own. The simplifier expands them.
\<close>

definition attr_view_rest :: "features \<Rightarrow> view res \<Rightarrow> codec \<Rightarrow> view res" where
  "attr_view_rest F bad c =
     (case c of
        Rsa _ _ \<Rightarrow> arm F bad True [FRsa] VRsa
      | Lamport _ p \<Rightarrow> arm F bad (lpart_key p) [FLamport] VLamport
      | LamportMerkle _ p \<Rightarrow> arm F bad (lpart_key p) [FLamport] VLamportMerkle
      | Xmss _ p \<Rightarrow> arm F bad (spart_key p) [FXmss] VXmss
      | _ \<Rightarrow> bad)"

definition dispatch_attr_view :: "features \<Rightarrow> multikey \<Rightarrow> view res" where
  "dispatch_attr_view F k =
     (let bad = Err (Attributes (AUnsupportedCodec (mk_codec k))) in
      case mk_codec k of
        Bls12381 _ p \<Rightarrow> arm F bad (bls_key p) [FBls12381] VBls12381
      | Ed25519 _ \<Rightarrow> arm F bad True [FCurve25519] VEd25519
      | Secp256K1 _ \<Rightarrow> arm F bad True [FSecp256k1] VSecp256K1
      | Chacha20Poly1305 \<Rightarrow> arm F bad True [FChacha20] VChacha20
      | SlhDsa _ p \<Rightarrow> arm F bad (spart_key p) [FSlhDsa] VSlhDsa
      | MlDsa _ p \<Rightarrow> arm F bad (spart_key p) [FMlDsa] VMlDsa
      | Mayo _ p \<Rightarrow> arm F bad (spart_key p) [FMayo] VMayo
      | FnDsa _ p \<Rightarrow> arm F bad (spart_key p) [FFnDsa] VFnDsa
      | Mlkem _ _ \<Rightarrow> arm F bad True [FMlKem] VMlKem
      | Sntrup _ _ \<Rightarrow> arm F bad True [FSntrup] VSntrup
      | Mceliece348864 _ \<Rightarrow> arm F bad True [FDeprecated] VClassicMceliece
      | FrodoKem _ _ \<Rightarrow> arm F bad True [FFrodokem] VFrodokem
      | X25519 _ \<Rightarrow> arm F bad True [FCurve25519] VX25519
      | X25519Sntrup761 _ \<Rightarrow> arm F bad True [FCurve25519, FSntrup] VX25519Sntrup761
      | X25519Frodokem640 _ _ \<Rightarrow> arm F bad True [FCurve25519, FFrodokem] VX25519Frodokem640
      | X25519Mceliece348864 _ \<Rightarrow> arm F bad True [FCurve25519, FDeprecated] VX25519Mceliece348864
      | X25519Mlkem768 _ \<Rightarrow> arm F bad True [FCurve25519, FMlKem] VX25519Mlkem768
      | Ed25519Mayo2 p \<Rightarrow> arm F bad (spart_key p) [FCurve25519, FMayo] VEd25519Mayo2
      | Ed25519Mldsa65 p \<Rightarrow> arm F bad (spart_key p) [FCurve25519, FMlDsa] VEd25519Mldsa65
      | Bls12381G1Mldsa65 p \<Rightarrow> arm F bad (spart_key p) [FBls12381, FMlDsa] VBlsG1Mldsa65
      | Bls12381G1Fndsa512 p \<Rightarrow> arm F bad (spart_key p) [FBls12381, FFnDsa] VBlsG1Fndsa512
      | Bls12381G1Mayo1 p \<Rightarrow> arm F bad (spart_key p) [FBls12381, FMayo] VBlsG1Mayo1
      | Bls12381G1Mayo2 p \<Rightarrow> arm F bad (spart_key p) [FBls12381, FMayo] VBlsG1Mayo2
      | Ed25519Fndsa512 p \<Rightarrow> arm F bad (spart_key p) [FCurve25519, FFnDsa] VEd25519Fndsa512
      | P256 _ \<Rightarrow> arm F bad True [FP256] VNistP
      | P384 _ \<Rightarrow> arm F bad True [FP384] VNistP
      | P521 _ \<Rightarrow> arm F bad True [FP521] VNistP
      | _ \<Rightarrow> attr_view_rest F bad (mk_codec k))"

definition data_view_rest :: "features \<Rightarrow> view res \<Rightarrow> codec \<Rightarrow> view res" where
  "data_view_rest F bad c =
     (case c of
        Rsa _ _ \<Rightarrow> arm F bad True [FRsa] VRsa
      | Lamport _ p \<Rightarrow> arm F bad (lpart_key p) [FLamport] VLamport
      | LamportMerkle _ p \<Rightarrow> arm F bad (lpart_key p) [FLamport] VLamportMerkle
      | Xmss _ p \<Rightarrow> arm F bad (spart_key p) [FXmss] VXmss
      | _ \<Rightarrow> bad)"

definition dispatch_data_view :: "features \<Rightarrow> multikey \<Rightarrow> view res" where
  "dispatch_data_view F k =
     (let bad = Err (Conversions (CvUnsupportedCodec (mk_codec k))) in
      case mk_codec k of
        Bls12381 _ p \<Rightarrow> arm F bad (bls_key p) [FBls12381] VBls12381
      | Ed25519 _ \<Rightarrow> arm F bad True [FCurve25519] VEd25519
      | Secp256K1 _ \<Rightarrow> arm F bad True [FSecp256k1] VSecp256K1
      | Chacha20Poly1305 \<Rightarrow> arm F bad True [FChacha20] VChacha20
      | SlhDsa _ p \<Rightarrow> arm F bad (spart_key p) [FSlhDsa] VSlhDsa
      | MlDsa _ p \<Rightarrow> arm F bad (spart_key p) [FMlDsa] VMlDsa
      | Mayo _ p \<Rightarrow> arm F bad (spart_key p) [FMayo] VMayo
      | FnDsa _ p \<Rightarrow> arm F bad (spart_key p) [FFnDsa] VFnDsa
      | Mlkem _ _ \<Rightarrow> arm F bad True [FMlKem] VMlKem
      | Sntrup _ _ \<Rightarrow> arm F bad True [FSntrup] VSntrup
      | Mceliece348864 _ \<Rightarrow> arm F bad True [FDeprecated] VClassicMceliece
      | FrodoKem _ _ \<Rightarrow> arm F bad True [FFrodokem] VFrodokem
      | X25519 _ \<Rightarrow> arm F bad True [FCurve25519] VX25519
      | X25519Sntrup761 _ \<Rightarrow> arm F bad True [FCurve25519, FSntrup] VX25519Sntrup761
      | X25519Frodokem640 _ _ \<Rightarrow> arm F bad True [FCurve25519, FFrodokem] VX25519Frodokem640
      | X25519Mceliece348864 _ \<Rightarrow> arm F bad True [FCurve25519, FDeprecated] VX25519Mceliece348864
      | X25519Mlkem768 _ \<Rightarrow> arm F bad True [FCurve25519, FMlKem] VX25519Mlkem768
      | Ed25519Mayo2 p \<Rightarrow> arm F bad (spart_key p) [FCurve25519, FMayo] VEd25519Mayo2
      | Ed25519Mldsa65 p \<Rightarrow> arm F bad (spart_key p) [FCurve25519, FMlDsa] VEd25519Mldsa65
      | Bls12381G1Mldsa65 p \<Rightarrow> arm F bad (spart_key p) [FBls12381, FMlDsa] VBlsG1Mldsa65
      | Bls12381G1Fndsa512 p \<Rightarrow> arm F bad (spart_key p) [FBls12381, FFnDsa] VBlsG1Fndsa512
      | Bls12381G1Mayo1 p \<Rightarrow> arm F bad (spart_key p) [FBls12381, FMayo] VBlsG1Mayo1
      | Bls12381G1Mayo2 p \<Rightarrow> arm F bad (spart_key p) [FBls12381, FMayo] VBlsG1Mayo2
      | Ed25519Fndsa512 p \<Rightarrow> arm F bad (spart_key p) [FCurve25519, FFnDsa] VEd25519Fndsa512
      | P256 _ \<Rightarrow> arm F bad True [FP256] VNistP
      | P384 _ \<Rightarrow> arm F bad True [FP384] VNistP
      | P521 _ \<Rightarrow> arm F bad True [FP521] VNistP
      | _ \<Rightarrow> data_view_rest F bad (mk_codec k))"

definition conv_view_rest :: "features \<Rightarrow> view res \<Rightarrow> codec \<Rightarrow> view res" where
  "conv_view_rest F bad c =
     (case c of
        Rsa _ _ \<Rightarrow> arm F bad True [FRsa] VRsa
      | Lamport _ p \<Rightarrow> arm F bad (lpart_key p) [FLamport] VLamport
      | LamportMerkle _ p \<Rightarrow> arm F bad (lpart_key p) [FLamport] VLamportMerkle
      | Xmss _ p \<Rightarrow> arm F bad (spart_key p) [FXmss] VXmss
      | _ \<Rightarrow> bad)"

definition dispatch_conv_view :: "features \<Rightarrow> multikey \<Rightarrow> view res" where
  "dispatch_conv_view F k =
     (let bad = Err (Conversions (CvUnsupportedCodec (mk_codec k))) in
      case mk_codec k of
        Bls12381 _ p \<Rightarrow> arm F bad (bls_key p) [FBls12381] VBls12381
      | Ed25519 _ \<Rightarrow> arm F bad True [FCurve25519] VEd25519
      | Secp256K1 _ \<Rightarrow> arm F bad True [FSecp256k1] VSecp256K1
      | SlhDsa _ p \<Rightarrow> arm F bad (spart_key p) [FSlhDsa] VSlhDsa
      | MlDsa _ p \<Rightarrow> arm F bad (spart_key p) [FMlDsa] VMlDsa
      | Mayo _ p \<Rightarrow> arm F bad (spart_key p) [FMayo] VMayo
      | FnDsa _ p \<Rightarrow> arm F bad (spart_key p) [FFnDsa] VFnDsa
      | Mlkem _ _ \<Rightarrow> arm F bad True [FMlKem] VMlKem
      | Sntrup _ _ \<Rightarrow> arm F bad True [FSntrup] VSntrup
      | Mceliece348864 _ \<Rightarrow> arm F bad True [FDeprecated] VClassicMceliece
      | FrodoKem _ _ \<Rightarrow> arm F bad True [FFrodokem] VFrodokem
      | X25519 _ \<Rightarrow> arm F bad True [FCurve25519] VX25519
      | X25519Sntrup761 _ \<Rightarrow> arm F bad True [FCurve25519, FSntrup] VX25519Sntrup761
      | X25519Frodokem640 _ _ \<Rightarrow> arm F bad True [FCurve25519, FFrodokem] VX25519Frodokem640
      | X25519Mceliece348864 _ \<Rightarrow> arm F bad True [FCurve25519, FDeprecated] VX25519Mceliece348864
      | X25519Mlkem768 _ \<Rightarrow> arm F bad True [FCurve25519, FMlKem] VX25519Mlkem768
      | Ed25519Mayo2 p \<Rightarrow> arm F bad (spart_key p) [FCurve25519, FMayo] VEd25519Mayo2
      | Ed25519Mldsa65 p \<Rightarrow> arm F bad (spart_key p) [FCurve25519, FMlDsa] VEd25519Mldsa65
      | Bls12381G1Mldsa65 p \<Rightarrow> arm F bad (spart_key p) [FBls12381, FMlDsa] VBlsG1Mldsa65
      | Bls12381G1Fndsa512 p \<Rightarrow> arm F bad (spart_key p) [FBls12381, FFnDsa] VBlsG1Fndsa512
      | Bls12381G1Mayo1 p \<Rightarrow> arm F bad (spart_key p) [FBls12381, FMayo] VBlsG1Mayo1
      | Bls12381G1Mayo2 p \<Rightarrow> arm F bad (spart_key p) [FBls12381, FMayo] VBlsG1Mayo2
      | Ed25519Fndsa512 p \<Rightarrow> arm F bad (spart_key p) [FCurve25519, FFnDsa] VEd25519Fndsa512
      | P256 _ \<Rightarrow> arm F bad True [FP256] VNistP
      | P384 _ \<Rightarrow> arm F bad True [FP384] VNistP
      | P521 _ \<Rightarrow> arm F bad True [FP521] VNistP
      | _ \<Rightarrow> conv_view_rest F bad (mk_codec k))"

definition fingerprint_view_rest :: "features \<Rightarrow> view res \<Rightarrow> codec \<Rightarrow> view res" where
  "fingerprint_view_rest F bad c =
     (case c of
        Rsa _ _ \<Rightarrow> arm F bad True [FRsa] VRsa
      | Lamport _ p \<Rightarrow> arm F bad (lpart_key p) [FLamport] VLamport
      | LamportMerkle _ p \<Rightarrow> arm F bad (lpart_key p) [FLamport] VLamportMerkle
      | Xmss _ p \<Rightarrow> arm F bad (spart_key p) [FXmss] VXmss
      | _ \<Rightarrow> bad)"

definition dispatch_fingerprint_view :: "features \<Rightarrow> multikey \<Rightarrow> view res" where
  "dispatch_fingerprint_view F k =
     (let bad = Err (Conversions (CvUnsupportedCodec (mk_codec k))) in
      case mk_codec k of
        Bls12381 _ p \<Rightarrow> arm F bad (bls_key p) [FBls12381] VBls12381
      | Ed25519 _ \<Rightarrow> arm F bad True [FCurve25519] VEd25519
      | Secp256K1 _ \<Rightarrow> arm F bad True [FSecp256k1] VSecp256K1
      | Chacha20Poly1305 \<Rightarrow> arm F bad True [FChacha20] VChacha20
      | SlhDsa _ p \<Rightarrow> arm F bad (spart_key p) [FSlhDsa] VSlhDsa
      | MlDsa _ p \<Rightarrow> arm F bad (spart_key p) [FMlDsa] VMlDsa
      | Mayo _ p \<Rightarrow> arm F bad (spart_key p) [FMayo] VMayo
      | FnDsa _ p \<Rightarrow> arm F bad (spart_key p) [FFnDsa] VFnDsa
      | Mlkem _ _ \<Rightarrow> arm F bad True [FMlKem] VMlKem
      | Sntrup _ _ \<Rightarrow> arm F bad True [FSntrup] VSntrup
      | Mceliece348864 _ \<Rightarrow> arm F bad True [FDeprecated] VClassicMceliece
      | FrodoKem _ _ \<Rightarrow> arm F bad True [FFrodokem] VFrodokem
      | X25519 _ \<Rightarrow> arm F bad True [FCurve25519] VX25519
      | X25519Sntrup761 _ \<Rightarrow> arm F bad True [FCurve25519, FSntrup] VX25519Sntrup761
      | X25519Frodokem640 _ _ \<Rightarrow> arm F bad True [FCurve25519, FFrodokem] VX25519Frodokem640
      | X25519Mceliece348864 _ \<Rightarrow> arm F bad True [FCurve25519, FDeprecated] VX25519Mceliece348864
      | X25519Mlkem768 _ \<Rightarrow> arm F bad True [FCurve25519, FMlKem] VX25519Mlkem768
      | Ed25519Mayo2 p \<Rightarrow> arm F bad (spart_key p) [FCurve25519, FMayo] VEd25519Mayo2
      | Ed25519Mldsa65 p \<Rightarrow> arm F bad (spart_key p) [FCurve25519, FMlDsa] VEd25519Mldsa65
      | Bls12381G1Mldsa65 p \<Rightarrow> arm F bad (spart_key p) [FBls12381, FMlDsa] VBlsG1Mldsa65
      | Bls12381G1Fndsa512 p \<Rightarrow> arm F bad (spart_key p) [FBls12381, FFnDsa] VBlsG1Fndsa512
      | Bls12381G1Mayo1 p \<Rightarrow> arm F bad (spart_key p) [FBls12381, FMayo] VBlsG1Mayo1
      | Bls12381G1Mayo2 p \<Rightarrow> arm F bad (spart_key p) [FBls12381, FMayo] VBlsG1Mayo2
      | Ed25519Fndsa512 p \<Rightarrow> arm F bad (spart_key p) [FCurve25519, FFnDsa] VEd25519Fndsa512
      | P256 _ \<Rightarrow> arm F bad True [FP256] VNistP
      | P384 _ \<Rightarrow> arm F bad True [FP384] VNistP
      | P521 _ \<Rightarrow> arm F bad True [FP521] VNistP
      | _ \<Rightarrow> fingerprint_view_rest F bad (mk_codec k))"

definition dispatch_seal_view :: "features \<Rightarrow> multikey \<Rightarrow> view res" where
  "dispatch_seal_view F k =
     (let bad = Err (Seal SeNotEncryptionKey) in
      case mk_codec k of
        Bls12381 _ p \<Rightarrow> arm F bad (p = BPub \<or> p = BPriv) [FBls12381] VBls12381
      | Mlkem _ _ \<Rightarrow> arm F bad True [FMlKem] VMlKem
      | Sntrup _ _ \<Rightarrow> arm F bad True [FSntrup] VSntrup
      | Mceliece348864 _ \<Rightarrow> arm F bad True [FDeprecated] VClassicMceliece
      | FrodoKem _ _ \<Rightarrow> arm F bad True [FFrodokem] VFrodokem
      | X25519 _ \<Rightarrow> arm F bad True [FCurve25519] VX25519
      | X25519Sntrup761 _ \<Rightarrow> arm F bad True [FCurve25519, FSntrup] VX25519Sntrup761
      | X25519Frodokem640 _ _ \<Rightarrow> arm F bad True [FCurve25519, FFrodokem] VX25519Frodokem640
      | X25519Mceliece348864 _ \<Rightarrow> arm F bad True [FCurve25519, FDeprecated] VX25519Mceliece348864
      | X25519Mlkem768 _ \<Rightarrow> arm F bad True [FCurve25519, FMlKem] VX25519Mlkem768
      | Rsa _ _ \<Rightarrow> arm F bad True [FRsa] VRsa
      | P256 _ \<Rightarrow> arm F bad True [FP256] VNistP
      | P384 _ \<Rightarrow> arm F bad True [FP384] VNistP
      | P521 _ \<Rightarrow> arm F bad True [FP521] VNistP
      | Secp256K1 _ \<Rightarrow> arm F bad True [FSecp256k1] VSecp256K1
      | _ \<Rightarrow> bad)"

definition dispatch_open_view :: "features \<Rightarrow> multikey \<Rightarrow> view res" where
  "dispatch_open_view F k =
     (let bad = Err (Seal SeNotEncryptionKey) in
      case mk_codec k of
        Bls12381 _ p \<Rightarrow> arm F bad (p = BPub \<or> p = BPriv) [FBls12381] VBls12381
      | Mlkem _ _ \<Rightarrow> arm F bad True [FMlKem] VMlKem
      | Sntrup _ _ \<Rightarrow> arm F bad True [FSntrup] VSntrup
      | Mceliece348864 _ \<Rightarrow> arm F bad True [FDeprecated] VClassicMceliece
      | FrodoKem _ _ \<Rightarrow> arm F bad True [FFrodokem] VFrodokem
      | X25519 _ \<Rightarrow> arm F bad True [FCurve25519] VX25519
      | X25519Sntrup761 _ \<Rightarrow> arm F bad True [FCurve25519, FSntrup] VX25519Sntrup761
      | X25519Frodokem640 _ _ \<Rightarrow> arm F bad True [FCurve25519, FFrodokem] VX25519Frodokem640
      | X25519Mceliece348864 _ \<Rightarrow> arm F bad True [FCurve25519, FDeprecated] VX25519Mceliece348864
      | X25519Mlkem768 _ \<Rightarrow> arm F bad True [FCurve25519, FMlKem] VX25519Mlkem768
      | Rsa _ _ \<Rightarrow> arm F bad True [FRsa] VRsa
      | P256 _ \<Rightarrow> arm F bad True [FP256] VNistP
      | P384 _ \<Rightarrow> arm F bad True [FP384] VNistP
      | P521 _ \<Rightarrow> arm F bad True [FP521] VNistP
      | Secp256K1 _ \<Rightarrow> arm F bad True [FSecp256k1] VSecp256K1
      | _ \<Rightarrow> bad)"

definition sign_view_rest :: "features \<Rightarrow> view res \<Rightarrow> codec \<Rightarrow> view res" where
  "sign_view_rest F bad c =
     (case c of
        Rsa _ _ \<Rightarrow> arm F bad True [FRsa] VRsa
      | Lamport _ p \<Rightarrow> arm F bad (lpart_key p) [FLamport] VLamport
      | LamportMerkle _ p \<Rightarrow> arm F bad (lpart_key p) [FLamport] VLamportMerkle
      | Xmss _ p \<Rightarrow> arm F bad (spart_key p) [FXmss] VXmss
      | X25519 _ \<Rightarrow> arm F bad True [FCurve25519] VXeddsa
      | _ \<Rightarrow> bad)"

definition dispatch_sign_view :: "features \<Rightarrow> multikey \<Rightarrow> view res" where
  "dispatch_sign_view F k =
     (let bad = Err (Conversions (CvUnsupportedCodec (mk_codec k))) in
      case mk_codec k of
        Bls12381 _ p \<Rightarrow> arm F bad (bls_key p) [FBls12381] VBls12381
      | Ed25519 _ \<Rightarrow> arm F bad True [FCurve25519] VEd25519
      | Secp256K1 _ \<Rightarrow> arm F bad True [FSecp256k1] VSecp256K1
      | SlhDsa _ p \<Rightarrow> arm F bad (spart_key p) [FSlhDsa] VSlhDsa
      | MlDsa _ p \<Rightarrow> arm F bad (spart_key p) [FMlDsa] VMlDsa
      | Mayo _ p \<Rightarrow> arm F bad (spart_key p) [FMayo] VMayo
      | FnDsa _ p \<Rightarrow> arm F bad (spart_key p) [FFnDsa] VFnDsa
      | Ed25519Mayo2 p \<Rightarrow> arm F bad (spart_key p) [FCurve25519, FMayo] VEd25519Mayo2
      | Ed25519Mldsa65 p \<Rightarrow> arm F bad (spart_key p) [FCurve25519, FMlDsa] VEd25519Mldsa65
      | Bls12381G1Mldsa65 p \<Rightarrow> arm F bad (spart_key p) [FBls12381, FMlDsa] VBlsG1Mldsa65
      | Bls12381G1Fndsa512 p \<Rightarrow> arm F bad (spart_key p) [FBls12381, FFnDsa] VBlsG1Fndsa512
      | Bls12381G1Mayo1 p \<Rightarrow> arm F bad (spart_key p) [FBls12381, FMayo] VBlsG1Mayo1
      | Bls12381G1Mayo2 p \<Rightarrow> arm F bad (spart_key p) [FBls12381, FMayo] VBlsG1Mayo2
      | Ed25519Fndsa512 p \<Rightarrow> arm F bad (spart_key p) [FCurve25519, FFnDsa] VEd25519Fndsa512
      | P256 _ \<Rightarrow> arm F bad True [FP256] VNistP
      | P384 _ \<Rightarrow> arm F bad True [FP384] VNistP
      | P521 _ \<Rightarrow> arm F bad True [FP521] VNistP
      | _ \<Rightarrow> sign_view_rest F bad (mk_codec k))"

definition dispatch_threshold_view :: "features \<Rightarrow> multikey \<Rightarrow> view res" where
  "dispatch_threshold_view F k =
     (let bad = Err (Conversions (CvUnsupportedCodec (mk_codec k))) in
      case mk_codec k of
        Bls12381 _ p \<Rightarrow> arm F bad (p = BPriv) [FBls12381] VBls12381
      | Lamport _ p \<Rightarrow> arm F bad (lpart_key p) [FLamport] VLamport
      | LamportMerkle _ p \<Rightarrow> arm F bad (lpart_key p) [FLamport] VLamportMerkle
      | _ \<Rightarrow> bad)"

definition verify_view_rest :: "features \<Rightarrow> view res \<Rightarrow> codec \<Rightarrow> view res" where
  "verify_view_rest F bad c =
     (case c of
        Rsa _ _ \<Rightarrow> arm F bad True [FRsa] VRsa
      | Lamport _ p \<Rightarrow> arm F bad (lpart_key p) [FLamport] VLamport
      | LamportMerkle _ p \<Rightarrow> arm F bad (lpart_key p) [FLamport] VLamportMerkle
      | Xmss _ p \<Rightarrow> arm F bad (spart_key p) [FXmss] VXmss
      | X25519 _ \<Rightarrow> arm F bad True [FCurve25519] VXeddsa
      | _ \<Rightarrow> bad)"

definition dispatch_verify_view :: "features \<Rightarrow> multikey \<Rightarrow> view res" where
  "dispatch_verify_view F k =
     (let bad = Err (Conversions (CvUnsupportedCodec (mk_codec k))) in
      case mk_codec k of
        Bls12381 _ p \<Rightarrow> arm F bad (bls_key p) [FBls12381] VBls12381
      | Ed25519 _ \<Rightarrow> arm F bad True [FCurve25519] VEd25519
      | Secp256K1 _ \<Rightarrow> arm F bad True [FSecp256k1] VSecp256K1
      | SlhDsa _ p \<Rightarrow> arm F bad (spart_key p) [FSlhDsa] VSlhDsa
      | MlDsa _ p \<Rightarrow> arm F bad (spart_key p) [FMlDsa] VMlDsa
      | Mayo _ p \<Rightarrow> arm F bad (spart_key p) [FMayo] VMayo
      | FnDsa _ p \<Rightarrow> arm F bad (spart_key p) [FFnDsa] VFnDsa
      | Ed25519Mayo2 p \<Rightarrow> arm F bad (spart_key p) [FCurve25519, FMayo] VEd25519Mayo2
      | Ed25519Mldsa65 p \<Rightarrow> arm F bad (spart_key p) [FCurve25519, FMlDsa] VEd25519Mldsa65
      | Bls12381G1Mldsa65 p \<Rightarrow> arm F bad (spart_key p) [FBls12381, FMlDsa] VBlsG1Mldsa65
      | Bls12381G1Fndsa512 p \<Rightarrow> arm F bad (spart_key p) [FBls12381, FFnDsa] VBlsG1Fndsa512
      | Bls12381G1Mayo1 p \<Rightarrow> arm F bad (spart_key p) [FBls12381, FMayo] VBlsG1Mayo1
      | Bls12381G1Mayo2 p \<Rightarrow> arm F bad (spart_key p) [FBls12381, FMayo] VBlsG1Mayo2
      | Ed25519Fndsa512 p \<Rightarrow> arm F bad (spart_key p) [FCurve25519, FFnDsa] VEd25519Fndsa512
      | P256 _ \<Rightarrow> arm F bad True [FP256] VNistP
      | P384 _ \<Rightarrow> arm F bad True [FP384] VNistP
      | P521 _ \<Rightarrow> arm F bad True [FP521] VNistP
      | _ \<Rightarrow> verify_view_rest F bad (mk_codec k))"

definition dispatch_merkle_state_view :: "features \<Rightarrow> multikey \<Rightarrow> view res" where
  "dispatch_merkle_state_view F k =
     (let bad = Err (Conversions (CvUnsupportedCodec (mk_codec k))) in
      case mk_codec k of
        LamportMerkle _ p \<Rightarrow> arm F bad (p = LPub \<or> p = LPriv) [FLamport] VLamportMerkle
      | _ \<Rightarrow> bad)"

declare attr_view_rest_def [simp] data_view_rest_def [simp] conv_view_rest_def [simp]
  fingerprint_view_rest_def [simp] sign_view_rest_def [simp] verify_view_rest_def [simp]

text \<open>
  The cipher and kdf attribute views look at the codec stored in the attributes first, and at the
  codec of the key only without one. Each has a single module, so success is the unit value.
\<close>

definition attr_or_own_codec :: "wire \<Rightarrow> attr_id \<Rightarrow> multikey \<Rightarrow> codec res" where
  "attr_or_own_codec W a k =
     (case get_attr k a of
        Some bs \<Rightarrow> map_err Multicodec (codec_of W bs)
      | None \<Rightarrow> Ok (mk_codec k))"

definition dispatch_cipher_attr_view :: "features \<Rightarrow> wire \<Rightarrow> multikey \<Rightarrow> unit res" where
  "dispatch_cipher_attr_view F W k =
     and_then (attr_or_own_codec W CipherCodec k) (\<lambda>c.
     arm F (Err (Cipher (CiUnsupportedCodec c))) (c = Chacha20Poly1305) [FChacha20] ())"

definition dispatch_kdf_attr_view :: "features \<Rightarrow> wire \<Rightarrow> multikey \<Rightarrow> unit res" where
  "dispatch_kdf_attr_view F W k =
     and_then (attr_or_own_codec W KdfCodec k) (\<lambda>c.
     arm F (Err (Kdf (KdUnsupportedCodec c))) (c = BcryptPbkdf) [FBcrypt] ())"

text \<open>The cipher and the kdf view go by the codec of the second key.\<close>

definition dispatch_cipher_view :: "features \<Rightarrow> multikey \<Rightarrow> multikey \<Rightarrow> unit res" where
  "dispatch_cipher_view F k cipher =
     arm F (Err (Cipher (CiUnsupportedCodec (mk_codec cipher))))
       (mk_codec cipher = Chacha20Poly1305) [FChacha20] ()"

definition dispatch_kdf_view :: "features \<Rightarrow> multikey \<Rightarrow> multikey \<Rightarrow> unit res" where
  "dispatch_kdf_view F k kdf =
     arm F (Err (Kdf (KdUnsupportedCodec (mk_codec kdf)))) (mk_codec kdf = BcryptPbkdf) [FBcrypt] ()"

text \<open>Threshold attributes come from the BLS shares or from a DKG share.\<close>

datatype threshold_attr_impl = TABls12381 | TADkg

definition is_dkg_share :: "codec \<Rightarrow> bool" where
  "is_dkg_share c \<longleftrightarrow> (case c of Thresh _ p \<Rightarrow> p = Priv | _ \<Rightarrow> False)"

definition dispatch_threshold_attr_view :: "features \<Rightarrow> multikey \<Rightarrow> threshold_attr_impl res" where
  "dispatch_threshold_attr_view F k =
     (let bad = Err (Conversions (CvUnsupportedCodec (mk_codec k))) in
      case mk_codec k of
        Bls12381 _ p \<Rightarrow> arm F bad (bls_key p) [FBls12381] TABls12381
      | Thresh _ p \<Rightarrow> arm F bad (p = Priv) [] TADkg
      | _ \<Rightarrow> bad)"

definition dispatch_threshold_key_view :: "features \<Rightarrow> multikey \<Rightarrow> unit res" where
  "dispatch_threshold_key_view F k =
     arm F (Err (Conversions (CvUnsupportedCodec (mk_codec k)))) (is_dkg_share (mk_codec k)) [] ()"

section \<open>Facts about the dispatch\<close>

lemma arm_eq_Ok [outcome_simps]:
  "arm F (Err e) g fs v = Ok w \<longleftrightarrow> g \<and> set fs \<subseteq> F \<and> w = v"
  by (auto simp: arm_def)

lemma arm_no_panic [simp]: "arm F (Err e) g fs v \<noteq> Panic"
  by (simp add: arm_def)

lemmas dispatch_table_defs = dispatch_attr_view_def dispatch_data_view_def dispatch_conv_view_def
  dispatch_fingerprint_view_def dispatch_seal_view_def dispatch_open_view_def dispatch_sign_view_def
  dispatch_threshold_view_def dispatch_verify_view_def dispatch_merkle_state_view_def

lemmas key_part_defs = bls_key_def spart_key_def lpart_key_def

lemma dispatch_data_eq_attr:
  "dispatch_data_view F k =
     map_err (\<lambda>_. Conversions (CvUnsupportedCodec (mk_codec k))) (dispatch_attr_view F k)"
  by (cases "mk_codec k") (simp_all add: dispatch_data_view_def dispatch_attr_view_def arm_def)

lemma dispatch_data_eq_Ok: "dispatch_data_view F k = Ok v \<longleftrightarrow> dispatch_attr_view F k = Ok v"
  by (simp add: dispatch_data_eq_attr outcome_simps)

lemma dispatch_attr_codec:
  assumes "mk_codec k = mk_codec l"
  shows "dispatch_attr_view F k = dispatch_attr_view F l"
  unfolding dispatch_attr_view_def assms by (rule refl)

lemma dispatch_data_codec:
  assumes "mk_codec k = mk_codec l"
  shows "dispatch_data_view F k = dispatch_data_view F l"
  unfolding dispatch_data_view_def assms by (rule refl)

lemma dispatch_attr_no_panic [simp]: "dispatch_attr_view F k \<noteq> Panic"
  by (cases "mk_codec k") (simp_all add: dispatch_attr_view_def)

text \<open>
  A view that the dispatcher opens, with its methods. This is how the other components use it.
\<close>

definition attr_view :: "features \<Rightarrow> wire \<Rightarrow> multikey \<Rightarrow> key_view res" where
  "attr_view F W k = and_then (dispatch_attr_view F k) (\<lambda>v. Ok (view_methods W v k))"

definition data_view :: "features \<Rightarrow> wire \<Rightarrow> multikey \<Rightarrow> key_view res" where
  "data_view F W k = and_then (dispatch_data_view F k) (\<lambda>v. Ok (view_methods W v k))"

lemma data_view_eq_Ok: "data_view F W k = Ok kv \<longleftrightarrow> attr_view F W k = Ok kv"
  by (simp add: data_view_def attr_view_def outcome_simps dispatch_data_eq_Ok)

lemma attr_view_no_panic [simp]: "attr_view F W k \<noteq> Panic"
  by (simp add: attr_view_def and_then_eq_Panic)

lemma data_view_no_panic [simp]: "data_view F W k \<noteq> Panic"
  by (simp add: data_view_def and_then_eq_Panic dispatch_data_eq_attr)
     (cases "dispatch_attr_view F k"; simp)

text \<open>Which module serves a codec, as seen from the module.\<close>

lemma dispatch_attr_codecs:
  "dispatch_attr_view F k = Ok VEd25519 \<Longrightarrow> \<exists>p. mk_codec k = Ed25519 p"
  "dispatch_attr_view F k = Ok VChacha20 \<Longrightarrow> mk_codec k = Chacha20Poly1305"
  "dispatch_attr_view F k = Ok VLamportMerkle \<Longrightarrow>
     \<exists>d p. mk_codec k = LamportMerkle d p \<and> lpart_key p"
  by (cases "mk_codec k"; simp add: dispatch_attr_view_def outcome_simps)+

lemma dispatch_attr_chacha20:
  "mk_codec k = Chacha20Poly1305 \<Longrightarrow>
   dispatch_attr_view F k = arm F (Err (Attributes (AUnsupportedCodec (mk_codec k)))) True [FChacha20] VChacha20"
  by (simp add: dispatch_attr_view_def)

section \<open>Properties\<close>

text \<open>
  The attribute view and the data view of a key are always implemented by the same module; the
  two dispatchers differ only in the error they return for an unsupported codec.
\<close>

theorem dispatch_attr_data_agree:
  "dispatch_data_view F k =
     map_err (\<lambda>_. Conversions (CvUnsupportedCodec (mk_codec k))) (dispatch_attr_view F k)"
  by (rule dispatch_data_eq_attr)

text \<open>
  Signing and verifying, and sealing and opening, are supported for the same codecs by the same
  modules, in every build configuration.
\<close>

theorem dispatch_operation_pairs:
  "dispatch_sign_view F k = dispatch_verify_view F k \<and> dispatch_seal_view F k = dispatch_open_view F k"
  unfolding dispatch_sign_view_def dispatch_verify_view_def dispatch_seal_view_def dispatch_open_view_def
    sign_view_rest_def verify_view_rest_def by (rule conjI refl)+

text \<open>
  Every key that can sign, seal, be converted, be split or report a signature state has an
  attribute view in the same build, so that the checks on the private, public and encrypted status
  of a key that those operations make first cannot fail for want of a view.
\<close>

lemma dispatch_operations_have_attr_view:
  "is_ok (dispatch_sign_view F k) \<or> is_ok (dispatch_seal_view F k) \<or> is_ok (dispatch_conv_view F k) \<or>
   is_ok (dispatch_threshold_view F k) \<or> is_ok (dispatch_merkle_state_view F k) \<longrightarrow>
   is_ok (dispatch_attr_view F k)"
  by (cases "mk_codec k") (auto simp: dispatch_table_defs key_part_defs arm_def)

lemma dispatch_operations_have_attr_view_witness:
  "is_ok (dispatch_attr_view {FCurve25519} example_key)"
  using dispatch_operations_have_attr_view [of "{FCurve25519}" example_key]
  by (simp add: dispatch_sign_view_def arm_def example_key_def)

text \<open>
  No view ever gives out the key bytes of a public key as secret bytes, and no view takes a key
  for secret and public at once.
\<close>

lemma public_key_has_no_secret_bytes:
  assumes "attr_view F W k = Ok kv" and "is_public_key kv"
  shows "\<not> is_secret_key kv \<and> secret_bytes kv = Err (Attributes (ANotSecretKey (mk_codec k)))"
proof -
  obtain v where v: "dispatch_attr_view F k = Ok v" and kv: "kv = view_methods W v k"
    using assms(1) by (auto simp: attr_view_def outcome_simps)
  show ?thesis
    using assms(2) unfolding kv
    by (cases v)
       (auto simp: view_defs sealed_view_def plain_view_def codec_part_defs split: codec.splits)
qed

lemma public_key_has_no_secret_bytes_witness:
  "\<not> is_secret_key (ed25519_view leb_wire example_key) \<and>
   secret_bytes (ed25519_view leb_wire example_key) = Err (Attributes (ANotSecretKey (mk_codec example_key)))"
  by (rule public_key_has_no_secret_bytes [of "{FCurve25519}"])
     (simp_all add: attr_view_def dispatch_attr_view_def arm_def example_key_def ed25519_view_def
       sealed_view_def)

end
