(* ===== verification/Mk_Cipher.thy ===== *)
theory Mk_Cipher
  imports Mk_Dispatch
begin

text \<open>
  Encryption of keys at rest: the cipher and kdf builders (\<^verbatim>\<open>src/cipher.rs\<close>, \<^verbatim>\<open>src/kdf.rs\<close>), key
  derivation (\<^verbatim>\<open>src/views/bcrypt.rs\<close>) and the ChaCha20-Poly1305 cipher view
  (\<^verbatim>\<open>src/views/chacha20.rs\<close>). The ciphers and bcrypt-pbkdf are external crates and a parameter
  (\<open>cipher_lib\<close>). The lemmas show the round trip through the self-describing attributes, what an
  encrypted key gives out, and the codecs for which an encrypted key cannot be decrypted.
\<close>

section \<open>The external functions\<close>

record cipher_lib =
  chacha_encrypt :: "bytes \<Rightarrow> bytes \<Rightarrow> bytes \<Rightarrow> bytes option"  \<comment> \<open>key, nonce, plaintext\<close>
  chacha_decrypt :: "bytes \<Rightarrow> bytes \<Rightarrow> bytes \<Rightarrow> bytes option"  \<comment> \<open>key, nonce, ciphertext and tag\<close>
  chacha_stream :: "bytes \<Rightarrow> bytes \<Rightarrow> bytes \<Rightarrow> bytes"          \<comment> \<open>bare ChaCha20\<close>
  bcrypt_pbkdf :: "bytes \<Rightarrow> bytes \<Rightarrow> nat \<Rightarrow> nat \<Rightarrow> (lib_error, bytes) outcome"
    \<comment> \<open>passphrase, salt, rounds (u32), length of the output buffer\<close>

text \<open>Documented behaviour: decryption with the same key and nonce inverts encryption; the derived
  key fills the buffer.\<close>

definition cipher_lib_ok :: "cipher_lib \<Rightarrow> bool" where
  "cipher_lib_ok A \<longleftrightarrow>
     (\<forall>key nonce msg ct. chacha_encrypt A key nonce msg = Some ct \<longrightarrow>
        chacha_decrypt A key nonce ct = Some msg)
   \<and> (\<forall>p s r n key. bcrypt_pbkdf A p s r n = Ok key \<longrightarrow> length key = n)"

definition KEY_SIZE :: nat where "KEY_SIZE = 32"
definition SALT_LENGTH :: nat where "SALT_LENGTH = 32"

text \<open>\<^verbatim>\<open>Nonce::clone_from_slice\<close> panics unless the slice has the twelve bytes of a ChaCha20 nonce.\<close>

definition nonce_clone_from_slice :: "bytes \<Rightarrow> bytes res" where
  "nonce_clone_from_slice bs = (if length bs = 12 then Ok bs else Panic)"

section \<open>The cipher builder\<close>

record cipher_builder =
  cb_codec :: codec
  cb_key_length :: "bytes option"
  cb_nonce :: "bytes option"

definition cipher_builder_new :: "codec \<Rightarrow> cipher_builder" where
  "cipher_builder_new c = \<lparr>cb_codec = c, cb_key_length = None, cb_nonce = None\<rparr>"

definition cipher_try_from_multikey :: "wire \<Rightarrow> cipher_builder \<Rightarrow> multikey \<Rightarrow> cipher_builder res" where
  "cipher_try_from_multikey W b k =
     and_then (ok_or (Cipher CiMissingCodec) (get_attr k CipherCodec)) (\<lambda>v.
     and_then (map_err Multicodec (codec_of W v)) (\<lambda>c.
     let b = b\<lparr>cb_codec := c\<rparr>;
         b = (case get_attr k CipherKeyLen of Some v \<Rightarrow> b\<lparr>cb_key_length := Some v\<rparr> | None \<Rightarrow> b);
         b = (case get_attr k CipherNonce of Some v \<Rightarrow> b\<lparr>cb_nonce := Some v\<rparr> | None \<Rightarrow> b)
     in Ok b))"

definition cipher_with_nonce :: "cipher_builder \<Rightarrow> bytes \<Rightarrow> cipher_builder" where
  "cipher_with_nonce b nonce = b\<lparr>cb_nonce := Some nonce\<rparr>"

text \<open>The generator fills a buffer of the given length; \<open>fill\<close> is its answer.\<close>

definition cipher_with_random_nonce :: "cipher_builder \<Rightarrow> nat \<Rightarrow> (nat \<Rightarrow> bytes) \<Rightarrow> cipher_builder" where
  "cipher_with_random_nonce b len fill = b\<lparr>cb_nonce := Some (fill len)\<rparr>"

definition insert_some :: "attr_id \<Rightarrow> bytes option \<Rightarrow> attributes \<Rightarrow> attributes" where
  "insert_some a v m = (case v of Some bs \<Rightarrow> attr_insert a bs m | None \<Rightarrow> m)"

definition cipher_try_build :: "cipher_builder \<Rightarrow> multikey res" where
  "cipher_try_build b =
     Ok \<lparr>mk_codec = cb_codec b, mk_comment = [],
         mk_attributes = insert_some CipherNonce (cb_nonce b)
           (insert_some CipherKeyLen (cb_key_length b) Map.empty)\<rparr>"

section \<open>The kdf builder\<close>

record kdf_builder =
  kb_codec :: codec
  kb_salt :: "bytes option"
  kb_rounds :: "bytes option"

definition kdf_builder_new :: "codec \<Rightarrow> kdf_builder" where
  "kdf_builder_new c = \<lparr>kb_codec = c, kb_salt = None, kb_rounds = None\<rparr>"

definition kdf_try_from_multikey :: "wire \<Rightarrow> kdf_builder \<Rightarrow> multikey \<Rightarrow> kdf_builder res" where
  "kdf_try_from_multikey W b k =
     and_then (ok_or (Kdf KdMissingCodec) (get_attr k KdfCodec)) (\<lambda>v.
     and_then (map_err Multicodec (codec_of W v)) (\<lambda>c.
     let b = b\<lparr>kb_codec := c\<rparr>;
         b = (case get_attr k KdfSalt of Some v \<Rightarrow> b\<lparr>kb_salt := Some v\<rparr> | None \<Rightarrow> b);
         b = (case get_attr k KdfRounds of Some v \<Rightarrow> b\<lparr>kb_rounds := Some v\<rparr> | None \<Rightarrow> b)
     in Ok b))"

definition kdf_with_salt :: "kdf_builder \<Rightarrow> bytes \<Rightarrow> kdf_builder" where
  "kdf_with_salt b salt = b\<lparr>kb_salt := Some salt\<rparr>"

definition kdf_with_random_salt :: "kdf_builder \<Rightarrow> nat \<Rightarrow> (nat \<Rightarrow> bytes) \<Rightarrow> kdf_builder" where
  "kdf_with_random_salt b len fill = b\<lparr>kb_salt := Some (fill len)\<rparr>"

definition kdf_with_rounds :: "wire \<Rightarrow> kdf_builder \<Rightarrow> nat \<Rightarrow> kdf_builder" where
  "kdf_with_rounds W b rounds = b\<lparr>kb_rounds := Some (put_uint W rounds)\<rparr>"

definition kdf_try_build :: "kdf_builder \<Rightarrow> multikey res" where
  "kdf_try_build b =
     Ok \<lparr>mk_codec = kb_codec b, mk_comment = [],
         mk_attributes = insert_some KdfRounds (kb_rounds b)
           (insert_some KdfSalt (kb_salt b) Map.empty)\<rparr>"

section \<open>The attribute views of the ChaCha20 and bcrypt modules\<close>

definition cipher_nonce_bytes :: "multikey \<Rightarrow> bytes res" where
  "cipher_nonce_bytes k =
     and_then (ok_or (Cipher CiMissingNonce) (get_attr k CipherNonce)) nonce_clone_from_slice"

definition cipher_key_length :: "multikey \<Rightarrow> nat res" where
  "cipher_key_length k = Ok KEY_SIZE"

text \<open>The bcrypt module answers with its own codec; salt and rounds come from the attributes.\<close>

definition kdf_codec_attr :: "multikey \<Rightarrow> codec res" where
  "kdf_codec_attr k = Ok BcryptPbkdf"

definition kdf_salt_bytes :: "multikey \<Rightarrow> bytes res" where
  "kdf_salt_bytes k =
     and_then (ok_or (Kdf KdMissingSalt) (get_attr k KdfSalt)) (\<lambda>salt.
     if length salt \<noteq> SALT_LENGTH then Err (Kdf KdInvalidSaltLen) else Ok salt)"

definition kdf_rounds :: "wire \<Rightarrow> multikey \<Rightarrow> nat res" where
  "kdf_rounds W k =
     and_then (ok_or (Kdf KdMissingRounds) (get_attr k KdfRounds)) (\<lambda>r.
     map_err Multiutil (usize_of W r))"

section \<open>Key derivation\<close>

text \<open>\<^verbatim>\<open>KdfView::derive_key\<close> of the bcrypt module; \<^verbatim>\<open>rounds as u32\<close> keeps the low 32 bits.\<close>

definition derive_key ::
  "features \<Rightarrow> wire \<Rightarrow> cipher_lib \<Rightarrow> multikey \<Rightarrow> multikey option \<Rightarrow> bytes \<Rightarrow> multikey res" where
  "derive_key F W A k kdf_key passphrase =
     and_then (ok_or (Kdf KdMissingCodec) kdf_key) (\<lambda>kdf.
     and_then (dispatch_kdf_attr_view F W kdf) (\<lambda>_.
     and_then (kdf_salt_bytes kdf) (\<lambda>salt.
     and_then (kdf_rounds W kdf) (\<lambda>rounds.
     and_then (dispatch_cipher_attr_view F W k) (\<lambda>_.
     and_then (cipher_key_length k) (\<lambda>key_length.
     and_then (map_err (\<lambda>e. Kdf (KdBcrypt e))
        (bcrypt_pbkdf A passphrase salt (rounds mod 2 ^ 32) key_length)) (\<lambda>key.
     let attrs = attr_insert KeyData key (mk_attributes k);
         attrs = attr_remove KeyIsEncrypted attrs;
         attrs = attr_insert KdfCodec (put_codec W (mk_codec kdf)) attrs;
         attrs = attr_insert KdfSalt salt attrs;
         attrs = attr_insert KdfRounds (put_uint W rounds) attrs
     in Ok (k\<lparr>mk_attributes := attrs\<rparr>))))))))"

section \<open>Encryption and decryption\<close>

text \<open>The key and the nonce that the second multikey carries, with the length check on the key.\<close>

definition cipher_nonce :: "features \<Rightarrow> wire \<Rightarrow> multikey \<Rightarrow> bytes res" where
  "cipher_nonce F W cipher =
     and_then (dispatch_cipher_attr_view F W cipher) (\<lambda>_. cipher_nonce_bytes cipher)"

definition cipher_key :: "features \<Rightarrow> wire \<Rightarrow> multikey \<Rightarrow> multikey \<Rightarrow> bytes res" where
  "cipher_key F W k cipher =
     and_then (data_view F W cipher) (\<lambda>kd.
     and_then (secret_bytes kd) (\<lambda>key.
     and_then (cipher_key_length k) (\<lambda>n.
     if length key \<noteq> n then Err (Cipher CiInvalidKey) else Ok key)))"

definition encrypt ::
  "features \<Rightarrow> wire \<Rightarrow> cipher_lib \<Rightarrow> multikey \<Rightarrow> multikey option \<Rightarrow> multikey res" where
  "encrypt F W A k cipher_mk =
     and_then (ok_or (Cipher CiMissingCodec) cipher_mk) (\<lambda>cipher.
     and_then (attr_view F W k) (\<lambda>attr.
     if is_encrypted attr then Err (Cipher (CiEncryptionFailed ''key is encrypted already''))
     else
     and_then (cipher_nonce F W cipher) (\<lambda>nonce.
     and_then (cipher_key F W k cipher) (\<lambda>key.
     and_then (data_view F W k) (\<lambda>kd.
     and_then (secret_bytes kd) (\<lambda>msg.
     and_then (ok_or (Cipher (CiEncryptionFailed ''AEAD seal failed''))
        (chacha_encrypt A key nonce msg)) (\<lambda>enc.
     and_then (dispatch_cipher_attr_view F W cipher) (\<lambda>_.
     and_then (cipher_key_length cipher) (\<lambda>key_length.
     and_then (dispatch_kdf_attr_view F W cipher) (\<lambda>_.
     and_then (kdf_codec_attr cipher) (\<lambda>kdf_codec.
     and_then (kdf_salt_bytes cipher) (\<lambda>salt.
     and_then (kdf_rounds W cipher) (\<lambda>rounds.
     let attrs = attr_insert KeyIsEncrypted (put_bool W True) (mk_attributes k);
         attrs = attr_insert KeyData enc attrs;
         attrs = attr_insert CipherCodec (put_codec W (mk_codec cipher)) attrs;
         attrs = attr_insert CipherKeyLen (put_uint W key_length) attrs;
         attrs = attr_insert CipherNonce nonce attrs;
         attrs = attr_insert KdfCodec (put_codec W kdf_codec) attrs;
         attrs = attr_insert KdfSalt salt attrs;
         attrs = attr_insert KdfRounds (put_uint W rounds) attrs
     in Ok (k\<lparr>mk_attributes := attrs\<rparr>))))))))))))))"

definition cipher_attr_ids :: "attr_id set" where
  "cipher_attr_ids = {KeyIsEncrypted, CipherCodec, CipherKeyLen, CipherNonce, KdfCodec, KdfSalt, KdfRounds}"

text \<open>
  The authenticated decryption, and under the \<^verbatim>\<open>legacy_chacha20_fallback\<close> feature the bare stream
  cipher when the authentication fails.
\<close>

definition open_ciphertext ::
  "features \<Rightarrow> cipher_lib \<Rightarrow> bytes \<Rightarrow> bytes \<Rightarrow> bytes \<Rightarrow> bytes res" where
  "open_ciphertext F A key nonce msg =
     (case chacha_decrypt A key nonce msg of
        Some pt \<Rightarrow> Ok pt
      | None \<Rightarrow> if FLegacyChacha20Fallback \<in> F then Ok (chacha_stream A key nonce msg)
                else Err (Cipher CiDecryptionFailed))"

definition decrypt ::
  "features \<Rightarrow> wire \<Rightarrow> cipher_lib \<Rightarrow> multikey \<Rightarrow> multikey option \<Rightarrow> multikey res" where
  "decrypt F W A k cipher_mk =
     and_then (ok_or (Cipher CiMissingCodec) cipher_mk) (\<lambda>cipher.
     and_then (attr_view F W k) (\<lambda>attr.
     if \<not> is_encrypted attr \<or> \<not> is_secret_key attr then Err (Cipher CiDecryptionFailed)
     else
     and_then (cipher_nonce F W cipher) (\<lambda>nonce.
     and_then (cipher_key F W k cipher) (\<lambda>key.
     and_then (data_view F W k) (\<lambda>kd.
     and_then (key_bytes kd) (\<lambda>msg.
     and_then (open_ciphertext F A key nonce msg) (\<lambda>dec.
     let attrs = attr_remove KeyIsEncrypted (mk_attributes k);
         attrs = attr_insert KeyData dec attrs;
         attrs = attr_remove CipherCodec attrs;
         attrs = attr_remove CipherKeyLen attrs;
         attrs = attr_remove CipherNonce attrs;
         attrs = attr_remove KdfCodec attrs;
         attrs = attr_remove KdfSalt attrs;
         attrs = attr_remove KdfRounds attrs
     in Ok (k\<lparr>mk_attributes := attrs\<rparr>))))))))"


section \<open>The contract of sealing\<close>

text \<open>
  What a caller relies on when it seals a value and opens it later: whatever was sealed under a key
  opens to itself under that key. Three layers of the program have this contract: the cipher of this
  module, whole keys (below) and the sealed messages of the other modules.
\<close>

locale sealing =
  fixes seal :: "'k \<Rightarrow> 'm \<Rightarrow> ('e, 'c) outcome"
    and unseal :: "'k \<Rightarrow> 'c \<Rightarrow> ('e, 'm) outcome"
    and valid :: "'k \<Rightarrow> 'm \<Rightarrow> bool"
  assumes unseal_seal: "valid k m \<Longrightarrow> seal k m = Ok c \<Longrightarrow> unseal k c = Ok m"
begin

lemma seal_inject:
  "valid k m \<Longrightarrow> valid k m' \<Longrightarrow> seal k m = Ok c \<Longrightarrow> seal k m' = Ok c \<Longrightarrow> m = m'"
  using unseal_seal [of k m c] unseal_seal [of k m' c] by simp

lemma opened_value: "valid k m \<Longrightarrow> seal k m = Ok c \<Longrightarrow> unseal k c = Ok m' \<longleftrightarrow> m' = m"
  using unseal_seal [of k m c] by auto

end

definition seal_plaintext :: "cipher_lib \<Rightarrow> bytes \<times> bytes \<Rightarrow> bytes \<Rightarrow> bytes res" where
  "seal_plaintext A kn msg =
     ok_or (Cipher (CiEncryptionFailed ''AEAD seal failed'')) (chacha_encrypt A (fst kn) (snd kn) msg)"

interpretation chacha: sealing "seal_plaintext A" "\<lambda>(key, nonce). open_ciphertext F A key nonce"
  "\<lambda>_ _. cipher_lib_ok A" for A F
  by unfold_locales (auto simp: seal_plaintext_def open_ciphertext_def cipher_lib_ok_def outcome_simps)

section \<open>The views that look at the encryption flag\<close>

fun reads_flag :: "view \<Rightarrow> bool" where
  "reads_flag VBls12381 = True"
| "reads_flag VEd25519 = True"
| "reads_flag VSecp256K1 = True"
| "reads_flag VChacha20 = True"
| "reads_flag VNistP = True"
| "reads_flag VRsa = True"
| "reads_flag _ = False"

lemma flag_read:
  assumes "wire_ok W" and "reads_flag v" and "mk_attributes k KeyIsEncrypted = Some (put_bool W b)"
  shows "is_encrypted (view_methods W v k) = b"
  using assms
  by (cases v) (simp_all add: view_defs sealed_view_def encrypted_flag_def bls_encrypted_flag_def
      get_attr_def wire_ok_bool_nil wire_ok_bool_of)

lemma flag_absent: "mk_attributes k KeyIsEncrypted = None \<Longrightarrow> \<not> is_encrypted (view_methods W v k)"
  by (cases v) (simp_all add: view_defs sealed_view_def plain_view_def encrypted_flag_def
      bls_encrypted_flag_def get_attr_def)

lemma flag_not_read: "\<not> reads_flag v \<Longrightarrow> \<not> is_encrypted (view_methods W v k)"
  by (cases v) (simp_all add: view_defs sealed_view_def plain_view_def)

lemma is_secret_key_codec:
  "mk_codec k = mk_codec l \<Longrightarrow> is_secret_key (view_methods W v k) = is_secret_key (view_methods W v l)"
  by (cases v) (simp_all add: view_defs sealed_view_def plain_view_def)

lemma secret_bytes_encrypted:
  "is_secret_key (view_methods W v k) \<Longrightarrow> is_encrypted (view_methods W v k) \<Longrightarrow>
   secret_bytes (view_methods W v k) = Err (Attributes AEncryptedKey)"
  by (cases v) (simp_all add: view_defs sealed_view_def plain_view_def)

section \<open>What encryption does to a key\<close>

definition sealed_attributes ::
  "wire \<Rightarrow> codec \<Rightarrow> bytes \<Rightarrow> bytes \<Rightarrow> bytes \<Rightarrow> nat \<Rightarrow> attributes \<Rightarrow> attributes" where
  "sealed_attributes W c enc nonce salt rounds attrs =
     attr_insert KdfRounds (put_uint W rounds) (attr_insert KdfSalt salt
       (attr_insert KdfCodec (put_codec W BcryptPbkdf) (attr_insert CipherNonce nonce
         (attr_insert CipherKeyLen (put_uint W KEY_SIZE) (attr_insert CipherCodec (put_codec W c)
           (attr_insert KeyData enc (attr_insert KeyIsEncrypted (put_bool W True) attrs)))))))"

lemma sealed_attributes_apply:
  "sealed_attributes W c enc nonce salt rounds attrs a =
     (case a of
        KdfRounds \<Rightarrow> Some (put_uint W rounds) | KdfSalt \<Rightarrow> Some salt
      | KdfCodec \<Rightarrow> Some (put_codec W BcryptPbkdf) | CipherNonce \<Rightarrow> Some nonce
      | CipherKeyLen \<Rightarrow> Some (put_uint W KEY_SIZE) | CipherCodec \<Rightarrow> Some (put_codec W c)
      | KeyData \<Rightarrow> Some enc | KeyIsEncrypted \<Rightarrow> Some (put_bool W True) | _ \<Rightarrow> attrs a)"
  by (cases a) (simp_all add: sealed_attributes_def)

lemma encrypt_eq_Ok:
  "encrypt F W A k (Some cipher) = Ok k' \<longleftrightarrow>
   (\<exists>v nonce key msg enc salt rounds.
      dispatch_attr_view F k = Ok v \<and> \<not> is_encrypted (view_methods W v k)
    \<and> cipher_nonce F W cipher = Ok nonce \<and> cipher_key F W k cipher = Ok key
    \<and> secret_bytes (view_methods W v k) = Ok msg \<and> chacha_encrypt A key nonce msg = Some enc
    \<and> dispatch_kdf_attr_view F W cipher = Ok () \<and> kdf_salt_bytes cipher = Ok salt
    \<and> kdf_rounds W cipher = Ok rounds
    \<and> k' = k\<lparr>mk_attributes :=
             sealed_attributes W (mk_codec cipher) enc nonce salt rounds (mk_attributes k)\<rparr>)"
  unfolding encrypt_def sealed_attributes_def
  by (auto simp: outcome_simps attr_view_def data_view_def dispatch_data_eq_Ok cipher_key_length_def
      kdf_codec_attr_def cipher_nonce_def split: if_splits)


lemma cipher_key_any: "cipher_key F W k cipher = cipher_key F W l cipher"
  by (simp add: cipher_key_def cipher_key_length_def)

lemma encrypt_attributes:
  assumes "encrypt F W A k (Some cipher) = Ok k'"
  shows "mk_codec k' = mk_codec k" and "mk_comment k' = mk_comment k"
    and "mk_attributes k' KeyIsEncrypted = Some (put_bool W True)"
    and "a \<notin> insert KeyData cipher_attr_ids \<Longrightarrow> mk_attributes k' a = mk_attributes k a"
  using assms unfolding encrypt_eq_Ok
  by (auto simp: sealed_attributes_apply cipher_attr_ids_def split: attr_id.splits)

lemma encrypt_keeps_view:
  "encrypt F W A k (Some cipher) = Ok k' \<Longrightarrow> dispatch_attr_view F k' = dispatch_attr_view F k"
  using dispatch_attr_codec encrypt_attributes(1) by metis

lemma decrypt_eq_Ok:
  "decrypt F W A k (Some cipher) = Ok k' \<longleftrightarrow>
   (\<exists>v nonce key msg dec.
      dispatch_attr_view F k = Ok v \<and> is_encrypted (view_methods W v k)
    \<and> is_secret_key (view_methods W v k)
    \<and> cipher_nonce F W cipher = Ok nonce \<and> cipher_key F W k cipher = Ok key
    \<and> mk_attributes k KeyData = Some msg \<and> open_ciphertext F A key nonce msg = Ok dec
    \<and> k' = k\<lparr>mk_attributes := \<lambda>a. if a \<in> cipher_attr_ids then None
                else if a = KeyData then Some dec else mk_attributes k a\<rparr>)"
proof -
  have strip: "attr_remove KdfRounds (attr_remove KdfSalt (attr_remove KdfCodec (attr_remove CipherNonce
     (attr_remove CipherKeyLen (attr_remove CipherCodec (attr_insert KeyData dec
       (attr_remove KeyIsEncrypted m))))))) =
     (\<lambda>a. if a \<in> cipher_attr_ids then None else if a = KeyData then Some dec else m a)" for dec m
    by (rule ext) (simp add: cipher_attr_ids_def)
  show ?thesis
    unfolding decrypt_def strip Let_def
    by (auto simp: outcome_simps attr_view_def data_view_def dispatch_data_eq_Ok split: if_splits)
qed

lemma encrypt_decrypt:
  assumes A: "cipher_lib_ok A" and W: "wire_ok W"
    and v: "dispatch_attr_view F k = Ok v" "reads_flag v"
    and clean: "\<And>a. a \<in> cipher_attr_ids \<Longrightarrow> mk_attributes k a = None"
    and enc: "encrypt F W A k (Some cipher) = Ok k'"
  shows "decrypt F W A k' (Some cipher) = Ok k"
proof -
  obtain nonce key msg ct salt rounds where
    nonce: "cipher_nonce F W cipher = Ok nonce" and key: "cipher_key F W k cipher = Ok key"
    and msg: "secret_bytes (view_methods W v k) = Ok msg"
    and ct: "chacha_encrypt A key nonce msg = Some ct"
    and k': "k' = k\<lparr>mk_attributes :=
      sealed_attributes W (mk_codec cipher) ct nonce salt rounds (mk_attributes k)\<rparr>"
    using enc v(1) unfolding encrypt_eq_Ok by auto
  have data: "mk_attributes k KeyData = Some msg" and secret: "is_secret_key (view_methods W v k')"
    using secret_bytes_view_methods [OF msg] is_secret_key_codec [of k' k W v] k' by auto
  have "is_encrypted (view_methods W v k')"
    using flag_read [OF W v(2)] encrypt_attributes(3) [OF enc] by blast
  moreover have "open_ciphertext F A key nonce ct = Ok msg"
    using chacha.unseal_seal [OF A, of "(key, nonce)" msg ct F] ct by (simp add: seal_plaintext_def)
  moreover have "(\<lambda>a. if a \<in> cipher_attr_ids then None
      else if a = KeyData then Some msg else mk_attributes k' a) = mk_attributes k"
    using clean data encrypt_attributes(4) [OF enc] by (auto simp: fun_eq_iff)
  then have "k = k'\<lparr>mk_attributes := \<lambda>a. if a \<in> cipher_attr_ids then None
      else if a = KeyData then Some msg else mk_attributes k' a\<rparr>"
    unfolding k' by simp
  moreover have "mk_attributes k' KeyData = Some ct"
    by (simp add: k' sealed_attributes_apply)
  ultimately show ?thesis
    using nonce key v(1) secret encrypt_keeps_view [OF enc] cipher_key_any [of F W k' cipher k]
    unfolding decrypt_eq_Ok by auto
qed

text \<open>
  Whole keys meet the same contract: what is sealed is the key, under a second key. It is a contract for the keys
  whose view module reads the encryption flag (BLS, Ed25519, secp256k1, NIST, RSA and ChaCha20 keys, see
  \<open>reads_flag\<close>) and that have none of the attributes that encryption writes. The other modules answer that no key is
  encrypted, and what becomes of their keys is \<open>encrypt_without_flag_is_lost\<close> below.
\<close>

definition sealable :: "features \<Rightarrow> multikey \<Rightarrow> bool" where
  "sealable F k \<longleftrightarrow>
     (case dispatch_attr_view F k of Ok v \<Rightarrow> reads_flag v | _ \<Rightarrow> False)
   \<and> mk_attributes k KeyIsEncrypted = None \<and> mk_attributes k CipherCodec = None
   \<and> mk_attributes k CipherKeyLen = None \<and> mk_attributes k CipherNonce = None
   \<and> mk_attributes k KdfCodec = None \<and> mk_attributes k KdfSalt = None
   \<and> mk_attributes k KdfRounds = None"

lemma sealable_clean: "sealable F k \<Longrightarrow> a \<in> cipher_attr_ids \<Longrightarrow> mk_attributes k a = None"
  by (auto simp: sealable_def cipher_attr_ids_def)

lemma sealable_view: "sealable F k \<Longrightarrow> \<exists>v. dispatch_attr_view F k = Ok v \<and> reads_flag v"
  by (auto simp: sealable_def split: outcome.splits)

interpretation key_at_rest: sealing "\<lambda>cipher k. encrypt F W A k (Some cipher)"
  "\<lambda>cipher k. decrypt F W A k (Some cipher)"
  "\<lambda>_ k. cipher_lib_ok A \<and> wire_ok W \<and> sealable F k" for F W A
  by unfold_locales (metis encrypt_decrypt sealable_clean sealable_view)


section \<open>The passphrase flow\<close>

text \<open>
  Locking a key with a passphrase as the tests of \<^verbatim>\<open>src/cipher.rs\<close> and \<^verbatim>\<open>src/kdf.rs\<close> do it: build
  the kdf and the cipher multikey, derive, encrypt. Unlocking rebuilds both from the attributes of
  the encrypted key alone.
\<close>

definition lock_key ::
  "features \<Rightarrow> wire \<Rightarrow> cipher_lib \<Rightarrow> bytes \<Rightarrow> bytes \<Rightarrow> nat \<Rightarrow> bytes \<Rightarrow> multikey \<Rightarrow> multikey res" where
  "lock_key F W A nonce salt rounds passphrase k =
     and_then (kdf_try_build (kdf_with_salt (kdf_with_rounds W (kdf_builder_new BcryptPbkdf) rounds) salt)) (\<lambda>kdf.
     and_then (cipher_try_build (cipher_with_nonce (cipher_builder_new Chacha20Poly1305) nonce)) (\<lambda>c.
     and_then (dispatch_kdf_view F c kdf) (\<lambda>_.
     and_then (derive_key F W A c (Some kdf) passphrase) (\<lambda>cipher.
     and_then (dispatch_cipher_view F k cipher) (\<lambda>_.
     encrypt F W A k (Some cipher))))))"

definition unlock_key :: "features \<Rightarrow> wire \<Rightarrow> cipher_lib \<Rightarrow> bytes \<Rightarrow> multikey \<Rightarrow> multikey res" where
  "unlock_key F W A passphrase k =
     and_then (kdf_try_from_multikey W (kdf_builder_new (default_codec W)) k) (\<lambda>kb.
     and_then (kdf_try_build kb) (\<lambda>kdf.
     and_then (cipher_try_from_multikey W (cipher_builder_new (default_codec W)) k) (\<lambda>cb.
     and_then (cipher_try_build cb) (\<lambda>c.
     and_then (dispatch_kdf_view F c kdf) (\<lambda>_.
     and_then (derive_key F W A c (Some kdf) passphrase) (\<lambda>cipher.
     and_then (dispatch_cipher_view F k cipher) (\<lambda>_.
     decrypt F W A k (Some cipher))))))))"

lemmas builder_defs = cipher_builder_new_def cipher_with_nonce_def cipher_try_build_def
  cipher_try_from_multikey_def kdf_builder_new_def kdf_with_salt_def kdf_with_rounds_def
  kdf_try_build_def kdf_try_from_multikey_def insert_some_def

lemma derive_key_eq_Ok:
  "derive_key F W A c (Some kdf) passphrase = Ok cipher \<longleftrightarrow>
   (\<exists>salt rounds key.
      dispatch_kdf_attr_view F W kdf = Ok () \<and> kdf_salt_bytes kdf = Ok salt
    \<and> kdf_rounds W kdf = Ok rounds \<and> dispatch_cipher_attr_view F W c = Ok ()
    \<and> bcrypt_pbkdf A passphrase salt (rounds mod 2 ^ 32) KEY_SIZE = Ok key
    \<and> cipher = c\<lparr>mk_attributes := attr_insert KdfRounds (put_uint W rounds) (attr_insert KdfSalt salt
        (attr_insert KdfCodec (put_codec W (mk_codec kdf)) (attr_remove KeyIsEncrypted
          (attr_insert KeyData key (mk_attributes c)))))\<rparr>)"
  unfolding derive_key_def
  by (auto simp: outcome_simps cipher_key_length_def Let_def)

text \<open>The two ways to come by the derived cipher key agree on all that encryption looks at.\<close>

definition ready_cipher :: "features \<Rightarrow> wire \<Rightarrow> bytes \<Rightarrow> bytes \<Rightarrow> multikey \<Rightarrow> bool" where
  "ready_cipher F W key nonce cipher \<longleftrightarrow>
     mk_codec cipher = Chacha20Poly1305 \<and> mk_attributes cipher KeyData = Some key
   \<and> mk_attributes cipher KeyIsEncrypted = None \<and> mk_attributes cipher CipherNonce = Some nonce
   \<and> mk_attributes cipher CipherCodec = None"

lemma ready_cipher_key:
  assumes "ready_cipher F W key nonce cipher" and "FChacha20 \<in> F" and "length key = 32"
    and "length nonce = 12"
  shows "cipher_key F W k cipher = Ok key" and "cipher_nonce F W cipher = Ok nonce"
proof -
  have "data_view F W cipher = Ok (view_methods W VChacha20 cipher)"
    using assms(1,2) by (simp add: data_view_def dispatch_data_eq_Ok dispatch_attr_chacha20
        ready_cipher_def outcome_simps arm_def dispatch_data_eq_attr)
  moreover have "secret_bytes (view_methods W VChacha20 cipher) = Ok key"
    using assms(1) flag_absent [of cipher W VChacha20]
    by (simp add: ready_cipher_def chacha20_view_def key_data_def get_attr_def)
  ultimately show "cipher_key F W k cipher = Ok key"
    using assms(3) by (simp add: cipher_key_def cipher_key_length_def KEY_SIZE_def)
  show "cipher_nonce F W cipher = Ok nonce"
    using assms by (simp add: cipher_nonce_def dispatch_cipher_attr_view_def attr_or_own_codec_def
        ready_cipher_def get_attr_def cipher_nonce_bytes_def nonce_clone_from_slice_def arm_def)
qed

lemma decrypt_same_key:
  "cipher_key F W k c = cipher_key F W k d \<Longrightarrow> cipher_nonce F W c = cipher_nonce F W d \<Longrightarrow>
   decrypt F W A k (Some c) = decrypt F W A k (Some d)"
  by (simp only: decrypt_def ok_or_Some and_then.simps)

lemma derive_from_builders:
  assumes W: "wire_ok W" and F: "{FChacha20, FBcrypt} \<subseteq> F"
    and salt: "length salt = 32" and rounds: "rounds < 2 ^ 64"
    and key: "bcrypt_pbkdf A passphrase salt (rounds mod 2 ^ 32) 32 = Ok key"
    and kdf: "mk_codec kdf = BcryptPbkdf" "mk_attributes kdf KdfSalt = Some salt"
      "mk_attributes kdf KdfRounds = Some (put_uint W rounds)" "mk_attributes kdf KdfCodec = None"
    and c: "mk_codec c = Chacha20Poly1305" "mk_attributes c CipherCodec = None"
      "mk_attributes c CipherNonce = Some nonce"
  shows "\<exists>cipher. derive_key F W A c (Some kdf) passphrase = Ok cipher \<and> ready_cipher F W key nonce cipher
    \<and> kdf_salt_bytes cipher = Ok salt \<and> kdf_rounds W cipher = Ok rounds
    \<and> dispatch_kdf_attr_view F W cipher = Ok ()"
  unfolding derive_key_eq_Ok
  using F salt rounds key kdf c
  by (auto simp: dispatch_kdf_attr_view_def dispatch_cipher_attr_view_def attr_or_own_codec_def
      get_attr_def arm_def kdf_salt_bytes_def kdf_rounds_def SALT_LENGTH_def KEY_SIZE_def
      wire_ok_usize_of [OF W] wire_ok_codec_of [OF W] ready_cipher_def)


lemma lock_then_unlock:
  assumes A: "cipher_lib_ok A" and W: "wire_ok W" and F: "{FChacha20, FBcrypt} \<subseteq> F"
    and k: "sealable F k" "attr_view F W k = Ok kv" "secret_bytes kv = Ok msg"
    and nonce: "length nonce = 12" and salt: "length salt = 32" and rounds: "rounds < 2 ^ 64"
    and key: "bcrypt_pbkdf A passphrase salt (rounds mod 2 ^ 32) 32 = Ok key"
    and enc: "chacha_encrypt A key nonce msg = Some ct"
  shows "\<exists>k'. lock_key F W A nonce salt rounds passphrase k = Ok k' \<and>
    unlock_key F W A passphrase k' = Ok k"
proof -
  have len: "length key = 32"
    using A key unfolding cipher_lib_ok_def by blast
  obtain v where v: "dispatch_attr_view F k = Ok v" and kv: "kv = view_methods W v k"
    using k(2) by (auto simp: attr_view_def outcome_simps)
  define kdf where "kdf = \<lparr>mk_codec = BcryptPbkdf, mk_comment = [], mk_attributes =
    attr_insert KdfRounds (put_uint W rounds) (attr_insert KdfSalt salt Map.empty)\<rparr>"
  define c where "c = \<lparr>mk_codec = Chacha20Poly1305, mk_comment = [], mk_attributes =
    attr_insert CipherNonce nonce Map.empty\<rparr>"
  obtain cipher where der: "derive_key F W A c (Some kdf) passphrase = Ok cipher"
    and ready: "ready_cipher F W key nonce cipher" and ks: "kdf_salt_bytes cipher = Ok salt"
    and kr: "kdf_rounds W cipher = Ok rounds" and dk: "dispatch_kdf_attr_view F W cipher = Ok ()"
    using derive_from_builders [OF W F salt rounds key, of kdf c nonce]
    by (auto simp: kdf_def c_def)
  have lib: "cipher_key F W k cipher = Ok key" "cipher_nonce F W cipher = Ok nonce"
    using ready_cipher_key [OF ready _ len nonce] F by auto
  have "\<not> is_encrypted (view_methods W v k)"
    using k(1) flag_absent by (simp add: sealable_def)
  then obtain k' where k': "encrypt F W A k (Some cipher) = Ok k'"
    and attrs: "mk_attributes k' =
      sealed_attributes W (mk_codec cipher) ct nonce salt rounds (mk_attributes k)"
    using v kv k(3) lib enc ks kr dk unfolding encrypt_eq_Ok by auto
  have codec: "mk_codec cipher = Chacha20Poly1305"
    using ready by (simp add: ready_cipher_def)
  have lock: "lock_key F W A nonce salt rounds passphrase k = Ok k'"
    using der k' codec F
    by (simp add: lock_key_def builder_defs c_def kdf_def dispatch_kdf_view_def
        dispatch_cipher_view_def arm_def)
  define c' where "c' = \<lparr>mk_codec = Chacha20Poly1305, mk_comment = [], mk_attributes =
    attr_insert CipherNonce nonce (attr_insert CipherKeyLen (put_uint W KEY_SIZE) Map.empty)\<rparr>"
  obtain cipher' where der': "derive_key F W A c' (Some kdf) passphrase = Ok cipher'"
    and ready': "ready_cipher F W key nonce cipher'"
    using derive_from_builders [OF W F salt rounds key, of kdf c' nonce]
    by (auto simp: kdf_def c'_def)
  have lib': "cipher_key F W k' cipher' = Ok key" "cipher_nonce F W cipher' = Ok nonce"
    using ready_cipher_key [OF ready' _ len nonce] F by auto
  have codec': "mk_codec cipher' = Chacha20Poly1305"
    using ready' by (simp add: ready_cipher_def)
  have "unlock_key F W A passphrase k' = decrypt F W A k' (Some cipher')"
    using der' codec codec' F
    by (simp add: unlock_key_def builder_defs get_attr_def attrs sealed_attributes_apply
        wire_ok_codec_of [OF W] c'_def kdf_def dispatch_kdf_view_def dispatch_cipher_view_def arm_def)
  also have "\<dots> = decrypt F W A k' (Some cipher)"
    using lib lib' cipher_key_any [of F W k' cipher k] by (intro decrypt_same_key) simp_all
  also have "\<dots> = Ok k"
    using key_at_rest.unseal_seal A W k(1) k' by blast
  finally show ?thesis
    using lock by auto
qed


section \<open>An example\<close>

definition toy_lib :: cipher_lib where
  "toy_lib =
     \<lparr>chacha_encrypt = \<lambda>key nonce m. Some (key @ m),
      chacha_decrypt = \<lambda>key nonce c.
        if take (length key) c = key then Some (drop (length key) c) else None,
      chacha_stream = \<lambda>key nonce c. c,
      bcrypt_pbkdf = \<lambda>p s r n. Ok (replicate n (of_nat r))\<rparr>"

lemma toy_lib_ok: "cipher_lib_ok toy_lib"
  by (auto simp: cipher_lib_ok_def toy_lib_def)

definition test_features :: features where
  "test_features = {FChacha20, FBcrypt, FCurve25519, FMlDsa}"

definition example_secret :: multikey where
  "example_secret = \<lparr>mk_codec = Ed25519 Priv, mk_comment = [],
     mk_attributes = attr_insert KeyData [7] Map.empty\<rparr>"

definition example_cipher :: multikey where
  "example_cipher = \<lparr>mk_codec = Chacha20Poly1305, mk_comment = [],
     mk_attributes = attr_insert KeyData (replicate 32 1) (attr_insert CipherNonce (replicate 12 2)
       (attr_insert KdfSalt (replicate 32 3) (attr_insert KdfRounds (put_uint leb_wire 10)
         (attr_insert KdfCodec (put_codec leb_wire BcryptPbkdf) Map.empty))))\<rparr>"

lemma example_cipher_parts:
  "cipher_key test_features leb_wire k example_cipher = Ok (replicate 32 1)"
  "cipher_nonce test_features leb_wire example_cipher = Ok (replicate 12 2)"
  "kdf_salt_bytes example_cipher = Ok (replicate 32 3)"
  "kdf_rounds leb_wire example_cipher = Ok 10"
  "dispatch_kdf_attr_view test_features leb_wire example_cipher = Ok ()"
  "mk_codec example_cipher = Chacha20Poly1305"
proof -
  have ready: "ready_cipher test_features leb_wire (replicate 32 1) (replicate 12 2) example_cipher"
    by (simp add: ready_cipher_def example_cipher_def)
  have F: "FChacha20 \<in> test_features"
    by (simp add: test_features_def)
  show "cipher_key test_features leb_wire k example_cipher = Ok (replicate 32 1)"
    "cipher_nonce test_features leb_wire example_cipher = Ok (replicate 12 2)"
    using ready_cipher_key [OF ready F] by simp_all
qed (simp_all add: example_cipher_def kdf_salt_bytes_def kdf_rounds_def
    get_attr_def SALT_LENGTH_def wire_ok_usize_of [OF leb_wire_ok] dispatch_kdf_attr_view_def
    attr_or_own_codec_def wire_ok_codec_of [OF leb_wire_ok] arm_def test_features_def)

definition example_sealed :: "multikey \<Rightarrow> multikey" where
  "example_sealed k = k\<lparr>mk_attributes := sealed_attributes leb_wire Chacha20Poly1305
     (replicate 32 1 @ [7]) (replicate 12 2) (replicate 32 3) 10 (mk_attributes k)\<rparr>"

lemma example_encrypt:
  assumes "dispatch_attr_view test_features k = Ok v" and "\<not> is_encrypted (view_methods leb_wire v k)"
    and "secret_bytes (view_methods leb_wire v k) = Ok [7]"
  shows "encrypt test_features leb_wire toy_lib k (Some example_cipher) = Ok (example_sealed k)"
  using assms unfolding encrypt_eq_Ok
  by (simp add: example_cipher_parts example_sealed_def toy_lib_def)

lemma example_secret_view:
  "dispatch_attr_view test_features example_secret = Ok VEd25519"
  "secret_bytes (view_methods leb_wire VEd25519 example_secret) = Ok [7]"
  "sealable test_features example_secret"
  "attr_view test_features leb_wire example_secret = Ok (view_methods leb_wire VEd25519 example_secret)"
  by (simp_all add: dispatch_attr_view_def example_secret_def arm_def test_features_def
      ed25519_view_def sealed_view_def encrypted_flag_def get_attr_def key_data_def sealable_def
      attr_view_def)

lemma example_secret_encrypt:
  "encrypt test_features leb_wire toy_lib example_secret (Some example_cipher) =
   Ok (example_sealed example_secret)"
  using secret_bytes_view_methods [OF example_secret_view(2)]
  by (intro example_encrypt [OF example_secret_view(1) _ example_secret_view(2)]) simp

definition example_pq_secret :: multikey where
  "example_pq_secret = \<lparr>mk_codec = MlDsa Ml65 SPriv, mk_comment = [],
     mk_attributes = attr_insert KeyData [7] Map.empty\<rparr>"

lemma example_pq_view:
  "dispatch_attr_view test_features example_pq_secret = Ok VMlDsa"
  "secret_bytes (view_methods leb_wire VMlDsa example_pq_secret) = Ok [7]"
  by (simp_all add: dispatch_attr_view_def example_pq_secret_def arm_def test_features_def
      ml_dsa_view_def plain_view_def is_ml_dsa_priv_def get_attr_def key_data_def spart_key_def)

lemma example_pq_encrypt:
  "encrypt test_features leb_wire toy_lib example_pq_secret (Some example_cipher) =
   Ok (example_sealed example_pq_secret)"
  by (intro example_encrypt [OF example_pq_view(1) _ example_pq_view(2)] flag_not_read) simp


section \<open>Properties\<close>

text \<open>
  C3: A sealable key, that is a BLS, Ed25519, secp256k1, NIST, RSA or ChaCha20 key without cipher and kdf
  attributes, that is encrypted at rest and decrypted with the same cipher key is the key it was, down to its
  comment and every attribute.
\<close>

theorem encrypt_decrypt_roundtrip:
  assumes "cipher_lib_ok A" and "wire_ok W" and "sealable F k"
    and "encrypt F W A k (Some cipher) = Ok k'"
  shows "decrypt F W A k' (Some cipher) = Ok k"
  using assms key_at_rest.unseal_seal by blast

theorem encrypt_decrypt_roundtrip_witness:
  "decrypt test_features leb_wire toy_lib (example_sealed example_secret) (Some example_cipher) = Ok example_secret"
  by (rule encrypt_decrypt_roundtrip [OF toy_lib_ok leb_wire_ok example_secret_view(3)
        example_secret_encrypt])

text \<open>
  A key locked with a passphrase can be unlocked with that passphrase and nothing else but the
  encrypted key: salt, rounds, nonce and the two codecs are read back from its attributes. Locking
  succeeds for every key whose secret bytes a view gives out, and unlocking returns the same key.
\<close>

lemma passphrase_lock_unlock:
  assumes "cipher_lib_ok A" and "wire_ok W" and "{FChacha20, FBcrypt} \<subseteq> F"
    and "sealable F k" and "attr_view F W k = Ok kv" and "secret_bytes kv = Ok msg"
    and "length nonce = 12" and "length salt = 32" and "rounds < 2 ^ 64"
    and "bcrypt_pbkdf A passphrase salt (rounds mod 2 ^ 32) 32 = Ok key"
    and "chacha_encrypt A key nonce msg = Some ct"
  shows "\<exists>k'. lock_key F W A nonce salt rounds passphrase k = Ok k' \<and> unlock_key F W A passphrase k' = Ok k"
  using assms by (rule lock_then_unlock)

lemma passphrase_lock_unlock_witness:
  "\<exists>k'. lock_key test_features leb_wire toy_lib (replicate 12 2) (replicate 32 3) 10 [112] example_secret = Ok k' \<and>
     unlock_key test_features leb_wire toy_lib [112] k' = Ok example_secret"
  by (rule passphrase_lock_unlock [OF toy_lib_ok leb_wire_ok _ example_secret_view(3,4,2)])
     (simp_all add: test_features_def toy_lib_def)

text \<open>
  C23: A sealable key (a BLS, Ed25519, secp256k1, NIST, RSA or ChaCha20 key without cipher and kdf attributes) that
  was encrypted gives out no secret bytes and cannot be encrypted twice, and encryption leaves its codec, its comment
  and every attribute but the key data and those of cipher and kdf as they were.
\<close>

theorem encrypted_key_is_closed:
  assumes "wire_ok W" and "sealable F k" and "encrypt F W A k (Some cipher) = Ok k'"
  shows "(\<exists>kv. attr_view F W k' = Ok kv \<and> is_encrypted kv \<and> secret_bytes kv = Err (Attributes AEncryptedKey))
    \<and> encrypt F W A k' (Some cipher') = Err (Cipher (CiEncryptionFailed ''key is encrypted already''))
    \<and> mk_codec k' = mk_codec k \<and> mk_comment k' = mk_comment k
    \<and> (\<forall>a. a \<notin> insert KeyData cipher_attr_ids \<longrightarrow> mk_attributes k' a = mk_attributes k a)"
proof -
  obtain v where v: "dispatch_attr_view F k = Ok v" "reads_flag v"
    using sealable_view [OF assms(2)] by blast
  have view: "attr_view F W k' = Ok (view_methods W v k')"
    using v(1) encrypt_keeps_view [OF assms(3)] by (simp add: attr_view_def)
  have flag: "is_encrypted (view_methods W v k')"
    using flag_read [OF assms(1) v(2)] encrypt_attributes(3) [OF assms(3)] by blast
  have "is_secret_key (view_methods W v k')"
    using assms(3) v(1) is_secret_key_codec [of k' k W v] encrypt_attributes(1) [OF assms(3)]
    unfolding encrypt_eq_Ok by (auto dest: secret_bytes_view_methods)
  then show ?thesis
    using view flag secret_bytes_encrypted [OF _ flag] encrypt_attributes [OF assms(3)]
    by (simp add: encrypt_def)
qed

theorem encrypted_key_is_closed_witness:
  "encrypt test_features leb_wire toy_lib (example_sealed example_secret) (Some example_cipher) =
   Err (Cipher (CiEncryptionFailed ''key is encrypted already''))"
  using encrypted_key_is_closed [OF leb_wire_ok example_secret_view(3) example_secret_encrypt] by blast

text \<open>
  When the ciphertext does not authenticate under the given key (it was tampered with, or the
  passphrase is wrong), decryption fails in the default build; with the legacy fallback compiled in
  it succeeds and stores the unauthenticated output of the stream cipher as the key.
\<close>

lemma decrypt_unauthentic:
  assumes "attr_view F W k = Ok kv" and "is_encrypted kv" and "is_secret_key kv"
    and "cipher_nonce F W cipher = Ok nonce" and "cipher_key F W k cipher = Ok key"
    and "mk_attributes k KeyData = Some msg" and "chacha_decrypt A key nonce msg = None"
  shows "(FLegacyChacha20Fallback \<notin> F \<longrightarrow>
      decrypt F W A k (Some cipher) = Err (Cipher CiDecryptionFailed))
    \<and> (FLegacyChacha20Fallback \<in> F \<longrightarrow>
      (\<exists>k'. decrypt F W A k (Some cipher) = Ok k' \<and>
        mk_attributes k' KeyData = Some (chacha_stream A key nonce msg)))"
proof -
  obtain v where v: "dispatch_attr_view F k = Ok v" and kv: "kv = view_methods W v k"
    using assms(1) by (auto simp: attr_view_def outcome_simps)
  then have "data_view F W k = Ok kv"
    using assms(1) by (simp add: data_view_eq_Ok)
  moreover have "key_bytes kv = Ok msg"
    using assms(6) kv by (simp add: key_data_def get_attr_def)
  ultimately show ?thesis
    using assms v kv
    by (simp add: decrypt_def open_ciphertext_def Let_def)
qed

lemma decrypt_unauthentic_witness:
  "decrypt test_features leb_wire (toy_lib\<lparr>chacha_decrypt := \<lambda>key nonce c. None\<rparr>)
     (example_sealed example_secret) (Some example_cipher) = Err (Cipher CiDecryptionFailed)"
proof -
  have view: "attr_view test_features leb_wire (example_sealed example_secret) =
      Ok (view_methods leb_wire VEd25519 (example_sealed example_secret))"
    using example_secret_view(1) encrypt_keeps_view [OF example_secret_encrypt]
    by (simp add: attr_view_def)
  show ?thesis
    using decrypt_unauthentic [OF view _ _ example_cipher_parts(2,1), of "replicate 32 1 @ [7]"
        "toy_lib\<lparr>chacha_decrypt := \<lambda>key nonce c. None\<rparr>"]
    by (simp add: ed25519_view_def sealed_view_def encrypted_flag_def get_attr_def
        example_sealed_def sealed_attributes_apply wire_ok_bool_nil [OF leb_wire_ok]
        example_secret_def test_features_def)
qed

text \<open>
  For every other module (all post-quantum, hybrid, hash-based and KEM keys) encryption
  succeeds and cannot be undone: decryption of the result fails under every cipher key, and the
  view gives out the ciphertext as if it were the secret key.
\<close>

theorem encrypt_without_flag_is_lost:
  assumes "dispatch_attr_view F k = Ok v" and "\<not> reads_flag v"
    and "encrypt F W A k (Some cipher) = Ok k'"
  shows "decrypt F W A k' (Some cipher') = Err (Cipher CiDecryptionFailed)
    \<and> (\<exists>kv. attr_view F W k' = Ok kv \<and> secret_bytes kv = key_data k')"
proof -
  have view: "attr_view F W k' = Ok (view_methods W v k')"
    using assms(1) encrypt_keeps_view [OF assms(3)] by (simp add: attr_view_def)
  have "is_secret_key (view_methods W v k')"
    using assms(3,1) is_secret_key_codec [of k' k W v] encrypt_attributes(1) [OF assms(3)]
    unfolding encrypt_eq_Ok by (auto dest: secret_bytes_view_methods)
  then show ?thesis
    using view flag_not_read [OF assms(2)] secret_bytes_of_secret_key
    by (auto simp: decrypt_def)
qed

theorem encrypt_without_flag_is_lost_witness:
  "decrypt test_features leb_wire toy_lib (example_sealed example_pq_secret) (Some example_cipher) =
   Err (Cipher CiDecryptionFailed)"
  using encrypt_without_flag_is_lost [OF example_pq_view(1) _ example_pq_encrypt] by simp

text \<open>
  A cipher multikey whose nonce is not twelve bytes long makes encryption panic; no error is
  returned.
\<close>

theorem encrypt_bad_nonce_panics:
  assumes "attr_view F W k = Ok kv" and "\<not> is_encrypted kv"
    and "dispatch_cipher_attr_view F W cipher = Ok ()"
    and "mk_attributes cipher CipherNonce = Some nonce" and "length nonce \<noteq> 12"
  shows "encrypt F W A k (Some cipher) = Panic"
  using assms
  by (simp add: encrypt_def cipher_nonce_def cipher_nonce_bytes_def get_attr_def
      nonce_clone_from_slice_def)

theorem encrypt_bad_nonce_panics_witness:
  "encrypt test_features leb_wire toy_lib example_secret
     (Some (example_cipher\<lparr>mk_attributes := attr_insert CipherNonce [] Map.empty\<rparr>)) = Panic"
  by (rule encrypt_bad_nonce_panics [OF example_secret_view(4), where nonce = "[]"])
     (use secret_bytes_view_methods [OF example_secret_view(2)] in
      \<open>simp_all add: dispatch_cipher_attr_view_def attr_or_own_codec_def get_attr_def
        example_cipher_def arm_def test_features_def\<close>)

text \<open>
  Key derivation drops the high bits of the number of rounds: with \<open>2 ^ 32\<close> more rounds stored
  in the kdf multikey the same key is derived, although the larger number is recorded.
\<close>

theorem derive_key_rounds_truncated:
  assumes "wire_ok W" and "rounds + 2 ^ 32 < 2 ^ 64"
    and "mk_attributes kdf KdfRounds = Some (put_uint W rounds)"
    and "derive_key F W A c (Some kdf) passphrase = Ok cipher"
  shows "\<exists>cipher'. derive_key F W A c
      (Some (kdf\<lparr>mk_attributes := attr_insert KdfRounds (put_uint W (rounds + 2 ^ 32)) (mk_attributes kdf)\<rparr>))
      passphrase = Ok cipher' \<and> mk_attributes cipher' KeyData = mk_attributes cipher KeyData"
proof -
  let ?kdf = "kdf\<lparr>mk_attributes := attr_insert KdfRounds (put_uint W (rounds + 2 ^ 32)) (mk_attributes kdf)\<rparr>"
  have "kdf_rounds W kdf = Ok rounds" "kdf_rounds W ?kdf = Ok (rounds + 2 ^ 32)"
    using assms(1-3) by (simp_all add: kdf_rounds_def get_attr_def wire_ok_usize_of)
  moreover have "kdf_salt_bytes ?kdf = kdf_salt_bytes kdf"
    by (simp add: kdf_salt_bytes_def get_attr_def)
  moreover have "dispatch_kdf_attr_view F W ?kdf = dispatch_kdf_attr_view F W kdf"
    by (simp add: dispatch_kdf_attr_view_def attr_or_own_codec_def get_attr_def split: option.splits)
  moreover have "(rounds + 2 ^ 32) mod 2 ^ 32 = rounds mod 2 ^ 32"
    by simp
  ultimately show ?thesis
    using assms(4) unfolding derive_key_eq_Ok by auto
qed


theorem derive_key_rounds_truncated_witness:
  "\<exists>cipher'. derive_key test_features leb_wire toy_lib example_cipher
      (Some (example_cipher\<lparr>mk_codec := BcryptPbkdf, mk_attributes :=
        attr_insert KdfRounds (put_uint leb_wire (10 + 2 ^ 32)) (mk_attributes example_cipher)\<rparr>))
      [] = Ok cipher' \<and> mk_attributes cipher' KeyData = Some (replicate 32 10)"
proof -
  let ?kdf = "example_cipher\<lparr>mk_codec := BcryptPbkdf\<rparr>"
  let ?out = "example_cipher\<lparr>mk_attributes := attr_insert KdfRounds (put_uint leb_wire 10)
    (attr_insert KdfSalt (replicate 32 3) (attr_insert KdfCodec (put_codec leb_wire BcryptPbkdf)
      (attr_remove KeyIsEncrypted (attr_insert KeyData (replicate 32 10) (mk_attributes example_cipher)))))\<rparr>"
  have "derive_key test_features leb_wire toy_lib example_cipher (Some ?kdf) [] = Ok ?out"
    using leb_wire_ok unfolding derive_key_eq_Ok
    by (simp add: example_cipher_def dispatch_kdf_attr_view_def attr_or_own_codec_def get_attr_def
        arm_def test_features_def kdf_salt_bytes_def kdf_rounds_def SALT_LENGTH_def KEY_SIZE_def
        wire_ok_usize_of wire_ok_codec_of dispatch_cipher_attr_view_def toy_lib_def)
  from derive_key_rounds_truncated [OF leb_wire_ok _ _ this, of 10] show ?thesis
    by (simp add: example_cipher_def)
qed

end
