(* ===== verification/Mk_Builder.thy ===== *)
theory Mk_Builder
  imports Mk_Cipher
begin

text \<open>
  The multikey builder of \<^verbatim>\<open>src/mk.rs\<close>: its setters, key generation from random bytes and the lists
  of codecs that keys are generated for. Adding key shares is done by the threshold view, so building
  a key with pending shares is in \<^verbatim>\<open>Mk_Threshold\<close>; here a builder without shares is built.
\<close>

section \<open>The builder\<close>

text \<open>A \<^verbatim>\<open>multi_base::Base\<close> is kept as its one-character code.\<close>

record builder =
  b_codec :: codec
  b_comment :: "bytes option"
  b_base_encoding :: "char option"
  b_attributes :: "attributes option"
  b_shares :: "multikey list option"

definition builder_new :: "codec \<Rightarrow> builder" where
  "builder_new c = \<lparr>b_codec = c, b_comment = None, b_base_encoding = None, b_attributes = None,
     b_shares = None\<rparr>"

definition unwrap_attributes :: "builder \<Rightarrow> attributes" where
  "unwrap_attributes b = (case b_attributes b of Some m \<Rightarrow> m | None \<Rightarrow> Map.empty)"

definition with_base_encoding :: "builder \<Rightarrow> char \<Rightarrow> builder" where
  "with_base_encoding b base = b\<lparr>b_base_encoding := Some base\<rparr>"

definition with_comment :: "builder \<Rightarrow> bytes \<Rightarrow> builder" where
  "with_comment b comment = b\<lparr>b_comment := Some comment\<rparr>"

definition with_attribute :: "builder \<Rightarrow> attr_id \<Rightarrow> bytes \<Rightarrow> builder" where
  "with_attribute b a data = b\<lparr>b_attributes := Some (attr_insert a data (unwrap_attributes b))\<rparr>"

definition with_key_bytes :: "builder \<Rightarrow> bytes \<Rightarrow> builder" where
  "with_key_bytes b bs = with_attribute b KeyData bs"

definition with_algorithm_name :: "builder \<Rightarrow> bytes \<Rightarrow> builder" where
  "with_algorithm_name b name = with_attribute b AlgorithmName name"

definition with_key_type :: "builder \<Rightarrow> byte \<Rightarrow> builder" where
  "with_key_type b t = with_attribute b KeyType [t]"

definition with_depth :: "builder \<Rightarrow> byte \<Rightarrow> builder" where
  "with_depth b depth = with_attribute b Depth [depth]"

definition with_threshold :: "wire \<Rightarrow> builder \<Rightarrow> nat \<Rightarrow> builder" where
  "with_threshold W b threshold = with_attribute b Threshold (put_uint W threshold)"

definition with_limit :: "wire \<Rightarrow> builder \<Rightarrow> nat \<Rightarrow> builder" where
  "with_limit W b limit = with_attribute b Limit (put_uint W limit)"

definition with_identifier :: "builder \<Rightarrow> bytes \<Rightarrow> builder" where
  "with_identifier b identifier = with_attribute b ShareIdentifier identifier"

definition with_threshold_data :: "builder \<Rightarrow> bytes \<Rightarrow> builder" where
  "with_threshold_data b tdata = with_attribute b ThresholdData tdata"

definition add_key_share :: "builder \<Rightarrow> multikey \<Rightarrow> builder" where
  "add_key_share b share =
     b\<lparr>b_shares := Some ((case b_shares b of Some ss \<Rightarrow> ss | None \<Rightarrow> []) @ [share])\<rparr>"

text \<open>The key that \<^verbatim>\<open>try_build\<close> starts from; it is the result when no share was added.\<close>

definition built_key :: "builder \<Rightarrow> multikey" where
  "built_key b =
     \<lparr>mk_codec = b_codec b,
      mk_comment = (case b_comment b of Some c \<Rightarrow> c | None \<Rightarrow> []),
      mk_attributes = unwrap_attributes b\<rparr>"

lemmas builder_setters = with_base_encoding_def with_comment_def with_attribute_def with_key_bytes_def
  with_algorithm_name_def with_key_type_def with_depth_def with_threshold_def with_limit_def
  with_identifier_def with_threshold_data_def unwrap_attributes_def

lemmas built_key_defs = builder_setters builder_new_def built_key_def

section \<open>The lists of supported codecs\<close>

definition KEY_CODECS :: "codec list" where
  "KEY_CODECS = [Ed25519 Priv, Secp256K1 Priv, Bls12381 G1 BPriv, Bls12381 G2 BPriv, P256 Priv,
     P384 Priv, P521 Priv]"
definition RSA_KEY_CODECS :: "codec list" where
  "RSA_KEY_CODECS = [Rsa Rsa2048 Priv, Rsa Rsa3072 Priv, Rsa Rsa4096 Priv]"
definition FN_DSA_KEY_CODECS :: "codec list" where
  "FN_DSA_KEY_CODECS = [FnDsa Fn512 SPriv, FnDsa Fn1024 SPriv]"
definition ML_DSA_KEY_CODECS :: "codec list" where
  "ML_DSA_KEY_CODECS = [MlDsa Ml65 SPriv, MlDsa Ml87 SPriv]"
definition MAYO_KEY_CODECS :: "codec list" where
  "MAYO_KEY_CODECS = [Mayo Mayo_1 SPriv, Mayo Mayo_2 SPriv, Mayo Mayo_3 SPriv, Mayo Mayo_5 SPriv]"
definition SLH_DSA_KEY_CODECS :: "codec list" where
  "SLH_DSA_KEY_CODECS = map (\<lambda>s. SlhDsa s SPriv)
     [SlhSha2_128F, SlhSha2_128S, SlhSha2_192F, SlhSha2_192S, SlhSha2_256F, SlhSha2_256S,
      SlhShake_128F, SlhShake_128S, SlhShake_192F, SlhShake_192S, SlhShake_256F, SlhShake_256S]"
definition ML_KEM_KEY_CODECS :: "codec list" where
  "ML_KEM_KEY_CODECS = [Mlkem K768 Priv, Mlkem K1024 Priv]"
definition SNTRUP_KEY_CODECS :: "codec list" where
  "SNTRUP_KEY_CODECS = map (\<lambda>s. Sntrup s Priv) [S761, S857, S953, S1013, S1277]"
definition MCELIECE_KEY_CODECS :: "codec list" where
  "MCELIECE_KEY_CODECS = [Mceliece348864 Priv]"
definition FRODOKEM_KEY_CODECS :: "codec list" where
  "FRODOKEM_KEY_CODECS = map (\<lambda>s. FrodoKem s Priv)
     [F640Aes, F976Aes, F1344Aes, F640Shake, F976Shake, F1344Shake]"
definition X25519_KEY_CODECS :: "codec list" where
  "X25519_KEY_CODECS = [X25519 Priv]"
definition X25519_SNTRUP761_KEY_CODECS :: "codec list" where
  "X25519_SNTRUP761_KEY_CODECS = [X25519Sntrup761 Priv]"
definition X25519_MLKEM768_KEY_CODECS :: "codec list" where
  "X25519_MLKEM768_KEY_CODECS = [X25519Mlkem768 Priv]"
definition ED25519_MAYO2_KEY_CODECS :: "codec list" where
  "ED25519_MAYO2_KEY_CODECS = [Ed25519Mayo2 SPriv]"
definition KEY_SHARE_CODECS :: "codec list" where
  "KEY_SHARE_CODECS =
     [Bls12381 G1 BPubShare, Bls12381 G1 BPrivShare, Bls12381 G2 BPubShare, Bls12381 G2 BPrivShare] @
     map (\<lambda>d. LamportMerkle d LPrivShare)
       [Sha3_256, Sha3_384, Sha3_512, Sha2_256, Sha2_384, Sha2_512, Blake2B_512, Blake2S_256,
        Blake3_256, Shake_128, Shake_256]"
definition LAMPORT_MERKLE_KEY_CODECS :: "codec list" where
  "LAMPORT_MERKLE_KEY_CODECS = concat (map (\<lambda>d. [LamportMerkle d LPub, LamportMerkle d LPriv])
     [Sha3_512, Sha3_384, Sha3_256, Sha2_512, Sha2_384, Sha2_256, Blake2B_512, Blake2S_256,
      Blake3_256, Shake_128, Shake_256])"
definition LAMPORT_MERKLE_KEY_SHARE_CODECS :: "codec list" where
  "LAMPORT_MERKLE_KEY_SHARE_CODECS = map (\<lambda>d. LamportMerkle d LPrivShare)
     [Sha3_512, Sha3_384, Sha3_256, Sha2_512, Sha2_384, Sha2_256, Blake2B_512, Blake2S_256,
      Blake3_256, Shake_128, Shake_256]"

lemmas key_codec_lists = KEY_CODECS_def RSA_KEY_CODECS_def FN_DSA_KEY_CODECS_def
  ML_DSA_KEY_CODECS_def MAYO_KEY_CODECS_def SLH_DSA_KEY_CODECS_def ML_KEM_KEY_CODECS_def
  SNTRUP_KEY_CODECS_def MCELIECE_KEY_CODECS_def FRODOKEM_KEY_CODECS_def X25519_KEY_CODECS_def
  X25519_SNTRUP761_KEY_CODECS_def X25519_MLKEM768_KEY_CODECS_def ED25519_MAYO2_KEY_CODECS_def
  LAMPORT_MERKLE_KEY_CODECS_def

section \<open>Key generation\<close>

text \<open>
  The sources of randomness: the generator that is passed in (\<open>fill n\<close> is what it writes into a
  buffer of \<open>n\<close> bytes) and the key generators of the signature and KEM libraries.
\<close>

record generators =
  fill :: "nat \<Rightarrow> bytes"
  lib_secret :: "codec \<Rightarrow> bytes res"
  bls_g1_secret :: bytes
  fn_dsa_512_secret :: bytes
  merkle_secret :: "codec \<Rightarrow> byte \<Rightarrow> (string, bytes) outcome"

definition gated :: "features \<Rightarrow> 'a res \<Rightarrow> bool \<Rightarrow> feature list \<Rightarrow> 'a res \<Rightarrow> 'a res" where
  "gated F otherwise guard needs m = (if guard \<and> set needs \<subseteq> F then m else otherwise)"

text \<open>\<^verbatim>\<open>lamport_merkle::generate_private_key_with_depth\<close>, with the check on the depth.\<close>

definition depth_in_range :: "byte \<Rightarrow> bool" where
  "depth_in_range depth \<longleftrightarrow> 1 \<le> depth \<and> depth \<le> 3"

definition generate_private_key_with_depth :: "generators \<Rightarrow> codec \<Rightarrow> byte \<Rightarrow> bytes res" where
  "generate_private_key_with_depth G c depth =
     (if \<not> depth_in_range depth then Err (error.Threshold (ThInvalidThresholdLimit (unat depth) 3))
      else case c of
        LamportMerkle _ p \<Rightarrow>
          if p = LPriv then map_err (\<lambda>e. Conversions (CvSecretKeyFailure e)) (merkle_secret G c depth)
          else Err (Conversions (CvSecretKeyFailure ''not a merkle-Lamport private key''))
      | _ \<Rightarrow> Err (Conversions (CvSecretKeyFailure ''not a merkle-Lamport private key'')))"

text \<open>The match on the codec, arm by arm: keys of a library, hybrids, and the rest.\<close>

definition library_key_bytes :: "features \<Rightarrow> generators \<Rightarrow> codec \<Rightarrow> bytes res" where
  "library_key_bytes F G c =
     (let bad = Err (Conversions (CvUnsupportedCodec c)) in
      case c of
        Rsa _ p \<Rightarrow> gated F bad (p = Priv) [FRsa] (lib_secret G c)
      | SlhDsa _ p \<Rightarrow> gated F bad (p = SPriv) [FSlhDsa] (lib_secret G c)
      | Lamport _ p \<Rightarrow> gated F bad (p = LPriv) [FLamport] (lib_secret G c)
      | LamportMerkle _ p \<Rightarrow> gated F bad (p = LPriv) [FLamport] (generate_private_key_with_depth G c 1)
      | Xmss _ p \<Rightarrow> gated F bad (p = SPriv) [FXmss] (lib_secret G c)
      | _ \<Rightarrow> bad)"

definition hybrid_key_bytes :: "features \<Rightarrow> generators \<Rightarrow> codec \<Rightarrow> bytes res" where
  "hybrid_key_bytes F G c =
     (let bad = Err (Conversions (CvUnsupportedCodec c)) in
      case c of
        X25519Sntrup761 p \<Rightarrow> gated F bad (p = Priv) [FCurve25519, FSntrup] (Ok (fill G 64))
      | X25519Mceliece348864 p \<Rightarrow> gated F bad (p = Priv) [FCurve25519, FDeprecated] (Ok (fill G 64))
      | X25519Frodokem640 _ p \<Rightarrow> gated F bad (p = Priv) [FCurve25519, FFrodokem] (lib_secret G c)
      | X25519Mlkem768 p \<Rightarrow> gated F bad (p = Priv) [FCurve25519, FMlKem] (Ok (fill G 96))
      | Ed25519Mayo2 p \<Rightarrow> gated F bad (p = SPriv) [FCurve25519, FMayo] (Ok (fill G 56))
      | Ed25519Mldsa65 p \<Rightarrow> gated F bad (p = SPriv) [FCurve25519, FMlDsa] (Ok (fill G 64))
      | Bls12381G1Mldsa65 p \<Rightarrow> gated F bad (p = SPriv) [FBls12381, FMlDsa]
          (Ok (bls_g1_secret G @ fill G 32))
      | Bls12381G1Fndsa512 p \<Rightarrow> gated F bad (p = SPriv) [FBls12381, FFnDsa]
          (Ok (bls_g1_secret G @ fn_dsa_512_secret G))
      | Bls12381G1Mayo1 p \<Rightarrow> gated F bad (p = SPriv) [FBls12381, FMayo] (Ok (bls_g1_secret G @ fill G 24))
      | Bls12381G1Mayo2 p \<Rightarrow> gated F bad (p = SPriv) [FBls12381, FMayo] (Ok (bls_g1_secret G @ fill G 24))
      | Ed25519Fndsa512 p \<Rightarrow> gated F bad (p = SPriv) [FCurve25519, FFnDsa]
          (Ok (fill G 32 @ fn_dsa_512_secret G))
      | _ \<Rightarrow> library_key_bytes F G c)"

definition random_key_bytes :: "features \<Rightarrow> generators \<Rightarrow> codec \<Rightarrow> bytes res" where
  "random_key_bytes F G c =
     (let bad = Err (Conversions (CvUnsupportedCodec c)) in
      case c of
        Ed25519 p \<Rightarrow> gated F bad (p = Priv) [FCurve25519] (lib_secret G c)
      | P256 p \<Rightarrow> gated F bad (p = Priv) [FP256] (lib_secret G c)
      | P384 p \<Rightarrow> gated F bad (p = Priv) [FP384] (lib_secret G c)
      | P521 p \<Rightarrow> gated F bad (p = Priv) [FP521] (lib_secret G c)
      | Secp256K1 p \<Rightarrow> gated F bad (p = Priv) [FSecp256k1] (lib_secret G c)
      | Bls12381 _ p \<Rightarrow> gated F bad (p = BPriv) [FBls12381] (lib_secret G c)
      | FnDsa _ p \<Rightarrow> gated F bad (p = SPriv) [FFnDsa] (lib_secret G c)
      | MlDsa _ p \<Rightarrow> gated F bad (p = SPriv) [FMlDsa] (Ok (fill G 32))
      | Mayo s p \<Rightarrow> gated F bad (p = SPriv) [FMayo]
          (Ok (fill G (case s of Mayo_1 \<Rightarrow> 24 | Mayo_2 \<Rightarrow> 24 | Mayo_3 \<Rightarrow> 32 | Mayo_5 \<Rightarrow> 40)))
      | Mlkem _ p \<Rightarrow> gated F bad (p = Priv) [FMlKem] (Ok (fill G 64))
      | Sntrup _ p \<Rightarrow> gated F bad (p = Priv) [FSntrup] (Ok (fill G 32))
      | Mceliece348864 p \<Rightarrow> gated F bad (p = Priv) [FDeprecated] (Ok (fill G 32))
      | FrodoKem _ p \<Rightarrow> gated F bad (p = Priv) [FFrodokem] (lib_secret G c)
      | X25519 p \<Rightarrow> gated F bad (p = Priv) [FCurve25519] (Ok (fill G 32))
      | _ \<Rightarrow> hybrid_key_bytes F G c)"

lemmas random_key_defs = random_key_bytes_def hybrid_key_bytes_def library_key_bytes_def

definition lamport_merkle_codec :: "codec \<Rightarrow> bool" where
  "lamport_merkle_codec c \<longleftrightarrow> (case c of LamportMerkle _ p \<Rightarrow> p = LPriv | _ \<Rightarrow> False)"

definition new_from_random_bytes :: "features \<Rightarrow> generators \<Rightarrow> codec \<Rightarrow> builder res" where
  "new_from_random_bytes F G c =
     and_then (random_key_bytes F G c) (\<lambda>key.
     let attrs = attr_insert KeyData key Map.empty;
         attrs = (if FLamport \<in> F \<and> lamport_merkle_codec c then attr_insert Depth [1] attrs else attrs)
     in Ok ((builder_new c)\<lparr>b_attributes := Some attrs\<rparr>))"

text \<open>Only compiled with the \<^verbatim>\<open>lamport\<close> feature.\<close>

definition new_from_random_bytes_with_depth :: "generators \<Rightarrow> codec \<Rightarrow> byte \<Rightarrow> builder res" where
  "new_from_random_bytes_with_depth G c depth =
     (if \<not> depth_in_range depth then Err (error.Threshold (ThInvalidThresholdLimit (unat depth) 3))
      else
      and_then
        (if lamport_merkle_codec c then generate_private_key_with_depth G c depth
         else Err (Conversions (CvUnsupportedCodec c))) (\<lambda>key.
      Ok ((builder_new c)\<lparr>b_attributes := Some (attr_insert Depth [depth]
             (attr_insert KeyData key Map.empty))\<rparr>)))"


section \<open>Lemmas on builders\<close>

lemma gated_eq_Ok [outcome_simps]:
  "gated F (Err e) g fs m = Ok v \<longleftrightarrow> g \<and> set fs \<subseteq> F \<and> m = Ok v"
  by (auto simp: gated_def)

lemma built_key_attribute:
  "mk_attributes (built_key (with_attribute b a data)) c =
     (if c = a then Some data else mk_attributes (built_key b) c)"
  by (simp add: built_key_def with_attribute_def unwrap_attributes_def)

lemma generate_depth_eq_Ok:
  "generate_private_key_with_depth G c depth = Ok key \<longleftrightarrow>
   depth_in_range depth \<and> lamport_merkle_codec c \<and> merkle_secret G c depth = Ok key"
  by (cases c) (auto simp: generate_private_key_with_depth_def lamport_merkle_codec_def outcome_simps
      split: if_splits)

lemma new_from_random_eq_Ok:
  "new_from_random_bytes F G c = Ok b \<longleftrightarrow>
   (\<exists>key. random_key_bytes F G c = Ok key \<and>
     b = (builder_new c)\<lparr>b_attributes := Some
       (let attrs = attr_insert KeyData key Map.empty in
        if FLamport \<in> F \<and> lamport_merkle_codec c then attr_insert Depth [1] attrs else attrs)\<rparr>)"
  by (auto simp: new_from_random_bytes_def outcome_simps Let_def)

lemma random_key_view:
  assumes "random_key_bytes F G (mk_codec k) = Ok key"
  shows "\<exists>v. dispatch_attr_view F k = Ok v \<and> is_secret_key (view_methods W v k)"
  using assms
  by (cases "mk_codec k")
     (auto simp: random_key_defs outcome_simps dispatch_attr_view_def view_defs sealed_view_def
       plain_view_def codec_part_defs key_part_defs
       intro: fn_set.exhaust)


section \<open>Properties\<close>

definition example_generators :: generators where
  "example_generators = \<lparr>fill = \<lambda>n. replicate n 9, lib_secret = \<lambda>c. Ok [1, 2, 3],
     bls_g1_secret = replicate 32 4, fn_dsa_512_secret = [5], merkle_secret = \<lambda>c d. Ok [1, d, 0]\<rparr>"

lemma example_generated:
  "new_from_random_bytes {FMlKem} example_generators (Mlkem K768 Priv) =
   Ok ((builder_new (Mlkem K768 Priv))\<lparr>b_attributes :=
     Some (attr_insert KeyData (replicate 64 9) Map.empty)\<rparr>)"
  by (simp add: new_from_random_bytes_def random_key_defs gated_def example_generators_def
      lamport_merkle_codec_def)

text \<open>
  C40: The builder generates private keys only, and every key it generates can be used in the same
  build: the attribute view takes it for an unencrypted secret key that is not a public key, and the
  data view gives out exactly the generated bytes.
\<close>

theorem generated_key_is_secret:
  assumes "new_from_random_bytes F G c = Ok b"
  shows "\<exists>key kv. random_key_bytes F G c = Ok key \<and> attr_view F W (built_key b) = Ok kv
    \<and> is_secret_key kv \<and> \<not> is_public_key kv \<and> \<not> is_encrypted kv
    \<and> secret_bytes kv = Ok key \<and> key_bytes kv = Ok key"
proof -
  obtain key where key: "random_key_bytes F G c = Ok key"
    and b: "b = (builder_new c)\<lparr>b_attributes := Some
       (let attrs = attr_insert KeyData key Map.empty in
        if FLamport \<in> F \<and> lamport_merkle_codec c then attr_insert Depth [1] attrs else attrs)\<rparr>"
    using assms by (auto simp: new_from_random_eq_Ok)
  have codec: "mk_codec (built_key b) = c"
    by (simp add: b built_key_defs)
  obtain v where v: "dispatch_attr_view F (built_key b) = Ok v"
    and secret: "is_secret_key (view_methods W v (built_key b))"
    using random_key_view [of F G "built_key b" key W] key codec by auto
  have attrs: "mk_attributes (built_key b) KeyData = Some key"
    "mk_attributes (built_key b) KeyIsEncrypted = None"
    by (simp_all add: b built_key_defs Let_def)
  have plain: "\<not> is_encrypted (view_methods W v (built_key b))"
    using attrs(2) by (rule flag_absent)
  have bytes: "secret_bytes (view_methods W v (built_key b)) = Ok key"
    using secret_bytes_of_secret_key [OF secret plain] attrs(1) by (simp add: key_data_def get_attr_def)
  have view: "attr_view F W (built_key b) = Ok (view_methods W v (built_key b))"
    using v by (simp add: attr_view_def)
  moreover have "\<not> is_public_key (view_methods W v (built_key b))"
    using secret by (cases v; cases "mk_codec (built_key b)")
      (auto simp: view_defs sealed_view_def plain_view_def codec_part_defs)
  ultimately show ?thesis
    using key secret plain bytes attrs(1) by (auto simp: key_data_def get_attr_def)
qed

theorem generated_key_is_secret_witness:
  "\<exists>kv. attr_view {FMlKem} leb_wire (built_key ((builder_new (Mlkem K768 Priv))\<lparr>b_attributes :=
     Some (attr_insert KeyData (replicate 64 9) Map.empty)\<rparr>)) = Ok kv \<and> is_secret_key kv"
  using generated_key_is_secret [OF example_generated, of leb_wire] by auto

text \<open>
  Every codec in the lists of codecs for key generation is supported: in a build with all
  features a key of that codec is generated whenever the library generators succeed. (The list of
  Merkle codecs also has the public codecs, which are never generated.)
\<close>

theorem listed_codecs_generate:
  assumes "\<And>c. is_ok (lib_secret G c)" and "\<And>c d. is_ok (merkle_secret G c d)"
    and "c \<in> set (KEY_CODECS @ RSA_KEY_CODECS @ FN_DSA_KEY_CODECS @ ML_DSA_KEY_CODECS @ MAYO_KEY_CODECS @
      SLH_DSA_KEY_CODECS @ ML_KEM_KEY_CODECS @ SNTRUP_KEY_CODECS @ MCELIECE_KEY_CODECS @
      FRODOKEM_KEY_CODECS @ X25519_KEY_CODECS @ X25519_SNTRUP761_KEY_CODECS @
      X25519_MLKEM768_KEY_CODECS @ ED25519_MAYO2_KEY_CODECS @ LAMPORT_MERKLE_KEY_CODECS)"
    and "\<And>d. c \<noteq> LamportMerkle d LPub"
  shows "is_ok (new_from_random_bytes UNIV G c)"
proof -
  have lib: "\<exists>x. lib_secret G c = Ok x" "\<exists>x. merkle_secret G c d = Ok x" for c d
    using assms(1,2) by (auto simp: is_ok_iff)
  have "is_ok (random_key_bytes UNIV G c)"
    using assms(3,4) lib unfolding key_codec_lists
    by (auto simp: random_key_defs gated_def is_ok_iff generate_depth_eq_Ok
        lamport_merkle_codec_def depth_in_range_def)
  then show ?thesis
    by (auto simp: is_ok_iff new_from_random_eq_Ok)
qed

theorem listed_codecs_generate_witness:
  "is_ok (new_from_random_bytes UNIV example_generators (SlhDsa SlhSha2_128F SPriv))"
  by (rule listed_codecs_generate) (simp_all add: example_generators_def key_codec_lists)

text \<open>
  A Merkle key is built with the depth it was asked for, as a one-byte attribute, and only for a
  depth of one to three and a Merkle private codec.
\<close>

theorem merkle_key_depth:
  "new_from_random_bytes_with_depth G c depth = Ok b \<longleftrightarrow>
   (\<exists>key. depth_in_range depth \<and> lamport_merkle_codec c \<and> merkle_secret G c depth = Ok key \<and>
     built_key b = \<lparr>mk_codec = c, mk_comment = [],
       mk_attributes = attr_insert Depth [depth] (attr_insert KeyData key Map.empty)\<rparr> \<and>
     b = (builder_new c)\<lparr>b_attributes := Some (mk_attributes (built_key b))\<rparr>)"
proof
  assume "new_from_random_bytes_with_depth G c depth = Ok b"
  then show "\<exists>key. depth_in_range depth \<and> lamport_merkle_codec c \<and> merkle_secret G c depth = Ok key \<and>
     built_key b = \<lparr>mk_codec = c, mk_comment = [],
       mk_attributes = attr_insert Depth [depth] (attr_insert KeyData key Map.empty)\<rparr> \<and>
     b = (builder_new c)\<lparr>b_attributes := Some (mk_attributes (built_key b))\<rparr>"
    by (auto simp: new_from_random_bytes_with_depth_def outcome_simps generate_depth_eq_Ok
        built_key_defs split: if_splits)
next
  assume "\<exists>key. depth_in_range depth \<and> lamport_merkle_codec c \<and> merkle_secret G c depth = Ok key \<and>
     built_key b = \<lparr>mk_codec = c, mk_comment = [],
       mk_attributes = attr_insert Depth [depth] (attr_insert KeyData key Map.empty)\<rparr> \<and>
     b = (builder_new c)\<lparr>b_attributes := Some (mk_attributes (built_key b))\<rparr>"
  then obtain key where d: "depth_in_range depth" "lamport_merkle_codec c"
    and key: "merkle_secret G c depth = Ok key"
    and attrs: "mk_attributes (built_key b) = attr_insert Depth [depth] (attr_insert KeyData key Map.empty)"
    and b: "b = (builder_new c)\<lparr>b_attributes := Some (mk_attributes (built_key b))\<rparr>"
    by auto
  show "new_from_random_bytes_with_depth G c depth = Ok b"
    using d key attrs b
    by (simp add: new_from_random_bytes_with_depth_def generate_depth_eq_Ok [THEN iffD2])
qed

end
