(* ===== verification/Mk_Convert.thy ===== *)
theory Mk_Convert
  imports Mk_Builder
begin

text \<open>
  What the conversion, signing and sealing views share: the key bytes and the secret bytes of a key as
  the dispatchers give them out, the public key that a conversion builds, the public form of a key
  (\<^verbatim>\<open>public_form\<close>, \<^verbatim>\<open>src/views/dispatch.rs\<close>) and its fingerprint.
\<close>

section \<open>Bytes of a key\<close>

definition dispatched_secret :: "features \<Rightarrow> wire \<Rightarrow> multikey \<Rightarrow> bytes res" where
  "dispatched_secret F W k = and_then (data_view F W k) secret_bytes"

definition dispatched_bytes :: "features \<Rightarrow> wire \<Rightarrow> multikey \<Rightarrow> bytes res" where
  "dispatched_bytes F W k = and_then (data_view F W k) key_bytes"

definition public_multikey :: "codec \<Rightarrow> multikey \<Rightarrow> bytes \<Rightarrow> multikey" where
  "public_multikey c k pub = built_key (with_key_bytes (with_comment (builder_new c) (mk_comment k)) pub)"

section \<open>The public form of a key\<close>

text \<open>
  A secret key is converted by the conversion view of the module its codec is dispatched to, which is
  the module that asks; \<open>conv\<close> is that conversion.
\<close>

definition public_form :: "features \<Rightarrow> wire \<Rightarrow> (multikey \<Rightarrow> multikey res) \<Rightarrow> multikey \<Rightarrow> multikey res" where
  "public_form F W conv k =
     and_then (attr_view F W k) (\<lambda>attr.
     if is_secret_key attr then and_then (dispatch_conv_view F k) (\<lambda>_. conv k) else Ok k)"

section \<open>Fingerprints\<close>

text \<open>
  The fingerprint of a key is the 32-byte hash of its public key bytes; a secret key is converted
  first. \<open>mhash\<close> stands for the \<^verbatim>\<open>multi_hash\<close> builder. The views have the same method; the
  conversion and the test for a secret key are those of the view.
\<close>

definition fingerprint_with ::
  "(codec \<Rightarrow> bytes \<Rightarrow> nat \<Rightarrow> (lib_error, bytes) outcome) \<Rightarrow> features \<Rightarrow> wire \<Rightarrow> bool \<Rightarrow> multikey res \<Rightarrow>
   multikey \<Rightarrow> codec \<Rightarrow> bytes res" where
  "fingerprint_with mhash F W secret to_public k c =
     and_then
       (if secret then and_then to_public (\<lambda>pk. and_then (data_view F W pk) key_bytes)
        else key_data k) (\<lambda>pub.
     map_err Multihash (mhash c pub 32))"

text \<open>
  The variant that asks the dispatchers again: the fingerprint of a secret key is that of the public key
  it converts to, which the fingerprint view of that key computes. The views that a converted key can
  be dispatched to have this same method; the first argument bounds how often it is entered, and two is
  enough because a converted key is not secret.
\<close>

fun fingerprint_via ::
  "nat \<Rightarrow> (codec \<Rightarrow> bytes \<Rightarrow> nat \<Rightarrow> (lib_error, bytes) outcome) \<Rightarrow> features \<Rightarrow> wire \<Rightarrow> (multikey \<Rightarrow> multikey res) \<Rightarrow>
   multikey \<Rightarrow> codec \<Rightarrow> bytes res" where
  "fingerprint_via 0 mhash F W conv k c = Panic"
| "fingerprint_via (Suc n) mhash F W conv k c =
     and_then (attr_view F W k) (\<lambda>attr.
     if is_secret_key attr then
       and_then (conv k) (\<lambda>pk.
       and_then (dispatch_fingerprint_view F pk) (\<lambda>_.
       fingerprint_via n mhash F W conv pk c))
     else
       and_then (dispatched_bytes F W k) (\<lambda>bs.
       map_err Multihash (mhash c bs 32)))"

text \<open>The ChaCha20 module has no public form: the fingerprint is that of the key data, encrypted or not.\<close>

definition chacha20_fingerprint where
  "chacha20_fingerprint mhash F W k c =
     and_then (dispatched_bytes F W k) (\<lambda>bytes. map_err Multihash (mhash c bytes 32))"

end
