(* ===== verification/Mk_Multisig.thy ===== *)
theory Mk_Multisig
  imports Mk_Convert
begin

text \<open>
  Multisigs, the signatures that the signing views return and check. The type and its builder belong
  to the external crate \<^verbatim>\<open>multi_sig\<close>; here are the parts of it that the views use.
\<close>

section \<open>The external type and its functions\<close>

text \<open>The parts of a multisig that the views read and write.\<close>

record multisig =
  ms_codec :: codec
  ms_message :: bytes
  ms_sig :: "bytes option"
  ms_depth :: "bytes option"
  ms_index :: "32 word option"
  ms_scheme :: "byte option"
  ms_share :: "(nat \<times> nat \<times> bytes) option"  \<comment> \<open>threshold, limit and identifier of a signature share\<close>

record ms_lib =
  ms_try_build :: "codec \<Rightarrow> bytes \<Rightarrow> bytes option \<Rightarrow> (lib_error, multisig) outcome"
    \<comment> \<open>\<^verbatim>\<open>Builder::new\<close>, \<^verbatim>\<open>with_signature_bytes\<close>, \<^verbatim>\<open>with_message_bytes\<close>, \<^verbatim>\<open>try_build\<close>\<close>
  ms_view :: "multisig \<Rightarrow> (lib_error, unit) outcome"       \<comment> \<open>\<^verbatim>\<open>ViewBuilder::data().build()\<close>\<close>
  ms_sig_bytes :: "multisig \<Rightarrow> (lib_error, bytes) outcome" \<comment> \<open>\<^verbatim>\<open>sig_bytes\<close> of that view\<close>

text \<open>Documented behaviour: a built multisig holds what the builder was given.\<close>

definition ms_lib_ok :: "'a ms_lib_scheme \<Rightarrow> bool" where
  "ms_lib_ok L \<longleftrightarrow>
     (\<forall>c sig m. \<exists>ms. ms_try_build L c sig m = Ok ms \<and> ms_codec ms = c
        \<and> ms_message ms = (case m of Some b \<Rightarrow> b | None \<Rightarrow> [])
        \<and> ms_view L ms = Ok () \<and> ms_sig_bytes L ms = Ok sig)"

text \<open>The signature bytes, where \<^verbatim>\<open>verify\<close> replaces the error of \<^verbatim>\<open>sig_bytes\<close>.\<close>

definition sig_bytes_or_missing :: "'a ms_lib_scheme \<Rightarrow> multisig \<Rightarrow> bytes res" where
  "sig_bytes_or_missing L ms =
     and_then (map_err Multisig (ms_view L ms)) (\<lambda>_.
     map_err (\<lambda>_. Verify VeMissingSignature) (ms_sig_bytes L ms))"

text \<open>A multisig crate that keeps the parts as they are, for examples.\<close>

definition toy_ms_build :: "codec \<Rightarrow> bytes \<Rightarrow> bytes option \<Rightarrow> (lib_error, multisig) outcome" where
  "toy_ms_build c sig m = Ok \<lparr>ms_codec = c, ms_message = (case m of Some b \<Rightarrow> b | None \<Rightarrow> []), ms_sig = Some sig,
     ms_depth = None, ms_index = None, ms_scheme = None, ms_share = None\<rparr>"

definition toy_ms_bytes :: "multisig \<Rightarrow> (lib_error, bytes) outcome" where
  "toy_ms_bytes ms = Ok (case ms_sig ms of Some sig \<Rightarrow> sig | None \<Rightarrow> [])"

end
