(* ===== verification/Mk_Stateful.thy ===== *)
theory Mk_Stateful
  imports Mk_Prelude
begin

text \<open>
  Stateful signing keys. A signature of such a key comes with an advanced key that has to replace it
  (\<^verbatim>\<open>SignView::sign_advance\<close>, \<^verbatim>\<open>src/views.rs\<close>). The use of a key over time is the step relation
  \<open>signs\<close>; the locales are what a signer owes the holder of the key, and what the holder gets.
\<close>

section \<open>The use of a key over time\<close>

text \<open>
  A holder that keeps the advanced key after each signature. The log has, for each signature, the key
  that made it, the message and the signature.
\<close>

inductive signs ::
  "('k \<Rightarrow> 'm \<Rightarrow> ('e, 's \<times> 'k) outcome) \<Rightarrow> 'k \<Rightarrow> ('k \<times> 'm \<times> 's) list \<Rightarrow> 'k \<Rightarrow> bool"
  for step where
  none: "signs step k [] k"
| more: "step k m = Ok (s, k') \<Longrightarrow> signs step k' log k'' \<Longrightarrow> signs step k ((k, m, s) # log) k''"

inductive_simps signs_Nil: "signs step k [] k'"

inductive_cases signs_ConsE: "signs step k (e # log) k''"

section \<open>What a signer owes its holder\<close>

text \<open>Signing keeps the key usable.\<close>

locale key_chain =
  fixes good :: "'k \<Rightarrow> bool"
    and step :: "'k \<Rightarrow> 'm \<Rightarrow> ('e, 's \<times> 'k) outcome"
  assumes sign_good: "good k \<Longrightarrow> step k m = Ok (s, k') \<Longrightarrow> good k'"
begin

lemma signs_good: "signs step k log k' \<Longrightarrow> good k \<Longrightarrow> good k'"
  by (induction rule: signs.induct) (auto intro: sign_good)

lemma signs_log_good: "signs step k log k' \<Longrightarrow> good k \<Longrightarrow> e \<in> set log \<Longrightarrow> good (fst e)"
  by (induction rule: signs.induct) (auto intro: sign_good)

lemma signs_keep:
  assumes keep: "\<And>k m s k'. good k \<Longrightarrow> step k m = Ok (s, k') \<Longrightarrow> P k \<Longrightarrow> P k'"
  shows "signs step k log k' \<Longrightarrow> good k \<Longrightarrow> P k \<Longrightarrow>
    P k' \<and> (\<forall>(k1, m, s) \<in> set log. P k1 \<and> good k1 \<and> (\<exists>k2. step k1 m = Ok (s, k2)))"
proof (induction rule: signs.induct)
  case (none k)
  then show ?case
    by simp
next
  case (more k m s k' log k'')
  have "good k'" "P k'"
    by (rule sign_good[OF more.prems(1) more.hyps(1)], rule keep[OF more.prems(1) more.hyps(1) more.prems(2)])
  then show ?case
    using more.IH more.prems more.hyps(1) by auto
qed

end

text \<open>A signature moves the index forward: no two signatures of a chain have the same one.\<close>

locale advancing_signer = key_chain good step
  for good :: "'k \<Rightarrow> bool" and step :: "'k \<Rightarrow> 'm \<Rightarrow> ('e, 's \<times> 'k) outcome" +
  fixes index :: "'k \<Rightarrow> nat"
  assumes sign_forward: "good k \<Longrightarrow> step k m = Ok (s, k') \<Longrightarrow> index k < index k'"
begin

lemma signs_last: "signs step k log k' \<Longrightarrow> good k \<Longrightarrow> index k \<le> index k'"
proof (induction rule: signs.induct)
  case (more k m s k' log k'')
  show ?case
    using more.IH[OF sign_good[OF more.prems more.hyps(1)]] sign_forward[OF more.prems more.hyps(1)] by simp
qed simp

lemma signs_above:
  "signs step k log k' \<Longrightarrow> good k \<Longrightarrow> e \<in> set log \<Longrightarrow> index k \<le> index (fst e) \<and> index (fst e) < index k'"
proof (induction rule: signs.induct)
  case (none k)
  then show ?case
    by simp
next
  case (more k m s k' log k'')
  note next_key = sign_good[OF more.prems(1) more.hyps(1)] sign_forward[OF more.prems(1) more.hyps(1)]
  show ?case
    using more.IH[OF next_key(1)] more.prems(2) next_key(2) signs_last[OF more.hyps(2) next_key(1)] by auto
qed

lemma signs_increasing:
  "signs step k log k' \<Longrightarrow> good k \<Longrightarrow> sorted_wrt (<) (map (\<lambda>e. index (fst e)) log)"
proof (induction rule: signs.induct)
  case (none k)
  then show ?case
    by simp
next
  case (more k m s k' log k'')
  note next_key = sign_good[OF more.prems more.hyps(1)] sign_forward[OF more.prems more.hyps(1)]
  have "index k < index (fst e)" if "e \<in> set log" for e
    using signs_above[OF more.hyps(2) next_key(1) that] next_key(2) by simp
  then show ?case
    using more.IH[OF next_key(1)] by simp
qed

end

text \<open>There is a last index, so that no use of a key goes on for ever.\<close>

locale bounded_signer = advancing_signer good step index
  for good :: "'k \<Rightarrow> bool" and step :: "'k \<Rightarrow> 'm \<Rightarrow> ('e, 's \<times> 'k) outcome" and index :: "'k \<Rightarrow> nat" +
  fixes bound :: nat
  assumes index_bound: "good k \<Longrightarrow> index k < bound"
begin

lemma terminates: "wfp (\<lambda>k' k. good k \<and> (\<exists>m s. step k m = Ok (s, k')))"
proof (rule wfp_if_convertible_to_nat)
  fix k' k
  assume "good k \<and> (\<exists>m s. step k m = Ok (s, k'))"
  then obtain m s where k: "good k" "step k m = Ok (s, k')"
    by blast
  show "bound - index k' < bound - index k"
    using sign_forward[OF k] index_bound[OF sign_good[OF k]] by simp
qed

end

text \<open>A signature moves the index by one and takes one of finitely many leaves.\<close>

locale stateful_signer = key_chain good step
  for good :: "'k \<Rightarrow> bool" and step :: "'k \<Rightarrow> 'm \<Rightarrow> ('e, 's \<times> 'k) outcome" +
  fixes index :: "'k \<Rightarrow> nat"
    and left :: "'k \<Rightarrow> nat"
  assumes sign_index: "good k \<Longrightarrow> step k m = Ok (s, k') \<Longrightarrow> index k' = Suc (index k)"
    and sign_left: "good k \<Longrightarrow> step k m = Ok (s, k') \<Longrightarrow> left k = Suc (left k')"
begin

sublocale forward: advancing_signer good step index
  by unfold_locales (simp add: sign_index)

lemma signs_left: "signs step k log k' \<Longrightarrow> good k \<Longrightarrow> left k = left k' + length log"
  by (induction rule: signs.induct) (simp_all add: sign_left sign_good)

lemma signs_index: "signs step k log k' \<Longrightarrow> good k \<Longrightarrow> index k' = index k + length log"
  by (induction rule: signs.induct) (simp_all add: sign_index sign_good)

lemma signs_leaves:
  "signs step k log k' \<Longrightarrow> good k \<Longrightarrow>
   map (\<lambda>e. index (fst e)) log = [index k..<index k + length log]"
proof (induction rule: signs.induct)
  case (none k)
  then show ?case
    by simp
next
  case (more k m s k' log k'')
  note next_key = sign_good[OF more.prems more.hyps(1)] sign_index[OF more.prems more.hyps(1)]
  have "map (\<lambda>e. index (fst e)) log = [Suc (index k)..<Suc (index k) + length log]"
    using more.IH[OF next_key(1)] next_key(2) by simp
  then show ?case
    by (simp add: upt_conv_Cons del: upt_Suc)
qed

lemma exhausted: "good k \<Longrightarrow> left k = 0 \<Longrightarrow> step k m \<noteq> Ok (s, k')"
  using sign_left by fastforce

lemma steps_terminate: "wfp (\<lambda>k' k. good k \<and> (\<exists>m s. step k m = Ok (s, k')))"
proof (rule wfp_if_convertible_to_nat)
  fix k' k
  assume "good k \<and> (\<exists>m s. step k m = Ok (s, k'))"
  then show "left k' < left k"
    using sign_left by fastforce
qed

end

text \<open>While a leaf is left, a signature is made.\<close>

locale live_signer = stateful_signer good step index left
  for good :: "'k \<Rightarrow> bool" and step :: "'k \<Rightarrow> 'm \<Rightarrow> ('e, 's \<times> 'k) outcome" and index left +
  assumes sign_live: "good k \<Longrightarrow> 0 < left k \<Longrightarrow> \<exists>s k'. step k m = Ok (s, k')"
begin

lemma signs_all:
  "good k \<Longrightarrow> length ms \<le> left k \<Longrightarrow>
   \<exists>log k'. signs step k log k' \<and> map (\<lambda>e. fst (snd e)) log = ms \<and> left k' = left k - length ms"
proof (induction ms arbitrary: k)
  case Nil
  then show ?case
    by (auto intro: signs.none)
next
  case (Cons m ms)
  then obtain s k' where step: "step k m = Ok (s, k')"
    using sign_live[of k m] by auto
  note next_key = sign_good[OF Cons.prems(1) step] sign_left[OF Cons.prems(1) step]
  obtain log k'' where rest: "signs step k' log k''" and log: "map (\<lambda>e. fst (snd e)) log = ms" "left k'' = left k' - length ms"
    using Cons.IH[OF next_key(1)] Cons.prems(2) next_key(2) by auto
  then show ?case
    using signs.more[OF step rest] log next_key(2) by (intro exI[of _ "(k, m, s) # log"] exI[of _ k'']) simp
qed

end

end
