(* ===== verification/Mk_Aead.thy ===== *)
theory Mk_Aead
  imports Mk_Cipher
begin

text \<open>
  The authenticated encryption shared by all sealing views (\<^verbatim>\<open>src/views/aead.rs\<close>): key and nonce
  sizes, sealing and opening under one of four AEAD codecs, HKDF key derivation, and the three wire
  layouts of a sealed message with their decoder (\<^verbatim>\<open>decode_sealed\<close> of the KEM views). The ciphers
  and HKDF are external and a parameter.
\<close>

section \<open>The external functions\<close>

text \<open>The texts are those of the error values of the cipher crates.\<close>

record aead_lib =
  cipher_encrypt :: "codec \<Rightarrow> bytes \<Rightarrow> bytes \<Rightarrow> bytes \<Rightarrow> bytes \<Rightarrow> bytes option"
    \<comment> \<open>cipher, key, nonce, associated data, plaintext\<close>
  cipher_decrypt :: "codec \<Rightarrow> bytes \<Rightarrow> bytes \<Rightarrow> bytes \<Rightarrow> bytes \<Rightarrow> bytes option"
  hkdf_expand :: "bytes \<Rightarrow> bytes \<Rightarrow> nat \<Rightarrow> (string, bytes) outcome"
    \<comment> \<open>input key material, info, length\<close>
  invalid_length_text :: string
  aead_error_text :: string

definition aead_lib_ok :: "aead_lib \<Rightarrow> bool" where
  "aead_lib_ok L \<longleftrightarrow>
     (\<forall>c key nonce aad pt ct. cipher_encrypt L c key nonce aad pt = Some ct \<longrightarrow>
        cipher_decrypt L c key nonce aad ct = Some pt)
   \<and> (\<forall>ikm info n okm. hkdf_expand L ikm info n = Ok okm \<longrightarrow> length okm = n)"

type_synonym 'a seal_res = "(seal_error, 'a) outcome"

section \<open>Sizes and key derivation\<close>

definition derive_aead_key :: "aead_lib \<Rightarrow> bytes \<Rightarrow> bytes \<Rightarrow> nat \<Rightarrow> bytes seal_res" where
  "derive_aead_key L shared_secret info key_len =
     map_err SeKeyDerivationFailed (hkdf_expand L shared_secret info key_len)"

fun key_size :: "codec \<Rightarrow> nat seal_res" where
  "key_size Chacha20Poly1305 = Ok 32"
| "key_size Xchacha20Poly1305 = Ok 32"
| "key_size AesGcm256 = Ok 32"
| "key_size AesGcm128 = Ok 16"
| "key_size c = Err (SeUnsupportedAeadCodec c)"

fun nonce_size :: "codec \<Rightarrow> nat seal_res" where
  "nonce_size Chacha20Poly1305 = Ok 12"
| "nonce_size Xchacha20Poly1305 = Ok 24"
| "nonce_size AesGcm256 = Ok 12"
| "nonce_size AesGcm128 = Ok 12"
| "nonce_size c = Err (SeUnsupportedAeadCodec c)"

section \<open>Sealing and opening\<close>

text \<open>
  One arm of the match on the codec. \<^verbatim>\<open>new_from_slice\<close> answers an error for a key of the wrong
  length; \<^verbatim>\<open>Nonce::from_slice\<close> panics for a nonce of the wrong length. \<open>key_bytes_of\<close> and
  \<open>nonce_bytes_of\<close> are the sizes of the cipher type of the arm.
\<close>

definition seal_arm :: "aead_lib \<Rightarrow> codec \<Rightarrow> nat \<Rightarrow> nat \<Rightarrow> bytes \<Rightarrow> bytes \<Rightarrow> bytes \<Rightarrow> bytes \<Rightarrow> bytes seal_res" where
  "seal_arm L c key_bytes_of nonce_bytes_of key nonce aad pt =
     (if length key \<noteq> key_bytes_of then Err (SeAeadSealFailed (invalid_length_text L))
      else if length nonce \<noteq> nonce_bytes_of then Panic
      else ok_or (SeAeadSealFailed (aead_error_text L)) (cipher_encrypt L c key nonce aad pt))"

definition open_arm :: "aead_lib \<Rightarrow> codec \<Rightarrow> nat \<Rightarrow> nat \<Rightarrow> bytes \<Rightarrow> bytes \<Rightarrow> bytes \<Rightarrow> bytes \<Rightarrow> bytes seal_res" where
  "open_arm L c key_bytes_of nonce_bytes_of key nonce aad ct =
     (if length key \<noteq> key_bytes_of then Err SeAeadOpenFailed
      else if length nonce \<noteq> nonce_bytes_of then Panic
      else ok_or SeAeadOpenFailed (cipher_decrypt L c key nonce aad ct))"

text \<open>\<open>rng n\<close> is what the generator writes into a nonce buffer of \<open>n\<close> bytes.\<close>

definition aead_seal ::
  "aead_lib \<Rightarrow> (nat \<Rightarrow> bytes) \<Rightarrow> codec \<Rightarrow> bytes \<Rightarrow> bytes \<Rightarrow> bytes \<Rightarrow> (bytes \<times> bytes) seal_res" where
  "aead_seal L rng c key pt aad =
     and_then (nonce_size c) (\<lambda>ns.
     let nonce = rng ns in
     and_then
       (case c of
          Chacha20Poly1305 \<Rightarrow> seal_arm L c 32 12 key nonce aad pt
        | Xchacha20Poly1305 \<Rightarrow> seal_arm L c 32 24 key nonce aad pt
        | AesGcm256 \<Rightarrow> seal_arm L c 32 12 key nonce aad pt
        | AesGcm128 \<Rightarrow> seal_arm L c 16 12 key nonce aad pt
        | _ \<Rightarrow> Err (SeUnsupportedAeadCodec c)) (\<lambda>ct.
     Ok (nonce, ct)))"

definition aead_open ::
  "aead_lib \<Rightarrow> codec \<Rightarrow> bytes \<Rightarrow> bytes \<Rightarrow> bytes \<Rightarrow> bytes \<Rightarrow> bytes seal_res" where
  "aead_open L c key nonce ct aad =
     (case c of
        Chacha20Poly1305 \<Rightarrow> open_arm L c 32 12 key nonce aad ct
      | Xchacha20Poly1305 \<Rightarrow> open_arm L c 32 24 key nonce aad ct
      | AesGcm256 \<Rightarrow> open_arm L c 32 12 key nonce aad ct
      | AesGcm128 \<Rightarrow> open_arm L c 16 12 key nonce aad ct
      | _ \<Rightarrow> Err (SeUnsupportedAeadCodec c))"

section \<open>Sealed messages on the wire\<close>

definition encode_sealed_into :: "wire \<Rightarrow> bytes \<Rightarrow> codec \<Rightarrow> bytes \<Rightarrow> bytes \<Rightarrow> bytes" where
  "encode_sealed_into W out c nonce ct_tag =
     (let out = out @ put_codec W c;
          out = encode_varbytes_into W out nonce;
          out = encode_varbytes_into W out ct_tag
      in out)"

definition encode_sealed :: "wire \<Rightarrow> codec \<Rightarrow> bytes \<Rightarrow> bytes \<Rightarrow> bytes" where
  "encode_sealed W c nonce ct_tag = encode_sealed_into W [] c nonce ct_tag"

definition encode_kem_sealed :: "wire \<Rightarrow> bytes \<Rightarrow> codec \<Rightarrow> bytes \<Rightarrow> bytes \<Rightarrow> bytes" where
  "encode_kem_sealed W kem_ct c nonce ct_tag =
     encode_sealed_into W (encode_varbytes_into W [] kem_ct) c nonce ct_tag"

definition encode_hybrid_sealed :: "wire \<Rightarrow> bytes \<Rightarrow> bytes \<Rightarrow> bytes \<Rightarrow> bytes \<Rightarrow> bytes" where
  "encode_hybrid_sealed W ephemeral_pub kem_ct nonce ct_tag =
     foldl (encode_varbytes_into W) [] [ephemeral_pub, kem_ct, nonce, ct_tag]"

text \<open>
  The decoders: of the AEAD part alone (the ECDH views), of a KEM-sealed message (the KEM views) and
  of a hybrid one. Bytes after the last field are ignored.
\<close>

definition invalid_format :: "string \<Rightarrow> (lib_error, 'a) outcome \<Rightarrow> 'a seal_res" where
  "invalid_format what = map_err (\<lambda>_. SeInvalidFormat what)"

definition decode_sealed :: "wire \<Rightarrow> bytes \<Rightarrow> (codec \<times> bytes \<times> bytes) seal_res" where
  "decode_sealed W data =
     and_then (invalid_format ''missing aead codec'' (get_codec W data)) (\<lambda>(c, p).
     and_then (invalid_format ''missing nonce'' (get_varbytes W p)) (\<lambda>(nonce, p).
     and_then (invalid_format ''missing ciphertext'' (get_varbytes W p)) (\<lambda>(ct_tag, _).
     Ok (c, nonce, ct_tag))))"

definition decode_kem_sealed :: "wire \<Rightarrow> bytes \<Rightarrow> (bytes \<times> codec \<times> bytes \<times> bytes) seal_res" where
  "decode_kem_sealed W data =
     and_then (invalid_format ''missing kem ciphertext'' (get_varbytes W data)) (\<lambda>(kem_ct, p).
     and_then (invalid_format ''missing aead codec'' (get_codec W p)) (\<lambda>(c, p).
     and_then (invalid_format ''missing nonce'' (get_varbytes W p)) (\<lambda>(nonce, p).
     and_then (invalid_format ''missing ciphertext'' (get_varbytes W p)) (\<lambda>(ct_tag, _).
     Ok (kem_ct, c, nonce, ct_tag)))))"

section \<open>Lemmas\<close>

lemma aead_seal_eq:
  "key_size c = Ok ks \<Longrightarrow> nonce_size c = Ok ns \<Longrightarrow>
   aead_seal L rng c key pt aad =
     and_then (seal_arm L c ks ns key (rng ns) aad pt) (\<lambda>ct. Ok (rng ns, ct))"
  by (cases c) (simp_all add: aead_seal_def Let_def)

lemma aead_sizes_agree: "is_ok (key_size c) \<longleftrightarrow> is_ok (nonce_size c)"
  by (cases c) simp_all

lemma aead_seal_cases:
  assumes "aead_seal L rng c key pt aad = Ok (nonce, ct)"
  obtains ks ns where "key_size c = Ok ks" "nonce_size c = Ok ns" "length key = ks"
    "length nonce = ns" "nonce = rng ns" "cipher_encrypt L c key nonce aad pt = Some ct"
proof -
  obtain ns where ns: "nonce_size c = Ok ns"
    using assms by (cases "nonce_size c") (simp_all add: aead_seal_def)
  then obtain ks where ks: "key_size c = Ok ks"
    using aead_sizes_agree [of c] by (auto simp: is_ok_iff)
  have arm: "seal_arm L c ks ns key (rng ns) aad pt = Ok ct" and nonce: "nonce = rng ns"
    using assms unfolding aead_seal_eq [OF ks ns] by (auto simp: and_then_eq_Ok)
  then have "length key = ks \<and> length nonce = ns \<and> cipher_encrypt L c key nonce aad pt = Some ct"
    by (simp add: seal_arm_def ok_or_eq_Ok split: if_splits)
  then show thesis
    using that [OF ks ns] nonce by blast
qed

lemma aead_open_eq:
  "key_size c = Ok ks \<Longrightarrow> nonce_size c = Ok ns \<Longrightarrow>
   aead_open L c key nonce ct aad = open_arm L c ks ns key nonce aad ct"
  by (cases c) (simp_all add: aead_open_def)

lemma aead_open_seal:
  assumes "aead_lib_ok L" and "aead_seal L rng c key pt aad = Ok (nonce, ct)"
  shows "aead_open L c key nonce ct aad = Ok pt"
  using assms(2)
proof (cases rule: aead_seal_cases)
  case (1 ks ns)
  moreover have "cipher_decrypt L c key nonce aad ct = Some pt"
    using assms(1) 1(6) unfolding aead_lib_ok_def by blast
  ultimately show ?thesis
    by (simp add: aead_open_eq open_arm_def)
qed

text \<open>The AEAD meets the contract of sealing; the value sealed under (codec, key, data) is a plaintext.\<close>

interpretation aead: sealing "\<lambda>(rng, c, key, aad) pt. aead_seal L rng c key pt aad"
  "\<lambda>(rng, c, key, aad) (nonce, ct). aead_open L c key nonce ct aad"
  "\<lambda>_ _. aead_lib_ok L" for L
  by unfold_locales (auto simp: aead_open_seal)

lemma aead_open_panic_iff:
  "aead_open L c key nonce ct aad = Panic \<longleftrightarrow>
   (\<exists>ks ns. key_size c = Ok ks \<and> nonce_size c = Ok ns \<and> length key = ks \<and> length nonce \<noteq> ns)"
  by (cases c) (auto simp: aead_open_def open_arm_def)

lemma aead_seal_no_panic:
  assumes "\<And>n. length (rng n) = n"
  shows "aead_seal L rng c key pt aad \<noteq> Panic"
  using assms by (cases c) (auto simp: aead_seal_def seal_arm_def and_then_eq_Panic Let_def)

lemmas sealed_layout_defs = encode_sealed_def encode_kem_sealed_def encode_hybrid_sealed_def
  encode_sealed_into_def

lemma encode_kem_sealed_fields:
  "encode_kem_sealed W kem_ct c nonce ct_tag =
   varbytes W kem_ct @ put_codec W c @ varbytes W nonce @ varbytes W ct_tag"
  by (simp add: sealed_layout_defs encode_varbytes_into_def)

lemma encode_sealed_fields:
  "encode_sealed W c nonce ct_tag = put_codec W c @ varbytes W nonce @ varbytes W ct_tag"
  by (simp add: sealed_layout_defs encode_varbytes_into_def)

lemma encode_hybrid_sealed_fields:
  "encode_hybrid_sealed W e kem_ct nonce ct_tag =
   varbytes W e @ varbytes W kem_ct @ varbytes W nonce @ varbytes W ct_tag"
  by (simp add: sealed_layout_defs encode_varbytes_into_def)

text \<open>No field of a sealed message may pass the cap of a \<^verbatim>\<open>Varbytes\<close>.\<close>

abbreviation fits :: "bytes \<Rightarrow> bool" where
  "fits bs \<equiv> length bs \<le> MAX_DECODED_SIZE"

lemma decode_encode_sealed:
  "wire_ok W \<Longrightarrow> fits nonce \<Longrightarrow> fits ct \<Longrightarrow>
   decode_sealed W (encode_sealed W c nonce ct @ r) = Ok (c, nonce, ct)"
  by (simp add: decode_sealed_def encode_sealed_fields codec_wire.dec_enc varbytes_wire.dec_enc
      invalid_format_def)

lemma decode_encode_kem_sealed:
  "wire_ok W \<Longrightarrow> fits kem_ct \<Longrightarrow> fits nonce \<Longrightarrow> fits ct \<Longrightarrow>
   decode_kem_sealed W (encode_kem_sealed W kem_ct c nonce ct @ r) = Ok (kem_ct, c, nonce, ct)"
  by (simp add: decode_kem_sealed_def encode_kem_sealed_fields codec_wire.dec_enc
      varbytes_wire.dec_enc invalid_format_def)

end
