(* ===== verification/Mk_Kem.thy ===== *)
theory Mk_Kem
  imports Mk_Aead Mk_Convert
begin

text \<open>
  Sealing to a public key and opening with the private key: the ML-KEM, sntrup and FrodoKEM views
  (\<^verbatim>\<open>src/views/ml_kem.rs\<close>, \<^verbatim>\<open>sntrup.rs\<close>, \<^verbatim>\<open>frodokem.rs\<close>) and the X25519 view (\<^verbatim>\<open>x25519.rs\<close>),
  with the conversion to the public key and the fingerprint of each. The KEMs, the Diffie-Hellman
  function and the hash functions are external and a parameter. What a view relies on is the locale
  \<open>kem_view\<close>; it is interpreted for the three KEM views and gives the round trip of each.
\<close>

section \<open>The external functions\<close>

record kem_lib =
  mlkem_public :: "kem_set \<Rightarrow> bytes \<Rightarrow> bytes"                 \<comment> \<open>seed to encapsulation key\<close>
  mlkem_ek_size :: "kem_set \<Rightarrow> nat"
  mlkem_encaps :: "kem_set \<Rightarrow> bytes \<Rightarrow> (bytes \<times> bytes) option" \<comment> \<open>None: the key is not valid\<close>
  mlkem_ct_size :: "kem_set \<Rightarrow> nat"
  mlkem_decaps :: "kem_set \<Rightarrow> bytes \<Rightarrow> bytes \<Rightarrow> bytes"       \<comment> \<open>seed, ciphertext\<close>
  sntrup_public :: "sntrup_set \<Rightarrow> bytes \<Rightarrow> bytes"
  sntrup_encaps :: "sntrup_set \<Rightarrow> bytes \<Rightarrow> (bytes \<times> bytes) option" \<comment> \<open>None: wrong size\<close>
  sntrup_decaps :: "sntrup_set \<Rightarrow> bytes \<Rightarrow> bytes \<Rightarrow> bytes option" \<comment> \<open>None: wrong size\<close>
  frodo_public :: "frodo_set \<Rightarrow> bytes \<Rightarrow> (string, bytes) outcome"
  frodo_encaps :: "frodo_set \<Rightarrow> bytes \<Rightarrow> (string, bytes \<times> bytes) outcome"
  frodo_decaps :: "frodo_set \<Rightarrow> bytes \<Rightarrow> bytes \<Rightarrow> (string, bytes) outcome"
  x25519_public :: "bytes \<Rightarrow> bytes"
  x25519_dh :: "bytes \<Rightarrow> bytes \<Rightarrow> bytes"                       \<comment> \<open>secret, public\<close>

text \<open>Documented behaviour: decapsulation returns the encapsulated secret, sizes are as published,
  Diffie-Hellman commutes.\<close>

definition kem_lib_ok :: "kem_lib \<Rightarrow> bool" where
  "kem_lib_ok K \<longleftrightarrow>
     (\<forall>s seed ct ss. mlkem_encaps K s (mlkem_public K s seed) = Some (ct, ss) \<longrightarrow>
        length ct = mlkem_ct_size K s \<and> mlkem_decaps K s seed ct = ss)
   \<and> (\<forall>s seed ct ss. sntrup_encaps K s (sntrup_public K s seed) = Some (ct, ss) \<longrightarrow>
        sntrup_decaps K s seed ct = Some ss)
   \<and> (\<forall>s sk pk ct ss. frodo_public K s sk = Ok pk \<longrightarrow> frodo_encaps K s pk = Ok (ct, ss) \<longrightarrow>
        frodo_decaps K s sk ct = Ok ss)
   \<and> (\<forall>a b. x25519_dh K a (x25519_public K b) = x25519_dh K b (x25519_public K a))
   \<and> (\<forall>a. length (x25519_public K a) = 32)"

text \<open>A byte string literal \<^verbatim>\<open>b"..."\<close>.\<close>

definition ascii :: "string \<Rightarrow> bytes" where
  "ascii s = map of_char s"

section \<open>The parts that the views share\<close>

text \<open>Derive the AEAD key from the shared secret, then seal or open.\<close>

definition seal_with_secret ::
  "aead_lib \<Rightarrow> (nat \<Rightarrow> bytes) \<Rightarrow> bytes \<Rightarrow> codec \<Rightarrow> bytes \<Rightarrow> bytes \<Rightarrow> bytes \<Rightarrow> (bytes \<times> bytes) res" where
  "seal_with_secret L rng info c ss pt aad =
     map_err Seal
      (and_then (key_size c) (\<lambda>key_len.
       and_then (derive_aead_key L ss info key_len) (\<lambda>key.
       aead_seal L rng c key pt aad)))"

definition open_with_secret ::
  "aead_lib \<Rightarrow> bytes \<Rightarrow> codec \<Rightarrow> bytes \<Rightarrow> bytes \<Rightarrow> bytes \<Rightarrow> bytes \<Rightarrow> bytes res" where
  "open_with_secret L info c ss nonce ct aad =
     map_err Seal
      (and_then (key_size c) (\<lambda>key_len.
       and_then (derive_aead_key L ss info key_len) (\<lambda>key.
       aead_open L c key nonce ct aad)))"

section \<open>ML-KEM\<close>

definition ML_KEM_SEED_LENGTH :: nat where "ML_KEM_SEED_LENGTH = 64"

definition is_ml_kem_aead_allowed :: "codec \<Rightarrow> bool" where
  "is_ml_kem_aead_allowed c \<longleftrightarrow> c = Xchacha20Poly1305 \<or> c = Chacha20Poly1305 \<or> c = AesGcm256"

definition ml_kem_to_public_key :: "features \<Rightarrow> wire \<Rightarrow> kem_lib \<Rightarrow> multikey \<Rightarrow> multikey res" where
  "ml_kem_to_public_key F W K k =
     and_then (dispatched_secret F W k) (\<lambda>seed.
     if length seed \<noteq> ML_KEM_SEED_LENGTH
     then Err (Conversions (CvSecretKeyFailure ''invalid seed length''))
     else
     and_then
       (let bad = Err (Conversions (CvSecretKeyFailure ''not an ML-KEM private key'')) in
        case mk_codec k of
          Mlkem s p \<Rightarrow> if p = Priv then Ok (mlkem_public K s seed, Mlkem s Pub) else bad
        | _ \<Rightarrow> bad) (\<lambda>(pub, c).
     Ok (public_multikey c k pub)))"

definition ml_kem_encapsulate :: "kem_lib \<Rightarrow> codec \<Rightarrow> bytes \<Rightarrow> (bytes \<times> bytes) res" where
  "ml_kem_encapsulate K c pub =
     (case c of
        Mlkem s p \<Rightarrow>
          if p \<noteq> Pub then Err (Seal SeNotEncapsulationKey)
          else if length pub \<noteq> mlkem_ek_size K s
          then Err (Seal (SeEncapsulationFailed ''invalid key size''))
          else ok_or (Seal (SeEncapsulationFailed ''invalid encapsulation key'')) (mlkem_encaps K s pub)
      | _ \<Rightarrow> Err (Seal SeNotEncapsulationKey))"

definition ml_kem_decapsulate :: "kem_lib \<Rightarrow> codec \<Rightarrow> bytes \<Rightarrow> bytes \<Rightarrow> bytes res" where
  "ml_kem_decapsulate K c seed kem_ct =
     (case c of
        Mlkem s p \<Rightarrow>
          if p \<noteq> Priv then Err (Seal SeNotDecapsulationKey)
          else if length kem_ct \<noteq> mlkem_ct_size K s
          then Err (Seal (SeDecapsulationFailed ''invalid ciphertext size''))
          else Ok (mlkem_decaps K s seed kem_ct)
      | _ \<Rightarrow> Err (Seal SeNotDecapsulationKey))"

definition ml_kem_seal ::
  "wire \<Rightarrow> aead_lib \<Rightarrow> kem_lib \<Rightarrow> (nat \<Rightarrow> bytes) \<Rightarrow> multikey \<Rightarrow> bytes \<Rightarrow> codec \<Rightarrow> bytes \<Rightarrow>
   (bytes \<times> multikey option) res" where
  "ml_kem_seal W L K rng k pt c aad =
     (if \<not> is_ml_kem_pub (mk_codec k) then Err (Seal SeNotEncapsulationKey)
      else if \<not> is_ml_kem_aead_allowed c then Err (Seal (SeUnsupportedAeadCodec c))
      else
      and_then (key_data k) (\<lambda>pub.
      and_then (ml_kem_encapsulate K (mk_codec k) pub) (\<lambda>(kem_ct, ss).
      and_then (seal_with_secret L rng (ascii ''ml-kem-seal'') c ss pt aad) (\<lambda>(nonce, ct).
      Ok (encode_kem_sealed W kem_ct c nonce ct, None)))))"

definition ml_kem_open ::
  "features \<Rightarrow> wire \<Rightarrow> aead_lib \<Rightarrow> kem_lib \<Rightarrow> multikey \<Rightarrow> bytes \<Rightarrow> multikey option \<Rightarrow> bytes \<Rightarrow> bytes res" where
  "ml_kem_open F W L K k sealed ephemeral aad =
     (if \<not> is_ml_kem_priv (mk_codec k) then Err (Seal SeNotDecapsulationKey)
      else
      and_then (map_err Seal (decode_kem_sealed W sealed)) (\<lambda>(kem_ct, c, nonce, ct).
      if \<not> is_ml_kem_aead_allowed c then Err (Seal (SeUnsupportedAeadCodec c))
      else
      and_then (dispatched_secret F W k) (\<lambda>seed.
      if length seed \<noteq> ML_KEM_SEED_LENGTH
      then Err (Conversions (CvSecretKeyFailure ''invalid seed length''))
      else
      and_then (ml_kem_decapsulate K (mk_codec k) seed kem_ct) (\<lambda>ss.
      open_with_secret L (ascii ''ml-kem-seal'') c ss nonce ct aad))))"

section \<open>sntrup\<close>

definition SNTRUP_SEED_LENGTH :: nat where "SNTRUP_SEED_LENGTH = 32"

definition is_sntrup_aead_allowed :: "codec \<Rightarrow> bool" where
  "is_sntrup_aead_allowed c \<longleftrightarrow> c = Xchacha20Poly1305 \<or> c = Chacha20Poly1305 \<or> c = AesGcm256"

definition sntrup_pub_codec :: "codec \<Rightarrow> codec res" where
  "sntrup_pub_codec c =
     (let bad = Err (Conversions (CvSecretKeyFailure ''not an sntrup private key'')) in
      case c of Sntrup s p \<Rightarrow> if p = Priv then Ok (Sntrup s Pub) else bad | _ \<Rightarrow> bad)"

definition sntrup_seal_info :: "codec \<Rightarrow> bytes" where
  "sntrup_seal_info c =
     (case c of
        Sntrup s _ \<Rightarrow>
          (case s of S761 \<Rightarrow> ascii ''sntrup761-seal'' | S857 \<Rightarrow> ascii ''sntrup857-seal''
           | S953 \<Rightarrow> ascii ''sntrup953-seal'' | S1013 \<Rightarrow> ascii ''sntrup1013-seal''
           | S1277 \<Rightarrow> ascii ''sntrup1277-seal'')
      | _ \<Rightarrow> ascii ''sntrup-seal'')"

definition sntrup_generate_public_key :: "kem_lib \<Rightarrow> codec \<Rightarrow> bytes \<Rightarrow> bytes res" where
  "sntrup_generate_public_key K c seed =
     (let bad = Err (Conversions (CvSecretKeyFailure ''not an sntrup private key'')) in
      case c of Sntrup s p \<Rightarrow> if p = Priv then Ok (sntrup_public K s seed) else bad | _ \<Rightarrow> bad)"

definition sntrup_kem_encapsulate :: "kem_lib \<Rightarrow> codec \<Rightarrow> bytes \<Rightarrow> (bytes \<times> bytes) res" where
  "sntrup_kem_encapsulate K c pub =
     (case c of
        Sntrup s p \<Rightarrow>
          if p \<noteq> Pub then Err (Seal SeNotEncapsulationKey)
          else ok_or (Seal (SeEncapsulationFailed ''invalid key size'')) (sntrup_encaps K s pub)
      | _ \<Rightarrow> Err (Seal SeNotEncapsulationKey))"

definition sntrup_kem_decapsulate :: "kem_lib \<Rightarrow> codec \<Rightarrow> bytes \<Rightarrow> bytes \<Rightarrow> bytes res" where
  "sntrup_kem_decapsulate K c seed kem_ct =
     (case c of
        Sntrup s p \<Rightarrow>
          if p \<noteq> Priv then Err (Seal SeNotDecapsulationKey)
          else ok_or (Seal (SeDecapsulationFailed ''invalid ciphertext size'')) (sntrup_decaps K s seed kem_ct)
      | _ \<Rightarrow> Err (Seal SeNotDecapsulationKey))"

definition sntrup_to_public_key :: "features \<Rightarrow> wire \<Rightarrow> kem_lib \<Rightarrow> multikey \<Rightarrow> multikey res" where
  "sntrup_to_public_key F W K k =
     and_then (dispatched_secret F W k) (\<lambda>seed.
     if length seed \<noteq> SNTRUP_SEED_LENGTH
     then Err (Conversions (CvSecretKeyFailure ''invalid seed length''))
     else
     and_then (sntrup_generate_public_key K (mk_codec k) seed) (\<lambda>pub.
     and_then (sntrup_pub_codec (mk_codec k)) (\<lambda>c.
     Ok (public_multikey c k pub))))"

definition sntrup_seal ::
  "wire \<Rightarrow> aead_lib \<Rightarrow> kem_lib \<Rightarrow> (nat \<Rightarrow> bytes) \<Rightarrow> multikey \<Rightarrow> bytes \<Rightarrow> codec \<Rightarrow> bytes \<Rightarrow>
   (bytes \<times> multikey option) res" where
  "sntrup_seal W L K rng k pt c aad =
     (if \<not> is_sntrup_pub (mk_codec k) then Err (Seal SeNotEncapsulationKey)
      else if \<not> is_sntrup_aead_allowed c then Err (Seal (SeUnsupportedAeadCodec c))
      else
      and_then (key_data k) (\<lambda>pub.
      and_then (sntrup_kem_encapsulate K (mk_codec k) pub) (\<lambda>(kem_ct, ss).
      and_then (seal_with_secret L rng (sntrup_seal_info (mk_codec k)) c ss pt aad) (\<lambda>(nonce, ct).
      Ok (encode_kem_sealed W kem_ct c nonce ct, None)))))"

definition sntrup_open ::
  "features \<Rightarrow> wire \<Rightarrow> aead_lib \<Rightarrow> kem_lib \<Rightarrow> multikey \<Rightarrow> bytes \<Rightarrow> multikey option \<Rightarrow> bytes \<Rightarrow> bytes res" where
  "sntrup_open F W L K k sealed ephemeral aad =
     (if \<not> is_sntrup_priv (mk_codec k) then Err (Seal SeNotDecapsulationKey)
      else
      and_then (map_err Seal (decode_kem_sealed W sealed)) (\<lambda>(kem_ct, c, nonce, ct).
      if \<not> is_sntrup_aead_allowed c then Err (Seal (SeUnsupportedAeadCodec c))
      else
      and_then (dispatched_secret F W k) (\<lambda>seed.
      if length seed \<noteq> SNTRUP_SEED_LENGTH
      then Err (Conversions (CvSecretKeyFailure ''invalid seed length''))
      else
      and_then (sntrup_kem_decapsulate K (mk_codec k) seed kem_ct) (\<lambda>ss.
      open_with_secret L (sntrup_seal_info (mk_codec k)) c ss nonce ct aad))))"

section \<open>FrodoKEM\<close>

definition is_frodokem_aead_allowed :: "codec \<Rightarrow> bool" where
  "is_frodokem_aead_allowed c \<longleftrightarrow> c = Xchacha20Poly1305 \<or> c = Chacha20Poly1305 \<or> c = AesGcm256"

definition frodokem_public_codec :: "codec \<Rightarrow> codec res" where
  "frodokem_public_codec c =
     (let bad = Err (Conversions (CvSecretKeyFailure ''not a FrodoKEM private key'')) in
      case c of FrodoKem s p \<Rightarrow> if p = Priv then Ok (FrodoKem s Pub) else bad | _ \<Rightarrow> bad)"

definition frodokem_public_from_private :: "kem_lib \<Rightarrow> codec \<Rightarrow> bytes \<Rightarrow> bytes res" where
  "frodokem_public_from_private K c secret =
     (let bad = Err (Conversions (CvSecretKeyFailure ''not a FrodoKEM private key'')) in
      case c of
        FrodoKem s p \<Rightarrow>
          if p = Priv then map_err (\<lambda>e. Conversions (CvSecretKeyFailure e)) (frodo_public K s secret)
          else bad
      | _ \<Rightarrow> bad)"

definition frodokem_encap :: "kem_lib \<Rightarrow> codec \<Rightarrow> bytes \<Rightarrow> (bytes \<times> bytes) res" where
  "frodokem_encap K c pub =
     (case c of
        FrodoKem s p \<Rightarrow>
          if p = Pub then map_err (\<lambda>e. Seal (SeEncapsulationFailed e)) (frodo_encaps K s pub)
          else Err (Seal SeNotEncapsulationKey)
      | _ \<Rightarrow> Err (Seal SeNotEncapsulationKey))"

definition frodokem_decap :: "kem_lib \<Rightarrow> codec \<Rightarrow> bytes \<Rightarrow> bytes \<Rightarrow> bytes res" where
  "frodokem_decap K c secret kem_ct =
     (case c of
        FrodoKem s p \<Rightarrow>
          if p = Priv then map_err (\<lambda>e. Seal (SeDecapsulationFailed e)) (frodo_decaps K s secret kem_ct)
          else Err (Seal SeNotDecapsulationKey)
      | _ \<Rightarrow> Err (Seal SeNotDecapsulationKey))"

definition frodokem_to_public_key :: "features \<Rightarrow> wire \<Rightarrow> kem_lib \<Rightarrow> multikey \<Rightarrow> multikey res" where
  "frodokem_to_public_key F W K k =
     and_then (dispatched_secret F W k) (\<lambda>secret.
     and_then (frodokem_public_from_private K (mk_codec k) secret) (\<lambda>pub.
     and_then (frodokem_public_codec (mk_codec k)) (\<lambda>c.
     Ok (public_multikey c k pub))))"

definition frodokem_seal ::
  "wire \<Rightarrow> aead_lib \<Rightarrow> kem_lib \<Rightarrow> (nat \<Rightarrow> bytes) \<Rightarrow> multikey \<Rightarrow> bytes \<Rightarrow> codec \<Rightarrow> bytes \<Rightarrow>
   (bytes \<times> multikey option) res" where
  "frodokem_seal W L K rng k pt c aad =
     (if \<not> is_frodokem_pub (mk_codec k) then Err (Seal SeNotEncapsulationKey)
      else if \<not> is_frodokem_aead_allowed c then Err (Seal (SeUnsupportedAeadCodec c))
      else
      and_then (key_data k) (\<lambda>pub.
      and_then (frodokem_encap K (mk_codec k) pub) (\<lambda>(kem_ct, ss).
      and_then (seal_with_secret L rng (ascii ''frodokem-seal'') c ss pt aad) (\<lambda>(nonce, ct).
      Ok (encode_kem_sealed W kem_ct c nonce ct, None)))))"

definition frodokem_open ::
  "features \<Rightarrow> wire \<Rightarrow> aead_lib \<Rightarrow> kem_lib \<Rightarrow> multikey \<Rightarrow> bytes \<Rightarrow> multikey option \<Rightarrow> bytes \<Rightarrow> bytes res" where
  "frodokem_open F W L K k sealed ephemeral aad =
     (if \<not> is_frodokem_priv (mk_codec k) then Err (Seal SeNotDecapsulationKey)
      else
      and_then (map_err Seal (decode_kem_sealed W sealed)) (\<lambda>(kem_ct, c, nonce, ct).
      if \<not> is_frodokem_aead_allowed c then Err (Seal (SeUnsupportedAeadCodec c))
      else
      and_then (dispatched_secret F W k) (\<lambda>secret.
      and_then (frodokem_decap K (mk_codec k) secret kem_ct) (\<lambda>ss.
      open_with_secret L (ascii ''frodokem-seal'') c ss nonce ct aad))))"

section \<open>X25519\<close>

definition X25519_LENGTH :: nat where "X25519_LENGTH = 32"

definition is_x25519_aead_allowed :: "codec \<Rightarrow> bool" where
  "is_x25519_aead_allowed c \<longleftrightarrow> c = AesGcm128 \<or> c = Chacha20Poly1305 \<or> c = Xchacha20Poly1305"

definition x25519_to_public_key :: "features \<Rightarrow> wire \<Rightarrow> kem_lib \<Rightarrow> multikey \<Rightarrow> multikey res" where
  "x25519_to_public_key F W K k =
     and_then (dispatched_secret F W k) (\<lambda>secret.
     if length secret \<noteq> X25519_LENGTH
     then Err (Conversions (CvSecretKeyFailure ''invalid X25519 secret key length''))
     else Ok (public_multikey (X25519 Pub) k (x25519_public K secret)))"

text \<open>\<open>eph\<close> is the random secret of the sender; its public half travels outside the message.\<close>

definition x25519_seal ::
  "wire \<Rightarrow> aead_lib \<Rightarrow> kem_lib \<Rightarrow> (nat \<Rightarrow> bytes) \<Rightarrow> bytes \<Rightarrow> multikey \<Rightarrow> bytes \<Rightarrow> codec \<Rightarrow> bytes \<Rightarrow>
   (bytes \<times> multikey option) res" where
  "x25519_seal W L K rng eph k pt c aad =
     (if mk_codec k \<noteq> X25519 Pub then Err (Seal SeNotEncapsulationKey)
      else if \<not> is_x25519_aead_allowed c then Err (Seal (SeUnsupportedAeadCodec c))
      else
      and_then (key_data k) (\<lambda>pub.
      if length pub \<noteq> X25519_LENGTH
      then Err (Seal (SeEncapsulationFailed ''invalid public key length''))
      else
      and_then (seal_with_secret L rng (ascii ''x25519-seal'') c (x25519_dh K eph pub) pt aad) (\<lambda>(nonce, ct).
      Ok (encode_sealed W c nonce ct,
          Some (built_key (with_key_bytes (builder_new (X25519 Pub)) (x25519_public K eph)))))))"

definition x25519_open ::
  "features \<Rightarrow> wire \<Rightarrow> aead_lib \<Rightarrow> kem_lib \<Rightarrow> multikey \<Rightarrow> bytes \<Rightarrow> multikey option \<Rightarrow> bytes \<Rightarrow> bytes res" where
  "x25519_open F W L K k sealed ephemeral aad =
     (if mk_codec k \<noteq> X25519 Priv then Err (Seal SeNotDecapsulationKey)
      else
      and_then (ok_or (Seal (SeInvalidFormat ''X25519 open requires an ephemeral public key'')) ephemeral) (\<lambda>ek.
      and_then (map_err Seal (decode_sealed W sealed)) (\<lambda>(c, nonce, ct).
      if \<not> is_x25519_aead_allowed c then Err (Seal (SeUnsupportedAeadCodec c))
      else
      and_then (and_then (data_view F W ek) key_bytes) (\<lambda>epub.
      if length epub \<noteq> X25519_LENGTH
      then Err (Seal (SeInvalidFormat ''invalid ephemeral public key length''))
      else
      and_then (dispatched_secret F W k) (\<lambda>secret.
      if length secret \<noteq> X25519_LENGTH
      then Err (Seal (SeDecapsulationFailed ''invalid secret key''))
      else open_with_secret L (ascii ''x25519-seal'') c (x25519_dh K secret epub) nonce ct aad)))))"

section \<open>Fingerprints\<close>

definition ml_kem_fingerprint where
  "ml_kem_fingerprint mhash F W K k =
     fingerprint_with mhash F W (is_ml_kem_priv (mk_codec k)) (ml_kem_to_public_key F W K k) k"

definition sntrup_fingerprint where
  "sntrup_fingerprint mhash F W K k =
     fingerprint_with mhash F W (is_sntrup_priv (mk_codec k)) (sntrup_to_public_key F W K k) k"

definition frodokem_fingerprint where
  "frodokem_fingerprint mhash F W K k =
     fingerprint_with mhash F W (is_frodokem_priv (mk_codec k)) (frodokem_to_public_key F W K k) k"

definition x25519_fingerprint where
  "x25519_fingerprint mhash F W K k =
     fingerprint_with mhash F W (mk_codec k = X25519 Priv) (x25519_to_public_key F W K k) k"


section \<open>The contract of a KEM view\<close>

text \<open>Sealing and opening as all KEM views do it, after their checks on the key and the codec.\<close>

definition seal_via ::
  "wire \<Rightarrow> aead_lib \<Rightarrow> (nat \<Rightarrow> bytes) \<Rightarrow> (codec \<Rightarrow> bytes \<Rightarrow> (bytes \<times> bytes) res) \<Rightarrow> (codec \<Rightarrow> bytes) \<Rightarrow>
   multikey \<Rightarrow> bytes \<Rightarrow> codec \<Rightarrow> bytes \<Rightarrow> (bytes \<times> multikey option) res" where
  "seal_via W L rng encap info k pt c aad =
     and_then (key_data k) (\<lambda>pub.
     and_then (encap (mk_codec k) pub) (\<lambda>(kem_ct, ss).
     and_then (seal_with_secret L rng (info (mk_codec k)) c ss pt aad) (\<lambda>(nonce, ct).
     Ok (encode_kem_sealed W kem_ct c nonce ct, None))))"

definition open_via ::
  "wire \<Rightarrow> aead_lib \<Rightarrow> (codec \<Rightarrow> bytes \<Rightarrow> bytes \<Rightarrow> bytes res) \<Rightarrow> (multikey \<Rightarrow> bytes res) \<Rightarrow> (codec \<Rightarrow> bytes) \<Rightarrow>
   (codec \<Rightarrow> bool) \<Rightarrow> multikey \<Rightarrow> bytes \<Rightarrow> bytes \<Rightarrow> bytes res" where
  "open_via W L decap secret info allowed k sealed aad =
     and_then (map_err Seal (decode_kem_sealed W sealed)) (\<lambda>(kem_ct, c, nonce, ct).
     if \<not> allowed c then Err (Seal (SeUnsupportedAeadCodec c))
     else
     and_then (secret k) (\<lambda>sk.
     and_then (decap (mk_codec k) sk kem_ct) (\<lambda>ss.
     open_with_secret L (info (mk_codec k)) c ss nonce ct aad)))"

lemma open_with_seal_secret:
  assumes "aead_lib_ok L" and "seal_with_secret L rng info c ss pt aad = Ok (nonce, ct)"
  shows "open_with_secret L info c ss nonce ct aad = Ok pt"
  using assms aead_open_seal
  by (auto simp: seal_with_secret_def open_with_secret_def outcome_simps)

text \<open>
  What the views promise about their key exchange: a private key and the public key made from it
  agree on the shared secret. \<open>ok\<close> is the hypothesis on the external functions.
\<close>

locale kem_view =
  fixes to_public :: "multikey \<Rightarrow> multikey res"
    and encap :: "codec \<Rightarrow> bytes \<Rightarrow> (bytes \<times> bytes) res"
    and decap :: "codec \<Rightarrow> bytes \<Rightarrow> bytes \<Rightarrow> bytes res"
    and secret :: "multikey \<Rightarrow> bytes res"
    and info :: "codec \<Rightarrow> bytes"
    and ok :: bool
  assumes agree: "ok \<Longrightarrow> to_public k = Ok pk \<Longrightarrow> key_data pk = Ok pub \<Longrightarrow>
      encap (mk_codec pk) pub = Ok (ct, ss) \<Longrightarrow>
      \<exists>sk. secret k = Ok sk \<and> decap (mk_codec k) sk ct = Ok ss"
    and same_info: "to_public k = Ok pk \<Longrightarrow> info (mk_codec pk) = info (mk_codec k)"
begin

lemma open_seal:
  assumes ok: "ok" "aead_lib_ok L" "wire_ok W" and pk: "to_public k = Ok pk"
    and sealed: "seal_via W L rng encap info pk pt c aad = Ok (msg, e)"
    and size: "fits msg" and allowed: "allowed c"
  shows "open_via W L decap secret info allowed k msg aad = Ok pt"
proof -
  obtain pub kem_ct ss nonce ct where
    pub: "key_data pk = Ok pub" and enc: "encap (mk_codec pk) pub = Ok (kem_ct, ss)"
    and seal: "seal_with_secret L rng (info (mk_codec pk)) c ss pt aad = Ok (nonce, ct)"
    and msg: "msg = encode_kem_sealed W kem_ct c nonce ct"
    using sealed unfolding seal_via_def by (auto simp: and_then_eq_Ok)
  obtain sk where sk: "secret k = Ok sk" and dec: "decap (mk_codec k) sk kem_ct = Ok ss"
    using agree [OF ok(1) pk pub enc] by blast
  have "fits kem_ct" "fits nonce" "fits ct"
    using size unfolding msg encode_kem_sealed_fields by (auto simp: encode_varbytes_into_def)
  then have "decode_kem_sealed W msg = Ok (kem_ct, c, nonce, ct)"
    using decode_encode_kem_sealed [OF ok(3), of kem_ct nonce ct c "[]"] by (simp add: msg)
  then show ?thesis
    using sk dec allowed open_with_seal_secret [OF ok(2) seal] same_info [OF pk]
    by (simp add: open_via_def)
qed

end

section \<open>The views meet the contract\<close>

text \<open>The secret of a view whose secret has a fixed length.\<close>

definition checked_secret :: "features \<Rightarrow> wire \<Rightarrow> nat \<Rightarrow> multikey \<Rightarrow> bytes res" where
  "checked_secret F W n k =
     and_then (dispatched_secret F W k) (\<lambda>sk.
     if length sk \<noteq> n then Err (Conversions (CvSecretKeyFailure ''invalid seed length'')) else Ok sk)"

lemma key_data_public_multikey [simp]:
  "mk_attributes (public_multikey c k pub) KeyData = Some pub"
  by (simp add: public_multikey_def with_key_bytes_def built_key_attribute)

lemma codec_public_multikey [simp]: "mk_codec (public_multikey c k pub) = c"
  by (simp add: public_multikey_def built_key_defs)

lemma ml_kem_to_public_eq_Ok:
  "ml_kem_to_public_key F W K k = Ok pk \<longleftrightarrow>
   (\<exists>s seed. mk_codec k = Mlkem s Priv \<and> checked_secret F W ML_KEM_SEED_LENGTH k = Ok seed \<and>
      pk = public_multikey (Mlkem s Pub) k (mlkem_public K s seed))"
  by (cases "mk_codec k")
     (auto simp: ml_kem_to_public_key_def checked_secret_def outcome_simps Let_def split: if_splits)

lemma sntrup_to_public_eq_Ok:
  "sntrup_to_public_key F W K k = Ok pk \<longleftrightarrow>
   (\<exists>s seed. mk_codec k = Sntrup s Priv \<and> checked_secret F W SNTRUP_SEED_LENGTH k = Ok seed \<and>
      pk = public_multikey (Sntrup s Pub) k (sntrup_public K s seed))"
  by (cases "mk_codec k")
     (auto simp: sntrup_to_public_key_def checked_secret_def sntrup_generate_public_key_def
       sntrup_pub_codec_def outcome_simps Let_def split: if_splits)

lemma frodokem_to_public_eq_Ok:
  "frodokem_to_public_key F W K k = Ok pk \<longleftrightarrow>
   (\<exists>s sk pub. mk_codec k = FrodoKem s Priv \<and> dispatched_secret F W k = Ok sk \<and>
      frodo_public K s sk = Ok pub \<and> pk = public_multikey (FrodoKem s Pub) k pub)"
  by (cases "mk_codec k")
     (auto simp: frodokem_to_public_key_def frodokem_public_from_private_def
       frodokem_public_codec_def outcome_simps Let_def split: if_splits)

interpretation ml_kem: kem_view "ml_kem_to_public_key F W K" "ml_kem_encapsulate K" "ml_kem_decapsulate K"
  "checked_secret F W ML_KEM_SEED_LENGTH" "\<lambda>_. ascii ''ml-kem-seal''" "kem_lib_ok K" for F W K
  by unfold_locales
     (auto simp: ml_kem_to_public_eq_Ok ml_kem_encapsulate_def ml_kem_decapsulate_def kem_lib_ok_def
       outcome_simps split: if_splits)

interpretation sntrup: kem_view "sntrup_to_public_key F W K" "sntrup_kem_encapsulate K"
  "sntrup_kem_decapsulate K" "checked_secret F W SNTRUP_SEED_LENGTH" sntrup_seal_info "kem_lib_ok K" for F W K
  by unfold_locales
     (auto simp: sntrup_to_public_eq_Ok sntrup_kem_encapsulate_def sntrup_kem_decapsulate_def
       kem_lib_ok_def sntrup_seal_info_def outcome_simps split: if_splits)

interpretation frodokem: kem_view "frodokem_to_public_key F W K" "frodokem_encap K" "frodokem_decap K"
  "dispatched_secret F W" "\<lambda>_. ascii ''frodokem-seal''" "kem_lib_ok K" for F W K
  by unfold_locales
     (auto simp: frodokem_to_public_eq_Ok frodokem_encap_def frodokem_decap_def kem_lib_ok_def
       outcome_simps split: if_splits)


section \<open>Sealing and opening by the views\<close>

lemma checked_secret_then:
  "and_then (dispatched_secret F W k) (\<lambda>sk.
     if length sk \<noteq> n then Err (Conversions (CvSecretKeyFailure ''invalid seed length'')) else f sk) =
   and_then (checked_secret F W n k) f"
  by (cases "dispatched_secret F W k") (simp_all add: checked_secret_def)

lemma ml_kem_seal_via:
  "ml_kem_seal W L K rng k pt c aad = Ok r \<Longrightarrow>
   is_ml_kem_aead_allowed c \<and>
   seal_via W L rng (ml_kem_encapsulate K) (\<lambda>_. ascii ''ml-kem-seal'') k pt c aad = Ok r"
  by (simp add: ml_kem_seal_def seal_via_def split: if_splits)

lemma ml_kem_open_via:
  "is_ml_kem_priv (mk_codec k) \<Longrightarrow>
   ml_kem_open F W L K k sealed e aad =
   open_via W L (ml_kem_decapsulate K) (checked_secret F W ML_KEM_SEED_LENGTH)
     (\<lambda>_. ascii ''ml-kem-seal'') is_ml_kem_aead_allowed k sealed aad"
  by (simp only: ml_kem_open_def open_via_def checked_secret_then not_True_eq_False if_False)

lemma sntrup_seal_via:
  "sntrup_seal W L K rng k pt c aad = Ok r \<Longrightarrow>
   is_sntrup_aead_allowed c \<and>
   seal_via W L rng (sntrup_kem_encapsulate K) sntrup_seal_info k pt c aad = Ok r"
  by (simp add: sntrup_seal_def seal_via_def split: if_splits)

lemma sntrup_open_via:
  "is_sntrup_priv (mk_codec k) \<Longrightarrow>
   sntrup_open F W L K k sealed e aad =
   open_via W L (sntrup_kem_decapsulate K) (checked_secret F W SNTRUP_SEED_LENGTH)
     sntrup_seal_info is_sntrup_aead_allowed k sealed aad"
  by (simp only: sntrup_open_def open_via_def checked_secret_then not_True_eq_False if_False)

lemma frodokem_seal_via:
  "frodokem_seal W L K rng k pt c aad = Ok r \<Longrightarrow>
   is_frodokem_aead_allowed c \<and>
   seal_via W L rng (frodokem_encap K) (\<lambda>_. ascii ''frodokem-seal'') k pt c aad = Ok r"
  by (simp add: frodokem_seal_def seal_via_def split: if_splits)

lemma frodokem_open_via:
  "is_frodokem_priv (mk_codec k) \<Longrightarrow>
   frodokem_open F W L K k sealed e aad =
   open_via W L (frodokem_decap K) (dispatched_secret F W)
     (\<lambda>_. ascii ''frodokem-seal'') is_frodokem_aead_allowed k sealed aad"
  by (simp add: frodokem_open_def open_via_def)

lemmas kem_open_via = ml_kem_open_via sntrup_open_via frodokem_open_via

text \<open>The two codecs are a private codec of these families and its public codec.\<close>

definition key_halves :: "codec \<Rightarrow> codec \<Rightarrow> bool" where
  "key_halves priv pub \<longleftrightarrow>
     (case priv of
        Mlkem s p \<Rightarrow> p = Priv \<and> pub = Mlkem s Pub
      | Sntrup s p \<Rightarrow> p = Priv \<and> pub = Sntrup s Pub
      | FrodoKem s p \<Rightarrow> p = Priv \<and> pub = FrodoKem s Pub
      | X25519 p \<Rightarrow> p = Priv \<and> pub = X25519 Pub
      | Mceliece348864 p \<Rightarrow> p = Priv \<and> pub = Mceliece348864 Pub
      | X25519Mlkem768 p \<Rightarrow> p = Priv \<and> pub = X25519Mlkem768 Pub
      | X25519Sntrup761 p \<Rightarrow> p = Priv \<and> pub = X25519Sntrup761 Pub
      | X25519Mceliece348864 p \<Rightarrow> p = Priv \<and> pub = X25519Mceliece348864 Pub
      | X25519Frodokem640 f p \<Rightarrow> p = Priv \<and> pub = X25519Frodokem640 f Pub
      | _ \<Rightarrow> False)"

lemma data_view_halves:
  assumes "dispatched_secret F W k = Ok sk" and "mk_attributes k' KeyData = Some d"
    and "key_halves (mk_codec k) (mk_codec k')"
  shows "and_then (data_view F W k') key_bytes = Ok d"
proof -
  obtain v where "dispatch_data_view F k = Ok v"
    using assms(1) by (auto simp: dispatched_secret_def data_view_def outcome_simps)
  then show ?thesis
    using assms(2,3)
    by (cases "mk_codec k")
       (auto simp: key_halves_def data_view_def dispatch_data_view_def arm_def key_data_def
         get_attr_def view_defs plain_view_def split: if_splits)
qed

lemma checked_secretD: "checked_secret F W n k = Ok sk \<Longrightarrow> dispatched_secret F W k = Ok sk"
  by (auto simp: checked_secret_def outcome_simps split: if_splits)

lemma fingerprint_pair:
  assumes "m = Ok pk" and "pk = public_multikey c' k pub" and "dispatched_secret F W k = Ok sk"
    and "key_halves (mk_codec k) c'"
  shows "fingerprint_with mhash F W True m k c = fingerprint_with mhash F W False m' pk c"
  using data_view_halves [OF assms(3), of pk pub] assms
  by (simp add: fingerprint_with_def key_data_def get_attr_def)

lemma x25519_to_public_eq_Ok:
  "mk_codec k = X25519 Priv \<Longrightarrow>
   x25519_to_public_key F W K k = Ok pk \<longleftrightarrow>
   (\<exists>sk. dispatched_secret F W k = Ok sk \<and> length sk = 32 \<and>
      pk = public_multikey (X25519 Pub) k (x25519_public K sk))"
  by (auto simp: x25519_to_public_key_def outcome_simps X25519_LENGTH_def split: if_splits)

lemma x25519_open_seal:
  assumes K: "kem_lib_ok K" and L: "aead_lib_ok L" and W: "wire_ok W"
    and k: "mk_codec k = X25519 Priv" and pk: "x25519_to_public_key F W K k = Ok pk"
    and sealed: "x25519_seal W L K rng eph pk pt c aad = Ok (msg, e)" and size: "fits msg"
  shows "x25519_open F W L K k msg e aad = Ok pt"
proof -
  obtain sk where sk: "dispatched_secret F W k = Ok sk" "length sk = 32"
    and pk': "pk = public_multikey (X25519 Pub) k (x25519_public K sk)"
    using pk by (auto simp: x25519_to_public_eq_Ok [OF k])
  let ?e = "built_key (with_key_bytes (builder_new (X25519 Pub)) (x25519_public K eph))"
  obtain nonce ct where allowed: "is_x25519_aead_allowed c"
    and seal: "seal_with_secret L rng (ascii ''x25519-seal'') c (x25519_dh K eph (x25519_public K sk)) pt aad
      = Ok (nonce, ct)"
    and msg: "msg = encode_sealed W c nonce ct" "e = Some ?e"
    using sealed unfolding pk' x25519_seal_def
    by (auto simp: outcome_simps split: if_splits)
  have len: "\<And>a. length (x25519_public K a) = 32"
    and dh: "x25519_dh K eph (x25519_public K sk) = x25519_dh K sk (x25519_public K eph)"
    using K unfolding kem_lib_ok_def by blast+
  have "fits nonce" "fits ct"
    using size unfolding msg encode_sealed_fields by (auto simp: encode_varbytes_into_def)
  then have dec: "decode_sealed W msg = Ok (c, nonce, ct)"
    using decode_encode_sealed [OF W, of nonce ct c "[]"] by (simp add: msg)
  have "and_then (data_view F W ?e) key_bytes = Ok (x25519_public K eph)"
    by (rule data_view_halves [OF sk(1)])
       (simp_all add: k key_halves_def built_key_defs)
  then show ?thesis
    using k dec allowed sk len open_with_seal_secret [OF L seal] dh msg(2)
    by (simp add: x25519_open_def X25519_LENGTH_def)
qed


section \<open>An example\<close>

definition toy_aead :: aead_lib where
  "toy_aead = \<lparr>cipher_encrypt = \<lambda>c key nonce aad pt. Some (pt @ aad),
     cipher_decrypt = \<lambda>c key nonce aad ct. Some (take (length ct - length aad) ct),
     hkdf_expand = \<lambda>ikm info n. Ok (replicate n 0),
     invalid_length_text = [], aead_error_text = []\<rparr>"

lemma toy_aead_ok: "aead_lib_ok toy_aead"
  by (simp add: aead_lib_ok_def toy_aead_def)

definition toy_kem :: kem_lib where
  "toy_kem = \<lparr>mlkem_public = \<lambda>s seed. take 1 seed, mlkem_ek_size = \<lambda>s. 1,
     mlkem_encaps = \<lambda>s pk. Some ([8], [2]), mlkem_ct_size = \<lambda>s. 1,
     mlkem_decaps = \<lambda>s seed ct. [2],
     sntrup_public = \<lambda>s seed. take 1 seed, sntrup_encaps = \<lambda>s pk. Some ([8], [2]),
     sntrup_decaps = \<lambda>s seed ct. Some [2],
     frodo_public = \<lambda>s sk. Ok sk, frodo_encaps = \<lambda>s pk. Ok ([8], [2]),
     frodo_decaps = \<lambda>s sk ct. Ok [2],
     x25519_public = \<lambda>a. replicate 32 1, x25519_dh = \<lambda>a b. [2]\<rparr>"

lemma toy_kem_ok: "kem_lib_ok toy_kem"
  by (auto simp: kem_lib_ok_def toy_kem_def)

definition example_private :: "codec \<Rightarrow> multikey" where
  "example_private c = \<lparr>mk_codec = c, mk_comment = [],
     mk_attributes = attr_insert KeyData (replicate 64 9) Map.empty\<rparr>"

definition example_sealed_message :: bytes where
  "example_sealed_message = encode_kem_sealed leb_wire [8] Chacha20Poly1305 (replicate 12 0) [5]"

lemma example_sealed_length: "length example_sealed_message \<le> 40"
  by code_simp

lemma example_sealed_fits: "fits example_sealed_message"
  using example_sealed_length by (simp add: MAX_DECODED_SIZE_def)

lemma example_ml_kem_public:
  "ml_kem_to_public_key {FMlKem} leb_wire toy_kem (example_private (Mlkem K768 Priv)) =
   Ok (public_multikey (Mlkem K768 Pub) (example_private (Mlkem K768 Priv)) [9])"
  by (simp add: ml_kem_to_public_eq_Ok checked_secret_def dispatched_secret_def data_view_def
      dispatch_data_view_def example_private_def arm_def ml_kem_view_def plain_view_def
      is_ml_kem_priv_def key_data_def get_attr_def ML_KEM_SEED_LENGTH_def toy_kem_def)

lemma example_ml_kem_seal:
  "ml_kem_seal leb_wire toy_aead toy_kem (\<lambda>n. replicate n 0)
     (public_multikey (Mlkem K768 Pub) (example_private (Mlkem K768 Priv)) [9]) [5] Chacha20Poly1305 [] =
   Ok (example_sealed_message, None)"
  by (simp add: ml_kem_seal_def is_ml_kem_pub_def is_ml_kem_aead_allowed_def key_data_def get_attr_def
      ml_kem_encapsulate_def toy_kem_def seal_with_secret_def derive_aead_key_def toy_aead_def
      aead_seal_def seal_arm_def example_sealed_message_def)

section \<open>Properties\<close>

text \<open>
  C4: Sealing round trip of the KEM views (ML-KEM, sntrup, FrodoKEM): what was sealed to the public
  key that a private key converts to is opened by that private key, for every AEAD codec the view
  admits and with the same associated data.
\<close>

theorem kem_open_seal:
  assumes ok: "kem_lib_ok K" "aead_lib_ok L" "wire_ok W" and size: "fits msg"
  shows "(ml_kem_to_public_key F W K k = Ok pk \<and> ml_kem_seal W L K rng pk pt c aad = Ok (msg, e) \<longrightarrow>
      ml_kem_open F W L K k msg e aad = Ok pt)
    \<and> (sntrup_to_public_key F W K k = Ok pk \<and> sntrup_seal W L K rng pk pt c aad = Ok (msg, e) \<longrightarrow>
      sntrup_open F W L K k msg e aad = Ok pt)
    \<and> (frodokem_to_public_key F W K k = Ok pk \<and> frodokem_seal W L K rng pk pt c aad = Ok (msg, e) \<longrightarrow>
      frodokem_open F W L K k msg e aad = Ok pt)"
proof (intro conjI impI; elim conjE)
  assume pk: "ml_kem_to_public_key F W K k = Ok pk"
    and seal: "ml_kem_seal W L K rng pk pt c aad = Ok (msg, e)"
  have "is_ml_kem_priv (mk_codec k)"
    using pk by (auto simp: ml_kem_to_public_eq_Ok is_ml_kem_priv_def)
  then show "ml_kem_open F W L K k msg e aad = Ok pt"
    using ml_kem_seal_via [OF seal] by (auto simp: kem_open_via intro!: ml_kem.open_seal [OF ok pk _ size])
next
  assume pk: "sntrup_to_public_key F W K k = Ok pk"
    and seal: "sntrup_seal W L K rng pk pt c aad = Ok (msg, e)"
  have "is_sntrup_priv (mk_codec k)"
    using pk by (auto simp: sntrup_to_public_eq_Ok is_sntrup_priv_def)
  then show "sntrup_open F W L K k msg e aad = Ok pt"
    using sntrup_seal_via [OF seal] by (auto simp: kem_open_via intro!: sntrup.open_seal [OF ok pk _ size])
next
  assume pk: "frodokem_to_public_key F W K k = Ok pk"
    and seal: "frodokem_seal W L K rng pk pt c aad = Ok (msg, e)"
  have "is_frodokem_priv (mk_codec k)"
    using pk by (auto simp: frodokem_to_public_eq_Ok is_frodokem_priv_def)
  then show "frodokem_open F W L K k msg e aad = Ok pt"
    using frodokem_seal_via [OF seal] by (auto simp: kem_open_via intro!: frodokem.open_seal [OF ok pk _ size])
qed

theorem kem_open_seal_witness:
  "ml_kem_open {FMlKem} leb_wire toy_aead toy_kem (example_private (Mlkem K768 Priv))
     example_sealed_message None [] = Ok [5]"
  using kem_open_seal [OF toy_kem_ok toy_aead_ok leb_wire_ok example_sealed_fits]
    example_ml_kem_public example_ml_kem_seal by blast

text \<open>
  X25519 sealing round trip: what was sealed to the public half of an X25519 key is opened by
  the private half together with the ephemeral public key that sealing returned.
\<close>

lemma x25519_seal_opens:
  assumes "kem_lib_ok K" and "aead_lib_ok L" and "wire_ok W" and "mk_codec k = X25519 Priv"
    and "x25519_to_public_key F W K k = Ok pk"
    and "x25519_seal W L K rng eph pk pt c aad = Ok (msg, e)" and "fits msg"
  shows "x25519_open F W L K k msg e aad = Ok pt"
  using assms by (rule x25519_open_seal)

definition example_x25519 :: multikey where
  "example_x25519 = \<lparr>mk_codec = X25519 Priv, mk_comment = [],
     mk_attributes = attr_insert KeyData (replicate 32 9) Map.empty\<rparr>"

definition example_x25519_message :: bytes where
  "example_x25519_message = encode_sealed leb_wire AesGcm128 (replicate 12 0) [5]"

lemma example_x25519_length: "length example_x25519_message \<le> 40"
  by code_simp

lemma x25519_seal_opens_witness:
  "x25519_open {FCurve25519} leb_wire toy_aead toy_kem example_x25519 example_x25519_message
     (Some (built_key (with_key_bytes (builder_new (X25519 Pub)) (replicate 32 1)))) [] = Ok [5]"
proof (rule x25519_seal_opens [OF toy_kem_ok toy_aead_ok leb_wire_ok])
  show "mk_codec example_x25519 = X25519 Priv"
    by (simp add: example_x25519_def)
  show "x25519_to_public_key {FCurve25519} leb_wire toy_kem example_x25519 =
      Ok (public_multikey (X25519 Pub) example_x25519 (replicate 32 1))"
    by (simp add: x25519_to_public_key_def dispatched_secret_def data_view_def dispatch_data_view_def
        example_x25519_def arm_def x25519_view_def plain_view_def key_data_def get_attr_def
        X25519_LENGTH_def toy_kem_def)
  show "x25519_seal leb_wire toy_aead toy_kem (\<lambda>n. replicate n 0) []
      (public_multikey (X25519 Pub) example_x25519 (replicate 32 1)) [5] AesGcm128 [] =
    Ok (example_x25519_message,
      Some (built_key (with_key_bytes (builder_new (X25519 Pub)) (replicate 32 1))))"
    by (simp add: x25519_seal_def is_x25519_aead_allowed_def key_data_def get_attr_def
        seal_with_secret_def derive_aead_key_def toy_aead_def aead_seal_def seal_arm_def toy_kem_def
        X25519_LENGTH_def example_x25519_message_def)
  show "fits example_x25519_message"
    using example_x25519_length by (simp add: MAX_DECODED_SIZE_def)
qed

text \<open>
  A sealed message whose nonce field has the wrong length makes opening panic instead of
  returning an error: an ML-KEM message that decodes, with an admitted AEAD codec and a KEM
  ciphertext of the right size, is enough, and needs no knowledge of the key.
\<close>

theorem ml_kem_open_bad_nonce_panics:
  assumes W: "wire_ok W" and L: "aead_lib_ok L" and k: "mk_codec k = Mlkem s Priv"
    and secret: "checked_secret F W ML_KEM_SEED_LENGTH k = Ok seed"
    and c: "is_ml_kem_aead_allowed c" "nonce_size c = Ok ns" and hkdf: "\<And>i n. is_ok (hkdf_expand L i (ascii ''ml-kem-seal'') n)"
    and msg: "length kem_ct = mlkem_ct_size K s" "length nonce \<noteq> ns" "fits kem_ct" "fits nonce" "fits ct"
  shows "ml_kem_open F W L K k (encode_kem_sealed W kem_ct c nonce ct) e aad = Panic"
proof -
  obtain ks where ks: "key_size c = Ok ks"
    using aead_sizes_agree [of c] c(2) by (auto simp: is_ok_iff)
  let ?ss = "mlkem_decaps K s seed kem_ct"
  obtain okm where okm: "hkdf_expand L ?ss (ascii ''ml-kem-seal'') ks = Ok okm"
    using hkdf [of ?ss ks] by (auto simp: is_ok_iff)
  then have "length okm = ks"
    using L unfolding aead_lib_ok_def by blast
  then have "open_with_secret L (ascii ''ml-kem-seal'') c ?ss nonce ct aad = Panic"
    using okm ks c(2) msg(2)
    by (simp add: open_with_secret_def derive_aead_key_def aead_open_eq open_arm_def)
  then show ?thesis
    using decode_encode_kem_sealed [OF W msg(3-5), of c "[]"] c(1) k secret msg(1)
    by (simp add: ml_kem_open_via is_ml_kem_priv_def open_via_def ml_kem_decapsulate_def)
qed

theorem ml_kem_open_bad_nonce_panics_witness:
  "ml_kem_open {FMlKem} leb_wire toy_aead toy_kem (example_private (Mlkem K768 Priv))
     (encode_kem_sealed leb_wire [8] Chacha20Poly1305 [] []) None [] = Panic"
  by (rule ml_kem_open_bad_nonce_panics [OF leb_wire_ok toy_aead_ok, where seed = "replicate 64 9" and ns = 12])
     (simp_all add: example_private_def checked_secret_def dispatched_secret_def data_view_def
      dispatch_data_view_def arm_def ml_kem_view_def plain_view_def is_ml_kem_priv_def key_data_def
      get_attr_def ML_KEM_SEED_LENGTH_def is_ml_kem_aead_allowed_def toy_aead_def toy_kem_def
      MAX_DECODED_SIZE_def)

text \<open>
  The fingerprint of a private key is the fingerprint of the public key it converts to, in all
  four views.
\<close>

lemma fingerprint_of_pair:
  "(ml_kem_to_public_key F W K k = Ok pk \<longrightarrow>
     ml_kem_fingerprint mhash F W K k c = ml_kem_fingerprint mhash F W K pk c)
   \<and> (sntrup_to_public_key F W K k = Ok pk \<longrightarrow>
     sntrup_fingerprint mhash F W K k c = sntrup_fingerprint mhash F W K pk c)
   \<and> (frodokem_to_public_key F W K k = Ok pk \<longrightarrow>
     frodokem_fingerprint mhash F W K k c = frodokem_fingerprint mhash F W K pk c)
   \<and> (mk_codec k = X25519 Priv \<and> x25519_to_public_key F W K k = Ok pk \<longrightarrow>
     x25519_fingerprint mhash F W K k c = x25519_fingerprint mhash F W K pk c)"
proof -
  note fps = ml_kem_fingerprint_def sntrup_fingerprint_def frodokem_fingerprint_def
    x25519_fingerprint_def
  show ?thesis
  proof (intro conjI impI; (elim conjE)?)
    assume pk: "ml_kem_to_public_key F W K k = Ok pk"
    then obtain s seed where "mk_codec k = Mlkem s Priv" "checked_secret F W ML_KEM_SEED_LENGTH k = Ok seed"
      "pk = public_multikey (Mlkem s Pub) k (mlkem_public K s seed)"
      by (auto simp: ml_kem_to_public_eq_Ok)
    then show "ml_kem_fingerprint mhash F W K k c = ml_kem_fingerprint mhash F W K pk c"
      unfolding fps using fingerprint_pair [OF pk] checked_secretD by (simp add: codec_part_defs key_halves_def)
  next
    assume pk: "sntrup_to_public_key F W K k = Ok pk"
    then obtain s seed where "mk_codec k = Sntrup s Priv" "checked_secret F W SNTRUP_SEED_LENGTH k = Ok seed"
      "pk = public_multikey (Sntrup s Pub) k (sntrup_public K s seed)"
      by (auto simp: sntrup_to_public_eq_Ok)
    then show "sntrup_fingerprint mhash F W K k c = sntrup_fingerprint mhash F W K pk c"
      unfolding fps using fingerprint_pair [OF pk] checked_secretD by (simp add: codec_part_defs key_halves_def)
  next
    assume pk: "frodokem_to_public_key F W K k = Ok pk"
    then obtain s sk pub where "mk_codec k = FrodoKem s Priv" "dispatched_secret F W k = Ok sk"
      "pk = public_multikey (FrodoKem s Pub) k pub"
      by (auto simp: frodokem_to_public_eq_Ok)
    then show "frodokem_fingerprint mhash F W K k c = frodokem_fingerprint mhash F W K pk c"
      unfolding fps using fingerprint_pair [OF pk] by (simp add: codec_part_defs key_halves_def)
  next
    assume k: "mk_codec k = X25519 Priv" and pk: "x25519_to_public_key F W K k = Ok pk"
    then obtain sk where "dispatched_secret F W k = Ok sk"
      "pk = public_multikey (X25519 Pub) k (x25519_public K sk)"
      by (auto simp: x25519_to_public_eq_Ok)
    then show "x25519_fingerprint mhash F W K k c = x25519_fingerprint mhash F W K pk c"
      unfolding fps using fingerprint_pair [OF pk] k by (simp add: key_halves_def)
  qed
qed

lemma fingerprint_of_pair_witness:
  "ml_kem_fingerprint (\<lambda>c b n. Ok b) {FMlKem} leb_wire toy_kem (example_private (Mlkem K768 Priv)) Sha3256 =
   ml_kem_fingerprint (\<lambda>c b n. Ok b) {FMlKem} leb_wire toy_kem
     (public_multikey (Mlkem K768 Pub) (example_private (Mlkem K768 Priv)) [9]) Sha3256"
  using fingerprint_of_pair example_ml_kem_public by blast

end
