(* ===== verification/Mk_ThresholdMeta.thy ===== *)
theory Mk_ThresholdMeta
  imports Mk_Builder
begin

text \<open>
  Threshold disclosure (\<^verbatim>\<open>src/views/threshold_meta.rs\<close>): how the threshold and the limit of a key
  share are stored, in plaintext or encrypted under a metadata key, how they are read back and how a
  share is converted from one mode to another, with the two builder methods that use it
  (\<^verbatim>\<open>src/mk.rs\<close>). The metadata types and their encryption belong to the \<^verbatim>\<open>multi_sig\<close> crate and are
  a parameter.
\<close>

section \<open>The external types and functions\<close>

text \<open>
  \<^verbatim>\<open>multi_sig::ThresholdDisclosure\<close>, with the three variants that the code names. \<open>OtherDisclosure\<close> is there for
  the last arms \<^verbatim>\<open>_ =>\<close> of its matches on the external enum; nothing is assumed of it.
\<close>

datatype disclosure = Full | Partial | FullConfidential | OtherDisclosure nat

text \<open>\<^verbatim>\<open>multi_sig::ThresholdMetadata\<close>.\<close>

record threshold_metadata =
  tm_threshold :: "u16 option"
  tm_limit :: "u16 option"

text \<open>The cipher parameters (\<^verbatim>\<open>ThresholdMetaCipher\<close>) are opaque here and kept as bytes.\<close>

record meta_lib =
  disclosure_encode :: "disclosure \<Rightarrow> bytes"
  disclosure_decode :: "bytes \<Rightarrow> (lib_error, disclosure \<times> bytes) outcome"
  disclosure_text :: "disclosure \<Rightarrow> string"
  encrypt_meta :: "threshold_metadata \<Rightarrow> bytes \<Rightarrow> (lib_error, bytes \<times> bytes) outcome"
    \<comment> \<open>metadata, key; ciphertext, cipher parameters\<close>
  decrypt_meta :: "bytes \<Rightarrow> bytes \<Rightarrow> bytes \<Rightarrow> (lib_error, threshold_metadata) outcome"
    \<comment> \<open>ciphertext, cipher parameters, key\<close>
  cipher_to_cbor :: "bytes \<Rightarrow> (lib_error, bytes) outcome"
  cipher_from_cbor :: "bytes \<Rightarrow> (lib_error, bytes) outcome"

definition meta_lib_ok :: "meta_lib \<Rightarrow> bool" where
  "meta_lib_ok M \<longleftrightarrow>
     (\<forall>d \<in> {Full, Partial, FullConfidential}. disclosure_decode M (disclosure_encode M d) = Ok (d, []))
   \<and> (\<forall>m key ct ci. encrypt_meta M m key = Ok (ct, ci) \<longrightarrow> decrypt_meta M ct ci key = Ok m)
   \<and> (\<forall>ci bs. cipher_to_cbor M ci = Ok bs \<longrightarrow> cipher_from_cbor M bs = Ok ci)"

section \<open>The metadata key\<close>

fun decimal :: "nat \<Rightarrow> string" where
  "decimal n = (if n < 10 then [char_of (48 + n)] else decimal (n div 10) @ [char_of (48 + n mod 10)])"

declare decimal.simps [simp del]

definition meta_encryption_unavailable :: error where
  "meta_encryption_unavailable = error.Threshold
     (ThMetaEncryption ''encrypted threshold metadata needs the chacha20 feature'')"

definition extract_meta_key :: "features \<Rightarrow> wire \<Rightarrow> multikey \<Rightarrow> bytes res" where
  "extract_meta_key F W meta_key =
     (if FChacha20 \<in> F then
        and_then (data_view F W meta_key) (\<lambda>dv.
        and_then (key_bytes dv) (\<lambda>key.
        if length key \<noteq> 32
        then Err (error.Threshold (ThMetaEncryption (''meta key must be 32 bytes, got '' @ decimal (length key))))
        else Ok key))
      else Err meta_encryption_unavailable)"

definition encrypt_threshold_meta ::
  "features \<Rightarrow> meta_lib \<Rightarrow> threshold_metadata \<Rightarrow> bytes \<Rightarrow> (bytes \<times> bytes) res" where
  "encrypt_threshold_meta F M meta key =
     (if FChacha20 \<in> F then map_err Multisig (encrypt_meta M meta key)
      else Err meta_encryption_unavailable)"

definition decrypt_threshold_meta ::
  "features \<Rightarrow> meta_lib \<Rightarrow> bytes \<Rightarrow> bytes \<Rightarrow> bytes \<Rightarrow> threshold_metadata res" where
  "decrypt_threshold_meta F M encrypted cipher_info key =
     (if FChacha20 \<in> F then map_err Multisig (decrypt_meta M encrypted cipher_info key)
      else Err meta_encryption_unavailable)"

section \<open>Reading\<close>

definition disclosure_mode :: "meta_lib \<Rightarrow> multikey \<Rightarrow> disclosure res" where
  "disclosure_mode M k =
     (case get_attr k ThresholdDisclosure of
        Some v \<Rightarrow> and_then (map_err Multisig (disclosure_decode M v)) (\<lambda>(mode, _). Ok mode)
      | None \<Rightarrow> Ok Full)"

definition unsupported_mode :: "meta_lib \<Rightarrow> disclosure \<Rightarrow> error" where
  "unsupported_mode M mode = error.Threshold
     (ThMetaEncryption (''unsupported disclosure mode: '' @ disclosure_text M mode))"

text \<open>The part that the two encrypted modes share.\<close>

definition read_encrypted_meta ::
  "features \<Rightarrow> wire \<Rightarrow> meta_lib \<Rightarrow> multikey \<Rightarrow> multikey option \<Rightarrow> threshold_metadata res" where
  "read_encrypted_meta F W M k meta_key =
     and_then (ok_or (error.Threshold (ThMetaEncryption ''missing EncryptedThresholdMeta''))
        (get_attr k EncryptedThresholdMeta)) (\<lambda>encrypted.
     and_then (ok_or (error.Threshold (ThMetaEncryption ''missing ThresholdMetaCipher''))
        (get_attr k ThresholdMetaCipher)) (\<lambda>cbor.
     and_then (map_err Multisig (cipher_from_cbor M cbor)) (\<lambda>cipher_info.
     and_then (ok_or (error.Threshold ThMissingMetaKey) meta_key) (\<lambda>mk.
     and_then (extract_meta_key F W mk) (\<lambda>key.
     decrypt_threshold_meta F M encrypted cipher_info key)))))"

definition read_threshold_params ::
  "features \<Rightarrow> wire \<Rightarrow> meta_lib \<Rightarrow> multikey \<Rightarrow> multikey option \<Rightarrow> (nat \<times> nat) res" where
  "read_threshold_params F W M k meta_key =
     and_then (disclosure_mode M k) (\<lambda>mode.
     case mode of
       Full \<Rightarrow>
         and_then (ok_or (Attributes AMissingThreshold) (get_attr k Threshold)) (\<lambda>t.
         and_then (ok_or (Attributes AMissingLimit) (get_attr k Limit)) (\<lambda>n.
         and_then (map_err Multiutil (usize_of W t)) (\<lambda>t.
         and_then (map_err Multiutil (usize_of W n)) (\<lambda>n.
         Ok (t, n)))))
     | Partial \<Rightarrow>
         and_then (ok_or (Attributes AMissingLimit) (get_attr k Limit)) (\<lambda>n.
         and_then (map_err Multiutil (usize_of W n)) (\<lambda>n.
         and_then (read_encrypted_meta F W M k meta_key) (\<lambda>meta.
         and_then (ok_or (error.Threshold (ThMetaEncryption ''threshold not in encrypted metadata''))
            (tm_threshold meta)) (\<lambda>t.
         Ok (unat t, n)))))
     | FullConfidential \<Rightarrow>
         and_then (read_encrypted_meta F W M k meta_key) (\<lambda>meta.
         and_then (ok_or (error.Threshold (ThMetaEncryption ''threshold not in encrypted metadata''))
            (tm_threshold meta)) (\<lambda>t.
         and_then (ok_or (error.Threshold (ThMetaEncryption ''limit not in encrypted metadata''))
            (tm_limit meta)) (\<lambda>n.
         Ok (unat t, unat n))))
     | OtherDisclosure _ \<Rightarrow> Err (unsupported_mode M mode))"

section \<open>Stamping\<close>

text \<open>
  The function works on attributes in place, and an error leaves what it has done so far: the result
  is the outcome together with the attributes. \<^verbatim>\<open>threshold as u16\<close> is \<open>of_nat\<close> on \<open>u16\<close>.
\<close>

definition remove_disclosure :: "attributes \<Rightarrow> attributes" where
  "remove_disclosure attrs =
     (let attrs = attr_remove Threshold attrs;
          attrs = attr_remove Limit attrs;
          attrs = attr_remove EncryptedThresholdMeta attrs;
          attrs = attr_remove ThresholdMetaCipher attrs
      in attr_remove ThresholdDisclosure attrs)"

definition stamp_encrypted ::
  "features \<Rightarrow> meta_lib \<Rightarrow> disclosure \<Rightarrow> threshold_metadata \<Rightarrow> bytes \<Rightarrow> attributes \<Rightarrow> unit res \<times> attributes" where
  "stamp_encrypted F M mode meta key attrs =
     (case encrypt_threshold_meta F M meta key of
        Ok (ct, ci) \<Rightarrow>
          (let attrs = attr_insert EncryptedThresholdMeta ct attrs in
           case map_err Multisig (cipher_to_cbor M ci) of
             Ok cbor \<Rightarrow>
               (let attrs = attr_insert ThresholdMetaCipher cbor attrs in
                (Ok (), attr_insert ThresholdDisclosure (disclosure_encode M mode) attrs))
           | Err e \<Rightarrow> (Err e, attrs)
           | Panic \<Rightarrow> (Panic, attrs))
      | Err e \<Rightarrow> (Err e, attrs)
      | Panic \<Rightarrow> (Panic, attrs))"

definition stamp_disclosure_attrs ::
  "features \<Rightarrow> wire \<Rightarrow> meta_lib \<Rightarrow> attributes \<Rightarrow> disclosure \<Rightarrow> nat \<Rightarrow> nat \<Rightarrow> multikey option \<Rightarrow>
   unit res \<times> attributes" where
  "stamp_disclosure_attrs F W M attrs mode threshold limit meta_key =
     (let attrs = remove_disclosure attrs in
      case mode of
        Full \<Rightarrow>
          (let attrs = attr_insert Threshold (put_uint W threshold) attrs;
               attrs = attr_insert Limit (put_uint W limit) attrs
           in (Ok (), attr_insert ThresholdDisclosure (disclosure_encode M mode) attrs))
      | Partial \<Rightarrow>
          (case and_then (ok_or (error.Threshold ThMissingMetaKey) meta_key) (extract_meta_key F W) of
             Ok key \<Rightarrow>
               (let attrs = attr_insert Limit (put_uint W limit) attrs in
                stamp_encrypted F M mode
                  \<lparr>tm_threshold = Some (of_nat threshold), tm_limit = None\<rparr> key attrs)
           | Err e \<Rightarrow> (Err e, attrs)
           | Panic \<Rightarrow> (Panic, attrs))
      | FullConfidential \<Rightarrow>
          (case and_then (ok_or (error.Threshold ThMissingMetaKey) meta_key) (extract_meta_key F W) of
             Ok key \<Rightarrow>
               stamp_encrypted F M mode
                 \<lparr>tm_threshold = Some (of_nat threshold), tm_limit = Some (of_nat limit)\<rparr> key attrs
           | Err e \<Rightarrow> (Err e, attrs)
           | Panic \<Rightarrow> (Panic, attrs))
      | OtherDisclosure _ \<Rightarrow> (Err (unsupported_mode M mode), attrs))"

definition to_disclosure ::
  "features \<Rightarrow> wire \<Rightarrow> meta_lib \<Rightarrow> multikey \<Rightarrow> disclosure \<Rightarrow> multikey option \<Rightarrow> multikey option \<Rightarrow> multikey res" where
  "to_disclosure F W M k target meta_key current_meta_key =
     and_then (read_threshold_params F W M k current_meta_key) (\<lambda>(t, n).
     case stamp_disclosure_attrs F W M (mk_attributes k) target t n meta_key of
       (r, attrs) \<Rightarrow> and_then r (\<lambda>_. Ok (k\<lparr>mk_attributes := attrs\<rparr>)))"

section \<open>The builder methods\<close>

text \<open>\<^verbatim>\<open>let _ = stamp_disclosure_attrs(..)\<close>: the outcome is dropped.\<close>

definition with_disclosure ::
  "features \<Rightarrow> wire \<Rightarrow> meta_lib \<Rightarrow> builder \<Rightarrow> disclosure \<Rightarrow> multikey option \<Rightarrow> nat \<Rightarrow> nat \<Rightarrow> builder" where
  "with_disclosure F W M b mode meta_key threshold limit =
     b\<lparr>b_attributes :=
       Some (snd (stamp_disclosure_attrs F W M (unwrap_attributes b) mode threshold limit meta_key))\<rparr>"

definition with_encrypted_threshold_meta ::
  "wire \<Rightarrow> meta_lib \<Rightarrow> builder \<Rightarrow> disclosure \<Rightarrow> bytes \<Rightarrow> bytes \<Rightarrow> nat option \<Rightarrow> builder" where
  "with_encrypted_threshold_meta W M b mode encrypted_meta cipher_info plaintext_limit =
     (let attrs = remove_disclosure (unwrap_attributes b);
          attrs = (case plaintext_limit of Some n \<Rightarrow> attr_insert Limit (put_uint W n) attrs | None \<Rightarrow> attrs);
          attrs = attr_insert EncryptedThresholdMeta encrypted_meta attrs;
          attrs = (case cipher_to_cbor M cipher_info of
                     Ok bs \<Rightarrow> attr_insert ThresholdMetaCipher bs attrs | _ \<Rightarrow> attrs);
          attrs = attr_insert ThresholdDisclosure (disclosure_encode M mode) attrs
      in b\<lparr>b_attributes := Some attrs\<rparr>)"


section \<open>Lemmas\<close>

definition disclosure_attr_ids :: "attr_id set" where
  "disclosure_attr_ids =
     {Threshold, Limit, EncryptedThresholdMeta, ThresholdMetaCipher, ThresholdDisclosure}"

lemma remove_disclosure_apply:
  "remove_disclosure attrs a = (if a \<in> disclosure_attr_ids then None else attrs a)"
  by (simp add: remove_disclosure_def disclosure_attr_ids_def)

lemma stamp_encrypted_cases:
  obtains ct ci cbor where "encrypt_threshold_meta F M meta key = Ok (ct, ci)"
      "cipher_to_cbor M ci = Ok cbor"
      "stamp_encrypted F M mode meta key attrs = (Ok (), attr_insert ThresholdDisclosure
         (disclosure_encode M mode) (attr_insert ThresholdMetaCipher cbor (attr_insert EncryptedThresholdMeta ct attrs)))"
  | r ct where "r \<noteq> Ok ()"
      "stamp_encrypted F M mode meta key attrs = (r, attr_insert EncryptedThresholdMeta ct attrs)"
  | r where "r \<noteq> Ok ()" "stamp_encrypted F M mode meta key attrs = (r, attrs)"
proof (cases "encrypt_threshold_meta F M meta key")
  case (Ok p)
  obtain ct ci where p: "p = (ct, ci)" by (cases p)
  show thesis
    by (cases "cipher_to_cbor M ci") (use that(1,2) in \<open>auto simp: stamp_encrypted_def Ok p\<close>)
qed (use that(3) in \<open>auto simp: stamp_encrypted_def\<close>)

lemma stamp_encrypted_other:
  "a \<notin> disclosure_attr_ids \<Longrightarrow> snd (stamp_encrypted F M mode meta key attrs) a = attrs a"
  "snd (stamp_encrypted F M mode meta key attrs) Threshold = attrs Threshold"
  "snd (stamp_encrypted F M mode meta key attrs) Limit = attrs Limit"
  by (rule stamp_encrypted_cases [of F M meta key mode attrs]; simp add: disclosure_attr_ids_def)+

lemma stamp_other:
  assumes "a \<notin> disclosure_attr_ids"
  shows "snd (stamp_disclosure_attrs F W M attrs mode t n meta_key) a = attrs a"
proof -
  have "Limit \<in> disclosure_attr_ids" "Threshold \<in> disclosure_attr_ids"
    "ThresholdDisclosure \<in> disclosure_attr_ids"
    by (simp_all add: disclosure_attr_ids_def)
  then show ?thesis
    using assms
    by (auto simp: stamp_disclosure_attrs_def Let_def remove_disclosure_apply stamp_encrypted_other
        split: disclosure.splits outcome.splits)
qed

lemma stamp_plaintext:
  "mode \<noteq> Full \<Longrightarrow> snd (stamp_disclosure_attrs F W M attrs mode t n meta_key) Threshold = None"
  "mode \<noteq> Full \<Longrightarrow> mode \<noteq> Partial \<Longrightarrow>
   snd (stamp_disclosure_attrs F W M attrs mode t n meta_key) Limit = None"
  by (auto simp: stamp_disclosure_attrs_def Let_def remove_disclosure_apply stamp_encrypted_other
      disclosure_attr_ids_def split: disclosure.splits outcome.splits)

lemma unat_u16: "unat (of_nat n :: u16) = n mod 65536"
  by (simp add: unat_of_nat take_bit_eq_mod)

text \<open>Reading back what the encrypted part of stamping wrote.\<close>

lemma read_stamped_meta:
  assumes M: "meta_lib_ok M" and key: "extract_meta_key F W mk = Ok key"
    and stamp: "stamp_encrypted F M mode meta key attrs = (Ok (), attrs')"
    and k: "mk_attributes k = attrs'" and mode: "mode \<in> {Partial, FullConfidential}"
  shows "disclosure_mode M k = Ok mode" and "read_encrypted_meta F W M k (Some mk) = Ok meta"
    and "attrs' Limit = attrs Limit"
proof -
  obtain ct ci cbor where ct: "encrypt_threshold_meta F M meta key = Ok (ct, ci)"
    and cbor: "cipher_to_cbor M ci = Ok cbor"
    and attrs': "attrs' = attr_insert ThresholdDisclosure (disclosure_encode M mode)
      (attr_insert ThresholdMetaCipher cbor (attr_insert EncryptedThresholdMeta ct attrs))"
    by (rule stamp_encrypted_cases [of F M meta key mode attrs]) (use stamp in auto)
  have "decrypt_threshold_meta F M ct ci key = Ok meta"
    using ct M unfolding encrypt_threshold_meta_def decrypt_threshold_meta_def meta_lib_ok_def
    by (auto simp: outcome_simps split: if_splits)
  moreover have "cipher_from_cbor M cbor = Ok ci"
    using M cbor unfolding meta_lib_ok_def by blast
  ultimately show "read_encrypted_meta F W M k (Some mk) = Ok meta"
    using key k attrs' by (simp add: read_encrypted_meta_def get_attr_def)
  show "disclosure_mode M k = Ok mode"
    using M k attrs' mode unfolding meta_lib_ok_def by (auto simp: disclosure_mode_def get_attr_def)
  show "attrs' Limit = attrs Limit"
    by (simp add: attrs')
qed

lemma read_stamped:
  assumes M: "meta_lib_ok M" and W: "wire_ok W" and t: "t < 2 ^ 64" and n: "n < 2 ^ 64"
    and stamp: "stamp_disclosure_attrs F W M attrs mode t n meta_key = (Ok (), attrs')"
    and k: "mk_attributes k = attrs'"
  shows "disclosure_mode M k = Ok mode
    \<and> read_threshold_params F W M k meta_key =
       Ok (if mode = Full then t else t mod 2 ^ 16, if mode = FullConfidential then n mod 2 ^ 16 else n)"
proof (cases mode)
  case Full
  then have "attrs' = attr_insert ThresholdDisclosure (disclosure_encode M Full)
      (attr_insert Limit (put_uint W n) (attr_insert Threshold (put_uint W t) (remove_disclosure attrs)))"
    using stamp by (simp add: stamp_disclosure_attrs_def Let_def)
  then show ?thesis
    using M W t n k Full unfolding meta_lib_ok_def
    by (simp add: read_threshold_params_def disclosure_mode_def get_attr_def wire_ok_usize_of)
next
  case Partial
  obtain mk key where mk: "meta_key = Some mk" and key: "extract_meta_key F W mk = Ok key"
    and enc: "stamp_encrypted F M Partial \<lparr>tm_threshold = Some (of_nat t), tm_limit = None\<rparr> key
      (attr_insert Limit (put_uint W n) (remove_disclosure attrs)) = (Ok (), attrs')"
    using stamp Partial
    by (auto simp: stamp_disclosure_attrs_def Let_def and_then_eq_Ok ok_or_eq_Ok split: outcome.splits)
  note read = read_stamped_meta [OF M key enc k, simplified]
  show ?thesis
    using read W n k
    by (simp add: read_threshold_params_def mk get_attr_def wire_ok_usize_of unat_u16 Partial)
next
  case FullConfidential
  obtain mk key where mk: "meta_key = Some mk" and key: "extract_meta_key F W mk = Ok key"
    and enc: "stamp_encrypted F M FullConfidential
      \<lparr>tm_threshold = Some (of_nat t), tm_limit = Some (of_nat n)\<rparr> key (remove_disclosure attrs) = (Ok (), attrs')"
    using stamp FullConfidential
    by (auto simp: stamp_disclosure_attrs_def Let_def and_then_eq_Ok ok_or_eq_Ok split: outcome.splits)
  show ?thesis
    using read_stamped_meta [OF M key enc k]
    by (simp add: read_threshold_params_def mk unat_u16 FullConfidential)
next
  case (OtherDisclosure x)
  then show ?thesis
    using stamp by (simp add: stamp_disclosure_attrs_def Let_def)
qed

section \<open>An example\<close>

definition toy_ciphertext :: "threshold_metadata \<Rightarrow> bytes" where
  "toy_ciphertext m =
     (case tm_threshold m of None \<Rightarrow> leb_put 0 | Some t \<Rightarrow> leb_put (Suc (unat t))) @
     (case tm_limit m of None \<Rightarrow> leb_put 0 | Some n \<Rightarrow> leb_put (Suc (unat n)))"

definition toy_meta :: meta_lib where
  "toy_meta = \<lparr>disclosure_encode = \<lambda>d. (case d of Full \<Rightarrow> leb_put 0 | Partial \<Rightarrow> leb_put 1
       | FullConfidential \<Rightarrow> leb_put 2 | OtherDisclosure n \<Rightarrow> leb_put (n + 3)),
     disclosure_decode = \<lambda>bs. and_then (leb_get bs) (\<lambda>(n, r).
       Ok (if n = 0 then Full else if n = 1 then Partial else if n = 2 then FullConfidential
           else OtherDisclosure (n - 3), r)),
     disclosure_text = \<lambda>d. ''mode'',
     encrypt_meta = \<lambda>m key. Ok (toy_ciphertext m, key),
     decrypt_meta = \<lambda>ct ci key. and_then (leb_get ct) (\<lambda>(t, r). and_then (leb_get r) (\<lambda>(n, _).
       Ok \<lparr>tm_threshold = (if t = 0 then None else Some (of_nat (t - 1))),
           tm_limit = (if n = 0 then None else Some (of_nat (n - 1)))\<rparr>)),
     cipher_to_cbor = Ok, cipher_from_cbor = Ok\<rparr>"

lemma toy_encrypt: "encrypt_meta toy_meta m key = Ok (toy_ciphertext m, key)"
  by (simp add: toy_meta_def)

lemma toy_cbor: "cipher_to_cbor toy_meta ci = Ok ci"
  by (simp add: toy_meta_def)

lemma toy_meta_ok: "meta_lib_ok toy_meta"
  by (auto simp: meta_lib_ok_def toy_meta_def toy_ciphertext_def split: option.splits disclosure.splits)

definition example_meta_key :: multikey where
  "example_meta_key = \<lparr>mk_codec = Chacha20Poly1305, mk_comment = [],
     mk_attributes = attr_insert KeyData (replicate 32 1) Map.empty\<rparr>"

lemma example_meta_key_bytes:
  "extract_meta_key {FChacha20} leb_wire example_meta_key = Ok (replicate 32 1)"
  by (simp add: extract_meta_key_def data_view_def dispatch_data_view_def example_meta_key_def arm_def
      chacha20_view_def key_data_def get_attr_def)

definition example_share_attrs :: "disclosure \<Rightarrow> attributes" where
  "example_share_attrs mode =
     snd (stamp_disclosure_attrs {FChacha20} leb_wire toy_meta Map.empty mode 2 3 (Some example_meta_key))"

lemma example_stamp:
  "mode = Full \<or> mode = Partial \<or> mode = FullConfidential \<Longrightarrow>
   stamp_disclosure_attrs {FChacha20} leb_wire toy_meta Map.empty mode 2 3 (Some example_meta_key) =
   (Ok (), example_share_attrs mode)"
  by (auto simp: example_share_attrs_def stamp_disclosure_attrs_def Let_def example_meta_key_bytes
      stamp_encrypted_def encrypt_threshold_meta_def toy_meta_def)

definition example_share :: "disclosure \<Rightarrow> multikey" where
  "example_share mode = \<lparr>mk_codec = Bls12381 G1 BPrivShare, mk_comment = [],
     mk_attributes = example_share_attrs mode\<rparr>"


section \<open>Properties\<close>

text \<open>
  C21: Threshold parameters that were stamped in any mode are read back with the same metadata key,
  and the mode with them. Plaintext parameters are exact; a parameter that is encrypted is kept
  modulo \<open>2 ^ 16\<close>, so a threshold of 65,536 or more comes back as a different one.
\<close>

theorem stamped_params_read_back:
  assumes "meta_lib_ok M" and "wire_ok W" and "t < 2 ^ 64" and "n < 2 ^ 64"
    and "stamp_disclosure_attrs F W M attrs mode t n meta_key = (Ok (), attrs')"
    and "mk_attributes k = attrs'"
  shows "disclosure_mode M k = Ok mode
    \<and> read_threshold_params F W M k meta_key =
       Ok (if mode = Full then t else t mod 2 ^ 16, if mode = FullConfidential then n mod 2 ^ 16 else n)"
  using assms by (rule read_stamped)

theorem stamped_params_read_back_witness:
  "read_threshold_params {FChacha20} leb_wire toy_meta (example_share FullConfidential) (Some example_meta_key) = Ok (2, 3)"
  using stamped_params_read_back [OF toy_meta_ok leb_wire_ok _ _ example_stamp, of FullConfidential
      "example_share FullConfidential"]
  by (simp add: example_share_def)

text \<open>
  C24: Stamping a confidential mode never leaves the confidential parameters in plaintext, whether it
  succeeds or fails half-way: no threshold in the partial mode, neither threshold nor limit in the
  full one. It touches no attribute but the five of the disclosure.
\<close>

theorem confidential_params_not_in_plaintext:
  assumes "stamp_disclosure_attrs F W M attrs mode t n meta_key = (r, attrs')"
  shows "(mode \<noteq> Full \<longrightarrow> attrs' Threshold = None)
    \<and> (mode \<noteq> Full \<and> mode \<noteq> Partial \<longrightarrow> attrs' Limit = None)
    \<and> (\<forall>a. a \<notin> disclosure_attr_ids \<longrightarrow> attrs' a = attrs a)"
proof -
  have "attrs' = snd (stamp_disclosure_attrs F W M attrs mode t n meta_key)"
    by (simp add: assms)
  then show ?thesis
    using stamp_plaintext stamp_other by simp
qed

theorem confidential_params_not_in_plaintext_witness:
  "example_share_attrs Partial Threshold = None \<and> example_share_attrs FullConfidential Limit = None"
  using confidential_params_not_in_plaintext [OF example_stamp, of Partial]
    confidential_params_not_in_plaintext [OF example_stamp, of FullConfidential] by simp

text \<open>
  Converting a share from one disclosure mode to another keeps its parameters (those of a real
  sharing are below \<open>2 ^ 16\<close>), its key data and everything else; the parameters are read from the
  result with the new metadata key.
\<close>

lemma conversion_keeps_params:
  assumes "meta_lib_ok M" and "wire_ok W"
    and "read_threshold_params F W M k current = Ok (t, n)" and "t < 2 ^ 16" and "n < 2 ^ 16"
    and "to_disclosure F W M k target meta_key current = Ok k'"
  shows "disclosure_mode M k' = Ok target \<and> read_threshold_params F W M k' meta_key = Ok (t, n)
    \<and> mk_codec k' = mk_codec k \<and> mk_comment k' = mk_comment k
    \<and> (\<forall>a. a \<notin> disclosure_attr_ids \<longrightarrow> mk_attributes k' a = mk_attributes k a)"
proof -
  obtain attrs where stamp: "stamp_disclosure_attrs F W M (mk_attributes k) target t n meta_key = (Ok (), attrs)"
    and k': "k' = k\<lparr>mk_attributes := attrs\<rparr>"
    using assms(3,6) by (auto simp: to_disclosure_def and_then_eq_Ok split: prod.splits)
  have "snd (stamp_disclosure_attrs F W M (mk_attributes k) target t n meta_key) = attrs"
    by (simp add: stamp)
  then have "\<forall>a. a \<notin> disclosure_attr_ids \<longrightarrow> attrs a = mk_attributes k a"
    using stamp_other by blast
  then show ?thesis
    using read_stamped [OF assms(1,2) _ _ stamp, of k'] assms(4,5) k' by simp
qed

lemma conversion_keeps_params_witness:
  "\<exists>k'. to_disclosure {FChacha20} leb_wire toy_meta (example_share Full) FullConfidential
      (Some example_meta_key) (Some example_meta_key) = Ok k' \<and>
    read_threshold_params {FChacha20} leb_wire toy_meta k' (Some example_meta_key) = Ok (2, 3)"
proof -
  have read: "read_threshold_params {FChacha20} leb_wire toy_meta (example_share Full) (Some example_meta_key) = Ok (2, 3)"
    using read_stamped [OF toy_meta_ok leb_wire_ok _ _ example_stamp, of Full "example_share Full"]
    by (simp add: example_share_def)
  have "\<exists>attrs. stamp_disclosure_attrs {FChacha20} leb_wire toy_meta (mk_attributes (example_share Full))
      FullConfidential 2 3 (Some example_meta_key) = (Ok (), attrs)"
    by (simp add: stamp_disclosure_attrs_def Let_def example_meta_key_bytes stamp_encrypted_def
        encrypt_threshold_meta_def toy_encrypt toy_cbor)
  then obtain k' where k': "to_disclosure {FChacha20} leb_wire toy_meta (example_share Full) FullConfidential
      (Some example_meta_key) (Some example_meta_key) = Ok k'"
    using read by (auto simp: to_disclosure_def)
  show ?thesis
    using conversion_keeps_params [OF toy_meta_ok leb_wire_ok read _ _ k'] k' by simp
qed

text \<open>
  Asking the builder for a confidential mode without a metadata key reports no error: it builds
  a key that has lost its threshold parameters and whose mode reads as the plaintext one.
\<close>

theorem with_disclosure_drops_error:
  assumes "mode = Partial \<or> mode = FullConfidential"
    and "k = built_key (with_disclosure F W M b mode None t n)"
  shows "disclosure_mode M k = Ok Full
    \<and> read_threshold_params F W M k meta_key = Err (Attributes AMissingThreshold)
    \<and> (\<forall>a \<in> disclosure_attr_ids. mk_attributes k a = None)"
  using assms
  by (auto simp: with_disclosure_def built_key_def unwrap_attributes_def stamp_disclosure_attrs_def
      Let_def remove_disclosure_apply disclosure_attr_ids_def disclosure_mode_def get_attr_def
      read_threshold_params_def)

theorem with_disclosure_drops_error_witness:
  "disclosure_mode toy_meta (built_key (with_disclosure {} leb_wire toy_meta
     (builder_new (Bls12381 G1 BPrivShare)) FullConfidential None 2 3)) = Ok Full"
  using with_disclosure_drops_error [of FullConfidential] by blast

end
