(* ===== verification/Mk_KeySplit.thy ===== *)
theory Mk_KeySplit
  imports Mk_Builder
begin

text \<open>
  Key splitting (\<^verbatim>\<open>src/keysplit.rs\<close>): a private key is split into verifiable shares and recombined.
  Single-scalar keys use Feldman sharing over their curve, Ed25519 and X25519 use byte sharing of
  the seed together with a Feldman share, every other key uses byte sharing over GF(256). The two
  sharing schemes (\<^verbatim>\<open>vsss_rs\<close>) and CBOR are external and a parameter.
\<close>

section \<open>Payloads\<close>

datatype scheme = Feldman | Gf256

record dual_payload =
  dp_identifier :: bytes
  dp_value :: bytes
  dp_verifiers :: "bytes list"

record share_payload =
  sp_codec :: nat
  sp_threshold :: u16
  sp_limit :: u16
  sp_scheme :: scheme
  sp_identifier :: bytes
  sp_value :: bytes
  sp_verifiers :: "bytes list option"
  sp_dual :: "dual_payload option"

section \<open>The external functions\<close>

datatype curve = CK256 | CP256 | CP384 | CP521 | C25519 | CBlsG1 | CBlsG2

type_synonym pairs = "(bytes \<times> bytes) list"

text \<open>A field element is kept as its canonical bytes, so reading one is a check.\<close>

record split_lib =
  scalar_len :: "curve \<Rightarrow> nat"
  scalar_canonical :: "curve \<Rightarrow> bytes \<Rightarrow> bool"
  scalar_mod_order :: "bytes \<Rightarrow> bytes"                 \<comment> \<open>\<^verbatim>\<open>DalekScalar::from_bytes_mod_order\<close>\<close>
  verifier_len :: "curve \<Rightarrow> nat"
  verifier_valid :: "curve \<Rightarrow> bytes \<Rightarrow> bool"
  feldman_split :: "curve \<Rightarrow> bytes \<Rightarrow> nat \<Rightarrow> nat \<Rightarrow> (string, pairs \<times> bytes list) outcome"
  feldman_combine :: "curve \<Rightarrow> pairs \<Rightarrow> (string, bytes) outcome"
  feldman_verify :: "curve \<Rightarrow> bytes \<Rightarrow> bytes \<Rightarrow> bytes list \<Rightarrow> bool"
  gf256_split_array :: "nat \<Rightarrow> nat \<Rightarrow> bytes \<Rightarrow> (string, bytes list) outcome"
  gf256_combine_array :: "bytes list \<Rightarrow> (string, bytes) outcome"
  cbor_encode :: "share_payload \<Rightarrow> (string, bytes) outcome"
  cbor_decode :: "bytes \<Rightarrow> (string, share_payload) outcome"

text \<open>A choice of at least \<open>t\<close> of \<open>n\<close> shares, by position and in any order.\<close>

definition chosen :: "nat \<Rightarrow> nat \<Rightarrow> nat list \<Rightarrow> bool" where
  "chosen t n is \<longleftrightarrow> distinct is \<and> set is \<subseteq> {..<n} \<and> t \<le> length is"

text \<open>What the two sharing schemes promise of a sharing of \<open>secret\<close>.\<close>

definition feldman_sharing ::
  "split_lib \<Rightarrow> curve \<Rightarrow> bytes \<Rightarrow> nat \<Rightarrow> nat \<Rightarrow> pairs \<Rightarrow> bytes list \<Rightarrow> bool" where
  "feldman_sharing S c secret t n shares vs \<longleftrightarrow>
     length shares = n
   \<and> (\<forall>(i, v) \<in> set shares. length i = scalar_len S c \<and> scalar_canonical S c i
       \<and> length v = scalar_len S c \<and> scalar_canonical S c v \<and> feldman_verify S c i v vs)
   \<and> (\<forall>b \<in> set vs. length b = verifier_len S c \<and> verifier_valid S c b)
   \<and> (\<forall>is. chosen t n is \<longrightarrow> feldman_combine S c (map ((!) shares) is) = Ok secret)"

definition gf256_sharing :: "split_lib \<Rightarrow> bytes \<Rightarrow> nat \<Rightarrow> nat \<Rightarrow> bytes list \<Rightarrow> bool" where
  "gf256_sharing S secret t n rows \<longleftrightarrow>
     length rows = n \<and> (\<forall>r \<in> set rows. r \<noteq> [])
   \<and> (\<forall>is. chosen t n is \<longrightarrow> gf256_combine_array S (map ((!) rows) is) = Ok secret)"

definition split_lib_ok :: "split_lib \<Rightarrow> bool" where
  "split_lib_ok S \<longleftrightarrow>
     (\<forall>c s t n shares vs. feldman_split S c s t n = Ok (shares, vs) \<longrightarrow>
        feldman_sharing S c s t n shares vs)
   \<and> (\<forall>t n secret rows. gf256_split_array S t n secret = Ok rows \<longrightarrow>
        gf256_sharing S secret t n rows)
   \<and> (\<forall>p bs. cbor_encode S p = Ok bs \<longrightarrow> cbor_decode S bs = Ok p)"

lemma split_lib_okD:
  assumes "split_lib_ok S"
  shows "feldman_split S c s t n = Ok (shares, vs) \<Longrightarrow> feldman_sharing S c s t n shares vs"
    and "gf256_split_array S t n secret = Ok rows \<Longrightarrow> gf256_sharing S secret t n rows"
    and "cbor_encode S p = Ok bs \<Longrightarrow> cbor_decode S bs = Ok p"
  using assms unfolding split_lib_ok_def by blast+

definition cbor_to_vec :: "split_lib \<Rightarrow> share_payload \<Rightarrow> bytes res" where
  "cbor_to_vec S p = map_err KeySplit (cbor_encode S p)"

definition cbor_from_slice :: "split_lib \<Rightarrow> bytes \<Rightarrow> share_payload res" where
  "cbor_from_slice S bs = map_err KeySplit (cbor_decode S bs)"

section \<open>Feldman sharing over the curves\<close>

definition scalar :: "split_lib \<Rightarrow> curve \<Rightarrow> bytes \<Rightarrow> bytes res" where
  "scalar S c bs =
     (if length bs \<noteq> scalar_len S c then Err (KeySplit ''wrong scalar length'')
      else if scalar_canonical S c bs then Ok bs
      else Err (KeySplit ''non-canonical scalar''))"

definition bls_scalar_from_be :: "split_lib \<Rightarrow> curve \<Rightarrow> bytes \<Rightarrow> bytes res" where
  "bls_scalar_from_be S c be = scalar S c (rev be)"

definition bls_to_be :: "bytes \<Rightarrow> bytes" where
  "bls_to_be le = rev le"

definition wrapped_from_seed :: "split_lib \<Rightarrow> bytes \<Rightarrow> bytes res" where
  "wrapped_from_seed S secret =
     (if length secret \<noteq> 32 then Err (KeySplit ''ed25519/x25519 seed must be 32 bytes'')
      else Ok (scalar_mod_order S secret))"

text \<open>The three functions of the macro \<^verbatim>\<open>feldman_curve!\<close>.\<close>

definition curve_split :: "split_lib \<Rightarrow> curve \<Rightarrow> bytes \<Rightarrow> nat \<Rightarrow> nat \<Rightarrow> (pairs \<times> bytes list) res" where
  "curve_split S c secret t n = map_err KeySplit (feldman_split S c secret t n)"

definition curve_combine :: "split_lib \<Rightarrow> curve \<Rightarrow> pairs \<Rightarrow> bytes res" where
  "curve_combine S c ps =
     and_then (collect (\<lambda>(i, v). and_then (scalar S c i) (\<lambda>i. and_then (scalar S c v) (\<lambda>v. Ok (i, v)))) ps) (\<lambda>ds.
     map_err KeySplit (feldman_combine S c ds))"

definition curve_verify :: "split_lib \<Rightarrow> curve \<Rightarrow> bytes \<Rightarrow> bytes \<Rightarrow> bytes list \<Rightarrow> unit res" where
  "curve_verify S c ident val vb =
     and_then (scalar S c ident) (\<lambda>i.
     and_then (scalar S c val) (\<lambda>v.
     and_then
       (collect (\<lambda>b. if length b \<noteq> verifier_len S c then Err (KeySplit ''bad verifier length'')
          else if verifier_valid S c b then Ok b else Err (KeySplit ''bad verifier'')) vb) (\<lambda>verifiers.
     ensure (feldman_verify S c i v verifiers) (KeySplit ''feldman verification failed''))))"

definition is_feldman_codec :: "codec \<Rightarrow> bool" where
  "is_feldman_codec c \<longleftrightarrow>
     c \<in> {Secp256K1 Priv, P256 Priv, P384 Priv, P521 Priv, Ed25519 Priv, X25519 Priv,
          Bls12381 G1 BPriv, Bls12381 G2 BPriv}"

text \<open>The arm of the three matches on the codec, in a build with features \<open>F\<close>.\<close>

definition curve_of :: "features \<Rightarrow> codec \<Rightarrow> curve option" where
  "curve_of F c =
     (if c = Secp256K1 Priv \<and> FSecp256k1 \<in> F then Some CK256
      else if c = P256 Priv \<and> FP256 \<in> F then Some CP256
      else if c = P384 Priv \<and> FP384 \<in> F then Some CP384
      else if c = P521 Priv \<and> FP521 \<in> F then Some CP521
      else if (c = Ed25519 Priv \<or> c = X25519 Priv) \<and> FCurve25519 \<in> F then Some C25519
      else if c = Bls12381 G1 BPriv \<and> FBls12381 \<in> F then Some CBlsG1
      else if c = Bls12381 G2 BPriv \<and> FBls12381 \<in> F then Some CBlsG2
      else None)"

fun is_bls_curve :: "curve \<Rightarrow> bool" where
  "is_bls_curve CBlsG1 = True"
| "is_bls_curve CBlsG2 = True"
| "is_bls_curve _ = False"

definition ecc_split ::
  "features \<Rightarrow> split_lib \<Rightarrow> codec \<Rightarrow> bytes \<Rightarrow> nat \<Rightarrow> nat \<Rightarrow> (pairs \<times> bytes list) res" where
  "ecc_split F S c secret t n =
     (case curve_of F c of
        None \<Rightarrow> Err (KeySplit ''unsupported curve codec'')
      | Some cv \<Rightarrow>
          and_then
            (if is_bls_curve cv then bls_scalar_from_be S cv secret
             else if cv = C25519 then wrapped_from_seed S secret
             else scalar S cv secret) (\<lambda>s.
          curve_split S cv s t n))"

definition ecc_combine :: "features \<Rightarrow> split_lib \<Rightarrow> codec \<Rightarrow> pairs \<Rightarrow> bytes res" where
  "ecc_combine F S c ps =
     (case curve_of F c of
        None \<Rightarrow> Err (KeySplit ''unsupported curve codec'')
      | Some cv \<Rightarrow>
          and_then (curve_combine S cv ps) (\<lambda>bs. Ok (if is_bls_curve cv then bls_to_be bs else bs)))"

definition ecc_verify ::
  "features \<Rightarrow> split_lib \<Rightarrow> codec \<Rightarrow> bytes \<Rightarrow> bytes \<Rightarrow> bytes list \<Rightarrow> unit res" where
  "ecc_verify F S c ident val vb =
     (case curve_of F c of
        None \<Rightarrow> Err (KeySplit ''unsupported curve codec'')
      | Some cv \<Rightarrow> curve_verify S cv ident val vb)"

section \<open>Byte sharing\<close>

definition gf256_split :: "split_lib \<Rightarrow> bytes \<Rightarrow> nat \<Rightarrow> nat \<Rightarrow> (byte \<times> bytes) list res" where
  "gf256_split S secret t n =
     and_then (map_err KeySplit (gf256_split_array S t n secret)) (\<lambda>raw.
     collect (\<lambda>inner. case inner of [] \<Rightarrow> Err (KeySplit ''empty gf256 share'') | i # v \<Rightarrow> Ok (i, v)) raw)"

definition gf256_combine :: "split_lib \<Rightarrow> (byte \<times> bytes) list \<Rightarrow> bytes res" where
  "gf256_combine S rows =
     map_err KeySplit (gf256_combine_array S (map (\<lambda>(i, v). i # v) rows))"

section \<open>Payload construction and wrapping\<close>

definition build_payloads ::
  "features \<Rightarrow> wire \<Rightarrow> split_lib \<Rightarrow> codec \<Rightarrow> bytes \<Rightarrow> nat \<Rightarrow> nat \<Rightarrow> share_payload list res" where
  "build_payloads F W S c secret t n =
     (let ccode = codec_code W c in
      if c = Ed25519 Priv \<or> c = X25519 Priv then
        and_then (gf256_split S secret t n) (\<lambda>seed.
        and_then (ecc_split F S c secret t n) (\<lambda>(ps, verifiers).
        Ok (map (\<lambda>((i, v), (fi, fv)).
          \<lparr>sp_codec = ccode, sp_threshold = of_nat t, sp_limit = of_nat n, sp_scheme = Gf256,
           sp_identifier = [i], sp_value = v, sp_verifiers = None,
           sp_dual = Some \<lparr>dp_identifier = fi, dp_value = fv, dp_verifiers = verifiers\<rparr>\<rparr>) (zip seed ps))))
      else if is_feldman_codec c then
        and_then (ecc_split F S c secret t n) (\<lambda>(ps, verifiers).
        Ok (map (\<lambda>(i, v).
          \<lparr>sp_codec = ccode, sp_threshold = of_nat t, sp_limit = of_nat n, sp_scheme = Feldman,
           sp_identifier = i, sp_value = v, sp_verifiers = Some verifiers, sp_dual = None\<rparr>) ps))
      else
        and_then (gf256_split S secret t n) (\<lambda>rows.
        Ok (map (\<lambda>(i, v).
          \<lparr>sp_codec = ccode, sp_threshold = of_nat t, sp_limit = of_nat n, sp_scheme = Gf256,
           sp_identifier = [i], sp_value = v, sp_verifiers = None, sp_dual = None\<rparr>) rows)))"

definition wrap_share :: "split_lib \<Rightarrow> multikey \<Rightarrow> share_payload \<Rightarrow> multikey res" where
  "wrap_share S orig p =
     and_then (cbor_to_vec S p) (\<lambda>cbor.
     Ok \<lparr>mk_codec = KeySplitShare, mk_comment = mk_comment orig,
         mk_attributes = attr_insert KeyData cbor Map.empty\<rparr>)"

definition unwrap_share :: "split_lib \<Rightarrow> multikey \<Rightarrow> share_payload res" where
  "unwrap_share S k =
     (if mk_codec k \<noteq> KeySplitShare then Err (KeySplit ''not a key-split share'')
      else
      and_then (ok_or (KeySplit ''share missing key data'') (get_attr k KeyData)) (\<lambda>kd.
      cbor_from_slice S kd))"

section \<open>The public functions\<close>

definition split_key ::
  "features \<Rightarrow> wire \<Rightarrow> split_lib \<Rightarrow> multikey \<Rightarrow> nat \<Rightarrow> nat \<Rightarrow> multikey list res" where
  "split_key F W S k threshold limit =
     (if threshold < 2 \<or> threshold > limit \<or> limit > 255
      then Err (KeySplit ''need 2 <= threshold <= limit <= 255'')
      else
      and_then (and_then (data_view F W k) secret_bytes) (\<lambda>secret.
      and_then (build_payloads F W S (mk_codec k) secret threshold limit) (\<lambda>payloads.
      collect (wrap_share S k) payloads)))"

text \<open>The check of one share, in \<^verbatim>\<open>verify_share\<close> and in the loops of \<^verbatim>\<open>combine\<close>.\<close>

definition check_payload :: "features \<Rightarrow> split_lib \<Rightarrow> codec \<Rightarrow> scheme \<Rightarrow> share_payload \<Rightarrow> unit res" where
  "check_payload F S c sch p =
     (case sch of
        Feldman \<Rightarrow>
          and_then (ok_or (KeySplit ''missing verifiers'') (sp_verifiers p)) (\<lambda>vb.
          ecc_verify F S c (sp_identifier p) (sp_value p) vb)
      | Gf256 \<Rightarrow>
          (case sp_dual p of
             Some d \<Rightarrow> ecc_verify F S c (dp_identifier d) (dp_value d) (dp_verifiers d)
           | None \<Rightarrow> Ok ()))"

definition verify_share :: "features \<Rightarrow> wire \<Rightarrow> split_lib \<Rightarrow> multikey \<Rightarrow> unit res" where
  "verify_share F W S share =
     and_then (unwrap_share S share) (\<lambda>p.
     and_then (map_err KeySplit (codec_of_code W (sp_codec p))) (\<lambda>c.
     check_payload F S c (sp_scheme p) p))"

definition combine_payloads ::
  "features \<Rightarrow> split_lib \<Rightarrow> codec \<Rightarrow> scheme \<Rightarrow> share_payload list \<Rightarrow> bytes res" where
  "combine_payloads F S c sch payloads =
     (case sch of
        Feldman \<Rightarrow>
          and_then (check_all (check_payload F S c Feldman) payloads) (\<lambda>_.
          ecc_combine F S c (map (\<lambda>p. (sp_identifier p, sp_value p)) payloads))
      | Gf256 \<Rightarrow>
          and_then (check_all (check_payload F S c Gf256) payloads) (\<lambda>_.
          and_then (collect (\<lambda>p. case sp_identifier p of
              [] \<Rightarrow> Err (KeySplit ''bad gf256 id'') | i # _ \<Rightarrow> Ok (i, sp_value p)) payloads) (\<lambda>rows.
          gf256_combine S rows)))"

definition combine_shares :: "features \<Rightarrow> wire \<Rightarrow> split_lib \<Rightarrow> multikey list \<Rightarrow> multikey res" where
  "combine_shares F W S shares =
     (if shares = [] then Err (KeySplit ''no shares supplied'')
      else
      and_then (collect (unwrap_share S) shares) (\<lambda>payloads.
      let first = hd payloads in
      if \<exists>p \<in> set payloads. sp_codec p \<noteq> sp_codec first \<or> sp_scheme p \<noteq> sp_scheme first
      then Err (KeySplit ''shares describe different keys'')
      else
      and_then (map_err KeySplit (codec_of_code W (sp_codec first))) (\<lambda>c.
      and_then (combine_payloads F S c (sp_scheme first) payloads) (\<lambda>secret.
      Ok (built_key (with_key_bytes (builder_new c) secret))))))"


section \<open>The sharing schemes inside the wrappers\<close>

lemma map_nth_map: "set is \<subseteq> {..<length xs} \<Longrightarrow> map f (map ((!) xs) is) = map ((!) (map f xs)) is"
  by (induction "is") auto

lemma set_map_nth: "set is \<subseteq> {..<length xs} \<Longrightarrow> set (map ((!) xs) is) \<subseteq> set xs"
  by auto

lemma chosenD: "chosen t n is \<Longrightarrow> set is \<subseteq> {..<n}"
  by (simp add: chosen_def)

lemma gf256_split_raw:
  assumes "gf256_split S secret t n = Ok rows"
  shows "gf256_split_array S t n secret = Ok (map (\<lambda>(i, v). i # v) rows)"
proof -
  obtain raw where raw: "gf256_split_array S t n secret = Ok raw"
    and rows: "collect (\<lambda>inner. case inner of [] \<Rightarrow> Err (KeySplit ''empty gf256 share'') | i # v \<Rightarrow> Ok (i, v)) raw = Ok rows"
    using assms by (auto simp: gf256_split_def outcome_simps)
  have "raw = map (\<lambda>(i, v). i # v) rows"
    using rows unfolding collect_eq_Ok
    by (induction rule: list_all2_induct) (auto split: list.splits)
  then show ?thesis
    using raw by simp
qed

lemma gf256_roundtrip:
  assumes S: "split_lib_ok S" and rows: "gf256_split S secret t n = Ok rows"
  shows "length rows = n"
    and "chosen t n is \<Longrightarrow> gf256_combine S (map ((!) rows) is) = Ok secret"
proof -
  note raw = gf256_split_raw [OF rows]
  show len: "length rows = n"
    using split_lib_okD(2) [OF S raw] by (simp add: gf256_sharing_def)
  assume chosen: "chosen t n is"
  then have "gf256_combine_array S (map ((!) (map (\<lambda>(i, v). i # v) rows)) is) = Ok secret"
    using split_lib_okD(2) [OF S raw] by (simp add: gf256_sharing_def)
  then show "gf256_combine S (map ((!) rows) is) = Ok secret"
    using chosenD [OF chosen] map_nth_map [of "is" rows "\<lambda>(i, v). i # v"]
    by (simp add: gf256_combine_def len del: map_map)
qed

lemma collect_all_Ok: "(\<And>x. x \<in> set xs \<Longrightarrow> f x = Ok x) \<Longrightarrow> collect f xs = Ok xs"
  using collect_map_Ok [of xs f "\<lambda>x. x"] by simp

text \<open>Every share of an elliptic curve sharing passes its check, and enough of them recombine.\<close>

lemma curve_roundtrip:
  assumes S: "split_lib_ok S" and split: "curve_split S cv s t n = Ok (ps, vs)"
  shows "length ps = n"
    and "(i, v) \<in> set ps \<Longrightarrow> curve_verify S cv i v vs = Ok ()"
    and "chosen t n is \<Longrightarrow> curve_combine S cv (map ((!) ps) is) = Ok s"
proof -
  have lib: "feldman_split S cv s t n = Ok (ps, vs)"
    using split by (simp add: curve_split_def outcome_simps)
  have shares: "length ps = n"
    "\<forall>(i, v) \<in> set ps. length i = scalar_len S cv \<and> scalar_canonical S cv i
       \<and> length v = scalar_len S cv \<and> scalar_canonical S cv v \<and> feldman_verify S cv i v vs"
    "\<forall>b \<in> set vs. length b = verifier_len S cv \<and> verifier_valid S cv b"
    "\<forall>is. chosen t n is \<longrightarrow> feldman_combine S cv (map ((!) ps) is) = Ok s"
    using split_lib_okD(1) [OF S lib] by (simp_all add: feldman_sharing_def)
  show "length ps = n" by (rule shares(1))
  show "curve_verify S cv i v vs = Ok ()" if "(i, v) \<in> set ps"
  proof -
    have "collect (\<lambda>b. if length b \<noteq> verifier_len S cv then Err (KeySplit ''bad verifier length'')
        else if verifier_valid S cv b then Ok b else Err (KeySplit ''bad verifier'')) vs = Ok vs"
      using shares(3) by (intro collect_all_Ok) auto
    moreover have "scalar S cv i = Ok i" "scalar S cv v = Ok v" "feldman_verify S cv i v vs"
      using shares(2) that by (auto simp: scalar_def)
    ultimately show ?thesis
      unfolding curve_verify_def by (simp only: and_then.simps ensure_True)
  qed
  show "curve_combine S cv (map ((!) ps) is) = Ok s" if chosen: "chosen t n is"
  proof -
    have "collect (\<lambda>(i, v). and_then (scalar S cv i) (\<lambda>i. and_then (scalar S cv v) (\<lambda>v. Ok (i, v))))
        (map ((!) ps) is) = Ok (map ((!) ps) is)"
    proof (rule collect_all_Ok)
      fix x assume "x \<in> set (map ((!) ps) is)"
      then have "x \<in> set ps"
        using set_map_nth [of "is" ps] chosenD [OF chosen] shares(1) by auto
      then show "(case x of (i, v) \<Rightarrow>
          and_then (scalar S cv i) (\<lambda>i. and_then (scalar S cv v) (\<lambda>v. Ok (i, v)))) = Ok x"
        using shares(2) by (auto simp: scalar_def)
    qed
    then show ?thesis
      using shares(4) chosen by (simp add: curve_combine_def)
  qed
qed

lemma ecc_roundtrip:
  assumes S: "split_lib_ok S" and split: "ecc_split F S c secret t n = Ok (ps, vs)"
  shows "length ps = n"
    and "(i, v) \<in> set ps \<Longrightarrow> ecc_verify F S c i v vs = Ok ()"
    and "c \<noteq> Ed25519 Priv \<Longrightarrow> c \<noteq> X25519 Priv \<Longrightarrow> chosen t n is \<Longrightarrow>
         ecc_combine F S c (map ((!) ps) is) = Ok secret"
proof -
  obtain cv where cv: "curve_of F c = Some cv"
    using split by (auto simp: ecc_split_def split: option.splits)
  obtain s where sec: "(if is_bls_curve cv then bls_scalar_from_be S cv secret
      else if cv = C25519 then wrapped_from_seed S secret else scalar S cv secret) = Ok s"
    and cs: "curve_split S cv s t n = Ok (ps, vs)"
    using split cv by (auto simp: ecc_split_def and_then_eq_Ok)
  show "length ps = n"
    by (rule curve_roundtrip [OF S cs])
  show "ecc_verify F S c i v vs = Ok ()" if "(i, v) \<in> set ps"
    using curve_roundtrip(2) [OF S cs that] cv by (simp add: ecc_verify_def)
  show "ecc_combine F S c (map ((!) ps) is) = Ok secret"
    if "c \<noteq> Ed25519 Priv" and "c \<noteq> X25519 Priv" and chosen: "chosen t n is"
  proof -
    have "cv \<noteq> C25519"
      using cv that(1,2) by (auto simp: curve_of_def split: if_splits)
    then have "s = (if is_bls_curve cv then rev secret else secret)"
      using sec by (auto simp: bls_scalar_from_be_def scalar_def split: if_splits)
    then show ?thesis
      using curve_roundtrip(3) [OF S cs chosen] cv by (simp add: ecc_combine_def bls_to_be_def)
  qed
qed

section \<open>Payloads of one key\<close>

text \<open>All payloads of one split describe the same key, and the position of a share fixes it.\<close>

definition payloads_of :: "wire \<Rightarrow> codec \<Rightarrow> nat \<Rightarrow> share_payload list \<Rightarrow> bool" where
  "payloads_of W c n ps \<longleftrightarrow>
     length ps = n \<and> (\<forall>p \<in> set ps. sp_codec p = codec_code W c) \<and>
     (\<exists>sch. \<forall>p \<in> set ps. sp_scheme p = sch)"

lemma build_payloads_cases:
  assumes "build_payloads F W S c secret t n = Ok ps"
  obtains (dual) seed eps vs where "c = Ed25519 Priv \<or> c = X25519 Priv"
      "gf256_split S secret t n = Ok seed" "ecc_split F S c secret t n = Ok (eps, vs)"
      "ps = map (\<lambda>((i, v), (fi, fv)).
          \<lparr>sp_codec = codec_code W c, sp_threshold = of_nat t, sp_limit = of_nat n, sp_scheme = Gf256,
           sp_identifier = [i], sp_value = v, sp_verifiers = None,
           sp_dual = Some \<lparr>dp_identifier = fi, dp_value = fv, dp_verifiers = vs\<rparr>\<rparr>) (zip seed eps)"
  | (feldman) eps vs where "c \<noteq> Ed25519 Priv" "c \<noteq> X25519 Priv"
      "ecc_split F S c secret t n = Ok (eps, vs)"
      "ps = map (\<lambda>(i, v).
          \<lparr>sp_codec = codec_code W c, sp_threshold = of_nat t, sp_limit = of_nat n, sp_scheme = Feldman,
           sp_identifier = i, sp_value = v, sp_verifiers = Some vs, sp_dual = None\<rparr>) eps"
  | (gf256) rows where "\<not> is_feldman_codec c" "gf256_split S secret t n = Ok rows"
      "ps = map (\<lambda>(i, v).
          \<lparr>sp_codec = codec_code W c, sp_threshold = of_nat t, sp_limit = of_nat n, sp_scheme = Gf256,
           sp_identifier = [i], sp_value = v, sp_verifiers = None, sp_dual = None\<rparr>) rows"
  using assms unfolding build_payloads_def Let_def
  by (auto simp: outcome_simps split: if_splits)

lemma build_payloads_wf:
  assumes S: "split_lib_ok S" and ps: "build_payloads F W S c secret t n = Ok ps"
  shows "payloads_of W c n ps"
    and "p \<in> set ps \<Longrightarrow> check_payload F S c (sp_scheme p) p = Ok ()"
proof -
  have "payloads_of W c n ps \<and> (\<forall>p \<in> set ps. check_payload F S c (sp_scheme p) p = Ok ())"
    using ps
  proof (cases rule: build_payloads_cases)
    case (dual seed eps vs)
    have "length seed = n" "length eps = n"
      using gf256_roundtrip(1) [OF S dual(2)] ecc_roundtrip(1) [OF S dual(3)] .
    moreover have "\<forall>(i, v) \<in> set eps. ecc_verify F S c i v vs = Ok ()"
      using ecc_roundtrip(2) [OF S dual(3)] by blast
    ultimately show ?thesis
      unfolding dual(4) payloads_of_def check_payload_def
      by (auto dest!: set_zip_rightD)
  next
    case (feldman eps vs)
    have "length eps = n"
      by (rule ecc_roundtrip(1) [OF S feldman(3)])
    moreover have "\<forall>(i, v) \<in> set eps. ecc_verify F S c i v vs = Ok ()"
      using ecc_roundtrip(2) [OF S feldman(3)] by blast
    ultimately show ?thesis
      unfolding feldman(4) payloads_of_def check_payload_def by auto
  next
    case (gf256 rows)
    have "length rows = n"
      by (rule gf256_roundtrip(1) [OF S gf256(2)])
    then show ?thesis
      unfolding gf256(3) payloads_of_def check_payload_def by auto
  qed
  then show "payloads_of W c n ps" and "p \<in> set ps \<Longrightarrow> check_payload F S c (sp_scheme p) p = Ok ()"
    by blast+
qed


lemma chosen_in_set: "chosen t n is \<Longrightarrow> length xs = n \<Longrightarrow> x \<in> set (map ((!) xs) is) \<Longrightarrow> x \<in> set xs"
  by (auto simp: chosen_def)

lemma checks_of_chosen:
  assumes "chosen t n is" and "length ps = n"
    and "\<And>p. p \<in> set ps \<Longrightarrow> check_payload F S c sch p = Ok ()"
  shows "check_all (check_payload F S c sch) (map ((!) ps) is) = Ok ()"
  using assms chosen_in_set [OF assms(1,2)] unfolding check_all_eq_Ok by blast

text \<open>Enough payloads of one split recombine to the secret, in all three schemes.\<close>

lemma gf256_payloads_combine:
  assumes S: "split_lib_ok S" and rows: "gf256_split S secret t n = Ok rows"
    and chosen: "chosen t n is" and ps: "length ps = n"
    and check: "\<And>p. p \<in> set ps \<Longrightarrow> check_payload F S c Gf256 p = Ok ()"
    and row: "\<And>j. j < n \<Longrightarrow> sp_identifier (ps ! j) = [fst (rows ! j)] \<and> sp_value (ps ! j) = snd (rows ! j)"
  shows "combine_payloads F S c Gf256 (map ((!) ps) is) = Ok secret"
proof -
  let ?f = "\<lambda>p. case sp_identifier p of
      [] \<Rightarrow> Err (KeySplit ''bad gf256 id'') | i # _ \<Rightarrow> Ok (i, sp_value p)"
  have "collect ?f (map ((!) ps) is) = Ok (map ((!) rows) is)"
    using chosenD [OF chosen] row
    by (auto simp: collect_eq_Ok list_all2_conv_all_nth subset_iff)
  then show ?thesis
    using checks_of_chosen [OF chosen ps check] gf256_roundtrip(2) [OF S rows chosen]
    by (simp add: combine_payloads_def)
qed

lemma payloads_combine:
  assumes S: "split_lib_ok S" and ps: "build_payloads F W S c secret t n = Ok ps"
    and chosen: "chosen t n is" and sch: "\<And>p. p \<in> set ps \<Longrightarrow> sp_scheme p = sch"
    and n: "0 < n"
  shows "combine_payloads F S c sch (map ((!) ps) is) = Ok secret"
proof -
  have len: "length ps = n" and check: "\<And>p. p \<in> set ps \<Longrightarrow> check_payload F S c sch p = Ok ()"
    using build_payloads_wf [OF S ps] sch by (auto simp: payloads_of_def)
  have first: "sch = sp_scheme (ps ! 0)"
    using sch n len by auto
  show ?thesis
    using ps
  proof (cases rule: build_payloads_cases)
    case (dual seed eps vs)
    have seed: "length seed = n" "length eps = n"
      using gf256_roundtrip(1) [OF S dual(2)] ecc_roundtrip(1) [OF S dual(3)] .
    then have "sch = Gf256"
      using first n dual(4) by (simp split: prod.splits)
    then show ?thesis
      using gf256_payloads_combine [OF S dual(2) chosen len] check seed dual(4)
      by (simp split: prod.splits)
  next
    case (feldman eps vs)
    have eps: "length eps = n"
      by (rule ecc_roundtrip(1) [OF S feldman(3)])
    then have "sch = Feldman"
      using first n feldman(4) by (simp split: prod.splits)
    moreover have "map (\<lambda>p. (sp_identifier p, sp_value p)) (map ((!) ps) is) = map ((!) eps) is"
      using chosenD [OF chosen] eps feldman(4) by (auto simp: subset_iff split: prod.splits)
    ultimately show ?thesis
      using checks_of_chosen [OF chosen len check] ecc_roundtrip(3) [OF S feldman(3,1,2) chosen]
      by (simp add: combine_payloads_def del: map_map)
  next
    case (gf256 rows)
    have rows: "length rows = n"
      by (rule gf256_roundtrip(1) [OF S gf256(2)])
    then have "sch = Gf256"
      using first n gf256(3) by (simp split: prod.splits)
    then show ?thesis
      using gf256_payloads_combine [OF S gf256(2) chosen len] check rows gf256(3)
      by (simp split: prod.splits)
  qed
qed

lemma wrap_unwrap: "split_lib_ok S \<Longrightarrow> wrap_share S k p = Ok sh \<Longrightarrow> unwrap_share S sh = Ok p"
  by (auto simp: wrap_share_def unwrap_share_def cbor_to_vec_def cbor_from_slice_def outcome_simps
      get_attr_def dest: split_lib_okD(3))

lemma split_key_eq_Ok:
  "split_key F W S k t n = Ok shares \<longleftrightarrow>
   (\<exists>secret ps. 2 \<le> t \<and> t \<le> n \<and> n \<le> 255 \<and> and_then (data_view F W k) secret_bytes = Ok secret \<and>
      build_payloads F W S (mk_codec k) secret t n = Ok ps \<and> collect (wrap_share S k) ps = Ok shares)"
  unfolding split_key_def by (auto simp: and_then_eq_Ok not_less split: if_splits)

lemma shares_combine:
  assumes S: "split_lib_ok S" and W: "wire_ok W" and split: "split_key F W S k t n = Ok shares"
    and chosen: "chosen t n is"
  shows "\<exists>secret. mk_attributes k KeyData = Some secret \<and>
    combine_shares F W S (map ((!) shares) is) =
      Ok \<lparr>mk_codec = mk_codec k, mk_comment = [], mk_attributes = attr_insert KeyData secret Map.empty\<rparr>"
proof -
  obtain secret ps where t: "2 \<le> t" "t \<le> n"
    and secret: "and_then (data_view F W k) secret_bytes = Ok secret"
    and ps: "build_payloads F W S (mk_codec k) secret t n = Ok ps"
    and shares: "collect (wrap_share S k) ps = Ok shares"
    using split by (auto simp: split_key_eq_Ok)
  note wf = build_payloads_wf(1) [OF S ps, unfolded payloads_of_def]
  then obtain sch where len: "length ps = n" and sch: "\<And>p. p \<in> set ps \<Longrightarrow> sp_scheme p = sch"
    by blast
  have nonempty: "is \<noteq> []"
    using chosen t by (auto simp: chosen_def)
  let ?qs = "map ((!) ps) is"
  have qs: "sp_codec p = codec_code W (mk_codec k)" "sp_scheme p = sch" if "p \<in> set ?qs" for p
    using chosen_in_set [OF chosen len that] wf sch by auto
  have "unwrap_share S (shares ! j) = Ok (ps ! j)" if "j < n" for j
    using shares that len wrap_unwrap [OF S] by (auto simp: collect_eq_Ok list_all2_conv_all_nth)
  then have unwrap: "collect (unwrap_share S) (map ((!) shares) is) = Ok ?qs"
    using chosenD [OF chosen] by (auto simp: collect_eq_Ok list_all2_conv_all_nth subset_iff)
  have hd: "hd ?qs \<in> set ?qs"
    using nonempty by (intro hd_in_set) simp
  have "combine_shares F W S (map ((!) shares) is) =
      Ok (built_key (with_key_bytes (builder_new (mk_codec k)) secret))"
    using unwrap qs qs(1,2) [OF hd] payloads_combine [OF S ps chosen sch] t nonempty
      wire_ok_codec_of_code [OF W]
    by (simp add: combine_shares_def Let_def del: set_map)
  moreover have "mk_attributes k KeyData = Some secret"
    using secret by (auto simp: and_then_eq_Ok data_view_def dest: secret_bytes_view_methods)
  ultimately show ?thesis
    by (simp add: built_key_defs)
qed


lemma combine_checks_all:
  assumes "combine_shares F W S shares = Ok k" and "share \<in> set shares"
  shows "verify_share F W S share = Ok ()"
proof -
  obtain ps c secret where ps: "collect (unwrap_share S) shares = Ok ps"
    and same: "\<forall>p \<in> set ps. sp_codec p = sp_codec (hd ps) \<and> sp_scheme p = sp_scheme (hd ps)"
    and c: "codec_of_code W (sp_codec (hd ps)) = Ok c"
    and comb: "combine_payloads F S c (sp_scheme (hd ps)) ps = Ok secret"
    using assms(1) by (auto simp: combine_shares_def Let_def outcome_simps split: if_splits)
  obtain p where p: "p \<in> set ps" "unwrap_share S share = Ok p"
    using ps assms(2) by (fastforce simp: collect_eq_Ok list_all2_conv_all_nth in_set_conv_nth)
  have "check_all (check_payload F S c (sp_scheme (hd ps))) ps = Ok ()"
    using comb by (auto simp: combine_payloads_def and_then_eq_Ok split: scheme.splits)
  then have "check_payload F S c (sp_scheme p) p = Ok ()"
    using p(1) same by (simp add: check_all_eq_Ok)
  then show ?thesis
    using p same c by (simp add: verify_share_def)
qed

text \<open>Two payloads that agree on everything but the threshold and the limit they claim.\<close>

definition same_but_threshold :: "share_payload \<Rightarrow> share_payload \<Rightarrow> bool" where
  "same_but_threshold p p' \<longleftrightarrow>
     sp_codec p' = sp_codec p \<and> sp_scheme p' = sp_scheme p \<and> sp_identifier p' = sp_identifier p
   \<and> sp_value p' = sp_value p \<and> sp_verifiers p' = sp_verifiers p \<and> sp_dual p' = sp_dual p"

lemma combine_payloads_cong:
  assumes "list_all2 same_but_threshold ps ps'"
  shows "combine_payloads F S c sch ps' = combine_payloads F S c sch ps"
proof -
  have check: "check_payload F S c sch p' = check_payload F S c sch p" if "same_but_threshold p p'" for p p' sch
    using that by (cases sch; cases "sp_dual p") (simp_all add: check_payload_def same_but_threshold_def)
  have checks: "check_all (check_payload F S c sch) ps' = check_all (check_payload F S c sch) ps" for sch
    using assms by (induction rule: list_all2_induct) (simp_all add: check)
  have "map (\<lambda>p. (sp_identifier p, sp_value p)) ps' = map (\<lambda>p. (sp_identifier p, sp_value p)) ps"
    using assms by (induction rule: list_all2_induct) (simp_all add: same_but_threshold_def)
  moreover have "collect (\<lambda>p. case sp_identifier p of
        [] \<Rightarrow> Err (KeySplit ''bad gf256 id'') | i # _ \<Rightarrow> Ok (i, sp_value p)) ps' =
      collect (\<lambda>p. case sp_identifier p of
        [] \<Rightarrow> Err (KeySplit ''bad gf256 id'') | i # _ \<Rightarrow> Ok (i, sp_value p)) ps"
    using assms
    by (induction rule: list_all2_induct) (auto simp: same_but_threshold_def split: list.splits)
  ultimately show ?thesis
    by (cases sch) (simp_all add: combine_payloads_def checks)
qed

section \<open>An example\<close>

definition example_signing_key :: multikey where
  "example_signing_key = \<lparr>mk_codec = MlDsa Ml65 SPriv, mk_comment = [],
     mk_attributes = attr_insert KeyData [7] Map.empty\<rparr>"

definition toy_payload :: "byte \<Rightarrow> share_payload" where
  "toy_payload i = \<lparr>sp_codec = codec_code leb_wire (MlDsa Ml65 SPriv), sp_threshold = 2, sp_limit = 3,
     sp_scheme = Gf256, sp_identifier = [i], sp_value = [7], sp_verifiers = None, sp_dual = None\<rparr>"

definition toy_split :: split_lib where
  "toy_split =
     \<lparr>scalar_len = \<lambda>c. 32, scalar_canonical = \<lambda>c b. True, scalar_mod_order = \<lambda>b. b,
      verifier_len = \<lambda>c. 1, verifier_valid = \<lambda>c b. True,
      feldman_split = \<lambda>c s t n. if 0 < t \<and> length s = 32 then Ok (replicate n (s, s), [[1]]) else Err ''bad'',
      feldman_combine = \<lambda>c ps. case ps of [] \<Rightarrow> Err ''none'' | p # _ \<Rightarrow> Ok (snd p),
      feldman_verify = \<lambda>c i v vs. True,
      gf256_split_array = \<lambda>t n secret.
        if 0 < t then Ok (map (\<lambda>j. of_nat (Suc j) # secret) [0..<n]) else Err ''bad'',
      gf256_combine_array = \<lambda>rows. case rows of [] \<Rightarrow> Err ''none'' | r # _ \<Rightarrow> Ok (tl r),
      cbor_encode = \<lambda>p. if p = toy_payload (hd (sp_identifier p)) then Ok [hd (sp_identifier p)] else Err ''bad'',
      cbor_decode = \<lambda>bs. Ok (toy_payload (hd bs))\<rparr>"

lemma chosen_Cons: "chosen t n is \<Longrightarrow> 0 < t \<Longrightarrow> \<exists>j js. is = j # js \<and> j < n"
  by (cases "is") (auto simp: chosen_def)

lemma toy_split_ok: "split_lib_ok toy_split"
  unfolding split_lib_ok_def feldman_sharing_def gf256_sharing_def
  by (auto simp: toy_split_def split: if_splits dest!: chosen_Cons)

definition toy_share :: "byte \<Rightarrow> multikey" where
  "toy_share i = \<lparr>mk_codec = KeySplitShare, mk_comment = [], mk_attributes = attr_insert KeyData [i] Map.empty\<rparr>"

lemma example_split:
  "split_key {FMlDsa} leb_wire toy_split example_signing_key 2 3 = Ok [toy_share 1, toy_share 2, toy_share 3]"
  by (simp add: split_key_def data_view_def dispatch_data_view_def example_signing_key_def arm_def
      spart_key_def ml_dsa_view_def plain_view_def is_ml_dsa_priv_def key_data_def get_attr_def
      build_payloads_def Let_def is_feldman_codec_def gf256_split_def toy_split_def
      wrap_share_def cbor_to_vec_def toy_payload_def toy_share_def upt_conv_Cons)

section \<open>Properties\<close>

text \<open>
  C11: Any threshold-many shares of a key, in any order, recombine to that key: same codec and same
  key bytes, for all three sharing schemes. The comment of the key is not restored.
\<close>

theorem split_then_combine:
  assumes "split_lib_ok S" and "wire_ok W" and "split_key F W S k t n = Ok shares" and "chosen t n is"
  shows "\<exists>secret. mk_attributes k KeyData = Some secret \<and>
    combine_shares F W S (map ((!) shares) is) =
      Ok \<lparr>mk_codec = mk_codec k, mk_comment = [], mk_attributes = attr_insert KeyData secret Map.empty\<rparr>"
  using assms by (rule shares_combine)

theorem split_then_combine_witness:
  "combine_shares {FMlDsa} leb_wire toy_split [toy_share 3, toy_share 1] = Ok example_signing_key"
  using split_then_combine [OF toy_split_ok leb_wire_ok example_split, of "[2, 0]"]
  by (simp add: chosen_def example_signing_key_def)

text \<open>
  C25: A split has exactly as many shares as asked for, is refused outside \<open>2 \<le> t \<le> n \<le> 255\<close>, and
  every share it returns is a key-split share with the comment of the key that passes verification.
\<close>

theorem split_shares_verify:
  assumes "split_lib_ok S" and "wire_ok W" and "split_key F W S k t n = Ok shares"
  shows "2 \<le> t \<and> t \<le> n \<and> n \<le> 255 \<and> length shares = n
    \<and> (\<forall>share \<in> set shares. mk_codec share = KeySplitShare \<and> mk_comment share = mk_comment k
        \<and> verify_share F W S share = Ok ())"
proof -
  obtain secret ps where t: "2 \<le> t" "t \<le> n" "n \<le> 255"
    and ps: "build_payloads F W S (mk_codec k) secret t n = Ok ps"
    and shares: "collect (wrap_share S k) ps = Ok shares"
    using assms(3) by (auto simp: split_key_eq_Ok)
  note wf = build_payloads_wf [OF assms(1) ps]
  have "mk_codec share = KeySplitShare \<and> mk_comment share = mk_comment k
      \<and> verify_share F W S share = Ok ()" if share: "share \<in> set shares" for share
  proof -
    obtain p where p: "p \<in> set ps" and wrap: "wrap_share S k p = Ok share"
      using collect_set_Ok [OF shares share] by blast
    have "codec_of_code W (sp_codec p) = Ok (mk_codec k)"
      using wf(1) p wire_ok_codec_of_code [OF assms(2)] by (simp add: payloads_of_def)
    then show ?thesis
      using wrap wrap_unwrap [OF assms(1) wrap] wf(2) [OF p]
      by (auto simp: verify_share_def wrap_share_def outcome_simps)
  qed
  moreover have "length shares = n"
    using collect_length [OF shares] wf(1) by (simp add: payloads_of_def)
  ultimately show ?thesis
    using t by blast
qed

theorem split_shares_verify_witness:
  "verify_share {FMlDsa} leb_wire toy_split (toy_share 3) = Ok () \<and> mk_codec (toy_share 3) = KeySplitShare"
  using split_shares_verify [OF toy_split_ok leb_wire_ok example_split] by simp

text \<open>
  C30: When shares were combined, every one of them passes verification on its own: one bad share
  makes the whole combination fail.
\<close>

theorem combined_shares_verified:
  assumes "combine_shares F W S shares = Ok k" and "share \<in> set shares"
  shows "verify_share F W S share = Ok ()"
  using assms by (rule combine_checks_all)

theorem combined_shares_verified_witness:
  "verify_share {FMlDsa} leb_wire toy_split (toy_share 1) = Ok ()"
proof -
  have "\<exists>k. combine_shares {FMlDsa} leb_wire toy_split [toy_share 3, toy_share 1] = Ok k"
    using shares_combine [OF toy_split_ok leb_wire_ok example_split, of "[2, 0]"]
    by (auto simp: chosen_def)
  then show ?thesis
    using combined_shares_verified [of "{FMlDsa}" leb_wire toy_split "[toy_share 3, toy_share 1]" _ "toy_share 1"]
    by auto
qed

text \<open>
  Recombination ignores the threshold that the shares carry: shares that differ only in their
  threshold and limit combine to the same result, so that fewer shares than the threshold, or shares
  that disagree on it, are not refused by this code.
\<close>

theorem combine_ignores_threshold:
  assumes "collect (unwrap_share S) shares = Ok ps" and "collect (unwrap_share S) shares' = Ok ps'"
    and "list_all2 same_but_threshold ps ps'"
  shows "combine_shares F W S shares' = combine_shares F W S shares"
proof -
  have maps: "map sp_codec ps' = map sp_codec ps" "map sp_scheme ps' = map sp_scheme ps"
    using assms(3) by (induction rule: list_all2_induct) (simp_all add: same_but_threshold_def)
  have len: "length shares = length ps" "length shares' = length ps'" "length ps = length ps'"
    using collect_length [OF assms(1)] collect_length [OF assms(2)] list_all2_lengthD [OF assms(3)] by simp_all
  show ?thesis
  proof (cases ps)
    case Nil
    then show ?thesis
      using len by (simp add: combine_shares_def)
  next
    case (Cons p qs)
    then obtain p' qs' where ps': "ps' = p' # qs'"
      using len by (cases ps') auto
    have heads: "sp_codec (hd ps') = sp_codec (hd ps)" "sp_scheme (hd ps') = sp_scheme (hd ps)"
      using maps Cons ps' by simp_all
    have nonempty: "(shares = []) = False" "(shares' = []) = False"
      using len Cons ps' by auto
    have ex: "(\<exists>p \<in> set ps'. sp_codec p \<noteq> a \<or> sp_scheme p \<noteq> b) = (\<exists>p \<in> set ps. sp_codec p \<noteq> a \<or> sp_scheme p \<noteq> b)" for a b
      using assms(3) by (induction rule: list_all2_induct) (simp_all add: same_but_threshold_def)
    show ?thesis
      unfolding combine_shares_def assms(1,2) and_then.simps Let_def nonempty if_False heads ex
        combine_payloads_cong [OF assms(3)] by (rule refl)
  qed
qed


theorem combine_ignores_threshold_witness:
  "combine_shares {FMlDsa} leb_wire (toy_split\<lparr>cbor_decode := \<lambda>bs. Ok ((toy_payload (hd bs))\<lparr>sp_threshold := of_nat (length bs)\<rparr>)\<rparr>)
     [toy_share 1] =
   combine_shares {FMlDsa} leb_wire (toy_split\<lparr>cbor_decode := \<lambda>bs. Ok ((toy_payload (hd bs))\<lparr>sp_threshold := of_nat (length bs)\<rparr>)\<rparr>)
     [(toy_share 1)\<lparr>mk_attributes := attr_insert KeyData [1, 1, 1, 1, 1] Map.empty\<rparr>]"
  by (rule combine_ignores_threshold [where ps = "[(toy_payload 1)\<lparr>sp_threshold := 5\<rparr>]"
        and ps' = "[(toy_payload 1)\<lparr>sp_threshold := 1\<rparr>]"])
     (simp_all add: unwrap_share_def toy_share_def get_attr_def cbor_from_slice_def same_but_threshold_def)

end
