(* ===== verification/Mk_Threshold.thy ===== *)
theory Mk_Threshold
  imports Mk_ThresholdMeta Mk_KeySplit
begin

text \<open>
  Threshold keys (\<^verbatim>\<open>src/views/bls12381.rs\<close>, \<^verbatim>\<open>src/views/dkg_threshold.rs\<close>): a BLS secret key is split
  into share keys; shares are collected one by one in the threshold data of a key without key bytes
  and combined when there are enough. The threshold data is the encoding of an ordered map; what it
  stands for is the map from identifiers to shares, and every operation refines an operation on
  that map. The multikey builder collects its pending shares here (\<^verbatim>\<open>Builder::try_build\<close>,
  \<^verbatim>\<open>src/mk.rs\<close>). The BLS arithmetic (\<^verbatim>\<open>blsful\<close>) is a parameter.
\<close>

section \<open>The external functions\<close>

text \<open>A scalar is kept as its 32 canonical big-endian bytes (\<^verbatim>\<open>blsful::SECRET_KEY_BYTES\<close>).\<close>

record bls_lib =
  bls_canonical :: "bytes \<Rightarrow> bool"                 \<comment> \<open>\<^verbatim>\<open>Scalar::from_be_bytes\<close> is some\<close>
  bls_before :: "bytes \<Rightarrow> bytes \<Rightarrow> bool"           \<comment> \<open>\<^verbatim>\<open>Ord\<close> of the identifiers\<close>
  bls_secret :: "bls_group \<Rightarrow> bytes \<Rightarrow> bool"       \<comment> \<open>\<^verbatim>\<open>SecretKey::from_be_bytes\<close> is some\<close>
  bls_public :: "bls_group \<Rightarrow> bytes \<Rightarrow> bytes"
  bls_share_public :: "bls_group \<Rightarrow> bytes \<Rightarrow> bytes \<Rightarrow> (string, bytes \<times> bytes) outcome"
    \<comment> \<open>identifier, value; identifier and point of the public share\<close>
  bls_split :: "bls_group \<Rightarrow> bytes \<Rightarrow> nat \<Rightarrow> nat \<Rightarrow> (lib_error, (bytes \<times> bytes) list) outcome"
  bls_combine :: "bls_group \<Rightarrow> (bytes \<times> bytes) list \<Rightarrow> (string, bytes) outcome"
  get_array32 :: "bytes \<Rightarrow> (lib_error, bytes \<times> bytes) outcome" \<comment> \<open>\<^verbatim>\<open>Varuint::<[u8; 32]>\<close>\<close>
  error_text :: "error \<Rightarrow> string"
  codec_text :: "codec \<Rightarrow> string"

definition SECRET_KEY_BYTES :: nat where "SECRET_KEY_BYTES = 32"

section \<open>Scalars and secret keys\<close>

definition bytes_to_identifier :: "bls_lib \<Rightarrow> bytes \<Rightarrow> bytes res" where
  "bytes_to_identifier B bs =
     (if length bs \<noteq> SECRET_KEY_BYTES
      then Err (Conversions (CvSecretKeyFailure ''Invalid share identifier length''))
      else if bls_canonical B bs then Ok bs
      else Err (Conversions (CvSecretKeyFailure ''Invalid share identifier bytes'')))"

definition bytes_to_value :: "bls_lib \<Rightarrow> bytes \<Rightarrow> bytes res" where
  "bytes_to_value B bs =
     (if length bs \<noteq> SECRET_KEY_BYTES
      then Err (Conversions (CvSecretKeyFailure ''Invalid share value length''))
      else if bls_canonical B bs then Ok bs
      else Err (Conversions (CvSecretKeyFailure ''Invalid share value bytes'')))"

text \<open>\<^verbatim>\<open>secret_bytes.as_slice()[..SECRET_KEY_BYTES]\<close> panics when the key data is shorter.\<close>

definition bls_secret_key :: "bls_lib \<Rightarrow> bls_group \<Rightarrow> bytes \<Rightarrow> bytes res" where
  "bls_secret_key B g secret =
     (if length secret < SECRET_KEY_BYTES then Panic
      else if bls_secret B g (take SECRET_KEY_BYTES secret) then Ok (take SECRET_KEY_BYTES secret)
      else Err (Conversions (CvSecretKeyFailure ''failed to create secret key'')))"

section \<open>Threshold attributes\<close>

record threshold_view =
  ta_threshold :: "nat res"
  ta_limit :: "nat res"
  ta_identifier :: "bytes res"
  ta_data :: "bytes res"

definition usize_attr :: "wire \<Rightarrow> error \<Rightarrow> bytes option \<Rightarrow> nat res" where
  "usize_attr W missing v =
     and_then (ok_or missing v) (\<lambda>bs. map_err Multiutil (usize_of W bs))"

definition bls_threshold_view :: "wire \<Rightarrow> multikey \<Rightarrow> threshold_view" where
  "bls_threshold_view W k =
     \<lparr>ta_threshold = usize_attr W (Attributes AMissingThreshold) (get_attr k Threshold),
      ta_limit = usize_attr W (Attributes AMissingLimit) (get_attr k Limit),
      ta_identifier = ok_or (Attributes AMissingShareIdentifier) (get_attr k ShareIdentifier),
      ta_data = ok_or (Attributes AMissingThresholdData) (get_attr k ThresholdData)\<rparr>"

text \<open>A DKG share stores its parameters as two little-endian bytes.\<close>

definition le16_attr :: "error \<Rightarrow> bytes option \<Rightarrow> nat res" where
  "le16_attr missing v =
     and_then (ok_or missing v) (\<lambda>bs.
     if length bs < 2 then Err missing else Ok (unat (bs ! 0) + 256 * unat (bs ! 1)))"

definition dkg_threshold_view :: "multikey \<Rightarrow> threshold_view" where
  "dkg_threshold_view k =
     \<lparr>ta_threshold = le16_attr (Attributes AMissingThreshold) (get_attr k DkgThreshold),
      ta_limit = le16_attr (Attributes AMissingLimit) (get_attr k DkgLimit),
      ta_identifier = ok_or (Attributes AMissingShareIdentifier) (get_attr k DkgIdentifier),
      ta_data = ok_or (Attributes AMissingThresholdData) (get_attr k DkgGroupPublicKey)\<rparr>"

fun threshold_attrs :: "wire \<Rightarrow> threshold_attr_impl \<Rightarrow> multikey \<Rightarrow> threshold_view" where
  "threshold_attrs W TABls12381 k = bls_threshold_view W k"
| "threshold_attrs W TADkg k = dkg_threshold_view k"

definition threshold_attr_view :: "features \<Rightarrow> wire \<Rightarrow> multikey \<Rightarrow> threshold_view res" where
  "threshold_attr_view F W k =
     and_then (dispatch_threshold_attr_view F k) (\<lambda>v. Ok (threshold_attrs W v k))"

text \<open>\<^verbatim>\<open>ThresholdKeyView\<close>, which only DKG shares have.\<close>

record threshold_key_view =
  tk_group_pubkey :: "bytes res"
  tk_is_threshold_key :: bool
  tk_participant_count :: "nat res"
  tk_threshold :: "nat res"
  tk_owner_vlad :: "bytes res"

definition dkg_key_view :: "multikey \<Rightarrow> threshold_key_view" where
  "dkg_key_view k =
     \<lparr>tk_group_pubkey = ok_or (Attributes AMissingThresholdData) (get_attr k DkgGroupPublicKey),
      tk_is_threshold_key = True,
      tk_participant_count = le16_attr (Attributes AMissingLimit) (get_attr k DkgLimit),
      tk_threshold = le16_attr (Attributes AMissingThreshold) (get_attr k DkgThreshold),
      tk_owner_vlad = ok_or (Attributes AMissingShareIdentifier) (get_attr k DkgOwnerId)\<rparr>"

text \<open>
  A DKG share is a secret share whatever its codec; only the encryption flag is read. The four answers
  of its \<^verbatim>\<open>AttrView\<close>: encrypted, secret key, public key, secret key share.
\<close>

definition dkg_attr_flags :: "wire \<Rightarrow> multikey \<Rightarrow> bool \<times> bool \<times> bool \<times> bool" where
  "dkg_attr_flags W k = (encrypted_flag W k, True, False, True)"

section \<open>Key shares and threshold data on the wire\<close>

record key_share =
  ks_identifier :: bytes
  ks_threshold :: nat
  ks_limit :: nat
  ks_value :: bytes

definition key_share_encode :: "wire \<Rightarrow> key_share \<Rightarrow> bytes" where
  "key_share_encode W s =
     (let v = ks_identifier s;
          v = v @ put_uint W (ks_threshold s);
          v = v @ put_uint W (ks_limit s)
      in encode_varbytes_into W v (ks_value s))"

definition key_share_decode :: "wire \<Rightarrow> bls_lib \<Rightarrow> bytes \<Rightarrow> (key_share \<times> bytes) res" where
  "key_share_decode W B bs =
     and_then (map_err Multiutil (get_array32 B bs)) (\<lambda>(id_bytes, p).
     and_then (bytes_to_identifier B id_bytes) (\<lambda>ident.
     and_then (map_err Multiutil (get_usize W p)) (\<lambda>(threshold, p).
     and_then (map_err Multiutil (get_usize W p)) (\<lambda>(limit, p).
     and_then (map_err Multiutil (get_varbytes W p)) (\<lambda>(key_data, p).
     Ok (\<lparr>ks_identifier = ident, ks_threshold = threshold, ks_limit = limit, ks_value = key_data\<rparr>, p))))))"

text \<open>\<^verbatim>\<open>BTreeMap::insert\<close>: in the order of the keys, replacing the value of a key that is there.\<close>

type_synonym share_map = "(bytes \<times> key_share) list"

fun bt_insert :: "('k \<Rightarrow> 'k \<Rightarrow> bool) \<Rightarrow> 'k \<Rightarrow> 'v \<Rightarrow> ('k \<times> 'v) list \<Rightarrow> ('k \<times> 'v) list" where
  "bt_insert before k v [] = [(k, v)]"
| "bt_insert before k v ((a, b) # m) =
     (if k = a then (k, v) # m
      else if before k a then (k, v) # (a, b) # m
      else (a, b) # bt_insert before k v m)"

definition bt_contains :: "'k \<Rightarrow> ('k \<times> 'v) list \<Rightarrow> bool" where
  "bt_contains k m \<longleftrightarrow> k \<in> set (map fst m)"

definition threshold_data_encode :: "wire \<Rightarrow> share_map \<Rightarrow> bytes" where
  "threshold_data_encode W m =
     put_uint W (length m) @ concat (map (\<lambda>(_, share). key_share_encode W share) m)"

text \<open>The loop \<^verbatim>\<open>for _ in 0..*num_shares\<close>.\<close>

fun decode_shares :: "wire \<Rightarrow> bls_lib \<Rightarrow> nat \<Rightarrow> share_map \<Rightarrow> bytes \<Rightarrow> (share_map \<times> bytes) res" where
  "decode_shares W B 0 m p = Ok (m, p)"
| "decode_shares W B (Suc n) m p =
     and_then (key_share_decode W B p) (\<lambda>(share, q).
     if bt_contains (ks_identifier share) m then Err (error.Threshold ThDuplicateShare)
     else decode_shares W B n (bt_insert (bls_before B) (ks_identifier share) share m) q)"

definition threshold_data_decode :: "wire \<Rightarrow> bls_lib \<Rightarrow> bytes \<Rightarrow> (share_map \<times> bytes) res" where
  "threshold_data_decode W B bs =
     and_then (map_err Multiutil (get_usize W bs)) (\<lambda>(num_shares, p). decode_shares W B num_shares [] p)"

text \<open>\<^verbatim>\<open>TryFrom<&[u8]>\<close>.\<close>

definition threshold_data_from :: "wire \<Rightarrow> bls_lib \<Rightarrow> bytes \<Rightarrow> share_map res" where
  "threshold_data_from W B bs = and_then (threshold_data_decode W B bs) (\<lambda>(m, _). Ok m)"

section \<open>Splitting\<close>

definition bls_split_key :: "features \<Rightarrow> wire \<Rightarrow> bls_lib \<Rightarrow> multikey \<Rightarrow> nat \<Rightarrow> nat \<Rightarrow> multikey list res" where
  "bls_split_key F W B k threshold limit =
     (if threshold > limit then Err (error.Threshold (ThInvalidThresholdLimit threshold limit))
      else
      and_then (attr_view F W k) (\<lambda>attr.
      if \<not> is_secret_key attr then Err (error.Threshold ThNotASecretKey)
      else
      and_then (and_then (data_view F W k) secret_bytes) (\<lambda>secret.
      case mk_codec k of
        Bls12381 g BPriv \<Rightarrow>
          and_then (bls_secret_key B g secret) (\<lambda>sk.
          and_then (map_err (\<lambda>e. error.Threshold (ThBls e)) (bls_split B g sk threshold limit)) (\<lambda>shares.
          Ok (map (\<lambda>(ident, value).
            built_key (with_identifier (with_limit W (with_threshold W (with_key_bytes
              (with_comment (builder_new (Bls12381 g BPrivShare)) (mk_comment k)) value) threshold) limit) ident))
            shares)))
      | c \<Rightarrow> Err (Conversions (CvUnsupportedCodec c)))))"

definition bls_split_with_disclosure ::
  "features \<Rightarrow> wire \<Rightarrow> meta_lib \<Rightarrow> bls_lib \<Rightarrow> multikey \<Rightarrow> nat \<Rightarrow> nat \<Rightarrow> disclosure \<Rightarrow> multikey option \<Rightarrow>
   multikey list res" where
  "bls_split_with_disclosure F W M B k threshold limit mode meta_key =
     and_then (bls_split_key F W B k threshold limit) (\<lambda>shares.
     collect (\<lambda>s. to_disclosure F W M s mode meta_key None) shares)"

section \<open>Public keys\<close>

definition bls_to_public_key :: "features \<Rightarrow> wire \<Rightarrow> bls_lib \<Rightarrow> multikey \<Rightarrow> multikey res" where
  "bls_to_public_key F W B k =
     and_then (and_then (data_view F W k) secret_bytes) (\<lambda>secret.
     case mk_codec k of
       Bls12381 g BPriv \<Rightarrow>
         and_then (bls_secret_key B g secret) (\<lambda>sk.
         Ok (built_key (with_key_bytes (with_comment (builder_new (Bls12381 g BPub)) (mk_comment k))
           (bls_public B g sk))))
     | Bls12381 g BPrivShare \<Rightarrow>
         and_then (threshold_attr_view F W k) (\<lambda>av.
         and_then (ta_threshold av) (\<lambda>threshold.
         and_then (ta_limit av) (\<lambda>limit.
         and_then (and_then (ta_identifier av) (bytes_to_identifier B)) (\<lambda>ident.
         and_then (bytes_to_value B secret) (\<lambda>value.
         and_then (map_err (\<lambda>e. Conversions (CvPublicKeyFailure e)) (bls_share_public B g ident value))
           (\<lambda>(pub_ident, point).
         Ok (built_key (with_identifier (with_limit W (with_threshold W (with_key_bytes
           (with_comment (builder_new (Bls12381 g BPubShare)) (mk_comment k)) point) threshold) limit) pub_ident))))))))
     | c \<Rightarrow> Err (Conversions (CvUnsupportedCodec c)))"

section \<open>Collecting shares\<close>

text \<open>The threshold data of a key: empty when there is none, an error when it does not decode.\<close>

definition pending_shares :: "wire \<Rightarrow> bls_lib \<Rightarrow> threshold_view \<Rightarrow> share_map res" where
  "pending_shares W B av =
     (case ta_data av of
        Ok b \<Rightarrow> map_err (\<lambda>e. error.Threshold (ThShareCombineFailed (error_text B e))) (threshold_data_from W B b)
      | _ \<Rightarrow> Ok [])"

definition insert_pending :: "features \<Rightarrow> wire \<Rightarrow> bls_lib \<Rightarrow> multikey \<Rightarrow> key_share \<Rightarrow> bytes res" where
  "insert_pending F W B k share =
     and_then (threshold_attr_view F W k) (\<lambda>av.
     and_then (pending_shares W B av) (\<lambda>tdata.
     if bt_contains (ks_identifier share) tdata then Err (error.Threshold ThDuplicateShare)
     else Ok (threshold_data_encode W (bt_insert (bls_before B) (ks_identifier share) share tdata))))"

definition pending_key :: "wire \<Rightarrow> multikey \<Rightarrow> multikey \<Rightarrow> nat \<Rightarrow> nat \<Rightarrow> bytes \<Rightarrow> multikey" where
  "pending_key W k share threshold limit tdata =
     (let comment = (if mk_comment k = [] then mk_comment share else mk_comment k) in
      built_key (with_threshold_data (with_limit W (with_threshold W
        (with_comment (builder_new (mk_codec k)) comment) threshold) limit) tdata))"

definition bls_add_share :: "features \<Rightarrow> wire \<Rightarrow> bls_lib \<Rightarrow> multikey \<Rightarrow> multikey \<Rightarrow> multikey res" where
  "bls_add_share F W B k share =
     and_then
       (case mk_codec k of
          Bls12381 _ BPriv \<Rightarrow> Ok ()
        | Bls12381 _ BPub \<Rightarrow> Err (error.Threshold ThNotASecretKey)
        | Bls12381 _ BPubShare \<Rightarrow> Err (error.Threshold ThIsAKeyShare)
        | Bls12381 _ BPrivShare \<Rightarrow> Err (error.Threshold ThIsAKeyShare)
        | c \<Rightarrow> Err (UnsupportedAlgorithm (codec_text B c))) (\<lambda>_.
     and_then (threshold_attr_view F W share) (\<lambda>av.
     and_then (and_then (ta_identifier av) (bytes_to_identifier B)) (\<lambda>ident.
     and_then (ta_threshold av) (\<lambda>threshold.
     and_then (ta_limit av) (\<lambda>limit.
     and_then (and_then (data_view F W share) key_bytes) (\<lambda>key.
     and_then (insert_pending F W B k
       \<lparr>ks_identifier = ident, ks_threshold = threshold, ks_limit = limit, ks_value = key\<rparr>) (\<lambda>tdata.
     Ok (pending_key W k share
       (case ta_threshold av of Ok t \<Rightarrow> t | _ \<Rightarrow> threshold)
       (case ta_limit av of Ok n \<Rightarrow> n | _ \<Rightarrow> limit) tdata))))))))"

definition bls_add_share_with_meta ::
  "features \<Rightarrow> wire \<Rightarrow> meta_lib \<Rightarrow> bls_lib \<Rightarrow> multikey \<Rightarrow> multikey \<Rightarrow> multikey option \<Rightarrow> multikey res" where
  "bls_add_share_with_meta F W M B k share meta_key =
     and_then (read_threshold_params F W M share meta_key) (\<lambda>(share_t, share_n).
     and_then (threshold_attr_view F W share) (\<lambda>av.
     and_then (and_then (ta_identifier av) (bytes_to_identifier B)) (\<lambda>ident.
     and_then (and_then (data_view F W share) key_bytes) (\<lambda>key.
     and_then (insert_pending F W B k
       \<lparr>ks_identifier = ident, ks_threshold = share_t, ks_limit = share_n, ks_value = key\<rparr>) (\<lambda>tdata.
     Ok (pending_key W k share share_t share_n tdata))))))"

section \<open>Combining\<close>

definition combine_pending :: "bls_lib \<Rightarrow> multikey \<Rightarrow> share_map \<Rightarrow> nat \<Rightarrow> multikey res" where
  "combine_pending B k tdata threshold =
     (if length tdata < threshold then Err (error.Threshold ThNotEnoughShares)
      else
      case mk_codec k of
        Bls12381 g BPriv \<Rightarrow>
          and_then (collect (\<lambda>(ident, share). and_then (bytes_to_value B (ks_value share)) (\<lambda>v. Ok (ident, v))) tdata)
            (\<lambda>shares.
          and_then (map_err (\<lambda>e. error.Threshold (ThShareCombineFailed e)) (bls_combine B g shares)) (\<lambda>key.
          Ok (built_key (with_key_bytes (with_comment (builder_new (Bls12381 g BPriv)) (mk_comment k)) key))))
      | c \<Rightarrow> Err (UnsupportedAlgorithm (codec_text B c)))"

definition bls_combine_key :: "features \<Rightarrow> wire \<Rightarrow> bls_lib \<Rightarrow> multikey \<Rightarrow> multikey res" where
  "bls_combine_key F W B k =
     and_then (threshold_attr_view F W k) (\<lambda>av.
     and_then (pending_shares W B av) (\<lambda>tdata.
     and_then (ta_threshold av) (\<lambda>threshold.
     combine_pending B k tdata threshold)))"

definition bls_combine_with_meta ::
  "features \<Rightarrow> wire \<Rightarrow> meta_lib \<Rightarrow> bls_lib \<Rightarrow> multikey \<Rightarrow> multikey option \<Rightarrow> multikey res" where
  "bls_combine_with_meta F W M B k meta_key =
     and_then (read_threshold_params F W M k meta_key) (\<lambda>(threshold, _).
     and_then (threshold_attr_view F W k) (\<lambda>av.
     and_then (pending_shares W B av) (\<lambda>tdata.
     combine_pending B k tdata threshold)))"

section \<open>The threshold view of a key, and building with pending shares\<close>

text \<open>Only the BLS view reconstructs a key; the Lamport views refuse.\<close>

definition view_add_share :: "features \<Rightarrow> wire \<Rightarrow> bls_lib \<Rightarrow> multikey \<Rightarrow> multikey \<Rightarrow> multikey res" where
  "view_add_share F W B k share =
     and_then (dispatch_threshold_view F k) (\<lambda>v.
     case v of
       VLamport \<Rightarrow> Err (error.Threshold (ThShareCombineFailed
         ''Lamport threshold signing does not reconstruct the signing key; combine signature shares instead''))
     | VLamportMerkle \<Rightarrow> Err (error.Threshold (ThShareCombineFailed
         ''merkle-Lamport threshold signing does not reconstruct the signing key; combine signature shares instead''))
     | _ \<Rightarrow> bls_add_share F W B k share)"

text \<open>A loop that replaces a state and stops at the first error.\<close>

fun try_fold :: "('k \<Rightarrow> 'a \<Rightarrow> ('e, 'k) outcome) \<Rightarrow> 'k \<Rightarrow> 'a list \<Rightarrow> ('e, 'k) outcome" where
  "try_fold f k [] = Ok k"
| "try_fold f k (x # xs) = and_then (f k x) (\<lambda>k'. try_fold f k' xs)"

definition add_shares :: "features \<Rightarrow> wire \<Rightarrow> bls_lib \<Rightarrow> multikey \<Rightarrow> multikey list \<Rightarrow> multikey res" where
  "add_shares F W B k shares = try_fold (view_add_share F W B) k shares"

definition try_build :: "features \<Rightarrow> wire \<Rightarrow> bls_lib \<Rightarrow> builder \<Rightarrow> multikey res" where
  "try_build F W B b =
     (case b_shares b of
        Some shares \<Rightarrow> add_shares F W B (built_key b) shares
      | None \<Rightarrow> Ok (built_key b))"

section \<open>Ordered maps\<close>

definition strict_order :: "('a \<Rightarrow> 'a \<Rightarrow> bool) \<Rightarrow> bool" where
  "strict_order before \<longleftrightarrow>
     (\<forall>a b. before a b \<longrightarrow> \<not> before b a) \<and> (\<forall>a b c. before a b \<longrightarrow> before b c \<longrightarrow> before a c)
     \<and> (\<forall>a b. a \<noteq> b \<longrightarrow> before a b \<or> before b a)"

definition bt_sorted :: "('k \<Rightarrow> 'k \<Rightarrow> bool) \<Rightarrow> ('k \<times> 'v) list \<Rightarrow> bool" where
  "bt_sorted before m \<longleftrightarrow> sorted_wrt before (map fst m)"

lemma strict_orderD:
  assumes "strict_order before"
  shows "before a b \<Longrightarrow> \<not> before b a" and "before a b \<Longrightarrow> before b c \<Longrightarrow> before a c"
    and "a \<noteq> b \<Longrightarrow> \<not> before a b \<Longrightarrow> before b a"
  using assms unfolding strict_order_def by blast+

lemma set_bt_insert: "k \<notin> set (map fst m) \<Longrightarrow> set (bt_insert before k v m) = insert (k, v) (set m)"
  by (induction m) (auto split: if_splits)

lemma length_bt_insert: "k \<notin> set (map fst m) \<Longrightarrow> length (bt_insert before k v m) = Suc (length m)"
  by (induction m) auto

lemma map_of_bt_insert: "k \<notin> set (map fst m) \<Longrightarrow> map_of (bt_insert before k v m) = (map_of m)(k \<mapsto> v)"
  by (induction m) (auto split: if_splits)

lemma bt_insert_keys:
  assumes "k \<notin> set (map fst m)"
  shows "set (map fst (bt_insert before k v m)) = insert k (set (map fst m))"
  using set_bt_insert[OF assms] by simp

lemma bt_sorted_insert:
  assumes order: "strict_order before"
  shows "bt_sorted before m \<Longrightarrow> k \<notin> set (map fst m) \<Longrightarrow> bt_sorted before (bt_insert before k v m)"
proof (induction m)
  case Nil
  then show ?case
    by (simp add: bt_sorted_def)
next
  case (Cons e m)
  obtain a b where e: "e = (a, b)"
    by (cases e)
  have k: "k \<noteq> a" "k \<notin> set (map fst m)" and m: "bt_sorted before m" "\<forall>c \<in> set (map fst m). before a c"
    using Cons.prems by (auto simp: e bt_sorted_def)
  show ?case
  proof (cases "before k a")
    case True
    then show ?thesis
      using k m strict_orderD(2)[OF order True] by (auto simp: e bt_sorted_def)
  next
    case False
    have "before a k"
      by (rule strict_orderD(3)[OF order k(1) False])
    then have "\<forall>c \<in> set (map fst (bt_insert before k v m)). before a c"
      using m(2) unfolding bt_insert_keys[OF k(2)] by blast
    then show ?thesis
      using Cons.IH[OF m(1) k(2)] k(1) False by (simp add: e bt_sorted_def)
  qed
qed

lemma sorted_wrt_distinct: "(\<And>a. \<not> before a a) \<Longrightarrow> sorted_wrt before xs \<Longrightarrow> distinct xs"
  by (induction xs) auto

lemma bt_sorted_distinct: "strict_order before \<Longrightarrow> bt_sorted before m \<Longrightarrow> distinct (map fst m)"
  unfolding bt_sorted_def by (rule sorted_wrt_distinct) (auto dest: strict_orderD(1))

lemma bt_sorted_unique:
  assumes order: "strict_order before"
  shows "bt_sorted before m \<Longrightarrow> bt_sorted before m' \<Longrightarrow> set m = set m' \<Longrightarrow> m = m'"
proof (induction m arbitrary: m')
  case (Cons e m)
  obtain e' m'' where m': "m' = e' # m''"
    using Cons.prems(3) by (cases m') auto
  note sorted = Cons.prems(1,2)[unfolded m' bt_sorted_def, simplified]
  note order = strict_orderD(1)[OF order]
  have head: "e = e'"
  proof (rule ccontr)
    assume "e \<noteq> e'"
    then have "e \<in> set m''" "e' \<in> set m"
      using Cons.prems(3) by (auto simp: m')
    then show False
      using sorted order by blast
  qed
  have "e \<notin> set m" "e \<notin> set m''"
    using sorted order head by blast+
  then have "set m = set m''"
    using Cons.prems(3) head by (auto simp: m')
  then show ?case
    using Cons.IH[of m''] Cons.prems(1,2) head by (simp add: m' bt_sorted_def)
qed simp

text \<open>Inserting behind all the keys appends.\<close>

lemma bt_insert_last:
  assumes "strict_order before"
  shows "(\<forall>a \<in> set (map fst m). before a k) \<Longrightarrow> bt_insert before k v m = m @ [(k, v)]"
  by (induction m) (use strict_orderD(1)[OF assms] in fastforce)+

section \<open>The wire form of the threshold data\<close>

definition bls_sharing :: "bls_lib \<Rightarrow> bls_group \<Rightarrow> bytes \<Rightarrow> nat \<Rightarrow> nat \<Rightarrow> (bytes \<times> bytes) list \<Rightarrow> bool" where
  "bls_sharing B g secret t n shares \<longleftrightarrow>
     2 \<le> t \<and> length shares = n \<and> distinct (map fst shares)
   \<and> (\<forall>(i, v) \<in> set shares. length i = 32 \<and> bls_canonical B i \<and> length v = 32 \<and> bls_canonical B v)
   \<and> (\<forall>sub. distinct (map fst sub) \<longrightarrow> set sub \<subseteq> set shares \<longrightarrow> t \<le> length sub \<longrightarrow>
        bls_combine B g sub = Ok secret)"

text \<open>
  Documented behaviour: identifiers are ordered, an array is encoded as its bytes, and any \<open>t\<close> shares
  of a splitting, in any order, combine to the secret.
\<close>

definition bls_lib_ok :: "bls_lib \<Rightarrow> bool" where
  "bls_lib_ok B \<longleftrightarrow>
     strict_order (bls_before B)
   \<and> (\<forall>b r. length b = 32 \<longrightarrow> get_array32 B (b @ r) = Ok (b, r))
   \<and> (\<forall>g secret t n shares. bls_split B g secret t n = Ok shares \<longrightarrow> bls_sharing B g secret t n shares)"

lemma bls_libD:
  assumes "bls_lib_ok B"
  shows "strict_order (bls_before B)" and "length b = 32 \<Longrightarrow> get_array32 B (b @ r) = Ok (b, r)"
    and "bls_split B g secret t n = Ok shares \<Longrightarrow> bls_sharing B g secret t n shares"
  using assms unfolding bls_lib_ok_def by blast+

definition share_wf :: "bls_lib \<Rightarrow> key_share \<Rightarrow> bool" where
  "share_wf B s \<longleftrightarrow>
     length (ks_identifier s) = 32 \<and> bls_canonical B (ks_identifier s)
   \<and> ks_threshold s < 2 ^ 64 \<and> ks_limit s < 2 ^ 64 \<and> length (ks_value s) \<le> MAX_DECODED_SIZE"

definition shares_wf :: "bls_lib \<Rightarrow> share_map \<Rightarrow> bool" where
  "shares_wf B m \<longleftrightarrow>
     bt_sorted (bls_before B) m \<and> (\<forall>(i, s) \<in> set m. i = ks_identifier s \<and> share_wf B s)"

interpretation key_share_wire: prefix_codec "key_share_encode W" "key_share_decode W B"
  "\<lambda>s. wire_ok W \<and> bls_lib_ok B \<and> share_wf B s" for W B
proof unfold_locales
  fix s r
  assume ok: "wire_ok W \<and> bls_lib_ok B \<and> share_wf B s"
  then have wf: "share_wf B s" and W: "wire_ok W" and B: "bls_lib_ok B"
    by simp_all
  have enc: "key_share_encode W s @ r = ks_identifier s @ put_uint W (ks_threshold s) @
      put_uint W (ks_limit s) @ varbytes W (ks_value s) @ r"
    unfolding key_share_encode_def Let_def encode_varbytes_into_eq[of W "(_ @ _) @ _"] by simp
  show "key_share_decode W B (key_share_encode W s @ r) = Ok (s, r)"
    unfolding enc key_share_decode_def
    using wf W by (simp add: share_wf_def bls_libD(2)[OF B] usize_wire.dec_enc varbytes_wire.dec_enc
        bytes_to_identifier_def SECRET_KEY_BYTES_def)
qed

lemma decode_shares_append:
  assumes ok: "wire_ok W" "bls_lib_ok B"
  shows "shares_wf B (m @ ms) \<Longrightarrow>
    decode_shares W B (length ms) m (concat (map (\<lambda>(_, s). key_share_encode W s) ms) @ r) = Ok (m @ ms, r)"
proof (induction ms arbitrary: m)
  case Nil
  then show ?case
    by simp
next
  case (Cons e ms)
  obtain i s where e: "e = (i, s)"
    by (cases e)
  have s: "i = ks_identifier s" "share_wf B s"
    using Cons.prems by (auto simp: shares_wf_def e)
  have before: "\<forall>a \<in> set (map fst m). bls_before B a i"
    using Cons.prems by (auto simp: shares_wf_def bt_sorted_def e sorted_wrt_append)
  then have "\<not> bt_contains i m"
    using strict_orderD(1)[OF bls_libD(1)[OF ok(2)]] by (auto simp: bt_contains_def)
  then show ?case
    using Cons.IH[of "m @ [e]"] Cons.prems s bt_insert_last[OF bls_libD(1)[OF ok(2)] before, of s]
    by (simp add: e key_share_wire.dec_enc ok)
qed

interpretation threshold_data_wire: prefix_codec "threshold_data_encode W" "threshold_data_decode W B"
  "\<lambda>m. wire_ok W \<and> bls_lib_ok B \<and> shares_wf B m \<and> length m < 2 ^ 64" for W B
proof unfold_locales
  fix m r
  assume "wire_ok W \<and> bls_lib_ok B \<and> shares_wf B m \<and> length m < 2 ^ 64"
  then show "threshold_data_decode W B (threshold_data_encode W m @ r) = Ok (m, r)"
    using decode_shares_append[of W B "[]" m r]
    by (simp add: threshold_data_decode_def threshold_data_encode_def usize_wire.dec_enc)
qed

text \<open>What decoding makes of any bytes.\<close>

lemma key_share_decode_wf:
  assumes "key_share_decode W B bs = Ok (s, r)"
  shows "length (ks_identifier s) = 32 \<and> bls_canonical B (ks_identifier s)"
  using assms
  by (auto simp: key_share_decode_def and_then_eq_Ok bytes_to_identifier_def SECRET_KEY_BYTES_def split: if_splits)

lemma decode_shares_invariant:
  assumes order: "strict_order (bls_before B)"
  shows "decode_shares W B n m p = Ok (m', r) \<Longrightarrow> bt_sorted (bls_before B) m \<Longrightarrow>
    (\<forall>(i, s) \<in> set m. i = ks_identifier s \<and> length i = 32 \<and> bls_canonical B i) \<Longrightarrow>
    bt_sorted (bls_before B) m' \<and> length m' = length m + n
    \<and> (\<forall>(i, s) \<in> set m'. i = ks_identifier s \<and> length i = 32 \<and> bls_canonical B i)"
proof (induction n arbitrary: m p)
  case 0
  then show ?case
    by simp
next
  case (Suc n)
  obtain s q where s: "key_share_decode W B p = Ok (s, q)" and new: "ks_identifier s \<notin> set (map fst m)"
    and rest: "decode_shares W B n (bt_insert (bls_before B) (ks_identifier s) s m) q = Ok (m', r)"
    using Suc.prems(1) by (auto simp: and_then_eq_Ok bt_contains_def split: if_splits)
  show ?case
    using Suc.IH[OF rest bt_sorted_insert[OF order Suc.prems(2) new]] key_share_decode_wf[OF s] Suc.prems(3)
    by (auto simp: set_bt_insert[OF new] length_bt_insert[OF new])
qed

text \<open>The shares that lie in the bytes, one after the other.\<close>

fun shares_in :: "wire \<Rightarrow> bls_lib \<Rightarrow> nat \<Rightarrow> bytes \<Rightarrow> key_share list res" where
  "shares_in W B 0 p = Ok []"
| "shares_in W B (Suc n) p =
     and_then (key_share_decode W B p) (\<lambda>(share, q). and_then (shares_in W B n q) (\<lambda>ss. Ok (share # ss)))"

lemma shares_in_length: "shares_in W B n p = Ok ss \<Longrightarrow> length ss = n"
  by (induction n arbitrary: p ss) (auto simp: outcome_simps)

lemma shares_in_canonical:
  "shares_in W B n p = Ok ss \<Longrightarrow> s \<in> set ss \<Longrightarrow> length (ks_identifier s) = 32 \<and> bls_canonical B (ks_identifier s)"
  by (induction n arbitrary: p ss) (auto simp: outcome_simps dest: key_share_decode_wf)

lemma decode_shares_complete:
  assumes order: "strict_order (bls_before B)"
  shows "bt_sorted (bls_before B) m \<Longrightarrow>
    (\<exists>r. decode_shares W B n m p = Ok (m', r)) \<longleftrightarrow>
    (\<exists>ss. shares_in W B n p = Ok ss \<and> distinct (map ks_identifier ss) \<and> set (map ks_identifier ss) \<inter> set (map fst m) = {}
       \<and> bt_sorted (bls_before B) m' \<and> set m' = set m \<union> (\<lambda>s. (ks_identifier s, s)) ` set ss)"
proof (induction n arbitrary: m p)
  case 0
  then show ?case
    using bt_sorted_unique[OF order, of m m'] by auto
next
  case (Suc n)
  show ?case
  proof (cases "key_share_decode W B p")
    case (Ok sq)
    obtain s q where s: "key_share_decode W B p = Ok (s, q)"
      using Ok by (cases sq) simp
    show ?thesis
    proof (cases "ks_identifier s \<in> set (map fst m)")
      case True
      then show ?thesis
        by (auto simp: s bt_contains_def outcome_simps)
    next
      case False
      let ?m = "bt_insert (bls_before B) (ks_identifier s) s m"
      have keys: "set (map fst ?m) = insert (ks_identifier s) (set (map fst m))"
        using set_bt_insert[OF False, of "bls_before B" s] by simp
      show ?thesis
        using Suc.IH[OF bt_sorted_insert[OF order Suc.prems False, of s], of q] False keys
          set_bt_insert[OF False, of "bls_before B" s]
        by (fastforce simp: s bt_contains_def outcome_simps)
    qed
  qed simp_all
qed

lemma threshold_data_from_eq_Ok:
  assumes "bls_lib_ok B"
  shows "threshold_data_from W B bs = Ok m \<longleftrightarrow>
    (\<exists>n p ss. get_usize W bs = Ok (n, p) \<and> shares_in W B n p = Ok ss \<and> distinct (map ks_identifier ss)
       \<and> bt_sorted (bls_before B) m \<and> set m = (\<lambda>s. (ks_identifier s, s)) ` set ss)"
proof -
  have "threshold_data_from W B bs = Ok m \<longleftrightarrow> (\<exists>n p. get_usize W bs = Ok (n, p) \<and> (\<exists>r. decode_shares W B n [] p = Ok (m, r)))"
    by (auto simp: threshold_data_from_def threshold_data_decode_def outcome_simps)
  then show ?thesis
    using decode_shares_complete[OF bls_libD(1)[OF assms], of "[]" W _ _ m] by (simp add: bt_sorted_def)
qed

section \<open>The contract of a share collector\<close>

text \<open>
  What a threshold view promises of the keys that collect shares: a key stands for a map from
  identifiers to shares, adding a share with a new identifier updates that map, and a share with an
  identifier that is there is refused. There is room for \<open>bound\<close> shares.
\<close>

locale share_collector =
  fixes inv :: "'k \<Rightarrow> bool"
    and pool :: "'k \<Rightarrow> 'i \<rightharpoonup> 's"
    and add :: "'k \<Rightarrow> 'sh \<Rightarrow> ('e, 'k) outcome"
    and content :: "'sh \<Rightarrow> ('i \<times> 's) option"
    and duplicate :: 'e
    and bound :: nat
  assumes add_new: "inv k \<Longrightarrow> content sh = Some (i, s) \<Longrightarrow> pool k i = None \<Longrightarrow> card (dom (pool k)) < bound \<Longrightarrow>
      \<exists>k'. add k sh = Ok k' \<and> inv k' \<and> pool k' = (pool k)(i \<mapsto> s)"
    and add_known: "inv k \<Longrightarrow> content sh = Some (i, s) \<Longrightarrow> pool k i \<noteq> None \<Longrightarrow> add k sh = Err duplicate"
    and finite_pool: "inv k \<Longrightarrow> finite (dom (pool k))"
begin

lemma add_all_new:
  "inv k \<Longrightarrow> map content shs = map Some es \<Longrightarrow> distinct (map fst es) \<Longrightarrow>
   set (map fst es) \<inter> dom (pool k) = {} \<Longrightarrow> card (dom (pool k)) + length es \<le> bound \<Longrightarrow>
   \<exists>k'. try_fold add k shs = Ok k' \<and> inv k' \<and> pool k' = pool k ++ map_of es"
proof (induction es arbitrary: k shs)
  case Nil
  then show ?case
    by simp
next
  case (Cons e es)
  obtain i s where e: "e = (i, s)"
    by (cases e)
  obtain sh shs' where shs: "shs = sh # shs'" "content sh = Some (i, s)" "map content shs' = map Some es"
    using Cons.prems(2) by (auto simp: e)
  have new: "pool k i = None" and room: "card (dom (pool k)) < bound"
    using Cons.prems(4,5) by (auto simp: e)
  obtain k' where k': "add k sh = Ok k'" "inv k'" "pool k' = (pool k)(i \<mapsto> s)"
    using add_new[OF Cons.prems(1) shs(2) new room] by blast
  have card: "card (dom (pool k')) = Suc (card (dom (pool k)))"
    using finite_pool[OF Cons.prems(1)] new by (simp add: k'(3) domIff)
  have rest: "distinct (map fst es)" "set (map fst es) \<inter> dom (pool k') = {}"
    "card (dom (pool k')) + length es \<le> bound"
    using Cons.prems(3,4,5) card by (auto simp: e k'(3))
  obtain k'' where k'': "try_fold add k' shs' = Ok k''" "inv k''" "pool k'' = pool k' ++ map_of es"
    using Cons.IH[OF k'(2) shs(3) rest] by blast
  have "pool k'' = pool k ++ map_of (e # es)"
    using Cons.prems(3) by (auto simp: k''(3) k'(3) e map_add_upd_left dom_map_of_conv_image_fst)
  moreover have "try_fold add k shs = Ok k''"
    by (simp add: shs(1) k'(1) k''(1))
  ultimately show ?case
    using k''(2) by blast
qed

text \<open>One share whose identifier is there already, and the whole sequence is refused.\<close>

lemma add_all_known:
  "inv k \<Longrightarrow> map content shs = map Some es \<Longrightarrow> card (dom (pool k)) + length es \<le> bound \<Longrightarrow>
   \<not> (distinct (map fst es) \<and> set (map fst es) \<inter> dom (pool k) = {}) \<Longrightarrow>
   try_fold add k shs = Err duplicate"
proof (induction es arbitrary: k shs)
  case Nil
  then show ?case
    by simp
next
  case (Cons e es)
  obtain i s where e: "e = (i, s)"
    by (cases e)
  obtain sh shs' where shs: "shs = sh # shs'" "content sh = Some (i, s)" "map content shs' = map Some es"
    using Cons.prems(2) by (auto simp: e)
  show ?case
  proof (cases "pool k i = None")
    case True
    then obtain k' where k': "add k sh = Ok k'" "inv k'" "pool k' = (pool k)(i \<mapsto> s)"
      using add_new[OF Cons.prems(1) shs(2)] Cons.prems(3) by auto
    have "card (dom (pool k')) = Suc (card (dom (pool k)))"
      using finite_pool[OF Cons.prems(1)] True by (simp add: k'(3) domIff)
    then show ?thesis
      using Cons.IH[OF k'(2) shs(3)] Cons.prems(3,4) True
      by (fastforce simp add: shs(1) k'(1) k'(3) e domIff simp del: fun_upd_apply split: if_splits)
  next
    case False
    then show ?thesis
      using add_known[OF Cons.prems(1) shs(2)] by (simp add: shs(1))
  qed
qed

text \<open>The order in which shares arrive does not matter for what the key stands for.\<close>

lemma add_all_order:
  assumes "inv k" "map content shs = map Some es" "distinct (map fst es)"
    "set (map fst es) \<inter> dom (pool k) = {}" "card (dom (pool k)) + length es \<le> bound"
    and "mset shs' = mset shs"
  shows "\<exists>k1 k2. try_fold add k shs = Ok k1 \<and> try_fold add k shs' = Ok k2 \<and> pool k1 = pool k2"
proof -
  have content: "map content shs' = map Some (map (the \<circ> content) shs')"
  proof -
    have "\<forall>x \<in> set shs'. content x \<noteq> None"
      using assms(2) mset_eq_setD[OF assms(6)] by (metis in_set_conv_nth length_map nth_map option.distinct(1))
    then show ?thesis
      by (induction shs') auto
  qed
  let ?es' = "map (the \<circ> content) shs'"
  have "es = map (the \<circ> content) shs"
    using arg_cong[OF assms(2), of "map the"] by (simp add: comp_def)
  then have perm: "mset ?es' = mset es"
    using assms(6) by (metis mset_map)
  then have keys: "mset (map fst ?es') = mset (map fst es)"
    by (metis mset_map)
  have es': "distinct (map fst ?es')" "set (map fst ?es') = set (map fst es)" "length ?es' = length es"
    using mset_eq_imp_distinct_iff[OF keys] assms(3) mset_eq_setD[OF keys] mset_eq_length[OF perm] by simp_all
  have "map_of ?es' = map_of es"
  proof (rule ext)
    fix i
    show "map_of ?es' i = map_of es i"
      using es'(1) assms(3) mset_eq_setD[OF perm] es'(2)
      by (metis map_of_SomeD map_of_eq_None_iff map_of_is_SomeI not_Some_eq)
  qed
  moreover have "set (map fst ?es') \<inter> dom (pool k) = {}" "card (dom (pool k)) + length ?es' \<le> bound"
    using assms(4,5) es'(2,3) by simp_all
  ultimately show ?thesis
    using add_all_new[OF assms(1-5)] add_all_new[OF assms(1) content es'(1)] by auto
qed

end

section \<open>What a collecting key stands for\<close>

definition pending_map :: "wire \<Rightarrow> bls_lib \<Rightarrow> multikey \<Rightarrow> bytes \<rightharpoonup> key_share" where
  "pending_map W B k =
     (case get_attr k ThresholdData of None \<Rightarrow> Map.empty
      | Some b \<Rightarrow> (case threshold_data_from W B b of Ok m \<Rightarrow> map_of m | _ \<Rightarrow> Map.empty))"

text \<open>A BLS private key that collects shares, with the ordered map it has collected so far.\<close>

definition collecting :: "wire \<Rightarrow> bls_lib \<Rightarrow> bls_group \<Rightarrow> share_map \<Rightarrow> multikey \<Rightarrow> bool" where
  "collecting W B g m k \<longleftrightarrow>
     mk_codec k = Bls12381 g BPriv \<and> shares_wf B m \<and> length m < 2 ^ 64
   \<and> (mk_attributes k ThresholdData = Some (threshold_data_encode W m)
      \<or> m = [] \<and> mk_attributes k ThresholdData = None)"

definition bls_ready :: "features \<Rightarrow> wire \<Rightarrow> bls_lib \<Rightarrow> bool" where
  "bls_ready F W B \<longleftrightarrow> FBls12381 \<in> F \<and> wire_ok W \<and> bls_lib_ok B"

text \<open>The share that a share key carries.\<close>

definition share_content :: "features \<Rightarrow> wire \<Rightarrow> bls_lib \<Rightarrow> multikey \<Rightarrow> key_share res" where
  "share_content F W B share =
     and_then (threshold_attr_view F W share) (\<lambda>av.
     and_then (and_then (ta_identifier av) (bytes_to_identifier B)) (\<lambda>ident.
     and_then (ta_threshold av) (\<lambda>threshold.
     and_then (ta_limit av) (\<lambda>limit.
     and_then (and_then (data_view F W share) key_bytes) (\<lambda>key.
     Ok \<lparr>ks_identifier = ident, ks_threshold = threshold, ks_limit = limit, ks_value = key\<rparr>)))))"

lemma bls_view:
  assumes "mk_codec k = Bls12381 g p" "bls_key p" "FBls12381 \<in> F"
  shows "threshold_attr_view F W k = Ok (bls_threshold_view W k)"
  using assms by (simp add: threshold_attr_view_def dispatch_threshold_attr_view_def arm_def)

lemma bls_key_parts [simp]: "bls_key BPriv" "bls_key BPrivShare" "bls_key BPub" "bls_key BPubShare"
  by (simp_all add: bls_key_def)

lemma bls_data_view:
  assumes "mk_codec k = Bls12381 g p" "bls_key p" "FBls12381 \<in> F"
  shows "data_view F W k = Ok (bls12381_view W k)" and "attr_view F W k = Ok (bls12381_view W k)"
  using assms
  by (simp_all add: data_view_def attr_view_def dispatch_data_view_def dispatch_attr_view_def arm_def)

lemma threshold_data_from_encode:
  "wire_ok W \<Longrightarrow> bls_lib_ok B \<Longrightarrow> shares_wf B m \<Longrightarrow> length m < 2 ^ 64 \<Longrightarrow>
   threshold_data_from W B (threshold_data_encode W m) = Ok m"
  using threshold_data_wire.dec_enc_nil[of W B m] by (simp add: threshold_data_from_def)

lemma collecting_reads:
  assumes "bls_ready F W B" "collecting W B g m k"
  shows "threshold_attr_view F W k = Ok (bls_threshold_view W k)"
    and "pending_shares W B (bls_threshold_view W k) = Ok m" and "pending_map W B k = map_of m"
    and "distinct (map fst m)" and "card (dom (pending_map W B k)) = length m"
proof -
  have codec: "mk_codec k = Bls12381 g BPriv" and wf: "shares_wf B m" "length m < 2 ^ 64"
    and data: "mk_attributes k ThresholdData = Some (threshold_data_encode W m)
      \<or> m = [] \<and> mk_attributes k ThresholdData = None"
    using assms(2) by (simp_all add: collecting_def)
  have ready: "FBls12381 \<in> F" "wire_ok W" "bls_lib_ok B"
    using assms(1) by (simp_all add: bls_ready_def)
  note dec = threshold_data_from_encode[OF ready(2,3) wf]
  show "threshold_attr_view F W k = Ok (bls_threshold_view W k)"
    using bls_view[OF codec _ ready(1)] by simp
  show "pending_shares W B (bls_threshold_view W k) = Ok m"
    using data dec by (auto simp: pending_shares_def bls_threshold_view_def get_attr_def)
  show map: "pending_map W B k = map_of m"
    using data dec by (auto simp: pending_map_def get_attr_def)
  show distinct: "distinct (map fst m)"
    using wf(1) bt_sorted_distinct[OF bls_libD(1)[OF ready(3)]] unfolding shares_wf_def by blast
  show "card (dom (pending_map W B k)) = length m"
    using distinct_card[OF distinct] by (simp add: map dom_map_of_conv_image_fst)
qed

lemma view_add_share_eq:
  assumes "mk_codec k = Bls12381 g BPriv" "FBls12381 \<in> F"
  shows "view_add_share F W B k share =
    and_then (share_content F W B share) (\<lambda>s.
    and_then (insert_pending F W B k s) (\<lambda>tdata.
    Ok (pending_key W k share (ks_threshold s) (ks_limit s) tdata)))"
proof -
  have "view_add_share F W B k share = bls_add_share F W B k share"
    using assms by (simp add: view_add_share_def dispatch_threshold_view_def arm_def)
  moreover have "and_then (ta_threshold av) (\<lambda>t. and_then (ta_limit av) (\<lambda>n. f t n
      (case ta_threshold av of Ok t \<Rightarrow> t | _ \<Rightarrow> t) (case ta_limit av of Ok n \<Rightarrow> n | _ \<Rightarrow> n)))
    = and_then (ta_threshold av) (\<lambda>t. and_then (ta_limit av) (\<lambda>n. f t n t n))" for av :: threshold_view and f
    by (cases "ta_threshold av"; cases "ta_limit av") simp_all
  ultimately show ?thesis
    using assms(1)
    by (simp add: bls_add_share_def share_content_def and_then_assoc cong: and_then_cong)
qed

lemma insert_pending_collecting:
  assumes "bls_ready F W B" "collecting W B g m k"
  shows "insert_pending F W B k s =
    (if ks_identifier s \<in> set (map fst m) then Err (error.Threshold ThDuplicateShare)
     else Ok (threshold_data_encode W (bt_insert (bls_before B) (ks_identifier s) s m)))"
  by (simp add: insert_pending_def collecting_reads(1,2)[OF assms] bt_contains_def)

lemma collecting_pending_key:
  assumes "bls_ready F W B" "collecting W B g m k" "share_wf B s"
    and "ks_identifier s \<notin> set (map fst m)" "length m + 1 < 2 ^ 64"
  shows "collecting W B g (bt_insert (bls_before B) (ks_identifier s) s m)
    (pending_key W k share t n (threshold_data_encode W (bt_insert (bls_before B) (ks_identifier s) s m)))"
proof -
  have order: "strict_order (bls_before B)"
    using assms(1) by (simp add: bls_ready_def bls_libD(1))
  have "shares_wf B (bt_insert (bls_before B) (ks_identifier s) s m)"
    using assms(2,3) bt_sorted_insert[OF order _ assms(4)]
    by (auto simp: shares_wf_def collecting_def set_bt_insert[OF assms(4)])
  then show ?thesis
    using assms(2,5) length_bt_insert[OF assms(4)]
    by (simp add: collecting_def pending_key_def built_key_defs)
qed

text \<open>The BLS threshold view collects shares: it refines the update of a map.\<close>

definition share_entry :: "features \<Rightarrow> wire \<Rightarrow> bls_lib \<Rightarrow> multikey \<Rightarrow> (bytes \<times> key_share) option" where
  "share_entry F W B share =
     (case share_content F W B share of
        Ok s \<Rightarrow> if share_wf B s then Some (ks_identifier s, s) else None | _ \<Rightarrow> None)"

lemma share_entry_eq:
  "share_entry F W B share = Some (i, s) \<longleftrightarrow>
   share_content F W B share = Ok s \<and> share_wf B s \<and> i = ks_identifier s"
  by (auto simp: share_entry_def split: outcome.splits)

interpretation bls: share_collector "\<lambda>k. bls_ready F W B \<and> (\<exists>g m. collecting W B g m k)" "pending_map W B"
  "view_add_share F W B" "share_entry F W B" "error.Threshold ThDuplicateShare" "2 ^ 64 - 1" for F W B
proof unfold_locales
  fix k share i s
  assume inv: "bls_ready F W B \<and> (\<exists>g m. collecting W B g m k)"
    and share: "share_entry F W B share = Some (i, s)"
  obtain g m where k: "collecting W B g m k" and ready: "bls_ready F W B"
    using inv by blast
  note content = share[unfolded share_entry_eq]
  have codec: "mk_codec k = Bls12381 g BPriv" and F: "FBls12381 \<in> F"
    using k ready by (simp_all add: collecting_def bls_ready_def)
  note reads = collecting_reads[OF ready k]
  let ?m = "bt_insert (bls_before B) (ks_identifier s) s m"
  have add: "view_add_share F W B k share =
      (if i \<in> set (map fst m) then Err (error.Threshold ThDuplicateShare)
       else Ok (pending_key W k share (ks_threshold s) (ks_limit s) (threshold_data_encode W ?m)))"
    using content by (simp add: view_add_share_eq[OF codec F] insert_pending_collecting[OF ready k])
  show "view_add_share F W B k share = Err (error.Threshold ThDuplicateShare)"
    if "pending_map W B k i \<noteq> None"
    using that add by (simp add: reads(3) map_of_eq_None_iff)
  assume new: "pending_map W B k i = None" and room: "card (dom (pending_map W B k)) < 2 ^ 64 - 1"
  have i: "i \<notin> set (map fst m)" "ks_identifier s \<notin> set (map fst m)"
    using new content by (simp_all add: reads(3) map_of_eq_None_iff)
  let ?k = "pending_key W k share (ks_threshold s) (ks_limit s) (threshold_data_encode W ?m)"
  have k': "collecting W B g ?m ?k"
    using collecting_pending_key[OF ready k _ i(2)] content room reads(5) by simp
  have "pending_map W B ?k = (pending_map W B k)(i \<mapsto> s)"
    using collecting_reads(3)[OF ready k'] content by (simp add: reads(3) map_of_bt_insert[OF i(2)])
  moreover have "view_add_share F W B k share = Ok ?k"
    using add i(1) by simp
  ultimately show "\<exists>k'. view_add_share F W B k share = Ok k' \<and>
      (bls_ready F W B \<and> (\<exists>g m. collecting W B g m k')) \<and> pending_map W B k' = (pending_map W B k)(i \<mapsto> s)"
    using ready k' by blast
next
  fix k
  assume "bls_ready F W B \<and> (\<exists>g m. collecting W B g m k)"
  then show "finite (dom (pending_map W B k))"
    using collecting_reads(3) by (metis finite_dom_map_of)
qed

section \<open>Shares that agree\<close>

text \<open>
  Threshold, limit and comment of a collecting key come from the shares. What the key is after shares that agree on
  them depends on the collected map only.
\<close>

definition agreed_key :: "wire \<Rightarrow> multikey \<Rightarrow> bytes \<Rightarrow> nat \<Rightarrow> nat \<Rightarrow> share_map \<Rightarrow> multikey" where
  "agreed_key W k comment t n m =
     pending_key W k \<lparr>mk_codec = mk_codec k, mk_comment = comment, mk_attributes = Map.empty\<rparr> t n (threshold_data_encode W m)"

lemma pending_agreed: "mk_comment share = c \<Longrightarrow> pending_key W k share t n (threshold_data_encode W m) = agreed_key W k c t n m"
  by (simp add: agreed_key_def pending_key_def)

lemma agreed_twice: "agreed_key W (agreed_key W k c t n m) c t n m' = agreed_key W k c t n m'"
  by (simp add: agreed_key_def pending_key_def built_key_defs)

lemma add_shares_agreed:
  assumes ready: "bls_ready F W B"
  shows "collecting W B g m k \<Longrightarrow> add_shares F W B k shares = Ok k' \<Longrightarrow> shares \<noteq> [] \<Longrightarrow> length m + length shares < 2 ^ 64 \<Longrightarrow>
    (\<And>sh. sh \<in> set shares \<Longrightarrow> mk_comment sh = c \<and> (\<exists>i s. share_entry F W B sh = Some (i, s) \<and> ks_threshold s = t \<and> ks_limit s = n)) \<Longrightarrow>
    \<exists>m'. k' = agreed_key W k c t n m' \<and> collecting W B g m' k'"
proof (induction shares arbitrary: k m)
  case (Cons sh shares)
  obtain i s where s: "share_entry F W B sh = Some (i, s)" "ks_threshold s = t" "ks_limit s = n" "mk_comment sh = c"
    using Cons.prems(5)[of sh] by auto
  note content = s(1)[unfolded share_entry_eq]
  have codec: "mk_codec k = Bls12381 g BPriv" and F: "FBls12381 \<in> F"
    using Cons.prems(1) ready by (simp_all add: collecting_def bls_ready_def)
  let ?m = "bt_insert (bls_before B) (ks_identifier s) s m"
  have step: "view_add_share F W B k sh =
      (if ks_identifier s \<in> set (map fst m) then Err (error.Threshold ThDuplicateShare) else Ok (agreed_key W k c t n ?m))"
    using content s(2-4) insert_pending_collecting[OF ready Cons.prems(1), of s]
    by (simp add: view_add_share_eq[OF codec F] pending_agreed)
  then have new: "ks_identifier s \<notin> set (map fst m)" and rest: "add_shares F W B (agreed_key W k c t n ?m) shares = Ok k'"
    using Cons.prems(2) by (auto simp: add_shares_def split: if_splits)
  have next': "collecting W B g ?m (agreed_key W k c t n ?m)"
    using collecting_pending_key[OF ready Cons.prems(1) _ new, of sh t n] content Cons.prems(4) s(4) by (simp add: pending_agreed)
  show ?case
  proof (cases "shares = []")
    case True
    then show ?thesis
      using rest next' by (auto simp: add_shares_def)
  next
    case False
    have "length ?m + length shares < 2 ^ 64"
      using Cons.prems(4) by (simp add: length_bt_insert[OF new])
    then show ?thesis
      using Cons.IH[OF next' rest False] Cons.prems(5) by (auto simp: agreed_twice)
  qed
qed simp

section \<open>Split keys\<close>

definition share_key :: "wire \<Rightarrow> multikey \<Rightarrow> bls_group \<Rightarrow> nat \<Rightarrow> nat \<Rightarrow> bytes \<times> bytes \<Rightarrow> multikey" where
  "share_key W k g t n iv =
     built_key (with_identifier (with_limit W (with_threshold W (with_key_bytes
       (with_comment (builder_new (Bls12381 g BPrivShare)) (mk_comment k)) (snd iv)) t) n) (fst iv))"

lemma share_key_simps [simp]:
  "mk_codec (share_key W k g t n iv) = Bls12381 g BPrivShare"
  "mk_comment (share_key W k g t n iv) = mk_comment k"
  "mk_attributes (share_key W k g t n iv) KeyData = Some (snd iv)"
  "mk_attributes (share_key W k g t n iv) Threshold = Some (put_uint W t)"
  "mk_attributes (share_key W k g t n iv) Limit = Some (put_uint W n)"
  "mk_attributes (share_key W k g t n iv) ShareIdentifier = Some (fst iv)"
  by (simp_all add: share_key_def built_key_defs)

lemma bls_split_key_eq_Ok:
  "bls_split_key F W B k t n = Ok shares \<longleftrightarrow>
   (\<exists>g secret pairs. t \<le> n \<and> mk_codec k = Bls12381 g BPriv \<and> FBls12381 \<in> F
     \<and> secret_bytes (bls12381_view W k) = Ok secret \<and> SECRET_KEY_BYTES \<le> length secret
     \<and> bls_secret B g (take SECRET_KEY_BYTES secret)
     \<and> bls_split B g (take SECRET_KEY_BYTES secret) t n = Ok pairs
     \<and> shares = map (share_key W k g t n) pairs)"
proof -
  have pair: "(\<lambda>(ident, value). built_key (with_identifier (with_limit W (with_threshold W (with_key_bytes
      (with_comment (builder_new (Bls12381 g BPrivShare)) (mk_comment k)) value) t) n) ident)) = share_key W k g t n" for g
    by (simp add: share_key_def fun_eq_iff)
  show ?thesis
    unfolding bls_split_key_def pair
    by (cases "mk_codec k")
      (auto simp: attr_view_def dispatch_attr_view_def data_view_def dispatch_data_view_def arm_def outcome_simps
       bls_secret_key_def not_less bls_key_def sealed_view_def bls12381_view_def bls_priv_def split: bpart.splits if_splits)
qed

lemma share_key_entry:
  assumes "bls_ready F W B" "t < 2 ^ 64" "n < 2 ^ 64"
    and "length i = 32" "bls_canonical B i" "length v = 32"
  shows "share_entry F W B (share_key W k g t n (i, v)) =
    Some (i, \<lparr>ks_identifier = i, ks_threshold = t, ks_limit = n, ks_value = v\<rparr>)"
  using assms bls_view[of "share_key W k g t n (i, v)" g BPrivShare F W]
    bls_data_view(1)[of "share_key W k g t n (i, v)" g BPrivShare F W]
  by (simp add: share_entry_def share_content_def bls_ready_def bls_threshold_view_def usize_attr_def get_attr_def
      wire_ok_usize_of bytes_to_identifier_def SECRET_KEY_BYTES_def bls12381_view_def sealed_view_def key_data_def
      share_wf_def MAX_DECODED_SIZE_def)

text \<open>What a key that collects the shares of one splitting keeps of them.\<close>

lemma try_fold_invariant:
  "try_fold f k xs = Ok k' \<Longrightarrow> P k \<Longrightarrow> (\<And>k x k'. P k \<Longrightarrow> x \<in> set xs \<Longrightarrow> f k x = Ok k' \<Longrightarrow> P k') \<Longrightarrow> P k'"
proof (induction xs arbitrary: k)
  case (Cons x xs)
  obtain k1 where k1: "f k x = Ok k1" "try_fold f k1 xs = Ok k'"
    using Cons.prems(1) by (auto simp: and_then_eq_Ok)
  have "P k1"
    by (rule Cons.prems(3)[OF Cons.prems(2) _ k1(1)]) simp
  then show ?case
    by (rule Cons.IH[OF k1(2)]) (rule Cons.prems(3), simp_all)
qed simp

definition marked :: "wire \<Rightarrow> bls_group \<Rightarrow> bytes \<Rightarrow> nat \<Rightarrow> multikey \<Rightarrow> bool" where
  "marked W g comment t k \<longleftrightarrow>
     mk_codec k = Bls12381 g BPriv \<and> mk_comment k = comment \<and> mk_attributes k Threshold = Some (put_uint W t)"

lemma add_share_marked:
  assumes "mk_codec k = Bls12381 g BPriv" "mk_comment k = [] \<or> mk_comment k = mk_comment share"
    and "share_entry F W B share = Some (i, s)" "FBls12381 \<in> F" "view_add_share F W B k share = Ok k'"
  shows "marked W g (mk_comment share) (ks_threshold s) k'"
  using assms
  by (auto simp: view_add_share_eq share_entry_eq and_then_eq_Ok marked_def pending_key_def built_key_defs)

lemma add_shares_marked:
  assumes "mk_codec k = Bls12381 g BPriv" "mk_comment k = [] \<or> mk_comment k = comment" "FBls12381 \<in> F"
    and shares: "\<And>sh. sh \<in> set shs \<Longrightarrow> mk_comment sh = comment \<and>
      (\<exists>i s. share_entry F W B sh = Some (i, s) \<and> ks_threshold s = t)"
    and "shs \<noteq> []" "add_shares F W B k shs = Ok k'"
  shows "marked W g comment t k'"
proof -
  obtain sh rest where shs: "shs = sh # rest"
    using assms(5) by (cases shs) auto
  obtain k1 where k1: "view_add_share F W B k sh = Ok k1" and k': "try_fold (view_add_share F W B) k1 rest = Ok k'"
    using assms(6) by (auto simp: add_shares_def shs and_then_eq_Ok)
  have "marked W g comment t k1"
    using add_share_marked[OF assms(1) _ _ assms(3) k1] shares[of sh] assms(2) by (auto simp: shs)
  then show ?thesis
  proof (rule try_fold_invariant[OF k', where P = "marked W g comment t"])
    fix a x b
    assume "marked W g comment t a" "x \<in> set rest" "view_add_share F W B a x = Ok b"
    then show "marked W g comment t b"
      using add_share_marked[of a g x F W B _ _ b] assms(3) shares[of x] by (auto simp: shs marked_def)
  qed
qed

text \<open>
  The parameters of a collecting key are those of the newest share: nothing compares them with the
  parameters of the shares that came before.
\<close>

lemma newest_share_sets_threshold:
  assumes "mk_codec k = Bls12381 g BPriv" "FBls12381 \<in> F" "view_add_share F W B k share = Ok k'"
  shows "\<exists>s. share_content F W B share = Ok s \<and> mk_attributes k' Threshold = Some (put_uint W (ks_threshold s))
    \<and> mk_attributes k' Limit = Some (put_uint W (ks_limit s))"
  using assms by (auto simp: view_add_share_eq and_then_eq_Ok pending_key_def built_key_defs)

text \<open>
  With a metadata key the parameters of a share are decrypted, and the collecting key stores them in
  plaintext whatever the disclosure mode of the share is.
\<close>

lemma meta_params_in_plaintext:
  assumes "read_threshold_params F W M share meta_key = Ok (t, n)"
    and "bls_add_share_with_meta F W M B k share meta_key = Ok k'"
  shows "mk_attributes k' Threshold = Some (put_uint W t) \<and> mk_attributes k' Limit = Some (put_uint W n)"
  using assms by (auto simp: bls_add_share_with_meta_def and_then_eq_Ok pending_key_def built_key_defs)

text \<open>Combining what was collected.\<close>

lemma collecting_combine:
  assumes "bls_ready F W B" "collecting W B g m k" "marked W g comment t k" "t < 2 ^ 64"
  shows "bls_combine_key F W B k = combine_pending B k m t"
proof -
  have "ta_threshold (bls_threshold_view W k) = Ok t"
    using assms by (simp add: bls_threshold_view_def usize_attr_def get_attr_def marked_def wire_ok_usize_of bls_ready_def)
  then show ?thesis
    by (simp add: bls_combine_key_def collecting_reads(1,2)[OF assms(1,2)])
qed

lemma combine_pending_sharing:
  assumes sharing: "bls_sharing B g secret t n pairs" and k: "marked W g comment t k"
    and m: "distinct (map fst m)" "(\<lambda>(i, s). (i, ks_value s)) ` set m \<subseteq> set pairs"
  shows "combine_pending B k m t =
    (if length m < t then Err (error.Threshold ThNotEnoughShares)
     else Ok \<lparr>mk_codec = Bls12381 g BPriv, mk_comment = comment, mk_attributes = attr_insert KeyData secret Map.empty\<rparr>)"
proof -
  let ?sub = "map (\<lambda>(i, s). (i, ks_value s)) m"
  have "collect (\<lambda>(ident, share). and_then (bytes_to_value B (ks_value share)) (\<lambda>v. Ok (ident, v))) m = Ok ?sub"
  proof (rule collect_map_Ok, clarify)
    fix i s
    assume "(i, s) \<in> set m"
    then have "(i, ks_value s) \<in> set pairs"
      using m(2) by force
    then have "length (ks_value s) = 32 \<and> bls_canonical B (ks_value s)"
      using sharing unfolding bls_sharing_def by blast
    then show "and_then (bytes_to_value B (ks_value s)) (\<lambda>v. Ok (i, v)) = Ok (i, ks_value s)"
      by (simp add: bytes_to_value_def SECRET_KEY_BYTES_def)
  qed
  moreover have "bls_combine B g ?sub = Ok secret" if "t \<le> length m"
  proof -
    have keys: "map fst ?sub = map fst m"
      by (simp add: comp_def case_prod_unfold)
    have comb: "bls_combine B g sub = Ok secret"
      if "distinct (map fst sub)" "set sub \<subseteq> set pairs" "t \<le> length sub" for sub
      using sharing that unfolding bls_sharing_def by blast
    show ?thesis
      by (rule comb, unfold keys) (use m that in simp_all)
  qed
  ultimately show ?thesis
    using k by (simp add: combine_pending_def marked_def built_key_defs not_less)
qed

text \<open>A builder that was given shares.\<close>

definition collect_shares :: "codec \<Rightarrow> multikey list \<Rightarrow> builder" where
  "collect_shares c shares = foldl add_key_share (builder_new c) shares"

lemma foldl_add_key_share:
  "b_shares (foldl add_key_share b xs) =
     (if xs = [] then b_shares b else Some ((case b_shares b of Some ss \<Rightarrow> ss | None \<Rightarrow> []) @ xs))"
  "built_key (foldl add_key_share b xs) = built_key b"
  by (induction xs arbitrary: b) (simp_all add: add_key_share_def built_key_def unwrap_attributes_def)

lemma try_build_collect:
  "try_build F W B (collect_shares c shares) =
     add_shares F W B \<lparr>mk_codec = c, mk_comment = [], mk_attributes = Map.empty\<rparr> shares"
  by (simp add: try_build_def collect_shares_def foldl_add_key_share)
     (simp add: built_key_defs add_shares_def)

lemma collecting_nothing:
  "collecting W B g [] \<lparr>mk_codec = Bls12381 g BPriv, mk_comment = [], mk_attributes = Map.empty\<rparr>"
  by (simp add: collecting_def shares_wf_def bt_sorted_def)

text \<open>The shares of a splitting that arrive at the builder, as entries of the map.\<close>

lemma split_entries:
  assumes ok: "bls_ready F W B" and sharing: "bls_sharing B g secret t n pairs" and n: "t \<le> n" "n < 2 ^ 64"
    and "is": "set is \<subseteq> {..<n}"
  defines "es \<equiv> map (\<lambda>j. (fst (pairs ! j), \<lparr>ks_identifier = fst (pairs ! j), ks_threshold = t, ks_limit = n,
      ks_value = snd (pairs ! j)\<rparr>)) is"
  shows "map (share_entry F W B) (map ((!) (map (share_key W k g t n) pairs)) is) = map Some es"
    and "distinct (map fst es) \<longleftrightarrow> distinct is"
    and "(\<lambda>(i, s). (i, ks_value s)) ` set es \<subseteq> set pairs"
    and "sh \<in> set (map ((!) (map (share_key W k g t n) pairs)) is) \<Longrightarrow>
      mk_comment sh = mk_comment k \<and> (\<exists>i s. share_entry F W B sh = Some (i, s) \<and> ks_threshold s = t)"
proof -
  have len: "length pairs = n" and distinct: "distinct (map fst pairs)"
    and wf: "\<And>i v. (i, v) \<in> set pairs \<Longrightarrow> length i = 32 \<and> bls_canonical B i \<and> length v = 32"
    using sharing by (auto simp: bls_sharing_def)
  have j: "j < n \<Longrightarrow> (fst (pairs ! j), snd (pairs ! j)) \<in> set pairs" for j
    using len by simp
  have entry: "share_entry F W B (map (share_key W k g t n) pairs ! j) =
      Some (fst (pairs ! j), \<lparr>ks_identifier = fst (pairs ! j), ks_threshold = t, ks_limit = n, ks_value = snd (pairs ! j)\<rparr>)"
    if "j < n" for j
    using share_key_entry[OF ok _ n(2), of t "fst (pairs ! j)" "snd (pairs ! j)" k g] wf[OF j[OF that]] n that len
    by simp
  show "map (share_entry F W B) (map ((!) (map (share_key W k g t n) pairs)) is) = map Some es"
    using entry "is" by (auto simp: es_def)
  show "mk_comment sh = mk_comment k \<and> (\<exists>i s. share_entry F W B sh = Some (i, s) \<and> ks_threshold s = t)"
    if sh: "sh \<in> set (map ((!) (map (share_key W k g t n) pairs)) is)"
  proof -
    obtain j where j: "j < n" "sh = map (share_key W k g t n) pairs ! j"
      using sh "is" by (auto simp: subset_iff)
    then show ?thesis
      using entry[OF j(1)] len by simp
  qed
  have "inj_on ((!) (map fst pairs)) (set is)"
    by (rule inj_on_nth[OF distinct]) (use "is" len in auto)
  moreover have "map fst es = map ((!) (map fst pairs)) is"
    using "is" len by (auto simp: es_def)
  ultimately show "distinct (map fst es) \<longleftrightarrow> distinct is"
    by (simp add: distinct_map)
  show "(\<lambda>(i, s). (i, ks_value s)) ` set es \<subseteq> set pairs"
    using "is" len by (auto simp: es_def)
qed

lemma collected_shares_combine:
  assumes ok: "bls_lib_ok B" "wire_ok W" and split: "bls_split_key F W B k t n = Ok shares"
    and n: "n < 2 ^ 64" and "is": "distinct is" "set is \<subseteq> {..<n}" "is \<noteq> []"
  shows "\<exists>secret pk. mk_attributes k KeyData = Some secret
    \<and> try_build F W B (collect_shares (mk_codec k) (map ((!) shares) is)) = Ok pk
    \<and> bls_combine_key F W B pk =
        (if length is < t then Err (error.Threshold ThNotEnoughShares)
         else Ok \<lparr>mk_codec = mk_codec k, mk_comment = mk_comment k,
                 mk_attributes = attr_insert KeyData (take SECRET_KEY_BYTES secret) Map.empty\<rparr>)"
proof -
  obtain g secret pairs where k: "mk_codec k = Bls12381 g BPriv" and F: "FBls12381 \<in> F" and t: "t \<le> n"
    and secret: "mk_attributes k KeyData = Some secret"
    and pairs: "bls_split B g (take SECRET_KEY_BYTES secret) t n = Ok pairs"
    and shares: "shares = map (share_key W k g t n) pairs"
    using split by (auto simp: bls_split_key_eq_Ok bls12381_view_def sealed_view_def outcome_simps split: if_splits)
  have ready: "bls_ready F W B" and sharing: "bls_sharing B g (take SECRET_KEY_BYTES secret) t n pairs"
    using F ok bls_libD(3)[OF ok(1) pairs] by (simp_all add: bls_ready_def)
  define es where "es = map (\<lambda>j. (fst (pairs ! j), \<lparr>ks_identifier = fst (pairs ! j), ks_threshold = t,
      ks_limit = n, ks_value = snd (pairs ! j)\<rparr>)) is"
  let ?shs = "map ((!) shares) is" and ?k0 = "\<lparr>mk_codec = mk_codec k, mk_comment = [], mk_attributes = Map.empty\<rparr>"
  note entries = split_entries[OF ready sharing t n "is"(2), folded es_def]
  have entries_shs: "map (share_entry F W B) ?shs = map Some es"
    using entries(1) by (simp add: shares)
  have k0: "collecting W B g [] ?k0"
    using collecting_nothing by (simp add: k)
  have pool0: "pending_map W B ?k0 = Map.empty"
    using collecting_reads(3)[OF ready k0] by simp
  have room: "length es \<le> 2 ^ 64 - 1"
    using card_mono[OF _ "is"(2)] distinct_card[OF "is"(1)] n by (simp add: es_def)
  have distinct: "distinct (map fst es)"
    using entries(2) "is"(1) by simp
  obtain pk where pk: "try_fold (view_add_share F W B) ?k0 ?shs = Ok pk" "pending_map W B pk = map_of es"
    and inv: "\<exists>g m. collecting W B g m pk"
    using bls.add_all_new[of F W B ?k0 ?shs es] ready k0 entries_shs distinct room by (auto simp: pool0)
  have each: "mk_comment sh = mk_comment k \<and> (\<exists>i s. share_entry F W B sh = Some (i, s) \<and> ks_threshold s = t)"
    if "sh \<in> set ?shs" for sh
    using entries(4)[of sh k] that unfolding shares by blast
  have marked: "marked W g (mk_comment k) t pk"
  proof (rule add_shares_marked[OF _ _ F])
    show "add_shares F W B ?k0 ?shs = Ok pk"
      using pk(1) by (simp add: add_shares_def)
  qed (use k "is"(3) each in auto)
  obtain m where m: "collecting W B g m pk"
    using inv marked by (auto simp: collecting_def marked_def)
  have set: "set m = set es" and keys: "distinct (map fst m)"
    using collecting_reads(3,4)[OF ready m] pk(2) distinct by (auto simp: map_of_inject_set)
  have len: "length m = length is"
  proof -
    have "length m = length es"
      using set keys distinct by (metis distinct_card distinct_map)
    then show ?thesis
      by (simp add: es_def)
  qed
  have "bls_combine_key F W B pk = combine_pending B pk m t"
    using collecting_combine[OF ready m marked] t n by simp
  also have "\<dots> = (if length is < t then Err (error.Threshold ThNotEnoughShares)
      else Ok \<lparr>mk_codec = Bls12381 g BPriv, mk_comment = mk_comment k,
              mk_attributes = attr_insert KeyData (take SECRET_KEY_BYTES secret) Map.empty\<rparr>)"
    using combine_pending_sharing[OF sharing marked keys] entries(3) by (simp add: set len)
  finally show ?thesis
    using pk(1) secret by (simp add: try_build_collect add_shares_def k)
qed

lemma share_given_twice:
  assumes ok: "bls_lib_ok B" "wire_ok W" and split: "bls_split_key F W B k t n = Ok shares"
    and n: "n < 2 ^ 64" and "is": "set is \<subseteq> {..<n}" "\<not> distinct is" "length is < 2 ^ 64"
  shows "try_build F W B (collect_shares (mk_codec k) (map ((!) shares) is)) = Err (error.Threshold ThDuplicateShare)"
proof -
  obtain g secret pairs where k: "mk_codec k = Bls12381 g BPriv" and F: "FBls12381 \<in> F" and t: "t \<le> n"
    and pairs: "bls_split B g (take SECRET_KEY_BYTES secret) t n = Ok pairs"
    and shares: "shares = map (share_key W k g t n) pairs"
    using split by (auto simp: bls_split_key_eq_Ok)
  have ready: "bls_ready F W B" and sharing: "bls_sharing B g (take SECRET_KEY_BYTES secret) t n pairs"
    using F ok bls_libD(3)[OF ok(1) pairs] by (simp_all add: bls_ready_def)
  note entries = split_entries[OF ready sharing t n "is"(1)]
  have k0: "collecting W B g [] \<lparr>mk_codec = mk_codec k, mk_comment = [], mk_attributes = Map.empty\<rparr>"
    using collecting_nothing by (simp add: k)
  show ?thesis
    unfolding try_build_collect add_shares_def shares
    by (rule bls.add_all_known[OF _ entries(1)])
      (use ready k0 collecting_reads(3)[OF ready k0] entries(2) "is"(2,3) in auto)
qed

section \<open>An example\<close>

text \<open>Shares that carry the whole secret, numbered from one.\<close>

definition toy_identifier :: "nat \<Rightarrow> bytes" where
  "toy_identifier j = replicate 31 0 @ [of_nat j]"

fun bytes_before :: "bytes \<Rightarrow> bytes \<Rightarrow> bool" where
  "bytes_before [] bs = (bs \<noteq> [])"
| "bytes_before (a # as) [] = False"
| "bytes_before (a # as) (b # bs) = (a < b \<or> a = b \<and> bytes_before as bs)"

definition toy_bls :: bls_lib where
  "toy_bls =
     \<lparr>bls_canonical = \<lambda>b. True, bls_before = bytes_before, bls_secret = \<lambda>g b. True,
      bls_public = \<lambda>g b. b, bls_share_public = \<lambda>g i v. Ok (i, v),
      bls_split = \<lambda>g secret t n.
        if 2 \<le> t \<and> n < 256 \<and> length secret = 32 then Ok (map (\<lambda>j. (toy_identifier (Suc j), secret)) [0..<n])
        else Err ''bad'',
      bls_combine = \<lambda>g shares. case shares of [] \<Rightarrow> Err ''none'' | (_, v) # _ \<Rightarrow> Ok v,
      get_array32 = \<lambda>bs. if length bs < 32 then Err ''insufficient data'' else Ok (take 32 bs, drop 32 bs),
      error_text = \<lambda>e. ''bad shares'', codec_text = \<lambda>c. ''codec''\<rparr>"

lemma bytes_before_order: "strict_order bytes_before"
proof -
  have "bytes_before a b \<Longrightarrow> \<not> bytes_before b a" for a b
  proof (induction a b rule: bytes_before.induct)
    case (1 bs)
    then show ?case
      by (cases bs) auto
  qed auto
  moreover have "bytes_before a b \<Longrightarrow> bytes_before b c \<Longrightarrow> bytes_before a c" for a b c
  proof (induction a b arbitrary: c rule: bytes_before.induct)
    case (3 a as b bs)
    then show ?case
      by (cases c) auto
  next
    case (1 bs)
    then show ?case
      by (cases bs; cases c) auto
  qed simp
  moreover have "a \<noteq> b \<Longrightarrow> bytes_before a b \<or> bytes_before b a" for a b
    by (induction a b rule: bytes_before.induct) auto
  ultimately show ?thesis
    unfolding strict_order_def by blast
qed

lemma toy_identifier_inject:
  assumes "i < 256" "j < 256" "toy_identifier i = toy_identifier j"
  shows "i = j"
proof -
  have "(of_nat i :: byte) = of_nat j"
    using assms(3) by (simp add: toy_identifier_def)
  then show ?thesis
    using unat_of_nat_byte[OF assms(1)] unat_of_nat_byte[OF assms(2)] by metis
qed

lemma toy_bls_ok: "bls_lib_ok toy_bls"
proof -
  have "bls_sharing toy_bls g secret t n (map (\<lambda>j. (toy_identifier (Suc j), secret)) [0..<n])"
    if t: "2 \<le> t" and n: "n < 256" and len: "length secret = 32" for g secret t n
  proof -
    have "inj_on (\<lambda>j. toy_identifier (Suc j)) {0..<n}"
    proof (rule inj_onI)
      fix x y
      assume "x \<in> {0..<n}" "y \<in> {0..<n}" "toy_identifier (Suc x) = toy_identifier (Suc y)"
      then have "Suc x = Suc y"
        using n by (intro toy_identifier_inject) simp_all
      then show "x = y"
        by simp
    qed
    moreover have "bls_combine toy_bls g sub = Ok secret"
      if "set sub \<subseteq> set (map (\<lambda>j. (toy_identifier (Suc j), secret)) [0..<n])" "t \<le> length sub" for sub
      using that t by (cases sub) (auto simp: toy_bls_def)
    ultimately show ?thesis
      using t len by (auto simp: bls_sharing_def distinct_map comp_def toy_identifier_def toy_bls_def)
  qed
  then show ?thesis
    unfolding bls_lib_ok_def
    by (auto simp: toy_bls_def bytes_before_order split: if_splits)
qed

definition example_bls_key :: multikey where
  "example_bls_key = \<lparr>mk_codec = Bls12381 G1 BPriv, mk_comment = [0x6B],
     mk_attributes = attr_insert KeyData (replicate 32 7) Map.empty\<rparr>"

abbreviation example_shares :: "multikey list" where
  "example_shares \<equiv> map (share_key leb_wire example_bls_key G1 2 3)
     (map (\<lambda>j. (toy_identifier (Suc j), replicate 32 7)) [0..<3])"

lemma example_bls_split: "bls_split_key {FBls12381} leb_wire toy_bls example_bls_key 2 3 = Ok example_shares"
  by (simp add: bls_split_key_eq_Ok example_bls_key_def bls12381_view_def sealed_view_def bls_priv_def
      bls_encrypted_flag_def get_attr_def key_data_def SECRET_KEY_BYTES_def toy_bls_def)

lemma example_ready: "bls_ready {FBls12381} leb_wire toy_bls"
  by (simp add: bls_ready_def leb_wire_ok toy_bls_ok)

lemma example_share_entry:
  "share_entry {FBls12381} leb_wire toy_bls (share_key leb_wire example_bls_key G1 2 3 (toy_identifier j, replicate 32 7)) =
   Some (toy_identifier j, \<lparr>ks_identifier = toy_identifier j, ks_threshold = 2, ks_limit = 3, ks_value = replicate 32 7\<rparr>)"
  by (rule share_key_entry[OF example_ready]) (simp_all add: toy_identifier_def toy_bls_def)

abbreviation empty_bls_key :: multikey where
  "empty_bls_key \<equiv> \<lparr>mk_codec = Bls12381 G1 BPriv, mk_comment = [], mk_attributes = Map.empty\<rparr>"

lemma empty_pending: "pending_map leb_wire toy_bls empty_bls_key = Map.empty"
  by (simp add: pending_map_def get_attr_def)

section \<open>Properties\<close>

text \<open>
  C6: A BLS key that is split is reconstructed from any threshold-many of its shares, in any order: a
  builder that is given the shares builds a key, and combining it gives a key of the same codec and
  comment whose key bytes are the first 32 bytes of the split key.
\<close>

theorem bls_split_then_combine:
  assumes "bls_lib_ok B" and "wire_ok W" and "bls_split_key F W B k t n = Ok shares" and "n < 2 ^ 64"
    and "chosen t n is"
  shows "\<exists>secret pk. mk_attributes k KeyData = Some secret
    \<and> try_build F W B (collect_shares (mk_codec k) (map ((!) shares) is)) = Ok pk
    \<and> bls_combine_key F W B pk = Ok \<lparr>mk_codec = mk_codec k, mk_comment = mk_comment k,
          mk_attributes = attr_insert KeyData (take SECRET_KEY_BYTES secret) Map.empty\<rparr>"
proof -
  have t: "2 \<le> t"
    using assms(1,3) bls_libD(3) unfolding bls_split_key_eq_Ok bls_sharing_def by blast
  have "is": "distinct is" "set is \<subseteq> {..<n}" "is \<noteq> []" and enough: "\<not> length is < t"
    using assms(5) t by (auto simp: chosen_def)
  show ?thesis
    using collected_shares_combine[OF assms(1-4) "is"] unfolding if_not_P[OF enough] .
qed

theorem bls_split_then_combine_witness:
  "\<exists>pk. try_build {FBls12381} leb_wire toy_bls
       (collect_shares (Bls12381 G1 BPriv) [example_shares ! 2, example_shares ! 0]) = Ok pk
     \<and> bls_combine_key {FBls12381} leb_wire toy_bls pk = Ok example_bls_key"
  using bls_split_then_combine[OF toy_bls_ok leb_wire_ok example_bls_split, of "[2, 0]"]
  by (simp add: chosen_def SECRET_KEY_BYTES_def example_bls_key_def)

text \<open>
  With at least one share but fewer than the threshold, the shares are collected but combining
  fails with \<^verbatim>\<open>NotEnoughShares\<close>: no key is returned.
\<close>

lemma bls_too_few_shares:
  assumes "bls_lib_ok B" and "wire_ok W" and "bls_split_key F W B k t n = Ok shares" and "n < 2 ^ 64"
    and "distinct is" and "set is \<subseteq> {..<n}" and "is \<noteq> []" and "length is < t"
  shows "\<exists>pk. try_build F W B (collect_shares (mk_codec k) (map ((!) shares) is)) = Ok pk
    \<and> bls_combine_key F W B pk = Err (error.Threshold ThNotEnoughShares)"
  using collected_shares_combine[OF assms(1-7)] assms(8) by auto

lemma bls_too_few_shares_witness:
  "\<exists>pk. try_build {FBls12381} leb_wire toy_bls (collect_shares (Bls12381 G1 BPriv) [example_shares ! 1]) = Ok pk
     \<and> bls_combine_key {FBls12381} leb_wire toy_bls pk = Err (error.Threshold ThNotEnoughShares)"
  using bls_too_few_shares[OF toy_bls_ok leb_wire_ok example_bls_split, of "[1]"]
  by (simp add: example_bls_key_def)

text \<open>
  C27: The same share given twice is refused with \<^verbatim>\<open>DuplicateShare\<close>, wherever in the sequence it
  comes again, and no key is built.
\<close>

theorem bls_duplicate_share:
  assumes "bls_lib_ok B" and "wire_ok W" and "bls_split_key F W B k t n = Ok shares" and "n < 2 ^ 64"
    and "set is \<subseteq> {..<n}" and "\<not> distinct is" and "length is < 2 ^ 64"
  shows "try_build F W B (collect_shares (mk_codec k) (map ((!) shares) is)) = Err (error.Threshold ThDuplicateShare)"
  using assms by (rule share_given_twice)

theorem bls_duplicate_share_witness:
  "try_build {FBls12381} leb_wire toy_bls
     (collect_shares (Bls12381 G1 BPriv) [example_shares ! 2, example_shares ! 0, example_shares ! 2]) =
   Err (error.Threshold ThDuplicateShare)"
  using bls_duplicate_share[OF toy_bls_ok leb_wire_ok example_bls_split, of "[2, 0, 2]"]
  by (simp add: example_bls_key_def)

text \<open>
  C7: Adding a share refines the update of a map. What a collecting key stands for is the map from
  identifiers to shares that its threshold data encodes; a share with a new identifier updates that
  map at the identifier and leaves a collecting key, a share with a known one is refused.
\<close>

theorem add_share_refines_update:
  assumes "bls_ready F W B" and "collecting W B g m k" and "length m + 1 < 2 ^ 64"
    and "share_content F W B share = Ok s" and "share_wf B s"
  shows "if pending_map W B k (ks_identifier s) = None
    then \<exists>k'. view_add_share F W B k share = Ok k' \<and> (\<exists>g' m'. collecting W B g' m' k')
           \<and> pending_map W B k' = (pending_map W B k)(ks_identifier s \<mapsto> s)
    else view_add_share F W B k share = Err (error.Threshold ThDuplicateShare)"
proof -
  have inv: "bls_ready F W B \<and> (\<exists>g m. collecting W B g m k)"
    using assms(1,2) by blast
  have entry: "share_entry F W B share = Some (ks_identifier s, s)"
    using assms(4,5) by (simp add: share_entry_eq)
  have "card (dom (pending_map W B k)) < 2 ^ 64 - 1"
    using collecting_reads(5)[OF assms(1,2)] assms(3) by simp
  then show ?thesis
    using bls.add_new[OF inv entry] bls.add_known[OF inv entry] by auto
qed

theorem add_share_refines_update_witness:
  "\<exists>k'. view_add_share {FBls12381} leb_wire toy_bls empty_bls_key (example_shares ! 0) = Ok k'
    \<and> pending_map leb_wire toy_bls k' (toy_identifier 1) = Some \<lparr>ks_identifier = toy_identifier 1,
         ks_threshold = 2, ks_limit = 3, ks_value = replicate 32 7\<rparr>"
proof -
  have "share_content {FBls12381} leb_wire toy_bls (example_shares ! 0) = Ok \<lparr>ks_identifier = toy_identifier 1,
      ks_threshold = 2, ks_limit = 3, ks_value = replicate 32 7\<rparr>"
    and "share_wf toy_bls \<lparr>ks_identifier = toy_identifier 1, ks_threshold = 2, ks_limit = 3, ks_value = replicate 32 7\<rparr>"
    using example_share_entry[of 1] by (simp_all add: share_entry_eq)
  note refines = add_share_refines_update[OF example_ready collecting_nothing _ this]
  show ?thesis
    using refines[of G1] by (auto simp: empty_pending simp del: One_nat_def)
qed

text \<open>
  Whatever the shares say of threshold and limit, the map that is collected does not depend on their order.
\<close>

lemma add_shares_same_map:
  assumes "bls_ready F W B" and "collecting W B g m k"
    and "map (share_entry F W B) shares = map Some es" and "distinct (map fst es)"
    and "set (map fst es) \<inter> dom (pending_map W B k) = {}" and "length m + length es < 2 ^ 64"
    and "mset shares' = mset shares"
  shows "\<exists>k1 k2. add_shares F W B k shares = Ok k1 \<and> add_shares F W B k shares' = Ok k2
    \<and> pending_map W B k1 = pending_map W B k2"
  unfolding add_shares_def
  by (rule bls.add_all_order[OF _ assms(3,4,5) _ assms(7)])
     (use assms(1,2,6) collecting_reads(5)[OF assms(1,2)] in auto)

text \<open>
  C28: Shares that agree on threshold, limit and comment, as the shares of one split do, can be added to a
  collecting key in any order: the result is the same key, so combining it gives the same key too. The identifiers
  must be new and different from each other.
\<close>

theorem add_shares_any_order:
  assumes "bls_ready F W B" and "collecting W B g m k"
    and "map (share_entry F W B) shares = map Some es" and "distinct (map fst es)"
    and "set (map fst es) \<inter> dom (pending_map W B k) = {}" and "length m + length es < 2 ^ 64"
    and "\<forall>share \<in> set shares. mk_comment share = c" and "\<forall>(i, s) \<in> set es. ks_threshold s = t \<and> ks_limit s = n"
    and "mset shares' = mset shares"
  shows "\<exists>k'. add_shares F W B k shares = Ok k' \<and> add_shares F W B k shares' = Ok k'"
proof (cases "shares = []")
  case True
  then show ?thesis
    using assms(9) by (simp add: add_shares_def)
next
  case False
  obtain k1 k2 where k: "add_shares F W B k shares = Ok k1" "add_shares F W B k shares' = Ok k2"
    and same: "pending_map W B k1 = pending_map W B k2"
    using bls.add_all_order[OF _ assms(3,4,5) _ assms(9)] assms(1,2,6) collecting_reads(5)[OF assms(1,2)]
    unfolding add_shares_def by fastforce
  have entry: "mk_comment sh = c \<and> (\<exists>i s. share_entry F W B sh = Some (i, s) \<and> ks_threshold s = t \<and> ks_limit s = n)"
    if "sh \<in> set shares" for sh
  proof -
    have "share_entry F W B sh \<in> Some ` set es"
      using that assms(3) by (metis image_eqI image_set)
    then show ?thesis
      using that assms(7,8) by fastforce
  qed
  have "length shares = length es"
    using assms(3) by (metis length_map)
  then have len: "length m + length shares < 2 ^ 64" "length m + length shares' < 2 ^ 64" "shares' \<noteq> []"
    using assms(6,9) False mset_eq_length[OF assms(9)] by auto
  obtain m1 where m1: "k1 = agreed_key W k c t n m1" "collecting W B g m1 k1"
    using add_shares_agreed[OF assms(1,2) k(1) False len(1)] entry by blast
  obtain m2 where m2: "k2 = agreed_key W k c t n m2" "collecting W B g m2 k2"
    using add_shares_agreed[OF assms(1,2) k(2) len(3,2)] entry mset_eq_setD[OF assms(9)] by blast
  have "map_of m1 = map_of m2" "distinct (map fst m1)" "distinct (map fst m2)"
    using same collecting_reads(3,4)[OF assms(1) m1(2)] collecting_reads(3,4)[OF assms(1) m2(2)] by simp_all
  then have "set m1 = set m2"
    by (metis map_of_eqI map_of_inject_set)
  moreover have "bt_sorted (bls_before B) m1" "bt_sorted (bls_before B) m2"
    using m1(2) m2(2) by (simp_all add: collecting_def shares_wf_def)
  ultimately have "m1 = m2"
    using bt_sorted_unique[OF bls_libD(1)] assms(1) by (auto simp: bls_ready_def)
  then show ?thesis
    using k m1(1) m2(1) by simp
qed

theorem add_shares_any_order_witness:
  "\<exists>k'. add_shares {FBls12381} leb_wire toy_bls empty_bls_key [example_shares ! 0, example_shares ! 1] = Ok k'
    \<and> add_shares {FBls12381} leb_wire toy_bls empty_bls_key [example_shares ! 1, example_shares ! 0] = Ok k'"
proof (rule add_shares_any_order[OF example_ready collecting_nothing, where c = "[0x6B]" and t = 2 and n = 3])
  show "map (share_entry {FBls12381} leb_wire toy_bls) [example_shares ! 0, example_shares ! 1] =
    map Some (map (\<lambda>j. (toy_identifier j, \<lparr>ks_identifier = toy_identifier j, ks_threshold = 2, ks_limit = 3,
      ks_value = replicate 32 7\<rparr>)) [1, 2])"
    using example_share_entry[of 1] example_share_entry[of 2] by (simp add: numeral_2_eq_2)
qed (simp_all add: empty_pending toy_identifier_def example_bls_key_def)

text \<open>
  C29: The decoder of threshold data accepts bytes exactly if they announce a number of shares, that many shares can
  be read one after the other, and no identifier comes twice; the result is then the map of exactly these shares,
  ordered by identifier.
\<close>

theorem threshold_data_well_formed:
  assumes "bls_lib_ok B"
  shows "threshold_data_from W B bs = Ok m \<longleftrightarrow>
    (\<exists>n p ss. get_usize W bs = Ok (n, p) \<and> shares_in W B n p = Ok ss \<and> distinct (map ks_identifier ss)
       \<and> sorted_wrt (bls_before B) (map fst m) \<and> set m = (\<lambda>s. (ks_identifier s, s)) ` set ss)"
  using threshold_data_from_eq_Ok[OF assms] by (simp add: bt_sorted_def)

theorem threshold_data_well_formed_witness:
  "threshold_data_from leb_wire toy_bls (leb_put 1 @ toy_identifier 5 @ leb_put 2 @ leb_put 3 @ leb_put 1 @ [9]) =
     Ok [(toy_identifier 5, \<lparr>ks_identifier = toy_identifier 5, ks_threshold = 2, ks_limit = 3, ks_value = [9]\<rparr>)]
   \<and> (\<exists>n p ss. get_usize leb_wire (leb_put 1 @ toy_identifier 5 @ leb_put 2 @ leb_put 3 @ leb_put 1 @ [9]) = Ok (n, p)
        \<and> shares_in leb_wire toy_bls n p = Ok ss)"
proof -
  let ?m = "[(toy_identifier 5, \<lparr>ks_identifier = toy_identifier 5, ks_threshold = 2, ks_limit = 3, ks_value = [9]\<rparr>)]"
  have "threshold_data_encode leb_wire ?m =
      leb_put 1 @ toy_identifier 5 @ leb_put 2 @ leb_put 3 @ leb_put 1 @ [9]"
    by (simp add: threshold_data_encode_def key_share_encode_def Let_def encode_varbytes_into_def leb_wire_def)
  moreover have "shares_wf toy_bls ?m"
    by (simp add: shares_wf_def bt_sorted_def share_wf_def toy_identifier_def toy_bls_def MAX_DECODED_SIZE_def)
  ultimately have dec: "threshold_data_from leb_wire toy_bls
      (leb_put 1 @ toy_identifier 5 @ leb_put 2 @ leb_put 3 @ leb_put 1 @ [9]) = Ok ?m"
    using threshold_data_from_encode[OF leb_wire_ok toy_bls_ok, of ?m] by simp
  then show ?thesis
    using iffD1[OF threshold_data_well_formed[OF toy_bls_ok] dec] by blast
qed

text \<open>
  A BLS private key with fewer than 32 key bytes makes splitting and deriving the public key
  panic instead of returning an error: the key bytes are sliced before their length is checked.
\<close>

lemma short_bls_key_panics:
  assumes "mk_codec k = Bls12381 g BPriv" and "FBls12381 \<in> F" and "\<not> bls_encrypted_flag W k"
    and "mk_attributes k KeyData = Some secret" and "length secret < SECRET_KEY_BYTES" and "t \<le> n"
  shows "bls_split_key F W B k t n = Panic \<and> bls_to_public_key F W B k = Panic"
  using assms bls_data_view[of k g BPriv F W]
  by (simp add: bls_split_key_def bls_to_public_key_def bls12381_view_def sealed_view_def bls_priv_def key_data_def
      get_attr_def bls_secret_key_def)

lemma short_bls_key_panics_witness:
  "bls_to_public_key {FBls12381} leb_wire toy_bls (example_bls_key\<lparr>mk_attributes := attr_insert KeyData [7] Map.empty\<rparr>) = Panic"
  using short_bls_key_panics[of "example_bls_key\<lparr>mk_attributes := attr_insert KeyData [7] Map.empty\<rparr>" G1 "{FBls12381}"
    leb_wire "[7]" 2 3 toy_bls]
  by (simp add: example_bls_key_def bls_encrypted_flag_def get_attr_def SECRET_KEY_BYTES_def)

end
