(* ===== verification/Mk_Merkle.thy ===== *)
theory Mk_Merkle
  imports Mk_Multisig Mk_Stateful
begin

text \<open>
  Merkle-tree Lamport keys (\<^verbatim>\<open>src/views/lamport_merkle.rs\<close>): stateful keys with \<open>2 ^ depth\<close> one-time
  leaves. Signing consumes the next leaf and returns the advanced key; the view checks the depth
  that is stored as an attribute against the depth inside the key and signature bytes, and reports
  how many leaves are left. The tree signatures (\<^verbatim>\<open>lamport_signature_plus\<close>) and the multisig type
  (\<^verbatim>\<open>multi_sig\<close>) are external. The use of a key over time is the step relation
  \<open>signs\<close> of \<open>Mk_Stateful\<close>.
\<close>

section \<open>The external types and functions\<close>

record merkle_lib = ms_lib +
  mt_public :: "lamport_digest \<Rightarrow> bytes \<Rightarrow> (string, bytes) outcome"
  mt_sign :: "lamport_digest \<Rightarrow> bytes \<Rightarrow> bytes \<Rightarrow> (string, bytes \<times> bytes) outcome"
    \<comment> \<open>key state, message; signature, advanced state\<close>
  mt_verify :: "lamport_digest \<Rightarrow> bytes \<Rightarrow> bytes \<Rightarrow> bytes \<Rightarrow> (string, unit) outcome"
    \<comment> \<open>public key, signature, message\<close>
  mt_split :: "lamport_digest \<Rightarrow> bytes \<Rightarrow> nat \<Rightarrow> nat \<Rightarrow> (string, bytes list) outcome"
  mt_share_sign :: "lamport_digest \<Rightarrow> bytes \<Rightarrow> bytes \<Rightarrow> (string, bytes) outcome"

section \<open>Sizes\<close>

definition MT_STATE_FORMAT_VERSION :: byte where "MT_STATE_FORMAT_VERSION = 1"

fun digest_bytes :: "lamport_digest \<Rightarrow> nat" where
  "digest_bytes Sha3_256 = 32"
| "digest_bytes Sha2_256 = 32"
| "digest_bytes Blake2S_256 = 32"
| "digest_bytes Blake3_256 = 32"
| "digest_bytes Sha3_384 = 48"
| "digest_bytes Sha2_384 = 48"
| "digest_bytes Sha3_512 = 64"
| "digest_bytes Sha2_512 = 64"
| "digest_bytes Blake2B_512 = 64"
| "digest_bytes Shake_128 = 64"
| "digest_bytes Shake_256 = 64"

definition digest_bytes_for :: "codec \<Rightarrow> nat res" where
  "digest_bytes_for c =
     (case c of LamportMerkle d _ \<Rightarrow> Ok (digest_bytes d) | _ \<Rightarrow> Err (Attributes (AUnsupportedCodec c)))"

definition signing_key_material_size_for :: "codec \<Rightarrow> nat res" where
  "signing_key_material_size_for c =
     and_then (digest_bytes_for c) (\<lambda>digest. let bits = digest * 8 in Ok (2 * bits * digest))"

section \<open>Codecs of the family\<close>

definition merkle_public_codec :: "codec \<Rightarrow> codec res" where
  "merkle_public_codec c =
     (let bad = Err (Conversions (CvSecretKeyFailure ''not a merkle-Lamport private key'')) in
      case c of LamportMerkle d p \<Rightarrow> if p = LPriv then Ok (LamportMerkle d LPub) else bad | _ \<Rightarrow> bad)"

definition merkle_sig_codec :: "codec \<Rightarrow> codec res" where
  "merkle_sig_codec c =
     (let bad = Err (Sign SiNotSigningKey) in
      case c of LamportMerkle d p \<Rightarrow> if p = LPriv then Ok (LamportMerkle d LSig) else bad | _ \<Rightarrow> bad)"

definition merkle_priv_share_codec :: "codec \<Rightarrow> codec res" where
  "merkle_priv_share_codec c =
     (let bad = Err (error.Threshold ThNotASecretKey) in
      case c of LamportMerkle d p \<Rightarrow> if p = LPriv then Ok (LamportMerkle d LPrivShare) else bad | _ \<Rightarrow> bad)"

definition merkle_share_sig_codec :: "codec \<Rightarrow> codec res" where
  "merkle_share_sig_codec c =
     (let bad = Err (Sign SiNotSigningKey) in
      case c of LamportMerkle d p \<Rightarrow> if p = LPrivShare then Ok (LamportMerkle d LSigShare) else bad | _ \<Rightarrow> bad)"

section \<open>Depth checks\<close>

definition depth_byte :: "bytes option \<Rightarrow> byte res" where
  "depth_byte attr =
     and_then (ok_or (Attributes AMissingThreshold) attr) (\<lambda>a.
     if length a \<noteq> 1 then Err (Attributes (AInvalidAttributeValue (of_nat (length a)))) else Ok (a ! 0))"

definition depth_attr_value :: "multikey \<Rightarrow> byte res" where
  "depth_attr_value k = depth_byte (get_attr k Depth)"

definition multisig_depth :: "multisig \<Rightarrow> byte res" where
  "multisig_depth ms = depth_byte (ms_depth ms)"

definition check_depth_attribute :: "multikey \<Rightarrow> byte \<Rightarrow> unit res" where
  "check_depth_attribute k wire_depth =
     and_then (depth_attr_value k) (\<lambda>expected.
     if expected \<noteq> wire_depth then Err (Attributes (ADepthMismatch expected wire_depth)) else Ok ())"

definition wire_depth_at :: "bytes \<Rightarrow> nat \<Rightarrow> byte res" where
  "wire_depth_at bs offset =
     (if offset < length bs then Ok (bs ! offset) else Err (Attributes AMissingKey))"

definition state_depth :: "bytes \<Rightarrow> byte res" where
  "state_depth st =
     (if length st < 3 \<or> st ! 0 \<noteq> MT_STATE_FORMAT_VERSION
      then Err (Attributes (AInvalidAttributeValue (case st of [] \<Rightarrow> 0 | b # _ \<Rightarrow> b)))
      else Ok (st ! 1))"

section \<open>The library functions behind the codec match\<close>

definition merkle_public_from_private :: "merkle_lib \<Rightarrow> codec \<Rightarrow> bytes \<Rightarrow> bytes res" where
  "merkle_public_from_private M c secret =
     (let bad = Err (Conversions (CvSecretKeyFailure ''not a merkle-Lamport private key'')) in
      case c of
        LamportMerkle d p \<Rightarrow>
          if p = LPriv then map_err (\<lambda>e. Conversions (CvSecretKeyFailure e)) (mt_public M d secret) else bad
      | _ \<Rightarrow> bad)"

definition merkle_sign_bytes :: "merkle_lib \<Rightarrow> codec \<Rightarrow> bytes \<Rightarrow> bytes \<Rightarrow> (bytes \<times> bytes) res" where
  "merkle_sign_bytes M c secret msg =
     (let bad = Err (Sign SiNotSigningKey) in
      case c of
        LamportMerkle d p \<Rightarrow>
          if p = LPriv then map_err (\<lambda>e. Sign (SiSigningFailed e)) (mt_sign M d secret msg) else bad
      | _ \<Rightarrow> bad)"

definition merkle_verify_bytes :: "merkle_lib \<Rightarrow> codec \<Rightarrow> bytes \<Rightarrow> bytes \<Rightarrow> bytes \<Rightarrow> unit res" where
  "merkle_verify_bytes M c pub sig msg =
     (let bad = Err (Verify (VeBadSignature ''not a merkle-Lamport public key'')) in
      case c of
        LamportMerkle d p \<Rightarrow>
          if p = LPub then map_err (\<lambda>e. Verify (VeBadSignature e)) (mt_verify M d pub sig msg) else bad
      | _ \<Rightarrow> bad)"

definition merkle_split_bytes :: "merkle_lib \<Rightarrow> codec \<Rightarrow> bytes \<Rightarrow> nat \<Rightarrow> nat \<Rightarrow> bytes list res" where
  "merkle_split_bytes M c secret t n =
     (let bad = Err (error.Threshold ThNotASecretKey) in
      case c of
        LamportMerkle d p \<Rightarrow>
          if p = LPriv then map_err (\<lambda>e. error.Threshold (ThShareCombineFailed e)) (mt_split M d secret t n)
          else bad
      | _ \<Rightarrow> bad)"

definition merkle_share_sign_bytes :: "merkle_lib \<Rightarrow> codec \<Rightarrow> bytes \<Rightarrow> bytes \<Rightarrow> bytes res" where
  "merkle_share_sign_bytes M c share msg =
     (let bad = Err (Sign SiNotSigningKey) in
      case c of
        LamportMerkle d p \<Rightarrow>
          if p = LPrivShare then map_err (\<lambda>e. Sign (SiSigningFailed e)) (mt_share_sign M d share msg) else bad
      | _ \<Rightarrow> bad)"

section \<open>The view\<close>

definition merkle_to_public_key :: "features \<Rightarrow> wire \<Rightarrow> merkle_lib \<Rightarrow> multikey \<Rightarrow> multikey res" where
  "merkle_to_public_key F W M k =
     and_then (and_then (data_view F W k) secret_bytes) (\<lambda>secret.
     and_then (wire_depth_at secret 1) (\<lambda>depth.
     and_then (check_depth_attribute k depth) (\<lambda>_.
     and_then (merkle_public_from_private M (mk_codec k) secret) (\<lambda>pub.
     and_then (merkle_public_codec (mk_codec k)) (\<lambda>c.
     Ok (built_key (with_depth (with_key_bytes (with_comment (builder_new c) (mk_comment k)) pub) depth)))))))"

text \<open>The multisig that the multisig builder makes, with the depth attribute inserted.\<close>

definition depth_multisig :: "'a ms_lib_scheme \<Rightarrow> codec \<Rightarrow> bytes \<Rightarrow> bool \<Rightarrow> bytes \<Rightarrow> byte \<Rightarrow> multisig res" where
  "depth_multisig L c sig combined msg depth =
     and_then (map_err Multisig (ms_try_build L c sig (if combined then Some msg else None))) (\<lambda>ms.
     Ok (ms\<lparr>ms_depth := Some [depth]\<rparr>))"

definition merkle_sign_advance ::
  "features \<Rightarrow> wire \<Rightarrow> merkle_lib \<Rightarrow> multikey \<Rightarrow> bytes \<Rightarrow> bool \<Rightarrow> (multisig \<times> multikey) res" where
  "merkle_sign_advance F W M k msg combined =
     and_then (dispatched_bytes F W k) (\<lambda>key.
     if is_merkle_priv_share (mk_codec k) then
       and_then (merkle_share_sign_bytes M (mk_codec k) key msg) (\<lambda>sig.
       and_then (merkle_share_sig_codec (mk_codec k)) (\<lambda>c.
       and_then (state_depth key) (\<lambda>depth.
       and_then (depth_multisig M c sig combined msg depth) (\<lambda>ms.
       Ok (ms, k)))))
     else if \<not> is_merkle_priv (mk_codec k) then Err (Sign SiNotSigningKey)
     else
       and_then (state_depth key) (\<lambda>depth.
       and_then (check_depth_attribute k depth) (\<lambda>_.
       and_then (merkle_sign_bytes M (mk_codec k) key msg) (\<lambda>(sig, advanced).
       and_then (merkle_sig_codec (mk_codec k)) (\<lambda>c.
       and_then (depth_multisig M c sig combined msg depth) (\<lambda>ms.
       Ok (ms, built_key (with_depth (with_key_bytes
             (with_comment (builder_new (mk_codec k)) (mk_comment k)) advanced) depth))))))))"

text \<open>\<^verbatim>\<open>sign\<close> is refused.\<close>

definition merkle_sign :: "multikey \<Rightarrow> bytes \<Rightarrow> bool \<Rightarrow> multisig res" where
  "merkle_sign k msg combined = Err (UnsupportedAlgorithm
     ''merkle-Lamport keys are stateful; use sign_advance to consume a leaf and persist the advanced state'')"

text \<open>\<^verbatim>\<open>dispatch::public_form\<close> for the keys of this view.\<close>

definition merkle_public_form :: "features \<Rightarrow> wire \<Rightarrow> merkle_lib \<Rightarrow> multikey \<Rightarrow> multikey res" where
  "merkle_public_form F W M k =
     and_then (attr_view F W k) (\<lambda>attr.
     if is_secret_key attr then and_then (dispatch_conv_view F k) (\<lambda>_. merkle_to_public_key F W M k)
     else Ok k)"

definition merkle_verify ::
  "features \<Rightarrow> wire \<Rightarrow> merkle_lib \<Rightarrow> multikey \<Rightarrow> multisig \<Rightarrow> bytes option \<Rightarrow> unit res" where
  "merkle_verify F W M k ms msg =
     and_then
       (case msg of Some m \<Rightarrow> Ok m
        | None \<Rightarrow> if ms_message ms \<noteq> [] then Ok (ms_message ms) else Err (Verify VeMissingMessage)) (\<lambda>m.
     and_then (merkle_public_form F W M k) (\<lambda>pk.
     and_then (dispatched_bytes F W pk) (\<lambda>key.
     and_then (wire_depth_at key 0) (\<lambda>key_depth.
     and_then (check_depth_attribute pk key_depth) (\<lambda>_.
     and_then (sig_bytes_or_missing M ms) (\<lambda>sig.
     and_then (wire_depth_at sig 0) (\<lambda>sig_depth.
     if sig_depth \<noteq> key_depth then Err (Attributes (ADepthMismatch key_depth sig_depth))
     else
     case multisig_depth ms of
       Ok ms_d \<Rightarrow>
         if ms_d \<noteq> sig_depth then Err (Attributes (ADepthMismatch ms_d sig_depth))
         else merkle_verify_bytes M (mk_codec pk) key sig m
     | _ \<Rightarrow> merkle_verify_bytes M (mk_codec pk) key sig m)))))))"

definition merkle_split :: "features \<Rightarrow> wire \<Rightarrow> merkle_lib \<Rightarrow> multikey \<Rightarrow> nat \<Rightarrow> nat \<Rightarrow> multikey list res" where
  "merkle_split F W M k t n =
     and_then (attr_view F W k) (\<lambda>attr.
     if \<not> is_secret_key attr then Err (error.Threshold ThNotASecretKey)
     else
     and_then (and_then (data_view F W k) secret_bytes) (\<lambda>secret.
     and_then (state_depth secret) (\<lambda>depth.
     and_then (check_depth_attribute k depth) (\<lambda>_.
     and_then (merkle_priv_share_codec (mk_codec k)) (\<lambda>c.
     and_then (merkle_split_bytes M (mk_codec k) secret t n) (\<lambda>shares.
     Ok (map (\<lambda>share. built_key (with_depth (with_key_bytes
          (with_comment (builder_new c) (mk_comment k)) share) depth)) shares)))))))"

text \<open>The rest of \<^verbatim>\<open>ThresholdView\<close>: a key is never put together again, and the parameters are not confidential.\<close>

definition merkle_no_combine :: error where
  "merkle_no_combine = error.Threshold (ThShareCombineFailed
     ''merkle-Lamport threshold signing does not reconstruct the signing key; combine signature shares instead'')"

definition merkle_add_share :: "multikey \<Rightarrow> multikey \<Rightarrow> multikey res" where
  "merkle_add_share k share = Err merkle_no_combine"

definition merkle_combine :: "multikey \<Rightarrow> multikey res" where
  "merkle_combine k = Err merkle_no_combine"

definition merkle_split_with_disclosure ::
  "features \<Rightarrow> wire \<Rightarrow> merkle_lib \<Rightarrow> multikey \<Rightarrow> nat \<Rightarrow> nat \<Rightarrow> 'mode \<Rightarrow> multikey option \<Rightarrow> multikey list res" where
  "merkle_split_with_disclosure F W M k t n mode meta_key = merkle_split F W M k t n"

definition merkle_add_share_with_meta :: "multikey \<Rightarrow> multikey \<Rightarrow> multikey option \<Rightarrow> multikey res" where
  "merkle_add_share_with_meta k share meta_key = merkle_add_share k share"

definition merkle_combine_with_meta :: "multikey \<Rightarrow> multikey option \<Rightarrow> multikey res" where
  "merkle_combine_with_meta k meta_key = merkle_combine k"

definition merkle_fingerprint where
  "merkle_fingerprint mhash F W M k =
     fingerprint_with mhash F W (is_merkle_priv (mk_codec k)) (merkle_to_public_key F W M k) k"

section \<open>The state of a key\<close>

text \<open>\<^verbatim>\<open>1usize << depth\<close> of a checked build.\<close>

definition usize_shl1 :: "byte \<Rightarrow> nat res" where
  "usize_shl1 depth = (if unat depth < 64 then Ok (2 ^ unat depth) else Panic)"

definition merkle_depth :: "features \<Rightarrow> wire \<Rightarrow> multikey \<Rightarrow> byte res" where
  "merkle_depth F W k =
     and_then (dispatched_bytes F W k) (\<lambda>key.
     and_then (if is_merkle_priv (mk_codec k) then state_depth key else wire_depth_at key 0) (\<lambda>depth.
     and_then (check_depth_attribute k depth) (\<lambda>_. Ok depth)))"

definition merkle_capacity :: "features \<Rightarrow> wire \<Rightarrow> multikey \<Rightarrow> nat res" where
  "merkle_capacity F W k = and_then (merkle_depth F W k) usize_shl1"

definition merkle_next_index :: "features \<Rightarrow> wire \<Rightarrow> multikey \<Rightarrow> nat res" where
  "merkle_next_index F W k =
     (if \<not> is_merkle_priv (mk_codec k) then Err (Attributes (ANotSecretKey (mk_codec k)))
      else
      and_then (and_then (data_view F W k) secret_bytes) (\<lambda>key.
      and_then (wire_depth_at key 2) (\<lambda>i. Ok (unat i))))"

definition remaining_from_state :: "bytes \<Rightarrow> codec \<Rightarrow> nat res" where
  "remaining_from_state st c =
     (if length st < 3 then Err (Attributes AMissingKey)
      else
      let depth = st ! 1 in
      if \<not> depth_in_range depth then Err (Attributes (AInvalidAttributeValue depth))
      else
      and_then (usize_shl1 depth) (\<lambda>capacity.
      and_then (digest_bytes_for c) (\<lambda>hash_size.
      and_then (if capacity * hash_size < 2 ^ 64 then Ok (capacity * hash_size)
                else Err (InputTooLarge capacity MAX_DECODED_SIZE)) (\<lambda>leaves_len.
      let header = 3 + leaves_len in
      if length st < header then Err (Attributes AMissingKey)
      else
      and_then (signing_key_material_size_for c) (\<lambda>material_size.
      let rest = length st - header in
      if rest mod material_size \<noteq> 0 then Err (Attributes (AInvalidAttributeValue depth))
      else
      let next_index = unat (st ! 2) in
      if next_index + rest div material_size \<noteq> capacity
      then Err (Attributes (AInvalidAttributeValue depth))
      else Ok (rest div material_size))))))"

definition merkle_remaining_signatures :: "features \<Rightarrow> wire \<Rightarrow> multikey \<Rightarrow> nat res" where
  "merkle_remaining_signatures F W k =
     (if \<not> is_merkle_priv (mk_codec k) then Err (Attributes (ANotSecretKey (mk_codec k)))
      else
      and_then (and_then (data_view F W k) secret_bytes) (\<lambda>key.
      remaining_from_state key (mk_codec k)))"

section \<open>The state of the tree library\<close>

text \<open>
  The layout of a serialised signing key, as the view reads it: version, depth, next index, the leaf
  hashes, and the secret blocks of the leaves that are not used yet.
\<close>

definition material_size :: "lamport_digest \<Rightarrow> nat" where
  "material_size d = 2 * (digest_bytes d * 8) * digest_bytes d"

definition mt_state :: "lamport_digest \<Rightarrow> bytes \<Rightarrow> bool" where
  "mt_state d st \<longleftrightarrow>
     3 \<le> length st \<and> st ! 0 = MT_STATE_FORMAT_VERSION \<and> depth_in_range (st ! 1)
     \<and> unat (st ! 2) \<le> 2 ^ unat (st ! 1)
     \<and> length st = 3 + 2 ^ unat (st ! 1) * digest_bytes d
         + (2 ^ unat (st ! 1) - unat (st ! 2)) * material_size d"

text \<open>
  Documented behaviour of the library: signing takes a leaf that is not used yet and advances the
  index, the public key is that of the whole tree, a signature verifies under it, and both start with
  the depth. A multisig gives back the signature it was built with.
\<close>

text \<open>A built multisig holds what the builder was given, also after the depth is inserted.\<close>

definition depth_ms_ok :: "'a ms_lib_scheme \<Rightarrow> bool" where
  "depth_ms_ok L \<longleftrightarrow>
     (\<forall>c sig m. \<exists>ms. ms_try_build L c sig m = Ok ms \<and> ms_codec ms = c
        \<and> ms_message ms = (case m of Some b \<Rightarrow> b | None \<Rightarrow> [])
        \<and> (\<forall>d. ms_view L (ms\<lparr>ms_depth := d\<rparr>) = Ok () \<and> ms_sig_bytes L (ms\<lparr>ms_depth := d\<rparr>) = Ok sig))"

definition merkle_lib_ok :: "merkle_lib \<Rightarrow> bool" where
  "merkle_lib_ok M \<longleftrightarrow>
     (\<forall>d st msg sig st'. mt_state d st \<longrightarrow> mt_sign M d st msg = Ok (sig, st') \<longrightarrow>
        unat (st ! 2) < 2 ^ unat (st ! 1) \<and> mt_state d st' \<and> st' ! 1 = st ! 1
        \<and> unat (st' ! 2) = Suc (unat (st ! 2)) \<and> mt_public M d st' = mt_public M d st
        \<and> sig \<noteq> [] \<and> sig ! 0 = st ! 1
        \<and> (\<forall>pub. mt_public M d st = Ok pub \<longrightarrow> mt_verify M d pub sig msg = Ok ()))
   \<and> (\<forall>d st pub. mt_state d st \<longrightarrow> mt_public M d st = Ok pub \<longrightarrow> pub \<noteq> [] \<and> pub ! 0 = st ! 1)
   \<and> depth_ms_ok M"

definition merkle_key :: "lamport_digest \<Rightarrow> bytes \<Rightarrow> multikey \<Rightarrow> bool" where
  "merkle_key d st k \<longleftrightarrow>
     mk_codec k = LamportMerkle d LPriv \<and> mk_attributes k KeyData = Some st
     \<and> mk_attributes k Depth = Some [st ! 1] \<and> mt_state d st"

lemma merkle_libD:
  assumes "merkle_lib_ok M" "mt_state d st" "mt_sign M d st msg = Ok (sig, st')"
  shows "unat (st ! 2) < 2 ^ unat (st ! 1)" and "mt_state d st'" and "st' ! 1 = st ! 1"
    and "unat (st' ! 2) = Suc (unat (st ! 2))" and "mt_public M d st' = mt_public M d st"
    and "sig \<noteq> []" and "sig ! 0 = st ! 1"
    and "mt_public M d st = Ok pub \<Longrightarrow> mt_verify M d pub sig msg = Ok ()"
  using assms unfolding merkle_lib_ok_def by blast+

lemma merkle_publicD:
  assumes "merkle_lib_ok M" "mt_state d st" "mt_public M d st = Ok pub"
  shows "pub \<noteq> []" and "pub ! 0 = st ! 1"
  using assms unfolding merkle_lib_ok_def by blast+

lemma depth_multisig_parts:
  assumes "depth_ms_ok L"
  obtains ms where "depth_multisig L c sig combined msg depth = Ok ms" "ms_message ms = (if combined then msg else [])"
    "multisig_depth ms = Ok depth" "sig_bytes_or_missing L ms = Ok sig"
proof -
  obtain ms where "ms_try_build L c sig (if combined then Some msg else None) = Ok ms"
    and "ms_message ms = (case if combined then Some msg else None of Some b \<Rightarrow> b | None \<Rightarrow> [])"
    and "ms_view L (ms\<lparr>ms_depth := Some [depth]\<rparr>) = Ok ()" "ms_sig_bytes L (ms\<lparr>ms_depth := Some [depth]\<rparr>) = Ok sig"
    using assms unfolding depth_ms_ok_def by blast
  then show ?thesis
    by (intro that[of "ms\<lparr>ms_depth := Some [depth]\<rparr>"])
      (simp_all add: depth_multisig_def multisig_depth_def depth_byte_def sig_bytes_or_missing_def)
qed

lemma merkle_multisigD: "merkle_lib_ok M \<Longrightarrow> depth_ms_ok M"
  unfolding merkle_lib_ok_def by blast

lemma merkle_keyD:
  assumes "merkle_key d st k"
  shows "mk_codec k = LamportMerkle d LPriv" and "key_data k = Ok st"
    and "get_attr k Depth = Some [st ! 1]" and "mt_state d st"
  using assms by (simp_all add: merkle_key_def key_data_def get_attr_def)

lemma mt_stateD:
  assumes "mt_state d st"
  shows "3 \<le> length st" and "st ! 0 = 1" and "depth_in_range (st ! 1)" and "unat (st ! 2) \<le> 2 ^ unat (st ! 1)"
  using assms by (simp_all add: mt_state_def MT_STATE_FORMAT_VERSION_def)

section \<open>Reading the state\<close>

lemma merkle_views:
  assumes "mk_codec k = LamportMerkle d p" "lpart_key p" "FLamport \<in> F"
  shows "data_view F W k = Ok (lamport_merkle_view W k)" and "attr_view F W k = Ok (lamport_merkle_view W k)"
    and "dispatched_bytes F W k = key_data k"
  using assms
  by (simp_all add: data_view_def attr_view_def dispatched_bytes_def dispatch_data_view_def
      dispatch_attr_view_def arm_def lamport_merkle_view_def plain_view_def)

lemma merkle_secret:
  assumes "mk_codec k = LamportMerkle d LPriv" "FLamport \<in> F"
  shows "and_then (data_view F W k) secret_bytes = key_data k"
  using assms merkle_views(1)[OF assms(1) _ assms(2), of W]
  by (simp add: lpart_key_def lamport_merkle_view_def plain_view_def is_merkle_priv_def)

lemma state_depth_mt_state: "mt_state d st \<Longrightarrow> state_depth st = Ok (st ! 1)"
  by (auto simp: state_depth_def mt_state_def)

lemma check_depth_self: "get_attr k Depth = Some [b] \<Longrightarrow> check_depth_attribute k b = Ok ()"
  by (simp add: check_depth_attribute_def depth_attr_value_def depth_byte_def)

lemma depth_cases:
  assumes "depth_in_range b"
  shows "1 \<le> unat b" and "unat b \<le> 3" and "2 ^ unat b \<le> (8 :: nat)"
proof -
  show low: "1 \<le> unat b" and high: "unat b \<le> 3"
    using assms unfolding depth_in_range_def word_le_nat_alt by simp_all
  have "2 ^ unat b \<le> (2 :: nat) ^ 3"
    using high by (intro power_increasing) simp_all
  then show "2 ^ unat b \<le> (8 :: nat)"
    by simp
qed

lemma digest_bytes_bounds: "0 < digest_bytes d" "digest_bytes d \<le> 64"
  by (cases d; simp)+

lemma leaves_fit: "depth_in_range b \<Longrightarrow> 2 ^ unat b * digest_bytes d < 2 ^ 64"
proof -
  assume "depth_in_range b"
  then have "2 ^ unat b * digest_bytes d \<le> 8 * 64"
    by (intro mult_le_mono depth_cases(3) digest_bytes_bounds)
  then show ?thesis
    by simp
qed

lemma material_size_for: "signing_key_material_size_for (LamportMerkle d p) = Ok (material_size d)"
  by (simp add: signing_key_material_size_for_def digest_bytes_for_def material_size_def Let_def)

lemma remaining_of_state:
  assumes "mt_state d st"
  shows "remaining_from_state st (LamportMerkle d p) = Ok (2 ^ unat (st ! 1) - unat (st ! 2))"
proof -
  note st = mt_stateD[OF assms]
  have len: "length st = 3 + 2 ^ unat (st ! 1) * digest_bytes d
      + (2 ^ unat (st ! 1) - unat (st ! 2)) * material_size d"
    using assms by (simp add: mt_state_def)
  have pos: "0 < material_size d"
    using digest_bytes_bounds[of d] by (simp add: material_size_def)
  have "unat (st ! 1) < 64"
    using depth_cases(2)[OF st(3)] by simp
  with st leaves_fit[OF st(3), of d] len pos show ?thesis
    by (simp add: remaining_from_state_def usize_shl1_def digest_bytes_for_def
        material_size_for Let_def)
qed

text \<open>Whatever bytes it is given, an answer accounts for every leaf.\<close>

lemma remaining_plus_index:
  assumes "remaining_from_state st c = Ok r"
  shows "usize_shl1 (st ! 1) = Ok (unat (st ! 2) + r)" and "depth_in_range (st ! 1)"
  using assms
  by (auto simp: remaining_from_state_def Let_def and_then_eq_Ok usize_shl1_def split: if_splits)

lemma merkle_key_reads:
  assumes "merkle_key d st k" "FLamport \<in> F"
  shows "merkle_next_index F W k = Ok (unat (st ! 2))"
    and "merkle_remaining_signatures F W k = Ok (2 ^ unat (st ! 1) - unat (st ! 2))"
    and "merkle_capacity F W k = Ok (2 ^ unat (st ! 1))"
proof -
  note k = merkle_keyD[OF assms(1)]
  note st = mt_stateD[OF k(4)]
  have priv: "is_merkle_priv (mk_codec k)"
    by (simp add: k(1) is_merkle_priv_def)
  note secret = merkle_secret[OF k(1) assms(2), of W, unfolded k(2)]
  note bytes = merkle_views(3)[OF k(1) _ assms(2), of W, unfolded k(2) lpart_key_def, simplified]
  show "merkle_next_index F W k = Ok (unat (st ! 2))"
    using st(1) by (simp add: merkle_next_index_def priv secret wire_depth_at_def)
  show "merkle_remaining_signatures F W k = Ok (2 ^ unat (st ! 1) - unat (st ! 2))"
    using remaining_of_state[OF k(4)] by (simp add: merkle_remaining_signatures_def secret k(1) is_merkle_priv_def)
  have "unat (st ! 1) < 64"
    using depth_cases(2)[OF st(3)] by simp
  then show "merkle_capacity F W k = Ok (2 ^ unat (st ! 1))"
    by (simp add: merkle_capacity_def merkle_depth_def bytes priv state_depth_mt_state[OF k(4)]
        check_depth_self[OF k(3)] usize_shl1_def del: One_nat_def)
qed

section \<open>One signature\<close>

lemma merkle_sign_advance_eq_Ok:
  assumes "merkle_key d st k" "FLamport \<in> F"
  shows "merkle_sign_advance F W M k msg combined = Ok (ms, k') \<longleftrightarrow>
    (\<exists>sig st'. mt_sign M d st msg = Ok (sig, st')
       \<and> depth_multisig M (LamportMerkle d LSig) sig combined msg (st ! 1) = Ok ms
       \<and> k' = built_key (with_depth (with_key_bytes
            (with_comment (builder_new (mk_codec k)) (mk_comment k)) st') (st ! 1)))"
proof -
  note k = merkle_keyD[OF assms(1)]
  note bytes = merkle_views(3)[OF k(1) _ assms(2), of W, unfolded k(2) lpart_key_def, simplified]
  show ?thesis
    by (auto simp: merkle_sign_advance_def bytes is_merkle_priv_def is_merkle_priv_share_def k(1)
        state_depth_mt_state[OF k(4)] check_depth_self[OF k(3)] merkle_sign_bytes_def Let_def
        merkle_sig_codec_def and_then_eq_Ok map_err_eq_Ok simp del: One_nat_def)
qed

lemma advanced_key:
  assumes "merkle_lib_ok M" "FLamport \<in> F" "merkle_key d st k"
    and "merkle_sign_advance F W M k msg combined = Ok (ms, k')"
  shows "\<exists>sig st'. mt_sign M d st msg = Ok (sig, st') \<and> merkle_key d st' k' \<and> mk_comment k' = mk_comment k
      \<and> depth_multisig M (LamportMerkle d LSig) sig combined msg (st ! 1) = Ok ms"
proof -
  note k = merkle_keyD[OF assms(3)]
  obtain sig st' where sig: "mt_sign M d st msg = Ok (sig, st')"
    and ms: "depth_multisig M (LamportMerkle d LSig) sig combined msg (st ! 1) = Ok ms"
    and k': "k' = built_key (with_depth (with_key_bytes
            (with_comment (builder_new (mk_codec k)) (mk_comment k)) st') (st ! 1))"
    using assms(4) unfolding merkle_sign_advance_eq_Ok[OF assms(3,2)] by blast
  note lib = merkle_libD[OF assms(1) k(4) sig]
  have "merkle_key d st' k'" "mk_comment k' = mk_comment k"
    using lib(2,3) by (simp_all add: merkle_key_def k' built_key_defs k(1) attr_insert_def)
  then show ?thesis
    using sig ms by blast
qed

lemma merkle_to_public_of_key:
  assumes "merkle_key d st k" "FLamport \<in> F"
  shows "merkle_to_public_key F W M k = Ok pk \<longleftrightarrow>
    (\<exists>pub. mt_public M d st = Ok pub \<and> pk = built_key (with_depth (with_key_bytes
       (with_comment (builder_new (LamportMerkle d LPub)) (mk_comment k)) pub) (st ! 1)))"
proof -
  note k = merkle_keyD[OF assms(1)]
  note st = mt_stateD[OF k(4)]
  note secret = merkle_secret[OF k(1) assms(2), of W, unfolded k(2)]
  have "wire_depth_at st 1 = Ok (st ! 1)"
    using st(1) by (simp add: wire_depth_at_def)
  then show ?thesis
    by (auto simp: merkle_to_public_key_def secret check_depth_self[OF k(3)] merkle_public_from_private_def
        merkle_public_codec_def k(1) Let_def and_then_eq_Ok map_err_eq_Ok simp del: One_nat_def)
qed

lemma merkle_fingerprint_of_pair:
  assumes "merkle_key d st k" "FLamport \<in> F" "merkle_to_public_key F W M k = Ok pk"
  shows "merkle_fingerprint mhash F W M k c = merkle_fingerprint mhash F W M pk c"
proof -
  note k = merkle_keyD[OF assms(1)]
  obtain pub where pk: "pk = built_key (with_depth (with_key_bytes
       (with_comment (builder_new (LamportMerkle d LPub)) (mk_comment k)) pub) (st ! 1))"
    using assms(3) unfolding merkle_to_public_of_key[OF assms(1,2)] by blast
  then have codec: "mk_codec pk = LamportMerkle d LPub"
    by (simp add: built_key_defs)
  show ?thesis
    using merkle_views(1)[OF codec _ assms(2), of W] assms(3)
    by (simp add: merkle_fingerprint_def fingerprint_with_def k(1) codec is_merkle_priv_def lpart_key_def
        lamport_merkle_view_def plain_view_def)
qed

lemma verify_with_public:
  assumes lib: "merkle_lib_ok M" "FLamport \<in> F"
    and pk: "mk_codec pk = LamportMerkle d LPub" "mk_attributes pk KeyData = Some pub"
      "mk_attributes pk Depth = Some [b]" "pub \<noteq> []" "pub ! 0 = b"
    and sig: "sig \<noteq> []" "sig ! 0 = b"
    and msg: "m = Some msg \<or> m = None \<and> combined \<and> msg \<noteq> []"
    and ms: "depth_multisig M c sig combined msg b = Ok ms"
  shows "merkle_verify F W M pk ms m
    = map_err (\<lambda>e. Verify (VeBadSignature e)) (mt_verify M d pub sig msg)"
proof -
  note views = merkle_views[OF pk(1) _ lib(2), of W, unfolded lpart_key_def, simplified]
  have data: "key_data pk = Ok pub" and depth: "get_attr pk Depth = Some [b]"
    using pk by (simp_all add: key_data_def get_attr_def)
  have form: "merkle_public_form F W M pk = Ok pk"
    by (simp add: merkle_public_form_def views lamport_merkle_view_def plain_view_def pk(1) is_merkle_priv_def)
  obtain ms' where "depth_multisig M c sig combined msg b = Ok ms'" "ms_message ms' = (if combined then msg else [])"
    "multisig_depth ms' = Ok b" "sig_bytes_or_missing M ms' = Ok sig"
    using depth_multisig_parts[OF merkle_multisigD[OF lib(1)]] .
  then have parts: "ms_message ms = (if combined then msg else [])" "multisig_depth ms = Ok b" "sig_bytes_or_missing M ms = Ok sig"
    using ms by simp_all
  from msg show ?thesis
    by (auto simp: merkle_verify_def form views data wire_depth_at_def pk sig check_depth_self[OF depth]
        parts merkle_verify_bytes_def Let_def)
qed

section \<open>The view is a stateful signer\<close>

text \<open>The parts of the reads that always answer on a key in state \<open>st\<close>.\<close>

definition leaf_index :: "multikey \<Rightarrow> nat" where
  "leaf_index k = (case get_attr k KeyData of Some st \<Rightarrow> unat (st ! 2) | None \<Rightarrow> 0)"

definition leaves_left :: "multikey \<Rightarrow> nat" where
  "leaves_left k =
     (case get_attr k KeyData of Some st \<Rightarrow> 2 ^ unat (st ! 1) - unat (st ! 2) | None \<Rightarrow> 0)"

definition usable_key :: "features \<Rightarrow> merkle_lib \<Rightarrow> multikey \<Rightarrow> bool" where
  "usable_key F M k \<longleftrightarrow> merkle_lib_ok M \<and> FLamport \<in> F \<and> (\<exists>d st. merkle_key d st k)"

lemma usable_reads:
  assumes "usable_key F M k"
  shows "merkle_next_index F W k = Ok (leaf_index k)"
    and "merkle_remaining_signatures F W k = Ok (leaves_left k)"
    and "merkle_capacity F W k = Ok (leaf_index k + leaves_left k)"
proof -
  obtain d st where k: "merkle_key d st k" and F: "FLamport \<in> F"
    using assms by (auto simp: usable_key_def)
  have st: "get_attr k KeyData = Some st"
    using k by (simp add: merkle_key_def get_attr_def)
  have "unat (st ! 2) \<le> 2 ^ unat (st ! 1)"
    by (rule mt_stateD(4)[OF merkle_keyD(4)[OF k]])
  then show "merkle_next_index F W k = Ok (leaf_index k)"
    "merkle_remaining_signatures F W k = Ok (leaves_left k)"
    "merkle_capacity F W k = Ok (leaf_index k + leaves_left k)"
    using merkle_key_reads[OF k F] by (simp_all add: leaf_index_def leaves_left_def st)
qed

lemma usable_sign:
  assumes "usable_key F M k" "merkle_sign_advance F W M k msg combined = Ok (ms, k')"
  shows "usable_key F M k' \<and> leaf_index k' = Suc (leaf_index k) \<and> leaves_left k = Suc (leaves_left k')"
proof -
  obtain d st where k: "merkle_key d st k" and F: "FLamport \<in> F" and M: "merkle_lib_ok M"
    using assms by (auto simp: usable_key_def)
  obtain sig st' where sig: "mt_sign M d st msg = Ok (sig, st')" and k': "merkle_key d st' k'"
    using advanced_key[OF M F k assms(2)] by blast
  have data: "get_attr k KeyData = Some st" "get_attr k' KeyData = Some st'"
    using k k' by (simp_all add: merkle_key_def get_attr_def)
  note lib = merkle_libD[OF M merkle_keyD(4)[OF k] sig]
  show ?thesis
    using k' lib(1,3,4) M F by (auto simp: usable_key_def leaf_index_def leaves_left_def data)
qed

interpretation merkle: stateful_signer "usable_key F M"
  "\<lambda>k (msg, combined). merkle_sign_advance F W M k msg combined" leaf_index leaves_left
  by unfold_locales (auto dest: usable_sign)

text \<open>Documented behaviour of the library: a state with an unused leaf signs.\<close>

definition merkle_lib_live :: "merkle_lib \<Rightarrow> bool" where
  "merkle_lib_live M \<longleftrightarrow>
     (\<forall>d st msg. mt_state d st \<longrightarrow> unat (st ! 2) < 2 ^ unat (st ! 1) \<longrightarrow> (\<exists>sig st'. mt_sign M d st msg = Ok (sig, st')))"

lemma usable_live:
  assumes "usable_key F M k" "merkle_lib_live M" "0 < leaves_left k"
  shows "\<exists>ms k'. merkle_sign_advance F W M k msg combined = Ok (ms, k')"
proof -
  obtain d st where k: "merkle_key d st k" and F: "FLamport \<in> F" and M: "merkle_lib_ok M"
    using assms by (auto simp: usable_key_def)
  have "unat (st ! 2) < 2 ^ unat (st ! 1)"
    using assms(3) k by (simp add: leaves_left_def merkle_key_def get_attr_def)
  then obtain sig st' where "mt_sign M d st msg = Ok (sig, st')"
    using assms(2) merkle_keyD(4)[OF k] unfolding merkle_lib_live_def by blast
  moreover obtain ms where "depth_multisig M (LamportMerkle d LSig) sig combined msg (st ! 1) = Ok ms"
    using depth_multisig_parts[OF merkle_multisigD[OF M]] .
  ultimately show ?thesis
    unfolding merkle_sign_advance_eq_Ok[OF k F] by blast
qed

interpretation merkle_live: live_signer "\<lambda>k. usable_key F M k \<and> merkle_lib_live M"
  "\<lambda>k (msg, combined). merkle_sign_advance F W M k msg combined" leaf_index leaves_left
  by unfold_locales (auto dest: usable_sign usable_live)

section \<open>Verification along a chain\<close>

lemma same_public_key:
  assumes "usable_key F M k" "merkle_sign_advance F W M k msg combined = Ok (ms, k')"
    and "merkle_to_public_key F W M k = Ok pk"
  shows "merkle_to_public_key F W M k' = Ok pk"
proof -
  obtain d st where k: "merkle_key d st k" and F: "FLamport \<in> F" and M: "merkle_lib_ok M"
    using assms by (auto simp: usable_key_def)
  obtain sig st' where sig: "mt_sign M d st msg = Ok (sig, st')" and k': "merkle_key d st' k'"
    and c: "mk_comment k' = mk_comment k"
    using advanced_key[OF M F k assms(2)] by blast
  note lib = merkle_libD[OF M merkle_keyD(4)[OF k] sig]
  show ?thesis
    using assms(3) unfolding merkle_to_public_of_key[OF k F] merkle_to_public_of_key[OF k' F]
    by (simp only: lib(3,5) c)
qed

lemma signature_verifies:
  assumes "usable_key F M k" "merkle_sign_advance F W M k msg combined = Ok (ms, k')"
    and "merkle_to_public_key F W M k = Ok pk"
    and m: "m = Some msg \<or> m = None \<and> combined \<and> msg \<noteq> []"
  shows "merkle_verify F W M pk ms m = Ok ()"
proof -
  obtain d st where k: "merkle_key d st k" and F: "FLamport \<in> F" and M: "merkle_lib_ok M"
    using assms by (auto simp: usable_key_def)
  obtain sig st' where sig: "mt_sign M d st msg = Ok (sig, st')"
    and ms: "depth_multisig M (LamportMerkle d LSig) sig combined msg (st ! 1) = Ok ms"
    using advanced_key[OF M F k assms(2)] by blast
  obtain pub where pub: "mt_public M d st = Ok pub" and pk: "pk = built_key (with_depth (with_key_bytes
       (with_comment (builder_new (LamportMerkle d LPub)) (mk_comment k)) pub) (st ! 1))"
    using assms(3) unfolding merkle_to_public_of_key[OF k F] by blast
  note lib = merkle_libD[OF M merkle_keyD(4)[OF k] sig]
  note pub_bytes = merkle_publicD[OF M merkle_keyD(4)[OF k] pub]
  have parts: "mk_codec pk = LamportMerkle d LPub" "mk_attributes pk KeyData = Some pub"
      "mk_attributes pk Depth = Some [st ! 1]"
    by (simp_all add: pk built_key_defs attr_insert_def)
  show ?thesis
    unfolding verify_with_public[OF M F parts pub_bytes lib(6,7) m ms] lib(8)[OF pub] by simp
qed

section \<open>A concrete tree\<close>

text \<open>A library that signs with a tag, for the depth and the message; its state has the layout.\<close>

definition toy_advance :: "lamport_digest \<Rightarrow> bytes \<Rightarrow> bytes" where
  "toy_advance d st = take 2 st @ [st ! 2 + 1] @ take (length st - 3 - material_size d) (drop 3 st)"

definition toy_merkle :: merkle_lib where
  "toy_merkle =
     \<lparr>ms_try_build = toy_ms_build, ms_view = \<lambda>ms. Ok (), ms_sig_bytes = toy_ms_bytes,
      mt_public = (\<lambda>d st. Ok [st ! 1]),
      mt_sign = (\<lambda>d st msg. if unat (st ! 2) < 2 ^ unat (st ! 1)
         then Ok (st ! 1 # msg, toy_advance d st) else Err ''exhausted''),
      mt_verify = (\<lambda>d pub sig msg. if sig = pub @ msg then Ok () else Err ''bad''),
      mt_split = (\<lambda>d st t n. Ok (replicate n st)),
      mt_share_sign = (\<lambda>d st msg. Ok (st ! 1 # msg))\<rparr>"

definition example_merkle_state :: bytes where
  "example_merkle_state = [1, 1, 0] @ replicate (2 * 32 + 2 * (2 * (32 * 8) * 32)) 0"

definition example_merkle :: multikey where
  "example_merkle = \<lparr>mk_codec = LamportMerkle Sha3_256 LPriv, mk_comment = [],
     mk_attributes = [KeyData \<mapsto> example_merkle_state, Depth \<mapsto> [1]]\<rparr>"

lemma toy_advance_state:
  assumes "mt_state d st" "unat (st ! 2) < 2 ^ unat (st ! 1)"
  shows "mt_state d (toy_advance d st)" and "toy_advance d st ! 1 = st ! 1"
    and "unat (toy_advance d st ! 2) = Suc (unat (st ! 2))"
proof -
  note st = mt_stateD[OF assms(1)]
  let ?cap = "2 ^ unat (st ! 1)"
  let ?i = "unat (st ! 2)"
  obtain a b c rest where shape: "st = a # b # c # rest"
    using st(1) by (metis Suc_le_length_iff numeral_3_eq_3)
  have small: "?cap \<le> (8 :: nat)"
    by (rule depth_cases(3)[OF st(3)])
  have "?i < 255"
    using small assms(2) by simp
  then have index: "unat (st ! 2 + 1) = Suc ?i"
    by (simp add: unat_word_ariths)
  have len: "length rest = ?cap * digest_bytes d + (?cap - ?i) * material_size d"
    using assms(1) by (simp add: mt_state_def shape)
  have left: "(?cap - ?i) * material_size d = material_size d + (?cap - Suc ?i) * material_size d"
    using assms(2) by (simp add: Suc_diff_Suc[symmetric])
  show "toy_advance d st ! 1 = st ! 1" "unat (toy_advance d st ! 2) = Suc (unat (st ! 2))"
    using index by (simp_all add: toy_advance_def shape)
  have le: "Suc ?i \<le> ?cap"
    using assms(2) by simp
  have "length (toy_advance d st) = 3 + (length rest - material_size d)"
    by (simp add: toy_advance_def shape)
  then show "mt_state d (toy_advance d st)"
    using st index le len left
    by (simp add: mt_state_def toy_advance_def shape MT_STATE_FORMAT_VERSION_def)
qed

lemma toy_merkle_ok: "merkle_lib_ok toy_merkle"
  unfolding merkle_lib_ok_def
  by (auto simp: toy_merkle_def toy_advance_state depth_ms_ok_def toy_ms_build_def toy_ms_bytes_def
      split: if_splits simp del: One_nat_def)

lemma example_merkle_key: "merkle_key Sha3_256 example_merkle_state example_merkle"
proof -
  have "mt_state Sha3_256 example_merkle_state"
    by (simp add: mt_state_def example_merkle_state_def MT_STATE_FORMAT_VERSION_def depth_in_range_def
        material_size_def)
  moreover have "example_merkle_state ! 1 = 1"
    by (simp add: example_merkle_state_def)
  ultimately show ?thesis
    by (simp add: merkle_key_def example_merkle_def)
qed

definition example_next :: "multikey \<Rightarrow> multikey" where
  "example_next k = k\<lparr>mk_attributes := [KeyData \<mapsto> toy_advance Sha3_256 (the (mk_attributes k KeyData)),
     Depth \<mapsto> [1]]\<rparr>"

lemma example_state_step:
  "example_merkle_state ! 1 = 1" "toy_advance Sha3_256 example_merkle_state ! 1 = 1"
  "example_merkle_state ! 2 = 0" "toy_advance Sha3_256 example_merkle_state ! 2 = 1"
  by (simp_all add: example_merkle_state_def toy_advance_def)

definition example_multisig :: "bytes \<Rightarrow> bool \<Rightarrow> multisig" where
  "example_multisig msg combined =
     \<lparr>ms_codec = LamportMerkle Sha3_256 LSig, ms_message = (if combined then msg else []), ms_sig = Some (1 # msg),
      ms_depth = Some [1], ms_index = None, ms_scheme = None, ms_share = None\<rparr>"

lemma example_sign:
  "merkle_sign_advance {FLamport} W toy_merkle example_merkle msg combined
   = Ok (example_multisig msg combined, example_next example_merkle)"
  unfolding merkle_sign_advance_eq_Ok[OF example_merkle_key insertI1]
  using example_state_step
  by (simp add: toy_merkle_def example_next_def built_key_defs attr_insert_def example_merkle_def
      depth_multisig_def toy_ms_build_def example_multisig_def fun_upd_twist)

definition example_merkle_public :: multikey where
  "example_merkle_public = built_key (with_depth (with_key_bytes
     (with_comment (builder_new (LamportMerkle Sha3_256 LPub)) []) [1]) 1)"

lemma example_merkle_to_public:
  "merkle_to_public_key {FLamport} W toy_merkle example_merkle = Ok example_merkle_public"
  unfolding merkle_to_public_of_key[OF example_merkle_key insertI1]
  using example_state_step(1)
  by (simp add: toy_merkle_def example_merkle_public_def example_merkle_def)

section \<open>Properties\<close>

text \<open>
  C13: No leaf is used twice. A holder that always continues with the advanced key signs with the
  leaves \<open>i\<close>, \<open>i + 1\<close>, ... in order, as \<^verbatim>\<open>next_index\<close> reports them; each signature lowers what
  \<^verbatim>\<open>remaining_signatures\<close> reports by one, so there are never more signatures than leaves left; and
  index and remaining signatures always add up to the capacity.
\<close>

theorem merkle_no_leaf_reuse:
  assumes "merkle_lib_ok M" "FLamport \<in> F" "merkle_key d st k"
    and "signs (\<lambda>k (msg, combined). merkle_sign_advance F W M k msg combined) k log k'"
  shows "\<exists>i r. merkle_next_index F W k = Ok i
    \<and> map (\<lambda>e. merkle_next_index F W (fst e)) log = map Ok [i..<i + length log]
    \<and> merkle_remaining_signatures F W k = Ok (length log + r)
    \<and> merkle_next_index F W k' = Ok (i + length log)
    \<and> merkle_remaining_signatures F W k' = Ok r
    \<and> merkle_capacity F W k' = Ok (i + length log + r)"
proof -
  have good: "usable_key F M k"
    using assms(1-3) by (auto simp: usable_key_def)
  note chain = merkle.signs_good[OF assms(4) good] merkle.signs_left[OF assms(4) good]
    merkle.signs_leaves[OF assms(4) good] merkle.signs_index[OF assms(4) good]
  have "map (\<lambda>e. merkle_next_index F W (fst e)) log = map Ok (map (\<lambda>e. leaf_index (fst e)) log)"
    by (simp add: usable_reads(1)[OF merkle.signs_log_good[OF assms(4) good]])
  then show ?thesis
    using usable_reads[OF good] usable_reads[OF chain(1)] chain(2-4)
    by (intro exI[of _ "leaf_index k"] exI[of _ "leaves_left k'"]) simp
qed

theorem merkle_no_leaf_reuse_witness:
  "\<exists>i r. merkle_next_index {FLamport} leb_wire example_merkle = Ok i
    \<and> merkle_remaining_signatures {FLamport} leb_wire example_merkle = Ok (Suc r)
    \<and> merkle_next_index {FLamport} leb_wire (example_next example_merkle) = Ok (Suc i)
    \<and> merkle_remaining_signatures {FLamport} leb_wire (example_next example_merkle) = Ok r"
  using merkle_no_leaf_reuse[where F = "{FLamport}" and W = leb_wire, OF toy_merkle_ok _ example_merkle_key
      signs.more[OF _ signs.none, where m = "([7], True)"]] example_sign[of leb_wire "[7]" True]
  by auto

text \<open>
  While leaves are left, signing goes on: a key that reports \<open>r\<close> remaining signatures signs any
  messages, up to \<open>r\<close> of them, one after the other, and reports what is left over at the end.
\<close>

lemma merkle_signs_all:
  assumes "merkle_lib_ok M" "merkle_lib_live M" "FLamport \<in> F" "merkle_key d st k"
    and "merkle_remaining_signatures F W k = Ok r" "length msgs \<le> r"
  shows "\<exists>log k'. signs (\<lambda>k (msg, combined). merkle_sign_advance F W M k msg combined) k log k'
    \<and> map (\<lambda>e. fst (snd e)) log = msgs \<and> merkle_remaining_signatures F W k' = Ok (r - length msgs)"
proof -
  have good: "usable_key F M k \<and> merkle_lib_live M"
    using assms(1-4) by (auto simp: usable_key_def)
  have "leaves_left k = r"
    using assms(5) usable_reads(2)[OF conjunct1[OF good], of W] by simp
  then obtain log k' where log: "signs (\<lambda>k (msg, combined). merkle_sign_advance F W M k msg combined) k log k'"
    "map (\<lambda>e. fst (snd e)) log = msgs" "leaves_left k' = r - length msgs"
    using merkle_live.signs_all[OF good, of msgs W] assms(6) by auto
  then show ?thesis
    using usable_reads(2)[OF merkle.signs_good[OF log(1) conjunct1[OF good]], of W] by auto
qed

lemma merkle_signs_all_witness:
  "\<exists>log k'. signs (\<lambda>k (msg, combined). merkle_sign_advance {FLamport} leb_wire toy_merkle k msg combined) example_merkle log k'
    \<and> map (\<lambda>e. fst (snd e)) log = [([7], True), ([8], False)] \<and> merkle_remaining_signatures {FLamport} leb_wire k' = Ok 0"
proof -
  have live: "merkle_lib_live toy_merkle"
    by (simp add: merkle_lib_live_def toy_merkle_def)
  have "merkle_remaining_signatures {FLamport} leb_wire example_merkle = Ok 2"
    unfolding merkle_key_reads[OF example_merkle_key insertI1] using example_state_step by simp
  from merkle_signs_all[OF toy_merkle_ok live insertI1 example_merkle_key this, of "[([7], True), ([8], False)]"]
  show ?thesis
    by simp
qed

text \<open>
  C14: Every signature made with a key, or with a key it was advanced to, verifies under the public key
  of the original key, with the message passed in or, for a combined signature of a non-empty
  message, without it. Advancing a key does not change its public key.
\<close>

theorem merkle_signatures_verify:
  assumes "merkle_lib_ok M" "FLamport \<in> F" "merkle_key d st k"
    and "signs (\<lambda>k (msg, combined). merkle_sign_advance F W M k msg combined) k log k'"
    and "merkle_to_public_key F W M k = Ok pk"
  shows "merkle_to_public_key F W M k' = Ok pk
    \<and> (\<forall>(k1, (msg, combined), ms) \<in> set log.
         merkle_verify F W M pk ms (Some msg) = Ok ()
         \<and> (combined \<and> msg \<noteq> [] \<longrightarrow> merkle_verify F W M pk ms None = Ok ()))"
proof -
  have good: "usable_key F M k"
    using assms(1-3) by (auto simp: usable_key_def)
  have "merkle_to_public_key F W M k' = Ok pk \<and> (\<forall>(k1, m, ms) \<in> set log.
      merkle_to_public_key F W M k1 = Ok pk \<and> usable_key F M k1
      \<and> (\<exists>k2. (\<lambda>k (msg, combined). merkle_sign_advance F W M k msg combined) k1 m = Ok (ms, k2)))"
    by (rule merkle.signs_keep[where P = "\<lambda>k. merkle_to_public_key F W M k = Ok pk", OF _ assms(4) good assms(5)])
      (auto dest: same_public_key)
  then show ?thesis
    using signature_verifies by fastforce
qed

theorem merkle_signatures_verify_witness:
  "merkle_verify {FLamport} leb_wire toy_merkle example_merkle_public
     (example_multisig [7] True) None = Ok ()"
  using merkle_signatures_verify[where F = "{FLamport}", OF toy_merkle_ok _ example_merkle_key
      signs.more[OF _ signs.none, where m = "([7], True)"] example_merkle_to_public[of leb_wire]]
    example_sign[of leb_wire "[7]" True]
  by auto

text \<open>
  The capacity of a public key is computed with a shift by the depth byte, which is checked against
  the attribute only: a public key that claims a depth of 64 or more, in both places, makes
  \<^verbatim>\<open>capacity\<close> overflow the shift (a panic in a checked build) while \<^verbatim>\<open>depth\<close> answers.
\<close>

theorem merkle_capacity_panics:
  assumes "FLamport \<in> F" "mk_codec k = LamportMerkle d LPub"
    and "mk_attributes k KeyData = Some (b # root)" "mk_attributes k Depth = Some [b]" "64 \<le> unat b"
  shows "merkle_depth F W k = Ok b \<and> merkle_capacity F W k = Panic"
proof -
  have "dispatched_bytes F W k = Ok (b # root)"
    using merkle_views(3)[OF assms(2) _ assms(1)] assms(3) by (simp add: lpart_key_def key_data_def get_attr_def)
  moreover have "check_depth_attribute k b = Ok ()"
    using assms(4) by (simp add: check_depth_self get_attr_def)
  ultimately show ?thesis
    using assms(2,5)
    by (simp add: merkle_capacity_def merkle_depth_def is_merkle_priv_def wire_depth_at_def usize_shl1_def)
qed

theorem merkle_capacity_panics_witness:
  "merkle_capacity {FLamport} leb_wire \<lparr>mk_codec = LamportMerkle Sha3_256 LPub, mk_comment = [],
     mk_attributes = [KeyData \<mapsto> [64], Depth \<mapsto> [64]]\<rparr> = Panic"
  using merkle_capacity_panics[where F = "{FLamport}" and b = 64 and root = "[]" and d = Sha3_256
      and k = "\<lparr>mk_codec = LamportMerkle Sha3_256 LPub, mk_comment = [],
        mk_attributes = [KeyData \<mapsto> [64], Depth \<mapsto> [64]]\<rparr>" and W = leb_wire]
  by simp

end
