(* ===== verification/Mk_HybridSeal.thy ===== *)
theory Mk_HybridSeal
  imports Mk_Kem
begin

text \<open>
  The remaining sealing views: Classic McEliece (\<^verbatim>\<open>src/views/classic_mceliece.rs\<close>) and the four hybrids
  of X25519 with a post-quantum KEM (\<^verbatim>\<open>x25519_mlkem768.rs\<close>, \<^verbatim>\<open>x25519_sntrup761.rs\<close>,
  \<^verbatim>\<open>x25519_mceliece348864.rs\<close>, \<^verbatim>\<open>x25519_frodokem640.rs\<close>), with the helper of the FrodoKEM views
  (\<^verbatim>\<open>frodokem_helper.rs\<close>). A hybrid message is sealed under a hash of both shared secrets, the
  KEM ciphertext and the ephemeral X25519 key. What a hybrid needs from its KEM is the locale
  \<open>x25519_hybrid\<close>, which gives its round trip; it is interpreted for the four hybrids. Classic McEliece
  is another \<open>kem_view\<close>.
\<close>

section \<open>The external functions\<close>

record hybrid_kem_lib =
  hk_kem :: kem_lib
  hk_sha512 :: "bytes \<Rightarrow> bytes"
  hk_blake3 :: "bytes \<Rightarrow> bytes"
  hk_chacha_stream :: "bytes \<Rightarrow> bytes"                             \<comment> \<open>first 32 bytes of the stream of a seed\<close>
  mc_keypair :: "bytes \<Rightarrow> (string, bytes \<times> bytes) outcome"          \<comment> \<open>\<^verbatim>\<open>generate_keypair_from_seed\<close>\<close>
  mc_params :: "nat \<times> nat \<times> nat"                                  \<comment> \<open>\<open>m\<close>, \<open>t\<close> and \<open>k\<close> of the parameter set\<close>
  mc_key :: "bytes \<Rightarrow> (string, unit) outcome"                      \<comment> \<open>\<^verbatim>\<open>encapsulation_key_from_bytes\<close>\<close>
  mc_encaps :: "bytes \<Rightarrow> (string, bytes \<times> bytes) outcome"
  mc_ct :: "bytes \<Rightarrow> (string, unit) outcome"                       \<comment> \<open>\<^verbatim>\<open>ciphertext_from_bytes\<close>\<close>
  mc_decaps :: "bytes \<Rightarrow> bytes \<Rightarrow> (string, bytes) outcome"

definition mceliece_ok :: "hybrid_kem_lib \<Rightarrow> bool" where
  "mceliece_ok H \<longleftrightarrow>
     (\<forall>seed ek dk ct ss. mc_keypair H seed = Ok (ek, dk) \<longrightarrow> mc_encaps H ek = Ok (ct, ss) \<longrightarrow>
        mc_ct H ct = Ok () \<and> mc_decaps H dk ct = Ok ss)"

definition hybrid_kem_ok :: "hybrid_kem_lib \<Rightarrow> bool" where
  "hybrid_kem_ok H \<longleftrightarrow> kem_lib_ok (hk_kem H) \<and> mceliece_ok H"

section \<open>The helper of the FrodoKEM views\<close>

text \<open>The \<^verbatim>\<open>frodo_kem_rs\<close> functions that the helper calls; a \<^verbatim>\<open>frodo_set\<close> is their \<^verbatim>\<open>Algorithm\<close>.\<close>

record frodo_lib =
  fr_generate :: "frodo_set \<Rightarrow> bytes \<times> bytes"                        \<comment> \<open>public and private key\<close>
  fr_public :: "frodo_set \<Rightarrow> bytes \<Rightarrow> (string, unit) outcome"         \<comment> \<open>\<^verbatim>\<open>encryption_key_from_bytes\<close>\<close>
  fr_secret :: "frodo_set \<Rightarrow> bytes \<Rightarrow> (string, unit) outcome"         \<comment> \<open>\<^verbatim>\<open>decryption_key_from_bytes\<close>\<close>
  fr_ct :: "frodo_set \<Rightarrow> bytes \<Rightarrow> (string, unit) outcome"             \<comment> \<open>\<^verbatim>\<open>ciphertext_from_bytes\<close>\<close>
  fr_public_of :: "frodo_set \<Rightarrow> bytes \<Rightarrow> bytes"
  fr_encapsulate :: "frodo_set \<Rightarrow> bytes \<Rightarrow> (string, bytes \<times> bytes) outcome"
  fr_decapsulate :: "frodo_set \<Rightarrow> bytes \<Rightarrow> bytes \<Rightarrow> (string, bytes \<times> bytes) outcome"
    \<comment> \<open>shared secret and message\<close>

definition frodo_keypair :: "frodo_lib \<Rightarrow> frodo_set \<Rightarrow> bytes \<times> bytes" where
  "frodo_keypair R alg = (case fr_generate R alg of (ek, dk) \<Rightarrow> (ek, dk))"

definition frodo_encap :: "frodo_lib \<Rightarrow> frodo_set \<Rightarrow> bytes \<Rightarrow> (string, bytes \<times> bytes) outcome" where
  "frodo_encap R alg pub =
     and_then (fr_public R alg pub) (\<lambda>_.
     and_then (fr_encapsulate R alg pub) (\<lambda>(ct, ss). Ok (ct, ss)))"

definition frodo_decap :: "frodo_lib \<Rightarrow> frodo_set \<Rightarrow> bytes \<Rightarrow> bytes \<Rightarrow> (string, bytes) outcome" where
  "frodo_decap R alg secret ct =
     and_then (fr_secret R alg secret) (\<lambda>_.
     and_then (fr_ct R alg ct) (\<lambda>_.
     and_then (fr_decapsulate R alg secret ct) (\<lambda>(ss, _). Ok ss)))"

definition frodo_public_from_private :: "frodo_lib \<Rightarrow> frodo_set \<Rightarrow> bytes \<Rightarrow> (string, bytes) outcome" where
  "frodo_public_from_private R alg secret =
     and_then (fr_secret R alg secret) (\<lambda>_. Ok (fr_public_of R alg secret))"

text \<open>The helper is what the FrodoKEM views take from their KEM library.\<close>

definition with_frodo :: "frodo_lib \<Rightarrow> kem_lib \<Rightarrow> kem_lib" where
  "with_frodo R K =
     K\<lparr>frodo_public := frodo_public_from_private R, frodo_encaps := frodo_encap R, frodo_decaps := frodo_decap R\<rparr>"

definition frodo_lib_ok :: "frodo_lib \<Rightarrow> bool" where
  "frodo_lib_ok R \<longleftrightarrow>
     (\<forall>alg sk ct ss. fr_secret R alg sk = Ok () \<longrightarrow> fr_encapsulate R alg (fr_public_of R alg sk) = Ok (ct, ss) \<longrightarrow>
        fr_ct R alg ct = Ok () \<and> (\<exists>msg. fr_decapsulate R alg sk ct = Ok (ss, msg)))"

lemma with_frodo_ok: "kem_lib_ok K \<Longrightarrow> frodo_lib_ok R \<Longrightarrow> kem_lib_ok (with_frodo R K)"
  by (auto simp: kem_lib_ok_def with_frodo_def frodo_lib_ok_def frodo_public_from_private_def frodo_encap_def
      frodo_decap_def outcome_simps)

section \<open>Classic McEliece\<close>

definition MCELIECE_SEED_LENGTH :: nat where "MCELIECE_SEED_LENGTH = 32"

definition mceliece_keypair_from_seed :: "hybrid_kem_lib \<Rightarrow> bytes \<Rightarrow> (bytes \<times> bytes) res" where
  "mceliece_keypair_from_seed H seed =
     map_err (\<lambda>e. Conversions (CvSecretKeyFailure e)) (mc_keypair H (hk_chacha_stream H seed))"

definition is_mceliece_aead_allowed :: "codec \<Rightarrow> bool" where
  "is_mceliece_aead_allowed c \<longleftrightarrow> c = Xchacha20Poly1305 \<or> c = Chacha20Poly1305 \<or> c = AesGcm256"

text \<open>\<^verbatim>\<open>ALGORITHM.encapsulate\<close> and \<^verbatim>\<open>decapsulate\<close> with the parsing before them.\<close>

definition mceliece_encap :: "hybrid_kem_lib \<Rightarrow> bytes \<Rightarrow> (bytes \<times> bytes) res" where
  "mceliece_encap H pub =
     and_then (map_err (\<lambda>e. Seal (SeEncapsulationFailed e)) (mc_key H pub)) (\<lambda>_.
     map_err (\<lambda>e. Seal (SeEncapsulationFailed e)) (mc_encaps H pub))"

definition mceliece_decap :: "hybrid_kem_lib \<Rightarrow> bytes \<Rightarrow> bytes \<Rightarrow> bytes res" where
  "mceliece_decap H seed kem_ct =
     and_then (mceliece_keypair_from_seed H seed) (\<lambda>(_, dk).
     and_then (map_err (\<lambda>e. Seal (SeDecapsulationFailed e)) (mc_ct H kem_ct)) (\<lambda>_.
     map_err (\<lambda>e. Seal (SeDecapsulationFailed e)) (mc_decaps H dk kem_ct)))"

definition mceliece_to_public_key :: "features \<Rightarrow> wire \<Rightarrow> hybrid_kem_lib \<Rightarrow> multikey \<Rightarrow> multikey res" where
  "mceliece_to_public_key F W H k =
     and_then (dispatched_secret F W k) (\<lambda>seed.
     if length seed \<noteq> MCELIECE_SEED_LENGTH then Err (Conversions (CvSecretKeyFailure ''invalid seed length''))
     else
     and_then (mceliece_keypair_from_seed H seed) (\<lambda>(ek, _).
     Ok (public_multikey (Mceliece348864 Pub) k ek)))"

definition mceliece_seal ::
  "wire \<Rightarrow> aead_lib \<Rightarrow> hybrid_kem_lib \<Rightarrow> (nat \<Rightarrow> bytes) \<Rightarrow> multikey \<Rightarrow> bytes \<Rightarrow> codec \<Rightarrow> bytes \<Rightarrow>
   (bytes \<times> multikey option) res" where
  "mceliece_seal W L H rng k pt c aad =
     (if mk_codec k \<noteq> Mceliece348864 Pub then Err (Seal SeNotEncapsulationKey)
      else if \<not> is_mceliece_aead_allowed c then Err (Seal (SeUnsupportedAeadCodec c))
      else
      and_then (key_data k) (\<lambda>pub.
      and_then (mceliece_encap H pub) (\<lambda>(kem_ct, ss).
      and_then (seal_with_secret L rng (ascii ''mceliece-seal'') c ss pt aad) (\<lambda>(nonce, ct).
      Ok (encode_kem_sealed W kem_ct c nonce ct, None)))))"

definition mceliece_open ::
  "features \<Rightarrow> wire \<Rightarrow> aead_lib \<Rightarrow> hybrid_kem_lib \<Rightarrow> multikey \<Rightarrow> bytes \<Rightarrow> multikey option \<Rightarrow> bytes \<Rightarrow> bytes res" where
  "mceliece_open F W L H k sealed ephemeral aad =
     (if mk_codec k \<noteq> Mceliece348864 Priv then Err (Seal SeNotDecapsulationKey)
      else
      and_then (map_err Seal (decode_kem_sealed W sealed)) (\<lambda>(kem_ct, c, nonce, ct).
      if \<not> is_mceliece_aead_allowed c then Err (Seal (SeUnsupportedAeadCodec c))
      else
      and_then (dispatched_secret F W k) (\<lambda>seed.
      if length seed \<noteq> MCELIECE_SEED_LENGTH
      then Err (Conversions (CvSecretKeyFailure ''invalid seed length''))
      else
      and_then (mceliece_decap H seed kem_ct) (\<lambda>ss.
      open_with_secret L (ascii ''mceliece-seal'') c ss nonce ct aad))))"

definition mceliece_fingerprint where
  "mceliece_fingerprint mhash F W H k =
     fingerprint_with mhash F W (mk_codec k = Mceliece348864 Priv) (mceliece_to_public_key F W H k) k"

section \<open>What the hybrids share\<close>

definition HYBRID_X25519_LENGTH :: nat where "HYBRID_X25519_LENGTH = 32"

text \<open>The input of the combiner: a label, both secrets, the KEM ciphertext and the ephemeral key.\<close>

definition combiner_input :: "string \<Rightarrow> bytes \<Rightarrow> bytes \<Rightarrow> bytes \<Rightarrow> bytes \<Rightarrow> bytes" where
  "combiner_input label ss_kem ss_x25519 kem_ct ephemeral_pub =
     ascii label @ ss_kem @ ss_x25519 @ kem_ct @ ephemeral_pub"

text \<open>The decoder; the hybrids differ in the text for a missing KEM ciphertext.\<close>

definition decode_hybrid_sealed :: "string \<Rightarrow> wire \<Rightarrow> bytes \<Rightarrow> (bytes \<times> bytes \<times> bytes \<times> bytes) seal_res" where
  "decode_hybrid_sealed missing_ct W data =
     and_then (invalid_format ''missing ephemeral public key'' (get_varbytes W data)) (\<lambda>(ephemeral_pub, p).
     and_then (invalid_format missing_ct (get_varbytes W p)) (\<lambda>(kem_ct, p).
     and_then (invalid_format ''missing nonce'' (get_varbytes W p)) (\<lambda>(nonce, p).
     and_then (invalid_format ''missing ciphertext'' (get_varbytes W p)) (\<lambda>(ct_tag, _).
     Ok (ephemeral_pub, kem_ct, nonce, ct_tag)))))"

text \<open>
  The frames of conversion, sealing and opening. \<open>ok_len\<close> is the check on the length of the key,
  \<open>public\<close>, \<open>encap\<close> and \<open>decap\<close> are those of the KEM on the bytes behind the X25519 part,
  \<open>combine\<close> is the combiner and \<open>eph\<close> the random ephemeral secret.
\<close>

definition hybrid_convert ::
  "features \<Rightarrow> wire \<Rightarrow> kem_lib \<Rightarrow> (nat \<Rightarrow> bool) \<Rightarrow> string \<Rightarrow> (bytes \<Rightarrow> bytes res) \<Rightarrow> codec \<Rightarrow> multikey \<Rightarrow> multikey res" where
  "hybrid_convert F W K ok_len bad_len public pub_codec k =
     and_then (dispatched_secret F W k) (\<lambda>secret.
     if \<not> ok_len (length secret) then Err (Conversions (CvSecretKeyFailure bad_len))
     else
     and_then (public (drop HYBRID_X25519_LENGTH secret)) (\<lambda>kem_pub.
     Ok (public_multikey pub_codec k (x25519_public K (take HYBRID_X25519_LENGTH secret) @ kem_pub))))"

definition hybrid_seal ::
  "wire \<Rightarrow> aead_lib \<Rightarrow> kem_lib \<Rightarrow> (nat \<Rightarrow> bytes) \<Rightarrow> bytes \<Rightarrow> (codec \<Rightarrow> bool) \<Rightarrow> (nat \<Rightarrow> bool) \<Rightarrow>
   (bytes \<Rightarrow> (bytes \<times> bytes) res) \<Rightarrow> (bytes \<Rightarrow> bytes \<Rightarrow> bytes \<Rightarrow> bytes \<Rightarrow> bytes) \<Rightarrow> string \<Rightarrow>
   multikey \<Rightarrow> bytes \<Rightarrow> codec \<Rightarrow> bytes \<Rightarrow> (bytes \<times> multikey option) res" where
  "hybrid_seal W L K rng eph is_pub ok_len encap combine info k pt c aad =
     (if \<not> is_pub (mk_codec k) then Err (Seal SeNotEncapsulationKey)
      else if c \<noteq> Chacha20Poly1305 then Err (Seal (SeUnsupportedAeadCodec c))
      else
      and_then (key_data k) (\<lambda>pub.
      if \<not> ok_len (length pub) then Err (Seal (SeEncapsulationFailed ''invalid hybrid public key length''))
      else
      let ss_x25519 = x25519_dh K eph (take HYBRID_X25519_LENGTH pub);
          ephemeral_pub = x25519_public K eph in
      and_then (encap (drop HYBRID_X25519_LENGTH pub)) (\<lambda>(kem_ct, ss_kem).
      and_then (seal_with_secret L rng (ascii info) c (combine ss_kem ss_x25519 kem_ct ephemeral_pub) pt aad) (\<lambda>(nonce, ct).
      Ok (encode_hybrid_sealed W ephemeral_pub kem_ct nonce ct, None)))))"

definition hybrid_open ::
  "features \<Rightarrow> wire \<Rightarrow> aead_lib \<Rightarrow> kem_lib \<Rightarrow> (codec \<Rightarrow> bool) \<Rightarrow> string \<Rightarrow> (nat \<Rightarrow> bool) \<Rightarrow> string \<Rightarrow>
   (bytes \<Rightarrow> bytes \<Rightarrow> bytes res) \<Rightarrow> (bytes \<Rightarrow> bytes \<Rightarrow> bytes \<Rightarrow> bytes \<Rightarrow> bytes) \<Rightarrow> string \<Rightarrow>
   multikey \<Rightarrow> bytes \<Rightarrow> bytes \<Rightarrow> bytes res" where
  "hybrid_open F W L K is_priv missing_ct ok_len bad_len decap combine info k sealed aad =
     (if \<not> is_priv (mk_codec k) then Err (Seal SeNotDecapsulationKey)
      else
      and_then (map_err Seal (decode_hybrid_sealed missing_ct W sealed)) (\<lambda>(ephemeral_pub, kem_ct, nonce, ct).
      if length ephemeral_pub \<noteq> HYBRID_X25519_LENGTH
      then Err (Seal (SeInvalidFormat ''invalid ephemeral public key length''))
      else
      and_then (dispatched_secret F W k) (\<lambda>secret.
      if \<not> ok_len (length secret) then Err (Conversions (CvSecretKeyFailure bad_len))
      else
      let ss_x25519 = x25519_dh K (take HYBRID_X25519_LENGTH secret) ephemeral_pub in
      and_then (decap (drop HYBRID_X25519_LENGTH secret) kem_ct) (\<lambda>ss_kem.
      open_with_secret L (ascii info) Chacha20Poly1305 (combine ss_kem ss_x25519 kem_ct ephemeral_pub)
        nonce ct aad))))"

section \<open>X25519 with ML-KEM-768\<close>

definition MLKEM768_HYBRID_SEED_LENGTH :: nat where "MLKEM768_HYBRID_SEED_LENGTH = 96"
definition MLKEM768_HYBRID_PUB_LENGTH :: nat where "MLKEM768_HYBRID_PUB_LENGTH = 1216"

definition x25519_mlkem768_combine :: "hybrid_kem_lib \<Rightarrow> bytes \<Rightarrow> bytes \<Rightarrow> bytes \<Rightarrow> bytes \<Rightarrow> bytes" where
  "x25519_mlkem768_combine H ss_mlkem ss_x25519 ct eph =
     hk_sha512 H (combiner_input ''x25519-mlkem768-hpke'' ss_mlkem ss_x25519 ct eph)"

definition x25519_mlkem768_encap :: "hybrid_kem_lib \<Rightarrow> bytes \<Rightarrow> (bytes \<times> bytes) res" where
  "x25519_mlkem768_encap H pub =
     (if length pub \<noteq> mlkem_ek_size (hk_kem H) K768
      then Err (Seal (SeEncapsulationFailed ''invalid ML-KEM-768 public key''))
      else ok_or (Seal (SeEncapsulationFailed ''invalid ML-KEM-768 public key'')) (mlkem_encaps (hk_kem H) K768 pub))"

definition x25519_mlkem768_decap :: "hybrid_kem_lib \<Rightarrow> bytes \<Rightarrow> bytes \<Rightarrow> bytes res" where
  "x25519_mlkem768_decap H seed ct =
     (if length ct \<noteq> mlkem_ct_size (hk_kem H) K768
      then Err (Seal (SeDecapsulationFailed ''invalid ML-KEM ciphertext size''))
      else Ok (mlkem_decaps (hk_kem H) K768 seed ct))"

definition x25519_mlkem768_to_public_key :: "features \<Rightarrow> wire \<Rightarrow> hybrid_kem_lib \<Rightarrow> multikey \<Rightarrow> multikey res" where
  "x25519_mlkem768_to_public_key F W H =
     hybrid_convert F W (hk_kem H) (\<lambda>n. n = MLKEM768_HYBRID_SEED_LENGTH) ''invalid hybrid seed length''
       (\<lambda>seed. Ok (mlkem_public (hk_kem H) K768 seed)) (X25519Mlkem768 Pub)"

definition x25519_mlkem768_fingerprint where
  "x25519_mlkem768_fingerprint mhash F W H k =
     fingerprint_with mhash F W (mk_codec k = X25519Mlkem768 Priv) (x25519_mlkem768_to_public_key F W H k) k"

definition x25519_mlkem768_decode_sealed where
  "x25519_mlkem768_decode_sealed = decode_hybrid_sealed ''missing ML-KEM ciphertext''"

definition x25519_mlkem768_seal where
  "x25519_mlkem768_seal W L H rng eph =
     hybrid_seal W L (hk_kem H) rng eph (\<lambda>c. c = X25519Mlkem768 Pub) (\<lambda>n. n = MLKEM768_HYBRID_PUB_LENGTH)
       (x25519_mlkem768_encap H) (x25519_mlkem768_combine H) ''x25519-mlkem768-seal''"

definition x25519_mlkem768_open where
  "x25519_mlkem768_open F W L H k sealed (ephemeral :: multikey option) aad =
     hybrid_open F W L (hk_kem H) (\<lambda>c. c = X25519Mlkem768 Priv) ''missing ML-KEM ciphertext''
       (\<lambda>n. n = MLKEM768_HYBRID_SEED_LENGTH) ''invalid hybrid seed length''
       (x25519_mlkem768_decap H) (x25519_mlkem768_combine H) ''x25519-mlkem768-seal'' k sealed aad"

section \<open>X25519 with sntrup761\<close>

definition SNTRUP_HYBRID_SEED_LENGTH :: nat where "SNTRUP_HYBRID_SEED_LENGTH = 64"
definition SNTRUP_HYBRID_PUB_LENGTH :: nat where "SNTRUP_HYBRID_PUB_LENGTH = 1190"

definition x25519_sntrup761_combine :: "hybrid_kem_lib \<Rightarrow> bytes \<Rightarrow> bytes \<Rightarrow> bytes \<Rightarrow> bytes \<Rightarrow> bytes" where
  "x25519_sntrup761_combine H ss_sntrup ss_x25519 ct eph =
     hk_blake3 H (combiner_input ''x25519-sntrup761-hpke'' ss_sntrup ss_x25519 ct eph)"

definition x25519_sntrup761_encap :: "hybrid_kem_lib \<Rightarrow> bytes \<Rightarrow> (bytes \<times> bytes) res" where
  "x25519_sntrup761_encap H pub =
     ok_or (Seal (SeEncapsulationFailed ''invalid sntrup761 public key'')) (sntrup_encaps (hk_kem H) S761 pub)"

definition x25519_sntrup761_decap :: "hybrid_kem_lib \<Rightarrow> bytes \<Rightarrow> bytes \<Rightarrow> bytes res" where
  "x25519_sntrup761_decap H seed ct =
     ok_or (Seal (SeDecapsulationFailed ''invalid sntrup761 ciphertext'')) (sntrup_decaps (hk_kem H) S761 seed ct)"

definition x25519_sntrup761_to_public_key :: "features \<Rightarrow> wire \<Rightarrow> hybrid_kem_lib \<Rightarrow> multikey \<Rightarrow> multikey res" where
  "x25519_sntrup761_to_public_key F W H =
     hybrid_convert F W (hk_kem H) (\<lambda>n. n = SNTRUP_HYBRID_SEED_LENGTH) ''invalid hybrid seed length''
       (\<lambda>seed. Ok (sntrup_public (hk_kem H) S761 seed)) (X25519Sntrup761 Pub)"

definition x25519_sntrup761_fingerprint where
  "x25519_sntrup761_fingerprint mhash F W H k =
     fingerprint_with mhash F W (mk_codec k = X25519Sntrup761 Priv) (x25519_sntrup761_to_public_key F W H k) k"

definition x25519_sntrup761_decode_sealed where
  "x25519_sntrup761_decode_sealed = decode_hybrid_sealed ''missing sntrup761 ciphertext''"

definition x25519_sntrup761_seal where
  "x25519_sntrup761_seal W L H rng eph =
     hybrid_seal W L (hk_kem H) rng eph (\<lambda>c. c = X25519Sntrup761 Pub) (\<lambda>n. n = SNTRUP_HYBRID_PUB_LENGTH)
       (x25519_sntrup761_encap H) (x25519_sntrup761_combine H) ''x25519-sntrup761-seal''"

definition x25519_sntrup761_open where
  "x25519_sntrup761_open F W L H k sealed (ephemeral :: multikey option) aad =
     hybrid_open F W L (hk_kem H) (\<lambda>c. c = X25519Sntrup761 Priv) ''missing sntrup761 ciphertext''
       (\<lambda>n. n = SNTRUP_HYBRID_SEED_LENGTH) ''invalid hybrid seed length''
       (x25519_sntrup761_decap H) (x25519_sntrup761_combine H) ''x25519-sntrup761-seal'' k sealed aad"

section \<open>X25519 with Classic McEliece\<close>

definition MCELIECE_HYBRID_SEED_LENGTH :: nat where "MCELIECE_HYBRID_SEED_LENGTH = 64"

definition mceliece_pub_length :: "hybrid_kem_lib \<Rightarrow> nat" where
  "mceliece_pub_length H = (case mc_params H of (m, t, k) \<Rightarrow> m * t * k div 8)"

definition x25519_mceliece_combine :: "hybrid_kem_lib \<Rightarrow> bytes \<Rightarrow> bytes \<Rightarrow> bytes \<Rightarrow> bytes \<Rightarrow> bytes" where
  "x25519_mceliece_combine H ss_mceliece ss_x25519 ct eph =
     hk_blake3 H (combiner_input ''x25519-mceliece348864-hpke'' ss_mceliece ss_x25519 ct eph)"

definition x25519_mceliece_to_public_key :: "features \<Rightarrow> wire \<Rightarrow> hybrid_kem_lib \<Rightarrow> multikey \<Rightarrow> multikey res" where
  "x25519_mceliece_to_public_key F W H =
     hybrid_convert F W (hk_kem H) (\<lambda>n. n = MCELIECE_HYBRID_SEED_LENGTH) ''invalid hybrid seed length''
       (\<lambda>seed. and_then (mceliece_keypair_from_seed H seed) (\<lambda>(ek, _). Ok ek)) (X25519Mceliece348864 Pub)"

definition x25519_mceliece_fingerprint where
  "x25519_mceliece_fingerprint mhash F W H k =
     fingerprint_with mhash F W (mk_codec k = X25519Mceliece348864 Priv) (x25519_mceliece_to_public_key F W H k) k"

definition x25519_mceliece_decode_sealed where
  "x25519_mceliece_decode_sealed = decode_hybrid_sealed ''missing mceliece ciphertext''"

definition x25519_mceliece_seal where
  "x25519_mceliece_seal W L H rng eph =
     hybrid_seal W L (hk_kem H) rng eph (\<lambda>c. c = X25519Mceliece348864 Pub)
       (\<lambda>n. n = HYBRID_X25519_LENGTH + mceliece_pub_length H)
       (mceliece_encap H) (x25519_mceliece_combine H) ''x25519-mceliece348864-seal''"

definition x25519_mceliece_open where
  "x25519_mceliece_open F W L H k sealed (ephemeral :: multikey option) aad =
     hybrid_open F W L (hk_kem H) (\<lambda>c. c = X25519Mceliece348864 Priv) ''missing mceliece ciphertext''
       (\<lambda>n. n = MCELIECE_HYBRID_SEED_LENGTH) ''invalid hybrid seed length''
       (mceliece_decap H) (x25519_mceliece_combine H) ''x25519-mceliece348864-seal'' k sealed aad"

section \<open>X25519 with FrodoKEM-640\<close>

definition x25519_frodokem640_pub_codec :: "codec \<Rightarrow> codec" where
  "x25519_frodokem640_pub_codec c =
     (case c of X25519Frodokem640 Aes _ \<Rightarrow> X25519Frodokem640 Aes Pub | _ \<Rightarrow> X25519Frodokem640 Shake Pub)"

definition x25519_frodokem640_is_shake :: "codec \<Rightarrow> bool" where
  "x25519_frodokem640_is_shake c \<longleftrightarrow> (case c of X25519Frodokem640 Shake _ \<Rightarrow> True | _ \<Rightarrow> False)"

text \<open>The parameter set of the helper function that is chosen.\<close>

definition x25519_frodokem640_set :: "codec \<Rightarrow> frodo_set" where
  "x25519_frodokem640_set c = (if x25519_frodokem640_is_shake c then F640Shake else F640Aes)"

definition x25519_frodokem640_public :: "hybrid_kem_lib \<Rightarrow> codec \<Rightarrow> bytes \<Rightarrow> bytes res" where
  "x25519_frodokem640_public H c secret =
     map_err (\<lambda>e. Conversions (CvSecretKeyFailure e)) (frodo_public (hk_kem H) (x25519_frodokem640_set c) secret)"

definition x25519_frodokem640_encap :: "hybrid_kem_lib \<Rightarrow> codec \<Rightarrow> bytes \<Rightarrow> (bytes \<times> bytes) res" where
  "x25519_frodokem640_encap H c pub =
     map_err (\<lambda>e. Seal (SeEncapsulationFailed e)) (frodo_encaps (hk_kem H) (x25519_frodokem640_set c) pub)"

definition x25519_frodokem640_decap :: "hybrid_kem_lib \<Rightarrow> codec \<Rightarrow> bytes \<Rightarrow> bytes \<Rightarrow> bytes res" where
  "x25519_frodokem640_decap H c secret ct =
     map_err (\<lambda>e. Seal (SeDecapsulationFailed e)) (frodo_decaps (hk_kem H) (x25519_frodokem640_set c) secret ct)"

definition x25519_frodokem640_generate :: "frodo_lib \<Rightarrow> (nat \<Rightarrow> bytes) \<Rightarrow> codec \<Rightarrow> bytes" where
  "x25519_frodokem640_generate R rng c =
     rng HYBRID_X25519_LENGTH @ snd (frodo_keypair R (x25519_frodokem640_set c))"

definition x25519_frodokem640_combine :: "hybrid_kem_lib \<Rightarrow> bytes \<Rightarrow> bytes \<Rightarrow> bytes \<Rightarrow> bytes \<Rightarrow> bytes" where
  "x25519_frodokem640_combine H ss_frodo ss_x25519 ct eph =
     hk_blake3 H (combiner_input ''x25519-frodokem640-hpke'' ss_frodo ss_x25519 ct eph)"

definition x25519_frodokem640_to_public_key :: "features \<Rightarrow> wire \<Rightarrow> hybrid_kem_lib \<Rightarrow> multikey \<Rightarrow> multikey res" where
  "x25519_frodokem640_to_public_key F W H k =
     hybrid_convert F W (hk_kem H) (\<lambda>n. HYBRID_X25519_LENGTH < n) ''invalid hybrid secret length''
       (x25519_frodokem640_public H (mk_codec k)) (x25519_frodokem640_pub_codec (mk_codec k)) k"

definition x25519_frodokem640_fingerprint where
  "x25519_frodokem640_fingerprint mhash F W H k =
     fingerprint_with mhash F W (is_x25519_frodo_priv (mk_codec k)) (x25519_frodokem640_to_public_key F W H k) k"

definition x25519_frodokem640_decode_sealed where
  "x25519_frodokem640_decode_sealed = decode_hybrid_sealed ''missing frodokem ciphertext''"

definition x25519_frodokem640_seal where
  "x25519_frodokem640_seal W L H rng eph k =
     hybrid_seal W L (hk_kem H) rng eph is_x25519_frodo_pub (\<lambda>n. HYBRID_X25519_LENGTH < n)
       (x25519_frodokem640_encap H (mk_codec k)) (x25519_frodokem640_combine H) ''x25519-frodokem640-seal'' k"

definition x25519_frodokem640_open where
  "x25519_frodokem640_open F W L H k sealed (ephemeral :: multikey option) aad =
     hybrid_open F W L (hk_kem H) is_x25519_frodo_priv ''missing frodokem ciphertext''
       (\<lambda>n. HYBRID_X25519_LENGTH < n) ''invalid hybrid secret length''
       (x25519_frodokem640_decap H (mk_codec k)) (x25519_frodokem640_combine H) ''x25519-frodokem640-seal'' k sealed aad"

section \<open>The contract of a hybrid\<close>

text \<open>
  A hybrid needs of its KEM that a secret and the public key made from it agree on the shared secret; the
  X25519 half is the same everywhere. \<open>ok\<close> is the hypothesis on the external functions.
\<close>

lemma decode_encode_hybrid_sealed:
  "wire_ok W \<Longrightarrow> fits e \<Longrightarrow> fits kem_ct \<Longrightarrow> fits nonce \<Longrightarrow> fits ct \<Longrightarrow>
   decode_hybrid_sealed what W (encode_hybrid_sealed W e kem_ct nonce ct @ r) = Ok (e, kem_ct, nonce, ct)"
  by (simp add: decode_hybrid_sealed_def encode_hybrid_sealed_fields varbytes_wire.dec_enc invalid_format_def)

locale x25519_hybrid =
  fixes K :: kem_lib
    and public :: "bytes \<Rightarrow> bytes res"
    and encap :: "bytes \<Rightarrow> (bytes \<times> bytes) res"
    and decap :: "bytes \<Rightarrow> bytes \<Rightarrow> bytes res"
    and ok :: bool
  assumes x25519: "ok \<Longrightarrow> kem_lib_ok K"
    and agree: "ok \<Longrightarrow> public sk = Ok pub \<Longrightarrow> encap pub = Ok (ct, ss) \<Longrightarrow> decap sk ct = Ok ss"
begin

lemma converted:
  assumes "hybrid_convert F W K sec_len bad public pub_codec k = Ok pk"
  obtains secret kem_pub where "dispatched_secret F W k = Ok secret" "sec_len (length secret)"
    "public (drop HYBRID_X25519_LENGTH secret) = Ok kem_pub"
    "pk = public_multikey pub_codec k (x25519_public K (take HYBRID_X25519_LENGTH secret) @ kem_pub)"
  using assms by (auto simp: hybrid_convert_def outcome_simps split: if_splits)

lemma open_seal:
  assumes ok: ok "aead_lib_ok L" "wire_ok W"
    and pk: "hybrid_convert F W K sec_len bad public pub_codec k = Ok pk"
    and sealed: "hybrid_seal W L K rng eph is_pub pub_len encap combine info pk pt c aad = Ok (msg, e)"
    and size: "fits msg" and priv: "is_priv (mk_codec k)"
  shows "hybrid_open F W L K is_priv missing sec_len bad decap combine info k msg aad = Ok pt"
proof -
  obtain secret kem_pub where secret: "dispatched_secret F W k = Ok secret" "sec_len (length secret)"
    and pub: "public (drop HYBRID_X25519_LENGTH secret) = Ok kem_pub"
    and pk': "pk = public_multikey pub_codec k (x25519_public K (take HYBRID_X25519_LENGTH secret) @ kem_pub)"
    using pk by (rule converted)
  let ?x = "take HYBRID_X25519_LENGTH secret" and ?e = "x25519_public K eph"
  have len: "length (x25519_public K a) = HYBRID_X25519_LENGTH"
    and dh: "x25519_dh K a (x25519_public K b) = x25519_dh K b (x25519_public K a)" for a b
    using x25519[OF ok(1)] unfolding kem_lib_ok_def HYBRID_X25519_LENGTH_def by blast+
  obtain kem_ct ss nonce ct where c: "c = Chacha20Poly1305" and enc: "encap kem_pub = Ok (kem_ct, ss)"
    and seal: "seal_with_secret L rng (ascii info) c
        (combine ss (x25519_dh K eph (x25519_public K ?x)) kem_ct ?e) pt aad = Ok (nonce, ct)"
    and msg: "msg = encode_hybrid_sealed W ?e kem_ct nonce ct"
    using sealed unfolding pk' hybrid_seal_def by (auto simp: outcome_simps len Let_def split: if_splits)
  have "fits ?e" "fits kem_ct" "fits nonce" "fits ct"
    using size unfolding msg encode_hybrid_sealed_fields by (auto simp: encode_varbytes_into_def)
  then have "decode_hybrid_sealed missing W msg = Ok (?e, kem_ct, nonce, ct)"
    using decode_encode_hybrid_sealed[OF ok(3), of ?e kem_ct nonce ct missing "[]"] by (simp add: msg)
  then show ?thesis
    using secret priv agree[OF ok(1) pub enc] open_with_seal_secret[OF ok(2) seal]
    by (simp add: hybrid_open_def len c dh[of ?x eph])
qed

end

interpretation x25519_mlkem768: x25519_hybrid "hk_kem H" "\<lambda>seed. Ok (mlkem_public (hk_kem H) K768 seed)"
  "x25519_mlkem768_encap H" "x25519_mlkem768_decap H" "hybrid_kem_ok H" for H
  by unfold_locales
    (auto simp: hybrid_kem_ok_def kem_lib_ok_def x25519_mlkem768_encap_def x25519_mlkem768_decap_def outcome_simps
      split: if_splits)

interpretation x25519_sntrup761: x25519_hybrid "hk_kem H" "\<lambda>seed. Ok (sntrup_public (hk_kem H) S761 seed)"
  "x25519_sntrup761_encap H" "x25519_sntrup761_decap H" "hybrid_kem_ok H" for H
  by unfold_locales
    (auto simp: hybrid_kem_ok_def kem_lib_ok_def x25519_sntrup761_encap_def x25519_sntrup761_decap_def outcome_simps)

lemma mceliece_agree:
  assumes "hybrid_kem_ok H" "mceliece_keypair_from_seed H seed = Ok (ek, dk)" "mceliece_encap H ek = Ok (ct, ss)"
  shows "mceliece_decap H seed ct = Ok ss"
proof -
  have keys: "mc_keypair H (hk_chacha_stream H seed) = Ok (ek, dk)" and enc: "mc_encaps H ek = Ok (ct, ss)"
    using assms(2,3) by (auto simp: mceliece_keypair_from_seed_def mceliece_encap_def outcome_simps)
  then have "mc_ct H ct = Ok () \<and> mc_decaps H dk ct = Ok ss"
    using assms(1) unfolding hybrid_kem_ok_def mceliece_ok_def by blast
  then show ?thesis
    using keys by (simp add: mceliece_decap_def mceliece_keypair_from_seed_def)
qed

interpretation x25519_mceliece: x25519_hybrid "hk_kem H"
  "\<lambda>seed. and_then (mceliece_keypair_from_seed H seed) (\<lambda>(ek, _). Ok ek)"
  "mceliece_encap H" "mceliece_decap H" "hybrid_kem_ok H" for H
  by unfold_locales (auto simp: hybrid_kem_ok_def outcome_simps intro: mceliece_agree[unfolded hybrid_kem_ok_def])

interpretation x25519_frodokem640: x25519_hybrid "hk_kem H" "x25519_frodokem640_public H c"
  "x25519_frodokem640_encap H c" "x25519_frodokem640_decap H c" "hybrid_kem_ok H" for H c
  by unfold_locales
    (auto simp: hybrid_kem_ok_def kem_lib_ok_def x25519_frodokem640_public_def x25519_frodokem640_encap_def
      x25519_frodokem640_decap_def outcome_simps)

text \<open>Classic McEliece alone is a \<open>kem_view\<close>, like ML-KEM, sntrup and FrodoKEM.\<close>

lemma mceliece_to_public_eq_Ok:
  "mceliece_to_public_key F W H k = Ok pk \<longleftrightarrow>
   (\<exists>seed ek dk. checked_secret F W MCELIECE_SEED_LENGTH k = Ok seed \<and> mceliece_keypair_from_seed H seed = Ok (ek, dk)
      \<and> pk = public_multikey (Mceliece348864 Pub) k ek)"
  by (auto simp: mceliece_to_public_key_def checked_secret_def outcome_simps split: if_splits)

interpretation mceliece: kem_view "mceliece_to_public_key F W H" "\<lambda>_. mceliece_encap H" "\<lambda>_. mceliece_decap H"
  "checked_secret F W MCELIECE_SEED_LENGTH" "\<lambda>_. ascii ''mceliece-seal''" "hybrid_kem_ok H" for F W H
  by unfold_locales (auto simp: mceliece_to_public_eq_Ok outcome_simps intro: mceliece_agree)

lemma mceliece_seal_via:
  "mceliece_seal W L H rng k pt c aad = Ok r \<Longrightarrow>
   is_mceliece_aead_allowed c \<and>
   seal_via W L rng (\<lambda>_. mceliece_encap H) (\<lambda>_. ascii ''mceliece-seal'') k pt c aad = Ok r"
  by (simp add: mceliece_seal_def seal_via_def split: if_splits)

lemma mceliece_open_via:
  "mk_codec k = Mceliece348864 Priv \<Longrightarrow>
   mceliece_open F W L H k sealed e aad =
   open_via W L (\<lambda>_. mceliece_decap H) (checked_secret F W MCELIECE_SEED_LENGTH)
     (\<lambda>_. ascii ''mceliece-seal'') is_mceliece_aead_allowed k sealed aad"
  by (simp only: mceliece_open_def open_via_def checked_secret_then not_True_eq_False if_False simp_thms)

lemma x25519_frodokem640_pub_simps:
  assumes "is_x25519_frodo_priv c"
  shows "x25519_frodokem640_encap H (x25519_frodokem640_pub_codec c) = x25519_frodokem640_encap H c"
proof -
  obtain f where "c = X25519Frodokem640 f Priv"
    using assms by (cases c) (auto simp: is_x25519_frodo_priv_def)
  then show ?thesis
    by (cases f) (simp_all add: fun_eq_iff x25519_frodokem640_encap_def x25519_frodokem640_set_def x25519_frodokem640_is_shake_def
        x25519_frodokem640_pub_codec_def)
qed

lemmas hybrid_seal_view_defs =
  x25519_mlkem768_to_public_key_def x25519_mlkem768_seal_def x25519_mlkem768_open_def
  x25519_sntrup761_to_public_key_def x25519_sntrup761_seal_def x25519_sntrup761_open_def
  x25519_mceliece_to_public_key_def x25519_mceliece_seal_def x25519_mceliece_open_def
  x25519_frodokem640_to_public_key_def x25519_frodokem640_seal_def x25519_frodokem640_open_def

text \<open>
  C5: Sealing round trip of the four X25519 hybrids and of Classic McEliece: what was sealed to the
  public key that a private key converts to is opened by that private key.
\<close>

theorem hybrid_open_seal:
  assumes ok: "hybrid_kem_ok H" "aead_lib_ok L" "wire_ok W" and size: "fits msg"
  shows "(mk_codec k = X25519Mlkem768 Priv \<and> x25519_mlkem768_to_public_key F W H k = Ok pk
        \<and> x25519_mlkem768_seal W L H rng eph pk pt c aad = Ok (msg, e) \<longrightarrow>
      x25519_mlkem768_open F W L H k msg e aad = Ok pt)
    \<and> (mk_codec k = X25519Sntrup761 Priv \<and> x25519_sntrup761_to_public_key F W H k = Ok pk
        \<and> x25519_sntrup761_seal W L H rng eph pk pt c aad = Ok (msg, e) \<longrightarrow>
      x25519_sntrup761_open F W L H k msg e aad = Ok pt)
    \<and> (mk_codec k = X25519Mceliece348864 Priv \<and> x25519_mceliece_to_public_key F W H k = Ok pk
        \<and> x25519_mceliece_seal W L H rng eph pk pt c aad = Ok (msg, e) \<longrightarrow>
      x25519_mceliece_open F W L H k msg e aad = Ok pt)
    \<and> (is_x25519_frodo_priv (mk_codec k) \<and> x25519_frodokem640_to_public_key F W H k = Ok pk
        \<and> x25519_frodokem640_seal W L H rng eph pk pt c aad = Ok (msg, e) \<longrightarrow>
      x25519_frodokem640_open F W L H k msg e aad = Ok pt)
    \<and> (mk_codec k = Mceliece348864 Priv \<and> mceliece_to_public_key F W H k = Ok pk
        \<and> mceliece_seal W L H rng pk pt c aad = Ok (msg, e) \<longrightarrow>
      mceliece_open F W L H k msg e aad = Ok pt)"
proof (intro conjI impI; elim conjE)
  assume k: "mk_codec k = X25519Mlkem768 Priv" and pk: "x25519_mlkem768_to_public_key F W H k = Ok pk"
    and seal: "x25519_mlkem768_seal W L H rng eph pk pt c aad = Ok (msg, e)"
  show "x25519_mlkem768_open F W L H k msg e aad = Ok pt"
    unfolding hybrid_seal_view_defs
    by (rule x25519_mlkem768.open_seal[OF ok pk[unfolded hybrid_seal_view_defs] seal[unfolded hybrid_seal_view_defs] size]) (simp add: k)
next
  assume k: "mk_codec k = X25519Sntrup761 Priv" and pk: "x25519_sntrup761_to_public_key F W H k = Ok pk"
    and seal: "x25519_sntrup761_seal W L H rng eph pk pt c aad = Ok (msg, e)"
  show "x25519_sntrup761_open F W L H k msg e aad = Ok pt"
    unfolding hybrid_seal_view_defs
    by (rule x25519_sntrup761.open_seal[OF ok pk[unfolded hybrid_seal_view_defs] seal[unfolded hybrid_seal_view_defs] size]) (simp add: k)
next
  assume k: "mk_codec k = X25519Mceliece348864 Priv" and pk: "x25519_mceliece_to_public_key F W H k = Ok pk"
    and seal: "x25519_mceliece_seal W L H rng eph pk pt c aad = Ok (msg, e)"
  show "x25519_mceliece_open F W L H k msg e aad = Ok pt"
    unfolding hybrid_seal_view_defs
    by (rule x25519_mceliece.open_seal[OF ok pk[unfolded hybrid_seal_view_defs] seal[unfolded hybrid_seal_view_defs] size]) (simp add: k)
next
  assume k: "is_x25519_frodo_priv (mk_codec k)" and pk: "x25519_frodokem640_to_public_key F W H k = Ok pk"
    and seal: "x25519_frodokem640_seal W L H rng eph pk pt c aad = Ok (msg, e)"
  have "mk_codec pk = x25519_frodokem640_pub_codec (mk_codec k)"
    using pk by (auto simp: hybrid_seal_view_defs hybrid_convert_def outcome_simps split: if_splits)
  then have "hybrid_seal W L (hk_kem H) rng eph is_x25519_frodo_pub (\<lambda>n. HYBRID_X25519_LENGTH < n)
      (x25519_frodokem640_encap H (mk_codec k)) (x25519_frodokem640_combine H) ''x25519-frodokem640-seal'' pk pt c aad
    = Ok (msg, e)"
    using seal by (simp add: x25519_frodokem640_seal_def x25519_frodokem640_pub_simps[OF k])
  then show "x25519_frodokem640_open F W L H k msg e aad = Ok pt"
    unfolding hybrid_seal_view_defs
    by (rule x25519_frodokem640.open_seal[OF ok pk[unfolded hybrid_seal_view_defs] _ size]) (simp add: k)
next
  assume k: "mk_codec k = Mceliece348864 Priv" and pk: "mceliece_to_public_key F W H k = Ok pk"
    and seal: "mceliece_seal W L H rng pk pt c aad = Ok (msg, e)"
  then show "mceliece_open F W L H k msg e aad = Ok pt"
    using mceliece_seal_via[OF seal] by (auto simp: mceliece_open_via intro!: mceliece.open_seal[OF ok pk _ size])
qed

section \<open>An example\<close>

definition toy_hybrid_kem :: hybrid_kem_lib where
  "toy_hybrid_kem = \<lparr>hk_kem = toy_kem, hk_sha512 = id, hk_blake3 = id, hk_chacha_stream = id,
     mc_keypair = \<lambda>seed. Ok (seed, seed), mc_params = (12, 64, 2720), mc_key = \<lambda>ek. Ok (),
     mc_encaps = \<lambda>ek. Ok ([8], [2]), mc_ct = \<lambda>ct. Ok (), mc_decaps = \<lambda>dk ct. Ok [2]\<rparr>"

lemma toy_hybrid_kem_ok: "hybrid_kem_ok toy_hybrid_kem"
  by (simp add: hybrid_kem_ok_def mceliece_ok_def toy_hybrid_kem_def toy_kem_ok)

definition example_hybrid_private :: multikey where
  "example_hybrid_private = example_private (X25519Frodokem640 Aes Priv)"

definition example_hybrid_seal_public :: multikey where
  "example_hybrid_seal_public =
     public_multikey (X25519Frodokem640 Aes Pub) example_hybrid_private (replicate 32 1 @ replicate 32 9)"

definition example_hybrid_message :: bytes where
  "example_hybrid_message = encode_hybrid_sealed leb_wire (replicate 32 1) [8] (replicate 12 0) [5]"

lemma example_hybrid_message_fits: "fits example_hybrid_message"
proof -
  have "length example_hybrid_message \<le> 60"
    by code_simp
  then show ?thesis
    by (simp add: MAX_DECODED_SIZE_def)
qed

lemma example_hybrid_public:
  "x25519_frodokem640_to_public_key {FCurve25519, FFrodokem} leb_wire toy_hybrid_kem example_hybrid_private =
   Ok example_hybrid_seal_public"
proof -
  have secret: "dispatched_secret {FCurve25519, FFrodokem} leb_wire example_hybrid_private = Ok (replicate 64 9)"
    by (simp add: example_hybrid_private_def example_private_def dispatched_secret_def data_view_def
        dispatch_data_view_def arm_def x25519_frodokem640_view_def plain_view_def is_x25519_frodo_priv_def key_data_def get_attr_def)
  have frodo: "x25519_frodokem640_public toy_hybrid_kem c sk = Ok sk" for c sk
    by (simp add: x25519_frodokem640_public_def toy_hybrid_kem_def toy_kem_def)
  have "x25519_public (hk_kem toy_hybrid_kem) sk = replicate 32 1" for sk
    by (simp add: toy_hybrid_kem_def toy_kem_def)
  then show ?thesis
    using secret
    by (simp add: x25519_frodokem640_to_public_key_def hybrid_convert_def HYBRID_X25519_LENGTH_def frodo
        example_hybrid_seal_public_def x25519_frodokem640_pub_codec_def example_hybrid_private_def example_private_def)
qed

lemma example_hybrid_sealed:
  "x25519_frodokem640_seal leb_wire toy_aead toy_hybrid_kem (\<lambda>n. replicate n 0) [] example_hybrid_seal_public
     [5] Chacha20Poly1305 [] = Ok (example_hybrid_message, None)"
  by (simp add: x25519_frodokem640_seal_def hybrid_seal_def is_x25519_frodo_pub_def key_data_def get_attr_def example_hybrid_seal_public_def
      HYBRID_X25519_LENGTH_def x25519_frodokem640_encap_def toy_hybrid_kem_def toy_kem_def seal_with_secret_def
      derive_aead_key_def toy_aead_def aead_seal_def seal_arm_def example_hybrid_message_def Let_def)

theorem hybrid_open_seal_witness:
  "x25519_frodokem640_open {FCurve25519, FFrodokem} leb_wire toy_aead toy_hybrid_kem example_hybrid_private
     example_hybrid_message None [] = Ok [5]"
proof -
  have "is_x25519_frodo_priv (mk_codec example_hybrid_private)"
    by (simp add: example_hybrid_private_def example_private_def is_x25519_frodo_priv_def)
  then show ?thesis
    using hybrid_open_seal[OF toy_hybrid_kem_ok toy_aead_ok leb_wire_ok example_hybrid_message_fits]
      example_hybrid_public example_hybrid_sealed by blast
qed

section \<open>Fingerprints\<close>

lemma hybrid_convert_pair:
  assumes "hybrid_convert F W K ok_len bad public c k = Ok pk"
  obtains secret pub where "dispatched_secret F W k = Ok secret" "pk = public_multikey c k pub"
  using assms by (auto simp: hybrid_convert_def outcome_simps split: if_splits)

text \<open>The fingerprint of a private key is that of the public key it converts to.\<close>

lemma hybrid_fingerprint_pair:
  assumes "hybrid_convert F W K ok_len bad public c k = Ok pk" "key_halves (mk_codec k) c"
    "m = hybrid_convert F W K ok_len bad public c k"
  shows "fingerprint_with mhash F W True m k h = fingerprint_with mhash F W False m' pk h"
proof -
  obtain secret pub where "dispatched_secret F W k = Ok secret" "pk = public_multikey c k pub"
    using assms(1) by (rule hybrid_convert_pair)
  then show ?thesis
    using fingerprint_pair assms by metis
qed

lemma hybrid_fingerprint_of_pair:
  "mk_codec k = X25519Mlkem768 Priv \<Longrightarrow> x25519_mlkem768_to_public_key F W H k = Ok pk \<Longrightarrow>
     x25519_mlkem768_fingerprint mhash F W H k h = x25519_mlkem768_fingerprint mhash F W H pk h"
  "mk_codec k = X25519Sntrup761 Priv \<Longrightarrow> x25519_sntrup761_to_public_key F W H k = Ok pk \<Longrightarrow>
     x25519_sntrup761_fingerprint mhash F W H k h = x25519_sntrup761_fingerprint mhash F W H pk h"
  "mk_codec k = X25519Mceliece348864 Priv \<Longrightarrow> x25519_mceliece_to_public_key F W H k = Ok pk \<Longrightarrow>
     x25519_mceliece_fingerprint mhash F W H k h = x25519_mceliece_fingerprint mhash F W H pk h"
  "mk_codec k = Mceliece348864 Priv \<Longrightarrow> mceliece_to_public_key F W H k = Ok pk \<Longrightarrow>
     mceliece_fingerprint mhash F W H k h = mceliece_fingerprint mhash F W H pk h"
proof -
  show "x25519_mlkem768_fingerprint mhash F W H k h = x25519_mlkem768_fingerprint mhash F W H pk h"
    if k: "mk_codec k = X25519Mlkem768 Priv" and pk: "x25519_mlkem768_to_public_key F W H k = Ok pk"
  proof -
    note conv = pk[unfolded x25519_mlkem768_to_public_key_def]
    have "mk_codec pk = X25519Mlkem768 Pub"
      using conv by (rule hybrid_convert_pair) simp
    then show ?thesis
      unfolding x25519_mlkem768_fingerprint_def
      using hybrid_fingerprint_pair[OF conv] by (simp add: k key_halves_def x25519_mlkem768_to_public_key_def)
  qed
  show "x25519_sntrup761_fingerprint mhash F W H k h = x25519_sntrup761_fingerprint mhash F W H pk h"
    if k: "mk_codec k = X25519Sntrup761 Priv" and pk: "x25519_sntrup761_to_public_key F W H k = Ok pk"
  proof -
    note conv = pk[unfolded x25519_sntrup761_to_public_key_def]
    have "mk_codec pk = X25519Sntrup761 Pub"
      using conv by (rule hybrid_convert_pair) simp
    then show ?thesis
      unfolding x25519_sntrup761_fingerprint_def
      using hybrid_fingerprint_pair[OF conv] by (simp add: k key_halves_def x25519_sntrup761_to_public_key_def)
  qed
  show "x25519_mceliece_fingerprint mhash F W H k h = x25519_mceliece_fingerprint mhash F W H pk h"
    if k: "mk_codec k = X25519Mceliece348864 Priv" and pk: "x25519_mceliece_to_public_key F W H k = Ok pk"
  proof -
    note conv = pk[unfolded x25519_mceliece_to_public_key_def]
    have "mk_codec pk = X25519Mceliece348864 Pub"
      using conv by (rule hybrid_convert_pair) simp
    then show ?thesis
      unfolding x25519_mceliece_fingerprint_def
      using hybrid_fingerprint_pair[OF conv] by (simp add: k key_halves_def x25519_mceliece_to_public_key_def)
  qed
  show "mceliece_fingerprint mhash F W H k h = mceliece_fingerprint mhash F W H pk h"
    if k: "mk_codec k = Mceliece348864 Priv" and pk: "mceliece_to_public_key F W H k = Ok pk"
  proof -
    obtain seed ek dk where "checked_secret F W MCELIECE_SEED_LENGTH k = Ok seed"
      "pk = public_multikey (Mceliece348864 Pub) k ek"
      using pk by (auto simp: mceliece_to_public_eq_Ok)
    then show ?thesis
      unfolding mceliece_fingerprint_def using fingerprint_pair[OF pk] checked_secretD k by (simp add: key_halves_def)
  qed
qed

end
