(* ===== verification/Mk_Sign.thy ===== *)
theory Mk_Sign
  imports Mk_Multisig
begin

text \<open>
  The signing views with a single algorithm: Ed25519, secp256k1, NIST P, RSA, ML-DSA, SLH-DSA, FN-DSA
  and MAYO (\<^verbatim>\<open>src/views/ed25519.rs\<close>, \<^verbatim>\<open>secp256k1.rs\<close>, \<^verbatim>\<open>nist_p.rs\<close>, \<^verbatim>\<open>rsa.rs\<close>, \<^verbatim>\<open>ml_dsa.rs\<close>,
  \<^verbatim>\<open>slh_dsa.rs\<close>, \<^verbatim>\<open>fn_dsa.rs\<close>, \<^verbatim>\<open>mayo.rs\<close>): conversion to the public key, signing and verifying. The
  algorithms are external and a parameter. What every signing view promises is the locale
  \<open>signature_view\<close>; it is interpreted for each view.
\<close>

section \<open>The external functions\<close>

datatype ecdsa = Ec_K256 | Ec_P256 | Ec_P384 | Ec_P521

text \<open>
  A check of a key or a signature is a function of its own where the code handles its error. A signer
  that draws random bytes is a function here: it stands for one run.
\<close>

record sign_lib = ms_lib +
  ed_public :: "bytes \<Rightarrow> bytes"
  ed_sign :: "bytes \<Rightarrow> bytes \<Rightarrow> (string, bytes) outcome"                 \<comment> \<open>seed, message\<close>
  ed_key :: "bytes \<Rightarrow> (string, unit) outcome"                          \<comment> \<open>\<^verbatim>\<open>VerifyingKey::from_bytes\<close>\<close>
  ed_sig :: "bytes \<Rightarrow> (string, unit) outcome"                          \<comment> \<open>\<^verbatim>\<open>Signature::from_slice\<close>\<close>
  ed_verify :: "bytes \<Rightarrow> bytes \<Rightarrow> bytes \<Rightarrow> (string, unit) outcome"      \<comment> \<open>\<^verbatim>\<open>verify_strict\<close>: key, signature, message\<close>
  ec_secret :: "ecdsa \<Rightarrow> bytes \<Rightarrow> (string, unit) outcome"
  ec_public :: "ecdsa \<Rightarrow> bytes \<Rightarrow> bytes"
  ec_sign :: "ecdsa \<Rightarrow> bytes \<Rightarrow> bytes \<Rightarrow> (string, bytes) outcome"
  ec_key :: "ecdsa \<Rightarrow> bytes \<Rightarrow> (string, unit) outcome"
  ec_sig :: "ecdsa \<Rightarrow> bytes \<Rightarrow> (string, unit) outcome"
  ec_verify :: "ecdsa \<Rightarrow> bytes \<Rightarrow> bytes \<Rightarrow> bytes \<Rightarrow> (string, unit) outcome"
  rsa_private :: "bytes \<Rightarrow> (string, unit) outcome"                     \<comment> \<open>\<^verbatim>\<open>from_pkcs1_der\<close>\<close>
  rsa_public_der :: "bytes \<Rightarrow> (string, bytes) outcome"
  rsa_sign :: "bytes \<Rightarrow> bytes \<Rightarrow> (string \<times> (bool \<times> string) list, bytes) outcome"
    \<comment> \<open>an error has its text and the chain of its sources: is it an \<^verbatim>\<open>RngError\<close>, and its text\<close>
  rsa_key :: "bytes \<Rightarrow> (string, unit) outcome"
  rsa_sig :: "bytes \<Rightarrow> (string, unit) outcome"
  rsa_verify :: "bytes \<Rightarrow> bytes \<Rightarrow> bytes \<Rightarrow> (string, unit) outcome"
  ml_public :: "ml_set \<Rightarrow> bytes \<Rightarrow> bytes"                              \<comment> \<open>of a seed\<close>
  ml_sign :: "ml_set \<Rightarrow> bytes \<Rightarrow> bytes \<Rightarrow> (string, bytes) outcome"
  ml_key :: "ml_set \<Rightarrow> bytes \<Rightarrow> bool"                                 \<comment> \<open>\<^verbatim>\<open>EncodedVerifyingKey::try_from\<close>\<close>
  ml_sig :: "ml_set \<Rightarrow> bytes \<Rightarrow> bool"                                 \<comment> \<open>\<^verbatim>\<open>EncodedSignature::try_from\<close>\<close>
  ml_sig_decodes :: "ml_set \<Rightarrow> bytes \<Rightarrow> bool"                         \<comment> \<open>\<^verbatim>\<open>Signature::decode\<close> is some\<close>
  ml_verify :: "ml_set \<Rightarrow> bytes \<Rightarrow> bytes \<Rightarrow> bytes \<Rightarrow> (string, unit) outcome"
  slh_public :: "slh_set \<Rightarrow> bytes \<Rightarrow> bytes option"                     \<comment> \<open>\<^verbatim>\<open>SigningKey::try_from\<close> first\<close>
  slh_sign :: "slh_set \<Rightarrow> bytes \<Rightarrow> bytes \<Rightarrow> (string, bytes) outcome"
  slh_key :: "slh_set \<Rightarrow> bytes \<Rightarrow> bool"
  slh_sig :: "slh_set \<Rightarrow> bytes \<Rightarrow> bool"
  slh_verify :: "slh_set \<Rightarrow> bytes \<Rightarrow> bytes \<Rightarrow> bytes \<Rightarrow> (string, unit) outcome"
  fn_secret :: "bytes \<Rightarrow> fn_set option"                               \<comment> \<open>\<^verbatim>\<open>SigningKeyStandard::decode\<close>, its degree\<close>
  fn_public :: "bytes \<Rightarrow> bytes"
  fn_sign :: "bytes \<Rightarrow> bytes \<Rightarrow> bytes"
  fn_key :: "bytes \<Rightarrow> bool"                                           \<comment> \<open>\<^verbatim>\<open>VerifyingKeyStandard::decode\<close> is some\<close>
  fn_verify :: "bytes \<Rightarrow> bytes \<Rightarrow> bytes \<Rightarrow> bool"
  sign_key_size :: "fn_set \<Rightarrow> nat"
  vrfy_key_size :: "fn_set \<Rightarrow> nat"
  signature_size :: "fn_set \<Rightarrow> nat"
  mayo_public :: "mayo_set \<Rightarrow> bytes \<Rightarrow> (string, bytes) outcome"        \<comment> \<open>\<^verbatim>\<open>KeyPair::from_seed\<close>\<close>
  mayo_sign :: "mayo_set \<Rightarrow> bytes \<Rightarrow> bytes \<Rightarrow> (string, bytes) outcome"
  mayo_key :: "mayo_set \<Rightarrow> bytes \<Rightarrow> bool"
  mayo_sig :: "mayo_set \<Rightarrow> bytes \<Rightarrow> bool"
  mayo_verify :: "mayo_set \<Rightarrow> bytes \<Rightarrow> bytes \<Rightarrow> bytes \<Rightarrow> (string, unit) outcome"

text \<open>\<^verbatim>\<open>Signer::sign\<close> is \<^verbatim>\<open>try_sign\<close> with \<^verbatim>\<open>expect\<close>.\<close>

fun expect :: "('e, 'a) outcome \<Rightarrow> 'a res" where
  "expect (Ok x) = Ok x"
| "expect (Err _) = Panic"
| "expect Panic = Panic"

section \<open>What the views share\<close>

definition secret_failure :: "string \<Rightarrow> error" where
  "secret_failure s = Conversions (CvSecretKeyFailure s)"

definition public_failure :: "string \<Rightarrow> error" where
  "public_failure s = Conversions (CvPublicKeyFailure s)"

definition bad_signature :: "string \<Rightarrow> error" where
  "bad_signature s = Verify (VeBadSignature s)"

text \<open>The message to verify: the one that is given, else the one in the multisig unless it is empty.\<close>

definition select_message :: "multisig \<Rightarrow> bytes option \<Rightarrow> bytes res" where
  "select_message ms msg =
     (case msg of Some m \<Rightarrow> Ok m
      | None \<Rightarrow> if ms_message ms \<noteq> [] then Ok (ms_message ms) else Err (Verify VeMissingMessage))"

definition built_multisig :: "'a ms_lib_scheme \<Rightarrow> codec \<Rightarrow> bytes \<Rightarrow> bool \<Rightarrow> bytes \<Rightarrow> multisig res" where
  "built_multisig L c sig combined msg =
     map_err Multisig (ms_try_build L c sig (if combined then Some msg else None))"

text \<open>\<^verbatim>\<open>sv.sig_bytes()?\<close>.\<close>

definition sig_bytes :: "'a ms_lib_scheme \<Rightarrow> multisig \<Rightarrow> bytes res" where
  "sig_bytes L ms =
     and_then (map_err Multisig (ms_view L ms)) (\<lambda>_. map_err Multisig (ms_sig_bytes L ms))"

text \<open>The frame of \<^verbatim>\<open>sign\<close>: \<open>algo\<close> makes a signature and its codec from the secret bytes.\<close>

definition sign_with ::
  "features \<Rightarrow> wire \<Rightarrow> 'a ms_lib_scheme \<Rightarrow> (bytes \<Rightarrow> (bytes \<times> codec) res) \<Rightarrow> multikey \<Rightarrow> bytes \<Rightarrow> bool \<Rightarrow> multisig res" where
  "sign_with F W L algo k msg combined =
     and_then (attr_view F W k) (\<lambda>attr.
     if \<not> is_secret_key attr then Err (Sign SiNotSigningKey)
     else
     and_then (dispatched_secret F W k) (\<lambda>secret.
     and_then (algo secret) (\<lambda>(sig, c).
     built_multisig L c sig combined msg)))"

text \<open>The first \<open>n\<close> bytes, \<^verbatim>\<open>bytes[..n]\<close>: it panics when there are fewer.\<close>

definition prefix_of :: "nat \<Rightarrow> bytes \<Rightarrow> bytes res" where
  "prefix_of n bs = (if length bs < n then Panic else Ok (take n bs))"

section \<open>Ed25519\<close>

definition ed25519_to_public_key :: "features \<Rightarrow> wire \<Rightarrow> 'a sign_lib_scheme \<Rightarrow> multikey \<Rightarrow> multikey res" where
  "ed25519_to_public_key F W S k =
     and_then (dispatched_secret F W k) (\<lambda>secret.
     and_then (prefix_of 32 secret) (\<lambda>seed.
     Ok (public_multikey (Ed25519 Pub) k (ed_public S seed))))"

definition ed25519_sign :: "features \<Rightarrow> wire \<Rightarrow> 'a sign_lib_scheme \<Rightarrow> multikey \<Rightarrow> bytes \<Rightarrow> bool \<Rightarrow> multisig res" where
  "ed25519_sign F W S k msg combined =
     sign_with F W S (\<lambda>secret.
       and_then (prefix_of 32 secret) (\<lambda>seed.
       and_then (map_err (\<lambda>e. Sign (SiSigningFailed e)) (ed_sign S seed msg)) (\<lambda>sig.
       Ok (sig, EddsaMsig)))) k msg combined"

definition ed25519_verify :: "features \<Rightarrow> wire \<Rightarrow> 'a sign_lib_scheme \<Rightarrow> multikey \<Rightarrow> multisig \<Rightarrow> bytes option \<Rightarrow> unit res" where
  "ed25519_verify F W S k ms msg =
     and_then (public_form F W (ed25519_to_public_key F W S) k) (\<lambda>pk.
     and_then (dispatched_bytes F W pk) (\<lambda>key.
     and_then (prefix_of 32 key) (\<lambda>bytes.
     and_then (map_err public_failure (ed_key S bytes)) (\<lambda>_.
     and_then (sig_bytes_or_missing S ms) (\<lambda>sig.
     and_then (map_err bad_signature (ed_sig S sig)) (\<lambda>_.
     and_then (select_message ms msg) (\<lambda>m.
     map_err bad_signature (ed_verify S bytes sig m))))))))"

definition ed25519_fingerprint where
  "ed25519_fingerprint mhash F W S = fingerprint_via 2 mhash F W (ed25519_to_public_key F W S)"

section \<open>secp256k1\<close>

definition SECRET_KEY_LENGTH :: nat where "SECRET_KEY_LENGTH = 32"
definition PUBLIC_KEY_LENGTH :: nat where "PUBLIC_KEY_LENGTH = 33"

definition secp256k1_to_public_key :: "features \<Rightarrow> wire \<Rightarrow> 'a sign_lib_scheme \<Rightarrow> multikey \<Rightarrow> multikey res" where
  "secp256k1_to_public_key F W S k =
     and_then (dispatched_secret F W k) (\<lambda>secret.
     and_then (prefix_of SECRET_KEY_LENGTH secret) (\<lambda>bytes.
     and_then (map_err secret_failure (ec_secret S Ec_K256 bytes)) (\<lambda>_.
     Ok (public_multikey (Secp256K1 Pub) k (ec_public S Ec_K256 bytes)))))"

definition secp256k1_sign :: "features \<Rightarrow> wire \<Rightarrow> 'a sign_lib_scheme \<Rightarrow> multikey \<Rightarrow> bytes \<Rightarrow> bool \<Rightarrow> multisig res" where
  "secp256k1_sign F W S k msg combined =
     sign_with F W S (\<lambda>secret.
       and_then (prefix_of SECRET_KEY_LENGTH secret) (\<lambda>bytes.
       and_then (map_err secret_failure (ec_secret S Ec_K256 bytes)) (\<lambda>_.
       and_then (map_err (\<lambda>e. Sign (SiSigningFailed e)) (ec_sign S Ec_K256 bytes msg)) (\<lambda>sig.
       Ok (sig, Es256KMsig))))) k msg combined"

definition secp256k1_verify :: "features \<Rightarrow> wire \<Rightarrow> 'a sign_lib_scheme \<Rightarrow> multikey \<Rightarrow> multisig \<Rightarrow> bytes option \<Rightarrow> unit res" where
  "secp256k1_verify F W S k ms msg =
     and_then (public_form F W (secp256k1_to_public_key F W S) k) (\<lambda>pk.
     and_then (dispatched_bytes F W pk) (\<lambda>key.
     and_then (prefix_of PUBLIC_KEY_LENGTH key) (\<lambda>bytes.
     and_then (map_err public_failure (ec_key S Ec_K256 bytes)) (\<lambda>_.
     and_then (sig_bytes_or_missing S ms) (\<lambda>sig.
     and_then (map_err bad_signature (ec_sig S Ec_K256 sig)) (\<lambda>_.
     and_then (select_message ms msg) (\<lambda>m.
     map_err bad_signature (ec_verify S Ec_K256 bytes sig m))))))))"

definition secp256k1_fingerprint where
  "secp256k1_fingerprint mhash F W S = fingerprint_via 2 mhash F W (secp256k1_to_public_key F W S)"

section \<open>NIST P-256, P-384 and P-521\<close>

fun nist_pub_codec :: "codec \<Rightarrow> codec" where
  "nist_pub_codec (P256 _) = P256 Pub"
| "nist_pub_codec (P384 _) = P384 Pub"
| "nist_pub_codec (P521 _) = P521 Pub"
| "nist_pub_codec c = c"

fun nist_msig_codec :: "codec \<Rightarrow> codec" where
  "nist_msig_codec (P256 _) = Es256Msig"
| "nist_msig_codec (P384 _) = Es384Msig"
| "nist_msig_codec (P521 _) = Es521Msig"
| "nist_msig_codec c = Es256Msig"

text \<open>The arms of the matches on the codec that are compiled in, with the length of the secret.\<close>

definition nist_curve :: "features \<Rightarrow> kpart \<Rightarrow> codec \<Rightarrow> (ecdsa \<times> nat) option" where
  "nist_curve F part c =
     (case c of
        P256 p \<Rightarrow> if p = part \<and> FP256 \<in> F then Some (Ec_P256, 32) else None
      | P384 p \<Rightarrow> if p = part \<and> FP384 \<in> F then Some (Ec_P384, 48) else None
      | P521 p \<Rightarrow> if p = part \<and> FP521 \<in> F then Some (Ec_P521, 66) else None
      | _ \<Rightarrow> None)"

definition nist_to_public_key :: "features \<Rightarrow> wire \<Rightarrow> 'a sign_lib_scheme \<Rightarrow> multikey \<Rightarrow> multikey res" where
  "nist_to_public_key F W S k =
     and_then (dispatched_secret F W k) (\<lambda>secret.
     case nist_curve F Priv (mk_codec k) of
       None \<Rightarrow> Err (secret_failure ''not a NIST-P secret key'')
     | Some (curve, len) \<Rightarrow>
         and_then (prefix_of len secret) (\<lambda>bytes.
         and_then (map_err secret_failure (ec_secret S curve bytes)) (\<lambda>_.
         Ok (public_multikey (nist_pub_codec (mk_codec k)) k (ec_public S curve bytes)))))"

definition nist_sign :: "features \<Rightarrow> wire \<Rightarrow> 'a sign_lib_scheme \<Rightarrow> multikey \<Rightarrow> bytes \<Rightarrow> bool \<Rightarrow> multisig res" where
  "nist_sign F W S k msg combined =
     sign_with F W S (\<lambda>secret.
       case nist_curve F Priv (mk_codec k) of
         None \<Rightarrow> Err (Sign SiNotSigningKey)
       | Some (curve, len) \<Rightarrow>
           and_then (prefix_of len secret) (\<lambda>bytes.
           and_then (map_err secret_failure (ec_secret S curve bytes)) (\<lambda>_.
           and_then (map_err (\<lambda>e. Sign (SiSigningFailed e)) (ec_sign S curve bytes msg)) (\<lambda>sig.
           Ok (sig, nist_msig_codec (mk_codec k)))))) k msg combined"

definition nist_verify :: "features \<Rightarrow> wire \<Rightarrow> 'a sign_lib_scheme \<Rightarrow> multikey \<Rightarrow> multisig \<Rightarrow> bytes option \<Rightarrow> unit res" where
  "nist_verify F W S k ms msg =
     and_then (public_form F W (nist_to_public_key F W S) k) (\<lambda>pk.
     and_then (dispatched_bytes F W pk) (\<lambda>key.
     and_then (sig_bytes_or_missing S ms) (\<lambda>sig.
     and_then (select_message ms msg) (\<lambda>m.
     case nist_curve F Pub (mk_codec pk) of
       None \<Rightarrow> Err (Conversions (CvUnsupportedCodec (mk_codec pk)))
     | Some (curve, _) \<Rightarrow>
         and_then (map_err public_failure (ec_key S curve key)) (\<lambda>_.
         and_then (map_err bad_signature (ec_sig S curve sig)) (\<lambda>_.
         map_err bad_signature (ec_verify S curve key sig m)))))))"

definition nist_fingerprint where
  "nist_fingerprint mhash F W S = fingerprint_via 2 mhash F W (nist_to_public_key F W S)"

section \<open>RSA\<close>

fun rsa_pub_codec :: "codec \<Rightarrow> codec" where
  "rsa_pub_codec (Rsa s _) = Rsa s Pub"
| "rsa_pub_codec c = c"

text \<open>A failure of the random number generator is found in the chain of sources of the error.\<close>

definition rsa_sign_error :: "string \<times> (bool \<times> string) list \<Rightarrow> error" where
  "rsa_sign_error e =
     (case find fst (snd e) of
        Some (_, s) \<Rightarrow> Sign (SiRngFailure s)
      | None \<Rightarrow> Sign (SiSigningFailed (fst e)))"

definition rsa_to_public_key :: "features \<Rightarrow> wire \<Rightarrow> 'a sign_lib_scheme \<Rightarrow> multikey \<Rightarrow> multikey res" where
  "rsa_to_public_key F W S k =
     and_then (dispatched_secret F W k) (\<lambda>secret.
     and_then (map_err secret_failure (rsa_private S secret)) (\<lambda>_.
     and_then (map_err public_failure (rsa_public_der S secret)) (\<lambda>der.
     Ok (public_multikey (rsa_pub_codec (mk_codec k)) k der))))"

definition rsa_view_sign :: "features \<Rightarrow> wire \<Rightarrow> 'a sign_lib_scheme \<Rightarrow> multikey \<Rightarrow> bytes \<Rightarrow> bool \<Rightarrow> multisig res" where
  "rsa_view_sign F W S k msg combined =
     sign_with F W S (\<lambda>secret.
       and_then (map_err secret_failure (rsa_private S secret)) (\<lambda>_.
       and_then (map_err rsa_sign_error (rsa_sign S secret msg)) (\<lambda>sig.
       Ok (sig, Rs256Msig)))) k msg combined"

definition rsa_view_verify :: "features \<Rightarrow> wire \<Rightarrow> 'a sign_lib_scheme \<Rightarrow> multikey \<Rightarrow> multisig \<Rightarrow> bytes option \<Rightarrow> unit res" where
  "rsa_view_verify F W S k ms msg =
     and_then (public_form F W (rsa_to_public_key F W S) k) (\<lambda>pk.
     and_then (dispatched_bytes F W pk) (\<lambda>key.
     and_then (map_err public_failure (rsa_key S key)) (\<lambda>_.
     and_then (sig_bytes_or_missing S ms) (\<lambda>sig.
     and_then (select_message ms msg) (\<lambda>m.
     and_then (map_err bad_signature (rsa_sig S sig)) (\<lambda>_.
     map_err bad_signature (rsa_verify S key sig m)))))))"

definition rsa_fingerprint where
  "rsa_fingerprint mhash F W S = fingerprint_via 2 mhash F W (rsa_to_public_key F W S)"

section \<open>ML-DSA\<close>

definition ML_DSA_SEED_LENGTH :: nat where "ML_DSA_SEED_LENGTH = 32"

fun ml_dsa_public_key_length :: "ml_set \<Rightarrow> nat" where
  "ml_dsa_public_key_length Ml65 = 1952"
| "ml_dsa_public_key_length Ml87 = 2592"

fun ml_dsa_signature_length :: "ml_set \<Rightarrow> nat" where
  "ml_dsa_signature_length Ml65 = 3309"
| "ml_dsa_signature_length Ml87 = 4627"

text \<open>The match on the codec and the length of the seed.\<close>

definition ml_dsa_seed :: "codec \<Rightarrow> bytes \<Rightarrow> (ml_set \<times> bytes) res" where
  "ml_dsa_seed c secret =
     (let bad = Err (secret_failure ''invalid secret key or seed length'') in
      case c of
        MlDsa s p \<Rightarrow> if p = SPriv \<and> length secret = ML_DSA_SEED_LENGTH then Ok (s, secret) else bad
      | _ \<Rightarrow> bad)"

definition ml_dsa_to_public_key :: "features \<Rightarrow> wire \<Rightarrow> 'a sign_lib_scheme \<Rightarrow> multikey \<Rightarrow> multikey res" where
  "ml_dsa_to_public_key F W S k =
     and_then (dispatched_secret F W k) (\<lambda>secret.
     and_then (ml_dsa_seed (mk_codec k) secret) (\<lambda>(s, seed).
     Ok (public_multikey (MlDsa s SPub) k (ml_public S s seed))))"

definition ml_dsa_sign :: "features \<Rightarrow> wire \<Rightarrow> 'a sign_lib_scheme \<Rightarrow> multikey \<Rightarrow> bytes \<Rightarrow> bool \<Rightarrow> multisig res" where
  "ml_dsa_sign F W S k msg combined =
     sign_with F W S (\<lambda>secret.
       and_then (ml_dsa_seed (mk_codec k) secret) (\<lambda>(s, seed).
       and_then (expect (ml_sign S s seed msg)) (\<lambda>sig.
       Ok (sig, MlDsa s SMsig)))) k msg combined"

text \<open>Decoding a public key and a signature of one parameter set, and verifying.\<close>

definition ml_dsa_check ::
  "'a sign_lib_scheme \<Rightarrow> ml_set \<Rightarrow> (string \<times> string \<times> string) \<Rightarrow> (string \<Rightarrow> string) \<Rightarrow> bytes \<Rightarrow> bytes \<Rightarrow> bytes \<Rightarrow> unit res" where
  "ml_dsa_check S s texts failed key sig m =
     (case texts of (bad_key, bad_len, bad_sig) \<Rightarrow>
      if \<not> ml_key S s key then Err (public_failure bad_key)
      else if \<not> ml_sig S s sig then Err (bad_signature bad_len)
      else if \<not> ml_sig_decodes S s sig then Err (bad_signature bad_sig)
      else map_err (\<lambda>e. bad_signature (failed e)) (ml_verify S s key sig m))"

definition ml_dsa_verify :: "features \<Rightarrow> wire \<Rightarrow> 'a sign_lib_scheme \<Rightarrow> multikey \<Rightarrow> multisig \<Rightarrow> bytes option \<Rightarrow> unit res" where
  "ml_dsa_verify F W S k ms msg =
     and_then (select_message ms msg) (\<lambda>m.
     and_then (public_form F W (ml_dsa_to_public_key F W S) k) (\<lambda>pk.
     and_then (dispatched_bytes F W pk) (\<lambda>key.
     and_then (sig_bytes S ms) (\<lambda>sig.
     let texts = (''invalid public key length'', ''invalid signature length'', ''invalid signature'') in
     if length key = ml_dsa_public_key_length Ml65 \<and> length sig = ml_dsa_signature_length Ml65
     then ml_dsa_check S Ml65 texts (\<lambda>e. e) key sig m
     else if length key = ml_dsa_public_key_length Ml87 \<and> length sig = ml_dsa_signature_length Ml87
     then ml_dsa_check S Ml87 texts (\<lambda>e. e) key sig m
     else Err (bad_signature ''invalid public key or signature length'')))))"

definition ml_dsa_fingerprint where
  "ml_dsa_fingerprint mhash F W S k =
     fingerprint_with mhash F W (is_ml_dsa_priv (mk_codec k))
       (and_then (dispatch_conv_view F k) (\<lambda>_. ml_dsa_to_public_key F W S k)) k"

section \<open>SLH-DSA\<close>

text \<open>The match on the codec: the set of a private key.\<close>

definition slh_dsa_set :: "error \<Rightarrow> codec \<Rightarrow> slh_set res" where
  "slh_dsa_set bad c = (case c of SlhDsa s p \<Rightarrow> if p = SPriv then Ok s else Err bad | _ \<Rightarrow> Err bad)"

definition slh_dsa_to_public_key :: "features \<Rightarrow> wire \<Rightarrow> 'a sign_lib_scheme \<Rightarrow> multikey \<Rightarrow> multikey res" where
  "slh_dsa_to_public_key F W S k =
     and_then (dispatched_secret F W k) (\<lambda>secret.
     and_then (slh_dsa_set (secret_failure ''invalid SLH-DSA codec'') (mk_codec k)) (\<lambda>s.
     and_then (ok_or (secret_failure ''invalid secret key length'') (slh_public S s secret)) (\<lambda>pub.
     Ok (public_multikey (SlhDsa s SPub) k pub))))"

definition slh_dsa_sign :: "features \<Rightarrow> wire \<Rightarrow> 'a sign_lib_scheme \<Rightarrow> multikey \<Rightarrow> bytes \<Rightarrow> bool \<Rightarrow> multisig res" where
  "slh_dsa_sign F W S k msg combined =
     sign_with F W S (\<lambda>secret.
       and_then (slh_dsa_set (secret_failure ''invalid secret key length'') (mk_codec k)) (\<lambda>s.
       and_then (ok_or (secret_failure ''invalid secret key length'') (slh_public S s secret)) (\<lambda>_.
       and_then (expect (slh_sign S s secret msg)) (\<lambda>sig.
       Ok (sig, SlhDsa s SMsig))))) k msg combined"

text \<open>The set is that of the key that was asked, not of its public form.\<close>

definition slh_dsa_verify :: "features \<Rightarrow> wire \<Rightarrow> 'a sign_lib_scheme \<Rightarrow> multikey \<Rightarrow> multisig \<Rightarrow> bytes option \<Rightarrow> unit res" where
  "slh_dsa_verify F W S k ms msg =
     and_then (select_message ms msg) (\<lambda>m.
     and_then (public_form F W (slh_dsa_to_public_key F W S) k) (\<lambda>pk.
     and_then (dispatched_bytes F W pk) (\<lambda>key.
     and_then (sig_bytes S ms) (\<lambda>sig.
     let bad = Err (public_failure ''invalid public key length'') in
     case mk_codec k of
       SlhDsa s p \<Rightarrow>
         if p = SMsig then bad
         else if \<not> slh_key S s key then bad
         else if \<not> slh_sig S s sig then Err (bad_signature ''invalid signature length'')
         else map_err bad_signature (slh_verify S s key sig m)
     | _ \<Rightarrow> bad))))"

definition slh_dsa_fingerprint where
  "slh_dsa_fingerprint mhash F W S =
     fingerprint_via 2 mhash F W (\<lambda>k. and_then (dispatch_conv_view F k) (\<lambda>_. slh_dsa_to_public_key F W S k))"

section \<open>FN-DSA\<close>

text \<open>The parameter set is that of the key bytes, whatever the codec says.\<close>

definition fn_dsa_to_public_key :: "features \<Rightarrow> wire \<Rightarrow> 'a sign_lib_scheme \<Rightarrow> multikey \<Rightarrow> multikey res" where
  "fn_dsa_to_public_key F W S k =
     and_then (dispatched_secret F W k) (\<lambda>secret.
     and_then (ok_or (secret_failure ''invalid secret key length'') (fn_secret S secret)) (\<lambda>s.
     Ok (public_multikey (FnDsa s SPub) k (fn_public S secret))))"

definition fn_dsa_sign :: "features \<Rightarrow> wire \<Rightarrow> 'a sign_lib_scheme \<Rightarrow> multikey \<Rightarrow> bytes \<Rightarrow> bool \<Rightarrow> multisig res" where
  "fn_dsa_sign F W S k msg combined =
     sign_with F W S (\<lambda>secret.
       and_then (ok_or (secret_failure ''invalid secret key length'') (fn_secret S secret)) (\<lambda>s.
       Ok (fn_sign S secret msg, FnDsa s SMsig))) k msg combined"

definition fn_dsa_verify :: "features \<Rightarrow> wire \<Rightarrow> 'a sign_lib_scheme \<Rightarrow> multikey \<Rightarrow> multisig \<Rightarrow> bytes option \<Rightarrow> unit res" where
  "fn_dsa_verify F W S k ms msg =
     and_then (public_form F W (fn_dsa_to_public_key F W S) k) (\<lambda>pk.
     and_then (dispatched_bytes F W pk) (\<lambda>key.
     if \<not> fn_key S key then Err (public_failure ''invalid public key length'')
     else
     and_then (sig_bytes S ms) (\<lambda>sig.
     let expected = (if length key = vrfy_key_size S Fn512 then signature_size S Fn512 else signature_size S Fn1024) in
     if length sig \<noteq> expected then Err (bad_signature ''invalid signature length'')
     else
     and_then (select_message ms msg) (\<lambda>m.
     if fn_verify S key sig m then Ok () else Err (bad_signature ''invalid signature'')))))"

definition fn_dsa_fingerprint where
  "fn_dsa_fingerprint mhash F W S = fingerprint_via 2 mhash F W (fn_dsa_to_public_key F W S)"

section \<open>MAYO\<close>

fun mayo_seed_length :: "mayo_set \<Rightarrow> nat" where
  "mayo_seed_length Mayo_1 = 24"
| "mayo_seed_length Mayo_2 = 24"
| "mayo_seed_length Mayo_3 = 32"
| "mayo_seed_length Mayo_5 = 40"

fun mayo_public_key_length :: "mayo_set \<Rightarrow> nat" where
  "mayo_public_key_length Mayo_1 = 1420"
| "mayo_public_key_length Mayo_2 = 4368"
| "mayo_public_key_length Mayo_3 = 2986"
| "mayo_public_key_length Mayo_5 = 5554"

fun mayo_signature_length :: "mayo_set \<Rightarrow> nat" where
  "mayo_signature_length Mayo_1 = 454"
| "mayo_signature_length Mayo_2 = 216"
| "mayo_signature_length Mayo_3 = 681"
| "mayo_signature_length Mayo_5 = 964"

fun mayo_seed_error :: "mayo_set \<Rightarrow> string" where
  "mayo_seed_error Mayo_1 = ''MAYO-1 seed error: ''"
| "mayo_seed_error Mayo_2 = ''MAYO-2 seed error: ''"
| "mayo_seed_error Mayo_3 = ''MAYO-3 seed error: ''"
| "mayo_seed_error Mayo_5 = ''MAYO-5 seed error: ''"

text \<open>The key pair of a seed: its public key.\<close>

definition mayo_key_pair :: "'a sign_lib_scheme \<Rightarrow> mayo_set \<Rightarrow> bytes \<Rightarrow> bytes res" where
  "mayo_key_pair S s seed = map_err (\<lambda>e. secret_failure (mayo_seed_error s @ e)) (mayo_public S s seed)"

definition mayo_seed :: "codec \<Rightarrow> bytes \<Rightarrow> mayo_set res" where
  "mayo_seed c secret =
     (let bad = Err (secret_failure ''invalid secret key or seed length'') in
      case c of
        Mayo s p \<Rightarrow> if p = SPriv \<and> length secret = mayo_seed_length s then Ok s else bad
      | _ \<Rightarrow> bad)"

definition mayo_to_public_key :: "features \<Rightarrow> wire \<Rightarrow> 'a sign_lib_scheme \<Rightarrow> multikey \<Rightarrow> multikey res" where
  "mayo_to_public_key F W S k =
     and_then (dispatched_secret F W k) (\<lambda>secret.
     and_then (mayo_seed (mk_codec k) secret) (\<lambda>s.
     and_then (mayo_key_pair S s secret) (\<lambda>pub.
     Ok (public_multikey (Mayo s SPub) k pub))))"

definition mayo_view_sign :: "features \<Rightarrow> wire \<Rightarrow> 'a sign_lib_scheme \<Rightarrow> multikey \<Rightarrow> bytes \<Rightarrow> bool \<Rightarrow> multisig res" where
  "mayo_view_sign F W S k msg combined =
     sign_with F W S (\<lambda>secret.
       and_then (mayo_seed (mk_codec k) secret) (\<lambda>s.
       and_then (mayo_key_pair S s secret) (\<lambda>_.
       and_then (map_err (\<lambda>e. Sign (SiSigningFailed e)) (mayo_sign S s secret msg)) (\<lambda>sig.
       Ok (sig, Mayo s SMsig))))) k msg combined"

definition mayo_check ::
  "'a sign_lib_scheme \<Rightarrow> mayo_set \<Rightarrow> (string \<times> string) \<Rightarrow> (string \<Rightarrow> string) \<Rightarrow> bytes \<Rightarrow> bytes \<Rightarrow> bytes \<Rightarrow> unit res" where
  "mayo_check S s texts failed key sig m =
     (if \<not> mayo_key S s key then Err (public_failure (fst texts))
      else if \<not> mayo_sig S s sig then Err (bad_signature (snd texts))
      else map_err (\<lambda>e. bad_signature (failed e)) (mayo_verify S s key sig m))"

text \<open>The arms of the match on the two lengths, in order.\<close>

definition mayo_view_verify :: "features \<Rightarrow> wire \<Rightarrow> 'a sign_lib_scheme \<Rightarrow> multikey \<Rightarrow> multisig \<Rightarrow> bytes option \<Rightarrow> unit res" where
  "mayo_view_verify F W S k ms msg =
     and_then (select_message ms msg) (\<lambda>m.
     and_then (public_form F W (mayo_to_public_key F W S) k) (\<lambda>pk.
     and_then (dispatched_bytes F W pk) (\<lambda>key.
     and_then (sig_bytes S ms) (\<lambda>sig.
     case find (\<lambda>s. length key = mayo_public_key_length s \<and> length sig = mayo_signature_length s)
            [Mayo_1, Mayo_2, Mayo_3, Mayo_5] of
       Some s \<Rightarrow> mayo_check S s (''invalid public key length'', ''invalid signature length'') (\<lambda>e. e) key sig m
     | None \<Rightarrow> Err (bad_signature ''invalid public key or signature length'')))))"

definition mayo_fingerprint where
  "mayo_fingerprint mhash F W S k =
     fingerprint_with mhash F W (is_mayo_priv (mk_codec k))
       (and_then (dispatch_conv_view F k) (\<lambda>_. mayo_to_public_key F W S k)) k"

section \<open>The behaviour of the external functions\<close>

text \<open>
  Documented behaviour of each algorithm: a signature made with a secret key has the published length,
  decodes, and verifies under the public key of that secret key.
\<close>

definition ed_ok :: "'a sign_lib_scheme \<Rightarrow> bool" where
  "ed_ok S \<longleftrightarrow>
     (\<forall>sk m sig. length sk = 32 \<longrightarrow> ed_sign S sk m = Ok sig \<longrightarrow>
        length (ed_public S sk) = 32 \<and> length sig = 64 \<and> ed_key S (ed_public S sk) = Ok ()
        \<and> ed_sig S sig = Ok () \<and> ed_verify S (ed_public S sk) sig m = Ok ())"

definition ec_ok :: "'a sign_lib_scheme \<Rightarrow> bool" where
  "ec_ok S \<longleftrightarrow>
     (\<forall>c sk m sig. ec_secret S c sk = Ok () \<longrightarrow> ec_sign S c sk m = Ok sig \<longrightarrow>
        (c = Ec_K256 \<longrightarrow> length (ec_public S c sk) = 33) \<and> ec_key S c (ec_public S c sk) = Ok ()
        \<and> ec_sig S c sig = Ok () \<and> ec_verify S c (ec_public S c sk) sig m = Ok ())"

definition rsa_ok :: "'a sign_lib_scheme \<Rightarrow> bool" where
  "rsa_ok S \<longleftrightarrow>
     (\<forall>sk m sig pk. rsa_public_der S sk = Ok pk \<longrightarrow> rsa_sign S sk m = Ok sig \<longrightarrow>
        rsa_key S pk = Ok () \<and> rsa_sig S sig = Ok () \<and> rsa_verify S pk sig m = Ok ())"

definition ml_ok :: "'a sign_lib_scheme \<Rightarrow> bool" where
  "ml_ok S \<longleftrightarrow>
     (\<forall>s sk m sig. length sk = 32 \<longrightarrow> ml_sign S s sk m = Ok sig \<longrightarrow>
        length (ml_public S s sk) = ml_dsa_public_key_length s \<and> length sig = ml_dsa_signature_length s
        \<and> ml_key S s (ml_public S s sk) \<and> ml_sig S s sig \<and> ml_sig_decodes S s sig
        \<and> ml_verify S s (ml_public S s sk) sig m = Ok ())"

definition slh_ok :: "'a sign_lib_scheme \<Rightarrow> bool" where
  "slh_ok S \<longleftrightarrow>
     (\<forall>s sk m sig pk. slh_public S s sk = Some pk \<longrightarrow> slh_sign S s sk m = Ok sig \<longrightarrow>
        slh_key S s pk \<and> slh_sig S s sig \<and> slh_verify S s pk sig m = Ok ())"

definition fn_ok :: "'a sign_lib_scheme \<Rightarrow> bool" where
  "fn_ok S \<longleftrightarrow>
     vrfy_key_size S Fn512 \<noteq> vrfy_key_size S Fn1024
   \<and> (\<forall>s sk m. fn_secret S sk = Some s \<longrightarrow>
        fn_key S (fn_public S sk) \<and> length (fn_public S sk) = vrfy_key_size S s
        \<and> length (fn_sign S sk m) = signature_size S s \<and> fn_verify S (fn_public S sk) (fn_sign S sk m) m)
   \<and> (\<forall>s sk. fn_secret S sk = Some s \<longrightarrow> length sk = sign_key_size S Fn512 \<longrightarrow> s = Fn512)"

definition mayo_ok :: "'a sign_lib_scheme \<Rightarrow> bool" where
  "mayo_ok S \<longleftrightarrow>
     (\<forall>s sk m sig pk. mayo_public S s sk = Ok pk \<longrightarrow> mayo_sign S s sk m = Ok sig \<longrightarrow>
        length pk = mayo_public_key_length s \<and> length sig = mayo_signature_length s
        \<and> mayo_key S s pk \<and> mayo_sig S s sig \<and> mayo_verify S s pk sig m = Ok ())"

definition sign_lib_ok :: "'a sign_lib_scheme \<Rightarrow> bool" where
  "sign_lib_ok S \<longleftrightarrow>
     ms_lib_ok S \<and> ed_ok S \<and> ec_ok S \<and> rsa_ok S \<and> ml_ok S \<and> slh_ok S \<and> fn_ok S \<and> mayo_ok S"

section \<open>Lemmas on the shared parts\<close>

lemma select_message_Some [simp]: "select_message ms (Some m) = Ok m"
  by (simp add: select_message_def)

lemma select_message_embedded: "ms_message ms \<noteq> [] \<Longrightarrow> select_message ms None = Ok (ms_message ms)"
  by (simp add: select_message_def)

lemma select_message_detached: "ms_message ms = [] \<Longrightarrow> select_message ms None = Err (Verify VeMissingMessage)"
  by (simp add: select_message_def)

lemma prefix_of_eq_Ok [outcome_simps]: "prefix_of n bs = Ok b \<longleftrightarrow> n \<le> length bs \<and> b = take n bs"
  by (auto simp: prefix_of_def)

lemma expect_eq_Ok [outcome_simps]: "expect m = Ok x \<longleftrightarrow> m = Ok x"
  by (cases m) auto

lemma sign_with_eq_Ok:
  "sign_with F W L algo k m c = Ok ms \<longleftrightarrow>
   (\<exists>attr secret sig codec. attr_view F W k = Ok attr \<and> is_secret_key attr \<and> dispatched_secret F W k = Ok secret
      \<and> algo secret = Ok (sig, codec) \<and> built_multisig L codec sig c m = Ok ms)"
  by (auto simp: sign_with_def and_then_eq_Ok split: if_splits)

lemma built_multisigD:
  assumes "ms_lib_ok L" "built_multisig L c sig combined m = Ok ms"
  shows "ms_message ms = (if combined then m else [])" and "sig_bytes L ms = Ok sig"
    and "sig_bytes_or_missing L ms = Ok sig"
proof -
  obtain ms' where "ms_try_build L c sig (if combined then Some m else None) = Ok ms'"
      "ms_message ms' = (case (if combined then Some m else None) of Some b \<Rightarrow> b | None \<Rightarrow> [])"
      "ms_view L ms' = Ok ()" "ms_sig_bytes L ms' = Ok sig"
    using assms(1) unfolding ms_lib_ok_def by blast
  moreover have "ms' = ms"
    using assms(2) calculation(1) by (simp add: built_multisig_def)
  ultimately show "ms_message ms = (if combined then m else [])" "sig_bytes L ms = Ok sig"
    "sig_bytes_or_missing L ms = Ok sig"
    by (simp_all add: sig_bytes_def sig_bytes_or_missing_def)
qed

text \<open>The codecs of a private key and of its public key.\<close>

definition public_pair :: "codec \<Rightarrow> codec \<Rightarrow> bool" where
  "public_pair c c' \<longleftrightarrow>
     (case c of
        Ed25519 p \<Rightarrow> p = Priv \<and> c' = Ed25519 Pub
      | Secp256K1 p \<Rightarrow> p = Priv \<and> c' = Secp256K1 Pub
      | P256 p \<Rightarrow> p = Priv \<and> c' = P256 Pub
      | P384 p \<Rightarrow> p = Priv \<and> c' = P384 Pub
      | P521 p \<Rightarrow> p = Priv \<and> c' = P521 Pub
      | Rsa s p \<Rightarrow> p = Priv \<and> c' = Rsa s Pub
      | X25519 p \<Rightarrow> p = Priv \<and> c' = X25519 Pub
      | MlDsa s p \<Rightarrow> p = SPriv \<and> c' = MlDsa s SPub
      | SlhDsa s p \<Rightarrow> p = SPriv \<and> c' = SlhDsa s SPub
      | FnDsa s p \<Rightarrow> p = SPriv \<and> (\<exists>t \<in> set fn_sets. c' = FnDsa t SPub)
      | Mayo s p \<Rightarrow> p = SPriv \<and> c' = Mayo s SPub
      | Xmss s p \<Rightarrow> p = SPriv \<and> c' = Xmss s SPub
      | Lamport d p \<Rightarrow> p = LPriv \<and> c' = Lamport d LPub
      | LamportMerkle d p \<Rightarrow> p = LPriv \<and> c' = LamportMerkle d LPub
      | Bls12381 g p \<Rightarrow> p = BPriv \<and> c' = Bls12381 g BPub \<or> p = BPrivShare \<and> c' = Bls12381 g BPubShare
      | Ed25519Mayo2 p \<Rightarrow> p = SPriv \<and> c' = Ed25519Mayo2 SPub
      | Ed25519Mldsa65 p \<Rightarrow> p = SPriv \<and> c' = Ed25519Mldsa65 SPub
      | Ed25519Fndsa512 p \<Rightarrow> p = SPriv \<and> c' = Ed25519Fndsa512 SPub
      | Bls12381G1Mldsa65 p \<Rightarrow> p = SPriv \<and> c' = Bls12381G1Mldsa65 SPub
      | Bls12381G1Fndsa512 p \<Rightarrow> p = SPriv \<and> c' = Bls12381G1Fndsa512 SPub
      | Bls12381G1Mayo1 p \<Rightarrow> p = SPriv \<and> c' = Bls12381G1Mayo1 SPub
      | Bls12381G1Mayo2 p \<Rightarrow> p = SPriv \<and> c' = Bls12381G1Mayo2 SPub
      | _ \<Rightarrow> False)"

lemma public_pair_views:
  assumes "dispatched_secret F W k = Ok secret" and "public_pair (mk_codec k) (mk_codec pk)"
  shows "public_form F W conv k = conv k" and "public_form F W conv pk = Ok pk"
    and "dispatched_bytes F W pk = key_data pk"
proof -
  obtain v where v: "dispatch_attr_view F k = Ok v" and secret: "is_secret_key (view_methods W v k)"
    using assms(1) by (auto simp: dispatched_secret_def data_view_def outcome_simps dispatch_data_eq_Ok
        dest: secret_bytes_view_methods)
  have conv: "dispatch_conv_view F k = Ok v"
    using v assms(2) by (cases "mk_codec k")
      (simp_all add: public_pair_def dispatch_attr_view_def dispatch_conv_view_def arm_eq_Ok)
  have pk: "dispatch_attr_view F pk = Ok v"
    using v assms(2) by (cases "mk_codec k")
      (auto simp: public_pair_def dispatch_attr_view_def arm_def key_part_defs split: if_splits)
  have public: "\<not> is_secret_key (view_methods W v pk)"
    using v assms(2) by (cases "mk_codec k")
      (auto simp: public_pair_def dispatch_attr_view_def arm_def view_defs codec_part_defs sealed_view_def plain_view_def
        split: if_splits)
  have "public_form F W conv k = conv k \<and> public_form F W conv pk = Ok pk \<and> dispatched_bytes F W pk = key_data pk"
    using v secret conv pk public
    by (simp add: public_form_def attr_view_def dispatched_bytes_def data_view_def dispatch_data_eq_attr)
  then show "public_form F W conv k = conv k" and "public_form F W conv pk = Ok pk"
    and "dispatched_bytes F W pk = key_data pk"
    by blast+
qed

lemma public_pair_attrs:
  assumes "dispatched_secret F W k = Ok secret" and "public_pair (mk_codec k) (mk_codec pk)"
  obtains a b v where "attr_view F W k = Ok a" "is_secret_key a" "attr_view F W pk = Ok b" "\<not> is_secret_key b"
    "dispatch_conv_view F k = Ok v" "dispatch_fingerprint_view F pk = Ok v"
proof -
  obtain v where v: "dispatch_attr_view F k = Ok v" and secret: "is_secret_key (view_methods W v k)"
    using assms(1) by (auto simp: dispatched_secret_def data_view_def outcome_simps dispatch_data_eq_Ok
        dest: secret_bytes_view_methods)
  have pk: "dispatch_attr_view F pk = Ok v \<and> dispatch_fingerprint_view F pk = Ok v"
    using v assms(2) by (cases "mk_codec k")
      (auto simp: public_pair_def dispatch_attr_view_def dispatch_fingerprint_view_def arm_def key_part_defs split: if_splits)
  have conv: "dispatch_conv_view F k = Ok v"
    using v assms(2) by (cases "mk_codec k")
      (simp_all add: public_pair_def dispatch_attr_view_def dispatch_conv_view_def arm_eq_Ok)
  have "\<not> is_secret_key (view_methods W v pk)"
    using v assms(2) by (cases "mk_codec k")
      (auto simp: public_pair_def dispatch_attr_view_def arm_def view_defs codec_part_defs sealed_view_def plain_view_def
        split: if_splits)
  with v secret conv pk show ?thesis
    by (intro that) (auto simp: attr_view_def)
qed

text \<open>A key and the public key that it converts to have the same fingerprint.\<close>

lemma fingerprint_via_pair:
  assumes "dispatched_secret F W k = Ok secret" "public_pair (mk_codec k) (mk_codec pk)" "conv k = Ok pk"
  shows "fingerprint_via 2 mhash F W conv k c = fingerprint_via 2 mhash F W conv pk c"
proof -
  obtain a b v where "attr_view F W k = Ok a" "is_secret_key a" "attr_view F W pk = Ok b" "\<not> is_secret_key b"
    "dispatch_fingerprint_view F pk = Ok v"
    using assms(1,2) by (rule public_pair_attrs)
  then show ?thesis
    using assms(3) by (simp add: numeral_2_eq_2)
qed

lemma fingerprint_with_pair:
  assumes "dispatched_secret F W k = Ok secret" "public_pair (mk_codec k) (mk_codec pk)" "to_public = Ok pk"
  shows "fingerprint_with mhash F W True to_public k c = fingerprint_with mhash F W False to_public' pk c"
  using public_pair_views(3)[OF assms(1,2)] assms(3) by (simp add: fingerprint_with_def dispatched_bytes_def)

lemma public_multikey_simps [simp]:
  "mk_codec (public_multikey c k pub) = c" "mk_comment (public_multikey c k pub) = mk_comment k"
  "key_data (public_multikey c k pub) = Ok pub"
  by (simp_all add: public_multikey_def built_key_defs key_data_def get_attr_def)

section \<open>The contract of a signing view\<close>

text \<open>
  For the keys that the dispatcher gives to the view (\<open>owns\<close>): a signature verifies under the public key; a private key verifies like its public key; without a
  message the one in the multisig is used, and an empty one does not count.
\<close>

locale signature_view =
  fixes ready :: "multikey \<Rightarrow> bytes \<Rightarrow> bool"
    and owns :: "multikey \<Rightarrow> bool"
    and conv :: "multikey \<Rightarrow> multikey res"
    and sign :: "multikey \<Rightarrow> bytes \<Rightarrow> bool \<Rightarrow> multisig res"
    and verify :: "multikey \<Rightarrow> multisig \<Rightarrow> bytes option \<Rightarrow> unit res"
  assumes signed_message: "ready k m \<Longrightarrow> owns k \<Longrightarrow> sign k m combined = Ok ms \<Longrightarrow> ms_message ms = (if combined then m else [])"
    and signed_verifies: "ready k m \<Longrightarrow> owns k \<Longrightarrow> conv k = Ok pk \<Longrightarrow> sign k m combined = Ok ms \<Longrightarrow> verify pk ms (Some m) = Ok ()"
    and verify_own: "owns k \<Longrightarrow> conv k = Ok pk \<Longrightarrow> verify k ms msg = verify pk ms msg"
    and verify_embedded: "ms_message ms \<noteq> [] \<Longrightarrow> verify k ms None = verify k ms (Some (ms_message ms))"
    and verify_detached: "ms_message ms = [] \<Longrightarrow> verify k ms None \<noteq> Ok ()"
begin

lemma verifies:
  assumes "ready k m" "owns k" "conv k = Ok pk" "sign k m combined = Ok ms" "verifier = k \<or> verifier = pk"
  shows "verify verifier ms (Some m) = Ok ()"
    and "verify verifier ms None = Ok () \<longleftrightarrow> combined \<and> m \<noteq> []"
proof -
  have own: "verify verifier ms msg = verify pk ms msg" for msg
    using assms(5) verify_own[OF assms(2,3)] by auto
  note message = signed_message[OF assms(1,2,4)]
  show given: "verify verifier ms (Some m) = Ok ()"
    using signed_verifies[OF assms(1-4)] by (simp add: own)
  show "verify verifier ms None = Ok () \<longleftrightarrow> combined \<and> m \<noteq> []"
    using given message verify_embedded[of ms] verify_detached[of ms] by (cases "combined \<and> m \<noteq> []") auto
qed

end

lemma sign_withD:
  assumes "sign_with F W L algo k m combined = Ok ms"
  obtains secret sig c where "dispatched_secret F W k = Ok secret" "algo secret = Ok (sig, c)"
    "built_multisig L c sig combined m = Ok ms"
  using assms by (auto simp: sign_with_eq_Ok)

lemma sign_lib_okD:
  assumes "sign_lib_ok S"
  shows "ms_lib_ok S" "ed_ok S" "ec_ok S" "rsa_ok S" "ml_ok S" "slh_ok S" "fn_ok S" "mayo_ok S"
  using assms by (simp_all add: sign_lib_ok_def)

lemma sign_with_message:
  "ms_lib_ok L \<Longrightarrow> sign_with F W L algo k m combined = Ok ms \<Longrightarrow> ms_message ms = (if combined then m else [])"
  by (erule sign_withD) (simp add: built_multisigD(1))

text \<open>The private codecs of a module.\<close>

fun private_codec :: "view \<Rightarrow> codec \<Rightarrow> bool" where
  "private_codec VEd25519 c = (c = Ed25519 Priv)"
| "private_codec VSecp256K1 c = (c = Secp256K1 Priv)"
| "private_codec VNistP c = (c = P256 Priv \<or> c = P384 Priv \<or> c = P521 Priv)"
| "private_codec VRsa c = (\<exists>s. c = Rsa s Priv)"
| "private_codec VMlDsa c = (\<exists>s. c = MlDsa s SPriv)"
| "private_codec VSlhDsa c = (\<exists>s. c = SlhDsa s SPriv)"
| "private_codec VFnDsa c = (\<exists>s. c = FnDsa s SPriv)"
| "private_codec VMayo c = (\<exists>s. c = Mayo s SPriv)"
| "private_codec VXmss c = (\<exists>s. c = Xmss s SPriv)"
| "private_codec VBls12381 c = (\<exists>g. c = Bls12381 g BPriv \<or> c = Bls12381 g BPrivShare)"
| "private_codec VLamport c = (\<exists>d. c = Lamport d LPriv)"
| "private_codec VLamportMerkle c = (\<exists>d. c = LamportMerkle d LPriv)"
| "private_codec VXeddsa c = (c = X25519 Priv)"
| "private_codec VEd25519Mldsa65 c = (c = Ed25519Mldsa65 SPriv)"
| "private_codec VEd25519Fndsa512 c = (c = Ed25519Fndsa512 SPriv)"
| "private_codec VEd25519Mayo2 c = (c = Ed25519Mayo2 SPriv)"
| "private_codec VBlsG1Mldsa65 c = (c = Bls12381G1Mldsa65 SPriv)"
| "private_codec VBlsG1Fndsa512 c = (c = Bls12381G1Fndsa512 SPriv)"
| "private_codec VBlsG1Mayo1 c = (c = Bls12381G1Mayo1 SPriv)"
| "private_codec VBlsG1Mayo2 c = (c = Bls12381G1Mayo2 SPriv)"
| "private_codec _ c = True"

lemma owned_private:
  assumes "dispatch_sign_view F k = Ok v" "dispatched_secret F W k = Ok secret"
  shows "private_codec v (mk_codec k)"
proof -
  obtain w where "dispatch_attr_view F k = Ok w" "is_secret_key (view_methods W w k)"
    using assms(2) by (auto simp: dispatched_secret_def data_view_def outcome_simps dispatch_data_eq_Ok
        dest: secret_bytes_view_methods)
  then show ?thesis
    using assms(1) by (cases "mk_codec k")
      (auto simp: dispatch_sign_view_def dispatch_attr_view_def arm_def view_defs codec_part_defs sealed_view_def
        plain_view_def split: if_splits)
qed

text \<open>The public key that a conversion returns, as the verification of the same module sees it.\<close>

lemma converted_views:
  assumes "conv k = Ok pk" "dispatched_secret F W k = Ok secret" "pk = public_multikey c k pub"
    and "public_pair (mk_codec k) c"
  shows "public_form F W conv k = Ok pk" and "public_form F W conv pk = Ok pk" and "dispatched_bytes F W pk = Ok pub"
  using public_pair_views(1,2)[OF assms(2), where pk = pk and conv = conv] public_pair_views(3)[OF assms(2), where pk = pk] assms
  by simp_all

lemma ed_okD:
  assumes "ed_ok S" "length sk = 32" "ed_sign S sk m = Ok sig"
  shows "length (ed_public S sk) = 32" "length sig = 64" "ed_key S (ed_public S sk) = Ok ()" "ed_sig S sig = Ok ()"
    "ed_verify S (ed_public S sk) sig m = Ok ()"
  using assms unfolding ed_ok_def by blast+

lemma ed25519_converted:
  assumes "dispatch_sign_view F k = Ok VEd25519" "ed25519_to_public_key F W S k = Ok pk"
  obtains secret where "dispatched_secret F W k = Ok secret" "32 \<le> length secret"
    "public_form F W (ed25519_to_public_key F W S) k = Ok pk" "public_form F W (ed25519_to_public_key F W S) pk = Ok pk"
    "dispatched_bytes F W pk = Ok (ed_public S (take 32 secret))"
proof -
  obtain secret0 where "dispatched_secret F W k = Ok secret0"
    using assms(2) by (auto simp: ed25519_to_public_key_def outcome_simps)
  note codec = owned_private[OF assms(1) this]
  obtain secret where secret: "dispatched_secret F W k = Ok secret" and facts: "32 \<le> length secret"
    and pk: "pk = public_multikey (Ed25519 Pub) k (ed_public S (take 32 secret))" and pair: "public_pair (mk_codec k) (Ed25519 Pub)"
    using assms(2) codec by (auto simp: ed25519_to_public_key_def outcome_simps public_pair_def)
  show ?thesis
    by (rule that[OF secret facts converted_views[where conv = "ed25519_to_public_key F W S", OF assms(2) secret pk pair]])
qed

interpretation ed25519: signature_view "\<lambda>_ _. sign_lib_ok S" "\<lambda>k. dispatch_sign_view F k = Ok VEd25519"
  "ed25519_to_public_key F W S" "ed25519_sign F W S" "ed25519_verify F W S" for F W S
proof unfold_locales
  fix k m combined ms
  assume "sign_lib_ok S" "ed25519_sign F W S k m combined = Ok ms"
  then show "ms_message ms = (if combined then m else [])"
    unfolding ed25519_sign_def by (rule sign_with_message[OF sign_lib_okD(1)])
next
  fix k pk m combined ms
  assume S: "sign_lib_ok S" and k: "dispatch_sign_view F k = Ok VEd25519"
    and conv: "ed25519_to_public_key F W S k = Ok pk" and sign: "ed25519_sign F W S k m combined = Ok ms"
  from k conv obtain secret where secret: "dispatched_secret F W k = Ok secret" and facts: "32 \<le> length secret"
    and pk: "public_form F W (ed25519_to_public_key F W S) pk = Ok pk" "dispatched_bytes F W pk = Ok (ed_public S (take 32 secret))"
    by (rule ed25519_converted)
  obtain sig where sig: "ed_sign S (take 32 secret) m = Ok sig" and ms: "built_multisig S EddsaMsig sig combined m = Ok ms"
    using sign secret facts by (auto simp: ed25519_sign_def outcome_simps  elim!: sign_withD split: if_splits)
  note ok = ed_okD[OF sign_lib_okD(2)[OF S] _ sig]
  show "ed25519_verify F W S pk ms (Some m) = Ok ()"
    using ok facts built_multisigD(2,3)[OF sign_lib_okD(1)[OF S] ms] by (simp add: ed25519_verify_def pk prefix_of_def)
qed (auto simp: ed25519_verify_def select_message_embedded select_message_detached outcome_simps elim: ed25519_converted)

lemma ec_okD:
  assumes "ec_ok S" "ec_secret S c sk = Ok ()" "ec_sign S c sk m = Ok sig"
  shows "c = Ec_K256 \<Longrightarrow> length (ec_public S c sk) = 33" "ec_key S c (ec_public S c sk) = Ok ()" "ec_sig S c sig = Ok ()"
    "ec_verify S c (ec_public S c sk) sig m = Ok ()"
  using assms unfolding ec_ok_def by blast+

lemma secp256k1_converted:
  assumes "dispatch_sign_view F k = Ok VSecp256K1" "secp256k1_to_public_key F W S k = Ok pk"
  obtains secret where "dispatched_secret F W k = Ok secret" "32 \<le> length secret" "ec_secret S Ec_K256 (take 32 secret) = Ok ()"
    "public_form F W (secp256k1_to_public_key F W S) k = Ok pk" "public_form F W (secp256k1_to_public_key F W S) pk = Ok pk"
    "dispatched_bytes F W pk = Ok (ec_public S Ec_K256 (take 32 secret))"
proof -
  obtain secret0 where "dispatched_secret F W k = Ok secret0"
    using assms(2) by (auto simp: secp256k1_to_public_key_def outcome_simps)
  note codec = owned_private[OF assms(1) this]
  obtain secret where secret: "dispatched_secret F W k = Ok secret" and facts: "32 \<le> length secret" "ec_secret S Ec_K256 (take 32 secret) = Ok ()"
    and pk: "pk = public_multikey (Secp256K1 Pub) k (ec_public S Ec_K256 (take 32 secret))" and pair: "public_pair (mk_codec k) (Secp256K1 Pub)"
    using assms(2) codec
    by (auto simp: secp256k1_to_public_key_def SECRET_KEY_LENGTH_def outcome_simps public_pair_def)
  show ?thesis
    by (rule that[OF secret facts converted_views[where conv = "secp256k1_to_public_key F W S", OF assms(2) secret pk pair]])
qed

interpretation secp256k1: signature_view "\<lambda>_ _. sign_lib_ok S" "\<lambda>k. dispatch_sign_view F k = Ok VSecp256K1"
  "secp256k1_to_public_key F W S" "secp256k1_sign F W S" "secp256k1_verify F W S" for F W S
proof unfold_locales
  fix k m combined ms
  assume "sign_lib_ok S" "secp256k1_sign F W S k m combined = Ok ms"
  then show "ms_message ms = (if combined then m else [])"
    unfolding secp256k1_sign_def by (rule sign_with_message[OF sign_lib_okD(1)])
next
  fix k pk m combined ms
  assume S: "sign_lib_ok S" and k: "dispatch_sign_view F k = Ok VSecp256K1"
    and conv: "secp256k1_to_public_key F W S k = Ok pk" and sign: "secp256k1_sign F W S k m combined = Ok ms"
  from k conv obtain secret where secret: "dispatched_secret F W k = Ok secret" and facts: "32 \<le> length secret" "ec_secret S Ec_K256 (take 32 secret) = Ok ()"
    and pk: "public_form F W (secp256k1_to_public_key F W S) pk = Ok pk" "dispatched_bytes F W pk = Ok (ec_public S Ec_K256 (take 32 secret))"
    by (rule secp256k1_converted)
  obtain sig where sig: "ec_sign S Ec_K256 (take 32 secret) m = Ok sig" and ms: "built_multisig S Es256KMsig sig combined m = Ok ms"
    using sign secret facts by (auto simp: secp256k1_sign_def outcome_simps SECRET_KEY_LENGTH_def elim!: sign_withD split: if_splits)
  note ok = ec_okD[OF sign_lib_okD(3)[OF S] facts(2) sig]
  show "secp256k1_verify F W S pk ms (Some m) = Ok ()"
    using ok facts built_multisigD(2,3)[OF sign_lib_okD(1)[OF S] ms] by (simp add: secp256k1_verify_def pk prefix_of_def PUBLIC_KEY_LENGTH_def)
qed (auto simp: secp256k1_verify_def select_message_embedded select_message_detached outcome_simps elim: secp256k1_converted)

lemma nist_converted:
  assumes "dispatch_sign_view F k = Ok VNistP" "nist_to_public_key F W S k = Ok pk"
  obtains curve len secret where "dispatched_secret F W k = Ok secret" "nist_curve F Priv (mk_codec k) = Some (curve, len)" "nist_curve F Pub (mk_codec pk) = Some (curve, len)" "len \<le> length secret" "ec_secret S curve (take len secret) = Ok ()"
    "public_form F W (nist_to_public_key F W S) k = Ok pk" "public_form F W (nist_to_public_key F W S) pk = Ok pk"
    "dispatched_bytes F W pk = Ok (ec_public S curve (take len secret))"
proof -
  obtain secret0 where "dispatched_secret F W k = Ok secret0"
    using assms(2) by (auto simp: nist_to_public_key_def outcome_simps)
  note codec = owned_private[OF assms(1) this]
  obtain curve len secret where secret: "dispatched_secret F W k = Ok secret" and facts: "nist_curve F Priv (mk_codec k) = Some (curve, len)" "nist_curve F Pub (mk_codec pk) = Some (curve, len)" "len \<le> length secret" "ec_secret S curve (take len secret) = Ok ()"
    and pk: "pk = public_multikey (nist_pub_codec (mk_codec k)) k (ec_public S curve (take len secret))" and pair: "public_pair (mk_codec k) (nist_pub_codec (mk_codec k))"
    using assms(2) codec
    by (auto simp: nist_to_public_key_def nist_curve_def outcome_simps public_pair_def split: option.splits if_splits)
  show ?thesis
    by (rule that[OF secret facts converted_views[where conv = "nist_to_public_key F W S", OF assms(2) secret pk pair]])
qed

interpretation nist: signature_view "\<lambda>_ _. sign_lib_ok S" "\<lambda>k. dispatch_sign_view F k = Ok VNistP"
  "nist_to_public_key F W S" "nist_sign F W S" "nist_verify F W S" for F W S
proof unfold_locales
  fix k m combined ms
  assume "sign_lib_ok S" "nist_sign F W S k m combined = Ok ms"
  then show "ms_message ms = (if combined then m else [])"
    unfolding nist_sign_def by (rule sign_with_message[OF sign_lib_okD(1)])
next
  fix k pk m combined ms
  assume S: "sign_lib_ok S" and k: "dispatch_sign_view F k = Ok VNistP"
    and conv: "nist_to_public_key F W S k = Ok pk" and sign: "nist_sign F W S k m combined = Ok ms"
  from k conv obtain curve len secret where secret: "dispatched_secret F W k = Ok secret" and facts: "nist_curve F Priv (mk_codec k) = Some (curve, len)" "nist_curve F Pub (mk_codec pk) = Some (curve, len)" "len \<le> length secret" "ec_secret S curve (take len secret) = Ok ()"
    and pk: "public_form F W (nist_to_public_key F W S) pk = Ok pk" "dispatched_bytes F W pk = Ok (ec_public S curve (take len secret))"
    by (rule nist_converted)
  obtain sig where sig: "ec_sign S curve (take len secret) m = Ok sig"
    and ms: "built_multisig S (nist_msig_codec (mk_codec k)) sig combined m = Ok ms"
    using sign secret facts by (auto simp: nist_sign_def outcome_simps  elim!: sign_withD split: if_splits)
  note ok = ec_okD[OF sign_lib_okD(3)[OF S] facts(4) sig]
  show "nist_verify F W S pk ms (Some m) = Ok ()"
    using ok facts built_multisigD(2,3)[OF sign_lib_okD(1)[OF S] ms] by (simp add: nist_verify_def pk )
qed (auto simp: nist_verify_def select_message_embedded select_message_detached outcome_simps elim: nist_converted)

lemma rsa_okD:
  assumes "rsa_ok S" "rsa_public_der S sk = Ok pk" "rsa_sign S sk m = Ok sig"
  shows "rsa_key S pk = Ok ()" "rsa_sig S sig = Ok ()" "rsa_verify S pk sig m = Ok ()"
  using assms unfolding rsa_ok_def by blast+

lemma rsa_converted:
  assumes "dispatch_sign_view F k = Ok VRsa" "rsa_to_public_key F W S k = Ok pk"
  obtains der secret where "dispatched_secret F W k = Ok secret" "rsa_public_der S secret = Ok der"
    "public_form F W (rsa_to_public_key F W S) k = Ok pk" "public_form F W (rsa_to_public_key F W S) pk = Ok pk"
    "dispatched_bytes F W pk = Ok der"
proof -
  obtain secret0 where "dispatched_secret F W k = Ok secret0"
    using assms(2) by (auto simp: rsa_to_public_key_def outcome_simps)
  note codec = owned_private[OF assms(1) this]
  obtain der secret where secret: "dispatched_secret F W k = Ok secret" and facts: "rsa_public_der S secret = Ok der"
    and pk: "pk = public_multikey (rsa_pub_codec (mk_codec k)) k der" and pair: "public_pair (mk_codec k) (rsa_pub_codec (mk_codec k))"
    using assms(2) codec by (auto simp: rsa_to_public_key_def outcome_simps public_pair_def)
  show ?thesis
    by (rule that[OF secret facts converted_views[where conv = "rsa_to_public_key F W S", OF assms(2) secret pk pair]])
qed

interpretation rsa: signature_view "\<lambda>_ _. sign_lib_ok S" "\<lambda>k. dispatch_sign_view F k = Ok VRsa"
  "rsa_to_public_key F W S" "rsa_view_sign F W S" "rsa_view_verify F W S" for F W S
proof unfold_locales
  fix k m combined ms
  assume "sign_lib_ok S" "rsa_view_sign F W S k m combined = Ok ms"
  then show "ms_message ms = (if combined then m else [])"
    unfolding rsa_view_sign_def by (rule sign_with_message[OF sign_lib_okD(1)])
next
  fix k pk m combined ms
  assume S: "sign_lib_ok S" and k: "dispatch_sign_view F k = Ok VRsa"
    and conv: "rsa_to_public_key F W S k = Ok pk" and sign: "rsa_view_sign F W S k m combined = Ok ms"
  from k conv obtain der secret where secret: "dispatched_secret F W k = Ok secret" and facts: "rsa_public_der S secret = Ok der"
    and pk: "public_form F W (rsa_to_public_key F W S) pk = Ok pk" "dispatched_bytes F W pk = Ok der"
    by (rule rsa_converted)
  obtain sig where sig: "rsa_sign S secret m = Ok sig" and ms: "built_multisig S Rs256Msig sig combined m = Ok ms"
    using sign secret facts by (auto simp: rsa_view_sign_def outcome_simps  elim!: sign_withD split: if_splits)
  note ok = rsa_okD[OF sign_lib_okD(4)[OF S] facts(1) sig]
  show "rsa_view_verify F W S pk ms (Some m) = Ok ()"
    using ok facts built_multisigD(2,3)[OF sign_lib_okD(1)[OF S] ms] by (simp add: rsa_view_verify_def pk )
qed (auto simp: rsa_view_verify_def select_message_embedded select_message_detached outcome_simps elim: rsa_converted)

lemma ml_okD:
  assumes "ml_ok S" "length sk = 32" "ml_sign S s sk m = Ok sig"
  shows "length (ml_public S s sk) = ml_dsa_public_key_length s" "length sig = ml_dsa_signature_length s"
    "ml_key S s (ml_public S s sk)" "ml_sig S s sig" "ml_sig_decodes S s sig"
    "ml_verify S s (ml_public S s sk) sig m = Ok ()"
  using assms unfolding ml_ok_def by blast+

lemma ml_dsa_seed_eq_Ok:
  "ml_dsa_seed c secret = Ok (s, seed) \<longleftrightarrow> c = MlDsa s SPriv \<and> length secret = 32 \<and> seed = secret"
  by (cases c) (auto simp: ml_dsa_seed_def ML_DSA_SEED_LENGTH_def)

lemma ml_dsa_converted:
  assumes "dispatch_sign_view F k = Ok VMlDsa" "ml_dsa_to_public_key F W S k = Ok pk"
  obtains s secret where "dispatched_secret F W k = Ok secret" "mk_codec k = MlDsa s SPriv" "length secret = 32"
    "public_form F W (ml_dsa_to_public_key F W S) k = Ok pk" "public_form F W (ml_dsa_to_public_key F W S) pk = Ok pk"
    "dispatched_bytes F W pk = Ok (ml_public S s secret)"
proof -
  obtain secret0 where "dispatched_secret F W k = Ok secret0"
    using assms(2) by (auto simp: ml_dsa_to_public_key_def outcome_simps)
  note codec = owned_private[OF assms(1) this]
  obtain s secret where secret: "dispatched_secret F W k = Ok secret" and facts: "mk_codec k = MlDsa s SPriv" "length secret = 32"
    and pk: "pk = public_multikey (MlDsa s SPub) k (ml_public S s secret)" and pair: "public_pair (mk_codec k) (MlDsa s SPub)"
    using assms(2) codec by (auto simp: ml_dsa_to_public_key_def outcome_simps ml_dsa_seed_eq_Ok public_pair_def)
  show ?thesis
    by (rule that[OF secret facts converted_views[where conv = "ml_dsa_to_public_key F W S", OF assms(2) secret pk pair]])
qed

interpretation ml_dsa: signature_view "\<lambda>_ _. sign_lib_ok S" "\<lambda>k. dispatch_sign_view F k = Ok VMlDsa"
  "ml_dsa_to_public_key F W S" "ml_dsa_sign F W S" "ml_dsa_verify F W S" for F W S
proof unfold_locales
  fix k m combined ms
  assume "sign_lib_ok S" "ml_dsa_sign F W S k m combined = Ok ms"
  then show "ms_message ms = (if combined then m else [])"
    unfolding ml_dsa_sign_def by (rule sign_with_message[OF sign_lib_okD(1)])
next
  fix k pk m combined ms
  assume S: "sign_lib_ok S" and k: "dispatch_sign_view F k = Ok VMlDsa"
    and conv: "ml_dsa_to_public_key F W S k = Ok pk" and sign: "ml_dsa_sign F W S k m combined = Ok ms"
  from k conv obtain s secret where secret: "dispatched_secret F W k = Ok secret" and facts: "mk_codec k = MlDsa s SPriv" "length secret = 32"
    and pk: "public_form F W (ml_dsa_to_public_key F W S) pk = Ok pk" "dispatched_bytes F W pk = Ok (ml_public S s secret)"
    by (rule ml_dsa_converted)
  obtain sig where sig: "ml_sign S s secret m = Ok sig" and ms: "built_multisig S (MlDsa s SMsig) sig combined m = Ok ms"
    using sign secret facts by (auto simp: ml_dsa_sign_def outcome_simps ml_dsa_seed_eq_Ok elim!: sign_withD split: if_splits)
  note ok = ml_okD[OF sign_lib_okD(5)[OF S] facts(2) sig]
  show "ml_dsa_verify F W S pk ms (Some m) = Ok ()"
    using ok facts built_multisigD(2,3)[OF sign_lib_okD(1)[OF S] ms] by (cases s) (simp_all add: ml_dsa_verify_def pk ml_dsa_check_def Let_def)
qed (auto simp: ml_dsa_verify_def select_message_embedded select_message_detached outcome_simps elim: ml_dsa_converted)

lemma slh_okD:
  assumes "slh_ok S" "slh_public S s sk = Some pk" "slh_sign S s sk m = Ok sig"
  shows "slh_key S s pk" "slh_sig S s sig" "slh_verify S s pk sig m = Ok ()"
  using assms unfolding slh_ok_def by blast+

lemma slh_dsa_set_eq_Ok: "slh_dsa_set bad c = Ok s \<longleftrightarrow> c = SlhDsa s SPriv"
  by (cases c) (auto simp: slh_dsa_set_def)

lemma slh_dsa_converted:
  assumes "dispatch_sign_view F k = Ok VSlhDsa" "slh_dsa_to_public_key F W S k = Ok pk"
  obtains s pub secret where "dispatched_secret F W k = Ok secret" "mk_codec k = SlhDsa s SPriv" "mk_codec pk = SlhDsa s SPub" "slh_public S s secret = Some pub"
    "public_form F W (slh_dsa_to_public_key F W S) k = Ok pk" "public_form F W (slh_dsa_to_public_key F W S) pk = Ok pk"
    "dispatched_bytes F W pk = Ok pub"
proof -
  obtain secret0 where "dispatched_secret F W k = Ok secret0"
    using assms(2) by (auto simp: slh_dsa_to_public_key_def outcome_simps)
  note codec = owned_private[OF assms(1) this]
  obtain s pub secret where secret: "dispatched_secret F W k = Ok secret" and facts: "mk_codec k = SlhDsa s SPriv" "mk_codec pk = SlhDsa s SPub" "slh_public S s secret = Some pub"
    and pk: "pk = public_multikey (SlhDsa s SPub) k pub" and pair: "public_pair (mk_codec k) (SlhDsa s SPub)"
    using assms(2) codec by (auto simp: slh_dsa_to_public_key_def outcome_simps slh_dsa_set_eq_Ok public_pair_def)
  show ?thesis
    by (rule that[OF secret facts converted_views[where conv = "slh_dsa_to_public_key F W S", OF assms(2) secret pk pair]])
qed

interpretation slh_dsa: signature_view "\<lambda>_ _. sign_lib_ok S" "\<lambda>k. dispatch_sign_view F k = Ok VSlhDsa"
  "slh_dsa_to_public_key F W S" "slh_dsa_sign F W S" "slh_dsa_verify F W S" for F W S
proof unfold_locales
  fix k m combined ms
  assume "sign_lib_ok S" "slh_dsa_sign F W S k m combined = Ok ms"
  then show "ms_message ms = (if combined then m else [])"
    unfolding slh_dsa_sign_def by (rule sign_with_message[OF sign_lib_okD(1)])
next
  fix k pk m combined ms
  assume S: "sign_lib_ok S" and k: "dispatch_sign_view F k = Ok VSlhDsa"
    and conv: "slh_dsa_to_public_key F W S k = Ok pk" and sign: "slh_dsa_sign F W S k m combined = Ok ms"
  from k conv obtain s pub secret where secret: "dispatched_secret F W k = Ok secret" and facts: "mk_codec k = SlhDsa s SPriv" "mk_codec pk = SlhDsa s SPub" "slh_public S s secret = Some pub"
    and pk: "public_form F W (slh_dsa_to_public_key F W S) pk = Ok pk" "dispatched_bytes F W pk = Ok pub"
    by (rule slh_dsa_converted)
  obtain sig where sig: "slh_sign S s secret m = Ok sig" and ms: "built_multisig S (SlhDsa s SMsig) sig combined m = Ok ms"
    using sign secret facts by (auto simp: slh_dsa_sign_def outcome_simps slh_dsa_set_eq_Ok elim!: sign_withD split: if_splits)
  note ok = slh_okD[OF sign_lib_okD(6)[OF S] facts(3) sig]
  show "slh_dsa_verify F W S pk ms (Some m) = Ok ()"
    using ok facts built_multisigD(2,3)[OF sign_lib_okD(1)[OF S] ms] by (simp add: slh_dsa_verify_def pk Let_def)
qed (auto simp: slh_dsa_verify_def select_message_embedded select_message_detached outcome_simps elim: slh_dsa_converted)

lemma fn_okD:
  assumes "fn_ok S" "fn_secret S sk = Some s"
  shows "fn_key S (fn_public S sk)" "length (fn_public S sk) = vrfy_key_size S s"
    "length (fn_sign S sk m) = signature_size S s" "fn_verify S (fn_public S sk) (fn_sign S sk m) m"
    "vrfy_key_size S Fn1024 \<noteq> vrfy_key_size S Fn512"
  using assms unfolding fn_ok_def by metis+

lemma fn_dsa_converted:
  assumes "dispatch_sign_view F k = Ok VFnDsa" "fn_dsa_to_public_key F W S k = Ok pk"
  obtains s secret where "dispatched_secret F W k = Ok secret" "fn_secret S secret = Some s"
    "public_form F W (fn_dsa_to_public_key F W S) k = Ok pk" "public_form F W (fn_dsa_to_public_key F W S) pk = Ok pk"
    "dispatched_bytes F W pk = Ok (fn_public S secret)"
proof -
  obtain secret0 where "dispatched_secret F W k = Ok secret0"
    using assms(2) by (auto simp: fn_dsa_to_public_key_def outcome_simps)
  note codec = owned_private[OF assms(1) this]
  obtain s secret where secret: "dispatched_secret F W k = Ok secret" and facts: "fn_secret S secret = Some s"
    and pk: "pk = public_multikey (FnDsa s SPub) k (fn_public S secret)" and pair: "public_pair (mk_codec k) (FnDsa s SPub)"
    using assms(2) codec by (auto simp: fn_dsa_to_public_key_def outcome_simps public_pair_def)
  show ?thesis
    by (rule that[OF secret facts converted_views[where conv = "fn_dsa_to_public_key F W S", OF assms(2) secret pk pair]])
qed

interpretation fn_dsa: signature_view "\<lambda>_ _. sign_lib_ok S" "\<lambda>k. dispatch_sign_view F k = Ok VFnDsa"
  "fn_dsa_to_public_key F W S" "fn_dsa_sign F W S" "fn_dsa_verify F W S" for F W S
proof unfold_locales
  fix k m combined ms
  assume "sign_lib_ok S" "fn_dsa_sign F W S k m combined = Ok ms"
  then show "ms_message ms = (if combined then m else [])"
    unfolding fn_dsa_sign_def by (rule sign_with_message[OF sign_lib_okD(1)])
next
  fix k pk m combined ms
  assume S: "sign_lib_ok S" and k: "dispatch_sign_view F k = Ok VFnDsa"
    and conv: "fn_dsa_to_public_key F W S k = Ok pk" and sign: "fn_dsa_sign F W S k m combined = Ok ms"
  from k conv obtain s secret where secret: "dispatched_secret F W k = Ok secret" and facts: "fn_secret S secret = Some s"
    and pk: "public_form F W (fn_dsa_to_public_key F W S) pk = Ok pk" "dispatched_bytes F W pk = Ok (fn_public S secret)"
    by (rule fn_dsa_converted)
  obtain c where ms: "built_multisig S c (fn_sign S secret m) combined m = Ok ms"
    using sign secret facts by (auto simp: fn_dsa_sign_def outcome_simps  elim!: sign_withD split: if_splits)
  note ok = fn_okD(1,2,5)[OF sign_lib_okD(7)[OF S] facts(1)] fn_okD(3,4)[OF sign_lib_okD(7)[OF S] facts(1), of m]
  show "fn_dsa_verify F W S pk ms (Some m) = Ok ()"
    using ok facts built_multisigD(2,3)[OF sign_lib_okD(1)[OF S] ms] by (cases s) (simp_all add: fn_dsa_verify_def pk Let_def)
qed (auto simp: fn_dsa_verify_def select_message_embedded select_message_detached outcome_simps Let_def cong: if_cong elim: fn_dsa_converted)

lemma mayo_okD:
  assumes "mayo_ok S" "mayo_public S s sk = Ok pk" "mayo_sign S s sk m = Ok sig"
  shows "length pk = mayo_public_key_length s" "length sig = mayo_signature_length s" "mayo_key S s pk" "mayo_sig S s sig"
    "mayo_verify S s pk sig m = Ok ()"
  using assms unfolding mayo_ok_def by blast+

lemma mayo_seed_eq_Ok: "mayo_seed c secret = Ok s \<longleftrightarrow> c = Mayo s SPriv \<and> length secret = mayo_seed_length s"
  by (cases c) (auto simp: mayo_seed_def)

lemma mayo_lengths:
  "find (\<lambda>t. mayo_public_key_length s = mayo_public_key_length t \<and> mayo_signature_length s = mayo_signature_length t)
     [Mayo_1, Mayo_2, Mayo_3, Mayo_5] = Some s"
  by (cases s) simp_all

lemma mayo_converted:
  assumes "dispatch_sign_view F k = Ok VMayo" "mayo_to_public_key F W S k = Ok pk"
  obtains s pub secret where "dispatched_secret F W k = Ok secret" "mk_codec k = Mayo s SPriv" "mayo_public S s secret = Ok pub"
    "public_form F W (mayo_to_public_key F W S) k = Ok pk" "public_form F W (mayo_to_public_key F W S) pk = Ok pk"
    "dispatched_bytes F W pk = Ok pub"
proof -
  obtain secret0 where "dispatched_secret F W k = Ok secret0"
    using assms(2) by (auto simp: mayo_to_public_key_def outcome_simps)
  note codec = owned_private[OF assms(1) this]
  obtain s pub secret where secret: "dispatched_secret F W k = Ok secret" and facts: "mk_codec k = Mayo s SPriv" "mayo_public S s secret = Ok pub"
    and pk: "pk = public_multikey (Mayo s SPub) k pub" and pair: "public_pair (mk_codec k) (Mayo s SPub)"
    using assms(2) codec by (auto simp: mayo_to_public_key_def mayo_key_pair_def outcome_simps mayo_seed_eq_Ok public_pair_def)
  show ?thesis
    by (rule that[OF secret facts converted_views[where conv = "mayo_to_public_key F W S", OF assms(2) secret pk pair]])
qed

interpretation mayo: signature_view "\<lambda>_ _. sign_lib_ok S" "\<lambda>k. dispatch_sign_view F k = Ok VMayo"
  "mayo_to_public_key F W S" "mayo_view_sign F W S" "mayo_view_verify F W S" for F W S
proof unfold_locales
  fix k m combined ms
  assume "sign_lib_ok S" "mayo_view_sign F W S k m combined = Ok ms"
  then show "ms_message ms = (if combined then m else [])"
    unfolding mayo_view_sign_def by (rule sign_with_message[OF sign_lib_okD(1)])
next
  fix k pk m combined ms
  assume S: "sign_lib_ok S" and k: "dispatch_sign_view F k = Ok VMayo"
    and conv: "mayo_to_public_key F W S k = Ok pk" and sign: "mayo_view_sign F W S k m combined = Ok ms"
  from k conv obtain s pub secret where secret: "dispatched_secret F W k = Ok secret" and facts: "mk_codec k = Mayo s SPriv" "mayo_public S s secret = Ok pub"
    and pk: "public_form F W (mayo_to_public_key F W S) pk = Ok pk" "dispatched_bytes F W pk = Ok pub"
    by (rule mayo_converted)
  obtain sig where sig: "mayo_sign S s secret m = Ok sig" and ms: "built_multisig S (Mayo s SMsig) sig combined m = Ok ms"
    using sign secret facts by (auto simp: mayo_view_sign_def outcome_simps mayo_seed_eq_Ok elim!: sign_withD split: if_splits)
  note ok = mayo_okD[OF sign_lib_okD(8)[OF S] facts(2) sig]
  show "mayo_view_verify F W S pk ms (Some m) = Ok ()"
    using ok facts built_multisigD(2,3)[OF sign_lib_okD(1)[OF S] ms] by (simp add: mayo_view_verify_def pk mayo_check_def mayo_lengths del: find.simps)
qed (auto simp: mayo_view_verify_def select_message_embedded select_message_detached outcome_simps elim: mayo_converted)

end
