(* ===== verification/Mk_Hybrid.thy ===== *)
theory Mk_Hybrid
  imports Mk_Sign
begin

text \<open>
  The hybrid signing views: Ed25519 or BLS-G1 with ML-DSA-65, FN-DSA-512 or MAYO
  (\<^verbatim>\<open>src/views/ed25519_mldsa65.rs\<close>, \<^verbatim>\<open>ed25519_fndsa512.rs\<close>, \<^verbatim>\<open>ed25519_mayo2.rs\<close>,
  \<^verbatim>\<open>bls12381_g1_mldsa65.rs\<close>, \<^verbatim>\<open>bls12381_g1_fndsa512.rs\<close>, \<^verbatim>\<open>bls12381_g1_mayo1.rs\<close>,
  \<^verbatim>\<open>bls12381_g1_mayo2.rs\<close>, \<^verbatim>\<open>bls12381_hybrid.rs\<close>). The classical algorithm signs the message, the
  post-quantum one the message followed by the classical signature. A component is a signer on bytes;
  its contract is the locale \<open>signer\<close>, and the pair of two signers is a signer again.
\<close>

section \<open>The external functions\<close>

text \<open>BLS-G1 signatures with the basic scheme, beside those of the other signing views.\<close>

record hybrid_lib = sign_lib +
  g1_secret :: "bytes \<Rightarrow> bool"                       \<comment> \<open>\<^verbatim>\<open>SecretKey::from_be_bytes\<close> is some\<close>
  g1_public :: "bytes \<Rightarrow> bytes"
  g1_sign :: "bytes \<Rightarrow> bytes \<Rightarrow> (string, bytes) outcome"
  g1_key :: "bytes \<Rightarrow> (string, unit) outcome"        \<comment> \<open>\<^verbatim>\<open>PublicKey::try_from\<close>\<close>
  g1_point :: "bytes \<Rightarrow> bool"                        \<comment> \<open>\<^verbatim>\<open>G1Projective::from_compressed\<close> is some\<close>
  g1_verify :: "bytes \<Rightarrow> bytes \<Rightarrow> bytes \<Rightarrow> (string, unit) outcome" \<comment> \<open>key, signature, message\<close>

section \<open>BLS-G1\<close>

definition BLS_G1_SECRET_LEN :: nat where "BLS_G1_SECRET_LEN = 32"
definition BLS_G1_PUB_LEN :: nat where "BLS_G1_PUB_LEN = 96"
definition BLS_G1_SIG_LEN :: nat where "BLS_G1_SIG_LEN = 48"

definition secret_from_bytes :: "hybrid_lib \<Rightarrow> bytes \<Rightarrow> bytes res" where
  "secret_from_bytes S secret =
     (if length secret < BLS_G1_SECRET_LEN then Err (secret_failure ''invalid BLS-G1 secret'')
      else if g1_secret S (take BLS_G1_SECRET_LEN secret) then Ok (take BLS_G1_SECRET_LEN secret)
      else Err (secret_failure ''invalid BLS-G1 secret''))"

definition public_from_secret :: "hybrid_lib \<Rightarrow> bytes \<Rightarrow> bytes res" where
  "public_from_secret S secret = and_then (secret_from_bytes S secret) (\<lambda>sk. Ok (g1_public S sk))"

definition bls_g1_sign :: "hybrid_lib \<Rightarrow> bytes \<Rightarrow> bytes \<Rightarrow> bytes res" where
  "bls_g1_sign S secret msg =
     and_then (secret_from_bytes S secret) (\<lambda>sk.
     map_err (\<lambda>e. Sign (SiSigningFailed e)) (g1_sign S sk msg))"

definition bls_g1_verify :: "hybrid_lib \<Rightarrow> bytes \<Rightarrow> bytes \<Rightarrow> bytes \<Rightarrow> unit res" where
  "bls_g1_verify S public sig msg =
     and_then (map_err public_failure (g1_key S public)) (\<lambda>_.
     if length sig \<noteq> BLS_G1_SIG_LEN then Err (bad_signature ''invalid BLS-G1 signature length'')
     else if \<not> g1_point S sig then Err (bad_signature ''invalid BLS-G1 signature point'')
     else map_err (\<lambda>e. bad_signature (''BLS-G1 verify failed: '' @ e)) (g1_verify S public sig msg))"

lemmas bls_g1_defs = secret_from_bytes_def public_from_secret_def bls_g1_sign_def bls_g1_verify_def BLS_G1_SECRET_LEN_def
  BLS_G1_PUB_LEN_def BLS_G1_SIG_LEN_def

section \<open>The components\<close>

record component =
  cp_secret_len :: nat
  cp_public_len :: nat
  cp_sig_len :: nat
  cp_public :: "bytes \<Rightarrow> bytes res"
  cp_sign :: "bytes \<Rightarrow> bytes \<Rightarrow> bytes res"
  cp_verify :: "bytes \<Rightarrow> bytes \<Rightarrow> bytes \<Rightarrow> unit res"

definition ed25519_component :: "hybrid_lib \<Rightarrow> component" where
  "ed25519_component S =
     \<lparr>cp_secret_len = 32, cp_public_len = 32, cp_sig_len = 64,
      cp_public = \<lambda>seed. Ok (ed_public S seed),
      cp_sign = \<lambda>seed msg. expect (ed_sign S seed msg),
      cp_verify = \<lambda>key sig msg.
        and_then (map_err public_failure (ed_key S key)) (\<lambda>_.
        and_then (map_err bad_signature (ed_sig S sig)) (\<lambda>_.
        map_err (\<lambda>e. bad_signature (''Ed25519 verify failed: '' @ e)) (ed_verify S key sig msg)))\<rparr>"

definition bls_g1_component :: "hybrid_lib \<Rightarrow> component" where
  "bls_g1_component S =
     \<lparr>cp_secret_len = BLS_G1_SECRET_LEN, cp_public_len = BLS_G1_PUB_LEN, cp_sig_len = BLS_G1_SIG_LEN,
      cp_public = public_from_secret S, cp_sign = bls_g1_sign S, cp_verify = bls_g1_verify S\<rparr>"

definition mldsa65_component :: "hybrid_lib \<Rightarrow> component" where
  "mldsa65_component S =
     \<lparr>cp_secret_len = 32, cp_public_len = 1952, cp_sig_len = 3309,
      cp_public = \<lambda>seed. Ok (ml_public S Ml65 seed),
      cp_sign = \<lambda>seed msg. expect (ml_sign S Ml65 seed msg),
      cp_verify = ml_dsa_check S Ml65
        (''invalid ML-DSA-65 public key'', ''invalid ML-DSA-65 signature'', ''invalid ML-DSA-65 signature'')
        (\<lambda>e. ''ML-DSA-65 verify failed: '' @ e)\<rparr>"

definition fndsa512_component :: "hybrid_lib \<Rightarrow> component" where
  "fndsa512_component S =
     \<lparr>cp_secret_len = sign_key_size S Fn512, cp_public_len = vrfy_key_size S Fn512,
      cp_sig_len = signature_size S Fn512,
      cp_public = \<lambda>sk. and_then (ok_or (secret_failure ''invalid fn-dsa signing key'') (fn_secret S sk)) (\<lambda>_.
        Ok (fn_public S sk)),
      cp_sign = \<lambda>sk msg. and_then (ok_or (secret_failure ''invalid fn-dsa signing key'') (fn_secret S sk)) (\<lambda>_.
        Ok (fn_sign S sk msg)),
      cp_verify = \<lambda>key sig msg.
        if \<not> fn_key S key then Err (public_failure ''invalid fn-dsa verifying key'')
        else if fn_verify S key sig msg then Ok () else Err (bad_signature ''FN-DSA-512 verify failed'')\<rparr>"

text \<open>MAYO with one of its parameter sets; \<open>name\<close> is the name of the set in the error texts.\<close>

definition mayo_component :: "hybrid_lib \<Rightarrow> mayo_set \<Rightarrow> string \<Rightarrow> nat \<Rightarrow> nat \<Rightarrow> component" where
  "mayo_component S s name public_len sig_len =
     \<lparr>cp_secret_len = 24, cp_public_len = public_len, cp_sig_len = sig_len,
      cp_public = mayo_key_pair S s,
      cp_sign = \<lambda>seed msg. and_then (mayo_key_pair S s seed) (\<lambda>_.
        map_err (\<lambda>e. Sign (SiSigningFailed e)) (mayo_sign S s seed msg)),
      cp_verify = mayo_check S s
        (''invalid '' @ name @ '' public key'', ''invalid '' @ name @ '' signature'')
        (\<lambda>e. name @ '' verify failed: '' @ e)\<rparr>"

section \<open>The hybrid of two components\<close>

definition hybrid_public_bytes :: "component \<Rightarrow> component \<Rightarrow> bytes \<Rightarrow> bytes res" where
  "hybrid_public_bytes c p secret =
     and_then (cp_public c (take (cp_secret_len c) secret)) (\<lambda>pub1.
     and_then (cp_public p (drop (cp_secret_len c) secret)) (\<lambda>pub2.
     Ok (pub1 @ pub2)))"

definition hybrid_sign_bytes :: "component \<Rightarrow> component \<Rightarrow> bytes \<Rightarrow> bytes \<Rightarrow> bytes res" where
  "hybrid_sign_bytes c p secret msg =
     and_then (cp_sign c (take (cp_secret_len c) secret) msg) (\<lambda>s1.
     and_then (cp_sign p (drop (cp_secret_len c) secret) (msg @ s1)) (\<lambda>s2.
     Ok (s1 @ s2)))"

definition hybrid_verify_bytes :: "component \<Rightarrow> component \<Rightarrow> bytes \<Rightarrow> bytes \<Rightarrow> bytes \<Rightarrow> unit res" where
  "hybrid_verify_bytes c p key sig msg =
     (let s1 = take (cp_sig_len c) sig; s2 = drop (cp_sig_len c) sig in
      and_then (cp_verify c (take (cp_public_len c) key) s1 msg) (\<lambda>_.
      cp_verify p (drop (cp_public_len c) key) s2 (msg @ s1)))"

record hybrid =
  hy_classical :: component
  hy_pq :: component
  hy_secret_error :: string
  hy_pub :: codec
  hy_msig :: codec

definition hybrid_to_public_key :: "features \<Rightarrow> wire \<Rightarrow> hybrid \<Rightarrow> multikey \<Rightarrow> multikey res" where
  "hybrid_to_public_key F W h k =
     and_then (dispatched_secret F W k) (\<lambda>secret.
     if length secret \<noteq> cp_secret_len (hy_classical h) + cp_secret_len (hy_pq h)
     then Err (secret_failure (hy_secret_error h))
     else
     and_then (hybrid_public_bytes (hy_classical h) (hy_pq h) secret) (\<lambda>pub.
     Ok (public_multikey (hy_pub h) k pub)))"

definition hybrid_sign ::
  "features \<Rightarrow> wire \<Rightarrow> 'a ms_lib_scheme \<Rightarrow> hybrid \<Rightarrow> multikey \<Rightarrow> bytes \<Rightarrow> bool \<Rightarrow> multisig res" where
  "hybrid_sign F W S h k msg combined =
     sign_with F W S (\<lambda>secret.
       if length secret \<noteq> cp_secret_len (hy_classical h) + cp_secret_len (hy_pq h)
       then Err (secret_failure (hy_secret_error h))
       else
       and_then (hybrid_sign_bytes (hy_classical h) (hy_pq h) secret msg) (\<lambda>sig.
       Ok (sig, hy_msig h))) k msg combined"

definition hybrid_verify ::
  "features \<Rightarrow> wire \<Rightarrow> 'a ms_lib_scheme \<Rightarrow> hybrid \<Rightarrow> multikey \<Rightarrow> multisig \<Rightarrow> bytes option \<Rightarrow> unit res" where
  "hybrid_verify F W S h k ms msg =
     and_then (select_message ms msg) (\<lambda>m.
     and_then (public_form F W (hybrid_to_public_key F W h) k) (\<lambda>pk.
     and_then (dispatched_bytes F W pk) (\<lambda>key.
     if length key \<noteq> cp_public_len (hy_classical h) + cp_public_len (hy_pq h)
     then Err (public_failure ''invalid hybrid public key length'')
     else
     and_then (sig_bytes_or_missing S ms) (\<lambda>sig.
     if length sig \<noteq> cp_sig_len (hy_classical h) + cp_sig_len (hy_pq h)
     then Err (bad_signature ''invalid hybrid signature length'')
     else hybrid_verify_bytes (hy_classical h) (hy_pq h) key sig m))))"

section \<open>The seven hybrids\<close>

definition ed25519_mldsa65 :: "hybrid_lib \<Rightarrow> hybrid" where
  "ed25519_mldsa65 S =
     \<lparr>hy_classical = ed25519_component S, hy_pq = mldsa65_component S,
      hy_secret_error = ''invalid hybrid seed length'', hy_pub = Ed25519Mldsa65 SPub, hy_msig = Ed25519Mldsa65 SMsig\<rparr>"

definition ed25519_fndsa512 :: "hybrid_lib \<Rightarrow> hybrid" where
  "ed25519_fndsa512 S =
     \<lparr>hy_classical = ed25519_component S, hy_pq = fndsa512_component S,
      hy_secret_error = ''invalid hybrid secret length'', hy_pub = Ed25519Fndsa512 SPub, hy_msig = Ed25519Fndsa512 SMsig\<rparr>"

definition ed25519_mayo2 :: "hybrid_lib \<Rightarrow> hybrid" where
  "ed25519_mayo2 S =
     \<lparr>hy_classical = ed25519_component S, hy_pq = mayo_component S Mayo_2 ''MAYO-2'' 4368 216,
      hy_secret_error = ''invalid hybrid seed length'', hy_pub = Ed25519Mayo2 SPub, hy_msig = Ed25519Mayo2 SMsig\<rparr>"

definition bls12381_g1_mldsa65 :: "hybrid_lib \<Rightarrow> hybrid" where
  "bls12381_g1_mldsa65 S =
     \<lparr>hy_classical = bls_g1_component S, hy_pq = mldsa65_component S,
      hy_secret_error = ''invalid hybrid seed length'', hy_pub = Bls12381G1Mldsa65 SPub, hy_msig = Bls12381G1Mldsa65 SMsig\<rparr>"

definition bls12381_g1_fndsa512 :: "hybrid_lib \<Rightarrow> hybrid" where
  "bls12381_g1_fndsa512 S =
     \<lparr>hy_classical = bls_g1_component S, hy_pq = fndsa512_component S,
      hy_secret_error = ''invalid hybrid secret length'', hy_pub = Bls12381G1Fndsa512 SPub, hy_msig = Bls12381G1Fndsa512 SMsig\<rparr>"

definition bls12381_g1_mayo1 :: "hybrid_lib \<Rightarrow> hybrid" where
  "bls12381_g1_mayo1 S =
     \<lparr>hy_classical = bls_g1_component S, hy_pq = mayo_component S Mayo_1 ''MAYO-1'' 1420 454,
      hy_secret_error = ''invalid hybrid seed length'', hy_pub = Bls12381G1Mayo1 SPub, hy_msig = Bls12381G1Mayo1 SMsig\<rparr>"

definition bls12381_g1_mayo2 :: "hybrid_lib \<Rightarrow> hybrid" where
  "bls12381_g1_mayo2 S =
     \<lparr>hy_classical = bls_g1_component S, hy_pq = mayo_component S Mayo_2 ''MAYO-2'' 4368 216,
      hy_secret_error = ''invalid hybrid seed length'', hy_pub = Bls12381G1Mayo2 SPub, hy_msig = Bls12381G1Mayo2 SMsig\<rparr>"

lemmas hybrid_defs = ed25519_mldsa65_def ed25519_fndsa512_def ed25519_mayo2_def bls12381_g1_mldsa65_def
  bls12381_g1_fndsa512_def bls12381_g1_mayo1_def bls12381_g1_mayo2_def

text \<open>The operations of the seven modules.\<close>

definition ed25519_mldsa65_to_public_key where "ed25519_mldsa65_to_public_key F W S = hybrid_to_public_key F W (ed25519_mldsa65 S)"
definition ed25519_mldsa65_sign where "ed25519_mldsa65_sign F W (S :: hybrid_lib) = hybrid_sign F W S (ed25519_mldsa65 S)"
definition ed25519_mldsa65_verify where "ed25519_mldsa65_verify F W (S :: hybrid_lib) = hybrid_verify F W S (ed25519_mldsa65 S)"
definition ed25519_mldsa65_fingerprint where
  "ed25519_mldsa65_fingerprint mhash F W S k =
     fingerprint_with mhash F W (mk_codec k = Ed25519Mldsa65 SPriv) (ed25519_mldsa65_to_public_key F W S k) k"

definition ed25519_fndsa512_to_public_key where "ed25519_fndsa512_to_public_key F W S = hybrid_to_public_key F W (ed25519_fndsa512 S)"
definition ed25519_fndsa512_sign where "ed25519_fndsa512_sign F W (S :: hybrid_lib) = hybrid_sign F W S (ed25519_fndsa512 S)"
definition ed25519_fndsa512_verify where "ed25519_fndsa512_verify F W (S :: hybrid_lib) = hybrid_verify F W S (ed25519_fndsa512 S)"
definition ed25519_fndsa512_fingerprint where
  "ed25519_fndsa512_fingerprint mhash F W S k =
     fingerprint_with mhash F W (mk_codec k = Ed25519Fndsa512 SPriv) (ed25519_fndsa512_to_public_key F W S k) k"

definition ed25519_mayo2_to_public_key where "ed25519_mayo2_to_public_key F W S = hybrid_to_public_key F W (ed25519_mayo2 S)"
definition ed25519_mayo2_sign where "ed25519_mayo2_sign F W (S :: hybrid_lib) = hybrid_sign F W S (ed25519_mayo2 S)"
definition ed25519_mayo2_verify where "ed25519_mayo2_verify F W (S :: hybrid_lib) = hybrid_verify F W S (ed25519_mayo2 S)"
definition ed25519_mayo2_fingerprint where
  "ed25519_mayo2_fingerprint mhash F W S k =
     fingerprint_with mhash F W (mk_codec k = Ed25519Mayo2 SPriv) (ed25519_mayo2_to_public_key F W S k) k"

definition bls12381_g1_mldsa65_to_public_key where "bls12381_g1_mldsa65_to_public_key F W S = hybrid_to_public_key F W (bls12381_g1_mldsa65 S)"
definition bls12381_g1_mldsa65_sign where "bls12381_g1_mldsa65_sign F W (S :: hybrid_lib) = hybrid_sign F W S (bls12381_g1_mldsa65 S)"
definition bls12381_g1_mldsa65_verify where "bls12381_g1_mldsa65_verify F W (S :: hybrid_lib) = hybrid_verify F W S (bls12381_g1_mldsa65 S)"
definition bls12381_g1_mldsa65_fingerprint where
  "bls12381_g1_mldsa65_fingerprint mhash F W S k =
     fingerprint_with mhash F W (mk_codec k = Bls12381G1Mldsa65 SPriv) (bls12381_g1_mldsa65_to_public_key F W S k) k"

definition bls12381_g1_fndsa512_to_public_key where "bls12381_g1_fndsa512_to_public_key F W S = hybrid_to_public_key F W (bls12381_g1_fndsa512 S)"
definition bls12381_g1_fndsa512_sign where "bls12381_g1_fndsa512_sign F W (S :: hybrid_lib) = hybrid_sign F W S (bls12381_g1_fndsa512 S)"
definition bls12381_g1_fndsa512_verify where "bls12381_g1_fndsa512_verify F W (S :: hybrid_lib) = hybrid_verify F W S (bls12381_g1_fndsa512 S)"
definition bls12381_g1_fndsa512_fingerprint where
  "bls12381_g1_fndsa512_fingerprint mhash F W S k =
     fingerprint_with mhash F W (mk_codec k = Bls12381G1Fndsa512 SPriv) (bls12381_g1_fndsa512_to_public_key F W S k) k"

definition bls12381_g1_mayo1_to_public_key where "bls12381_g1_mayo1_to_public_key F W S = hybrid_to_public_key F W (bls12381_g1_mayo1 S)"
definition bls12381_g1_mayo1_sign where "bls12381_g1_mayo1_sign F W (S :: hybrid_lib) = hybrid_sign F W S (bls12381_g1_mayo1 S)"
definition bls12381_g1_mayo1_verify where "bls12381_g1_mayo1_verify F W (S :: hybrid_lib) = hybrid_verify F W S (bls12381_g1_mayo1 S)"
definition bls12381_g1_mayo1_fingerprint where
  "bls12381_g1_mayo1_fingerprint mhash F W S k =
     fingerprint_with mhash F W (mk_codec k = Bls12381G1Mayo1 SPriv) (bls12381_g1_mayo1_to_public_key F W S k) k"

definition bls12381_g1_mayo2_to_public_key where "bls12381_g1_mayo2_to_public_key F W S = hybrid_to_public_key F W (bls12381_g1_mayo2 S)"
definition bls12381_g1_mayo2_sign where "bls12381_g1_mayo2_sign F W (S :: hybrid_lib) = hybrid_sign F W S (bls12381_g1_mayo2 S)"
definition bls12381_g1_mayo2_verify where "bls12381_g1_mayo2_verify F W (S :: hybrid_lib) = hybrid_verify F W S (bls12381_g1_mayo2 S)"
definition bls12381_g1_mayo2_fingerprint where
  "bls12381_g1_mayo2_fingerprint mhash F W S k =
     fingerprint_with mhash F W (mk_codec k = Bls12381G1Mayo2 SPriv) (bls12381_g1_mayo2_to_public_key F W S k) k"

lemmas hybrid_fingerprint_defs = ed25519_mldsa65_fingerprint_def ed25519_fndsa512_fingerprint_def ed25519_mayo2_fingerprint_def bls12381_g1_mldsa65_fingerprint_def
  bls12381_g1_fndsa512_fingerprint_def bls12381_g1_mayo1_fingerprint_def bls12381_g1_mayo2_fingerprint_def

section \<open>The contract of a signer\<close>

text \<open>A signer on bytes: lengths are as announced and a signature verifies under the derived key.\<close>

locale signer =
  fixes C :: component
    and ready :: bool
  assumes signs: "ready \<Longrightarrow> length sk = cp_secret_len C \<Longrightarrow> cp_public C sk = Ok pk \<Longrightarrow> cp_sign C sk m = Ok sig \<Longrightarrow>
      length pk = cp_public_len C \<and> length sig = cp_sig_len C \<and> cp_verify C pk sig m = Ok ()"

definition hybrid_component :: "component \<Rightarrow> component \<Rightarrow> component" where
  "hybrid_component c p =
     \<lparr>cp_secret_len = cp_secret_len c + cp_secret_len p, cp_public_len = cp_public_len c + cp_public_len p,
      cp_sig_len = cp_sig_len c + cp_sig_len p, cp_public = hybrid_public_bytes c p,
      cp_sign = hybrid_sign_bytes c p, cp_verify = hybrid_verify_bytes c p\<rparr>"

text \<open>Two signers make a signer.\<close>

locale signer_pair =
  classical: signer C ready + pq: signer P ready for C P :: component and ready :: bool
begin

sublocale hybrid: signer "hybrid_component C P" ready
proof unfold_locales
  fix sk pk m sig
  assume ready: "ready" and len: "length sk = cp_secret_len (hybrid_component C P)"
    and pk: "cp_public (hybrid_component C P) sk = Ok pk" and sig: "cp_sign (hybrid_component C P) sk m = Ok sig"
  obtain pub1 pub2 where pub: "cp_public C (take (cp_secret_len C) sk) = Ok pub1"
      "cp_public P (drop (cp_secret_len C) sk) = Ok pub2" "pk = pub1 @ pub2"
    using pk by (auto simp: hybrid_component_def hybrid_public_bytes_def outcome_simps)
  obtain s1 s2 where s: "cp_sign C (take (cp_secret_len C) sk) m = Ok s1"
      "cp_sign P (drop (cp_secret_len C) sk) (m @ s1) = Ok s2" "sig = s1 @ s2"
    using sig by (auto simp: hybrid_component_def hybrid_sign_bytes_def outcome_simps)
  have "length (take (cp_secret_len C) sk) = cp_secret_len C" "length (drop (cp_secret_len C) sk) = cp_secret_len P"
    using len by (simp_all add: hybrid_component_def)
  note ok = classical.signs[OF ready this(1) pub(1) s(1)] pq.signs[OF ready this(2) pub(2) s(2)]
  then show "length pk = cp_public_len (hybrid_component C P) \<and> length sig = cp_sig_len (hybrid_component C P)
      \<and> cp_verify (hybrid_component C P) pk sig m = Ok ()"
    by (simp add: hybrid_component_def hybrid_verify_bytes_def pub(3) s(3) Let_def)
qed

end

section \<open>The components are signers\<close>

definition g1_ok :: "hybrid_lib \<Rightarrow> bool" where
  "g1_ok S \<longleftrightarrow>
     (\<forall>sk m sig. g1_secret S sk \<longrightarrow> length sk = 32 \<longrightarrow> g1_sign S sk m = Ok sig \<longrightarrow>
        length (g1_public S sk) = 96 \<and> length sig = 48 \<and> g1_key S (g1_public S sk) = Ok () \<and> g1_point S sig
        \<and> g1_verify S (g1_public S sk) sig m = Ok ())"

definition hybrid_lib_ok :: "hybrid_lib \<Rightarrow> bool" where
  "hybrid_lib_ok S \<longleftrightarrow> sign_lib_ok S \<and> g1_ok S"

lemma hybrid_lib_okD:
  assumes "hybrid_lib_ok S"
  shows "sign_lib_ok S" "g1_ok S" "ms_lib_ok S" "ed_ok S" "ml_ok S" "fn_ok S" "mayo_ok S"
  using assms by (simp_all add: hybrid_lib_ok_def sign_lib_ok_def)

lemma g1_okD:
  assumes "g1_ok S" "g1_secret S sk" "length sk = 32" "g1_sign S sk m = Ok sig"
  shows "length (g1_public S sk) = 96" "length sig = 48" "g1_key S (g1_public S sk) = Ok ()" "g1_point S sig"
    "g1_verify S (g1_public S sk) sig m = Ok ()"
  using assms unfolding g1_ok_def by blast+

interpretation ed25519_signer: signer "ed25519_component S" "hybrid_lib_ok S" for S
proof
  fix sk pk m sig
  assume ready: "hybrid_lib_ok S" and len: "length sk = cp_secret_len (ed25519_component S)"
    and pk: "cp_public (ed25519_component S) sk = Ok pk" and sig: "cp_sign (ed25519_component S) sk m = Ok sig"
  have facts: "length sk = 32" "pk = ed_public S sk" "ed_sign S sk m = Ok sig"
    using len pk sig by (simp_all add: ed25519_component_def outcome_simps)
  note ok = ed_okD[OF hybrid_lib_okD(4)[OF ready] facts(1,3)]
  show "length pk = cp_public_len (ed25519_component S) \<and> length sig = cp_sig_len (ed25519_component S) \<and> cp_verify (ed25519_component S) pk sig m = Ok ()"
    using ok facts len pk by (simp add: ed25519_component_def)
qed

interpretation bls_g1_signer: signer "bls_g1_component S" "hybrid_lib_ok S" for S
proof
  fix sk pk m sig
  assume ready: "hybrid_lib_ok S" and len: "length sk = cp_secret_len (bls_g1_component S)"
    and pk: "cp_public (bls_g1_component S) sk = Ok pk" and sig: "cp_sign (bls_g1_component S) sk m = Ok sig"
  have facts: "length sk = 32" "g1_secret S sk" "pk = g1_public S sk" "g1_sign S sk m = Ok sig"
    using len pk sig by (auto simp: bls_g1_component_def bls_g1_defs outcome_simps split: if_splits)
  note ok = g1_okD[OF hybrid_lib_okD(2)[OF ready] facts(2,1,4)]
  show "length pk = cp_public_len (bls_g1_component S) \<and> length sig = cp_sig_len (bls_g1_component S) \<and> cp_verify (bls_g1_component S) pk sig m = Ok ()"
    using ok facts len pk by (simp add: bls_g1_component_def bls_g1_defs)
qed

interpretation mldsa65_signer: signer "mldsa65_component S" "hybrid_lib_ok S" for S
proof
  fix sk pk m sig
  assume ready: "hybrid_lib_ok S" and len: "length sk = cp_secret_len (mldsa65_component S)"
    and pk: "cp_public (mldsa65_component S) sk = Ok pk" and sig: "cp_sign (mldsa65_component S) sk m = Ok sig"
  have facts: "length sk = 32" "pk = ml_public S Ml65 sk" "ml_sign S Ml65 sk m = Ok sig"
    using len pk sig by (simp_all add: mldsa65_component_def outcome_simps)
  note ok = ml_okD[OF hybrid_lib_okD(5)[OF ready] facts(1,3)]
  show "length pk = cp_public_len (mldsa65_component S) \<and> length sig = cp_sig_len (mldsa65_component S) \<and> cp_verify (mldsa65_component S) pk sig m = Ok ()"
    using ok facts len pk by (simp add: mldsa65_component_def ml_dsa_check_def)
qed

lemma fndsa512_facts:
  assumes "fn_ok S" "length sk = sign_key_size S Fn512" "cp_public (fndsa512_component S) sk = Ok pk"
    "cp_sign (fndsa512_component S) sk m = Ok sig"
  shows "fn_secret S sk = Some Fn512" "pk = fn_public S sk" "sig = fn_sign S sk m"
proof -
  obtain s where s: "fn_secret S sk = Some s" and eqs: "pk = fn_public S sk" "sig = fn_sign S sk m"
    using assms(3,4) by (auto simp: fndsa512_component_def outcome_simps)
  moreover have "s = Fn512"
    using assms(1,2) s unfolding fn_ok_def by blast
  ultimately show "fn_secret S sk = Some Fn512" "pk = fn_public S sk" "sig = fn_sign S sk m"
    by simp_all
qed

interpretation fndsa512_signer: signer "fndsa512_component S" "hybrid_lib_ok S" for S
proof
  fix sk pk m sig
  assume ready: "hybrid_lib_ok S" and len: "length sk = cp_secret_len (fndsa512_component S)"
    and pk: "cp_public (fndsa512_component S) sk = Ok pk" and sig: "cp_sign (fndsa512_component S) sk m = Ok sig"
  have "length sk = sign_key_size S Fn512"
    using len by (simp add: fndsa512_component_def)
  note facts = fndsa512_facts[OF hybrid_lib_okD(6)[OF ready] this pk sig]
  note ok = fn_okD[OF hybrid_lib_okD(6)[OF ready] facts(1)]
  show "length pk = cp_public_len (fndsa512_component S) \<and> length sig = cp_sig_len (fndsa512_component S)
      \<and> cp_verify (fndsa512_component S) pk sig m = Ok ()"
    using ok by (simp add: fndsa512_component_def facts(2,3))
qed

interpretation mayo1_signer: signer "mayo_component S Mayo_1 ''MAYO-1'' 1420 454" "hybrid_lib_ok S" for S
proof
  fix sk pk m sig
  assume ready: "hybrid_lib_ok S" and len: "length sk = cp_secret_len (mayo_component S Mayo_1 ''MAYO-1'' 1420 454)"
    and pk: "cp_public (mayo_component S Mayo_1 ''MAYO-1'' 1420 454) sk = Ok pk" and sig: "cp_sign (mayo_component S Mayo_1 ''MAYO-1'' 1420 454) sk m = Ok sig"
  have facts: "mayo_public S Mayo_1 sk = Ok pk" "mayo_sign S Mayo_1 sk m = Ok sig"
    using len pk sig by (simp_all add: mayo_component_def mayo_key_pair_def outcome_simps)
  note ok = mayo_okD[OF hybrid_lib_okD(7)[OF ready] facts]
  show "length pk = cp_public_len (mayo_component S Mayo_1 ''MAYO-1'' 1420 454) \<and> length sig = cp_sig_len (mayo_component S Mayo_1 ''MAYO-1'' 1420 454) \<and> cp_verify (mayo_component S Mayo_1 ''MAYO-1'' 1420 454) pk sig m = Ok ()"
    using ok facts len pk by (simp add: mayo_component_def mayo_check_def)
qed

interpretation mayo2_signer: signer "mayo_component S Mayo_2 ''MAYO-2'' 4368 216" "hybrid_lib_ok S" for S
proof
  fix sk pk m sig
  assume ready: "hybrid_lib_ok S" and len: "length sk = cp_secret_len (mayo_component S Mayo_2 ''MAYO-2'' 4368 216)"
    and pk: "cp_public (mayo_component S Mayo_2 ''MAYO-2'' 4368 216) sk = Ok pk" and sig: "cp_sign (mayo_component S Mayo_2 ''MAYO-2'' 4368 216) sk m = Ok sig"
  have facts: "mayo_public S Mayo_2 sk = Ok pk" "mayo_sign S Mayo_2 sk m = Ok sig"
    using len pk sig by (simp_all add: mayo_component_def mayo_key_pair_def outcome_simps)
  note ok = mayo_okD[OF hybrid_lib_okD(7)[OF ready] facts]
  show "length pk = cp_public_len (mayo_component S Mayo_2 ''MAYO-2'' 4368 216) \<and> length sig = cp_sig_len (mayo_component S Mayo_2 ''MAYO-2'' 4368 216) \<and> cp_verify (mayo_component S Mayo_2 ''MAYO-2'' 4368 216) pk sig m = Ok ()"
    using ok facts len pk by (simp add: mayo_component_def mayo_check_def)
qed

interpretation ed25519_mldsa65_pair: signer_pair "ed25519_component S" "mldsa65_component S" "hybrid_lib_ok S" for S
  ..

interpretation ed25519_fndsa512_pair: signer_pair "ed25519_component S" "fndsa512_component S" "hybrid_lib_ok S" for S
  ..

interpretation ed25519_mayo2_pair: signer_pair "ed25519_component S" "mayo_component S Mayo_2 ''MAYO-2'' 4368 216" "hybrid_lib_ok S" for S
  ..

interpretation bls12381_g1_mldsa65_pair: signer_pair "bls_g1_component S" "mldsa65_component S" "hybrid_lib_ok S" for S
  ..

interpretation bls12381_g1_fndsa512_pair: signer_pair "bls_g1_component S" "fndsa512_component S" "hybrid_lib_ok S" for S
  ..

interpretation bls12381_g1_mayo1_pair: signer_pair "bls_g1_component S" "mayo_component S Mayo_1 ''MAYO-1'' 1420 454" "hybrid_lib_ok S" for S
  ..

interpretation bls12381_g1_mayo2_pair: signer_pair "bls_g1_component S" "mayo_component S Mayo_2 ''MAYO-2'' 4368 216" "hybrid_lib_ok S" for S
  ..

section \<open>The hybrids are signing views\<close>

text \<open>A hybrid whose pair is a signer keeps the contract of the signing views.\<close>

lemma hybrid_converted:
  assumes "public_pair (mk_codec k) (hy_pub h)" "hybrid_to_public_key F W h k = Ok pk"
  obtains secret pub where "dispatched_secret F W k = Ok secret"
    "length secret = cp_secret_len (hy_classical h) + cp_secret_len (hy_pq h)"
    "hybrid_public_bytes (hy_classical h) (hy_pq h) secret = Ok pub"
    "public_form F W (hybrid_to_public_key F W h) k = Ok pk" "public_form F W (hybrid_to_public_key F W h) pk = Ok pk"
    "dispatched_bytes F W pk = Ok pub"
proof -
  obtain secret pub where secret: "dispatched_secret F W k = Ok secret"
    and facts: "length secret = cp_secret_len (hy_classical h) + cp_secret_len (hy_pq h)"
      "hybrid_public_bytes (hy_classical h) (hy_pq h) secret = Ok pub"
    and pk: "pk = public_multikey (hy_pub h) k pub"
    using assms(2) by (auto simp: hybrid_to_public_key_def outcome_simps split: if_splits)
  show ?thesis
    by (rule that[OF secret facts converted_views[where conv = "hybrid_to_public_key F W h", OF assms(2) secret pk assms(1)]])
qed

lemma hybrid_signature_view:
  assumes signer: "signer (hybrid_component (hy_classical h) (hy_pq h)) ready"
    and lib: "ready \<Longrightarrow> ms_lib_ok S"
    and pair: "\<And>k secret. owns k \<Longrightarrow> dispatched_secret F W k = Ok secret \<Longrightarrow> public_pair (mk_codec k) (hy_pub h)"
  shows "signature_view (\<lambda>_ _. ready) owns (hybrid_to_public_key F W h) (hybrid_sign F W S h) (hybrid_verify F W S h)"
proof -
  have own: "public_pair (mk_codec k) (hy_pub h)" if "owns k" "hybrid_to_public_key F W h k = Ok pk" for k pk
    using that pair by (auto simp: hybrid_to_public_key_def outcome_simps)
  show ?thesis
  proof
    fix k m combined ms
    assume "ready" "hybrid_sign F W S h k m combined = Ok ms"
    then show "ms_message ms = (if combined then m else [])"
      unfolding hybrid_sign_def by (intro sign_with_message[OF lib])
  next
    fix k pk m combined ms
    assume ready: "ready" and k: "owns k" and conv: "hybrid_to_public_key F W h k = Ok pk"
      and sign: "hybrid_sign F W S h k m combined = Ok ms"
    from own[OF k conv] conv obtain secret pub where secret: "dispatched_secret F W k = Ok secret"
      and facts: "length secret = cp_secret_len (hy_classical h) + cp_secret_len (hy_pq h)"
        "hybrid_public_bytes (hy_classical h) (hy_pq h) secret = Ok pub"
      and pk: "public_form F W (hybrid_to_public_key F W h) pk = Ok pk" "dispatched_bytes F W pk = Ok pub"
      by (rule hybrid_converted)
    obtain sig where sig: "hybrid_sign_bytes (hy_classical h) (hy_pq h) secret m = Ok sig"
      and ms: "built_multisig S (hy_msig h) sig combined m = Ok ms"
      using sign secret facts by (auto simp: hybrid_sign_def outcome_simps elim!: sign_withD split: if_splits)
    show "hybrid_verify F W S h pk ms (Some m) = Ok ()"
      using signer.signs[OF signer ready, of secret pub m sig] facts sig built_multisigD(3)[OF lib[OF ready] ms]
      by (simp add: hybrid_component_def hybrid_verify_def pk)
  next
    fix k pk ms msg
    assume k: "owns k" and conv: "hybrid_to_public_key F W h k = Ok pk"
    from own[OF k conv] conv have "public_form F W (hybrid_to_public_key F W h) k = public_form F W (hybrid_to_public_key F W h) pk"
      by (rule hybrid_converted) simp
    then show "hybrid_verify F W S h k ms msg = hybrid_verify F W S h pk ms msg"
      by (simp add: hybrid_verify_def)
  qed (simp_all add: hybrid_verify_def select_message_embedded select_message_detached)
qed

interpretation ed25519_mldsa65: signature_view "\<lambda>_ _. hybrid_lib_ok S" "\<lambda>k. dispatch_sign_view F k = Ok VEd25519Mldsa65"
  "ed25519_mldsa65_to_public_key F W S" "ed25519_mldsa65_sign F W S" "ed25519_mldsa65_verify F W S" for F W S
  unfolding ed25519_mldsa65_to_public_key_def ed25519_mldsa65_sign_def ed25519_mldsa65_verify_def
  by (rule hybrid_signature_view)
    (auto simp: ed25519_mldsa65_def public_pair_def ed25519_mldsa65_pair.hybrid.signer_axioms hybrid_lib_okD dest!: owned_private)

interpretation ed25519_fndsa512: signature_view "\<lambda>_ _. hybrid_lib_ok S" "\<lambda>k. dispatch_sign_view F k = Ok VEd25519Fndsa512"
  "ed25519_fndsa512_to_public_key F W S" "ed25519_fndsa512_sign F W S" "ed25519_fndsa512_verify F W S" for F W S
  unfolding ed25519_fndsa512_to_public_key_def ed25519_fndsa512_sign_def ed25519_fndsa512_verify_def
  by (rule hybrid_signature_view)
    (auto simp: ed25519_fndsa512_def public_pair_def ed25519_fndsa512_pair.hybrid.signer_axioms hybrid_lib_okD dest!: owned_private)

interpretation ed25519_mayo2: signature_view "\<lambda>_ _. hybrid_lib_ok S" "\<lambda>k. dispatch_sign_view F k = Ok VEd25519Mayo2"
  "ed25519_mayo2_to_public_key F W S" "ed25519_mayo2_sign F W S" "ed25519_mayo2_verify F W S" for F W S
  unfolding ed25519_mayo2_to_public_key_def ed25519_mayo2_sign_def ed25519_mayo2_verify_def
  by (rule hybrid_signature_view)
    (auto simp: ed25519_mayo2_def public_pair_def ed25519_mayo2_pair.hybrid.signer_axioms hybrid_lib_okD dest!: owned_private)

interpretation bls12381_g1_mldsa65: signature_view "\<lambda>_ _. hybrid_lib_ok S" "\<lambda>k. dispatch_sign_view F k = Ok VBlsG1Mldsa65"
  "bls12381_g1_mldsa65_to_public_key F W S" "bls12381_g1_mldsa65_sign F W S" "bls12381_g1_mldsa65_verify F W S" for F W S
  unfolding bls12381_g1_mldsa65_to_public_key_def bls12381_g1_mldsa65_sign_def bls12381_g1_mldsa65_verify_def
  by (rule hybrid_signature_view)
    (auto simp: bls12381_g1_mldsa65_def public_pair_def bls12381_g1_mldsa65_pair.hybrid.signer_axioms hybrid_lib_okD dest!: owned_private)

interpretation bls12381_g1_fndsa512: signature_view "\<lambda>_ _. hybrid_lib_ok S" "\<lambda>k. dispatch_sign_view F k = Ok VBlsG1Fndsa512"
  "bls12381_g1_fndsa512_to_public_key F W S" "bls12381_g1_fndsa512_sign F W S" "bls12381_g1_fndsa512_verify F W S" for F W S
  unfolding bls12381_g1_fndsa512_to_public_key_def bls12381_g1_fndsa512_sign_def bls12381_g1_fndsa512_verify_def
  by (rule hybrid_signature_view)
    (auto simp: bls12381_g1_fndsa512_def public_pair_def bls12381_g1_fndsa512_pair.hybrid.signer_axioms hybrid_lib_okD dest!: owned_private)

interpretation bls12381_g1_mayo1: signature_view "\<lambda>_ _. hybrid_lib_ok S" "\<lambda>k. dispatch_sign_view F k = Ok VBlsG1Mayo1"
  "bls12381_g1_mayo1_to_public_key F W S" "bls12381_g1_mayo1_sign F W S" "bls12381_g1_mayo1_verify F W S" for F W S
  unfolding bls12381_g1_mayo1_to_public_key_def bls12381_g1_mayo1_sign_def bls12381_g1_mayo1_verify_def
  by (rule hybrid_signature_view)
    (auto simp: bls12381_g1_mayo1_def public_pair_def bls12381_g1_mayo1_pair.hybrid.signer_axioms hybrid_lib_okD dest!: owned_private)

interpretation bls12381_g1_mayo2: signature_view "\<lambda>_ _. hybrid_lib_ok S" "\<lambda>k. dispatch_sign_view F k = Ok VBlsG1Mayo2"
  "bls12381_g1_mayo2_to_public_key F W S" "bls12381_g1_mayo2_sign F W S" "bls12381_g1_mayo2_verify F W S" for F W S
  unfolding bls12381_g1_mayo2_to_public_key_def bls12381_g1_mayo2_sign_def bls12381_g1_mayo2_verify_def
  by (rule hybrid_signature_view)
    (auto simp: bls12381_g1_mayo2_def public_pair_def bls12381_g1_mayo2_pair.hybrid.signer_axioms hybrid_lib_okD dest!: owned_private)

section \<open>A concrete library\<close>

text \<open>A signature is the message, cut or padded to the length that the algorithm has.\<close>

definition toy_tag :: "nat \<Rightarrow> bytes \<Rightarrow> bytes" where
  "toy_tag n m = take n (m @ replicate n 0)"

definition toy_check :: "nat \<Rightarrow> bytes \<Rightarrow> bytes \<Rightarrow> (string, unit) outcome" where
  "toy_check n sig m = (if sig = toy_tag n m then Ok () else Err ''bad'')"

lemma toy_tag_length [simp]: "length (toy_tag n m) = n"
  by (simp add: toy_tag_def)

lemma toy_check_tag [simp]: "toy_check n (toy_tag n m) m = Ok ()"
  by (simp add: toy_check_def)

definition toy_fn_set :: "bytes \<Rightarrow> fn_set option" where
  "toy_fn_set sk = (if length sk = 2 then Some Fn512 else if length sk = 3 then Some Fn1024 else None)"

definition toy_hybrid :: hybrid_lib where
  "toy_hybrid =
     \<lparr>ms_try_build = toy_ms_build, ms_view = \<lambda>ms. Ok (), ms_sig_bytes = toy_ms_bytes,
      ed_public = take 32, ed_sign = \<lambda>sk m. Ok (toy_tag 64 m), ed_key = \<lambda>_. Ok (), ed_sig = \<lambda>_. Ok (),
      ed_verify = \<lambda>pk. toy_check 64,
      ec_secret = \<lambda>c sk. Ok (), ec_public = \<lambda>c sk. replicate 33 2, ec_sign = \<lambda>c sk m. Ok (toy_tag 64 m),
      ec_key = \<lambda>c pk. Ok (), ec_sig = \<lambda>c sig. Ok (), ec_verify = \<lambda>c pk. toy_check 64,
      rsa_private = \<lambda>sk. Ok (), rsa_public_der = \<lambda>sk. Ok [1], rsa_sign = \<lambda>sk m. Ok (toy_tag 256 m), rsa_key = \<lambda>pk. Ok (),
      rsa_sig = \<lambda>sig. Ok (), rsa_verify = \<lambda>pk. toy_check 256,
      ml_public = \<lambda>s sk. replicate (ml_dsa_public_key_length s) 3, ml_sign = \<lambda>s sk m. Ok (toy_tag (ml_dsa_signature_length s) m),
      ml_key = \<lambda>s pk. True, ml_sig = \<lambda>s sig. True, ml_sig_decodes = \<lambda>s sig. True,
      ml_verify = \<lambda>s pk. toy_check (ml_dsa_signature_length s),
      slh_public = \<lambda>s sk. Some [4], slh_sign = \<lambda>s sk m. Ok (toy_tag 9 m), slh_key = \<lambda>s pk. True, slh_sig = \<lambda>s sig. True,
      slh_verify = \<lambda>s pk. toy_check 9,
      fn_secret = toy_fn_set, fn_public = \<lambda>sk. sk, fn_sign = \<lambda>sk m. toy_tag (length sk) m, fn_key = \<lambda>pk. True,
      fn_verify = \<lambda>pk sig m. sig = toy_tag (length pk) m,
      sign_key_size = \<lambda>s. (case s of Fn512 \<Rightarrow> 2 | Fn1024 \<Rightarrow> 3), vrfy_key_size = \<lambda>s. (case s of Fn512 \<Rightarrow> 2 | Fn1024 \<Rightarrow> 3),
      signature_size = \<lambda>s. (case s of Fn512 \<Rightarrow> 2 | Fn1024 \<Rightarrow> 3),
      mayo_public = \<lambda>s sk. Ok (replicate (mayo_public_key_length s) 5), mayo_sign = \<lambda>s sk m. Ok (toy_tag (mayo_signature_length s) m),
      mayo_key = \<lambda>s pk. True, mayo_sig = \<lambda>s sig. True, mayo_verify = \<lambda>s pk. toy_check (mayo_signature_length s),
      g1_secret = \<lambda>sk. True, g1_public = \<lambda>sk. replicate 96 6, g1_sign = \<lambda>sk m. Ok (toy_tag 48 m), g1_key = \<lambda>pk. Ok (),
      g1_point = \<lambda>sig. True, g1_verify = \<lambda>pk. toy_check 48\<rparr>"

lemma toy_hybrid_ok: "hybrid_lib_ok toy_hybrid"
proof -
  have "ms_lib_ok toy_hybrid"
    by (simp add: ms_lib_ok_def toy_hybrid_def toy_ms_build_def toy_ms_bytes_def)
  moreover have "ed_ok toy_hybrid" "ec_ok toy_hybrid" "rsa_ok toy_hybrid" "g1_ok toy_hybrid"
    by (auto simp: ed_ok_def ec_ok_def rsa_ok_def g1_ok_def toy_hybrid_def)
  moreover have "ml_ok toy_hybrid" "slh_ok toy_hybrid" "mayo_ok toy_hybrid"
    by (auto simp: ml_ok_def slh_ok_def mayo_ok_def toy_hybrid_def)
  moreover have "fn_ok toy_hybrid"
    by (auto simp: fn_ok_def toy_hybrid_def toy_fn_set_def split: if_splits)
  ultimately show ?thesis
    by (simp add: hybrid_lib_ok_def sign_lib_ok_def)
qed

end
