(* ===== verification/Mk_Ecies.thy ===== *)
theory Mk_Ecies
  imports Mk_Kem Mk_Hybrid
begin

text \<open>
  Sealing with signing keys: ECIES with secp256k1 and the NIST curves (\<^verbatim>\<open>src/views/secp256k1.rs\<close>,
  \<^verbatim>\<open>nist_p.rs\<close>) and RSA-OAEP with an AEAD (\<^verbatim>\<open>rsa.rs\<close>). An ECIES message travels with an ephemeral
  public key as a multikey; an RSA message carries the encrypted AEAD key.
\<close>

section \<open>The external functions\<close>

record ecies_lib =
  ec_recipient :: "ecdsa \<Rightarrow> bytes \<Rightarrow> (string, unit) outcome"    \<comment> \<open>\<^verbatim>\<open>PublicKey::from_sec1_bytes\<close>\<close>
  ec_scalar :: "ecdsa \<Rightarrow> bytes \<Rightarrow> (string, unit) outcome"       \<comment> \<open>\<^verbatim>\<open>SecretKey::from_slice\<close>\<close>
  ec_ephemeral :: "ecdsa \<Rightarrow> bytes \<Rightarrow> bytes"                     \<comment> \<open>compressed point of an ephemeral secret\<close>
  ec_dh :: "ecdsa \<Rightarrow> bytes \<Rightarrow> bytes \<Rightarrow> bytes"                    \<comment> \<open>secret, public point\<close>
  rsa_fill :: "nat \<Rightarrow> (string, bytes) outcome"                  \<comment> \<open>\<^verbatim>\<open>OsRng::try_fill_bytes\<close>\<close>
  rsa_entropy :: "(string, unit) outcome"                      \<comment> \<open>\<^verbatim>\<open>getrandom\<close> on one byte\<close>
  rsa_oaep_key :: "bytes \<Rightarrow> (string, unit) outcome"             \<comment> \<open>\<^verbatim>\<open>RsaPublicKey::from_pkcs1_der\<close>\<close>
  rsa_oaep_encrypt :: "bytes \<Rightarrow> bytes \<Rightarrow> (string, bytes) outcome"
  rsa_oaep_secret :: "bytes \<Rightarrow> (string, unit) outcome"          \<comment> \<open>\<^verbatim>\<open>RsaPrivateKey::from_pkcs1_der\<close>\<close>
  rsa_oaep_decrypt :: "bytes \<Rightarrow> bytes \<Rightarrow> (string, bytes) outcome"

text \<open>
  Documented behaviour: both sides of an exchange compute the same secret, also from a key that the
  signing library \<open>S\<close> made, and OAEP decrypts what it encrypted.
\<close>

definition ecies_lib_ok :: "'a sign_lib_scheme \<Rightarrow> ecies_lib \<Rightarrow> bool" where
  "ecies_lib_ok S E \<longleftrightarrow>
     (\<forall>c sk eph. ec_secret S c sk = Ok () \<longrightarrow>
        ec_scalar E c sk = Ok () \<and> ec_recipient E c (ec_ephemeral E c eph) = Ok ()
        \<and> ec_dh E c eph (ec_public S c sk) = ec_dh E c sk (ec_ephemeral E c eph))
   \<and> (\<forall>sk der key ct. rsa_private S sk = Ok () \<longrightarrow> rsa_public_der S sk = Ok der \<longrightarrow> rsa_oaep_encrypt E der key = Ok ct \<longrightarrow>
        rsa_oaep_secret E sk = Ok () \<and> rsa_oaep_decrypt E sk ct = Ok key)"

section \<open>secp256k1\<close>

definition is_secp_aead_allowed :: "codec \<Rightarrow> bool" where
  "is_secp_aead_allowed c \<longleftrightarrow> c = AesGcm128 \<or> c = AesGcm256 \<or> c = Chacha20Poly1305 \<or> c = Xchacha20Poly1305"

definition secp256k1_seal ::
  "wire \<Rightarrow> aead_lib \<Rightarrow> ecies_lib \<Rightarrow> (nat \<Rightarrow> bytes) \<Rightarrow> bytes \<Rightarrow> multikey \<Rightarrow> bytes \<Rightarrow> codec \<Rightarrow> bytes \<Rightarrow>
   (bytes \<times> multikey option) res" where
  "secp256k1_seal W L E rng eph k pt c aad =
     (if mk_codec k \<noteq> Secp256K1 Pub then Err (Seal SeNotEncapsulationKey)
      else if \<not> is_secp_aead_allowed c then Err (Seal (SeUnsupportedAeadCodec c))
      else
      and_then (key_data k) (\<lambda>pub.
      and_then (map_err (\<lambda>e. Seal (SeEncapsulationFailed e)) (ec_recipient E Ec_K256 pub)) (\<lambda>_.
      and_then (seal_with_secret L rng (ascii ''secp256k1-ecies-seal'') c (ec_dh E Ec_K256 eph pub) pt aad) (\<lambda>(nonce, ct).
      Ok (encode_sealed W c nonce ct,
          Some (built_key (with_key_bytes (builder_new (Secp256K1 Pub)) (ec_ephemeral E Ec_K256 eph))))))))"

definition secp256k1_open ::
  "features \<Rightarrow> wire \<Rightarrow> aead_lib \<Rightarrow> ecies_lib \<Rightarrow> multikey \<Rightarrow> bytes \<Rightarrow> multikey option \<Rightarrow> bytes \<Rightarrow> bytes res" where
  "secp256k1_open F W L E k sealed ephemeral aad =
     (if mk_codec k \<noteq> Secp256K1 Priv then Err (Seal SeNotDecapsulationKey)
      else
      and_then (ok_or (Seal (SeInvalidFormat ''secp256k1 open requires an ephemeral public key'')) ephemeral) (\<lambda>ek.
      and_then (map_err Seal (decode_sealed W sealed)) (\<lambda>(c, nonce, ct).
      if \<not> is_secp_aead_allowed c then Err (Seal (SeUnsupportedAeadCodec c))
      else
      and_then (dispatched_bytes F W ek) (\<lambda>epub.
      and_then (dispatched_secret F W k) (\<lambda>secret.
      and_then (prefix_of SECRET_KEY_LENGTH secret) (\<lambda>sk.
      and_then (map_err (\<lambda>e. Seal (SeDecapsulationFailed e)) (ec_scalar E Ec_K256 sk)) (\<lambda>_.
      and_then (map_err (\<lambda>_. Seal (SeInvalidFormat ''invalid ephemeral public key'')) (ec_recipient E Ec_K256 epub)) (\<lambda>_.
      open_with_secret L (ascii ''secp256k1-ecies-seal'') c (ec_dh E Ec_K256 sk epub) nonce ct aad))))))))"

section \<open>NIST P-256, P-384 and P-521\<close>

definition is_nistp_aead_allowed :: "codec \<Rightarrow> bool" where
  "is_nistp_aead_allowed c \<longleftrightarrow> c = AesGcm128 \<or> c = AesGcm256 \<or> c = Chacha20Poly1305 \<or> c = Xchacha20Poly1305"

definition NISTP_SEAL_INFO :: bytes where "NISTP_SEAL_INFO = ascii ''nistp-ecies-seal''"

definition seal_from_shared ::
  "wire \<Rightarrow> aead_lib \<Rightarrow> (nat \<Rightarrow> bytes) \<Rightarrow> codec \<Rightarrow> bytes \<Rightarrow> bytes \<Rightarrow> bytes \<Rightarrow> bytes res" where
  "seal_from_shared W L rng c shared pt aad =
     and_then (seal_with_secret L rng NISTP_SEAL_INFO c shared pt aad) (\<lambda>(nonce, ct). Ok (encode_sealed W c nonce ct))"

definition open_from_shared :: "aead_lib \<Rightarrow> codec \<Rightarrow> bytes \<Rightarrow> bytes \<Rightarrow> bytes \<Rightarrow> bytes \<Rightarrow> bytes res" where
  "open_from_shared L c shared nonce ct aad = open_with_secret L NISTP_SEAL_INFO c shared nonce ct aad"

definition nist_seal ::
  "features \<Rightarrow> wire \<Rightarrow> aead_lib \<Rightarrow> ecies_lib \<Rightarrow> (nat \<Rightarrow> bytes) \<Rightarrow> bytes \<Rightarrow> multikey \<Rightarrow> bytes \<Rightarrow> codec \<Rightarrow> bytes \<Rightarrow>
   (bytes \<times> multikey option) res" where
  "nist_seal F W L E rng eph k pt c aad =
     (if \<not> nist_p_pub (mk_codec k) then Err (Seal SeNotEncapsulationKey)
      else if \<not> is_nistp_aead_allowed c then Err (Seal (SeUnsupportedAeadCodec c))
      else
      and_then (key_data k) (\<lambda>pub.
      case nist_curve F Pub (mk_codec k) of
        None \<Rightarrow> Err (Seal SeNotEncapsulationKey)
      | Some (curve, _) \<Rightarrow>
          and_then (map_err (\<lambda>e. Seal (SeEncapsulationFailed e)) (ec_recipient E curve pub)) (\<lambda>_.
          and_then (seal_from_shared W L rng c (ec_dh E curve eph pub) pt aad) (\<lambda>sealed.
          Ok (sealed, Some (built_key (with_key_bytes (builder_new (nist_pub_codec (mk_codec k)))
                (ec_ephemeral E curve eph))))))))"

definition nist_open ::
  "features \<Rightarrow> wire \<Rightarrow> aead_lib \<Rightarrow> ecies_lib \<Rightarrow> multikey \<Rightarrow> bytes \<Rightarrow> multikey option \<Rightarrow> bytes \<Rightarrow> bytes res" where
  "nist_open F W L E k sealed ephemeral aad =
     (if \<not> nist_p_priv (mk_codec k) then Err (Seal SeNotDecapsulationKey)
      else
      and_then (ok_or (Seal (SeInvalidFormat ''NIST-P open requires an ephemeral public key'')) ephemeral) (\<lambda>ek.
      and_then (map_err Seal (decode_sealed W sealed)) (\<lambda>(c, nonce, ct).
      if \<not> is_nistp_aead_allowed c then Err (Seal (SeUnsupportedAeadCodec c))
      else
      and_then (dispatched_bytes F W ek) (\<lambda>epub.
      and_then (dispatched_secret F W k) (\<lambda>secret.
      case nist_curve F Priv (mk_codec k) of
        None \<Rightarrow> Err (Seal SeNotDecapsulationKey)
      | Some (curve, len) \<Rightarrow>
          and_then (prefix_of len secret) (\<lambda>sk.
          and_then (map_err (\<lambda>e. Seal (SeDecapsulationFailed e)) (ec_scalar E curve sk)) (\<lambda>_.
          and_then (map_err (\<lambda>_. Seal (SeInvalidFormat ''invalid ephemeral public key'')) (ec_recipient E curve epub)) (\<lambda>_.
          open_from_shared L c (ec_dh E curve sk epub) nonce ct aad))))))))"

section \<open>RSA\<close>

definition is_rsa_aead_allowed :: "codec \<Rightarrow> bool" where
  "is_rsa_aead_allowed c \<longleftrightarrow> c = AesGcm128 \<or> c = AesGcm256 \<or> c = Chacha20Poly1305 \<or> c = Xchacha20Poly1305"

definition rsa_decode_sealed :: "wire \<Rightarrow> bytes \<Rightarrow> (bytes \<times> codec \<times> bytes \<times> bytes) seal_res" where
  "rsa_decode_sealed W data =
     and_then (invalid_format ''missing RSA-OAEP ciphertext'' (get_varbytes W data)) (\<lambda>(rsa_ct, p).
     and_then (invalid_format ''missing AEAD codec'' (get_codec W p)) (\<lambda>(c, p).
     and_then (invalid_format ''missing nonce'' (get_varbytes W p)) (\<lambda>(nonce, p).
     and_then (invalid_format ''missing ciphertext'' (get_varbytes W p)) (\<lambda>(ct_tag, _).
     Ok (rsa_ct, c, nonce, ct_tag)))))"

text \<open>\<^verbatim>\<open>RngError\<close> prefixes the text of the failure.\<close>

definition rng_failure :: "string \<Rightarrow> error" where
  "rng_failure e = Seal (SeRngFailure (''getrandom: '' @ e))"

definition rsa_seal ::
  "wire \<Rightarrow> aead_lib \<Rightarrow> ecies_lib \<Rightarrow> (nat \<Rightarrow> bytes) \<Rightarrow> multikey \<Rightarrow> bytes \<Rightarrow> codec \<Rightarrow> bytes \<Rightarrow>
   (bytes \<times> multikey option) res" where
  "rsa_seal W L E rng k pt c aad =
     (if \<not> is_rsa_pub (mk_codec k) then Err (Seal SeNotEncapsulationKey)
      else if \<not> is_rsa_aead_allowed c then Err (Seal (SeUnsupportedAeadCodec c))
      else
      and_then (key_data k) (\<lambda>pub.
      and_then (map_err (\<lambda>e. Seal (SeEncapsulationFailed e)) (rsa_oaep_key E pub)) (\<lambda>_.
      and_then (map_err Seal (key_size c)) (\<lambda>key_len.
      and_then (map_err rng_failure (rsa_fill E key_len)) (\<lambda>key.
      and_then (map_err rng_failure (rsa_entropy E)) (\<lambda>_.
      and_then (map_err (\<lambda>e. Seal (SeEncapsulationFailed e)) (rsa_oaep_encrypt E pub key)) (\<lambda>rsa_ct.
      and_then (map_err Seal (aead_seal L rng c key pt aad)) (\<lambda>(nonce, ct).
      Ok (encode_kem_sealed W rsa_ct c nonce ct, None)))))))))"

definition rsa_open ::
  "features \<Rightarrow> wire \<Rightarrow> aead_lib \<Rightarrow> ecies_lib \<Rightarrow> multikey \<Rightarrow> bytes \<Rightarrow> multikey option \<Rightarrow> bytes \<Rightarrow> bytes res" where
  "rsa_open F W L E k sealed ephemeral aad =
     (if \<not> is_rsa_priv (mk_codec k) then Err (Seal SeNotDecapsulationKey)
      else
      and_then (map_err Seal (rsa_decode_sealed W sealed)) (\<lambda>(rsa_ct, c, nonce, ct).
      if \<not> is_rsa_aead_allowed c then Err (Seal (SeUnsupportedAeadCodec c))
      else
      and_then (dispatched_secret F W k) (\<lambda>secret.
      and_then (map_err (\<lambda>e. Seal (SeDecapsulationFailed e)) (rsa_oaep_secret E secret)) (\<lambda>_.
      and_then (map_err (\<lambda>e. Seal (SeDecapsulationFailed e)) (rsa_oaep_decrypt E secret rsa_ct)) (\<lambda>key.
      map_err Seal (aead_open L c key nonce ct aad))))))"

section \<open>Round trips\<close>

lemma ephemeral_multikey [simp]:
  "mk_codec (built_key (with_key_bytes (builder_new c) pub)) = c"
  "key_data (built_key (with_key_bytes (builder_new c) pub)) = Ok pub"
  by (simp_all add: built_key_defs key_data_def get_attr_def)

lemma decode_sealed_message:
  assumes "wire_ok W" "fits (encode_sealed W c nonce ct)"
  shows "decode_sealed W (encode_sealed W c nonce ct) = Ok (c, nonce, ct)"
proof -
  have "fits nonce" "fits ct"
    using assms(2) unfolding encode_sealed_fields by (auto simp: encode_varbytes_into_def)
  then show ?thesis
    using decode_encode_sealed[OF assms(1), of nonce ct c "[]"] by simp
qed

lemma ecies_agree:
  assumes "ecies_lib_ok S E" "ec_secret S c sk = Ok ()"
  shows "ec_scalar E c sk = Ok ()" "ec_recipient E c (ec_ephemeral E c eph) = Ok ()"
    "ec_dh E c eph (ec_public S c sk) = ec_dh E c sk (ec_ephemeral E c eph)"
  using assms unfolding ecies_lib_ok_def by blast+

text \<open>The ephemeral key of a message has the public codec, so the module of the private key reads it.\<close>

lemma ephemeral_bytes:
  assumes "dispatched_secret F W k = Ok secret" "public_pair (mk_codec k) c"
  shows "dispatched_bytes F W (built_key (with_key_bytes (builder_new c) epub)) = Ok epub"
  using public_pair_views(3)[OF assms(1), where pk = "built_key (with_key_bytes (builder_new c) epub)"] assms(2) by simp

lemma secp256k1_open_seal:
  assumes ok: "ecies_lib_ok S E" "aead_lib_ok L" "wire_ok W" and k: "mk_codec k = Secp256K1 Priv"
    and pk: "secp256k1_to_public_key F W S k = Ok pk"
    and sealed: "secp256k1_seal W L E rng eph pk pt c aad = Ok (msg, e)" and size: "fits msg"
  shows "secp256k1_open F W L E k msg e aad = Ok pt"
proof -
  obtain secret where secret: "dispatched_secret F W k = Ok secret" "SECRET_KEY_LENGTH \<le> length secret"
    "ec_secret S Ec_K256 (take SECRET_KEY_LENGTH secret) = Ok ()"
    and pk': "pk = public_multikey (Secp256K1 Pub) k (ec_public S Ec_K256 (take SECRET_KEY_LENGTH secret))"
    using pk by (auto simp: secp256k1_to_public_key_def outcome_simps)
  obtain nonce ct where c: "is_secp_aead_allowed c" and seal: "seal_with_secret L rng (ascii ''secp256k1-ecies-seal'') c
      (ec_dh E Ec_K256 eph (ec_public S Ec_K256 (take SECRET_KEY_LENGTH secret))) pt aad = Ok (nonce, ct)"
    and msg: "msg = encode_sealed W c nonce ct"
    and e: "e = Some (built_key (with_key_bytes (builder_new (Secp256K1 Pub)) (ec_ephemeral E Ec_K256 eph)))"
    using sealed unfolding pk' secp256k1_seal_def by (auto simp: outcome_simps split: if_splits)
  have "public_pair (mk_codec k) (Secp256K1 Pub)"
    by (simp add: k public_pair_def)
  note epub = ephemeral_bytes[OF secret(1) this]
  have "decode_sealed W msg = Ok (c, nonce, ct)"
    using decode_sealed_message[OF ok(3)] size by (simp add: msg)
  then show ?thesis
    using k c secret epub ecies_agree(1)[OF ok(1) secret(3)] ecies_agree(2,3)[OF ok(1) secret(3), of eph] open_with_seal_secret[OF ok(2) seal]
    by (simp add: secp256k1_open_def prefix_of_def e)
qed

lemma nist_public_pair:
  "nist_curve F Priv c = Some x \<Longrightarrow> public_pair c (nist_pub_codec c) \<and> nist_p_priv c \<and> nist_curve F Pub (nist_pub_codec c) = Some x"
  by (cases c) (auto simp: nist_curve_def public_pair_def nist_p_priv_def split: if_splits)

lemma nist_open_seal:
  assumes ok: "ecies_lib_ok S E" "aead_lib_ok L" "wire_ok W" and pk: "nist_to_public_key F W S k = Ok pk"
    and sealed: "nist_seal F W L E rng eph pk pt c aad = Ok (msg, e)" and size: "fits msg"
  shows "nist_open F W L E k msg e aad = Ok pt"
proof -
  obtain secret curve len where secret: "dispatched_secret F W k = Ok secret" "len \<le> length secret"
    "ec_secret S curve (take len secret) = Ok ()" and curve: "nist_curve F Priv (mk_codec k) = Some (curve, len)"
    and pk': "pk = public_multikey (nist_pub_codec (mk_codec k)) k (ec_public S curve (take len secret))"
    using pk by (auto simp: nist_to_public_key_def outcome_simps split: option.splits)
  note codec = nist_public_pair[OF curve]
  have twice: "nist_pub_codec (nist_pub_codec (mk_codec k)) = nist_pub_codec (mk_codec k)"
    by (cases "mk_codec k") simp_all
  obtain nonce ct where c: "is_nistp_aead_allowed c"
    and seal: "seal_with_secret L rng NISTP_SEAL_INFO c (ec_dh E curve eph (ec_public S curve (take len secret))) pt aad = Ok (nonce, ct)"
    and msg: "msg = encode_sealed W c nonce ct"
    and e: "e = Some (built_key (with_key_bytes (builder_new (nist_pub_codec (mk_codec k))) (ec_ephemeral E curve eph)))"
    using sealed codec twice unfolding pk' nist_seal_def by (auto simp: outcome_simps seal_from_shared_def split: if_splits)
  note epub = ephemeral_bytes[OF secret(1) conjunct1[OF codec]]
  have "decode_sealed W msg = Ok (c, nonce, ct)"
    using decode_sealed_message[OF ok(3)] size by (simp add: msg)
  then show ?thesis
    using codec c secret epub curve ecies_agree(1)[OF ok(1) secret(3)] ecies_agree(2,3)[OF ok(1) secret(3), of eph] open_with_seal_secret[OF ok(2) seal]
    by (simp add: nist_open_def prefix_of_def e open_from_shared_def)
qed

lemma rsa_open_seal:
  assumes ok: "ecies_lib_ok S E" "aead_lib_ok L" "wire_ok W" and k: "is_rsa_priv (mk_codec k)"
    and pk: "rsa_to_public_key F W S k = Ok pk"
    and sealed: "rsa_seal W L E rng pk pt c aad = Ok (msg, e)" and size: "fits msg"
  shows "rsa_open F W L E k msg e aad = Ok pt"
proof -
  obtain secret der where secret: "dispatched_secret F W k = Ok secret" "rsa_private S secret = Ok ()"
    "rsa_public_der S secret = Ok der" and pk': "pk = public_multikey (rsa_pub_codec (mk_codec k)) k der"
    using pk by (auto simp: rsa_to_public_key_def outcome_simps)
  obtain key rsa_ct nonce ct where c: "is_rsa_aead_allowed c" and enc: "rsa_oaep_encrypt E der key = Ok rsa_ct"
    and seal: "aead_seal L rng c key pt aad = Ok (nonce, ct)" and msg: "msg = encode_kem_sealed W rsa_ct c nonce ct"
    using sealed unfolding pk' rsa_seal_def by (auto simp: outcome_simps split: if_splits)
  have "rsa_oaep_secret E secret = Ok () \<and> rsa_oaep_decrypt E secret rsa_ct = Ok key"
    using ok(1) secret(2,3) enc unfolding ecies_lib_ok_def by blast
  moreover have "fits rsa_ct" "fits nonce" "fits ct"
    using size unfolding msg encode_kem_sealed_fields by (auto simp: encode_varbytes_into_def)
  then have "rsa_decode_sealed W msg = Ok (rsa_ct, c, nonce, ct)"
    using ok(3) by (simp add: msg rsa_decode_sealed_def encode_kem_sealed_fields codec_wire.dec_enc
        varbytes_wire.dec_enc varbytes_wire.dec_enc_nil invalid_format_def)
  ultimately show ?thesis
    using k c secret(1) aead_open_seal[OF ok(2) seal] by (simp add: rsa_open_def)
qed

text \<open>
  C35: Sealing round trip of the signing keys: what was sealed to the public key that a secp256k1, NIST or
  RSA private key converts to is opened by that private key, with the ephemeral key that sealing
  returned.
\<close>

theorem signing_key_open_seal:
  assumes "ecies_lib_ok S E" "aead_lib_ok L" "wire_ok W" "fits msg"
  shows "(mk_codec k = Secp256K1 Priv \<and> secp256k1_to_public_key F W S k = Ok pk
        \<and> secp256k1_seal W L E rng eph pk pt c aad = Ok (msg, e) \<longrightarrow> secp256k1_open F W L E k msg e aad = Ok pt)
    \<and> (nist_to_public_key F W S k = Ok pk \<and> nist_seal F W L E rng eph pk pt c aad = Ok (msg, e) \<longrightarrow>
      nist_open F W L E k msg e aad = Ok pt)
    \<and> (is_rsa_priv (mk_codec k) \<and> rsa_to_public_key F W S k = Ok pk \<and> rsa_seal W L E rng pk pt c aad = Ok (msg, e) \<longrightarrow>
      rsa_open F W L E k msg e aad = Ok pt)"
proof (intro conjI impI; elim conjE)
  assume "mk_codec k = Secp256K1 Priv" "secp256k1_to_public_key F W S k = Ok pk"
    "secp256k1_seal W L E rng eph pk pt c aad = Ok (msg, e)"
  then show "secp256k1_open F W L E k msg e aad = Ok pt"
    by (rule secp256k1_open_seal[OF assms(1-3) _ _ _ assms(4)])
next
  assume "nist_to_public_key F W S k = Ok pk" "nist_seal F W L E rng eph pk pt c aad = Ok (msg, e)"
  then show "nist_open F W L E k msg e aad = Ok pt"
    by (rule nist_open_seal[OF assms(1-3) _ _ assms(4)])
next
  assume "is_rsa_priv (mk_codec k)" "rsa_to_public_key F W S k = Ok pk" "rsa_seal W L E rng pk pt c aad = Ok (msg, e)"
  then show "rsa_open F W L E k msg e aad = Ok pt"
    by (rule rsa_open_seal[OF assms(1-3) _ _ _ assms(4)])
qed

definition toy_ecies :: ecies_lib where
  "toy_ecies = \<lparr>ec_recipient = \<lambda>c pk. Ok (), ec_scalar = \<lambda>c sk. Ok (), ec_ephemeral = \<lambda>c eph. replicate 33 2,
     ec_dh = \<lambda>c sk pk. [2], rsa_fill = \<lambda>n. Ok (replicate n 0), rsa_entropy = Ok (), rsa_oaep_key = \<lambda>pk. Ok (),
     rsa_oaep_encrypt = \<lambda>pk key. Ok key, rsa_oaep_secret = \<lambda>sk. Ok (), rsa_oaep_decrypt = \<lambda>sk ct. Ok ct\<rparr>"

lemma toy_ecies_ok: "ecies_lib_ok toy_hybrid toy_ecies"
  by (simp add: ecies_lib_ok_def toy_ecies_def)

definition example_secp256k1 :: multikey where
  "example_secp256k1 = \<lparr>mk_codec = Secp256K1 Priv, mk_comment = [], mk_attributes = [KeyData \<mapsto> replicate 32 9]\<rparr>"

definition example_ecies_message :: bytes where
  "example_ecies_message = encode_sealed leb_wire AesGcm256 (replicate 12 0) [5]"

lemma example_ecies_fits: "fits example_ecies_message"
proof -
  have "length example_ecies_message \<le> 40"
    by code_simp
  then show ?thesis
    by (simp add: MAX_DECODED_SIZE_def)
qed

lemma example_secp256k1_public:
  "secp256k1_to_public_key {FSecp256k1} leb_wire toy_hybrid example_secp256k1 =
   Ok (public_multikey (Secp256K1 Pub) example_secp256k1 (replicate 33 2))"
  by (simp add: secp256k1_to_public_key_def dispatched_secret_def data_view_def dispatch_data_view_def example_secp256k1_def
      arm_def secp256k1_view_def sealed_view_def encrypted_flag_def key_data_def get_attr_def prefix_of_def SECRET_KEY_LENGTH_def
      toy_hybrid_def)

lemma example_ecies_sealed:
  "secp256k1_seal leb_wire toy_aead toy_ecies (\<lambda>n. replicate n 0) []
     (public_multikey (Secp256K1 Pub) example_secp256k1 (replicate 33 2)) [5] AesGcm256 [] =
   Ok (example_ecies_message, Some (built_key (with_key_bytes (builder_new (Secp256K1 Pub)) (replicate 33 2))))"
  by (simp add: secp256k1_seal_def is_secp_aead_allowed_def toy_ecies_def seal_with_secret_def derive_aead_key_def
      toy_aead_def aead_seal_def seal_arm_def example_ecies_message_def)

theorem signing_key_open_seal_witness:
  "secp256k1_open {FSecp256k1} leb_wire toy_aead toy_ecies example_secp256k1 example_ecies_message
     (Some (built_key (with_key_bytes (builder_new (Secp256K1 Pub)) (replicate 33 2)))) [] = Ok [5]"
proof -
  have "mk_codec example_secp256k1 = Secp256K1 Priv"
    by (simp add: example_secp256k1_def)
  then show ?thesis
    using signing_key_open_seal[OF toy_ecies_ok toy_aead_ok leb_wire_ok example_ecies_fits]
      example_secp256k1_public example_ecies_sealed by blast
qed

text \<open>
  A private key whose data is shorter than a scalar makes opening panic, once the message and the
  ephemeral key are well-formed.
\<close>

lemma short_secp256k1_open_panics:
  assumes "wire_ok W" "mk_codec k = Secp256K1 Priv" "dispatched_secret F W k = Ok secret" "length secret < SECRET_KEY_LENGTH"
    "is_secp_aead_allowed c" "fits (encode_sealed W c nonce ct)"
  shows "secp256k1_open F W L E k (encode_sealed W c nonce ct)
      (Some (built_key (with_key_bytes (builder_new (Secp256K1 Pub)) epub))) aad = Panic"
proof -
  have "public_pair (mk_codec k) (Secp256K1 Pub)"
    by (simp add: assms(2) public_pair_def)
  from ephemeral_bytes[OF assms(3) this] show ?thesis
    using assms decode_sealed_message[OF assms(1,6)] by (simp add: secp256k1_open_def prefix_of_def)
qed

end
