(* ===== verification/Mk_Bls.thy ===== *)
theory Mk_Bls
  imports Mk_Threshold Mk_Hybrid Mk_Aead
begin

text \<open>
  Signing, verifying and sealing with BLS keys and key shares (\<^verbatim>\<open>src/views/bls12381.rs\<close>): signatures under
  one of three schemes, signature shares, and TimeCrypt messages, which the signature of a random
  identifier opens. The pairing arithmetic (\<^verbatim>\<open>blsful\<close>) is external. The view is a \<open>signature_view\<close>.
\<close>

section \<open>The external functions\<close>

text \<open>\<^verbatim>\<open>multi_sig\<close>'s \<^verbatim>\<open>SchemeTypeId\<close>, which the code takes for the scheme of \<^verbatim>\<open>blsful\<close> as well.\<close>

datatype bls_scheme = Basic | MessageAugmentation | ProofOfPossession

record bls_sign_lib = ms_lib +
  scheme_type :: "byte \<Rightarrow> (lib_error, bls_scheme) outcome"                 \<comment> \<open>\<^verbatim>\<open>SchemeTypeId::try_from\<close>\<close>
  bls_ms_build :: "codec \<Rightarrow> bls_scheme \<Rightarrow> bytes \<Rightarrow> bytes option \<Rightarrow> (lib_error, multisig) outcome"
    \<comment> \<open>\<^verbatim>\<open>new_from_bls_signature_with_codec\<close>, \<^verbatim>\<open>with_message_bytes\<close>, \<^verbatim>\<open>try_build\<close>\<close>
  bls_ms_build_share :: "codec \<Rightarrow> nat \<Rightarrow> nat \<Rightarrow> bls_scheme \<Rightarrow> bytes \<Rightarrow> bytes \<Rightarrow> bytes option \<Rightarrow> (lib_error, multisig) outcome"
    \<comment> \<open>threshold, limit, scheme, identifier, value\<close>
  ms_scheme_of :: "multisig \<Rightarrow> (lib_error, byte) outcome"                 \<comment> \<open>\<^verbatim>\<open>attr().build()\<close>, \<^verbatim>\<open>scheme\<close>\<close>
  ms_share_identifier :: "multisig \<Rightarrow> (lib_error, bytes) outcome"         \<comment> \<open>\<^verbatim>\<open>threshold_attr().build()\<close>, \<^verbatim>\<open>identifier\<close>\<close>
  bls_point_sign :: "bls_group \<Rightarrow> bls_scheme \<Rightarrow> bytes \<Rightarrow> bytes \<Rightarrow> (string, bytes) outcome"
    \<comment> \<open>\<^verbatim>\<open>SecretKey::sign\<close>: secret, message; the compressed point\<close>
  bls_share_sign :: "bls_group \<Rightarrow> bls_scheme \<Rightarrow> bytes \<Rightarrow> bytes \<Rightarrow> bytes \<Rightarrow> (string, bytes) outcome"
    \<comment> \<open>identifier, value, message\<close>
  bls_public_key :: "bls_group \<Rightarrow> bytes \<Rightarrow> (string, unit) outcome"        \<comment> \<open>\<^verbatim>\<open>PublicKey::try_from\<close>\<close>
  in_g1 :: "bytes \<Rightarrow> bool"                                               \<comment> \<open>\<^verbatim>\<open>G1Projective::from_compressed\<close> is some\<close>
  in_g2 :: "bytes \<Rightarrow> bool"
  bls_point_verify :: "bls_group \<Rightarrow> bls_scheme \<Rightarrow> bytes \<Rightarrow> bytes \<Rightarrow> bytes \<Rightarrow> (string, unit) outcome"
    \<comment> \<open>key, signature, message\<close>
  bls_share_verify :: "bls_group \<Rightarrow> bls_scheme \<Rightarrow> bytes \<times> bytes \<Rightarrow> bytes \<times> bytes \<Rightarrow> bytes \<Rightarrow> (string, unit) outcome"
    \<comment> \<open>identifier and point of the key share and of the signature share, message\<close>
  tc_encrypt :: "bls_group \<Rightarrow> bytes \<Rightarrow> bls_scheme \<Rightarrow> bytes \<Rightarrow> bytes \<Rightarrow> (string, bytes) outcome"
    \<comment> \<open>\<^verbatim>\<open>encrypt_time_lock\<close>: key, scheme, plaintext, identifier\<close>
  tc_encode :: "bls_group \<Rightarrow> bytes \<Rightarrow> (string, bytes) outcome"             \<comment> \<open>\<^verbatim>\<open>Vec::try_from(&ct)\<close>\<close>
  tc_parse :: "bls_group \<Rightarrow> bytes \<Rightarrow> (string, bls_scheme \<times> bytes) outcome" \<comment> \<open>\<^verbatim>\<open>TimeCryptCiphertext::try_from\<close>\<close>
  tc_decrypt :: "bls_group \<Rightarrow> bytes \<Rightarrow> bytes \<Rightarrow> bytes option"              \<comment> \<open>ciphertext, signature of the identifier\<close>

section \<open>Signing\<close>

text \<open>Signatures of the first group are points of 48 bytes, those of the second of 96; keys the other way round.\<close>

definition G1_PUBLIC_KEY_BYTES :: nat where "G1_PUBLIC_KEY_BYTES = 48"
definition G2_PUBLIC_KEY_BYTES :: nat where "G2_PUBLIC_KEY_BYTES = 96"

fun bls_sig_len :: "bls_group \<Rightarrow> nat" where
  "bls_sig_len G1 = G1_PUBLIC_KEY_BYTES"
| "bls_sig_len G2 = G2_PUBLIC_KEY_BYTES"

fun bls_key_len :: "bls_group \<Rightarrow> nat" where
  "bls_key_len G1 = G2_PUBLIC_KEY_BYTES"
| "bls_key_len G2 = G1_PUBLIC_KEY_BYTES"

fun sig_point :: "'a bls_sign_lib_scheme \<Rightarrow> bls_group \<Rightarrow> bytes \<Rightarrow> bool" where
  "sig_point L G1 = in_g1 L"
| "sig_point L G2 = in_g2 L"

fun key_point :: "'a bls_sign_lib_scheme \<Rightarrow> bls_group \<Rightarrow> bytes \<Rightarrow> bool" where
  "key_point L G1 = in_g2 L"
| "key_point L G2 = in_g1 L"

definition embedded :: "bool \<Rightarrow> bytes \<Rightarrow> bytes option" where
  "embedded combined msg = (if combined then Some msg else None)"

text \<open>The arms of the match on the codec, for both groups: a whole key and a key share.\<close>

definition bls_sign_whole ::
  "bls_lib \<Rightarrow> 'a bls_sign_lib_scheme \<Rightarrow> bls_group \<Rightarrow> bls_scheme \<Rightarrow> bytes \<Rightarrow> bytes \<Rightarrow> bool \<Rightarrow> multisig res" where
  "bls_sign_whole B L g s secret msg combined =
     and_then (bls_secret_key B g secret) (\<lambda>sk.
     and_then (map_err (\<lambda>e. Sign (SiSigningFailed e)) (bls_point_sign L g s sk msg)) (\<lambda>sig.
     map_err Multisig (bls_ms_build L (Bls12381 g BMsig) s sig (embedded combined msg))))"

definition bls_sign_share ::
  "features \<Rightarrow> wire \<Rightarrow> bls_lib \<Rightarrow> 'a bls_sign_lib_scheme \<Rightarrow> bls_group \<Rightarrow> bls_scheme \<Rightarrow> multikey \<Rightarrow> bytes \<Rightarrow> bytes \<Rightarrow> bool \<Rightarrow>
   multisig res" where
  "bls_sign_share F W B L g s k secret msg combined =
     and_then (threshold_attr_view F W k) (\<lambda>av.
     and_then (ta_threshold av) (\<lambda>threshold.
     and_then (ta_limit av) (\<lambda>limit.
     and_then (and_then (ta_identifier av) (bytes_to_identifier B)) (\<lambda>ident.
     and_then (bytes_to_value B secret) (\<lambda>val.
     and_then (map_err (\<lambda>e. Sign (SiSigningFailed e)) (bls_share_sign L g s ident val msg)) (\<lambda>sig.
     map_err Multisig (bls_ms_build_share L (Bls12381 g BShareMsig) threshold limit s ident sig (embedded combined msg))))))))"

definition bls_sign ::
  "features \<Rightarrow> wire \<Rightarrow> bls_lib \<Rightarrow> 'a bls_sign_lib_scheme \<Rightarrow> byte option \<Rightarrow> multikey \<Rightarrow> bytes \<Rightarrow> bool \<Rightarrow> multisig res" where
  "bls_sign F W B L scheme k msg combined =
     and_then (ok_or (Sign SiMissingScheme) scheme) (\<lambda>scheme.
     and_then (attr_view F W k) (\<lambda>attr.
     if \<not> is_secret_key attr then Err (Sign SiNotSigningKey)
     else
     and_then (dispatched_secret F W k) (\<lambda>secret.
     and_then (map_err Multisig (scheme_type L scheme)) (\<lambda>s.
     case mk_codec k of
       Bls12381 g BPriv \<Rightarrow> bls_sign_whole B L g s secret msg combined
     | Bls12381 g BPrivShare \<Rightarrow> bls_sign_share F W B L g s k secret msg combined
     | c \<Rightarrow> Err (Conversions (CvUnsupportedCodec c))))))"

section \<open>Verifying\<close>

text \<open>The point is cut from the front of the signature, \<^verbatim>\<open>sig[..n]\<close>: a shorter signature panics.\<close>

definition bls_verify_whole ::
  "'a bls_sign_lib_scheme \<Rightarrow> bls_group \<Rightarrow> bls_scheme \<Rightarrow> bytes \<Rightarrow> multisig \<Rightarrow> bytes option \<Rightarrow> unit res" where
  "bls_verify_whole L g s key ms msg =
     and_then (map_err public_failure (bls_public_key L g key)) (\<lambda>_.
     and_then (sig_bytes_or_missing L ms) (\<lambda>sig.
     and_then (prefix_of (bls_sig_len g) sig) (\<lambda>point.
     if \<not> sig_point L g point then Err (bad_signature ''failed to deserialize group encoding'')
     else
     and_then (select_message ms msg) (\<lambda>m.
     map_err bad_signature (bls_point_verify L g s key point m)))))"

definition bls_verify_share ::
  "features \<Rightarrow> wire \<Rightarrow> bls_lib \<Rightarrow> 'a bls_sign_lib_scheme \<Rightarrow> bls_group \<Rightarrow> bls_scheme \<Rightarrow> multikey \<Rightarrow> bytes \<Rightarrow> multisig \<Rightarrow>
   bytes option \<Rightarrow> unit res" where
  "bls_verify_share F W B L g s pk key ms msg =
     (if length key \<noteq> bls_key_len g then Err (public_failure ''Invalid public key share bytes'')
      else if \<not> key_point L g key then Err (public_failure ''Invalid public key share point'')
      else
      and_then (and_then (threshold_attr_view F W pk) (\<lambda>pav. and_then (ta_identifier pav) (bytes_to_identifier B))) (\<lambda>pk_ident.
      and_then (and_then (map_err Multisig (ms_share_identifier L ms)) (bytes_to_identifier B)) (\<lambda>ident.
      and_then (sig_bytes_or_missing L ms) (\<lambda>val.
      if length val \<noteq> bls_sig_len g then Err (bad_signature ''Invalid signature share bytes'')
      else if \<not> sig_point L g val then Err (bad_signature ''Invalid signature share bytes'')
      else
      and_then (select_message ms msg) (\<lambda>m.
      map_err bad_signature (bls_share_verify L g s (pk_ident, key) (ident, val) m))))))"

definition bls_verify ::
  "features \<Rightarrow> wire \<Rightarrow> bls_lib \<Rightarrow> 'a bls_sign_lib_scheme \<Rightarrow> multikey \<Rightarrow> multisig \<Rightarrow> bytes option \<Rightarrow> unit res" where
  "bls_verify F W B L k ms msg =
     and_then (public_form F W (bls_to_public_key F W B) k) (\<lambda>pk.
     and_then (dispatched_bytes F W pk) (\<lambda>key.
     and_then (map_err Multisig (ms_scheme_of L ms)) (\<lambda>scheme.
     and_then (map_err Multisig (scheme_type L scheme)) (\<lambda>s.
     case mk_codec pk of
       Bls12381 g BPub \<Rightarrow> bls_verify_whole L g s key ms msg
     | Bls12381 g BPubShare \<Rightarrow> bls_verify_share F W B L g s pk key ms msg
     | _ \<Rightarrow> Err (Conversions (CvUnsupportedCodec (mk_codec k)))))))"

definition bls_fingerprint where
  "bls_fingerprint mhash F W B = fingerprint_via 2 mhash F W (bls_to_public_key F W B)"

section \<open>Sealing with TimeCrypt\<close>

text \<open>\<open>ident\<close> is the random identifier of the message; the cipher and the associated data are not used.\<close>

definition bls_seal ::
  "features \<Rightarrow> wire \<Rightarrow> 'a bls_sign_lib_scheme \<Rightarrow> bytes \<Rightarrow> multikey \<Rightarrow> bytes \<Rightarrow> codec \<Rightarrow> bytes \<Rightarrow> (bytes \<times> multikey option) res" where
  "bls_seal F W L ident k pt c aad =
     and_then (attr_view F W k) (\<lambda>attr.
     if \<not> is_public_key attr then Err (Seal SeNotEncapsulationKey)
     else
     and_then (dispatched_bytes F W k) (\<lambda>key.
     case mk_codec k of
       Bls12381 g BPub \<Rightarrow>
         and_then (map_err (\<lambda>e. Seal (SeEncapsulationFailed e)) (bls_public_key L g key)) (\<lambda>_.
         and_then (map_err (\<lambda>e. Seal (SeEncapsulationFailed e)) (tc_encrypt L g key ProofOfPossession pt ident)) (\<lambda>ct.
         and_then (map_err (\<lambda>e. Seal (SeEncapsulationFailed e)) (tc_encode L g ct)) (\<lambda>ct_bytes.
         Ok (encode_varbytes_into W [] ident @ ct_bytes, None))))
     | _ \<Rightarrow> Err (Seal SeNotEncapsulationKey)))"

fun bad_open_secret :: "bls_group \<Rightarrow> error" where
  "bad_open_secret G1 = Seal (SeDecapsulationFailed ''invalid BLS G1 secret key bytes'')"
| "bad_open_secret G2 = Seal (SeDecapsulationFailed ''invalid BLS G2 secret key bytes'')"

definition bls_open ::
  "features \<Rightarrow> wire \<Rightarrow> bls_lib \<Rightarrow> 'a bls_sign_lib_scheme \<Rightarrow> multikey \<Rightarrow> bytes \<Rightarrow> multikey option \<Rightarrow> bytes \<Rightarrow> bytes res" where
  "bls_open F W B L k sealed ephemeral aad =
     and_then (attr_view F W k) (\<lambda>attr.
     if \<not> is_secret_key attr then Err (Seal SeNotDecapsulationKey)
     else
     and_then (dispatched_secret F W k) (\<lambda>secret.
     and_then (map_err (\<lambda>_. Seal (SeInvalidFormat ''missing TimeCrypt id'')) (get_varbytes W sealed)) (\<lambda>(ident, ct_bytes).
     case mk_codec k of
       Bls12381 g BPriv \<Rightarrow>
         and_then (prefix_of SECRET_KEY_BYTES secret) (\<lambda>sk.
         if \<not> bls_secret B g sk then Err (bad_open_secret g)
         else
         and_then (map_err (\<lambda>e. Seal (SeDecapsulationFailed e)) (tc_parse L g ct_bytes)) (\<lambda>(s, ct).
         and_then (map_err (\<lambda>e. Seal (SeDecapsulationFailed e)) (bls_point_sign L g s sk ident)) (\<lambda>sig.
         ok_or (Seal (SeDecapsulationFailed ''BLS TimeCrypt decryption failed'')) (tc_decrypt L g ct sig))))
     | _ \<Rightarrow> Err (Seal SeNotDecapsulationKey))))"

section \<open>Documented behaviour\<close>

text \<open>A built multisig returns what the builder was given.\<close>

definition bls_ms_ok :: "'a bls_sign_lib_scheme \<Rightarrow> bool" where
  "bls_ms_ok L \<longleftrightarrow>
     (\<forall>c s sig m. \<exists>ms b. bls_ms_build L c s sig m = Ok ms \<and> ms_message ms = (case m of Some x \<Rightarrow> x | None \<Rightarrow> [])
        \<and> ms_view L ms = Ok () \<and> ms_sig_bytes L ms = Ok sig \<and> ms_scheme_of L ms = Ok b \<and> scheme_type L b = Ok s)
   \<and> (\<forall>c t n s ident sig m. \<exists>ms b. bls_ms_build_share L c t n s ident sig m = Ok ms
        \<and> ms_message ms = (case m of Some x \<Rightarrow> x | None \<Rightarrow> []) \<and> ms_view L ms = Ok () \<and> ms_sig_bytes L ms = Ok sig
        \<and> ms_scheme_of L ms = Ok b \<and> scheme_type L b = Ok s \<and> ms_share_identifier L ms = Ok ident)"

text \<open>Signatures and signature shares are points of their group and verify under the public half.\<close>

definition bls_sign_ok :: "bls_lib \<Rightarrow> 'a bls_sign_lib_scheme \<Rightarrow> bool" where
  "bls_sign_ok B L \<longleftrightarrow>
     (\<forall>g s sk m sig. bls_secret B g sk \<longrightarrow> bls_point_sign L g s sk m = Ok sig \<longrightarrow>
        length sig = bls_sig_len g \<and> sig_point L g sig \<and> bls_public_key L g (bls_public B g sk) = Ok ()
        \<and> bls_point_verify L g s (bls_public B g sk) sig m = Ok ())
   \<and> (\<forall>g s ident val m sig pk_ident point. bls_share_public B g ident val = Ok (pk_ident, point) \<longrightarrow>
        bls_share_sign L g s ident val m = Ok sig \<longrightarrow>
        length sig = bls_sig_len g \<and> sig_point L g sig \<and> length point = bls_key_len g \<and> key_point L g point
        \<and> bytes_to_identifier B pk_ident = Ok pk_ident
        \<and> bls_share_verify L g s (pk_ident, point) (ident, sig) m = Ok ())"

text \<open>The signature of the identifier opens the message.\<close>

definition tc_ok :: "bls_lib \<Rightarrow> 'a bls_sign_lib_scheme \<Rightarrow> bool" where
  "tc_ok B L \<longleftrightarrow>
     (\<forall>g s sk pt ident ct bs. bls_secret B g sk \<longrightarrow> tc_encrypt L g (bls_public B g sk) s pt ident = Ok ct \<longrightarrow>
        tc_encode L g ct = Ok bs \<longrightarrow>
        (\<exists>ct' sig. tc_parse L g bs = Ok (s, ct') \<and> bls_point_sign L g s sk ident = Ok sig \<and> tc_decrypt L g ct' sig = Some pt))"

definition bls_sign_lib_ok :: "bls_lib \<Rightarrow> 'a bls_sign_lib_scheme \<Rightarrow> bool" where
  "bls_sign_lib_ok B L \<longleftrightarrow> bls_ms_ok L \<and> bls_sign_ok B L"

section \<open>A BLS signature verifies\<close>

lemma bls_multisigD:
  assumes "bls_ms_ok L" "bls_ms_build L c s sig (embedded combined m) = Ok ms"
  shows "ms_message ms = (if combined then m else [])" "sig_bytes_or_missing L ms = Ok sig"
    "\<exists>b. ms_scheme_of L ms = Ok b \<and> scheme_type L b = Ok s"
proof -
  obtain ms' b where "bls_ms_build L c s sig (embedded combined m) = Ok ms'"
    "ms_message ms' = (case embedded combined m of Some x \<Rightarrow> x | None \<Rightarrow> [])" "ms_view L ms' = Ok ()"
    "ms_sig_bytes L ms' = Ok sig" "ms_scheme_of L ms' = Ok b" "scheme_type L b = Ok s"
    using assms(1) unfolding bls_ms_ok_def by blast
  moreover have "ms' = ms"
    using assms(2) calculation(1) by simp
  ultimately show "ms_message ms = (if combined then m else [])" "sig_bytes_or_missing L ms = Ok sig"
    "\<exists>b. ms_scheme_of L ms = Ok b \<and> scheme_type L b = Ok s"
    by (auto simp: embedded_def sig_bytes_or_missing_def)
qed

lemma bls_share_multisigD:
  assumes "bls_ms_ok L" "bls_ms_build_share L c t n s ident sig (embedded combined m) = Ok ms"
  shows "ms_message ms = (if combined then m else [])" "sig_bytes_or_missing L ms = Ok sig"
    "\<exists>b. ms_scheme_of L ms = Ok b \<and> scheme_type L b = Ok s" "ms_share_identifier L ms = Ok ident"
proof -
  obtain ms' b where "bls_ms_build_share L c t n s ident sig (embedded combined m) = Ok ms'"
    "ms_message ms' = (case embedded combined m of Some x \<Rightarrow> x | None \<Rightarrow> [])" "ms_view L ms' = Ok ()"
    "ms_sig_bytes L ms' = Ok sig" "ms_scheme_of L ms' = Ok b" "scheme_type L b = Ok s" "ms_share_identifier L ms' = Ok ident"
    using assms(1) unfolding bls_ms_ok_def by blast
  moreover have "ms' = ms"
    using assms(2) calculation(1) by simp
  ultimately show "ms_message ms = (if combined then m else [])" "sig_bytes_or_missing L ms = Ok sig"
    "\<exists>b. ms_scheme_of L ms = Ok b \<and> scheme_type L b = Ok s" "ms_share_identifier L ms = Ok ident"
    by (auto simp: embedded_def sig_bytes_or_missing_def)
qed

text \<open>A private key of this view is a whole key or a share of one of the groups.\<close>

lemma bls_to_public_eq_Ok:
  assumes "dispatch_sign_view F k = Ok VBls12381" "bls_to_public_key F W B k = Ok pk"
  obtains (whole) g secret sk where "mk_codec k = Bls12381 g BPriv" "dispatched_secret F W k = Ok secret"
      "bls_secret_key B g secret = Ok sk" "pk = public_multikey (Bls12381 g BPub) k (bls_public B g sk)"
  | (share) g secret av t n ident val pk_ident point where "mk_codec k = Bls12381 g BPrivShare"
      "dispatched_secret F W k = Ok secret" "threshold_attr_view F W k = Ok av" "ta_threshold av = Ok t" "ta_limit av = Ok n"
      "and_then (ta_identifier av) (bytes_to_identifier B) = Ok ident" "bytes_to_value B secret = Ok val"
      "bls_share_public B g ident val = Ok (pk_ident, point)"
      "pk = built_key (with_identifier (with_limit W (with_threshold W (with_key_bytes
         (with_comment (builder_new (Bls12381 g BPubShare)) (mk_comment k)) point) t) n) pk_ident)"
proof -
  have "dispatched_secret F W k = and_then (data_view F W k) secret_bytes"
    by (simp add: dispatched_secret_def)
  then obtain secret where secret: "dispatched_secret F W k = Ok secret"
    using assms(2) by (auto simp: bls_to_public_key_def outcome_simps)
  from owned_private[OF assms(1) secret] obtain g where "mk_codec k = Bls12381 g BPriv \<or> mk_codec k = Bls12381 g BPrivShare"
    by auto
  then show ?thesis
  proof
    assume k: "mk_codec k = Bls12381 g BPriv"
    then obtain sk where "bls_secret_key B g secret = Ok sk" "pk = public_multikey (Bls12381 g BPub) k (bls_public B g sk)"
      using assms(2) secret by (auto simp: bls_to_public_key_def outcome_simps dispatched_secret_def public_multikey_def)
    with k secret show ?thesis
      by (rule whole)
  next
    assume k: "mk_codec k = Bls12381 g BPrivShare"
    then show ?thesis
      using assms(2) secret by (auto simp: bls_to_public_key_def outcome_simps dispatched_secret_def intro: share)
  qed
qed

lemma bls_secret_key_eq_Ok [outcome_simps]:
  "bls_secret_key B g secret = Ok sk \<longleftrightarrow>
   SECRET_KEY_BYTES \<le> length secret \<and> sk = take SECRET_KEY_BYTES secret \<and> bls_secret B g sk"
  by (auto simp: bls_secret_key_def split: if_splits)

lemma bls_identifier_Ok: "bytes_to_identifier B bs = Ok ident \<Longrightarrow> ident = bs \<and> bytes_to_identifier B bs = Ok bs"
  by (auto simp: bytes_to_identifier_def split: if_splits)

lemma bls_pair: "dispatch_sign_view F k = Ok VBls12381 \<Longrightarrow> bls_to_public_key F W B k = Ok pk \<Longrightarrow> public_pair (mk_codec k) (mk_codec pk)"
  by (erule bls_to_public_eq_Ok) (auto simp: public_pair_def built_key_defs)

lemma bls_secret_dispatched: "bls_to_public_key F W B k = Ok pk \<Longrightarrow> \<exists>secret. dispatched_secret F W k = Ok secret"
  by (auto simp: bls_to_public_key_def dispatched_secret_def outcome_simps)

text \<open>The codec of the key decides what a signature is.\<close>

lemma bls_sign_cases:
  assumes "dispatch_sign_view F k = Ok VBls12381" "bls_sign F W B L scheme k m combined = Ok ms"
  obtains (whole) g secret b s sk sig where "mk_codec k = Bls12381 g BPriv" "dispatched_secret F W k = Ok secret" "scheme = Some b"
      "scheme_type L b = Ok s" "bls_secret_key B g secret = Ok sk" "bls_point_sign L g s sk m = Ok sig"
      "bls_ms_build L (Bls12381 g BMsig) s sig (embedded combined m) = Ok ms"
  | (share) g secret b s av t n ident val sig where "mk_codec k = Bls12381 g BPrivShare" "dispatched_secret F W k = Ok secret"
      "scheme = Some b" "scheme_type L b = Ok s" "threshold_attr_view F W k = Ok av" "ta_threshold av = Ok t" "ta_limit av = Ok n"
      "and_then (ta_identifier av) (bytes_to_identifier B) = Ok ident" "bytes_to_value B secret = Ok val"
      "bls_share_sign L g s ident val m = Ok sig"
      "bls_ms_build_share L (Bls12381 g BShareMsig) t n s ident sig (embedded combined m) = Ok ms"
proof -
  obtain b secret s where b: "scheme = Some b" and secret: "dispatched_secret F W k = Ok secret" and s: "scheme_type L b = Ok s"
    using assms(2) by (auto simp: bls_sign_def outcome_simps split: if_splits)
  from owned_private[OF assms(1) secret] obtain g where "mk_codec k = Bls12381 g BPriv \<or> mk_codec k = Bls12381 g BPrivShare"
    by auto
  then show ?thesis
  proof
    assume k: "mk_codec k = Bls12381 g BPriv"
    have "bls_sign_whole B L g s secret m combined = Ok ms"
      using assms(2) by (auto simp: bls_sign_def b secret s k and_then_eq_Ok split: if_splits)
    then obtain sk sig where "bls_secret_key B g secret = Ok sk" "bls_point_sign L g s sk m = Ok sig"
      "bls_ms_build L (Bls12381 g BMsig) s sig (embedded combined m) = Ok ms"
      unfolding bls_sign_whole_def and_then_eq_Ok map_err_eq_Ok by blast
    with k secret b s show ?thesis
      by (rule whole)
  next
    assume k: "mk_codec k = Bls12381 g BPrivShare"
    have "bls_sign_share F W B L g s k secret m combined = Ok ms"
      using assms(2) by (auto simp: bls_sign_def b secret s k and_then_eq_Ok split: if_splits)
    then show ?thesis
      unfolding bls_sign_share_def and_then_eq_Ok[of "threshold_attr_view F W k"] and_then_eq_Ok[of "ta_threshold _"]
        and_then_eq_Ok[of "ta_limit _"] and_then_eq_Ok[of "and_then _ _"] and_then_eq_Ok[of "bytes_to_value _ _"]
        and_then_eq_Ok[of "map_err _ _"] map_err_eq_Ok
      using share[OF k secret b s] by blast
  qed
qed

lemma bls_verify_pair:
  assumes "dispatch_sign_view F k = Ok VBls12381" "bls_to_public_key F W B k = Ok pk"
  shows "bls_verify F W B L k ms msg = bls_verify F W B L pk ms msg"
proof -
  obtain secret where secret: "dispatched_secret F W k = Ok secret"
    using bls_secret_dispatched[OF assms(2)] by blast
  note views = public_pair_views(1,2)[OF secret bls_pair[OF assms]]
  obtain g where "mk_codec pk = Bls12381 g BPub \<or> mk_codec pk = Bls12381 g BPubShare"
    using assms by (rule bls_to_public_eq_Ok) (auto simp: built_key_defs)
  then show ?thesis
    using views assms(2) by (elim disjE) (simp_all add: bls_verify_def)
qed

text \<open>Verifying with a public key or a public share, once the key and the scheme are read.\<close>

lemma bls_verify_public:
  assumes "dispatched_secret F W k = Ok secret" "public_pair (mk_codec k) (mk_codec pk)" "key_data pk = Ok key"
    "ms_scheme_of L ms = Ok b" "scheme_type L b = Ok s"
  shows "mk_codec pk = Bls12381 g BPub \<Longrightarrow> bls_verify F W B L pk ms msg = bls_verify_whole L g s key ms msg"
    and "mk_codec pk = Bls12381 g BPubShare \<Longrightarrow> bls_verify F W B L pk ms msg = bls_verify_share F W B L g s pk key ms msg"
  using public_pair_views(2,3)[OF assms(1,2)] assms(3-5) by (simp_all add: bls_verify_def)

lemma bls_sign_okD:
  assumes "bls_sign_ok B L"
  shows "bls_secret B g sk \<Longrightarrow> bls_point_sign L g s sk m = Ok sig \<Longrightarrow>
      length sig = bls_sig_len g \<and> sig_point L g sig \<and> bls_public_key L g (bls_public B g sk) = Ok ()
      \<and> bls_point_verify L g s (bls_public B g sk) sig m = Ok ()"
    and "bls_share_public B g ident val = Ok (pk_ident, point) \<Longrightarrow> bls_share_sign L g s ident val m = Ok sig \<Longrightarrow>
      length sig = bls_sig_len g \<and> sig_point L g sig \<and> length point = bls_key_len g \<and> key_point L g point
      \<and> bytes_to_identifier B pk_ident = Ok pk_ident
      \<and> bls_share_verify L g s (pk_ident, point) (ident, sig) m = Ok ()"
  using assms unfolding bls_sign_ok_def by blast+

lemma whole_signature_verifies:
  assumes "bls_ms_ok L" "bls_sign_ok B L" "bls_secret_key B g secret = Ok sk" "bls_point_sign L g s sk m = Ok sig"
    "bls_ms_build L c s sig (embedded combined m) = Ok ms"
  shows "bls_verify_whole L g s (bls_public B g sk) ms (Some m) = Ok ()"
proof -
  have "bls_secret B g sk"
    using assms(3) unfolding bls_secret_key_eq_Ok by blast
  then show ?thesis
    using bls_sign_okD(1)[OF assms(2) _ assms(4)] bls_multisigD(2)[OF assms(1,5)]
    by (simp add: bls_verify_whole_def prefix_of_def)
qed

lemma share_signature_verifies:
  assumes "bls_ms_ok L" "bls_sign_ok B L" "bls_share_public B g ident val = Ok (pk_ident, point)"
    "bytes_to_identifier B ident = Ok ident" "bls_share_sign L g s ident val m = Ok sig"
    "bls_ms_build_share L c t n s ident sig (embedded combined m) = Ok ms"
    "threshold_attr_view F W pk = Ok av" "ta_identifier av = Ok pk_ident"
  shows "bls_verify_share F W B L g s pk point ms (Some m) = Ok ()"
  using bls_sign_okD(2)[OF assms(2,3,5)] bls_share_multisigD(2,4)[OF assms(1,6)] assms(4,7,8)
  by (simp add: bls_verify_share_def)

lemma bls_verify_embedded:
  assumes "ms_message ms \<noteq> []"
  shows "bls_verify F W B L k ms None = bls_verify F W B L k ms (Some (ms_message ms))"
proof -
  have message: "select_message ms None = select_message ms (Some (ms_message ms))"
    using assms by (simp add: select_message_def)
  show ?thesis
    unfolding bls_verify_def bls_verify_whole_def bls_verify_share_def message by (rule refl)
qed

lemma bls_verify_detached: "ms_message ms = [] \<Longrightarrow> bls_verify F W B L k ms None \<noteq> Ok ()"
  by (auto simp: bls_verify_def bls_verify_whole_def bls_verify_share_def select_message_detached outcome_simps
      split: codec.splits bpart.splits if_splits)

lemma bls_message:
  assumes "bls_ms_ok L" "dispatch_sign_view F k = Ok VBls12381" "bls_sign F W B L scheme k m combined = Ok ms"
  shows "ms_message ms = (if combined then m else [])"
  using assms(2,3) by (rule bls_sign_cases) (simp_all add: bls_multisigD(1)[OF assms(1)] bls_share_multisigD(1)[OF assms(1)])

lemma bls_signature_verifies:
  assumes "bls_ms_ok L" "bls_sign_ok B L" and k: "dispatch_sign_view F k = Ok VBls12381"
    and conv: "bls_to_public_key F W B k = Ok pk" and sign: "bls_sign F W B L scheme k m combined = Ok ms"
  shows "bls_verify F W B L pk ms (Some m) = Ok ()"
  using k sign
proof (rule bls_sign_cases)
  fix g secret b s sk sig
  assume key: "mk_codec k = Bls12381 g BPriv" "dispatched_secret F W k = Ok secret" "scheme_type L b = Ok s"
    and sk: "bls_secret_key B g secret = Ok sk" and sig: "bls_point_sign L g s sk m = Ok sig"
    and ms: "bls_ms_build L (Bls12381 g BMsig) s sig (embedded combined m) = Ok ms"
  have pk: "pk = public_multikey (Bls12381 g BPub) k (bls_public B g sk)"
    using k conv by (rule bls_to_public_eq_Ok) (use key sk in auto)
  obtain b' where b': "ms_scheme_of L ms = Ok b'" "scheme_type L b' = Ok s"
    using bls_multisigD(3)[OF assms(1) ms] by blast
  have "key_data pk = Ok (bls_public B g sk)" and c: "mk_codec pk = Bls12381 g BPub"
    by (simp_all add: pk)
  from bls_verify_public(1)[OF key(2) bls_pair[OF k conv] this(1) b' c]
  show ?thesis
    using whole_signature_verifies[OF assms(1,2) sk sig ms] by simp
next
  fix g secret b s av t n ident val sig
  assume key: "mk_codec k = Bls12381 g BPrivShare" "dispatched_secret F W k = Ok secret"
    and av: "threshold_attr_view F W k = Ok av" "ta_threshold av = Ok t" "ta_limit av = Ok n"
    and ident: "and_then (ta_identifier av) (bytes_to_identifier B) = Ok ident" and val: "bytes_to_value B secret = Ok val"
    and sig: "bls_share_sign L g s ident val m = Ok sig"
    and ms: "bls_ms_build_share L (Bls12381 g BShareMsig) t n s ident sig (embedded combined m) = Ok ms"
  obtain pk_ident point where point: "bls_share_public B g ident val = Ok (pk_ident, point)"
    and pk: "pk = built_key (with_identifier (with_limit W (with_threshold W (with_key_bytes
         (with_comment (builder_new (Bls12381 g BPubShare)) (mk_comment k)) point) t) n) pk_ident)"
    using k conv by (rule bls_to_public_eq_Ok) (use key av ident val in auto)
  have F: "FBls12381 \<in> F"
    using k key(1) by (simp add: dispatch_sign_view_def arm_eq_Ok)
  obtain b' where b': "ms_scheme_of L ms = Ok b'" "scheme_type L b' = Ok s"
    using bls_share_multisigD(3)[OF assms(1) ms] by blast
  have c: "mk_codec pk = Bls12381 g BPubShare" and data: "key_data pk = Ok point"
    and own: "ta_identifier (bls_threshold_view W pk) = Ok pk_ident"
    by (simp_all add: pk built_key_defs key_data_def get_attr_def bls_threshold_view_def attr_insert_def with_identifier_def
        with_limit_def with_threshold_def)
  have canonical: "bytes_to_identifier B ident = Ok ident"
    using ident bls_identifier_Ok by (auto simp: and_then_eq_Ok)
  from bls_verify_public(2)[OF key(2) bls_pair[OF k conv] data b' c]
  show ?thesis
    using share_signature_verifies[OF assms(1,2) point canonical sig ms bls_view[OF c _ F] own] by simp
qed

interpretation bls12381: signature_view "\<lambda>_ _. bls_sign_lib_ok B L" "\<lambda>k. dispatch_sign_view F k = Ok VBls12381"
  "bls_to_public_key F W B" "bls_sign F W B L scheme" "bls_verify F W B L" for F W B L scheme
  by unfold_locales
    (auto simp: bls_sign_lib_ok_def bls_message bls_verify_pair bls_verify_embedded bls_verify_detached
      intro: bls_signature_verifies)

text \<open>Only the front of a signature counts, and a signature without enough of it panics.\<close>

lemma bls_signature_cut:
  assumes "bls_public_key L g key = Ok ()" "sig_bytes_or_missing L ms = Ok sig" "sig_bytes_or_missing L ms' = Ok (sig @ rest)"
    "bls_sig_len g \<le> length sig"
  shows "bls_verify_whole L g s key ms' (Some m) = bls_verify_whole L g s key ms (Some m)"
  using assms by (simp add: bls_verify_whole_def prefix_of_def)

lemma bls_short_signature:
  assumes "bls_public_key L g key = Ok ()" "sig_bytes_or_missing L ms = Ok sig" "length sig < bls_sig_len g"
  shows "bls_verify_whole L g s key ms msg = Panic"
  using assms by (simp add: bls_verify_whole_def prefix_of_def)

section \<open>A TimeCrypt message opens\<close>

lemma bls_open_seal:
  assumes "wire_ok W" "tc_ok B L" and k: "mk_codec k = Bls12381 g BPriv" and pk: "bls_to_public_key F W B k = Ok pk"
    and sealed: "bls_seal F W L ident pk pt c aad = Ok (msg, e)" and ident: "length ident = 32"
  shows "bls_open F W B L k msg e' aad' = Ok pt"
proof -
  obtain secret sk where secret: "dispatched_secret F W k = Ok secret" and sk: "bls_secret_key B g secret = Ok sk"
    and pk': "pk = public_multikey (Bls12381 g BPub) k (bls_public B g sk)"
    using pk k by (auto simp: bls_to_public_key_def outcome_simps dispatched_secret_def public_multikey_def)
  obtain v where v: "attr_view F W k = Ok v" "is_secret_key v"
    using secret k by (auto simp: dispatched_secret_def attr_view_def data_view_def outcome_simps dispatch_attr_view_def
        dispatch_data_view_def arm_eq_Ok bls12381_view_def sealed_view_def bls_priv_def bls_priv_share_def split: if_splits)
  have "public_pair (mk_codec k) (mk_codec pk)"
    by (simp add: pk' k public_pair_def)
  then have key: "dispatched_bytes F W pk = Ok (bls_public B g sk)"
    using public_pair_views(3)[OF secret, of pk] by (simp add: pk')
  obtain ct bs where ct: "tc_encrypt L g (bls_public B g sk) ProofOfPossession pt ident = Ok ct" "tc_encode L g ct = Ok bs"
    and msg: "msg = encode_varbytes_into W [] ident @ bs"
    using sealed by (auto simp: bls_seal_def outcome_simps key split: if_splits) (auto simp: pk' outcome_simps)
  have sk': "bls_secret B g sk" "sk = take SECRET_KEY_BYTES secret" "SECRET_KEY_BYTES \<le> length secret"
    using sk by (auto simp: bls_secret_key_eq_Ok)
  obtain ct' sig where opened: "tc_parse L g bs = Ok (ProofOfPossession, ct')" "bls_point_sign L g ProofOfPossession sk ident = Ok sig"
    "tc_decrypt L g ct' sig = Some pt"
    using assms(2) sk'(1) ct unfolding tc_ok_def by blast
  have "get_varbytes W msg = Ok (ident, bs)"
    using varbytes_wire.dec_enc[OF conjI, of W ident bs] assms(1) ident by (simp add: msg MAX_DECODED_SIZE_def)
  then show ?thesis
    using v secret sk' opened by (simp add: bls_open_def k prefix_of_def)
qed

section \<open>An example\<close>

fun toy_scheme_byte :: "bls_scheme \<Rightarrow> byte" where
  "toy_scheme_byte Basic = 0"
| "toy_scheme_byte MessageAugmentation = 1"
| "toy_scheme_byte ProofOfPossession = 2"

definition toy_scheme :: "byte \<Rightarrow> (lib_error, bls_scheme) outcome" where
  "toy_scheme b = (if b = 0 then Ok Basic else if b = 1 then Ok MessageAugmentation else if b = 2 then Ok ProofOfPossession
     else Err ''scheme'')"

definition toy_multisig :: "codec \<Rightarrow> bls_scheme \<Rightarrow> (nat \<times> nat \<times> bytes) option \<Rightarrow> bytes \<Rightarrow> bytes option \<Rightarrow> multisig" where
  "toy_multisig c s share sig m = \<lparr>ms_codec = c, ms_message = (case m of Some b \<Rightarrow> b | None \<Rightarrow> []), ms_sig = Some sig,
     ms_depth = None, ms_index = None, ms_scheme = Some (toy_scheme_byte s), ms_share = share\<rparr>"

definition toy_bls_sign :: bls_sign_lib where
  "toy_bls_sign =
     \<lparr>ms_try_build = toy_ms_build, ms_view = \<lambda>ms. Ok (), ms_sig_bytes = toy_ms_bytes, scheme_type = toy_scheme,
      bls_ms_build = \<lambda>c s sig m. Ok (toy_multisig c s None sig m),
      bls_ms_build_share = \<lambda>c t n s ident sig m. Ok (toy_multisig c s (Some (t, n, ident)) sig m),
      ms_scheme_of = \<lambda>ms. ok_or ''scheme'' (ms_scheme ms),
      ms_share_identifier = \<lambda>ms. ok_or ''identifier'' (map_option (snd \<circ> snd) (ms_share ms)),
      bls_point_sign = \<lambda>g s sk m. Ok (toy_tag (bls_sig_len g) m), bls_share_sign = \<lambda>g s i v m. Ok (toy_tag (bls_sig_len g) m),
      bls_public_key = \<lambda>g pk. Ok (), in_g1 = \<lambda>b. True, in_g2 = \<lambda>b. True,
      bls_point_verify = \<lambda>g s pk. toy_check (bls_sig_len g), bls_share_verify = \<lambda>g s pk (i, sig). toy_check (bls_sig_len g) sig,
      tc_encrypt = \<lambda>g pk s pt ident. Ok (toy_scheme_byte s # pt), tc_encode = \<lambda>g ct. Ok ct,
      tc_parse = \<lambda>g bs. case bs of [] \<Rightarrow> Err ''empty'' | b # ct \<Rightarrow> and_then (toy_scheme b) (\<lambda>s. Ok (s, ct)),
      tc_decrypt = \<lambda>g ct sig. Some ct\<rparr>"

definition toy_bls_points :: bls_lib where
  "toy_bls_points = toy_bls\<lparr>bls_share_public := \<lambda>g i v. if length i = 32 then Ok (i, replicate (bls_key_len g) 1) else Err ''length''\<rparr>"

lemma toy_scheme_byte [simp]: "toy_scheme (toy_scheme_byte s) = Ok s"
  by (cases s) (simp_all add: toy_scheme_def)

lemma toy_bls_sign_ok: "bls_sign_lib_ok toy_bls_points toy_bls_sign" and toy_tc_ok: "tc_ok toy_bls_points toy_bls_sign"
proof -
  have points: "sig_point toy_bls_sign g b" "key_point toy_bls_sign g b" for g b
    by (cases g; simp add: toy_bls_sign_def)+
  have "bls_ms_ok toy_bls_sign"
    by (simp add: bls_ms_ok_def toy_bls_sign_def toy_multisig_def toy_ms_bytes_def)
  moreover have "bls_sign_ok toy_bls_points toy_bls_sign"
    unfolding bls_sign_ok_def using points
    by (auto simp: toy_bls_points_def toy_bls_def toy_bls_sign_def bytes_to_identifier_def SECRET_KEY_BYTES_def split: if_splits)
  ultimately show "bls_sign_lib_ok toy_bls_points toy_bls_sign"
    by (simp add: bls_sign_lib_ok_def)
  show "tc_ok toy_bls_points toy_bls_sign"
    by (auto simp: tc_ok_def toy_bls_sign_def)
qed

section \<open>Properties\<close>

text \<open>
  C8: TimeCrypt round trip: what was sealed to the public key that a BLS private key converts to, under
  any random identifier, is opened by that private key, with or without an ephemeral key or associated data.
\<close>

theorem timecrypt_open_seal:
  assumes "wire_ok W" and "tc_ok B L" and "mk_codec k = Bls12381 g BPriv" and "bls_to_public_key F W B k = Ok pk"
    and "bls_seal F W L ident pk pt c aad = Ok (msg, e)" and "length ident = 32"
  shows "bls_open F W B L k msg e' aad' = Ok pt"
  using assms by (rule bls_open_seal)

theorem timecrypt_open_seal_witness:
  "bls_open {FBls12381} leb_wire toy_bls_points toy_bls_sign example_bls_key
     (encode_varbytes_into leb_wire [] (replicate 32 1) @ [2, 9]) None [] = Ok [9]"
proof (rule timecrypt_open_seal[OF leb_wire_ok toy_tc_ok])
  show "mk_codec example_bls_key = Bls12381 G1 BPriv"
    by (simp add: example_bls_key_def)
  show conv: "bls_to_public_key {FBls12381} leb_wire toy_bls_points example_bls_key =
      Ok (public_multikey (Bls12381 G1 BPub) example_bls_key (replicate 32 7))"
    by (simp add: bls_to_public_key_def bls_data_view[of _ G1 BPriv] example_bls_key_def bls12381_view_def sealed_view_def bls_priv_def
        bls_encrypted_flag_def get_attr_def key_data_def SECRET_KEY_BYTES_def toy_bls_def toy_bls_points_def bls_secret_key_def
        public_multikey_def)
  show "bls_seal {FBls12381} leb_wire toy_bls_sign (replicate 32 1) (public_multikey (Bls12381 G1 BPub) example_bls_key (replicate 32 7)) [9]
      AesGcm256 [] = Ok (encode_varbytes_into leb_wire [] (replicate 32 1) @ [2, 9], None)"
    by (simp add: bls_seal_def dispatched_bytes_def bls_data_view[of _ G1 BPub] bls12381_view_def sealed_view_def bls_pub_def toy_bls_sign_def)
qed simp

end
