(* ===== verification/Mk_Xmss.thy ===== *)
theory Mk_Xmss
  imports Mk_Sign Mk_Stateful
begin

text \<open>
  XMSS keys (\<^verbatim>\<open>src/views/xmss.rs\<close>): stateful keys of the external crate \<^verbatim>\<open>pq_xmss\<close>. The secret key has
  the index of the next leaf inside; signing embeds that index in the multisig and, with
  \<^verbatim>\<open>sign_advance\<close>, returns the advanced key. The view is an \<open>advancing_signer\<close> and a \<open>signature_view\<close>.
\<close>

section \<open>The external functions\<close>

record xmss_lib = ms_lib +
  ms_try_build_indexed :: "codec \<Rightarrow> bytes \<Rightarrow> 32 word \<Rightarrow> bytes option \<Rightarrow> (lib_error, multisig) outcome"
    \<comment> \<open>the multisig builder \<^verbatim>\<open>with_sig_index\<close>\<close>
  xm_secret :: "xmss_height \<Rightarrow> bytes \<Rightarrow> (string, unit) outcome"              \<comment> \<open>\<^verbatim>\<open>SigningKey::try_from\<close>\<close>
  xm_sign :: "xmss_height \<Rightarrow> bytes \<Rightarrow> bytes \<Rightarrow> (string, bytes \<times> bytes) outcome"
    \<comment> \<open>\<^verbatim>\<open>sign_detached\<close>: the signature, and the secret key after it\<close>
  xm_public :: "xmss_height \<Rightarrow> bytes \<Rightarrow> bytes"                               \<comment> \<open>\<^verbatim>\<open>VerifyingKey::from\<close>\<close>
  xm_key :: "xmss_height \<Rightarrow> bytes \<Rightarrow> (string, unit) outcome"                 \<comment> \<open>\<^verbatim>\<open>VerifyingKey::try_from\<close>\<close>
  xm_sig :: "xmss_height \<Rightarrow> bytes \<Rightarrow> (string, unit) outcome"                 \<comment> \<open>\<^verbatim>\<open>DetachedSignature::try_from\<close>\<close>
  xm_verify :: "xmss_height \<Rightarrow> bytes \<Rightarrow> bytes \<Rightarrow> bytes \<Rightarrow> (string, unit) outcome" \<comment> \<open>key, signature, message\<close>

section \<open>The wrapper\<close>

definition XMSS_OID_LEN :: nat where "XMSS_OID_LEN = 4"
definition XMSS_INDEX_LEN :: nat where "XMSS_INDEX_LEN = 4"

record xmss_signature =
  xs_signature :: bytes
  xs_index :: "32 word"
  xs_advanced_secret_key :: bytes

definition current_index :: "bytes \<Rightarrow> (string, 32 word) outcome" where
  "current_index secret =
     (if length secret < XMSS_OID_LEN + XMSS_INDEX_LEN then Err ''xmss secret key too short for index''
      else Ok (word_rcat (take XMSS_INDEX_LEN (drop XMSS_OID_LEN secret))))"

definition xmss_wrapper_sign :: "xmss_lib \<Rightarrow> xmss_height \<Rightarrow> bytes \<Rightarrow> bytes \<Rightarrow> (string, xmss_signature) outcome" where
  "xmss_wrapper_sign X h secret msg =
     and_then (current_index secret) (\<lambda>index.
     and_then (xm_secret X h secret) (\<lambda>_.
     and_then (xm_sign X h secret msg) (\<lambda>(sig, advanced).
     Ok \<lparr>xs_signature = sig, xs_index = index, xs_advanced_secret_key = advanced\<rparr>)))"

definition xmss_wrapper_verify :: "xmss_lib \<Rightarrow> xmss_height \<Rightarrow> bytes \<Rightarrow> bytes \<Rightarrow> bytes \<Rightarrow> (string, unit) outcome" where
  "xmss_wrapper_verify X h key sig msg =
     and_then (xm_key X h key) (\<lambda>_. and_then (xm_sig X h sig) (\<lambda>_. xm_verify X h key sig msg))"

definition xmss_wrapper_public :: "xmss_lib \<Rightarrow> xmss_height \<Rightarrow> bytes \<Rightarrow> (string, bytes) outcome" where
  "xmss_wrapper_public X h secret = and_then (xm_secret X h secret) (\<lambda>_. Ok (xm_public X h secret))"

section \<open>The view\<close>

definition xmss_public_codec :: "codec \<Rightarrow> codec res" where
  "xmss_public_codec c =
     (case c of Xmss h SPriv \<Rightarrow> Ok (Xmss h SPub) | _ \<Rightarrow> Err (secret_failure ''not an XMSS private key''))"

definition xmss_msig_codec :: "codec \<Rightarrow> codec res" where
  "xmss_msig_codec c = (case c of Xmss h SPriv \<Rightarrow> Ok (Xmss h SMsig) | _ \<Rightarrow> Err (Sign SiNotSigningKey))"

definition xmss_public_from_private :: "xmss_lib \<Rightarrow> codec \<Rightarrow> bytes \<Rightarrow> bytes res" where
  "xmss_public_from_private X c secret =
     (case c of Xmss h SPriv \<Rightarrow> map_err secret_failure (xmss_wrapper_public X h secret)
      | _ \<Rightarrow> Err (secret_failure ''not an XMSS private key''))"

definition xmss_sign_bytes :: "xmss_lib \<Rightarrow> codec \<Rightarrow> bytes \<Rightarrow> bytes \<Rightarrow> xmss_signature res" where
  "xmss_sign_bytes X c secret msg =
     (case c of Xmss h SPriv \<Rightarrow> map_err (\<lambda>e. Sign (SiSigningFailed e)) (xmss_wrapper_sign X h secret msg)
      | _ \<Rightarrow> Err (Sign SiNotSigningKey))"

definition xmss_verify_bytes :: "xmss_lib \<Rightarrow> codec \<Rightarrow> bytes \<Rightarrow> bytes \<Rightarrow> bytes \<Rightarrow> unit res" where
  "xmss_verify_bytes X c key sig msg =
     (case c of Xmss h SPub \<Rightarrow> map_err bad_signature (xmss_wrapper_verify X h key sig msg)
      | _ \<Rightarrow> Err (bad_signature ''not an XMSS public key''))"

definition xmss_build_multisig :: "xmss_lib \<Rightarrow> codec \<Rightarrow> xmss_signature \<Rightarrow> bytes \<Rightarrow> bool \<Rightarrow> multisig res" where
  "xmss_build_multisig X c sig msg combined =
     and_then (xmss_msig_codec c) (\<lambda>mc.
     map_err Multisig (ms_try_build_indexed X mc (xs_signature sig) (xs_index sig) (if combined then Some msg else None)))"

definition with_key_data :: "multikey \<Rightarrow> bytes \<Rightarrow> multikey" where
  "with_key_data k new_bytes = built_key (with_key_bytes (with_comment (builder_new (mk_codec k)) (mk_comment k)) new_bytes)"

definition xmss_to_public_key :: "features \<Rightarrow> wire \<Rightarrow> xmss_lib \<Rightarrow> multikey \<Rightarrow> multikey res" where
  "xmss_to_public_key F W X k =
     and_then (dispatched_secret F W k) (\<lambda>secret.
     and_then (xmss_public_from_private X (mk_codec k) secret) (\<lambda>pub.
     and_then (xmss_public_codec (mk_codec k)) (\<lambda>c.
     Ok (public_multikey c k pub))))"

definition xmss_fingerprint where
  "xmss_fingerprint mhash F W X k = fingerprint_with mhash F W (is_xmss_priv (mk_codec k)) (xmss_to_public_key F W X k) k"

definition xmss_sign :: "features \<Rightarrow> wire \<Rightarrow> xmss_lib \<Rightarrow> multikey \<Rightarrow> bytes \<Rightarrow> bool \<Rightarrow> multisig res" where
  "xmss_sign F W X k msg combined =
     and_then (attr_view F W k) (\<lambda>attr.
     if \<not> is_secret_key attr then Err (Sign SiNotSigningKey)
     else
     and_then (dispatched_secret F W k) (\<lambda>secret.
     and_then (xmss_sign_bytes X (mk_codec k) secret msg) (\<lambda>sig.
     xmss_build_multisig X (mk_codec k) sig msg combined)))"

definition xmss_sign_advance ::
  "features \<Rightarrow> wire \<Rightarrow> xmss_lib \<Rightarrow> multikey \<Rightarrow> bytes \<Rightarrow> bool \<Rightarrow> (multisig \<times> multikey) res" where
  "xmss_sign_advance F W X k msg combined =
     and_then (attr_view F W k) (\<lambda>attr.
     if \<not> is_secret_key attr \<or> \<not> is_xmss_priv (mk_codec k) then Err (Sign SiNotSigningKey)
     else
     and_then (dispatched_secret F W k) (\<lambda>secret.
     and_then (xmss_sign_bytes X (mk_codec k) secret msg) (\<lambda>sig.
     and_then (xmss_build_multisig X (mk_codec k) sig msg combined) (\<lambda>ms.
     Ok (ms, with_key_data k (xs_advanced_secret_key sig))))))"

definition xmss_verify :: "features \<Rightarrow> wire \<Rightarrow> xmss_lib \<Rightarrow> multikey \<Rightarrow> multisig \<Rightarrow> bytes option \<Rightarrow> unit res" where
  "xmss_verify F W X k ms msg =
     and_then (select_message ms msg) (\<lambda>m.
     and_then (public_form F W (xmss_to_public_key F W X) k) (\<lambda>pk.
     and_then (dispatched_bytes F W pk) (\<lambda>key.
     and_then (sig_bytes X ms) (\<lambda>sig.
     xmss_verify_bytes X (mk_codec pk) key sig m))))"

section \<open>Documented behaviour of the library\<close>

text \<open>
  Signing consumes the leaf at the index and moves the index forward; the public key stays; the
  signature verifies under it. A multisig has what its builder was given.
\<close>

definition xmss_lib_ok :: "xmss_lib \<Rightarrow> bool" where
  "xmss_lib_ok X \<longleftrightarrow>
     (\<forall>h sk m sig sk' i. current_index sk = Ok i \<longrightarrow> xm_secret X h sk = Ok () \<longrightarrow> xm_sign X h sk m = Ok (sig, sk') \<longrightarrow>
        (\<exists>j. current_index sk' = Ok j \<and> i < j) \<and> xm_secret X h sk' = Ok () \<and> xm_public X h sk' = xm_public X h sk
        \<and> xm_key X h (xm_public X h sk) = Ok () \<and> xm_sig X h sig = Ok ()
        \<and> xm_verify X h (xm_public X h sk) sig m = Ok ())
   \<and> (\<forall>c sig i m. \<exists>ms. ms_try_build_indexed X c sig i m = Ok ms \<and> ms_codec ms = c
        \<and> ms_message ms = (case m of Some b \<Rightarrow> b | None \<Rightarrow> []) \<and> ms_index ms = Some i
        \<and> ms_view X ms = Ok () \<and> ms_sig_bytes X ms = Ok sig)"

lemma xmss_libD:
  assumes "xmss_lib_ok X" "xmss_wrapper_sign X h sk m = Ok s"
  shows "current_index sk = Ok (xs_index s)"
    and "\<exists>j. current_index (xs_advanced_secret_key s) = Ok j \<and> xs_index s < j"
    and "xmss_wrapper_public X h (xs_advanced_secret_key s) = xmss_wrapper_public X h sk"
    and "xmss_wrapper_public X h sk = Ok (xm_public X h sk)"
    and "xmss_wrapper_verify X h (xm_public X h sk) (xs_signature s) m = Ok ()"
proof -
  obtain i sig sk' where ok: "current_index sk = Ok i" "xm_secret X h sk = Ok ()" "xm_sign X h sk m = Ok (sig, sk')"
    and s: "s = \<lparr>xs_signature = sig, xs_index = i, xs_advanced_secret_key = sk'\<rparr>"
    using assms(2) by (auto simp: xmss_wrapper_sign_def outcome_simps)
  have "(\<exists>j. current_index sk' = Ok j \<and> i < j) \<and> xm_secret X h sk' = Ok () \<and> xm_public X h sk' = xm_public X h sk
      \<and> xm_key X h (xm_public X h sk) = Ok () \<and> xm_sig X h sig = Ok () \<and> xm_verify X h (xm_public X h sk) sig m = Ok ()"
    using assms(1) ok unfolding xmss_lib_ok_def by blast
  then show "current_index sk = Ok (xs_index s)"
    "\<exists>j. current_index (xs_advanced_secret_key s) = Ok j \<and> xs_index s < j"
    "xmss_wrapper_public X h (xs_advanced_secret_key s) = xmss_wrapper_public X h sk"
    "xmss_wrapper_public X h sk = Ok (xm_public X h sk)"
    "xmss_wrapper_verify X h (xm_public X h sk) (xs_signature s) m = Ok ()"
    using ok by (simp_all add: s xmss_wrapper_public_def xmss_wrapper_verify_def)
qed

lemma xmss_build_multisigD:
  assumes "xmss_lib_ok X" "xmss_build_multisig X (Xmss h SPriv) s m combined = Ok ms"
  shows "ms_message ms = (if combined then m else [])" and "ms_index ms = Some (xs_index s)"
    and "sig_bytes X ms = Ok (xs_signature s)"
proof -
  obtain ms' where "ms_try_build_indexed X (Xmss h SMsig) (xs_signature s) (xs_index s) (if combined then Some m else None) = Ok ms'"
      "ms_message ms' = (case (if combined then Some m else None) of Some b \<Rightarrow> b | None \<Rightarrow> [])" "ms_index ms' = Some (xs_index s)"
      "ms_view X ms' = Ok ()" "ms_sig_bytes X ms' = Ok (xs_signature s)"
    using assms(1) unfolding xmss_lib_ok_def by blast
  moreover have "ms' = ms"
    using assms(2) calculation(1) by (simp add: xmss_build_multisig_def xmss_msig_codec_def)
  ultimately show "ms_message ms = (if combined then m else [])" "ms_index ms = Some (xs_index s)"
    "sig_bytes X ms = Ok (xs_signature s)"
    by (simp_all add: sig_bytes_def)
qed

section \<open>Signing and verifying\<close>

lemma xmss_dispatch:
  assumes "dispatch_sign_view F k = Ok VXmss"
  shows "FXmss \<in> F" "\<exists>h p. mk_codec k = Xmss h p \<and> p \<noteq> SMsig"
  using assms by (cases "mk_codec k"; auto simp: dispatch_sign_view_def arm_def spart_key_def split: if_splits)+

lemma xmss_views:
  assumes "mk_codec k = Xmss h SPriv" "FXmss \<in> F"
  shows "dispatched_secret F W k = key_data k" and "attr_view F W k = Ok (xmss_view W k)" and "is_secret_key (xmss_view W k)"
  using assms by (simp_all add: dispatched_secret_def data_view_def attr_view_def dispatch_data_view_def dispatch_attr_view_def
      arm_def spart_key_def xmss_view_def plain_view_def is_xmss_priv_def)

lemma xmss_secret_key:
  assumes "dispatch_sign_view F k = Ok VXmss" "dispatched_secret F W k = Ok secret"
  obtains h where "mk_codec k = Xmss h SPriv" "key_data k = Ok secret"
proof -
  obtain h where h: "mk_codec k = Xmss h SPriv"
    using owned_private[OF assms] by auto
  show ?thesis
    using that[OF h] xmss_views(1)[OF h xmss_dispatch(1)[OF assms(1)]] assms(2) by simp
qed

lemma xmss_sign_eq_Ok:
  assumes "dispatch_sign_view F k = Ok VXmss"
  shows "xmss_sign F W X k m combined = Ok ms \<longleftrightarrow>
    (\<exists>h sk s. mk_codec k = Xmss h SPriv \<and> key_data k = Ok sk \<and> xmss_wrapper_sign X h sk m = Ok s
       \<and> xmss_build_multisig X (Xmss h SPriv) s m combined = Ok ms)" (is "?l = ?r")
proof
  assume ?l
  then obtain secret s where secret: "dispatched_secret F W k = Ok secret" and s: "xmss_sign_bytes X (mk_codec k) secret m = Ok s"
    and ms: "xmss_build_multisig X (mk_codec k) s m combined = Ok ms"
    by (auto simp: xmss_sign_def outcome_simps split: if_splits)
  obtain h where "mk_codec k = Xmss h SPriv" "key_data k = Ok secret"
    using assms secret by (rule xmss_secret_key)
  then show ?r
    using s ms by (auto simp: xmss_sign_bytes_def outcome_simps)
next
  assume ?r
  then obtain h sk s where k: "mk_codec k = Xmss h SPriv" "key_data k = Ok sk" and s: "xmss_wrapper_sign X h sk m = Ok s"
    and ms: "xmss_build_multisig X (Xmss h SPriv) s m combined = Ok ms"
    by blast
  then show ?l
    using xmss_views[OF k(1) xmss_dispatch(1)[OF assms], of W] by (simp add: xmss_sign_def xmss_sign_bytes_def)
qed

text \<open>Advancing signs like \<open>xmss_sign\<close>.\<close>

lemma xmss_sign_advance_eq_Ok:
  assumes "dispatch_sign_view F k = Ok VXmss"
  shows "xmss_sign_advance F W X k m combined = Ok (ms, k') \<longleftrightarrow>
    (\<exists>h sk s. mk_codec k = Xmss h SPriv \<and> key_data k = Ok sk \<and> xmss_wrapper_sign X h sk m = Ok s
       \<and> xmss_build_multisig X (Xmss h SPriv) s m combined = Ok ms \<and> k' = with_key_data k (xs_advanced_secret_key s))" (is "?l = ?r")
proof
  assume ?l
  then obtain secret s where secret: "dispatched_secret F W k = Ok secret" and s: "xmss_sign_bytes X (mk_codec k) secret m = Ok s"
    and ms: "xmss_build_multisig X (mk_codec k) s m combined = Ok ms" "k' = with_key_data k (xs_advanced_secret_key s)"
    by (auto simp: xmss_sign_advance_def outcome_simps split: if_splits)
  obtain h where "mk_codec k = Xmss h SPriv" "key_data k = Ok secret"
    using assms secret by (rule xmss_secret_key)
  then show ?r
    using s ms by (auto simp: xmss_sign_bytes_def outcome_simps)
next
  assume ?r
  then obtain h sk s where k: "mk_codec k = Xmss h SPriv" "key_data k = Ok sk" and s: "xmss_wrapper_sign X h sk m = Ok s"
    and ms: "xmss_build_multisig X (Xmss h SPriv) s m combined = Ok ms" "k' = with_key_data k (xs_advanced_secret_key s)"
    by blast
  then show ?l
    using xmss_views[OF k(1) xmss_dispatch(1)[OF assms], of W]
    by (simp add: xmss_sign_advance_def xmss_sign_bytes_def is_xmss_priv_def)
qed

lemma xmss_converted:
  assumes "dispatch_sign_view F k = Ok VXmss" "xmss_to_public_key F W X k = Ok pk"
  obtains h sk pub where "mk_codec k = Xmss h SPriv" "key_data k = Ok sk" "xmss_wrapper_public X h sk = Ok pub"
    "pk = public_multikey (Xmss h SPub) k pub"
    "public_form F W (xmss_to_public_key F W X) k = Ok pk" "public_form F W (xmss_to_public_key F W X) pk = Ok pk"
    "dispatched_bytes F W pk = Ok pub"
proof -
  obtain sk where secret: "dispatched_secret F W k = Ok sk"
    using assms(2) by (auto simp: xmss_to_public_key_def outcome_simps)
  obtain h where h: "mk_codec k = Xmss h SPriv" and sk: "key_data k = Ok sk"
    using assms(1) secret by (rule xmss_secret_key)
  obtain pub where pub: "xmss_wrapper_public X h sk = Ok pub" and pk: "pk = public_multikey (Xmss h SPub) k pub"
    using assms(2) secret
    by (auto simp: xmss_to_public_key_def outcome_simps xmss_public_from_private_def xmss_public_codec_def h)
  have pair: "public_pair (mk_codec k) (Xmss h SPub)"
    by (simp add: public_pair_def h)
  show ?thesis
    by (rule that[OF h sk pub pk converted_views[where conv = "xmss_to_public_key F W X", OF assms(2) secret pk pair]])
qed

interpretation xmss: signature_view "\<lambda>_ _. xmss_lib_ok X" "\<lambda>k. dispatch_sign_view F k = Ok VXmss"
  "xmss_to_public_key F W X" "xmss_sign F W X"
  "xmss_verify F W X" for F W X
proof unfold_locales
  fix k m combined ms
  assume "xmss_lib_ok X" "dispatch_sign_view F k = Ok VXmss" "xmss_sign F W X k m combined = Ok ms"
  then show "ms_message ms = (if combined then m else [])"
    by (auto simp: xmss_sign_eq_Ok xmss_build_multisigD(1))
next
  fix k pk m combined ms
  assume X: "xmss_lib_ok X" and k: "dispatch_sign_view F k = Ok VXmss"
    and conv: "xmss_to_public_key F W X k = Ok pk"
    and sign: "xmss_sign F W X k m combined = Ok ms"
  from k conv obtain h sk pub where key: "mk_codec k = Xmss h SPriv" "key_data k = Ok sk" and pub: "xmss_wrapper_public X h sk = Ok pub"
    and c: "mk_codec pk = Xmss h SPub"
    and pk: "public_form F W (xmss_to_public_key F W X) pk = Ok pk" "dispatched_bytes F W pk = Ok pub"
    by (rule xmss_converted) simp
  obtain s where s: "xmss_wrapper_sign X h sk m = Ok s" and ms: "xmss_build_multisig X (Xmss h SPriv) s m combined = Ok ms"
    using sign k key by (auto simp: xmss_sign_eq_Ok)
  show "xmss_verify F W X pk ms (Some m) = Ok ()"
    using xmss_libD(4,5)[OF X s] pub by (simp add: xmss_verify_def pk xmss_build_multisigD(3)[OF X ms] xmss_verify_bytes_def c)
qed (auto simp: xmss_verify_def select_message_embedded select_message_detached elim: xmss_converted)

section \<open>The use of a key over time\<close>

definition xmss_key :: "features \<Rightarrow> xmss_lib \<Rightarrow> multikey \<Rightarrow> bool" where
  "xmss_key F X k \<longleftrightarrow> xmss_lib_ok X \<and> dispatch_sign_view F k = Ok VXmss"

text \<open>The index inside the secret key.\<close>

definition key_index :: "multikey \<Rightarrow> nat" where
  "key_index k =
     (case key_data k of Ok sk \<Rightarrow> (case current_index sk of Ok i \<Rightarrow> unat i | _ \<Rightarrow> 0) | _ \<Rightarrow> 0)"

lemma with_key_data_simps [simp]:
  "mk_codec (with_key_data k bs) = mk_codec k" "mk_comment (with_key_data k bs) = mk_comment k"
  "key_data (with_key_data k bs) = Ok bs" "mk_attributes (with_key_data k bs) = [KeyData \<mapsto> bs]"
  by (simp_all add: with_key_data_def built_key_defs key_data_def get_attr_def attr_insert_def)

lemma xmss_step:
  assumes "xmss_key F X k" "xmss_sign_advance F W X k m combined = Ok (ms, k')"
  shows "xmss_key F X k'" and "key_index k < key_index k'" and "ms_index ms = Some (of_nat (key_index k))"
    and "xmss_sign F W X k m combined = Ok ms"
    and "xmss_to_public_key F W X k' = xmss_to_public_key F W X k" and "mk_attributes k' = [KeyData \<mapsto> the (mk_attributes k' KeyData)]"
proof -
  have X: "xmss_lib_ok X" and k: "dispatch_sign_view F k = Ok VXmss"
    using assms(1) by (simp_all add: xmss_key_def)
  obtain h sk s where key: "mk_codec k = Xmss h SPriv" "key_data k = Ok sk" and s: "xmss_wrapper_sign X h sk m = Ok s"
    and ms: "xmss_build_multisig X (Xmss h SPriv) s m combined = Ok ms" and k': "k' = with_key_data k (xs_advanced_secret_key s)"
    using assms(2) by (auto simp: xmss_sign_advance_eq_Ok[OF k])
  note lib = xmss_libD[OF X s]
  obtain j where j: "current_index (xs_advanced_secret_key s) = Ok j" "xs_index s < j"
    using lib(2) by blast
  have "dispatch_sign_view F k' = dispatch_sign_view F k"
    by (simp add: dispatch_sign_view_def k' key)
  then show "xmss_key F X k'"
    using X k by (simp add: xmss_key_def)
  show "key_index k < key_index k'"
    using j by (simp add: key_index_def key lib(1) k' word_less_nat_alt)
  show "ms_index ms = Some (of_nat (key_index k))"
    by (simp add: xmss_build_multisigD(2)[OF X ms] key_index_def key lib(1))
  show "xmss_sign F W X k m combined = Ok ms"
    using key s ms by (auto simp: xmss_sign_eq_Ok[OF k])
  show "xmss_to_public_key F W X k' = xmss_to_public_key F W X k"
    using lib(3) key xmss_views(1)[OF key(1) xmss_dispatch(1)[OF k], of W]
      xmss_views(1)[of k' h F W, OF _ xmss_dispatch(1)[OF k]]
    by (simp add: xmss_to_public_key_def k' xmss_public_from_private_def public_multikey_def)
  show "mk_attributes k' = [KeyData \<mapsto> the (mk_attributes k' KeyData)]"
    by (simp add: k')
qed

interpretation xmss_state: advancing_signer "xmss_key F X" "\<lambda>k (msg, combined). xmss_sign_advance F W X k msg combined" key_index
  for F W X
  by unfold_locales (auto dest: xmss_step(1,2))

lemma key_index_bound: "key_index k < 2 ^ 32"
proof -
  have "unat (i :: 32 word) < 2 ^ 32" for i
    using unsigned_less[of i, where 'a = nat] by simp
  then show ?thesis
    by (simp add: key_index_def split: outcome.splits)
qed

interpretation xmss_bounded: bounded_signer "xmss_key F X" "\<lambda>k (msg, combined). xmss_sign_advance F W X k msg combined" key_index
  "2 ^ 32" for F W X
  by unfold_locales (rule key_index_bound)

lemma xmss_log_index:
  assumes "xmss_key F X k" "signs (\<lambda>k (msg, combined). xmss_sign_advance F W X k msg combined) k log k'"
  shows "map (\<lambda>(_, _, ms). unat (the (ms_index ms))) log = map (\<lambda>e. key_index (fst e)) log"
proof -
  have index: "unat (of_nat (key_index k1) :: 32 word) = key_index k1" for k1
    by (auto simp: key_index_def split: outcome.splits)
  show ?thesis
    using xmss_state.signs_keep[where P = "\<lambda>_. True", OF _ assms(2,1)]
    by (fastforce simp: xmss_step(3) index)
qed

section \<open>A concrete library\<close>

text \<open>It signs with the message itself; the last byte of the secret key counts.\<close>

definition toy_xmss :: xmss_lib where
  "toy_xmss =
     \<lparr>ms_try_build = \<lambda>c sig m. Ok \<lparr>ms_codec = c, ms_message = (case m of Some b \<Rightarrow> b | None \<Rightarrow> []), ms_sig = Some sig,
        ms_depth = None, ms_index = None, ms_scheme = None, ms_share = None\<rparr>,
      ms_view = \<lambda>ms. Ok (), ms_sig_bytes = \<lambda>ms. Ok (case ms_sig ms of Some sig \<Rightarrow> sig | None \<Rightarrow> []),
      ms_try_build_indexed = \<lambda>c sig i m. Ok \<lparr>ms_codec = c, ms_message = (case m of Some b \<Rightarrow> b | None \<Rightarrow> []), ms_sig = Some sig,
        ms_depth = None, ms_index = Some i, ms_scheme = None, ms_share = None\<rparr>,
      xm_secret = \<lambda>h sk. if length sk = 8 then Ok () else Err ''length'',
      xm_sign = \<lambda>h sk m. if butlast sk = [0, 0, 0, 0, 0, 0, 0] \<and> last sk < 255 then Ok (m, [0, 0, 0, 0, 0, 0, 0, last sk + 1]) else Err ''exhausted'',
      xm_public = \<lambda>h sk. [7], xm_key = \<lambda>h pk. Ok (), xm_sig = \<lambda>h sig. Ok (),
      xm_verify = \<lambda>h pk sig m. if sig = m then Ok () else Err ''bad''\<rparr>"

lemma word_rcat_last: "word_rcat [0, 0, 0, b :: byte] = (ucast b :: 32 word)"
  by (simp add: word_rcat_def unsigned_ucast_eq)

lemma current_index_last: "current_index [0, 0, 0, 0, 0, 0, 0, b] = Ok (ucast b)"
  by (simp add: current_index_def XMSS_OID_LEN_def XMSS_INDEX_LEN_def numeral_eq_Suc word_rcat_last)

lemma byte_index_less: "(b :: byte) < 255 \<Longrightarrow> (ucast b :: 32 word) < ucast (b + 1)"
  by (simp add: word_less_nat_alt unat_word_ariths unsigned_ucast_eq take_bit_nat_eq_self)

lemma toy_xmss_ok: "xmss_lib_ok toy_xmss"
proof -
  have "\<exists>j. current_index [0, 0, 0, 0, 0, 0, 0, last sk + 1] = Ok j \<and> i < j"
    if "current_index sk = Ok i" "length sk = 8" "butlast sk = [0, 0, 0, 0, 0, 0, 0]" "last sk < (255 :: byte)" for sk i
  proof -
    have "sk = [0, 0, 0, 0, 0, 0, 0, last sk]"
      using that(2,3) append_butlast_last_id[of sk] by (cases sk) auto
    then have "i = ucast (last sk)"
      using that(1) by (metis current_index_last outcome.inject(1))
    then show ?thesis
      using byte_index_less[OF that(4)] by (simp add: current_index_last)
  qed
  then show ?thesis
    by (auto simp: xmss_lib_ok_def toy_xmss_def split: if_splits)
qed

definition example_xmss :: "byte \<Rightarrow> multikey" where
  "example_xmss b = \<lparr>mk_codec = Xmss H10 SPriv, mk_comment = [], mk_attributes = [KeyData \<mapsto> [0, 0, 0, 0, 0, 0, 0, b]]\<rparr>"

lemma example_xmss_views: "dispatch_sign_view {FXmss} (example_xmss b) = Ok VXmss"
  by (simp add: dispatch_sign_view_def example_xmss_def arm_def spart_key_def)

definition example_xmss_sig :: "byte \<Rightarrow> bytes \<Rightarrow> bool \<Rightarrow> multisig" where
  "example_xmss_sig b m combined =
     \<lparr>ms_codec = Xmss H10 SMsig, ms_message = (if combined then m else []), ms_sig = Some m, ms_depth = None,
      ms_index = Some (ucast b), ms_scheme = None, ms_share = None\<rparr>"

lemma example_xmss_sign:
  assumes "b < 255"
  shows "xmss_sign_advance {FXmss} W toy_xmss (example_xmss b) m combined = Ok (example_xmss_sig b m combined, example_xmss (b + 1))"
proof -
  have key: "mk_codec (example_xmss b) = Xmss H10 SPriv" "key_data (example_xmss b) = Ok [0, 0, 0, 0, 0, 0, 0, b]"
    by (simp_all add: example_xmss_def key_data_def get_attr_def)
  have next_key: "example_xmss (b + 1) = with_key_data (example_xmss b) [0, 0, 0, 0, 0, 0, 0, b + 1]"
    by (simp add: example_xmss_def with_key_data_def built_key_defs attr_insert_def)
  have sign: "xmss_wrapper_sign toy_xmss H10 [0, 0, 0, 0, 0, 0, 0, b] m =
      Ok \<lparr>xs_signature = m, xs_index = ucast b, xs_advanced_secret_key = [0, 0, 0, 0, 0, 0, 0, b + 1]\<rparr>"
    using assms by (simp add: xmss_wrapper_sign_def current_index_last toy_xmss_def)
  show ?thesis
    unfolding xmss_sign_advance_eq_Ok[OF example_xmss_views] next_key
    using key sign by (simp add: xmss_build_multisig_def xmss_msig_codec_def toy_xmss_def example_xmss_sig_def)
qed

lemma example_xmss_public:
  "xmss_to_public_key {FXmss} W toy_xmss (example_xmss b) = Ok (public_multikey (Xmss H10 SPub) (example_xmss b) [7])"
  using xmss_views(1)[of "example_xmss b" H10 "{FXmss}" W]
  by (simp add: xmss_to_public_key_def xmss_public_from_private_def xmss_public_codec_def xmss_wrapper_public_def toy_xmss_def
      example_xmss_def key_data_def get_attr_def)

section \<open>Properties\<close>

text \<open>
  C16: A holder that keeps the advanced key after each XMSS signature never uses a leaf twice: the leaf
  indices embedded in the signatures increase strictly.
\<close>

theorem xmss_no_leaf_reuse:
  assumes "xmss_lib_ok X" and "dispatch_sign_view F k = Ok VXmss"
    and "signs (\<lambda>k (msg, combined). xmss_sign_advance F W X k msg combined) k log k'"
  shows "sorted_wrt (<) (map (\<lambda>(_, _, ms). unat (the (ms_index ms))) log) \<and> list_all (\<lambda>(_, _, ms). ms_index ms \<noteq> None) log"
proof
  have key: "xmss_key F X k"
    using assms(1,2) by (simp add: xmss_key_def)
  show "sorted_wrt (<) (map (\<lambda>(_, _, ms). unat (the (ms_index ms))) log)"
    using xmss_state.signs_increasing[OF assms(3) key] by (simp only: xmss_log_index[OF key assms(3)])
  show "list_all (\<lambda>(_, _, ms). ms_index ms \<noteq> None) log"
    using xmss_state.signs_keep[where P = "\<lambda>_. True", OF _ assms(3) key]
    by (fastforce simp: list_all_iff xmss_step(3))
qed

lemma example_xmss_chain:
  "signs (\<lambda>k (msg, combined). xmss_sign_advance {FXmss} leb_wire toy_xmss k msg combined) (example_xmss 0)
     [(example_xmss 0, ([5], True), example_xmss_sig 0 [5] True), (example_xmss 1, ([6], False), example_xmss_sig 1 [6] False)]
     (example_xmss 2)"
  using example_xmss_sign[of 0 leb_wire "[5]" True] example_xmss_sign[of 1 leb_wire "[6]" False]
  by (auto intro!: signs.intros)

theorem xmss_no_leaf_reuse_witness:
  "sorted_wrt (<) (map (\<lambda>(_, _, ms). unat (the (ms_index ms)))
     [(example_xmss 0, ([5 :: byte], True), example_xmss_sig 0 [5] True), (example_xmss 1, ([6], False), example_xmss_sig 1 [6] False)])"
  by (rule conjunct1[OF xmss_no_leaf_reuse, OF toy_xmss_ok example_xmss_views example_xmss_chain])

text \<open>
  C17: Every signature of such a chain verifies under the public key of the first key, which is also the
  public key of every later one.
\<close>

theorem xmss_signatures_verify:
  assumes "xmss_lib_ok X" and "dispatch_sign_view F k = Ok VXmss"
    and "signs (\<lambda>k (msg, combined). xmss_sign_advance F W X k msg combined) k log k'"
    and "xmss_to_public_key F W X k = Ok pk"
  shows "list_all (\<lambda>(_, (msg, _), ms). xmss_verify F W X pk ms (Some msg) = Ok ()) log \<and> xmss_to_public_key F W X k' = Ok pk"
proof
  have key: "xmss_key F X k"
    using assms(1,2) by (simp add: xmss_key_def)
  have chain: "xmss_to_public_key F W X k' = Ok pk \<and> (\<forall>(k1, m, s) \<in> set log. xmss_to_public_key F W X k1 = Ok pk
      \<and> xmss_key F X k1 \<and> (\<exists>k2. (case m of (msg, combined) \<Rightarrow> xmss_sign_advance F W X k1 msg combined) = Ok (s, k2)))"
    by (rule xmss_state.signs_keep[where P = "\<lambda>k. xmss_to_public_key F W X k = Ok pk", OF _ assms(3) key assms(4)])
      (auto simp: xmss_step(5))
  then show "xmss_to_public_key F W X k' = Ok pk"
    by blast
  have "xmss_verify F W X pk ms (Some msg) = Ok ()" if entry: "(k1, (msg, combined), ms) \<in> set log" for k1 msg combined ms
  proof -
    obtain k2 where k1: "xmss_to_public_key F W X k1 = Ok pk" "xmss_key F X k1"
      and sign: "xmss_sign_advance F W X k1 msg combined = Ok (ms, k2)"
      using bspec[OF conjunct2[OF chain] entry] by auto
    have "dispatch_sign_view F k1 = Ok VXmss"
      using k1(2) by (simp add: xmss_key_def)
    then show ?thesis
      by (rule xmss.verifies(1)[OF assms(1) _ k1(1) xmss_step(4)[OF k1(2) sign]]) simp
  qed
  then show "list_all (\<lambda>(_, (msg, _), ms). xmss_verify F W X pk ms (Some msg) = Ok ()) log"
    by (auto simp: list_all_iff)
qed

theorem xmss_signatures_verify_witness:
  "list_all (\<lambda>(_, (msg, _), ms). xmss_verify {FXmss} leb_wire toy_xmss
       (public_multikey (Xmss H10 SPub) (example_xmss 0) [7]) ms (Some msg) = Ok ())
     [(example_xmss 0, ([5], True), example_xmss_sig 0 [5] True), (example_xmss 1, ([6], False), example_xmss_sig 1 [6] False)]"
  by (rule conjunct1[OF xmss_signatures_verify, OF toy_xmss_ok example_xmss_views example_xmss_chain example_xmss_public])

text \<open>
  Signing without advancing uses the leaf that the key stands at: two messages signed with the same
  key get the same leaf index, the one that advancing would consume.
\<close>

theorem xmss_sign_repeats_leaf:
  assumes "xmss_lib_ok X" and "dispatch_sign_view F k = Ok VXmss"
    and "xmss_sign F W X k m1 c1 = Ok ms1" and "xmss_sign F W X k m2 c2 = Ok ms2"
  shows "ms_index ms1 = Some (of_nat (key_index k))" and "ms_index ms2 = ms_index ms1"
proof -
  have index: "ms_index ms = Some (of_nat (key_index k))" if "xmss_sign F W X k m c = Ok ms" for m c ms
    using that xmss_step(3)[of F X k W m c ms] assms(1,2)
    by (auto simp: xmss_sign_eq_Ok[OF assms(2)] xmss_sign_advance_eq_Ok[OF assms(2)] xmss_key_def)
  show "ms_index ms1 = Some (of_nat (key_index k))" "ms_index ms2 = ms_index ms1"
    using index[OF assms(3)] index[OF assms(4)] by simp_all
qed

lemma example_xmss_plain_sign:
  "b < 255 \<Longrightarrow> xmss_sign {FXmss} W toy_xmss (example_xmss b) m c = Ok (example_xmss_sig b m c)"
  by (rule xmss_step(4)[OF _ example_xmss_sign]) (simp_all add: xmss_key_def toy_xmss_ok example_xmss_views)

theorem xmss_sign_repeats_leaf_witness:
  "ms_index (example_xmss_sig 3 [6] True) = ms_index (example_xmss_sig 3 [5] False)"
  by (rule xmss_sign_repeats_leaf(2)[OF toy_xmss_ok example_xmss_views example_xmss_plain_sign[where W = leb_wire]
        example_xmss_plain_sign[where W = leb_wire]]) simp_all

text \<open>The advanced key keeps no attribute but the key data.\<close>

lemma xmss_advance_drops_attributes:
  assumes "xmss_sign_advance F W X k m combined = Ok (ms, k')"
  shows "dom (mk_attributes k') = {KeyData}"
  using assms by (auto simp: xmss_sign_advance_def outcome_simps split: if_splits)

end
