(* ===== verification/Mk_Lamport.thy ===== *)
theory Mk_Lamport
  imports Mk_Sign Mk_ThresholdMeta
begin

text \<open>
  Lamport one-time keys (\<^verbatim>\<open>src/views/lamport.rs\<close>): conversion, signing with a key or a key share,
  verifying, splitting. The signatures (\<^verbatim>\<open>lamport_signature_plus\<close>) are external. Signing does not change
  the key; nothing in the view keeps a key from signing twice.
\<close>

section \<open>The external functions\<close>

record lamport_lib = ms_lib +
  lm_secret :: "lamport_digest \<Rightarrow> bytes \<Rightarrow> (string, unit) outcome"           \<comment> \<open>\<^verbatim>\<open>SigningKey::from_bytes\<close>\<close>
  lm_public :: "lamport_digest \<Rightarrow> bytes \<Rightarrow> bytes"                            \<comment> \<open>\<^verbatim>\<open>VerifyingKey::from\<close>\<close>
  lm_sign :: "lamport_digest \<Rightarrow> bytes \<Rightarrow> bytes \<Rightarrow> (string, bytes) outcome"
  lm_key :: "lamport_digest \<Rightarrow> bytes \<Rightarrow> (string, unit) outcome"              \<comment> \<open>\<^verbatim>\<open>VerifyingKey::from_bytes\<close>\<close>
  lm_sig :: "lamport_digest \<Rightarrow> bytes \<Rightarrow> (string, unit) outcome"              \<comment> \<open>\<^verbatim>\<open>Signature::from_bytes\<close>\<close>
  lm_verify :: "lamport_digest \<Rightarrow> bytes \<Rightarrow> bytes \<Rightarrow> bytes \<Rightarrow> (string, unit) outcome" \<comment> \<open>key, signature, message\<close>
  lm_split :: "lamport_digest \<Rightarrow> bytes \<Rightarrow> nat \<Rightarrow> nat \<Rightarrow> (string, bytes list) outcome"
  lm_share :: "lamport_digest \<Rightarrow> bytes \<Rightarrow> (string, unit) outcome"            \<comment> \<open>\<^verbatim>\<open>SigningKeyShare::from_bytes\<close>\<close>
  lm_share_sign :: "lamport_digest \<Rightarrow> bytes \<Rightarrow> bytes \<Rightarrow> (string, bytes) outcome"

section \<open>The wrapper\<close>

definition lamport_wrapper_public :: "lamport_lib \<Rightarrow> lamport_digest \<Rightarrow> bytes \<Rightarrow> (string, bytes) outcome" where
  "lamport_wrapper_public L d secret = and_then (lm_secret L d secret) (\<lambda>_. Ok (lm_public L d secret))"

definition lamport_wrapper_sign :: "lamport_lib \<Rightarrow> lamport_digest \<Rightarrow> bytes \<Rightarrow> bytes \<Rightarrow> (string, bytes) outcome" where
  "lamport_wrapper_sign L d secret msg = and_then (lm_secret L d secret) (\<lambda>_. lm_sign L d secret msg)"

definition lamport_wrapper_verify :: "lamport_lib \<Rightarrow> lamport_digest \<Rightarrow> bytes \<Rightarrow> bytes \<Rightarrow> bytes \<Rightarrow> (string, unit) outcome" where
  "lamport_wrapper_verify L d key sig msg =
     and_then (lm_key L d key) (\<lambda>_. and_then (lm_sig L d sig) (\<lambda>_. lm_verify L d key sig msg))"

definition lamport_wrapper_split :: "lamport_lib \<Rightarrow> lamport_digest \<Rightarrow> bytes \<Rightarrow> nat \<Rightarrow> nat \<Rightarrow> (string, bytes list) outcome" where
  "lamport_wrapper_split L d secret t n = and_then (lm_secret L d secret) (\<lambda>_. lm_split L d secret t n)"

definition lamport_wrapper_share_sign :: "lamport_lib \<Rightarrow> lamport_digest \<Rightarrow> bytes \<Rightarrow> bytes \<Rightarrow> (string, bytes) outcome" where
  "lamport_wrapper_share_sign L d share msg = and_then (lm_share L d share) (\<lambda>_. lm_share_sign L d share msg)"

section \<open>Codecs\<close>

definition lamport_public_codec :: "codec \<Rightarrow> codec res" where
  "lamport_public_codec c =
     (case c of Lamport d LPriv \<Rightarrow> Ok (Lamport d LPub) | _ \<Rightarrow> Err (secret_failure ''not a Lamport private key''))"

definition lamport_sig_codec :: "codec \<Rightarrow> codec res" where
  "lamport_sig_codec c = (case c of Lamport d LPriv \<Rightarrow> Ok (Lamport d LSig) | _ \<Rightarrow> Err (Sign SiNotSigningKey))"

definition lamport_share_sig_codec :: "codec \<Rightarrow> codec res" where
  "lamport_share_sig_codec c =
     (case c of Lamport d LPrivShare \<Rightarrow> Ok (Lamport d LSigShare) | _ \<Rightarrow> Err (Sign SiNotSigningKey))"

definition lamport_priv_share_codec :: "codec \<Rightarrow> codec res" where
  "lamport_priv_share_codec c =
     (case c of Lamport d LPriv \<Rightarrow> Ok (Lamport d LPrivShare) | _ \<Rightarrow> Err (error.Threshold ThNotASecretKey))"

definition lamport_public_from_private :: "lamport_lib \<Rightarrow> codec \<Rightarrow> bytes \<Rightarrow> bytes res" where
  "lamport_public_from_private L c secret =
     (case c of Lamport d LPriv \<Rightarrow> map_err secret_failure (lamport_wrapper_public L d secret)
      | _ \<Rightarrow> Err (secret_failure ''not a Lamport private key''))"

definition lamport_sign_bytes :: "lamport_lib \<Rightarrow> codec \<Rightarrow> bytes \<Rightarrow> bytes \<Rightarrow> bytes res" where
  "lamport_sign_bytes L c secret msg =
     (case c of Lamport d LPriv \<Rightarrow> map_err (\<lambda>e. Sign (SiSigningFailed e)) (lamport_wrapper_sign L d secret msg)
      | _ \<Rightarrow> Err (Sign SiNotSigningKey))"

definition lamport_verify_bytes :: "lamport_lib \<Rightarrow> codec \<Rightarrow> bytes \<Rightarrow> bytes \<Rightarrow> bytes \<Rightarrow> unit res" where
  "lamport_verify_bytes L c key sig msg =
     (case c of Lamport d LPub \<Rightarrow> map_err bad_signature (lamport_wrapper_verify L d key sig msg)
      | _ \<Rightarrow> Err (bad_signature ''not a Lamport public key''))"

definition lamport_split_bytes :: "lamport_lib \<Rightarrow> codec \<Rightarrow> bytes \<Rightarrow> nat \<Rightarrow> nat \<Rightarrow> bytes list res" where
  "lamport_split_bytes L c secret t n =
     (case c of Lamport d LPriv \<Rightarrow> map_err (\<lambda>e. error.Threshold (ThShareCombineFailed e)) (lamport_wrapper_split L d secret t n)
      | _ \<Rightarrow> Err (error.Threshold ThNotASecretKey))"

definition lamport_share_sign_bytes :: "lamport_lib \<Rightarrow> codec \<Rightarrow> bytes \<Rightarrow> bytes \<Rightarrow> bytes res" where
  "lamport_share_sign_bytes L c share msg =
     (case c of Lamport d LPrivShare \<Rightarrow> map_err (\<lambda>e. Sign (SiSigningFailed e)) (lamport_wrapper_share_sign L d share msg)
      | _ \<Rightarrow> Err (Sign SiNotSigningKey))"

section \<open>The view\<close>

definition lamport_to_public_key :: "features \<Rightarrow> wire \<Rightarrow> lamport_lib \<Rightarrow> multikey \<Rightarrow> multikey res" where
  "lamport_to_public_key F W L k =
     and_then (dispatched_secret F W k) (\<lambda>secret.
     and_then (lamport_public_from_private L (mk_codec k) secret) (\<lambda>pub.
     and_then (lamport_public_codec (mk_codec k)) (\<lambda>c.
     Ok (public_multikey c k pub))))"

definition lamport_fingerprint where
  "lamport_fingerprint mhash F W L k =
     fingerprint_with mhash F W (is_lamport_priv (mk_codec k)) (lamport_to_public_key F W L k) k"

definition lamport_sign :: "features \<Rightarrow> wire \<Rightarrow> lamport_lib \<Rightarrow> multikey \<Rightarrow> bytes \<Rightarrow> bool \<Rightarrow> multisig res" where
  "lamport_sign F W L k msg combined =
     and_then (dispatched_bytes F W k) (\<lambda>key.
     and_then
       (if is_lamport_priv_share (mk_codec k) then
          and_then (lamport_share_sign_bytes L (mk_codec k) key msg) (\<lambda>sig.
          and_then (lamport_share_sig_codec (mk_codec k)) (\<lambda>c. Ok (sig, c)))
        else if is_lamport_priv (mk_codec k) then
          and_then (lamport_sign_bytes L (mk_codec k) key msg) (\<lambda>sig.
          and_then (lamport_sig_codec (mk_codec k)) (\<lambda>c. Ok (sig, c)))
        else Err (Sign SiNotSigningKey))
       (\<lambda>(sig, c). built_multisig L c sig combined msg))"

definition lamport_verify :: "features \<Rightarrow> wire \<Rightarrow> lamport_lib \<Rightarrow> multikey \<Rightarrow> multisig \<Rightarrow> bytes option \<Rightarrow> unit res" where
  "lamport_verify F W L k ms msg =
     and_then (select_message ms msg) (\<lambda>m.
     and_then (public_form F W (lamport_to_public_key F W L) k) (\<lambda>pk.
     and_then (dispatched_bytes F W pk) (\<lambda>key.
     and_then (sig_bytes_or_missing L ms) (\<lambda>sig.
     lamport_verify_bytes L (mk_codec pk) key sig m))))"

definition lamport_split :: "features \<Rightarrow> wire \<Rightarrow> lamport_lib \<Rightarrow> multikey \<Rightarrow> nat \<Rightarrow> nat \<Rightarrow> multikey list res" where
  "lamport_split F W L k t n =
     and_then (attr_view F W k) (\<lambda>attr.
     if \<not> is_secret_key attr then Err (error.Threshold ThNotASecretKey)
     else
     and_then (dispatched_secret F W k) (\<lambda>secret.
     and_then (lamport_priv_share_codec (mk_codec k)) (\<lambda>c.
     and_then (lamport_split_bytes L (mk_codec k) secret t n) (\<lambda>shares.
     Ok (map (public_multikey c k) shares)))))"

definition lamport_add_share :: "multikey \<Rightarrow> multikey \<Rightarrow> multikey res" where
  "lamport_add_share k share = Err (error.Threshold (ThShareCombineFailed
     ''Lamport threshold signing does not reconstruct the signing key; combine signature shares instead''))"

definition lamport_combine :: "multikey \<Rightarrow> multikey res" where
  "lamport_combine k = Err (error.Threshold (ThShareCombineFailed
     ''Lamport threshold signing does not reconstruct the signing key; combine signature shares instead''))"

definition lamport_split_with_disclosure ::
  "features \<Rightarrow> wire \<Rightarrow> lamport_lib \<Rightarrow> multikey \<Rightarrow> nat \<Rightarrow> nat \<Rightarrow> disclosure \<Rightarrow> multikey option \<Rightarrow> multikey list res" where
  "lamport_split_with_disclosure F W L k t n mode meta_key = lamport_split F W L k t n"

definition lamport_add_share_with_meta :: "multikey \<Rightarrow> multikey \<Rightarrow> multikey option \<Rightarrow> multikey res" where
  "lamport_add_share_with_meta k share meta_key = lamport_add_share k share"

definition lamport_combine_with_meta :: "multikey \<Rightarrow> multikey option \<Rightarrow> multikey res" where
  "lamport_combine_with_meta k meta_key = lamport_combine k"

section \<open>Documented behaviour of the library\<close>

definition lamport_lib_ok :: "lamport_lib \<Rightarrow> bool" where
  "lamport_lib_ok L \<longleftrightarrow>
     ms_lib_ok L
   \<and> (\<forall>d sk m sig. lm_secret L d sk = Ok () \<longrightarrow> lm_sign L d sk m = Ok sig \<longrightarrow>
        lm_key L d (lm_public L d sk) = Ok () \<and> lm_sig L d sig = Ok () \<and> lm_verify L d (lm_public L d sk) sig m = Ok ())
   \<and> (\<forall>d sk t n shares. lm_split L d sk t n = Ok shares \<longrightarrow> length shares = n \<and> list_all (\<lambda>s. lm_share L d s = Ok ()) shares)"

lemma lamport_libD:
  assumes "lamport_lib_ok L" "lamport_wrapper_sign L d sk m = Ok sig"
  shows "lamport_wrapper_public L d sk = Ok (lm_public L d sk)" and "lamport_wrapper_verify L d (lm_public L d sk) sig m = Ok ()"
proof -
  have ok: "lm_secret L d sk = Ok ()" "lm_sign L d sk m = Ok sig"
    using assms(2) by (auto simp: lamport_wrapper_sign_def outcome_simps)
  then have "lm_key L d (lm_public L d sk) = Ok () \<and> lm_sig L d sig = Ok () \<and> lm_verify L d (lm_public L d sk) sig m = Ok ()"
    using assms(1) unfolding lamport_lib_ok_def by blast
  then show "lamport_wrapper_public L d sk = Ok (lm_public L d sk)" "lamport_wrapper_verify L d (lm_public L d sk) sig m = Ok ()"
    using ok by (simp_all add: lamport_wrapper_public_def lamport_wrapper_verify_def)
qed

lemma lamport_lib_ok_ms: "lamport_lib_ok L \<Longrightarrow> ms_lib_ok L"
  by (simp add: lamport_lib_ok_def)

section \<open>The view is a signing view\<close>

lemma lamport_views:
  assumes "mk_codec k = Lamport d p" "lpart_key p" "FLamport \<in> F"
  shows "dispatched_bytes F W k = key_data k" and "attr_view F W k = Ok (lamport_view W k)"
    and "p = LPriv \<Longrightarrow> dispatched_secret F W k = key_data k"
  using assms by (simp_all add: dispatched_secret_def dispatched_bytes_def data_view_def attr_view_def dispatch_data_view_def
      dispatch_attr_view_def arm_def lamport_view_def plain_view_def is_lamport_priv_def)

lemma lamport_dispatch:
  assumes "dispatch_sign_view F k = Ok VLamport"
  shows "FLamport \<in> F" "\<exists>d p. mk_codec k = Lamport d p \<and> lpart_key p"
  using assms by (cases "mk_codec k"; auto simp: dispatch_sign_view_def arm_def split: if_splits)+

lemma lamport_converted:
  assumes "dispatch_sign_view F k = Ok VLamport" "lamport_to_public_key F W L k = Ok pk"
  obtains d sk pub where "mk_codec k = Lamport d LPriv" "key_data k = Ok sk" "lamport_wrapper_public L d sk = Ok pub"
    "mk_codec pk = Lamport d LPub" "dispatched_bytes F W k = Ok sk"
    "public_form F W (lamport_to_public_key F W L) k = Ok pk" "public_form F W (lamport_to_public_key F W L) pk = Ok pk"
    "dispatched_bytes F W pk = Ok pub"
proof -
  obtain sk where secret: "dispatched_secret F W k = Ok sk"
    using assms(2) by (auto simp: lamport_to_public_key_def outcome_simps)
  obtain d where d: "mk_codec k = Lamport d LPriv"
    using owned_private[OF assms(1) secret] by auto
  note views = lamport_views[OF d _ lamport_dispatch(1)[OF assms(1)], of W, simplified]
  obtain pub where pub: "lamport_wrapper_public L d sk = Ok pub" and pk: "pk = public_multikey (Lamport d LPub) k pub"
    using assms(2) secret
    by (auto simp: lamport_to_public_key_def outcome_simps lamport_public_from_private_def lamport_public_codec_def d)
  have pair: "public_pair (mk_codec k) (Lamport d LPub)" and codec: "mk_codec pk = Lamport d LPub"
    by (simp_all add: public_pair_def d pk)
  have sk: "key_data k = Ok sk" "dispatched_bytes F W k = Ok sk"
    using secret views by (simp_all add: lpart_key_def)
  show ?thesis
    by (rule that[OF d sk(1) pub codec sk(2) converted_views[where conv = "lamport_to_public_key F W L", OF assms(2) secret pk pair]])
qed

interpretation lamport: signature_view "\<lambda>_ _. lamport_lib_ok L" "\<lambda>k. dispatch_sign_view F k = Ok VLamport"
  "lamport_to_public_key F W L" "lamport_sign F W L" "lamport_verify F W L" for F W L
proof unfold_locales
  fix k m combined ms
  assume "lamport_lib_ok L" "lamport_sign F W L k m combined = Ok ms"
  then show "ms_message ms = (if combined then m else [])"
    by (auto simp: lamport_sign_def outcome_simps built_multisigD(1)[OF lamport_lib_ok_ms])
next
  fix k pk m combined ms
  assume L: "lamport_lib_ok L" and k: "dispatch_sign_view F k = Ok VLamport"
    and conv: "lamport_to_public_key F W L k = Ok pk" and sign: "lamport_sign F W L k m combined = Ok ms"
  from k conv obtain d sk pub where key: "mk_codec k = Lamport d LPriv" "lamport_wrapper_public L d sk = Ok pub"
      "mk_codec pk = Lamport d LPub" "dispatched_bytes F W k = Ok sk"
    and pk: "public_form F W (lamport_to_public_key F W L) pk = Ok pk" "dispatched_bytes F W pk = Ok pub"
    by (rule lamport_converted)
  obtain sig where sig: "lamport_wrapper_sign L d sk m = Ok sig" and ms: "built_multisig L (Lamport d LSig) sig combined m = Ok ms"
    using sign key by (auto simp: lamport_sign_def outcome_simps is_lamport_priv_share_def is_lamport_priv_def
        lamport_sign_bytes_def lamport_sig_codec_def)
  show "lamport_verify F W L pk ms (Some m) = Ok ()"
    using lamport_libD[OF L sig] key(2) built_multisigD(3)[OF lamport_lib_ok_ms[OF L] ms]
    by (simp add: lamport_verify_def pk key(3) lamport_verify_bytes_def)
qed (auto simp: lamport_verify_def select_message_embedded select_message_detached elim: lamport_converted)

end
