(* ===== verification/Mk_Xeddsa.thy ===== *)
theory Mk_Xeddsa
  imports Mk_Sign Mk_Kem
begin

text \<open>
  XEdDSA signatures of X25519 keys (\<^verbatim>\<open>src/views/xeddsa.rs\<close>). The scalar arithmetic modulo the group
  order, the clamping, the sign normalisation and the layout of the signature are modelled; the curve,
  the hash and the strict Ed25519 verification are external. The codec belongs to the module
  \<^verbatim>\<open>x25519\<close>, so the public form of a key comes from \<^verbatim>\<open>src/views/x25519.rs\<close>.
\<close>

section \<open>The external functions\<close>

text \<open>\<open>'p\<close> are the points of the Edwards curve; a scalar is given by its residue.\<close>

record 'p curve_lib = ms_lib +
  mul_base :: "nat \<Rightarrow> 'p"
  compress_point :: "'p \<Rightarrow> bytes"                              \<comment> \<open>\<^verbatim>\<open>compress\<close>\<close>
  to_montgomery :: "'p \<Rightarrow> bytes"
  to_edwards :: "bytes \<Rightarrow> 'p option"                           \<comment> \<open>\<^verbatim>\<open>to_edwards(0)\<close>\<close>
  is_torsion_free :: "'p \<Rightarrow> bool"
  mont_eq :: "bytes \<Rightarrow> bytes \<Rightarrow> bool"                          \<comment> \<open>\<^verbatim>\<open>==\<close> of \<^verbatim>\<open>MontgomeryPoint\<close>\<close>
  sha512 :: "bytes \<Rightarrow> bytes"
  ee_key :: "bytes \<Rightarrow> (string, unit) outcome"                  \<comment> \<open>\<^verbatim>\<open>VerifyingKey::from_bytes\<close>\<close>
  ee_sig :: "bytes \<Rightarrow> (string, unit) outcome"                  \<comment> \<open>\<^verbatim>\<open>Signature::from_slice\<close>\<close>
  ee_verify :: "bytes \<Rightarrow> bytes \<Rightarrow> bytes \<Rightarrow> (string, unit) outcome" \<comment> \<open>\<^verbatim>\<open>verify_strict\<close>: key, signature, message\<close>

section \<open>Scalars\<close>

definition GROUP_ORDER :: nat where
  "GROUP_ORDER = 2 ^ 252 + 27742317777372353535851937790883648493"

fun le_value :: "bytes \<Rightarrow> nat" where
  "le_value [] = 0"
| "le_value (b # bs) = unat b + 256 * le_value bs"

definition scalar_mod_order :: "bytes \<Rightarrow> nat" where
  "scalar_mod_order bs = le_value bs mod GROUP_ORDER"

definition scalar_bytes :: "nat \<Rightarrow> bytes" where
  "scalar_bytes a = map (\<lambda>i. of_nat (a div 256 ^ i)) [0..<32]"

definition negate_scalar :: "nat \<Rightarrow> nat" where
  "negate_scalar a = (GROUP_ORDER - a) mod GROUP_ORDER"

section \<open>Keys\<close>

definition X25519_KEY_LENGTH :: nat where "X25519_KEY_LENGTH = 32"
definition ED25519_SIGNATURE_LENGTH :: nat where "ED25519_SIGNATURE_LENGTH = 64"

definition SMALL_ORDER_PUBKEYS :: "bytes list" where
  "SMALL_ORDER_PUBKEYS =
     [replicate 32 0,
      [0x01, 0x00, 0x00, 0x00, 0x00, 0x00, 0x00, 0x00, 0x00, 0x00, 0x00,
       0x00, 0x00, 0x00, 0x00, 0x00, 0x00, 0x00, 0x00, 0x00, 0x00, 0x00,
       0x00, 0x00, 0x00, 0x00, 0x00, 0x00, 0x00, 0x00, 0x00, 0x00],
      [0xe0, 0xeb, 0x7a, 0x7c, 0x28, 0xb3, 0x51, 0xfd, 0x59, 0x9c, 0xae,
       0xc3, 0x3f, 0x6d, 0x8a, 0x58, 0x24, 0x14, 0x0d, 0x0c, 0x7c, 0x2a,
       0x36, 0xb5, 0x0f, 0x3e, 0x0d, 0x6f, 0x5d, 0x03, 0x2b, 0x02],
      [0x5f, 0x9c, 0x95, 0xbc, 0xa3, 0x50, 0x8c, 0x24, 0xb1, 0xd0, 0xb1,
       0x55, 0x9c, 0x83, 0xef, 0x5b, 0x04, 0x44, 0x5c, 0xc4, 0x64, 0x4a,
       0x9a, 0x67, 0x2c, 0x69, 0x2c, 0xf0, 0x58, 0x6f, 0x7a, 0x7f],
      [0xec, 0xff, 0xff, 0xff, 0xff, 0xff, 0xff, 0xff, 0xff, 0xff, 0xff,
       0xff, 0xff, 0xff, 0xff, 0xff, 0xff, 0xff, 0xff, 0xff, 0xff, 0xff,
       0xff, 0xff, 0xff, 0xff, 0xff, 0xff, 0xff, 0xff, 0xff, 0x7f],
      [0xed, 0xff, 0xff, 0xff, 0xff, 0xff, 0xff, 0xff, 0xff, 0xff, 0xff,
       0xff, 0xff, 0xff, 0xff, 0xff, 0xff, 0xff, 0xff, 0xff, 0xff, 0xff,
       0xff, 0xff, 0xff, 0xff, 0xff, 0xff, 0xff, 0xff, 0xff, 0x7f],
      [0xee, 0xff, 0xff, 0xff, 0xff, 0xff, 0xff, 0xff, 0xff, 0xff, 0xff,
       0xff, 0xff, 0xff, 0xff, 0xff, 0xff, 0xff, 0xff, 0xff, 0xff, 0xff,
       0xff, 0xff, 0xff, 0xff, 0xff, 0xff, 0xff, 0xff, 0xff, 0x7f],
      [0xef, 0xff, 0xff, 0xff, 0xff, 0xff, 0xff, 0xff, 0xff, 0xff, 0xff,
       0xff, 0xff, 0xff, 0xff, 0xff, 0xff, 0xff, 0xff, 0xff, 0xff, 0xff,
       0xff, 0xff, 0xff, 0xff, 0xff, 0xff, 0xff, 0xff, 0xff, 0x7f]]"

unbundle bit_operations_syntax

definition clamp :: "bytes \<Rightarrow> bytes" where
  "clamp seed = seed[0 := seed ! 0 AND 0xf8, 31 := (seed ! 31 AND 0x7f) OR 0x40]"

definition dh_scalar :: "bytes \<Rightarrow> nat res" where
  "dh_scalar secret =
     (if length secret \<noteq> X25519_KEY_LENGTH then Err (secret_failure ''invalid X25519 secret key length'')
      else Ok (scalar_mod_order (clamp secret)))"

definition canonical_lift :: "'p curve_lib \<Rightarrow> bytes \<Rightarrow> 'p res" where
  "canonical_lift C u =
     (if u \<in> set SMALL_ORDER_PUBKEYS then Err (public_failure ''small-order X25519 public key'')
      else
      and_then (ok_or (public_failure ''X25519 key is on the twist, not the curve'') (to_edwards C u)) (\<lambda>p.
      if \<not> is_torsion_free C p then Err (public_failure ''mixed-order X25519 public key'')
      else if \<not> mont_eq C (to_montgomery C p) u
      then Err (public_failure ''X25519 public key does not round-trip through the canonical lift'')
      else Ok p))"

definition sign_bit :: "bytes \<Rightarrow> bool" where
  "sign_bit bs \<longleftrightarrow> drop_bit 7 (bs ! 31) = 1"

definition xeddsa_key_pair :: "'p curve_lib \<Rightarrow> bytes \<Rightarrow> (nat \<times> 'p) res" where
  "xeddsa_key_pair C secret =
     and_then (dh_scalar secret) (\<lambda>a.
     and_then (ok_or (public_failure ''X25519 key is on the twist, not the curve'')
        (to_edwards C (to_montgomery C (mul_base C a)))) (\<lambda>a_ed.
     Ok (if sign_bit (compress_point C (mul_base C a)) then negate_scalar a else a, a_ed)))"

definition xeddsa_to_public_key :: "features \<Rightarrow> wire \<Rightarrow> kem_lib \<Rightarrow> multikey \<Rightarrow> multikey res" where
  "xeddsa_to_public_key F W K k =
     and_then (dispatched_secret F W k) (\<lambda>secret.
     if length secret < 32 then Err (secret_failure ''invalid X25519 secret key'')
     else Ok (public_multikey (X25519 Pub) k (x25519_public K (take 32 secret))))"

definition xeddsa_fingerprint where
  "xeddsa_fingerprint mhash F W K k = fingerprint_with mhash F W (mk_codec k = X25519 Priv) (xeddsa_to_public_key F W K k) k"

section \<open>Signing and verifying\<close>

definition xeddsa_nonce :: "'p curve_lib \<Rightarrow> nat \<Rightarrow> bytes \<Rightarrow> bytes \<Rightarrow> nat" where
  "xeddsa_nonce C a msg z = scalar_mod_order (sha512 C (scalar_bytes a @ replicate 32 0 @ msg @ replicate 32 0 @ z))"

definition xeddsa_signature :: "'p curve_lib \<Rightarrow> nat \<Rightarrow> nat \<Rightarrow> 'p \<Rightarrow> bytes \<Rightarrow> bytes" where
  "xeddsa_signature C r a a_ed msg =
     (let big_r = compress_point C (mul_base C r);
          s = (scalar_mod_order (sha512 C (big_r @ compress_point C a_ed @ msg)) * a + r) mod GROUP_ORDER
      in big_r @ scalar_bytes s)"

text \<open>\<open>z\<close> are the 64 random bytes that are drawn, or the failure of the source.\<close>

definition xeddsa_sign ::
  "features \<Rightarrow> wire \<Rightarrow> 'p curve_lib \<Rightarrow> (string, bytes) outcome \<Rightarrow> multikey \<Rightarrow> bytes \<Rightarrow> bool \<Rightarrow> multisig res" where
  "xeddsa_sign F W C z k msg combined =
     and_then (attr_view F W k) (\<lambda>attr.
     if \<not> is_secret_key attr then Err (Sign SiNotSigningKey)
     else if length msg \<noteq> X25519_KEY_LENGTH
     then Err (UnsupportedAlgorithm ''XEdDSA signs 32-byte transcript challenges only; this view is POP-only'')
     else
     and_then (dispatched_secret F W k) (\<lambda>secret.
     and_then (xeddsa_key_pair C secret) (\<lambda>(a, a_ed).
     and_then (map_err (\<lambda>e. Sign (SiSigningFailed e)) z) (\<lambda>z.
     built_multisig C XeddsaMsig (xeddsa_signature C (xeddsa_nonce C a msg z) a a_ed msg) combined msg))))"

definition xeddsa_verify ::
  "features \<Rightarrow> wire \<Rightarrow> 'p curve_lib \<Rightarrow> kem_lib \<Rightarrow> multikey \<Rightarrow> multisig \<Rightarrow> bytes option \<Rightarrow> unit res" where
  "xeddsa_verify F W C K k ms msg =
     and_then (public_form F W (x25519_to_public_key F W K) k) (\<lambda>pk.
     if mk_codec pk \<noteq> X25519 Pub then Err (Attributes (AUnsupportedCodec (mk_codec pk)))
     else
     and_then (dispatched_bytes F W pk) (\<lambda>u.
     if length u \<noteq> 32 then Err (public_failure ''invalid X25519 public key length'')
     else
     and_then (canonical_lift C u) (\<lambda>a_ed.
     let key = compress_point C a_ed in
     and_then (map_err public_failure (ee_key C key)) (\<lambda>_.
     and_then (sig_bytes_or_missing C ms) (\<lambda>sig.
     if length sig \<noteq> ED25519_SIGNATURE_LENGTH then Err (bad_signature ''XEdDSA signature must be exactly 64 bytes'')
     else
     and_then (map_err bad_signature (ee_sig C sig)) (\<lambda>_.
     and_then (select_message ms msg) (\<lambda>m.
     if length m \<noteq> X25519_KEY_LENGTH then Err (bad_signature ''XEdDSA signs 32-byte messages only'')
     else map_err bad_signature (ee_verify C key sig m))))))))"

section \<open>Scalar arithmetic\<close>

lemma le_value_append: "le_value (xs @ ys) = le_value xs + 256 ^ length xs * le_value ys"
  by (induction xs) (simp_all add: algebra_simps)

lemma le_value_less: "le_value bs < 256 ^ length bs"
proof (induction bs)
  case (Cons b bs)
  have "unat b < 256"
    using unsigned_less[of b, where ?'a = nat] by simp
  then show ?case
    using Cons.IH by simp
qed simp

lemma le_value_bytes: "le_value (map (\<lambda>i. of_nat (n div 256 ^ i)) [0..<k]) = n mod 256 ^ k"
proof (induction k arbitrary: n)
  case (Suc k)
  have "map (\<lambda>i. of_nat (n div 256 ^ i)) [0..<Suc k] =
      (of_nat n :: byte) # map (\<lambda>i. of_nat ((n div 256) div 256 ^ i)) [0..<k]"
    by (subst upt_rec) (simp add: map_Suc_upt[symmetric] div_mult2_eq o_def del: upt_Suc map_Suc_upt)
  then show ?case
    using mod_mult2_eq[of n 256 "256 ^ k"] Suc.IH[of "n div 256"]
    by (simp add: unsigned_of_nat take_bit_nat_def)
qed simp

lemma le_value_scalar_bytes: "n < 2 ^ 256 \<Longrightarrow> le_value (scalar_bytes n) = n"
  by (simp add: scalar_bytes_def le_value_bytes del: upt_Suc upt_rec_numeral)

lemma group_order_bounds: "2 ^ 252 < GROUP_ORDER" "GROUP_ORDER < 2 ^ 253" "2 ^ 255 < 8 * GROUP_ORDER"
  by (simp_all add: GROUP_ORDER_def)

lemma clamped_low: "8 dvd unat (b AND 0xf8 :: byte)"
proof -
  have "take_bit 3 (b AND 0xf8) = 0"
    by (simp add: take_bit_and)
  then have "take_bit 3 (unat (b AND 0xf8)) = 0"
    by (metis unsigned_0 unsigned_take_bit_eq)
  then show ?thesis
    by (simp add: take_bit_nat_def dvd_eq_mod_eq_0)
qed

lemma clamped_high: "64 \<le> unat ((b AND 0x7f) OR 0x40 :: byte)" "unat ((b AND 0x7f) OR 0x40 :: byte) < 128"
proof -
  let ?w = "(b AND 0x7f) OR 0x40"
  have "64 \<le> (uint b AND 127) OR 64"
    using or_greater_eq[of "uint b AND 127" 64] by (simp add: or.commute)
  then have "64 \<le> uint ?w"
    by (simp add: unsigned_or_eq unsigned_and_eq)
  then show "64 \<le> unat ?w"
    by (simp flip: nat_uint_eq)
  have "take_bit 7 ?w = ?w"
    by (simp add: take_bit_or take_bit_and) (simp add: take_bit_eq_mask mask_eq_exp_minus_1 and.assoc)
  then have "take_bit 7 (unat ?w) = unat ?w"
    by (metis unsigned_take_bit_eq)
  then show "unat ?w < 128"
    using take_bit_nat_less_exp[of 7 "unat ?w"] by simp
qed

lemma clamp_length [simp]: "length (clamp seed) = length seed"
  by (simp add: clamp_def)

lemma clamp_value:
  assumes "length seed = 32"
  shows "8 dvd le_value (clamp seed)" and "2 ^ 254 \<le> le_value (clamp seed)" and "le_value (clamp seed) < 2 ^ 255"
proof -
  let ?c = "clamp seed"
  have low: "?c ! 0 = seed ! 0 AND 0xf8" and high: "?c ! 31 = (seed ! 31 AND 0x7f) OR 0x40"
    using assms by (simp_all add: clamp_def)
  have "?c = ?c ! 0 # tl ?c"
    using assms by (metis clamp_length hd_conv_nth length_0_conv list.collapse zero_neq_numeral)
  then have "le_value ?c = unat (?c ! 0) + 256 * le_value (tl ?c)"
    by (metis le_value.simps(2))
  moreover have "8 dvd 256 * le_value (tl ?c)"
    by (intro dvd_mult2) simp
  ultimately show "8 dvd le_value ?c"
    using clamped_low[of "seed ! 0"] by (simp add: low)
  have "?c = take 31 ?c @ [?c ! 31]"
    using assms take_Suc_conv_app_nth[of 31 ?c] by simp
  then have split: "le_value ?c = le_value (take 31 ?c) + 256 ^ 31 * unat (?c ! 31)"
    using le_value_append[of "take 31 ?c" "[?c ! 31]"] assms by simp
  have bound: "le_value (take 31 ?c) < 256 ^ 31"
    using le_value_less[of "take 31 ?c"] assms by simp
  show "2 ^ 254 \<le> le_value ?c" "le_value ?c < 2 ^ 255"
    using split bound clamped_high[of "seed ! 31"] by (simp_all add: high)
qed

text \<open>The scalar of a key is never zero modulo the group order.\<close>

lemma dh_scalar_range:
  assumes "dh_scalar secret = Ok a"
  shows "0 < a" and "a < GROUP_ORDER"
proof -
  have len: "length secret = 32" and a: "a = le_value (clamp secret) mod GROUP_ORDER"
    using assms by (simp_all add: dh_scalar_def X25519_KEY_LENGTH_def scalar_mod_order_def split: if_splits)
  note bounds = clamp_value[OF len]
  have "le_value (clamp secret) mod GROUP_ORDER \<noteq> 0"
  proof
    assume "le_value (clamp secret) mod GROUP_ORDER = 0"
    then obtain k where k: "le_value (clamp secret) = GROUP_ORDER * k"
      by blast
    have "coprime (2 ^ 3) GROUP_ORDER"
      unfolding coprime_power_left_iff by (simp add: GROUP_ORDER_def)
    then have "8 dvd k"
      using bounds(1) coprime_dvd_mult_right_iff[of "2 ^ 3" GROUP_ORDER k] by (simp add: k)
    moreover have "k < 8"
    proof (rule ccontr)
      assume "\<not> k < 8"
      then have "GROUP_ORDER * 8 \<le> GROUP_ORDER * k"
        by simp
      then show False
        using bounds(3) group_order_bounds(3) unfolding k by linarith
    qed
    ultimately have "k = 0"
      using nat_dvd_not_less by blast
    then show False
      using bounds(2) by (simp add: k)
  qed
  then show "0 < a"
    by (simp add: a)
  show "a < GROUP_ORDER"
    using group_order_bounds(1) by (simp add: a)
qed

section \<open>Documented behaviour of the curve library\<close>

text \<open>
  For a scalar that is not zero: the Montgomery form of its point lifts to the point whose encoding has
  sign 0, which is the point or its negative; the point is of prime order and has a valid encoding. A
  signature that satisfies the Ed25519 equation is accepted unless its \<open>R\<close> is the identity. The X25519
  public key is the Montgomery form of the clamped multiple of the base point.
\<close>

definition normalized :: "'p curve_lib \<Rightarrow> nat \<Rightarrow> nat" where
  "normalized C a = (if sign_bit (compress_point C (mul_base C a)) then negate_scalar a else a)"

definition curve_ok :: "'p curve_lib \<Rightarrow> kem_lib \<Rightarrow> bool" where
  "curve_ok C K \<longleftrightarrow>
     ms_lib_ok C
   \<and> (\<forall>a. 0 < a \<longrightarrow> a < GROUP_ORDER \<longrightarrow>
        to_edwards C (to_montgomery C (mul_base C a)) = Some (mul_base C (normalized C a))
        \<and> is_torsion_free C (mul_base C a) \<and> length (compress_point C (mul_base C a)) = 32
        \<and> length (to_montgomery C (mul_base C a)) = 32 \<and> to_montgomery C (mul_base C a) \<notin> set SMALL_ORDER_PUBKEYS
        \<and> mont_eq C (to_montgomery C (mul_base C (normalized C a))) (to_montgomery C (mul_base C a))
        \<and> ee_key C (compress_point C (mul_base C a)) = Ok ())
   \<and> (\<forall>a r m. 0 < a \<longrightarrow> a < GROUP_ORDER \<longrightarrow> 0 < r \<longrightarrow> r < GROUP_ORDER \<longrightarrow>
        (let sig = xeddsa_signature C r a (mul_base C a) m in
         ee_sig C sig = Ok () \<and> ee_verify C (compress_point C (mul_base C a)) sig m = Ok ()))
   \<and> (\<forall>seed. length seed = 32 \<longrightarrow> x25519_public K seed = to_montgomery C (mul_base C (scalar_mod_order (clamp seed))))"

lemma curve_okD:
  assumes "curve_ok C K" "0 < a" "a < GROUP_ORDER"
  shows "to_edwards C (to_montgomery C (mul_base C a)) = Some (mul_base C (normalized C a))"
    and "is_torsion_free C (mul_base C a)" and "length (compress_point C (mul_base C a)) = 32"
    and "length (to_montgomery C (mul_base C a)) = 32" and "to_montgomery C (mul_base C a) \<notin> set SMALL_ORDER_PUBKEYS"
    and "mont_eq C (to_montgomery C (mul_base C (normalized C a))) (to_montgomery C (mul_base C a))"
    and "ee_key C (compress_point C (mul_base C a)) = Ok ()"
    and "0 < r \<Longrightarrow> r < GROUP_ORDER \<Longrightarrow> ee_sig C (xeddsa_signature C r a (mul_base C a) m) = Ok ()"
    and "0 < r \<Longrightarrow> r < GROUP_ORDER \<Longrightarrow> ee_verify C (compress_point C (mul_base C a)) (xeddsa_signature C r a (mul_base C a) m) m = Ok ()"
  using assms unfolding curve_ok_def Let_def by blast+

lemma curve_ok_public:
  assumes "curve_ok C K" "dh_scalar secret = Ok a"
  shows "x25519_public K secret = to_montgomery C (mul_base C a)"
proof -
  have "length secret = 32" "a = scalar_mod_order (clamp secret)"
    using assms(2) by (simp_all add: dh_scalar_def X25519_KEY_LENGTH_def split: if_splits)
  then show ?thesis
    using assms(1) unfolding curve_ok_def by blast
qed

lemma normalized_range: "0 < a \<Longrightarrow> a < GROUP_ORDER \<Longrightarrow> 0 < normalized C a \<and> normalized C a < GROUP_ORDER"
  by (simp add: normalized_def negate_scalar_def)

section \<open>The key pair and the published key\<close>

text \<open>The signing scalar generates the canonical lift of the published key.\<close>

lemma key_pair_lift:
  assumes "curve_ok C K" "length secret = 32"
  obtains a where "xeddsa_key_pair C secret = Ok (a, mul_base C a)" "0 < a" "a < GROUP_ORDER"
    "canonical_lift C (x25519_public K secret) = Ok (mul_base C a)" "length (x25519_public K secret) = 32"
proof -
  obtain a where a: "dh_scalar secret = Ok a"
    using assms(2) by (simp add: dh_scalar_def X25519_KEY_LENGTH_def)
  note range = dh_scalar_range[OF a]
  note lib = curve_okD[OF assms(1) range]
  note norm = conjunct1[OF normalized_range[OF range, of C]] conjunct2[OF normalized_range[OF range, of C]]
  note lib' = curve_okD[OF assms(1) norm]
  have "xeddsa_key_pair C secret = Ok (normalized C a, mul_base C (normalized C a))"
    by (simp add: xeddsa_key_pair_def a lib(1) normalized_def)
  moreover have "canonical_lift C (x25519_public K secret) = Ok (mul_base C (normalized C a))"
    by (simp add: canonical_lift_def curve_ok_public[OF assms(1) a] lib(1,5,6) lib'(2))
  ultimately show ?thesis
    using that norm lib(4) by (simp add: curve_ok_public[OF assms(1) a])
qed

lemma x25519_converted:
  assumes "dispatch_sign_view F k = Ok VXeddsa" "x25519_to_public_key F W K k = Ok pk"
  obtains secret where "dispatched_secret F W k = Ok secret" "length secret = 32" "mk_codec pk = X25519 Pub"
    "public_form F W (x25519_to_public_key F W K) k = Ok pk" "public_form F W (x25519_to_public_key F W K) pk = Ok pk"
    "dispatched_bytes F W pk = Ok (x25519_public K secret)"
proof -
  obtain secret where secret: "dispatched_secret F W k = Ok secret" and len: "length secret = 32"
    and pk: "pk = public_multikey (X25519 Pub) k (x25519_public K secret)"
    using assms(2) by (auto simp: x25519_to_public_key_def outcome_simps X25519_LENGTH_def split: if_splits)
  have codec: "mk_codec pk = X25519 Pub" and pair: "public_pair (mk_codec k) (X25519 Pub)"
    using owned_private[OF assms(1) secret] by (simp_all add: pk public_pair_def)
  show ?thesis
    by (rule that[OF secret len codec converted_views[where conv = "x25519_to_public_key F W K", OF assms(2) secret pk pair]])
qed

text \<open>The nonce of a signature; it is zero with negligible probability only.\<close>

definition nonce_ok :: "features \<Rightarrow> wire \<Rightarrow> 'p curve_lib \<Rightarrow> (string, bytes) outcome \<Rightarrow> multikey \<Rightarrow> bytes \<Rightarrow> bool" where
  "nonce_ok F W C z k m \<longleftrightarrow>
     (case and_then (dispatched_secret F W k) (xeddsa_key_pair C) of
        Ok (a, _) \<Rightarrow> (case z of Ok z \<Rightarrow> xeddsa_nonce C a m z \<noteq> 0 | _ \<Rightarrow> True)
      | _ \<Rightarrow> True)"

interpretation xeddsa: signature_view "\<lambda>k m. curve_ok C K \<and> nonce_ok F W C z k m" "\<lambda>k. dispatch_sign_view F k = Ok VXeddsa"
  "x25519_to_public_key F W K" "xeddsa_sign F W C z" "xeddsa_verify F W C K" for F W C K z
proof unfold_locales
  fix k m combined ms
  assume "curve_ok C K \<and> nonce_ok F W C z k m" "xeddsa_sign F W C z k m combined = Ok ms"
  moreover have "ms_lib_ok C"
    using calculation(1) by (simp add: curve_ok_def)
  ultimately show "ms_message ms = (if combined then m else [])"
    by (auto simp: xeddsa_sign_def outcome_simps built_multisigD(1) split: if_splits)
next
  fix k pk m combined ms
  assume ready: "curve_ok C K \<and> nonce_ok F W C z k m" and k: "dispatch_sign_view F k = Ok VXeddsa"
    and conv: "x25519_to_public_key F W K k = Ok pk" and sign: "xeddsa_sign F W C z k m combined = Ok ms"
  from ready have C: "curve_ok C K" and lib: "ms_lib_ok C"
    by (simp_all add: curve_ok_def)
  from k conv obtain secret where secret: "dispatched_secret F W k = Ok secret" and len: "length secret = 32"
    and codec: "mk_codec pk = X25519 Pub" and pk: "public_form F W (x25519_to_public_key F W K) pk = Ok pk"
      "dispatched_bytes F W pk = Ok (x25519_public K secret)"
    by (rule x25519_converted)
  obtain a where a: "xeddsa_key_pair C secret = Ok (a, mul_base C a)" "0 < a" "a < GROUP_ORDER"
    and lift: "canonical_lift C (x25519_public K secret) = Ok (mul_base C a)" "length (x25519_public K secret) = 32"
    using C len by (rule key_pair_lift)
  obtain zs where z: "z = Ok zs" and m: "length m = X25519_KEY_LENGTH"
    and ms: "built_multisig C XeddsaMsig (xeddsa_signature C (xeddsa_nonce C a m zs) a (mul_base C a) m) combined m = Ok ms"
    using sign secret a(1) by (auto simp: xeddsa_sign_def outcome_simps split: if_splits)
  have r: "0 < xeddsa_nonce C a m zs" "xeddsa_nonce C a m zs < GROUP_ORDER"
    using ready group_order_bounds(1) by (auto simp: nonce_ok_def secret a(1) z xeddsa_nonce_def scalar_mod_order_def)
  note ok = curve_okD(3,7)[OF C a(2,3)] curve_okD(8,9)[OF C a(2,3) r]
  have "length (xeddsa_signature C (xeddsa_nonce C a m zs) a (mul_base C a) m) = ED25519_SIGNATURE_LENGTH"
    using curve_okD(3)[OF C r] by (simp add: xeddsa_signature_def Let_def scalar_bytes_def ED25519_SIGNATURE_LENGTH_def)
  then show "xeddsa_verify F W C K pk ms (Some m) = Ok ()"
    using ok m built_multisigD(3)[OF lib ms] by (simp add: xeddsa_verify_def pk codec lift Let_def)
qed (auto simp: xeddsa_verify_def select_message_embedded select_message_detached outcome_simps Let_def cong: if_cong elim: x25519_converted)

section \<open>The table of small-order keys\<close>

text \<open>
  The value of a 32-byte field element as the curve library reads it: the top bit is ignored, and the
  rest counts modulo the field prime.
\<close>

definition FIELD_PRIME :: nat where
  "FIELD_PRIME = 2 ^ 255 - 19"

definition field_value :: "bytes \<Rightarrow> nat" where
  "field_value u = le_value u mod 2 ^ 255 mod FIELD_PRIME"

lemma le_value_zeros: "le_value (replicate n 0) = 0"
  by (induction n) simp_all

lemma top_bit_byte:
  shows "128 \<le> unat (b OR 0x80 :: byte)" and "unat (b OR 0x80) mod 128 = unat b mod 128"
proof -
  have "128 \<le> uint b OR 128"
    using or_greater_eq[of "uint b" 128] by (simp add: or.commute)
  then have "128 \<le> uint (b OR 0x80)"
    by (simp add: unsigned_or_eq)
  then show "128 \<le> unat (b OR 0x80)"
    by (simp flip: nat_uint_eq)
  have "take_bit 7 (b OR 0x80) = take_bit 7 b"
    by (simp add: take_bit_or)
  then have "take_bit 7 (unat (b OR 0x80)) = take_bit 7 (unat b)"
    by (metis unsigned_take_bit_eq)
  then show "unat (b OR 0x80) mod 128 = unat b mod 128"
    by (simp add: take_bit_nat_def)
qed

lemma le_value_last:
  assumes "length u = 32"
  shows "le_value (u[31 := b]) = le_value (take 31 u) + 256 ^ 31 * unat b"
proof -
  have "u[31 := b] = take 31 u @ [b]"
    using assms by (simp add: upd_conv_take_nth_drop)
  then show ?thesis
    using assms by (simp add: le_value_append)
qed

lemma field_value_top_bit:
  assumes "length u = 32"
  shows "field_value (u[31 := u ! 31 OR 0x80]) = field_value u"
proof -
  have "le_value (u[31 := b]) mod (256 ^ 31 * 128) =
      (le_value (take 31 u) + 256 ^ 31 * (unat b mod 128)) mod (256 ^ 31 * 128)" for b
    unfolding le_value_last[OF assms] by (simp only: mult_mod_right mod_add_right_eq)
  from this[of "u ! 31 OR 0x80"] this[of "u ! 31"]
  have "le_value (u[31 := u ! 31 OR 0x80]) mod (256 ^ 31 * 128) = le_value u mod (256 ^ 31 * 128)"
    by (simp only: top_bit_byte(2) list_update_id)
  moreover have "(2 :: nat) ^ 255 = 256 ^ 31 * 128"
    by simp
  ultimately show ?thesis
    by (simp only: field_value_def)
qed

text \<open>
  The integers that the table holds. The comments name other ones: the third is not
  3256062507161957023555920433985600817822942841665119516180377884119074600195, and the last five are
  not \<open>p + 1\<close> to \<open>p + 5\<close>.
\<close>

lemma small_order_values:
  "map le_value SMALL_ORDER_PUBKEYS =
     [0, 1, 980623345161195713399300206674153155257471869382874155730866049868277410784,
      57660055603590814231269750207685380206260238728364407916144581442081828215903,
      FIELD_PRIME - 1, FIELD_PRIME, FIELD_PRIME + 1, FIELD_PRIME + 2]"
  by (simp add: SMALL_ORDER_PUBKEYS_def le_value_zeros FIELD_PRIME_def)

section \<open>A concrete curve library\<close>

text \<open>Scalars serve as points; the Montgomery form is the smaller of a scalar and its negative, shifted.\<close>

definition toy_montgomery :: "nat \<Rightarrow> bytes" where
  "toy_montgomery a = scalar_bytes (min a (GROUP_ORDER - a) + 2 ^ 253)"

definition toy_curve :: "nat curve_lib" where
  "toy_curve =
     \<lparr>ms_try_build = \<lambda>c sig m. Ok \<lparr>ms_codec = c, ms_message = (case m of Some b \<Rightarrow> b | None \<Rightarrow> []), ms_sig = Some sig,
        ms_depth = None, ms_index = None, ms_scheme = None, ms_share = None\<rparr>,
      ms_view = \<lambda>ms. Ok (), ms_sig_bytes = \<lambda>ms. Ok (case ms_sig ms of Some sig \<Rightarrow> sig | None \<Rightarrow> []),
      mul_base = id, compress_point = \<lambda>a. butlast (scalar_bytes a) @ [if GROUP_ORDER < 2 * a then 0x80 else 0],
      to_montgomery = toy_montgomery,
      to_edwards = \<lambda>u. if field_value u \<le> 2 ^ 253 then None else Some (field_value u - 2 ^ 253),
      is_torsion_free = \<lambda>_. True, mont_eq = \<lambda>u v. field_value u = field_value v, sha512 = \<lambda>_. [1],
      ee_key = \<lambda>_. Ok (), ee_sig = \<lambda>_. Ok (), ee_verify = \<lambda>_ _ _. Ok ()\<rparr>"

definition toy_x25519 :: kem_lib where
  "toy_x25519 = toy_kem\<lparr>x25519_public := \<lambda>seed. toy_montgomery (scalar_mod_order (clamp seed))\<rparr>"

lemma toy_curve_simps:
  "mul_base toy_curve = id" "compress_point toy_curve a = butlast (scalar_bytes a) @ [if GROUP_ORDER < 2 * a then 0x80 else 0]"
  "to_montgomery toy_curve = toy_montgomery" "is_torsion_free toy_curve a"
  "to_edwards toy_curve u = (if field_value u \<le> 2 ^ 253 then None else Some (field_value u - 2 ^ 253))"
  "mont_eq toy_curve u v \<longleftrightarrow> field_value u = field_value v" "sha512 toy_curve bs = [1]"
  "ee_key toy_curve u = Ok ()" "ee_sig toy_curve sig = Ok ()" "ee_verify toy_curve u sig m = Ok ()" "ms_lib_ok toy_curve"
  by (simp_all add: toy_curve_def ms_lib_ok_def)

lemma scalar_bytes_length [simp]: "length (scalar_bytes n) = 32"
  by (simp add: scalar_bytes_def)

lemma toy_normalized: "normalized toy_curve a = (if GROUP_ORDER < 2 * a then negate_scalar a else a)"
  by (simp add: normalized_def toy_curve_simps sign_bit_def nth_append)

lemma toy_montgomery_value:
  assumes "0 < a" "a < GROUP_ORDER"
  shows "field_value (toy_montgomery a) = min a (GROUP_ORDER - a) + 2 ^ 253"
    and "le_value (toy_montgomery a) = min a (GROUP_ORDER - a) + 2 ^ 253" and "min a (GROUP_ORDER - a) < 2 ^ 252"
proof -
  have "2 * min a (GROUP_ORDER - a) \<le> GROUP_ORDER"
    unfolding min_def by (split if_split) arith
  then show less: "min a (GROUP_ORDER - a) < 2 ^ 252"
    using group_order_bounds(2) by simp
  then show v: "le_value (toy_montgomery a) = min a (GROUP_ORDER - a) + 2 ^ 253"
    unfolding toy_montgomery_def by (intro le_value_scalar_bytes) simp
  show "field_value (toy_montgomery a) = min a (GROUP_ORDER - a) + 2 ^ 253"
    unfolding field_value_def v using less by (simp add: FIELD_PRIME_def)
qed

lemma toy_curve_ok: "curve_ok toy_curve toy_x25519"
proof -
  have "to_edwards toy_curve (toy_montgomery a) = Some (normalized toy_curve a)"
      "toy_montgomery a \<notin> set SMALL_ORDER_PUBKEYS"
      "field_value (toy_montgomery (normalized toy_curve a)) = field_value (toy_montgomery a)"
    if range: "0 < a" "a < GROUP_ORDER" for a
  proof -
    note v = toy_montgomery_value[OF range]
    have n: "normalized toy_curve a = min a (GROUP_ORDER - a)"
      using range by (auto simp: toy_normalized negate_scalar_def min_def)
    show "to_edwards toy_curve (toy_montgomery a) = Some (normalized toy_curve a)"
      unfolding toy_curve_simps v(1) n using range by simp
    have "le_value (toy_montgomery a) \<notin> set (map le_value SMALL_ORDER_PUBKEYS)"
      unfolding small_order_values v(2) using v(3) range by (auto simp: FIELD_PRIME_def)
    then show "toy_montgomery a \<notin> set SMALL_ORDER_PUBKEYS"
      by auto
    show "field_value (toy_montgomery (normalized toy_curve a)) = field_value (toy_montgomery a)"
      using range by (simp add: n toy_montgomery_def min_def)
  qed
  then show ?thesis
    by (simp add: curve_ok_def toy_curve_simps(1-4,6-) toy_x25519_def) (simp add: toy_montgomery_def)
qed

definition example_secret :: bytes where
  "example_secret = replicate 32 0"

lemma example_key_pair:
  "xeddsa_key_pair toy_curve example_secret = Ok (110969271109489414143407751163534593972, 110969271109489414143407751163534593972)"
proof -
  have "clamp example_secret = replicate 31 0 @ [64]"
    by (simp add: clamp_def example_secret_def numeral_eq_Suc)
  then have "scalar_mod_order (clamp example_secret) = 2 ^ 254 mod GROUP_ORDER"
    by (simp add: scalar_mod_order_def le_value_append le_value_zeros)
  then have "dh_scalar example_secret = Ok (GROUP_ORDER - 110969271109489414143407751163534593972)"
    by (simp add: dh_scalar_def X25519_KEY_LENGTH_def example_secret_def GROUP_ORDER_def)
  then show ?thesis
    by (simp add: xeddsa_key_pair_def toy_curve_simps toy_montgomery_value GROUP_ORDER_def negate_scalar_def sign_bit_def nth_append)
qed

section \<open>Properties\<close>

text \<open>
  C20: The signing scalar of a 32-byte secret is not zero modulo the group order, and the point it generates is
  the canonical lift of the published X25519 key, so that the key passes every check of the verifier.
\<close>

theorem xeddsa_key_pair_is_published:
  assumes "curve_ok C K" and "xeddsa_key_pair C secret = Ok (a, A)"
  shows "0 < a \<and> a < GROUP_ORDER \<and> A = mul_base C a \<and> canonical_lift C (x25519_public K secret) = Ok A"
proof -
  have "length secret = 32"
    using assms(2) by (auto simp: xeddsa_key_pair_def dh_scalar_def X25519_KEY_LENGTH_def split: if_splits)
  with assms(1) obtain a' where "xeddsa_key_pair C secret = Ok (a', mul_base C a')" "0 < a'" "a' < GROUP_ORDER"
    "canonical_lift C (x25519_public K secret) = Ok (mul_base C a')"
    by (rule key_pair_lift)
  then show ?thesis
    using assms(2) by simp
qed

theorem xeddsa_key_pair_is_published_witness:
  "canonical_lift toy_curve (x25519_public toy_x25519 example_secret) = Ok 110969271109489414143407751163534593972"
  using xeddsa_key_pair_is_published[OF toy_curve_ok example_key_pair] by blast

text \<open>
  The verifier takes a non-canonical encoding of a public key: with the top bit of the last byte set,
  the key verifies the same signatures.
\<close>

lemma xeddsa_takes_noncanonical_key:
  assumes "\<And>u v. mont_eq C u v \<longleftrightarrow> field_value u = field_value v"
    and "\<And>u v. field_value u = field_value v \<Longrightarrow> to_edwards C u = to_edwards C v"
    and "mk_codec k = X25519 Pub" "FCurve25519 \<in> F" "key_data k = Ok u" "length u = 32" "canonical_lift C u = Ok A"
    and "k' = k\<lparr>mk_attributes := (mk_attributes k)(KeyData \<mapsto> u[31 := u ! 31 OR 0x80])\<rparr>"
  shows "xeddsa_verify F W C K k' ms m = xeddsa_verify F W C K k ms m \<and> (u ! 31 < 128 \<longrightarrow> key_data k' \<noteq> key_data k)"
proof (intro conjI impI)
  let ?u = "u[31 := u ! 31 OR 0x80]"
  have small: "v ! 31 < 128" if "v \<in> set SMALL_ORDER_PUBKEYS" for v
    using that by (auto simp: SMALL_ORDER_PUBKEYS_def)
  have top: "128 \<le> u ! 31 OR 0x80"
    using top_bit_byte(1)[of "u ! 31"] by (simp add: word_le_nat_alt)
  then have "?u \<notin> set SMALL_ORDER_PUBKEYS"
    using small[of ?u] assms(6) by force
  then have "canonical_lift C ?u = Ok A"
    using assms(7) assms(2)[OF field_value_top_bit[OF assms(6)]] field_value_top_bit[OF assms(6)]
    by (auto simp: canonical_lift_def outcome_simps assms(1) split: if_splits)
  moreover have form: "public_form F W conv k1 = Ok k1" "dispatched_bytes F W k1 = key_data k1"
    if "mk_codec k1 = X25519 Pub" for k1 conv
    using that assms(4) by (simp_all add: public_form_def dispatched_bytes_def attr_view_def data_view_def
        dispatch_data_view_def dispatch_attr_view_def arm_def x25519_view_def plain_view_def)
  moreover have "key_data k' = Ok ?u"
    by (simp add: assms(8) key_data_def get_attr_def)
  ultimately show "xeddsa_verify F W C K k' ms m = xeddsa_verify F W C K k ms m"
    using assms(3,5,6,7) by (simp add: xeddsa_verify_def assms(8))
  assume low: "u ! 31 < 128"
  show "key_data k' \<noteq> key_data k"
  proof
    assume "key_data k' = key_data k"
    then have "?u ! 31 = u ! 31"
      using assms(5) by (simp add: assms(8) key_data_def get_attr_def)
    then show False
      using top low assms(6) by simp
  qed
qed

lemma toy_lift: "canonical_lift toy_curve (toy_montgomery 5) = Ok 5"
proof -
  have a: "0 < (5 :: nat)" "5 < GROUP_ORDER"
    by (simp_all add: GROUP_ORDER_def)
  have "normalized toy_curve 5 = 5"
    by (simp add: toy_normalized GROUP_ORDER_def)
  then show ?thesis
    using curve_okD(1,2,5,6)[OF toy_curve_ok a] by (simp add: canonical_lift_def toy_curve_simps)
qed

definition example_x25519 :: "bytes \<Rightarrow> multikey" where
  "example_x25519 u = \<lparr>mk_codec = X25519 Pub, mk_comment = [], mk_attributes = [KeyData \<mapsto> u]\<rparr>"

definition example_xeddsa_sig :: multisig where
  "example_xeddsa_sig = \<lparr>ms_codec = XeddsaMsig, ms_message = replicate 32 1, ms_sig = Some (replicate 64 2),
     ms_depth = None, ms_index = None, ms_scheme = None, ms_share = None\<rparr>"

lemma xeddsa_takes_noncanonical_key_witness:
  "xeddsa_verify {FCurve25519} leb_wire toy_curve toy_x25519
     (example_x25519 ((toy_montgomery 5)[31 := toy_montgomery 5 ! 31 OR 0x80])) example_xeddsa_sig None =
   xeddsa_verify {FCurve25519} leb_wire toy_curve toy_x25519 (example_x25519 (toy_montgomery 5)) example_xeddsa_sig None"
  by (rule conjunct1[OF xeddsa_takes_noncanonical_key, OF _ _ _ _ _ _ toy_lift])
    (simp_all add: toy_curve_simps example_x25519_def key_data_def get_attr_def toy_montgomery_def)

end
