(* ===== verification/Mk_Signing.thy ===== *)
theory Mk_Signing
  imports Mk_Hybrid Mk_Xmss Mk_Lamport Mk_Xeddsa Mk_Bls Mk_Merkle
begin

text \<open>
  The signing views together: the module that the dispatchers choose for a key
  (\<^verbatim>\<open>dispatch_sign_view\<close> and \<^verbatim>\<open>dispatch_verify_view\<close>, \<^verbatim>\<open>src/views/dispatch.rs\<close>) with its operations,
  and what signing and verifying through the dispatchers gives.
\<close>

section \<open>The operations of a module\<close>

record 'p sign_libs =
  sl_hybrid :: hybrid_lib
  sl_xmss :: xmss_lib
  sl_lamport :: lamport_lib
  sl_merkle :: merkle_lib
  sl_curve :: "'p curve_lib"
  sl_kem :: kem_lib
  sl_bls :: bls_lib
  sl_bls_sign :: bls_sign_lib
  sl_scheme :: "byte option"  \<comment> \<open>the scheme argument of \<^verbatim>\<open>sign\<close>, which only the BLS view reads\<close>
  sl_random :: "(string, bytes) outcome"  \<comment> \<open>the random bytes of an XEdDSA signature\<close>

record signing_ops =
  sv_conv :: "multikey \<Rightarrow> multikey res"
  sv_sign :: "multikey \<Rightarrow> bytes \<Rightarrow> bool \<Rightarrow> multisig res"
  sv_verify :: "multikey \<Rightarrow> multisig \<Rightarrow> bytes option \<Rightarrow> unit res"
  sv_fingerprint :: "(codec \<Rightarrow> bytes \<Rightarrow> nat \<Rightarrow> (lib_error, bytes) outcome) \<Rightarrow> multikey \<Rightarrow> codec \<Rightarrow> bytes res"

fun signing_view :: "features \<Rightarrow> wire \<Rightarrow> 'p sign_libs \<Rightarrow> view \<Rightarrow> signing_ops option" where
  "signing_view F W L VEd25519 = Some \<lparr>sv_conv = ed25519_to_public_key F W (sl_hybrid L), sv_sign = ed25519_sign F W (sl_hybrid L), sv_verify = ed25519_verify F W (sl_hybrid L),
     sv_fingerprint = \<lambda>mhash. ed25519_fingerprint mhash F W (sl_hybrid L)\<rparr>"
| "signing_view F W L VSecp256K1 = Some \<lparr>sv_conv = secp256k1_to_public_key F W (sl_hybrid L), sv_sign = secp256k1_sign F W (sl_hybrid L), sv_verify = secp256k1_verify F W (sl_hybrid L),
     sv_fingerprint = \<lambda>mhash. secp256k1_fingerprint mhash F W (sl_hybrid L)\<rparr>"
| "signing_view F W L VNistP = Some \<lparr>sv_conv = nist_to_public_key F W (sl_hybrid L), sv_sign = nist_sign F W (sl_hybrid L), sv_verify = nist_verify F W (sl_hybrid L),
     sv_fingerprint = \<lambda>mhash. nist_fingerprint mhash F W (sl_hybrid L)\<rparr>"
| "signing_view F W L VRsa = Some \<lparr>sv_conv = rsa_to_public_key F W (sl_hybrid L), sv_sign = rsa_view_sign F W (sl_hybrid L), sv_verify = rsa_view_verify F W (sl_hybrid L),
     sv_fingerprint = \<lambda>mhash. rsa_fingerprint mhash F W (sl_hybrid L)\<rparr>"
| "signing_view F W L VMlDsa = Some \<lparr>sv_conv = ml_dsa_to_public_key F W (sl_hybrid L), sv_sign = ml_dsa_sign F W (sl_hybrid L), sv_verify = ml_dsa_verify F W (sl_hybrid L),
     sv_fingerprint = \<lambda>mhash. ml_dsa_fingerprint mhash F W (sl_hybrid L)\<rparr>"
| "signing_view F W L VSlhDsa = Some \<lparr>sv_conv = slh_dsa_to_public_key F W (sl_hybrid L), sv_sign = slh_dsa_sign F W (sl_hybrid L), sv_verify = slh_dsa_verify F W (sl_hybrid L),
     sv_fingerprint = \<lambda>mhash. slh_dsa_fingerprint mhash F W (sl_hybrid L)\<rparr>"
| "signing_view F W L VFnDsa = Some \<lparr>sv_conv = fn_dsa_to_public_key F W (sl_hybrid L), sv_sign = fn_dsa_sign F W (sl_hybrid L), sv_verify = fn_dsa_verify F W (sl_hybrid L),
     sv_fingerprint = \<lambda>mhash. fn_dsa_fingerprint mhash F W (sl_hybrid L)\<rparr>"
| "signing_view F W L VMayo = Some \<lparr>sv_conv = mayo_to_public_key F W (sl_hybrid L), sv_sign = mayo_view_sign F W (sl_hybrid L), sv_verify = mayo_view_verify F W (sl_hybrid L),
     sv_fingerprint = \<lambda>mhash. mayo_fingerprint mhash F W (sl_hybrid L)\<rparr>"
| "signing_view F W L VEd25519Mldsa65 = Some \<lparr>sv_conv = ed25519_mldsa65_to_public_key F W (sl_hybrid L), sv_sign = ed25519_mldsa65_sign F W (sl_hybrid L), sv_verify = ed25519_mldsa65_verify F W (sl_hybrid L),
     sv_fingerprint = \<lambda>mhash. ed25519_mldsa65_fingerprint mhash F W (sl_hybrid L)\<rparr>"
| "signing_view F W L VEd25519Fndsa512 = Some \<lparr>sv_conv = ed25519_fndsa512_to_public_key F W (sl_hybrid L), sv_sign = ed25519_fndsa512_sign F W (sl_hybrid L), sv_verify = ed25519_fndsa512_verify F W (sl_hybrid L),
     sv_fingerprint = \<lambda>mhash. ed25519_fndsa512_fingerprint mhash F W (sl_hybrid L)\<rparr>"
| "signing_view F W L VEd25519Mayo2 = Some \<lparr>sv_conv = ed25519_mayo2_to_public_key F W (sl_hybrid L), sv_sign = ed25519_mayo2_sign F W (sl_hybrid L), sv_verify = ed25519_mayo2_verify F W (sl_hybrid L),
     sv_fingerprint = \<lambda>mhash. ed25519_mayo2_fingerprint mhash F W (sl_hybrid L)\<rparr>"
| "signing_view F W L VBlsG1Mldsa65 = Some \<lparr>sv_conv = bls12381_g1_mldsa65_to_public_key F W (sl_hybrid L), sv_sign = bls12381_g1_mldsa65_sign F W (sl_hybrid L), sv_verify = bls12381_g1_mldsa65_verify F W (sl_hybrid L),
     sv_fingerprint = \<lambda>mhash. bls12381_g1_mldsa65_fingerprint mhash F W (sl_hybrid L)\<rparr>"
| "signing_view F W L VBlsG1Fndsa512 = Some \<lparr>sv_conv = bls12381_g1_fndsa512_to_public_key F W (sl_hybrid L), sv_sign = bls12381_g1_fndsa512_sign F W (sl_hybrid L), sv_verify = bls12381_g1_fndsa512_verify F W (sl_hybrid L),
     sv_fingerprint = \<lambda>mhash. bls12381_g1_fndsa512_fingerprint mhash F W (sl_hybrid L)\<rparr>"
| "signing_view F W L VBlsG1Mayo1 = Some \<lparr>sv_conv = bls12381_g1_mayo1_to_public_key F W (sl_hybrid L), sv_sign = bls12381_g1_mayo1_sign F W (sl_hybrid L), sv_verify = bls12381_g1_mayo1_verify F W (sl_hybrid L),
     sv_fingerprint = \<lambda>mhash. bls12381_g1_mayo1_fingerprint mhash F W (sl_hybrid L)\<rparr>"
| "signing_view F W L VBlsG1Mayo2 = Some \<lparr>sv_conv = bls12381_g1_mayo2_to_public_key F W (sl_hybrid L), sv_sign = bls12381_g1_mayo2_sign F W (sl_hybrid L), sv_verify = bls12381_g1_mayo2_verify F W (sl_hybrid L),
     sv_fingerprint = \<lambda>mhash. bls12381_g1_mayo2_fingerprint mhash F W (sl_hybrid L)\<rparr>"
| "signing_view F W L VXmss = Some \<lparr>sv_conv = xmss_to_public_key F W (sl_xmss L), sv_sign = xmss_sign F W (sl_xmss L), sv_verify = xmss_verify F W (sl_xmss L),
     sv_fingerprint = \<lambda>mhash. xmss_fingerprint mhash F W (sl_xmss L)\<rparr>"
| "signing_view F W L VLamport = Some \<lparr>sv_conv = lamport_to_public_key F W (sl_lamport L), sv_sign = lamport_sign F W (sl_lamport L), sv_verify = lamport_verify F W (sl_lamport L),
     sv_fingerprint = \<lambda>mhash. lamport_fingerprint mhash F W (sl_lamport L)\<rparr>"
| "signing_view F W L VLamportMerkle = Some \<lparr>sv_conv = merkle_to_public_key F W (sl_merkle L), sv_sign = merkle_sign, sv_verify = merkle_verify F W (sl_merkle L),
     sv_fingerprint = \<lambda>mhash. merkle_fingerprint mhash F W (sl_merkle L)\<rparr>"
| "signing_view F W L VXeddsa = Some \<lparr>sv_conv = x25519_to_public_key F W (sl_kem L), sv_sign = xeddsa_sign F W (sl_curve L) (sl_random L), sv_verify = xeddsa_verify F W (sl_curve L) (sl_kem L),
     sv_fingerprint = \<lambda>mhash. x25519_fingerprint mhash F W (sl_kem L)\<rparr>"
| "signing_view F W L VBls12381 = Some \<lparr>sv_conv = bls_to_public_key F W (sl_bls L), sv_sign = bls_sign F W (sl_bls L) (sl_bls_sign L) (sl_scheme L), sv_verify = bls_verify F W (sl_bls L) (sl_bls_sign L),
     sv_fingerprint = \<lambda>mhash. bls_fingerprint mhash F W (sl_bls L)\<rparr>"
| "signing_view F W L _ = None"

definition sign_libs_ok :: "'p sign_libs \<Rightarrow> bool" where
  "sign_libs_ok L \<longleftrightarrow>
     hybrid_lib_ok (sl_hybrid L) \<and> xmss_lib_ok (sl_xmss L) \<and> lamport_lib_ok (sl_lamport L)
     \<and> curve_ok (sl_curve L) (sl_kem L) \<and> bls_sign_lib_ok (sl_bls L) (sl_bls_sign L)"

text \<open>The one event that signing leaves to chance: the nonce of an XEdDSA signature is not zero.\<close>

definition no_zero_nonce :: "features \<Rightarrow> wire \<Rightarrow> 'p sign_libs \<Rightarrow> view \<Rightarrow> multikey \<Rightarrow> bytes \<Rightarrow> bool" where
  "no_zero_nonce F W L v k m \<longleftrightarrow> (if v = VXeddsa then nonce_ok F W (sl_curve L) (sl_random L) k m else True)"

section \<open>The module of a converted key\<close>

lemma merkle_dispatched:
  "merkle_to_public_key F W M k =
     and_then (dispatched_secret F W k) (\<lambda>secret.
     and_then (wire_depth_at secret 1) (\<lambda>depth.
     and_then (check_depth_attribute k depth) (\<lambda>_.
     and_then (merkle_public_from_private M (mk_codec k) secret) (\<lambda>pub.
     and_then (merkle_public_codec (mk_codec k)) (\<lambda>c.
     Ok (built_key (with_depth (with_key_bytes (with_comment (builder_new c) (mk_comment k)) pub) depth)))))))"
  by (simp add: merkle_to_public_key_def dispatched_secret_def)

lemmas conversion_defs =
  ed25519_to_public_key_def secp256k1_to_public_key_def nist_to_public_key_def rsa_to_public_key_def
  ml_dsa_to_public_key_def slh_dsa_to_public_key_def fn_dsa_to_public_key_def mayo_to_public_key_def
  hybrid_to_public_key_def ed25519_mldsa65_to_public_key_def ed25519_fndsa512_to_public_key_def ed25519_mayo2_to_public_key_def
  bls12381_g1_mldsa65_to_public_key_def bls12381_g1_fndsa512_to_public_key_def bls12381_g1_mayo1_to_public_key_def bls12381_g1_mayo2_to_public_key_def
  xmss_to_public_key_def lamport_to_public_key_def merkle_dispatched x25519_to_public_key_def

lemma converted_secret:
  assumes "signing_view F W L v = Some V" "sv_conv V k = Ok pk"
  shows "\<exists>secret. dispatched_secret F W k = Ok secret"
proof (cases "v = VBls12381")
  case True
  then have "bls_to_public_key F W (sl_bls L) k = Ok pk"
    using assms by auto
  then show ?thesis
    by (rule bls_secret_dispatched)
next
  case False
  then show ?thesis
    using assms by (cases v) (auto simp: conversion_defs outcome_simps)
qed

lemma converted_pair:
  assumes "signing_view F W L v = Some V" "dispatch_sign_view F k = Ok v" "sv_conv V k = Ok pk"
  shows "public_pair (mk_codec k) (mk_codec pk)"
proof -
  obtain secret where secret: "dispatched_secret F W k = Ok secret"
    using converted_secret[OF assms(1,3)] by blast
  note codec = owned_private[OF assms(2) secret]
  show ?thesis
    using assms codec secret
    by (cases v) (auto dest: bls_pair simp: conversion_defs outcome_simps public_pair_def hybrid_defs
        ml_dsa_seed_eq_Ok slh_dsa_set_eq_Ok mayo_seed_eq_Ok xmss_public_codec_def lamport_public_codec_def merkle_public_codec_def
        built_key_defs Let_def split: if_splits option.splits)
qed

lemma pair_dispatch:
  assumes "public_pair (mk_codec k) (mk_codec pk)" "dispatch_sign_view F k = Ok v"
  shows "dispatch_verify_view F k = Ok v" and "dispatch_verify_view F pk = Ok v"
proof -
  show "dispatch_verify_view F k = Ok v"
    using assms(2) by (cases "mk_codec k") (simp_all add: dispatch_sign_view_def dispatch_verify_view_def)
  show "dispatch_verify_view F pk = Ok v"
    using assms by (cases "mk_codec k")
      (auto simp: public_pair_def dispatch_sign_view_def dispatch_verify_view_def arm_def key_part_defs split: if_splits)
qed

section \<open>The contract\<close>

text \<open>
  The view of Merkle-tree keys refuses to sign without handing out the advanced key, so it only owes the laws of
  verifying; what it signs with \<^verbatim>\<open>sign_advance\<close> is the matter of \<open>Mk_Merkle\<close>.
\<close>

interpretation lamport_merkle: signature_view "\<lambda>_ _. True" "\<lambda>k. dispatch_sign_view F k = Ok VLamportMerkle"
  "merkle_to_public_key F W M" merkle_sign "merkle_verify F W M" for F W M
proof unfold_locales
  fix k pk ms msg
  assume k: "dispatch_sign_view F k = Ok VLamportMerkle" and conv: "merkle_to_public_key F W M k = Ok pk"
  obtain secret where secret: "dispatched_secret F W k = Ok secret"
    using conv by (auto simp: merkle_dispatched outcome_simps)
  have "public_pair (mk_codec k) (mk_codec pk)"
    using conv owned_private[OF k secret]
    by (auto simp: merkle_dispatched public_pair_def merkle_public_codec_def built_key_defs Let_def outcome_simps)
  then have "merkle_public_form F W M k = Ok pk" "merkle_public_form F W M pk = Ok pk"
    using public_pair_views(1,2)[OF secret, where conv = "merkle_to_public_key F W M" and pk = pk] conv
    by (simp_all add: public_form_def merkle_public_form_def)
  then show "merkle_verify F W M k ms msg = merkle_verify F W M pk ms msg"
    by (simp add: merkle_verify_def)
qed (auto simp: merkle_sign_def merkle_verify_def)

lemma signature_view_weaken:
  "signature_view ready owns conv sign verify \<Longrightarrow> (\<And>k m. ready' k m \<Longrightarrow> ready k m) \<Longrightarrow>
   signature_view ready' owns conv sign verify"
  unfolding signature_view_def by blast

lemmas signing_axioms =
  signature_view_weaken[OF ed25519.signature_view_axioms]
  signature_view_weaken[OF secp256k1.signature_view_axioms]
  signature_view_weaken[OF nist.signature_view_axioms]
  signature_view_weaken[OF rsa.signature_view_axioms]
  signature_view_weaken[OF ml_dsa.signature_view_axioms]
  signature_view_weaken[OF slh_dsa.signature_view_axioms]
  signature_view_weaken[OF fn_dsa.signature_view_axioms]
  signature_view_weaken[OF mayo.signature_view_axioms]
  signature_view_weaken[OF ed25519_mldsa65.signature_view_axioms]
  signature_view_weaken[OF ed25519_fndsa512.signature_view_axioms]
  signature_view_weaken[OF ed25519_mayo2.signature_view_axioms]
  signature_view_weaken[OF bls12381_g1_mldsa65.signature_view_axioms]
  signature_view_weaken[OF bls12381_g1_fndsa512.signature_view_axioms]
  signature_view_weaken[OF bls12381_g1_mayo1.signature_view_axioms]
  signature_view_weaken[OF bls12381_g1_mayo2.signature_view_axioms]
  signature_view_weaken[OF xmss.signature_view_axioms]
  signature_view_weaken[OF lamport.signature_view_axioms]
  signature_view_weaken[OF lamport_merkle.signature_view_axioms]
  signature_view_weaken[OF xeddsa.signature_view_axioms]
  signature_view_weaken[OF bls12381.signature_view_axioms]

lemma signing_contract:
  assumes "sign_libs_ok L" "signing_view F W L v = Some V"
  shows "signature_view (no_zero_nonce F W L v) (\<lambda>k. dispatch_sign_view F k = Ok v) (sv_conv V) (sv_sign V) (sv_verify V)"
  using assms
  by (cases v) (auto simp: no_zero_nonce_def sign_libs_ok_def hybrid_lib_okD(1) intro!: signing_axioms)

section \<open>Keys with the same codec and secret\<close>

lemma same_dispatch:
  assumes "mk_codec k' = mk_codec k"
  shows "dispatch_sign_view F k' = dispatch_sign_view F k" and "dispatch_data_view F k' = dispatch_data_view F k"
  unfolding dispatch_sign_view_def dispatch_data_view_def assms by (rule refl)+

lemma dispatched_key_data: "dispatched_secret F W k = Ok secret \<Longrightarrow> mk_attributes k KeyData = Some secret"
  by (auto simp: dispatched_secret_def data_view_def outcome_simps dest: secret_bytes_view_methods)

lemma bare_secret:
  assumes "dispatched_secret F W k = Ok secret0" "mk_codec k' = mk_codec k"
    and "mk_attributes k' KeyData = Some secret" "mk_attributes k' KeyIsEncrypted = None"
  shows "dispatched_secret F W k' = Ok secret"
proof -
  obtain v where v: "dispatch_data_view F k = Ok v" "secret_bytes (view_methods W v k) = Ok secret0"
    using assms(1) by (auto simp: dispatched_secret_def data_view_def outcome_simps)
  have "is_secret_key (view_methods W v k')"
    using secret_bytes_view_methods[OF v(2)] is_secret_key_codec[OF assms(2)] by blast
  moreover have "\<not> is_encrypted (view_methods W v k')"
    by (rule flag_absent[OF assms(4)])
  moreover have "dispatch_data_view F k' = Ok v"
    using v(1) same_dispatch(2)[OF assms(2)] by simp
  ultimately show ?thesis
    using assms(3) secret_bytes_of_secret_key[of W v k']
    by (simp add: dispatched_secret_def data_view_def key_data_def get_attr_def)
qed


text \<open>
  Converting is a function of codec, secret and comment, but for the shares of BLS keys and for Merkle-tree keys,
  whose views read further attributes.
\<close>

lemma same_public:
  assumes "signing_view F W L v = Some V" "sv_conv V k = Ok pk"
    and "mk_codec k' = mk_codec k" "dispatched_secret F W k' = dispatched_secret F W k"
    and "\<And>g. mk_codec k \<noteq> Bls12381 g BPrivShare" and "v \<noteq> VLamportMerkle"
  shows "sv_conv V k' = Ok (pk\<lparr>mk_comment := mk_comment k'\<rparr>)"
proof (cases "v = VBls12381")
  case True
  then have "bls_to_public_key F W (sl_bls L) k = Ok pk" and V: "sv_conv V = bls_to_public_key F W (sl_bls L)"
    using assms by auto
  then have "bls_to_public_key F W (sl_bls L) k' = Ok (pk\<lparr>mk_comment := mk_comment k'\<rparr>)"
    using assms(3,4,5) unfolding bls_to_public_key_def dispatched_secret_def
    by (cases "mk_codec k") (auto simp: outcome_simps built_key_defs split: bpart.splits)
  then show ?thesis
    using V by simp
next
  case False
  obtain secret where secret: "dispatched_secret F W k = Ok secret" "dispatched_secret F W k' = Ok secret"
    using converted_secret[OF assms(1,2)] assms(4) by auto
  show ?thesis
    using False assms(1,2,6)
    by (cases v) (auto simp: conversion_defs secret assms(3) outcome_simps public_multikey_def built_key_defs split: if_splits option.splits)
qed

section \<open>Concrete libraries\<close>

definition toy_lamport :: lamport_lib where
  "toy_lamport =
     \<lparr>ms_try_build = toy_ms_build, ms_view = \<lambda>ms. Ok (), ms_sig_bytes = toy_ms_bytes,
      lm_secret = \<lambda>d sk. Ok (), lm_public = \<lambda>d sk. [1], lm_sign = \<lambda>d sk m. Ok (toy_tag 8 m), lm_key = \<lambda>d pk. Ok (),
      lm_sig = \<lambda>d sig. Ok (), lm_verify = \<lambda>d pk. toy_check 8, lm_split = \<lambda>d sk t n. Ok (replicate n sk),
      lm_share = \<lambda>d s. Ok (), lm_share_sign = \<lambda>d s m. Ok (toy_tag 8 m)\<rparr>"

definition toy_libs :: "nat sign_libs" where
  "toy_libs = \<lparr>sl_hybrid = toy_hybrid, sl_xmss = toy_xmss, sl_lamport = toy_lamport, sl_merkle = toy_merkle,
     sl_curve = toy_curve, sl_kem = toy_x25519, sl_bls = toy_bls_points, sl_bls_sign = toy_bls_sign, sl_scheme = Some 0, sl_random = Ok (replicate 64 0)\<rparr>"

lemma toy_libs_ok: "sign_libs_ok toy_libs"
proof -
  have "lamport_lib_ok toy_lamport"
    by (simp add: lamport_lib_ok_def ms_lib_ok_def toy_lamport_def toy_ms_build_def toy_ms_bytes_def list_all_length)
  then show ?thesis
    by (simp add: sign_libs_ok_def toy_libs_def toy_hybrid_ok toy_xmss_ok toy_curve_ok toy_bls_sign_ok)
qed

section \<open>Properties\<close>

text \<open>
  C2: Whatever signing view the dispatcher chooses for a key: a signature verifies, with the key itself and
  with the public key it converts to, through the view that the verify dispatcher chooses for them; without
  the message it verifies exactly if the message was embedded and is not empty.
\<close>

theorem sign_then_verify:
  assumes "sign_libs_ok L" and "dispatch_sign_view F k = Ok v" and "signing_view F W L v = Some V"
    and "sv_conv V k = Ok pk" and "sv_sign V k m combined = Ok ms" and "no_zero_nonce F W L v k m"
  shows "dispatch_verify_view F pk = Ok v \<and> dispatch_verify_view F k = Ok v
    \<and> sv_verify V pk ms (Some m) = Ok () \<and> sv_verify V k ms (Some m) = Ok ()
    \<and> (sv_verify V pk ms None = Ok () \<longleftrightarrow> combined \<and> m \<noteq> [])
    \<and> (sv_verify V k ms None = Ok () \<longleftrightarrow> combined \<and> m \<noteq> [])"
proof -
  note pair = converted_pair[OF assms(3,2,4)]
  note view = signing_contract[OF assms(1,3)]
  have "dispatch_verify_view F pk = Ok v \<and> dispatch_verify_view F k = Ok v"
    using pair_dispatch[OF pair assms(2)] by blast
  then show ?thesis
    using signature_view.verifies[OF view assms(6,2,4,5)] by blast
qed

definition example_hybrid_key :: multikey where
  "example_hybrid_key = \<lparr>mk_codec = Ed25519Mldsa65 SPriv, mk_comment = [], mk_attributes = [KeyData \<mapsto> replicate 64 0]\<rparr>"

definition example_hybrid_public :: multikey where
  "example_hybrid_public = public_multikey (Ed25519Mldsa65 SPub) example_hybrid_key (replicate 32 0 @ replicate 1952 3)"

definition example_hybrid_sig :: multisig where
  "example_hybrid_sig = \<lparr>ms_codec = Ed25519Mldsa65 SMsig, ms_message = [1, 2],
     ms_sig = Some (toy_tag 64 [1, 2] @ toy_tag 3309 ([1, 2] @ toy_tag 64 [1, 2])), ms_depth = None, ms_index = None, ms_scheme = None, ms_share = None\<rparr>"

lemma example_hybrid_views:
  "attr_view {FCurve25519, FMlDsa} W example_hybrid_key = Ok (ed25519_mldsa65_view W example_hybrid_key)"
  "is_secret_key (ed25519_mldsa65_view W example_hybrid_key)"
  "dispatched_secret {FCurve25519, FMlDsa} W example_hybrid_key = Ok (replicate 64 0)"
  "dispatch_sign_view {FCurve25519, FMlDsa} example_hybrid_key = Ok VEd25519Mldsa65"
  by (simp_all add: example_hybrid_key_def attr_view_def dispatched_secret_def data_view_def dispatch_attr_view_def
      dispatch_data_view_def dispatch_sign_view_def arm_def spart_key_def ed25519_mldsa65_view_def plain_view_def
      key_data_def get_attr_def)

lemma example_hybrid_conv:
  "ed25519_mldsa65_to_public_key {FCurve25519, FMlDsa} W toy_hybrid example_hybrid_key = Ok example_hybrid_public"
  by (simp add: ed25519_mldsa65_to_public_key_def hybrid_to_public_key_def example_hybrid_views ed25519_mldsa65_def
      ed25519_component_def mldsa65_component_def hybrid_public_bytes_def example_hybrid_public_def toy_hybrid_def)

lemma example_hybrid_sign:
  "ed25519_mldsa65_sign {FCurve25519, FMlDsa} W toy_hybrid example_hybrid_key [1, 2] True = Ok example_hybrid_sig"
  by (simp add: ed25519_mldsa65_sign_def hybrid_sign_def sign_with_def example_hybrid_views ed25519_mldsa65_def
      ed25519_component_def mldsa65_component_def hybrid_sign_bytes_def built_multisig_def toy_hybrid_def toy_ms_build_def
      example_hybrid_sig_def)

theorem sign_then_verify_witness:
  "ed25519_mldsa65_verify {FCurve25519, FMlDsa} leb_wire toy_hybrid example_hybrid_public example_hybrid_sig None = Ok ()"
proof -
  let ?F = "{FCurve25519, FMlDsa}"
  let ?V = "\<lparr>sv_conv = ed25519_mldsa65_to_public_key ?F leb_wire (sl_hybrid toy_libs), sv_sign = ed25519_mldsa65_sign ?F leb_wire (sl_hybrid toy_libs),
      sv_verify = ed25519_mldsa65_verify ?F leb_wire (sl_hybrid toy_libs),
      sv_fingerprint = \<lambda>mhash. ed25519_mldsa65_fingerprint mhash ?F leb_wire (sl_hybrid toy_libs)\<rparr>"
  have "signing_view ?F leb_wire toy_libs VEd25519Mldsa65 = Some ?V"
    by simp
  moreover have "sv_conv ?V example_hybrid_key = Ok example_hybrid_public"
    and "sv_sign ?V example_hybrid_key [1, 2] True = Ok example_hybrid_sig"
    by (simp_all add: toy_libs_def example_hybrid_conv example_hybrid_sign)
  moreover have "no_zero_nonce ?F leb_wire toy_libs VEd25519Mldsa65 example_hybrid_key [1, 2]"
    by (simp add: no_zero_nonce_def)
  ultimately have "sv_verify ?V example_hybrid_public example_hybrid_sig None = Ok () \<longleftrightarrow> True \<and> [1, 2 :: byte] \<noteq> []"
    using sign_then_verify[OF toy_libs_ok example_hybrid_views(4)] by blast
  then show ?thesis
    by (simp add: toy_libs_def)
qed

text \<open>
  C18: The use of a stateful key comes to an end: there is no infinite chain of keys of which each is the one
  that signing with the previous one returned, neither for XMSS nor for Merkle-tree Lamport keys.
\<close>

theorem stateful_signing_terminates:
  "wfp (\<lambda>k' k. xmss_key F X k \<and> (\<exists>m combined ms. xmss_sign_advance F W X k m combined = Ok (ms, k')))
   \<and> wfp (\<lambda>k' k. usable_key F M k \<and> (\<exists>m combined ms. merkle_sign_advance F W M k m combined = Ok (ms, k')))"
  using xmss_bounded.terminates[of F X W] merkle.steps_terminate[of F M W] by simp

text \<open>
  C39: A signing key and the public key that it converts to have the same fingerprint, in every signing view.
\<close>

theorem signing_fingerprint_of_pair:
  assumes "dispatch_sign_view F k = Ok v" and "signing_view F W L v = Some V" and "sv_conv V k = Ok pk"
  shows "sv_fingerprint V mhash k c = sv_fingerprint V mhash pk c"
proof -
  note pair = converted_pair[OF assms(2,1,3)]
  obtain secret where secret: "dispatched_secret F W k = Ok secret"
    using converted_secret[OF assms(2,3)] by blast
  note codec = owned_private[OF assms(1) secret]
  obtain w where conv: "dispatch_conv_view F k = Ok w"
    using secret pair by (rule public_pair_attrs)
  show ?thesis
    using assms(2,3) codec pair conv
    by (cases v)
      (auto simp: ed25519_fingerprint_def secp256k1_fingerprint_def nist_fingerprint_def rsa_fingerprint_def ml_dsa_fingerprint_def slh_dsa_fingerprint_def
        fn_dsa_fingerprint_def mayo_fingerprint_def hybrid_fingerprint_defs bls_fingerprint_def xmss_fingerprint_def lamport_fingerprint_def merkle_fingerprint_def x25519_fingerprint_def
        public_pair_def is_ml_dsa_priv_def is_mayo_priv_def is_xmss_priv_def is_lamport_priv_def is_merkle_priv_def
        intro!: fingerprint_via_pair[OF secret pair] fingerprint_with_pair[OF secret pair])
qed

theorem signing_fingerprint_of_pair_witness:
  "ed25519_mldsa65_fingerprint (\<lambda>_ bs n. Ok (take n bs)) {FCurve25519, FMlDsa} leb_wire toy_hybrid example_hybrid_key Sha3256 =
   ed25519_mldsa65_fingerprint (\<lambda>_ bs n. Ok (take n bs)) {FCurve25519, FMlDsa} leb_wire toy_hybrid example_hybrid_public Sha3256"
proof -
  let ?F = "{FCurve25519, FMlDsa}"
  let ?V = "\<lparr>sv_conv = ed25519_mldsa65_to_public_key ?F leb_wire (sl_hybrid toy_libs), sv_sign = ed25519_mldsa65_sign ?F leb_wire (sl_hybrid toy_libs),
      sv_verify = ed25519_mldsa65_verify ?F leb_wire (sl_hybrid toy_libs),
      sv_fingerprint = \<lambda>mhash. ed25519_mldsa65_fingerprint mhash ?F leb_wire (sl_hybrid toy_libs)\<rparr>"
  have "signing_view ?F leb_wire toy_libs VEd25519Mldsa65 = Some ?V"
    by simp
  moreover have "sv_conv ?V example_hybrid_key = Ok example_hybrid_public"
    by (simp add: toy_libs_def example_hybrid_conv)
  ultimately have "sv_fingerprint ?V (\<lambda>_ bs n. Ok (take n bs)) example_hybrid_key Sha3256 =
      sv_fingerprint ?V (\<lambda>_ bs n. Ok (take n bs)) example_hybrid_public Sha3256"
    by (rule signing_fingerprint_of_pair[OF example_hybrid_views(4)])
  then show ?thesis
    by (simp add: toy_libs_def)
qed

text \<open>
  Verifying with a malformed Ed25519 or secp256k1 public key, one with fewer bytes than a key has,
  panics instead of returning an error.
\<close>

lemma short_public_key_panics:
  assumes "key_data k = Ok bs" and "FCurve25519 \<in> F" and "FSecp256k1 \<in> F"
  shows "(mk_codec k = Ed25519 Pub \<and> length bs < 32 \<longrightarrow> ed25519_verify F W S k ms m = Panic)
    \<and> (mk_codec k = Secp256K1 Pub \<and> length bs < 33 \<longrightarrow> secp256k1_verify F W S k ms m = Panic)"
  using assms
  by (simp_all add: ed25519_verify_def secp256k1_verify_def public_form_def dispatched_bytes_def attr_view_def data_view_def
      dispatch_data_view_def dispatch_attr_view_def arm_def ed25519_view_def secp256k1_view_def sealed_view_def prefix_of_def
      PUBLIC_KEY_LENGTH_def)

definition example_short_key :: multikey where
  "example_short_key = \<lparr>mk_codec = Ed25519 Pub, mk_comment = [], mk_attributes = [KeyData \<mapsto> [1]]\<rparr>"

lemma short_public_key_panics_witness:
  "ed25519_verify {FCurve25519, FSecp256k1} leb_wire toy_hybrid example_short_key example_hybrid_sig None = Panic"
  using short_public_key_panics[of example_short_key "[1]" "{FCurve25519, FSecp256k1}" leb_wire toy_hybrid example_hybrid_sig None]
  by (simp add: example_short_key_def key_data_def get_attr_def)

text \<open>
  C19: A hybrid signature is accepted exactly if both halves verify under the halves of the key: the
  classical one for the message, the post-quantum one for the message followed by the classical half.
\<close>

theorem hybrid_needs_both:
  assumes "sig_bytes_or_missing S ms = Ok sig" and "public_form F W (hybrid_to_public_key F W h) k = Ok pk"
    and "dispatched_bytes F W pk = Ok key"
  shows "hybrid_verify F W S h k ms (Some m) = Ok () \<longleftrightarrow>
    (\<exists>k1 k2 s1 s2. key = k1 @ k2 \<and> length k1 = cp_public_len (hy_classical h) \<and> length k2 = cp_public_len (hy_pq h)
       \<and> sig = s1 @ s2 \<and> length s1 = cp_sig_len (hy_classical h) \<and> length s2 = cp_sig_len (hy_pq h)
       \<and> cp_verify (hy_classical h) k1 s1 m = Ok () \<and> cp_verify (hy_pq h) k2 s2 (m @ s1) = Ok ())" (is "?l \<longleftrightarrow> ?r")
proof
  assume ?l
  then show ?r
    using assms
    by (intro exI[of _ "take (cp_public_len (hy_classical h)) key"] exI[of _ "drop (cp_public_len (hy_classical h)) key"]
        exI[of _ "take (cp_sig_len (hy_classical h)) sig"] exI[of _ "drop (cp_sig_len (hy_classical h)) sig"])
      (auto simp: hybrid_verify_def hybrid_verify_bytes_def Let_def outcome_simps split: if_splits)
next
  assume ?r
  then show ?l
    using assms by (auto simp: hybrid_verify_def hybrid_verify_bytes_def Let_def)
qed

lemma example_hybrid_parts:
  "public_form {FCurve25519, FMlDsa} W (hybrid_to_public_key {FCurve25519, FMlDsa} W (ed25519_mldsa65 toy_hybrid)) example_hybrid_public
     = Ok example_hybrid_public"
  "dispatched_bytes {FCurve25519, FMlDsa} W example_hybrid_public = Ok (replicate 32 0 @ replicate 1952 3)"
  "sig_bytes_or_missing toy_hybrid example_hybrid_sig = Ok (toy_tag 64 [1, 2] @ toy_tag 3309 ([1, 2] @ toy_tag 64 [1, 2]))"
  by (simp_all add: public_form_def attr_view_def dispatched_bytes_def data_view_def dispatch_data_view_def dispatch_attr_view_def
      arm_def spart_key_def example_hybrid_public_def ed25519_mldsa65_view_def plain_view_def sig_bytes_or_missing_def
      toy_hybrid_def toy_ms_bytes_def example_hybrid_sig_def)

theorem hybrid_needs_both_witness:
  "hybrid_verify {FCurve25519, FMlDsa} leb_wire toy_hybrid (ed25519_mldsa65 toy_hybrid) example_hybrid_public
     example_hybrid_sig (Some [1, 2]) = Ok ()"
  unfolding hybrid_needs_both[OF example_hybrid_parts(3,1,2)]
  by (intro exI[of _ "replicate 32 0"] exI[of _ "replicate 1952 3"] exI[of _ "toy_tag 64 [1, 2]"]
      exI[of _ "toy_tag 3309 ([1, 2] @ toy_tag 64 [1, 2])"])
    (simp add: ed25519_mldsa65_def ed25519_component_def mldsa65_component_def ml_dsa_check_def toy_hybrid_def)

end
