(* ===== verification/Mk_Nonce.thy ===== *)
theory Mk_Nonce
  imports Mk_Multikey
begin

text \<open>
  Nonces (\<^verbatim>\<open>src/nonce.rs\<close>): random bytes with a sigil of their own, their wire form and their
  builder. The wire form meets the contract \<open>prefix_codec\<close>.
\<close>

section \<open>The type\<close>

definition NONCE_SIGIL :: codec where "NONCE_SIGIL = CNonce"

record nonce =
  nc_nonce :: bytes

definition nonce_len :: "nonce \<Rightarrow> nat" where
  "nonce_len n = length (nc_nonce n)"

definition nonce_is_empty :: "nonce \<Rightarrow> bool" where
  "nonce_is_empty n \<longleftrightarrow> nc_nonce n = []"

definition nonce_codec :: "nonce \<Rightarrow> codec" where
  "nonce_codec n = NONCE_SIGIL"

text \<open>\<^verbatim>\<open>Base::Base16Lower\<close>, by its one-character code.\<close>

definition nonce_preferred_encoding :: char where
  "nonce_preferred_encoding = CHR ''f''"

definition nonce_null :: nonce where
  "nonce_null = \<lparr>nc_nonce = []\<rparr>"

definition nonce_is_null :: "nonce \<Rightarrow> bool" where
  "nonce_is_null n \<longleftrightarrow> n = nonce_null"

section \<open>The wire form\<close>

definition nonce_encode :: "wire \<Rightarrow> nonce \<Rightarrow> bytes" where
  "nonce_encode W n =
     (let v = put_uint W (codec_code W NONCE_SIGIL)
      in encode_varbytes_into W v (nc_nonce n))"

definition nonce_try_decode_from :: "wire \<Rightarrow> bytes \<Rightarrow> (nonce \<times> bytes) res" where
  "nonce_try_decode_from W bs =
     and_then (map_err Multicodec (get_codec W bs)) (\<lambda>(sigil, p).
     if sigil \<noteq> NONCE_SIGIL then Err (NonceE NoMissingSigil)
     else
     and_then (map_err Multiutil (get_varbytes W p)) (\<lambda>(bytes, q).
     Ok (\<lparr>nc_nonce = bytes\<rparr>, q)))"

definition nonce_try_from :: "wire \<Rightarrow> bytes \<Rightarrow> nonce res" where
  "nonce_try_from W bs = and_then (nonce_try_decode_from W bs) (\<lambda>(n, _). Ok n)"

section \<open>The builder\<close>

record nonce_builder =
  nb_bytes :: bytes
  nb_base_encoding :: "char option"

text \<open>\<open>fill\<close> is what the generator writes into a buffer.\<close>

definition nonce_from_random_bytes :: "nat \<Rightarrow> (bytes \<Rightarrow> bytes) \<Rightarrow> nonce_builder" where
  "nonce_from_random_bytes len fill = \<lparr>nb_bytes = fill (replicate len 0), nb_base_encoding = None\<rparr>"

definition nonce_from_bytes :: "bytes \<Rightarrow> nonce_builder" where
  "nonce_from_bytes bs = \<lparr>nb_bytes = bs, nb_base_encoding = None\<rparr>"

definition nonce_with_base_encoding :: "nonce_builder \<Rightarrow> char \<Rightarrow> nonce_builder" where
  "nonce_with_base_encoding b base = b\<lparr>nb_base_encoding := Some base\<rparr>"

definition nonce_try_build :: "nonce_builder \<Rightarrow> nonce res" where
  "nonce_try_build b = Ok \<lparr>nc_nonce = nb_bytes b\<rparr>"

text \<open>An encoded nonce is the nonce with the base that its text form will have.\<close>

definition nonce_try_build_encoded :: "nonce_builder \<Rightarrow> (char \<times> nonce) res" where
  "nonce_try_build_encoded b =
     and_then (nonce_try_build b) (\<lambda>n.
     Ok (case nb_base_encoding b of Some base \<Rightarrow> base | None \<Rightarrow> nonce_preferred_encoding, n))"

section \<open>Reading a nonce back\<close>

lemma nonce_encode_layout: "nonce_encode W n = put_codec W NONCE_SIGIL @ varbytes W (nc_nonce n)"
  by (simp add: nonce_encode_def put_codec_def encode_varbytes_into_def)

interpretation nonce_wire: prefix_codec "nonce_encode W" "nonce_try_decode_from W"
  "\<lambda>n. wire_ok W \<and> nonce_len n \<le> MAX_DECODED_SIZE" for W
  by unfold_locales
    (auto simp: nonce_encode_layout nonce_try_decode_from_def codec_wire.dec_enc varbytes_wire.dec_enc nonce_len_def)

lemma decode_other_sigil:
  assumes "wire_ok W" "c \<noteq> NONCE_SIGIL"
  shows "nonce_try_decode_from W (put_codec W c @ r) = Err (NonceE NoMissingSigil)"
  using assms by (simp add: nonce_try_decode_from_def codec_wire.dec_enc)

lemma decode_nonce_as_multikey:
  assumes "wire_ok W"
  shows "multikey_try_decode_from W (nonce_encode W n @ r) = Err MissingSigil"
  using assms by (simp add: multikey_try_decode_from_def nonce_encode_layout codec_wire.dec_enc NONCE_SIGIL_def)

section \<open>Properties\<close>

text \<open>
  A nonce that was built is read back from its wire form, whatever follows, as the bytes it was built
  from; and the sigils keep the two types apart: a nonce is not read as a multikey, a multikey not as
  a nonce.
\<close>

lemma nonce_round_trip:
  assumes "wire_ok W" and "length bs \<le> MAX_DECODED_SIZE"
  shows "\<exists>n. nonce_try_build (nonce_from_bytes bs) = Ok n \<and> nc_nonce n = bs
    \<and> nonce_try_decode_from W (nonce_encode W n @ r) = Ok (n, r)
    \<and> multikey_try_decode_from W (nonce_encode W n @ r) = Err MissingSigil
    \<and> nonce_try_decode_from W (multikey_encode W k @ r) = Err (NonceE NoMissingSigil)"
proof -
  have "nonce_try_decode_from W (multikey_encode W k @ r) = Err (NonceE NoMissingSigil)"
    using decode_other_sigil[OF assms(1), of SIGIL] by (simp add: multikey_encode_layout layout_def NONCE_SIGIL_def)
  then show ?thesis
    using assms nonce_wire.dec_enc[of W "\<lparr>nc_nonce = bs\<rparr>" r] decode_nonce_as_multikey[OF assms(1)]
    by (simp add: nonce_try_build_def nonce_from_bytes_def nonce_len_def)
qed

lemma nonce_round_trip_witness:
  "nonce_try_decode_from leb_wire (nonce_encode leb_wire \<lparr>nc_nonce = [7, 8]\<rparr> @ [1]) = Ok (\<lparr>nc_nonce = [7, 8]\<rparr>, [1])"
  using nonce_round_trip[OF leb_wire_ok, of "[7, 8]" "[1]"]
  by (auto simp: MAX_DECODED_SIZE_def nonce_try_build_def nonce_from_bytes_def)

end
