(* ===== verification/Mk_Marker.thy ===== *)
theory Mk_Marker
  imports Mk_Signing
begin

text \<open>
  The markers of a threshold key (\<^verbatim>\<open>src/views/threshold_marker.rs\<close>): the group public key and the registry of
  participants that a controller key carries, the signature over them, and the classification of
  threshold keys. The registry and the signed bundle are CBOR, which is external.
\<close>

section \<open>The external functions\<close>

record threshold_participant =
  tp_vlad :: bytes
  tp_public_share :: bytes

text \<open>A \<^verbatim>\<open>BTreeMap\<close> is the list of its entries, ordered by the keys.\<close>

type_synonym registry = "(bytes \<times> threshold_participant) list"

definition registry_ok :: "registry \<Rightarrow> bool" where
  "registry_ok m \<longleftrightarrow> sorted_wrt bytes_before (map fst m)"

record marker_lib =
  cbor_put_registry :: "registry \<Rightarrow> (string, bytes) outcome"
  cbor_get_registry :: "bytes \<Rightarrow> (string, registry) outcome"
  cbor_put_bundle :: "bytes \<times> registry \<times> nat \<times> nat \<Rightarrow> (string, bytes) outcome"
  put_multisig :: "multisig \<Rightarrow> bytes"
  get_multisig :: "bytes \<Rightarrow> (lib_error, multisig) outcome"

text \<open>What was written is read back, and bundles that differ are written differently.\<close>

definition marker_lib_ok :: "marker_lib \<Rightarrow> bool" where
  "marker_lib_ok C \<longleftrightarrow>
     (\<forall>m b. registry_ok m \<longrightarrow> cbor_put_registry C m = Ok b \<longrightarrow> cbor_get_registry C b = Ok m)
   \<and> (\<forall>x y b. cbor_put_bundle C x = Ok b \<longrightarrow> cbor_put_bundle C y = Ok b \<longrightarrow> x = y)
   \<and> (\<forall>ms. get_multisig C (put_multisig C ms) = Ok ms)"

section \<open>Classification\<close>

datatype threshold_scheme = ShamirSplit | Dkg

definition threshold_kind :: "multikey \<Rightarrow> threshold_scheme option" where
  "threshold_kind k =
     (case mk_codec k of
        Bls12381 _ p \<Rightarrow> if p = BPrivShare \<or> p = BPubShare then Some ShamirSplit else None
      | Thresh _ _ \<Rightarrow> Some Dkg
      | _ \<Rightarrow> None)"

text \<open>\<^verbatim>\<open>u16::try_from\<close> and \<^verbatim>\<open>u16::from_le_bytes\<close>.\<close>

definition u16_of :: "nat \<Rightarrow> nat option" where
  "u16_of n = (if n < 2 ^ 16 then Some n else None)"

definition le16 :: "bytes \<Rightarrow> nat" where
  "le16 bs = unat (bs ! 0) + 256 * unat (bs ! 1)"

fun ok_option :: "('e, 'a) outcome \<Rightarrow> 'a option" where
  "ok_option (Ok x) = Some x"
| "ok_option _ = None"

definition split_param :: "wire \<Rightarrow> bytes option \<Rightarrow> nat option" where
  "split_param W v = Option.bind v (\<lambda>bs. Option.bind (ok_option (usize_of W bs)) u16_of)"

definition threshold_params :: "wire \<Rightarrow> multikey \<Rightarrow> (nat \<times> nat) option" where
  "threshold_params W k =
     (case threshold_kind k of
        None \<Rightarrow> None
      | Some ShamirSplit \<Rightarrow>
          Option.bind (split_param W (get_attr k Threshold)) (\<lambda>t.
          Option.bind (split_param W (get_attr k Limit)) (\<lambda>n. Some (t, n)))
      | Some Dkg \<Rightarrow>
          Option.bind (get_attr k DkgThreshold) (\<lambda>t.
          Option.bind (get_attr k DkgLimit) (\<lambda>n.
          if length t < 2 \<or> length n < 2 then None else Some (le16 t, le16 n))))"

section \<open>Reading and stamping a marker\<close>

definition MAX_THRESHOLD_PARTICIPANTS :: nat where "MAX_THRESHOLD_PARTICIPANTS = 1024"

definition group_public_key :: "multikey \<Rightarrow> bytes res" where
  "group_public_key k = ok_or (Attributes AMissingGroupPublicKey) (get_attr k ThresholdGroupPublicKey)"

definition marker_cbor :: "(string, 'a) outcome \<Rightarrow> 'a res" where
  "marker_cbor = map_err (\<lambda>e. Attributes (AThresholdMarkerCbor e))"

definition participants :: "marker_lib \<Rightarrow> multikey \<Rightarrow> registry res" where
  "participants C k =
     and_then (ok_or (Attributes AMissingThresholdParticipants) (get_attr k ThresholdParticipants)) (\<lambda>v.
     and_then (marker_cbor (cbor_get_registry C v)) (\<lambda>m.
     if MAX_THRESHOLD_PARTICIPANTS < length m
     then Err (Attributes (AThresholdMarkerCbor ''threshold participant registry exceeds maximum size''))
     else Ok m))"

definition u16_attr :: "wire \<Rightarrow> error \<Rightarrow> bytes option \<Rightarrow> nat res" where
  "u16_attr W missing v =
     and_then (usize_attr W missing v) (\<lambda>n. ok_or missing (u16_of n))"

definition marker_threshold :: "wire \<Rightarrow> multikey \<Rightarrow> nat res" where
  "marker_threshold W k = u16_attr W (Attributes AMissingThreshold) (get_attr k Threshold)"

definition marker_participant_count :: "wire \<Rightarrow> multikey \<Rightarrow> nat res" where
  "marker_participant_count W k = u16_attr W (Attributes AMissingLimit) (get_attr k Limit)"

definition stamp :: "multikey \<Rightarrow> attr_id \<Rightarrow> bytes \<Rightarrow> multikey" where
  "stamp k a v = k\<lparr>mk_attributes := attr_insert a v (mk_attributes k)\<rparr>"

definition set_group_public_key :: "multikey \<Rightarrow> bytes \<Rightarrow> multikey" where
  "set_group_public_key k group_pubkey = stamp k ThresholdGroupPublicKey group_pubkey"

definition set_participants :: "marker_lib \<Rightarrow> multikey \<Rightarrow> registry \<Rightarrow> multikey res" where
  "set_participants C k m =
     and_then (marker_cbor (cbor_put_registry C m)) (\<lambda>bytes.
     Ok (stamp k ThresholdParticipants bytes))"

section \<open>The signature of a marker\<close>

definition canonical_marker_bytes :: "wire \<Rightarrow> marker_lib \<Rightarrow> multikey \<Rightarrow> bytes res" where
  "canonical_marker_bytes W C k =
     and_then (group_public_key k) (\<lambda>group.
     and_then (participants C k) (\<lambda>m.
     and_then (marker_threshold W k) (\<lambda>threshold.
     and_then (marker_participant_count W k) (\<lambda>limit.
     marker_cbor (cbor_put_bundle C (group, m, threshold, limit))))))"

text \<open>
  Signing through the dispatcher. The modules that the dispatchers return are those of
  \<open>signing_view\<close>; the last arms are never taken.
\<close>

definition dispatched_sign ::
  "features \<Rightarrow> wire \<Rightarrow> 'p sign_libs \<Rightarrow> multikey \<Rightarrow> bytes \<Rightarrow> bool \<Rightarrow> multisig res" where
  "dispatched_sign F W L k msg combined =
     and_then (dispatch_sign_view F k) (\<lambda>v.
     case signing_view F W L v of
       Some V \<Rightarrow> sv_sign V k msg combined
     | None \<Rightarrow> Err (Conversions (CvUnsupportedCodec (mk_codec k))))"

definition sign_marker ::
  "features \<Rightarrow> wire \<Rightarrow> 'p sign_libs \<Rightarrow> marker_lib \<Rightarrow> multikey \<Rightarrow> multikey \<Rightarrow> multikey res" where
  "sign_marker F W L C k author =
     and_then (canonical_marker_bytes W C k) (\<lambda>bytes.
     and_then (dispatched_sign F W L author bytes False) (\<lambda>sig.
     Ok (stamp k ThresholdMarkerSig (put_multisig C sig))))"

definition marker_sig_invalid :: error where
  "marker_sig_invalid = Attributes AThresholdMarkerSigInvalid"

definition verify_marker ::
  "features \<Rightarrow> wire \<Rightarrow> 'p sign_libs \<Rightarrow> marker_lib \<Rightarrow> multikey \<Rightarrow> multikey \<Rightarrow> unit res" where
  "verify_marker F W L C k verifier =
     and_then (ok_or (Attributes AMissingThresholdMarkerSig) (get_attr k ThresholdMarkerSig)) (\<lambda>sig_bytes.
     and_then (map_err (\<lambda>_. marker_sig_invalid) (get_multisig C sig_bytes)) (\<lambda>sig.
     and_then (canonical_marker_bytes W C k) (\<lambda>bytes.
     and_then (dispatch_verify_view F verifier) (\<lambda>v.
     map_err (\<lambda>_. marker_sig_invalid)
       (case signing_view F W L v of
          Some V \<Rightarrow> sv_verify V verifier sig (Some bytes)
        | None \<Rightarrow> Err (Conversions (CvUnsupportedCodec (mk_codec verifier))))))))"

section \<open>The dispatchers return these modules only\<close>

lemma sign_view_modules:
  assumes "dispatch_sign_view F k = Ok v"
  shows "\<exists>V. signing_view F W L v = Some V"
  using assms by (cases "mk_codec k") (auto simp: dispatch_sign_view_def arm_eq_Ok)

lemma verify_view_modules:
  assumes "dispatch_verify_view F k = Ok v"
  shows "\<exists>V. signing_view F W L v = Some V"
  using assms by (cases "mk_codec k") (auto simp: dispatch_verify_view_def arm_eq_Ok)

section \<open>What a stamp changes\<close>

lemma get_stamp [simp]: "get_attr (stamp k a v) b = (if a = b then Some v else get_attr k b)"
  by (simp add: stamp_def get_attr_def attr_insert_def)

lemma stamp_codec [simp]: "mk_codec (stamp k a v) = mk_codec k" "mk_comment (stamp k a v) = mk_comment k"
  by (simp_all add: stamp_def)

lemma marker_libD:
  assumes "marker_lib_ok C"
  shows "registry_ok m \<Longrightarrow> cbor_put_registry C m = Ok b \<Longrightarrow> cbor_get_registry C b = Ok m"
    and "cbor_put_bundle C x = Ok b \<Longrightarrow> cbor_put_bundle C y = Ok b \<Longrightarrow> x = y"
    and "get_multisig C (put_multisig C ms) = Ok ms"
  using assms unfolding marker_lib_ok_def by blast+

lemma canonical_marker_stamp:
  "a \<notin> {ThresholdGroupPublicKey, ThresholdParticipants, Threshold, Limit} \<Longrightarrow>
   canonical_marker_bytes W C (stamp k a v) = canonical_marker_bytes W C k"
  by (simp add: canonical_marker_bytes_def group_public_key_def participants_def marker_threshold_def
      marker_participant_count_def)

lemma stamped_registry:
  assumes "marker_lib_ok C" "registry_ok m" "set_participants C k m = Ok k'"
  shows "participants C k' = (if length m \<le> MAX_THRESHOLD_PARTICIPANTS then Ok m
    else Err (Attributes (AThresholdMarkerCbor ''threshold participant registry exceeds maximum size'')))"
proof -
  obtain b where "cbor_put_registry C m = Ok b" "k' = stamp k ThresholdParticipants b"
    using assms(3) by (auto simp: set_participants_def marker_cbor_def outcome_simps)
  then show ?thesis
    using marker_libD(1)[OF assms(1,2)] by (simp add: participants_def marker_cbor_def)
qed

text \<open>The shares of a split key are classified, and their parameters read back.\<close>

lemma split_share_params:
  assumes "wire_ok W" "bls_split_key F W B k t n = Ok shares" "n < 2 ^ 16" "share \<in> set shares"
  shows "threshold_kind share = Some ShamirSplit" "threshold_params W share = Some (t, n)"
proof -
  obtain g pairs where t: "t \<le> n" and shares: "shares = map (share_key W k g t n) pairs"
    using assms(2) by (auto simp: bls_split_key_eq_Ok)
  then obtain iv where share: "share = share_key W k g t n iv"
    using assms(4) by auto
  have "mk_attributes share Threshold = Some (put_uint W t)" "mk_attributes share Limit = Some (put_uint W n)"
    by (simp_all add: share share_key_def built_key_defs attr_insert_def with_identifier_def with_limit_def with_threshold_def)
  moreover show kind: "threshold_kind share = Some ShamirSplit"
    by (simp add: share threshold_kind_def)
  ultimately show "threshold_params W share = Some (t, n)"
    using assms(1,3) t wire_ok_usize_of[of W t] wire_ok_usize_of[of W n]
    by (simp add: threshold_params_def split_param_def get_attr_def u16_of_def)
qed

section \<open>An example\<close>

text \<open>A byte format for multisigs, registries of at most one entry, and bundles.\<close>

definition toy_bytes :: "bytes \<Rightarrow> bytes" where
  "toy_bytes b = leb_put (length b) @ b"

definition toy_get_bytes :: "bytes \<Rightarrow> (lib_error, bytes \<times> bytes) outcome" where
  "toy_get_bytes bs = and_then (leb_get bs) (\<lambda>(n, r). if length r < n then Err ''short'' else Ok (take n r, drop n r))"

fun toy_opt :: "('a \<Rightarrow> bytes) \<Rightarrow> 'a option \<Rightarrow> bytes" where
  "toy_opt put None = [0]"
| "toy_opt put (Some x) = 1 # put x"

fun toy_get_opt :: "(bytes \<Rightarrow> (lib_error, 'a \<times> bytes) outcome) \<Rightarrow> bytes \<Rightarrow> (lib_error, 'a option \<times> bytes) outcome" where
  "toy_get_opt get [] = Err ''short''"
| "toy_get_opt get (b # r) = (if b = 0 then Ok (None, r) else and_then (get r) (\<lambda>(x, q). Ok (Some x, q)))"

definition toy_put_multisig :: "multisig \<Rightarrow> bytes" where
  "toy_put_multisig ms = leb_put (codec_number (ms_codec ms)) @ toy_bytes (ms_message ms) @ toy_opt toy_bytes (ms_sig ms)
     @ toy_opt toy_bytes (ms_depth ms) @ toy_opt (\<lambda>i. leb_put (unat i)) (ms_index ms) @ toy_opt (\<lambda>b. [b]) (ms_scheme ms)
     @ toy_opt (\<lambda>(t, n, i). leb_put t @ leb_put n @ toy_bytes i) (ms_share ms)"

definition toy_get_multisig :: "bytes \<Rightarrow> (lib_error, multisig) outcome" where
  "toy_get_multisig bs =
     and_then (leb_get bs) (\<lambda>(c, bs).
     and_then (ok_or ''codec'' (codec_numbered c)) (\<lambda>c.
     and_then (toy_get_bytes bs) (\<lambda>(message, bs).
     and_then (toy_get_opt toy_get_bytes bs) (\<lambda>(sig, bs).
     and_then (toy_get_opt toy_get_bytes bs) (\<lambda>(depth, bs).
     and_then (toy_get_opt (\<lambda>bs. and_then (leb_get bs) (\<lambda>(i, bs). Ok (of_nat i, bs))) bs) (\<lambda>(index, bs).
     and_then (toy_get_opt (\<lambda>bs. case bs of [] \<Rightarrow> Err ''short'' | b # r \<Rightarrow> Ok (b, r)) bs) (\<lambda>(scheme, bs).
     and_then (toy_get_opt (\<lambda>bs. and_then (leb_get bs) (\<lambda>(t, bs). and_then (leb_get bs) (\<lambda>(n, bs).
       and_then (toy_get_bytes bs) (\<lambda>(i, bs). Ok ((t, n, i), bs))))) bs) (\<lambda>(share, bs).
     Ok \<lparr>ms_codec = c, ms_message = message, ms_sig = sig, ms_depth = depth, ms_index = index, ms_scheme = scheme,
         ms_share = share\<rparr>))))))))"

definition toy_put_registry :: "registry \<Rightarrow> (string, bytes) outcome" where
  "toy_put_registry m =
     (case m of [] \<Rightarrow> Ok [0]
      | [(i, p)] \<Rightarrow> Ok (1 # toy_bytes i @ toy_bytes (tp_vlad p) @ toy_bytes (tp_public_share p))
      | _ \<Rightarrow> Err ''entries'')"

definition toy_get_registry :: "bytes \<Rightarrow> (string, registry) outcome" where
  "toy_get_registry bs =
     (case bs of [] \<Rightarrow> Err ''short'' | b # r \<Rightarrow> if b = 0 then Ok []
      else and_then (toy_get_bytes r) (\<lambda>(i, r). and_then (toy_get_bytes r) (\<lambda>(v, r). and_then (toy_get_bytes r) (\<lambda>(s, r).
        Ok [(i, \<lparr>tp_vlad = v, tp_public_share = s\<rparr>)]))))"

definition toy_put_bundle :: "bytes \<times> registry \<times> nat \<times> nat \<Rightarrow> (string, bytes) outcome" where
  "toy_put_bundle = (\<lambda>(g, m, t, n). and_then (toy_put_registry m) (\<lambda>b. Ok (toy_bytes g @ leb_put t @ leb_put n @ b)))"

definition toy_marker :: marker_lib where
  "toy_marker = \<lparr>cbor_put_registry = toy_put_registry, cbor_get_registry = toy_get_registry, cbor_put_bundle = toy_put_bundle,
     put_multisig = toy_put_multisig, get_multisig = toy_get_multisig\<rparr>"

lemma toy_get_bytes [simp]: "toy_get_bytes (toy_bytes b @ r) = Ok (b, r)" "toy_get_bytes (toy_bytes b) = Ok (b, [])"
  by (simp_all add: toy_get_bytes_def toy_bytes_def)

lemma toy_get_opt:
  assumes "\<And>x r. get (put x @ r) = Ok (x, r)"
  shows "toy_get_opt get (toy_opt put x @ r) = Ok (x, r)"
  using assms by (cases x) simp_all

lemma toy_get_put_multisig: "toy_get_multisig (toy_put_multisig ms) = Ok ms"
proof -
  note opt = toy_get_opt[where r = r for r] toy_get_opt[where r = "[]", simplified]
  show ?thesis
    unfolding toy_get_multisig_def toy_put_multisig_def by (simp add: opt split_def)
qed

lemma toy_get_put_registry: "toy_put_registry m = Ok b \<Longrightarrow> toy_get_registry b = Ok m"
  by (auto simp: toy_put_registry_def toy_get_registry_def split: list.splits)

lemma toy_marker_ok: "marker_lib_ok toy_marker"
proof -
  have parse: "and_then (toy_get_bytes b) (\<lambda>(g, r). and_then (leb_get r) (\<lambda>(t, r). and_then (leb_get r) (\<lambda>(n, r).
      and_then (toy_get_registry r) (\<lambda>m. Ok (g, m, t, n))))) = Ok x" if "toy_put_bundle x = Ok b" for x b
    using that by (cases x) (auto simp: toy_put_bundle_def outcome_simps toy_get_put_registry)
  have "x = y" if "toy_put_bundle x = Ok b" "toy_put_bundle y = Ok b" for x y b
    using parse[OF that(1)] parse[OF that(2)] by simp
  then show ?thesis
    by (simp add: marker_lib_ok_def toy_marker_def toy_get_put_multisig toy_get_put_registry)
qed

section \<open>Properties\<close>

text \<open>
  C9: A marker that was signed verifies, with the key that signed it and with the public key that it converts
  to, whichever signing view the dispatcher chooses for it.
\<close>

theorem marker_sign_then_verify:
  assumes "sign_libs_ok L" and "marker_lib_ok C" and "dispatch_sign_view F author = Ok v" and "signing_view F W L v = Some V"
    and "sv_conv V author = Ok pk" and "canonical_marker_bytes W C k = Ok bytes" and "no_zero_nonce F W L v author bytes"
    and "sign_marker F W L C k author = Ok k'"
  shows "verify_marker F W L C k' pk = Ok () \<and> verify_marker F W L C k' author = Ok ()"
proof -
  note pair = converted_pair[OF assms(4,3,5)]
  obtain sig where sig: "sv_sign V author bytes False = Ok sig" and k': "k' = stamp k ThresholdMarkerSig (put_multisig C sig)"
    using assms(3,4,6,8) by (auto simp: sign_marker_def dispatched_sign_def outcome_simps)
  have "canonical_marker_bytes W C k' = Ok bytes"
    using assms(6) by (simp add: k' canonical_marker_stamp)
  then have "verify_marker F W L C k' w = map_err (\<lambda>_. marker_sig_invalid) (sv_verify V w sig (Some bytes))"
    if "dispatch_verify_view F w = Ok v" for w
    using that assms(4) marker_libD(3)[OF assms(2)] by (simp add: verify_marker_def k')
  then show ?thesis
    using pair_dispatch[OF pair assms(3)] signature_view.verifies(1)[OF signing_contract[OF assms(1,4)] assms(7,3,5) sig]
    by simp
qed

definition example_registry :: registry where
  "example_registry = [([1], \<lparr>tp_vlad = [4], tp_public_share = [5]\<rparr>)]"

definition example_controller :: multikey where
  "example_controller = \<lparr>mk_codec = Bls12381 G1 BPriv, mk_comment = [],
     mk_attributes = [KeyData \<mapsto> [7], ThresholdGroupPublicKey \<mapsto> [9], Threshold \<mapsto> leb_put 2, Limit \<mapsto> leb_put 3,
       ThresholdParticipants \<mapsto> 1 # toy_bytes [1] @ toy_bytes [4] @ toy_bytes [5]]\<rparr>"

definition example_marker_bytes :: bytes where
  "example_marker_bytes = toy_bytes [9] @ leb_put 2 @ leb_put 3 @ 1 # toy_bytes [1] @ toy_bytes [4] @ toy_bytes [5]"

lemma example_canonical: "canonical_marker_bytes leb_wire toy_marker example_controller = Ok example_marker_bytes"
proof -
  have "participants toy_marker example_controller = Ok example_registry"
    by (simp add: participants_def example_controller_def get_attr_def marker_cbor_def toy_marker_def toy_get_registry_def
        example_registry_def MAX_THRESHOLD_PARTICIPANTS_def)
  moreover have "marker_threshold leb_wire example_controller = Ok 2" "marker_participant_count leb_wire example_controller = Ok 3"
    by (simp_all add: marker_threshold_def marker_participant_count_def u16_attr_def usize_attr_def example_controller_def
        get_attr_def u16_of_def leb_wire_def)
  ultimately show ?thesis
    by (simp add: canonical_marker_bytes_def group_public_key_def example_controller_def get_attr_def marker_cbor_def
        toy_marker_def toy_put_bundle_def toy_put_registry_def example_registry_def example_marker_bytes_def)
qed

theorem marker_sign_then_verify_witness:
  "\<exists>k'. sign_marker {FCurve25519, FMlDsa} leb_wire toy_libs toy_marker example_controller example_hybrid_key = Ok k'
     \<and> verify_marker {FCurve25519, FMlDsa} leb_wire toy_libs toy_marker k' example_hybrid_public = Ok ()"
proof -
  let ?F = "{FCurve25519, FMlDsa}"
  obtain V where V: "signing_view ?F leb_wire toy_libs VEd25519Mldsa65 = Some V"
    by simp
  have sign: "\<exists>sig. ed25519_mldsa65_sign ?F leb_wire toy_hybrid example_hybrid_key example_marker_bytes False = Ok sig"
    by (simp add: ed25519_mldsa65_sign_def hybrid_sign_def sign_with_def example_hybrid_views ed25519_mldsa65_def
        ed25519_component_def mldsa65_component_def hybrid_sign_bytes_def built_multisig_def toy_hybrid_def toy_ms_build_def)
  have libs: "sl_hybrid toy_libs = toy_hybrid"
    by (simp add: toy_libs_def)
  have conv: "sv_conv V example_hybrid_key = Ok example_hybrid_public"
    using V example_hybrid_conv by (auto simp: libs)
  have "\<exists>sig. sv_sign V example_hybrid_key example_marker_bytes False = Ok sig"
    using V sign by (auto simp: libs)
  then obtain k' where k': "sign_marker ?F leb_wire toy_libs toy_marker example_controller example_hybrid_key = Ok k'"
    using V by (auto simp: sign_marker_def dispatched_sign_def example_canonical example_hybrid_views(4))
  have "no_zero_nonce ?F leb_wire toy_libs VEd25519Mldsa65 example_hybrid_key example_marker_bytes"
    by (simp add: no_zero_nonce_def)
  from marker_sign_then_verify[OF toy_libs_ok toy_marker_ok example_hybrid_views(4) V conv example_canonical this k']
  show ?thesis
    using k' by blast
qed

text \<open>
  C10: The signature of a marker binds the group key, the registry, the threshold and the limit: keys whose
  signed bytes agree agree in all four, so that no change of one of them leaves the signed bytes as they were.
\<close>

theorem marker_bytes_bind:
  assumes "marker_lib_ok C" and "canonical_marker_bytes W C k = Ok b" and "canonical_marker_bytes W C k' = Ok b"
  shows "group_public_key k = group_public_key k' \<and> participants C k = participants C k'
    \<and> marker_threshold W k = marker_threshold W k' \<and> marker_participant_count W k = marker_participant_count W k'"
proof -
  have parts: "\<exists>g m t n. group_public_key j = Ok g \<and> participants C j = Ok m \<and> marker_threshold W j = Ok t
      \<and> marker_participant_count W j = Ok n \<and> cbor_put_bundle C (g, m, t, n) = Ok b"
    if "canonical_marker_bytes W C j = Ok b" for j
    using that by (simp add: canonical_marker_bytes_def marker_cbor_def outcome_simps)
  show ?thesis
    using parts[OF assms(2)] parts[OF assms(3)] marker_libD(2)[OF assms(1)] by (metis prod.inject)
qed

theorem marker_bytes_bind_witness:
  "group_public_key example_controller = group_public_key (stamp example_controller KeyData [8])"
proof -
  have "canonical_marker_bytes leb_wire toy_marker (stamp example_controller KeyData [8]) = Ok example_marker_bytes"
    by (simp add: canonical_marker_stamp example_canonical)
  from marker_bytes_bind[OF toy_marker_ok example_canonical this] show ?thesis
    by blast
qed

text \<open>
  A registry of participants that was stamped on a key is read back as it was stamped if it has at
  most 1024 entries; a larger one is stamped without an error, but then cannot be read, and signing the
  marker does not succeed.
\<close>

lemma registry_read_back:
  assumes "marker_lib_ok C" and "registry_ok m" and "set_participants C k m = Ok k'"
  shows "(length m \<le> MAX_THRESHOLD_PARTICIPANTS \<longrightarrow> participants C k' = Ok m)
    \<and> (MAX_THRESHOLD_PARTICIPANTS < length m \<longrightarrow>
        (\<exists>e. participants C k' = Err (Attributes (AThresholdMarkerCbor e))) \<and> sign_marker F W L C k' author \<noteq> Ok k'')"
proof -
  have "sign_marker F W L C k' author \<noteq> Ok k''" if "participants C k' = Err e" for e
    using that by (auto simp: sign_marker_def canonical_marker_bytes_def outcome_simps)
  then show ?thesis
    using stamped_registry[OF assms] by auto
qed

lemma registry_read_back_witness:
  "participants toy_marker (stamp example_controller ThresholdParticipants (1 # toy_bytes [1] @ toy_bytes [4] @ toy_bytes [5])) =
   Ok example_registry"
proof -
  have reg: "registry_ok example_registry"
    by (simp add: registry_ok_def example_registry_def)
  have set: "set_participants toy_marker example_controller example_registry =
      Ok (stamp example_controller ThresholdParticipants (1 # toy_bytes [1] @ toy_bytes [4] @ toy_bytes [5]))"
    by (simp add: set_participants_def marker_cbor_def toy_marker_def toy_put_registry_def example_registry_def)
  show ?thesis
    using conjunct1[OF registry_read_back[OF toy_marker_ok reg set]] by (simp add: example_registry_def MAX_THRESHOLD_PARTICIPANTS_def)
qed

end
