(* ===== verification/Mk_Ssh.thy ===== *)
theory Mk_Ssh
  imports Mk_Signing Mk_Ecies
begin

text \<open>
  SSH keys: export (\<^verbatim>\<open>to_ssh_public_key\<close> and \<^verbatim>\<open>to_ssh_private_key\<close> of the view modules) and import
  (\<^verbatim>\<open>Builder::new_from_ssh_public_key\<close>, \<^verbatim>\<open>new_from_ssh_private_key\<close> and \<^verbatim>\<open>new_from_seed\<close>, \<^verbatim>\<open>src/mk.rs\<close>). The data types are
  those of the external crate \<^verbatim>\<open>ssh_key\<close>.
\<close>

section \<open>The external types and functions\<close>

datatype ecdsa_curve = NistP256 | NistP384 | NistP521

text \<open>\<^verbatim>\<open>Other\<close> is an algorithm by its name; the algorithms that the code does not look at are \<open>AlgMore\<close>.\<close>

datatype ssh_algorithm = AlgEcdsa ecdsa_curve | AlgEd25519 | AlgOther string | AlgMore string

datatype ssh_public_data =
    PubEcdsa ecdsa_curve bytes          \<comment> \<open>the uncompressed point\<close>
  | PubEd25519 bytes
  | PubOther string bytes               \<comment> \<open>algorithm name and opaque key\<close>
  | PubMore string

datatype ssh_private_data =
    KpEcdsa ecdsa_curve bytes bytes     \<comment> \<open>public and private\<close>
  | KpEd25519 bytes bytes
  | KpOther string bytes bytes
  | KpMore string

record ssh_public_key =
  sp_data :: ssh_public_data
  sp_comment :: bytes

record ssh_private_key =
  sk_data :: ssh_private_data
  sk_comment :: bytes

record ssh_lib =
  public_algorithm :: "ssh_public_data \<Rightarrow> ssh_algorithm"     \<comment> \<open>\<^verbatim>\<open>algorithm()\<close>\<close>
  private_algorithm :: "ssh_private_data \<Rightarrow> ssh_algorithm"
  algorithm_text :: "ssh_algorithm \<Rightarrow> string"                \<comment> \<open>its \<^verbatim>\<open>Display\<close>\<close>
  put_string :: "bytes \<Rightarrow> (lib_error, bytes) outcome"        \<comment> \<open>\<^verbatim>\<open>Encode\<close> of a byte vector\<close>
  get_opaque_public :: "bytes \<Rightarrow> (lib_error, bytes) outcome" \<comment> \<open>\<^verbatim>\<open>OpaquePublicKeyBytes::decode\<close>\<close>
  get_opaque_private :: "bytes \<Rightarrow> (lib_error, bytes) outcome"
  algorithm_name :: "string \<Rightarrow> (lib_error, string) outcome"  \<comment> \<open>\<^verbatim>\<open>AlgorithmName::new\<close>\<close>
  new_private_key :: "ssh_private_data \<Rightarrow> bytes \<Rightarrow> (lib_error, ssh_private_key) outcome" \<comment> \<open>\<^verbatim>\<open>PrivateKey::new\<close>\<close>
  from_sec1 :: "ecdsa_curve \<Rightarrow> bytes \<Rightarrow> (string, bytes) outcome"
    \<comment> \<open>\<^verbatim>\<open>VerifyingKey::from_sec1_bytes\<close>; the key in the form in which it is stored\<close>
  ssh_point :: "ecdsa_curve \<Rightarrow> bytes \<Rightarrow> (string, bytes) outcome" \<comment> \<open>\<^verbatim>\<open>to_sec1_point(false)\<close>, \<^verbatim>\<open>EncodedPoint::from_bytes\<close>\<close>
  ecdsa_private :: "ecdsa_curve \<Rightarrow> bytes \<Rightarrow> bytes"           \<comment> \<open>\<^verbatim>\<open>EcdsaPrivateKey::from(secret_key)\<close>\<close>
  ed25519_from_seed :: "bytes \<Rightarrow> bytes \<times> bytes"            \<comment> \<open>public and private\<close>

fun ssh_curve :: "ecdsa \<Rightarrow> ecdsa_curve" where
  "ssh_curve Ec_P384 = NistP384"
| "ssh_curve Ec_P521 = NistP521"
| "ssh_curve _ = NistP256"

text \<open>
  Documented behaviour: the algorithm is that of the data, what is encoded is decoded, and a point is
  the same point in either form.
\<close>

definition ssh_lib_ok :: "'a sign_lib_scheme \<Rightarrow> ssh_lib \<Rightarrow> bool" where
  "ssh_lib_ok S X \<longleftrightarrow>
     (\<forall>c p. public_algorithm X (PubEcdsa c p) = AlgEcdsa c) \<and> (\<forall>p. public_algorithm X (PubEd25519 p) = AlgEd25519)
   \<and> (\<forall>n p. public_algorithm X (PubOther n p) = AlgOther n)
   \<and> (\<forall>c p s. private_algorithm X (KpEcdsa c p s) = AlgEcdsa c) \<and> (\<forall>p s. private_algorithm X (KpEd25519 p s) = AlgEd25519)
   \<and> (\<forall>n p s. private_algorithm X (KpOther n p s) = AlgOther n)
   \<and> (\<forall>b s. put_string X b = Ok s \<longrightarrow> (\<forall>b'. get_opaque_public X s = Ok b' \<longrightarrow> b' = b) \<and> (\<forall>b'. get_opaque_private X s = Ok b' \<longrightarrow> b' = b))
   \<and> (\<forall>n n'. algorithm_name X n = Ok n' \<longrightarrow> n' = n)
   \<and> (\<forall>d c k. new_private_key X d c = Ok k \<longrightarrow> k = \<lparr>sk_data = d, sk_comment = c\<rparr>)
   \<and> (\<forall>c b p q. from_sec1 X c b = Ok p \<longrightarrow> ssh_point X c p = Ok q \<longrightarrow> from_sec1 X c q = Ok p)
   \<and> (\<forall>c b. ecdsa_private X c b = b) \<and> (\<forall>b. length b = 32 \<longrightarrow> length (ed_public S b) = 32)
   \<and> (\<forall>e b p. ec_secret S e b = Ok () \<longrightarrow> from_sec1 X (ssh_curve e) (ec_public S e b) = Ok p \<longrightarrow> p = ec_public S e b)"

definition ssh_encoding :: "(lib_error, 'a) outcome \<Rightarrow> 'a res" where
  "ssh_encoding = map_err (\<lambda>e. Conversions (CvSsh (SshEncoding e)))"

definition ssh_key_error :: "(lib_error, 'a) outcome \<Rightarrow> 'a res" where
  "ssh_key_error = map_err (\<lambda>e. Conversions (CvSsh (SshKey e)))"

definition ssh_label :: "(lib_error, 'a) outcome \<Rightarrow> 'a res" where
  "ssh_label = map_err (\<lambda>e. Conversions (CvSsh (SshKeyLabel e)))"

definition unsupported_algorithm :: "string \<Rightarrow> error" where
  "unsupported_algorithm s = Conversions (CvUnsupportedAlgorithm s)"

section \<open>Algorithm names\<close>

definition SECP256K1_ALGORITHM_NAME :: string where "SECP256K1_ALGORITHM_NAME = ''secp256k1@multikey''"
definition RSA_ALGORITHM_NAME :: string where "RSA_ALGORITHM_NAME = ''rsa-sha256@multikey''"

fun bls_algorithm_name :: "bls_group \<Rightarrow> bool \<Rightarrow> string" where
  "bls_algorithm_name G1 False = ''bls12_381-g1@multikey''"
| "bls_algorithm_name G1 True = ''bls12_381-g1-share@multikey''"
| "bls_algorithm_name G2 False = ''bls12_381-g2@multikey''"
| "bls_algorithm_name G2 True = ''bls12_381-g2-share@multikey''"

fun ml_dsa_algorithm_name :: "ml_set \<Rightarrow> string" where
  "ml_dsa_algorithm_name Ml65 = ''ml-dsa-65@multikey''"
| "ml_dsa_algorithm_name Ml87 = ''ml-dsa-87@multikey''"

fun fn_dsa_algorithm_name :: "fn_set \<Rightarrow> string" where
  "fn_dsa_algorithm_name Fn512 = ''fn-dsa-512@multikey''"
| "fn_dsa_algorithm_name Fn1024 = ''fn-dsa-1024@multikey''"

fun mayo_algorithm_name :: "mayo_set \<Rightarrow> string" where
  "mayo_algorithm_name Mayo_1 = ''mayo-1@multikey''"
| "mayo_algorithm_name Mayo_2 = ''mayo-2@multikey''"
| "mayo_algorithm_name Mayo_3 = ''mayo-3@multikey''"
| "mayo_algorithm_name Mayo_5 = ''mayo-5@multikey''"

fun slh_dsa_algorithm_name :: "slh_set \<Rightarrow> string" where
  "slh_dsa_algorithm_name SlhSha2_128F = ''slh-dsa-sha2-128f@multikey''"
| "slh_dsa_algorithm_name SlhSha2_128S = ''slh-dsa-sha2-128s@multikey''"
| "slh_dsa_algorithm_name SlhSha2_192F = ''slh-dsa-sha2-192f@multikey''"
| "slh_dsa_algorithm_name SlhSha2_192S = ''slh-dsa-sha2-192s@multikey''"
| "slh_dsa_algorithm_name SlhSha2_256F = ''slh-dsa-sha2-256f@multikey''"
| "slh_dsa_algorithm_name SlhSha2_256S = ''slh-dsa-sha2-256s@multikey''"
| "slh_dsa_algorithm_name SlhShake_128F = ''slh-dsa-shake-128f@multikey''"
| "slh_dsa_algorithm_name SlhShake_128S = ''slh-dsa-shake-128s@multikey''"
| "slh_dsa_algorithm_name SlhShake_192F = ''slh-dsa-shake-192f@multikey''"
| "slh_dsa_algorithm_name SlhShake_192S = ''slh-dsa-shake-192s@multikey''"
| "slh_dsa_algorithm_name SlhShake_256F = ''slh-dsa-shake-256f@multikey''"
| "slh_dsa_algorithm_name SlhShake_256S = ''slh-dsa-shake-256s@multikey''"

section \<open>Import\<close>

definition imported :: "codec \<Rightarrow> bytes \<Rightarrow> bytes \<Rightarrow> builder" where
  "imported c comment bytes =
     (builder_new c)\<lparr>b_comment := Some comment, b_attributes := Some (attr_insert KeyData bytes Map.empty)\<rparr>"

definition imported_share :: "wire \<Rightarrow> codec \<Rightarrow> bytes \<Rightarrow> key_share \<Rightarrow> builder" where
  "imported_share W c comment s =
     (builder_new c)\<lparr>b_comment := Some comment, b_attributes := Some
       (attr_insert KeyData (ks_value s) (attr_insert Limit (put_uint W (ks_limit s))
         (attr_insert Threshold (put_uint W (ks_threshold s)) (attr_insert ShareIdentifier (ks_identifier s) Map.empty))))\<rparr>"

definition key_share_try_from :: "wire \<Rightarrow> bls_lib \<Rightarrow> bytes \<Rightarrow> key_share res" where
  "key_share_try_from W B bs = and_then (key_share_decode W B bs) (\<lambda>(s, _). Ok s)"

text \<open>The first arm of a match that is taken.\<close>

fun first_arm :: "'a option list \<Rightarrow> 'a \<Rightarrow> 'a" where
  "first_arm [] d = d"
| "first_arm (Some x # xs) d = x"
| "first_arm (None # xs) d = first_arm xs d"

subsection \<open>Public keys\<close>

definition opaque_public :: "ssh_lib \<Rightarrow> ssh_public_key \<Rightarrow> bytes res" where
  "opaque_public X key =
     (case sp_data key of
        PubOther _ bytes \<Rightarrow> Ok bytes
      | _ \<Rightarrow> Err (unsupported_algorithm (algorithm_text X (public_algorithm X (sp_data key)))))"

definition import_opaque_public :: "ssh_lib \<Rightarrow> ssh_public_key \<Rightarrow> codec \<Rightarrow> builder res" where
  "import_opaque_public X key c = and_then (opaque_public X key) (\<lambda>bytes. Ok (imported c (sp_comment key) bytes))"

definition import_share_public :: "wire \<Rightarrow> bls_lib \<Rightarrow> ssh_lib \<Rightarrow> ssh_public_key \<Rightarrow> codec \<Rightarrow> builder res" where
  "import_share_public W B X key c =
     and_then (opaque_public X key) (\<lambda>bytes.
     and_then (key_share_try_from W B bytes) (\<lambda>s.
     Ok (imported_share W c (sp_comment key) s)))"

text \<open>The arms of the match on the name, by family; \<open>None\<close> when no arm of the family is taken.\<close>

definition import_secp256k1_public :: "features \<Rightarrow> ssh_lib \<Rightarrow> ssh_public_key \<Rightarrow> string \<Rightarrow> builder res option" where
  "import_secp256k1_public F X key name =
     (if FSecp256k1 \<in> F \<and> name = SECP256K1_ALGORITHM_NAME then Some (import_opaque_public X key (Secp256K1 Pub)) else None)"

definition import_bls_public :: "features \<Rightarrow> wire \<Rightarrow> bls_lib \<Rightarrow> ssh_lib \<Rightarrow> ssh_public_key \<Rightarrow> string \<Rightarrow> builder res option" where
  "import_bls_public F W B X key name =
     (if FBls12381 \<notin> F then None
      else if name = bls_algorithm_name G1 False then Some (import_opaque_public X key (Bls12381 G1 BPub))
      else if name = bls_algorithm_name G1 True then Some (import_share_public W B X key (Bls12381 G1 BPubShare))
      else if name = bls_algorithm_name G2 False then Some (import_opaque_public X key (Bls12381 G2 BPub))
      else if name = bls_algorithm_name G2 True then Some (import_share_public W B X key (Bls12381 G2 BPubShare))
      else None)"

definition import_ml_dsa_public :: "features \<Rightarrow> ssh_lib \<Rightarrow> ssh_public_key \<Rightarrow> string \<Rightarrow> builder res option" where
  "import_ml_dsa_public F X key name =
     (if FMlDsa \<notin> F then None
      else if name = ml_dsa_algorithm_name Ml65 then Some (import_opaque_public X key (MlDsa Ml65 SPub))
      else if name = ml_dsa_algorithm_name Ml87 then Some (import_opaque_public X key (MlDsa Ml87 SPub))
      else None)"

definition import_fn_dsa_public :: "features \<Rightarrow> ssh_lib \<Rightarrow> ssh_public_key \<Rightarrow> string \<Rightarrow> builder res option" where
  "import_fn_dsa_public F X key name =
     (if FFnDsa \<notin> F then None
      else if name = fn_dsa_algorithm_name Fn512 then Some (import_opaque_public X key (FnDsa Fn512 SPub))
      else if name = fn_dsa_algorithm_name Fn1024 then Some (import_opaque_public X key (FnDsa Fn1024 SPub))
      else None)"

definition import_slh_dsa_sha2_public :: "features \<Rightarrow> ssh_lib \<Rightarrow> ssh_public_key \<Rightarrow> string \<Rightarrow> builder res option" where
  "import_slh_dsa_sha2_public F X key name =
     (if FSlhDsa \<notin> F then None
      else if name = slh_dsa_algorithm_name SlhSha2_128F then Some (import_opaque_public X key (SlhDsa SlhSha2_128F SPub))
      else if name = slh_dsa_algorithm_name SlhSha2_128S then Some (import_opaque_public X key (SlhDsa SlhSha2_128S SPub))
      else if name = slh_dsa_algorithm_name SlhSha2_192F then Some (import_opaque_public X key (SlhDsa SlhSha2_192F SPub))
      else if name = slh_dsa_algorithm_name SlhSha2_192S then Some (import_opaque_public X key (SlhDsa SlhSha2_192S SPub))
      else if name = slh_dsa_algorithm_name SlhSha2_256F then Some (import_opaque_public X key (SlhDsa SlhSha2_256F SPub))
      else if name = slh_dsa_algorithm_name SlhSha2_256S then Some (import_opaque_public X key (SlhDsa SlhSha2_256S SPub))
      else None)"

definition import_slh_dsa_shake_public :: "features \<Rightarrow> ssh_lib \<Rightarrow> ssh_public_key \<Rightarrow> string \<Rightarrow> builder res option" where
  "import_slh_dsa_shake_public F X key name =
     (if FSlhDsa \<notin> F then None
      else if name = slh_dsa_algorithm_name SlhShake_128F then Some (import_opaque_public X key (SlhDsa SlhShake_128F SPub))
      else if name = slh_dsa_algorithm_name SlhShake_128S then Some (import_opaque_public X key (SlhDsa SlhShake_128S SPub))
      else if name = slh_dsa_algorithm_name SlhShake_192F then Some (import_opaque_public X key (SlhDsa SlhShake_192F SPub))
      else if name = slh_dsa_algorithm_name SlhShake_192S then Some (import_opaque_public X key (SlhDsa SlhShake_192S SPub))
      else if name = slh_dsa_algorithm_name SlhShake_256F then Some (import_opaque_public X key (SlhDsa SlhShake_256F SPub))
      else if name = slh_dsa_algorithm_name SlhShake_256S then Some (import_opaque_public X key (SlhDsa SlhShake_256S SPub))
      else None)"

text \<open>\<^verbatim>\<open>Algorithm::Ecdsa\<close>: the arms of the curves that are compiled in.\<close>

definition import_ecdsa_public :: "features \<Rightarrow> ssh_lib \<Rightarrow> ssh_public_key \<Rightarrow> ecdsa_curve \<Rightarrow> builder res" where
  "import_ecdsa_public F X key curve =
     (let bad = Err (unsupported_algorithm (algorithm_text X (public_algorithm X (sp_data key)))) in
     and_then
       (case curve of
        NistP256 \<Rightarrow>
          if FP256 \<notin> F then bad
          else (case sp_data key of
            PubEcdsa NistP256 point \<Rightarrow> and_then (map_err public_failure (from_sec1 X NistP256 point)) (\<lambda>bytes. Ok (bytes, P256 Pub))
          | _ \<Rightarrow> bad)
      | NistP384 \<Rightarrow>
          if FP384 \<notin> F then bad
          else (case sp_data key of
            PubEcdsa NistP384 point \<Rightarrow> and_then (map_err public_failure (from_sec1 X NistP384 point)) (\<lambda>bytes. Ok (bytes, P384 Pub))
          | _ \<Rightarrow> bad)
      | NistP521 \<Rightarrow>
          if FP521 \<notin> F then bad
          else (case sp_data key of
            PubEcdsa NistP521 point \<Rightarrow> and_then (map_err public_failure (from_sec1 X NistP521 point)) (\<lambda>bytes. Ok (bytes, P521 Pub))
          | _ \<Rightarrow> bad)) (\<lambda>(bytes, c).
     Ok (imported c (sp_comment key) bytes)))"

definition import_ed25519_public :: "ssh_lib \<Rightarrow> ssh_public_key \<Rightarrow> builder res" where
  "import_ed25519_public X key =
     (case sp_data key of
        PubEd25519 bytes \<Rightarrow> Ok (imported (Ed25519 Pub) (sp_comment key) bytes)
      | _ \<Rightarrow> Err (unsupported_algorithm (algorithm_text X (public_algorithm X (sp_data key)))))"

definition import_named_public :: "features \<Rightarrow> wire \<Rightarrow> bls_lib \<Rightarrow> ssh_lib \<Rightarrow> ssh_public_key \<Rightarrow> string \<Rightarrow> builder res" where
  "import_named_public F W B X key name =
     first_arm [import_secp256k1_public F X key name, import_bls_public F W B X key name,
       import_ml_dsa_public F X key name, import_fn_dsa_public F X key name,
       import_slh_dsa_sha2_public F X key name, import_slh_dsa_shake_public F X key name]
       (Err (unsupported_algorithm name))"

definition new_from_ssh_public_key :: "features \<Rightarrow> wire \<Rightarrow> bls_lib \<Rightarrow> ssh_lib \<Rightarrow> ssh_public_key \<Rightarrow> builder res" where
  "new_from_ssh_public_key F W B X key =
     (let algorithm = public_algorithm X (sp_data key); bad = Err (unsupported_algorithm (algorithm_text X algorithm)) in
      case algorithm of
        AlgEcdsa curve \<Rightarrow> if FP256 \<in> F \<or> FP384 \<in> F \<or> FP521 \<in> F then import_ecdsa_public F X key curve else bad
      | AlgOther name \<Rightarrow> import_named_public F W B X key name
      | AlgEd25519 \<Rightarrow> if FCurve25519 \<in> F then import_ed25519_public X key else bad
      | AlgMore _ \<Rightarrow> bad)"

subsection \<open>Private keys\<close>

definition opaque_private :: "ssh_lib \<Rightarrow> ssh_private_key \<Rightarrow> bytes res" where
  "opaque_private X key =
     (case sk_data key of
        KpOther _ _ bytes \<Rightarrow> Ok bytes
      | _ \<Rightarrow> Err (unsupported_algorithm (algorithm_text X (private_algorithm X (sk_data key)))))"

definition import_opaque_private :: "ssh_lib \<Rightarrow> ssh_private_key \<Rightarrow> codec \<Rightarrow> builder res" where
  "import_opaque_private X key c = and_then (opaque_private X key) (\<lambda>bytes. Ok (imported c (sk_comment key) bytes))"

definition import_share_private :: "wire \<Rightarrow> bls_lib \<Rightarrow> ssh_lib \<Rightarrow> ssh_private_key \<Rightarrow> codec \<Rightarrow> builder res" where
  "import_share_private W B X key c =
     and_then (opaque_private X key) (\<lambda>bytes.
     and_then (key_share_try_from W B bytes) (\<lambda>s.
     Ok (imported_share W c (sk_comment key) s)))"

text \<open>The arms of the match on the name, by family; \<open>None\<close> when no arm of the family is taken.\<close>

definition import_secp256k1_private :: "features \<Rightarrow> ssh_lib \<Rightarrow> ssh_private_key \<Rightarrow> string \<Rightarrow> builder res option" where
  "import_secp256k1_private F X key name =
     (if FSecp256k1 \<in> F \<and> name = SECP256K1_ALGORITHM_NAME then Some (import_opaque_private X key (Secp256K1 Priv)) else None)"

definition import_bls_private :: "features \<Rightarrow> wire \<Rightarrow> bls_lib \<Rightarrow> ssh_lib \<Rightarrow> ssh_private_key \<Rightarrow> string \<Rightarrow> builder res option" where
  "import_bls_private F W B X key name =
     (if FBls12381 \<notin> F then None
      else if name = bls_algorithm_name G1 False then Some (import_opaque_private X key (Bls12381 G1 BPriv))
      else if name = bls_algorithm_name G1 True then Some (import_share_private W B X key (Bls12381 G1 BPrivShare))
      else if name = bls_algorithm_name G2 False then Some (import_opaque_private X key (Bls12381 G2 BPriv))
      else if name = bls_algorithm_name G2 True then Some (import_share_private W B X key (Bls12381 G2 BPrivShare))
      else None)"

definition import_ml_dsa_private :: "features \<Rightarrow> ssh_lib \<Rightarrow> ssh_private_key \<Rightarrow> string \<Rightarrow> builder res option" where
  "import_ml_dsa_private F X key name =
     (if FMlDsa \<notin> F then None
      else if name = ml_dsa_algorithm_name Ml65 then Some (import_opaque_private X key (MlDsa Ml65 SPriv))
      else if name = ml_dsa_algorithm_name Ml87 then Some (import_opaque_private X key (MlDsa Ml87 SPriv))
      else None)"

definition import_fn_dsa_private :: "features \<Rightarrow> ssh_lib \<Rightarrow> ssh_private_key \<Rightarrow> string \<Rightarrow> builder res option" where
  "import_fn_dsa_private F X key name =
     (if FFnDsa \<notin> F then None
      else if name = fn_dsa_algorithm_name Fn512 then Some (import_opaque_private X key (FnDsa Fn512 SPriv))
      else if name = fn_dsa_algorithm_name Fn1024 then Some (import_opaque_private X key (FnDsa Fn1024 SPriv))
      else None)"

definition import_slh_dsa_sha2_private :: "features \<Rightarrow> ssh_lib \<Rightarrow> ssh_private_key \<Rightarrow> string \<Rightarrow> builder res option" where
  "import_slh_dsa_sha2_private F X key name =
     (if FSlhDsa \<notin> F then None
      else if name = slh_dsa_algorithm_name SlhSha2_128F then Some (import_opaque_private X key (SlhDsa SlhSha2_128F SPriv))
      else if name = slh_dsa_algorithm_name SlhSha2_128S then Some (import_opaque_private X key (SlhDsa SlhSha2_128S SPriv))
      else if name = slh_dsa_algorithm_name SlhSha2_192F then Some (import_opaque_private X key (SlhDsa SlhSha2_192F SPriv))
      else if name = slh_dsa_algorithm_name SlhSha2_192S then Some (import_opaque_private X key (SlhDsa SlhSha2_192S SPriv))
      else if name = slh_dsa_algorithm_name SlhSha2_256F then Some (import_opaque_private X key (SlhDsa SlhSha2_256F SPriv))
      else if name = slh_dsa_algorithm_name SlhSha2_256S then Some (import_opaque_private X key (SlhDsa SlhSha2_256S SPriv))
      else None)"

definition import_slh_dsa_shake_private :: "features \<Rightarrow> ssh_lib \<Rightarrow> ssh_private_key \<Rightarrow> string \<Rightarrow> builder res option" where
  "import_slh_dsa_shake_private F X key name =
     (if FSlhDsa \<notin> F then None
      else if name = slh_dsa_algorithm_name SlhShake_128F then Some (import_opaque_private X key (SlhDsa SlhShake_128F SPriv))
      else if name = slh_dsa_algorithm_name SlhShake_128S then Some (import_opaque_private X key (SlhDsa SlhShake_128S SPriv))
      else if name = slh_dsa_algorithm_name SlhShake_192F then Some (import_opaque_private X key (SlhDsa SlhShake_192F SPriv))
      else if name = slh_dsa_algorithm_name SlhShake_192S then Some (import_opaque_private X key (SlhDsa SlhShake_192S SPriv))
      else if name = slh_dsa_algorithm_name SlhShake_256F then Some (import_opaque_private X key (SlhDsa SlhShake_256F SPriv))
      else if name = slh_dsa_algorithm_name SlhShake_256S then Some (import_opaque_private X key (SlhDsa SlhShake_256S SPriv))
      else None)"

text \<open>\<^verbatim>\<open>Algorithm::Ecdsa\<close>: the arms of the curves that are compiled in.\<close>

definition import_ecdsa_private :: "features \<Rightarrow> ssh_lib \<Rightarrow> ssh_private_key \<Rightarrow> ecdsa_curve \<Rightarrow> builder res" where
  "import_ecdsa_private F X key curve =
     (let bad = Err (unsupported_algorithm (algorithm_text X (private_algorithm X (sk_data key)))) in
     and_then
       (case curve of
        NistP256 \<Rightarrow>
          if FP256 \<notin> F then bad
          else (case sk_data key of
            KpEcdsa NistP256 _ secret \<Rightarrow> Ok (secret, P256 Priv)
          | _ \<Rightarrow> bad)
      | NistP384 \<Rightarrow>
          if FP384 \<notin> F then bad
          else (case sk_data key of
            KpEcdsa NistP384 _ secret \<Rightarrow> Ok (secret, P384 Priv)
          | _ \<Rightarrow> bad)
      | NistP521 \<Rightarrow>
          if FP521 \<notin> F then bad
          else (case sk_data key of
            KpEcdsa NistP521 _ secret \<Rightarrow> Ok (secret, P521 Priv)
          | _ \<Rightarrow> bad)) (\<lambda>(bytes, c).
     Ok (imported c (sk_comment key) bytes)))"

definition import_ed25519_private :: "ssh_lib \<Rightarrow> ssh_private_key \<Rightarrow> builder res" where
  "import_ed25519_private X key =
     (case sk_data key of
        KpEd25519 _ bytes \<Rightarrow> Ok (imported (Ed25519 Priv) (sk_comment key) bytes)
      | _ \<Rightarrow> Err (unsupported_algorithm (algorithm_text X (private_algorithm X (sk_data key)))))"

definition import_named_private :: "features \<Rightarrow> wire \<Rightarrow> bls_lib \<Rightarrow> ssh_lib \<Rightarrow> ssh_private_key \<Rightarrow> string \<Rightarrow> builder res" where
  "import_named_private F W B X key name =
     first_arm [import_secp256k1_private F X key name, import_bls_private F W B X key name,
       import_ml_dsa_private F X key name, import_fn_dsa_private F X key name,
       import_slh_dsa_sha2_private F X key name, import_slh_dsa_shake_private F X key name]
       (Err (unsupported_algorithm name))"

definition new_from_ssh_private_key :: "features \<Rightarrow> wire \<Rightarrow> bls_lib \<Rightarrow> ssh_lib \<Rightarrow> ssh_private_key \<Rightarrow> builder res" where
  "new_from_ssh_private_key F W B X key =
     (let algorithm = private_algorithm X (sk_data key); bad = Err (unsupported_algorithm (algorithm_text X algorithm)) in
      case algorithm of
        AlgEcdsa curve \<Rightarrow> if FP256 \<in> F \<or> FP384 \<in> F \<or> FP521 \<in> F then import_ecdsa_private F X key curve else bad
      | AlgOther name \<Rightarrow> import_named_private F W B X key name
      | AlgEd25519 \<Rightarrow> if FCurve25519 \<in> F then import_ed25519_private X key else bad
      | AlgMore _ \<Rightarrow> bad)"

subsection \<open>Seeds\<close>

definition new_from_seed :: "features \<Rightarrow> wire \<Rightarrow> bls_lib \<Rightarrow> ssh_lib \<Rightarrow> codec \<Rightarrow> bytes \<Rightarrow> builder res" where
  "new_from_seed F W B X c seed =
     (if c = Ed25519 Priv \<and> FCurve25519 \<in> F then
        (if length seed \<noteq> 32 then Err (unsupported_algorithm ''Ed25519 seed must be 32 bytes long'')
         else
         case ed25519_from_seed X seed of (pub, secret) \<Rightarrow>
         and_then (ssh_key_error (new_private_key X (KpEd25519 pub secret) [])) (\<lambda>key.
         new_from_ssh_private_key F W B X key))
      else Err (Conversions (CvUnsupportedCodec c)))"

section \<open>Export\<close>

definition ssh_opaque_public :: "ssh_lib \<Rightarrow> bytes \<Rightarrow> bytes res" where
  "ssh_opaque_public X bytes =
     and_then (ssh_encoding (put_string X bytes)) (\<lambda>buf. ssh_key_error (get_opaque_public X buf))"

definition ssh_opaque_private :: "ssh_lib \<Rightarrow> bytes \<Rightarrow> bytes res" where
  "ssh_opaque_private X bytes =
     and_then (ssh_encoding (put_string X bytes)) (\<lambda>buf. ssh_key_error (get_opaque_private X buf))"

definition other_public_key :: "ssh_lib \<Rightarrow> string \<Rightarrow> bytes \<Rightarrow> bytes \<Rightarrow> ssh_public_key res" where
  "other_public_key X name bytes comment =
     and_then (ssh_opaque_public X bytes) (\<lambda>key.
     and_then (ssh_label (algorithm_name X name)) (\<lambda>n.
     Ok \<lparr>sp_data = PubOther n key, sp_comment = comment\<rparr>))"

definition other_private_key :: "ssh_lib \<Rightarrow> string \<Rightarrow> bytes \<Rightarrow> bytes \<Rightarrow> bytes \<Rightarrow> ssh_private_key res" where
  "other_private_key X name pub secret comment =
     and_then (ssh_label (algorithm_name X name)) (\<lambda>n.
     ssh_key_error (new_private_key X (KpOther n pub secret) comment))"

text \<open>
  The views whose keys are opaque to SSH: \<open>conv\<close> is the conversion to a public key, \<open>names\<close> the name
  for the codec of a key.
\<close>

definition opaque_to_ssh_public ::
  "features \<Rightarrow> wire \<Rightarrow> ssh_lib \<Rightarrow> (multikey \<Rightarrow> multikey res) \<Rightarrow> (codec \<Rightarrow> string option) \<Rightarrow> multikey \<Rightarrow> ssh_public_key res" where
  "opaque_to_ssh_public F W X conv names k =
     and_then (public_form F W conv k) (\<lambda>pk.
     and_then (dispatched_bytes F W pk) (\<lambda>key.
     and_then (ok_or (Conversions (CvUnsupportedCodec (mk_codec pk))) (names (mk_codec pk))) (\<lambda>name.
     other_public_key X name key (mk_comment pk))))"

definition opaque_to_ssh_private ::
  "features \<Rightarrow> wire \<Rightarrow> ssh_lib \<Rightarrow> (multikey \<Rightarrow> multikey res) \<Rightarrow> (codec \<Rightarrow> string option) \<Rightarrow> multikey \<Rightarrow> ssh_private_key res" where
  "opaque_to_ssh_private F W X conv names k =
     and_then (dispatched_secret F W k) (\<lambda>secret.
     and_then (ok_or (Conversions (CvUnsupportedCodec (mk_codec k))) (names (mk_codec k))) (\<lambda>name.
     and_then (ssh_opaque_private X secret) (\<lambda>opaque_secret.
     and_then (conv k) (\<lambda>pk.
     and_then (dispatched_bytes F W pk) (\<lambda>key.
     and_then (ssh_opaque_public X key) (\<lambda>opaque_key.
     other_private_key X name opaque_key opaque_secret (mk_comment k)))))))"

definition ml_dsa_names :: "spart \<Rightarrow> codec \<Rightarrow> string option" where
  "ml_dsa_names part c = (case c of MlDsa s p \<Rightarrow> if p = part then Some (ml_dsa_algorithm_name s) else None | _ \<Rightarrow> None)"

definition fn_dsa_names :: "spart \<Rightarrow> codec \<Rightarrow> string option" where
  "fn_dsa_names part c = (case c of FnDsa s p \<Rightarrow> if p = part then Some (fn_dsa_algorithm_name s) else None | _ \<Rightarrow> None)"

definition slh_dsa_names :: "spart \<Rightarrow> codec \<Rightarrow> string option" where
  "slh_dsa_names part c = (case c of SlhDsa s p \<Rightarrow> if p = part then Some (slh_dsa_algorithm_name s) else None | _ \<Rightarrow> None)"

definition mayo_names :: "spart \<Rightarrow> codec \<Rightarrow> string option" where
  "mayo_names part c = (case c of Mayo s p \<Rightarrow> if p = part then Some (mayo_algorithm_name s) else None | _ \<Rightarrow> None)"

definition secp256k1_to_ssh_public_key where
  "secp256k1_to_ssh_public_key F W S X = opaque_to_ssh_public F W X (secp256k1_to_public_key F W S) (\<lambda>_. Some SECP256K1_ALGORITHM_NAME)"

definition secp256k1_to_ssh_private_key where
  "secp256k1_to_ssh_private_key F W S X = opaque_to_ssh_private F W X (secp256k1_to_public_key F W S) (\<lambda>_. Some SECP256K1_ALGORITHM_NAME)"

definition rsa_to_ssh_public_key where
  "rsa_to_ssh_public_key F W S X = opaque_to_ssh_public F W X (rsa_to_public_key F W S) (\<lambda>_. Some RSA_ALGORITHM_NAME)"

definition rsa_to_ssh_private_key where
  "rsa_to_ssh_private_key F W S X = opaque_to_ssh_private F W X (rsa_to_public_key F W S) (\<lambda>_. Some RSA_ALGORITHM_NAME)"

definition ml_dsa_to_ssh_public_key where
  "ml_dsa_to_ssh_public_key F W S X = opaque_to_ssh_public F W X (ml_dsa_to_public_key F W S) (ml_dsa_names SPub)"

definition ml_dsa_to_ssh_private_key where
  "ml_dsa_to_ssh_private_key F W S X = opaque_to_ssh_private F W X (ml_dsa_to_public_key F W S) (ml_dsa_names SPriv)"

definition fn_dsa_to_ssh_public_key where
  "fn_dsa_to_ssh_public_key F W S X = opaque_to_ssh_public F W X (fn_dsa_to_public_key F W S) (fn_dsa_names SPub)"

definition fn_dsa_to_ssh_private_key where
  "fn_dsa_to_ssh_private_key F W S X = opaque_to_ssh_private F W X (fn_dsa_to_public_key F W S) (fn_dsa_names SPriv)"

definition slh_dsa_to_ssh_public_key where
  "slh_dsa_to_ssh_public_key F W S X = opaque_to_ssh_public F W X (slh_dsa_to_public_key F W S) (slh_dsa_names SPub)"

definition slh_dsa_to_ssh_private_key where
  "slh_dsa_to_ssh_private_key F W S X = opaque_to_ssh_private F W X (slh_dsa_to_public_key F W S) (slh_dsa_names SPriv)"

definition mayo_to_ssh_public_key where
  "mayo_to_ssh_public_key F W S X = opaque_to_ssh_public F W X (mayo_to_public_key F W S) (mayo_names SPub)"

definition mayo_to_ssh_private_key where
  "mayo_to_ssh_private_key F W S X = opaque_to_ssh_private F W X (mayo_to_public_key F W S) (mayo_names SPriv)"

text \<open>Ed25519 and the NIST curves have a form of their own.\<close>

definition ed25519_to_ssh_public_key ::
  "features \<Rightarrow> wire \<Rightarrow> 'a sign_lib_scheme \<Rightarrow> multikey \<Rightarrow> ssh_public_key res" where
  "ed25519_to_ssh_public_key F W S k =
     and_then (public_form F W (ed25519_to_public_key F W S) k) (\<lambda>pk.
     and_then (dispatched_bytes F W pk) (\<lambda>key.
     and_then (prefix_of PUBLIC_KEY_LENGTH key) (\<lambda>bytes.
     Ok \<lparr>sp_data = PubEd25519 bytes, sp_comment = mk_comment pk\<rparr>)))"

definition ed25519_to_ssh_private_key ::
  "features \<Rightarrow> wire \<Rightarrow> 'a sign_lib_scheme \<Rightarrow> ssh_lib \<Rightarrow> multikey \<Rightarrow> ssh_private_key res" where
  "ed25519_to_ssh_private_key F W S X k =
     and_then (dispatched_secret F W k) (\<lambda>secret.
     and_then (prefix_of SECRET_KEY_LENGTH secret) (\<lambda>bytes.
     and_then (ed25519_to_public_key F W S k) (\<lambda>pk.
     and_then (dispatched_bytes F W pk) (\<lambda>key.
     and_then (prefix_of PUBLIC_KEY_LENGTH key) (\<lambda>public_bytes.
     ssh_key_error (new_private_key X (KpEd25519 public_bytes bytes) (mk_comment k)))))))"

definition nist_to_ssh_public_key ::
  "features \<Rightarrow> wire \<Rightarrow> 'a sign_lib_scheme \<Rightarrow> ssh_lib \<Rightarrow> multikey \<Rightarrow> ssh_public_key res" where
  "nist_to_ssh_public_key F W S X k =
     and_then (public_form F W (nist_to_public_key F W S) k) (\<lambda>pk.
     and_then (dispatched_bytes F W pk) (\<lambda>key.
     case nist_curve F Pub (nist_pub_codec (mk_codec k)) of
       None \<Rightarrow> Err (Conversions (CvUnsupportedCodec (mk_codec k)))
     | Some (curve, _) \<Rightarrow>
         and_then (map_err public_failure (from_sec1 X (ssh_curve curve) key)) (\<lambda>vk.
         and_then (map_err public_failure (ssh_point X (ssh_curve curve) vk)) (\<lambda>point.
         Ok \<lparr>sp_data = PubEcdsa (ssh_curve curve) point, sp_comment = mk_comment pk\<rparr>))))"

definition nist_to_ssh_private_key ::
  "features \<Rightarrow> wire \<Rightarrow> 'a sign_lib_scheme \<Rightarrow> ssh_lib \<Rightarrow> multikey \<Rightarrow> ssh_private_key res" where
  "nist_to_ssh_private_key F W S X k =
     and_then (dispatched_secret F W k) (\<lambda>secret.
     and_then
       (case nist_curve F Priv (mk_codec k) of
          None \<Rightarrow> Err (Conversions (CvUnsupportedCodec (mk_codec k)))
        | Some (curve, len) \<Rightarrow>
            and_then (prefix_of len secret) (\<lambda>bytes.
            and_then (map_err secret_failure (ec_secret S curve bytes)) (\<lambda>_.
            and_then (map_err public_failure (ssh_point X (ssh_curve curve) (ec_public S curve bytes))) (\<lambda>point.
            Ok (KpEcdsa (ssh_curve curve) point (ecdsa_private X (ssh_curve curve) bytes)))))) (\<lambda>keypair.
     ssh_key_error (new_private_key X keypair (mk_comment k))))"

text \<open>A BLS key share is exported with its identifier, threshold and limit.\<close>

definition ssh_key_share :: "features \<Rightarrow> wire \<Rightarrow> bls_lib \<Rightarrow> multikey \<Rightarrow> bytes \<Rightarrow> bytes res" where
  "ssh_key_share F W B k bytes =
     and_then (threshold_attr_view F W k) (\<lambda>tav.
     and_then (and_then (ta_identifier tav) (bytes_to_identifier B)) (\<lambda>ident.
     and_then (ta_threshold tav) (\<lambda>threshold.
     and_then (ta_limit tav) (\<lambda>limit.
     Ok (key_share_encode W \<lparr>ks_identifier = ident, ks_threshold = threshold, ks_limit = limit, ks_value = bytes\<rparr>)))))"

definition bls_to_ssh_public_key ::
  "features \<Rightarrow> wire \<Rightarrow> bls_lib \<Rightarrow> ssh_lib \<Rightarrow> multikey \<Rightarrow> ssh_public_key res" where
  "bls_to_ssh_public_key F W B X k =
     and_then (public_form F W (bls_to_public_key F W B) k) (\<lambda>pk.
     and_then (dispatched_bytes F W pk) (\<lambda>key.
     and_then
       (case mk_codec pk of
          Bls12381 g BPub \<Rightarrow> and_then (ssh_encoding (put_string X key)) (\<lambda>buf. Ok (buf, bls_algorithm_name g False))
        | Bls12381 g BPubShare \<Rightarrow>
            and_then (ssh_key_share F W B pk key) (\<lambda>share.
            and_then (ssh_encoding (put_string X share)) (\<lambda>buf. Ok (buf, bls_algorithm_name g True)))
        | _ \<Rightarrow> Err (Conversions (CvUnsupportedCodec (mk_codec k)))) (\<lambda>(buf, name).
     and_then (ssh_key_error (get_opaque_public X buf)) (\<lambda>opaque_key.
     and_then (ssh_label (algorithm_name X name)) (\<lambda>n.
     Ok \<lparr>sp_data = PubOther n opaque_key, sp_comment = mk_comment pk\<rparr>)))))"

definition bls_to_ssh_private_key ::
  "features \<Rightarrow> wire \<Rightarrow> bls_lib \<Rightarrow> ssh_lib \<Rightarrow> multikey \<Rightarrow> ssh_private_key res" where
  "bls_to_ssh_private_key F W B X k =
     and_then (dispatched_secret F W k) (\<lambda>secret.
     and_then (bls_to_public_key F W B k) (\<lambda>pk.
     and_then (dispatched_bytes F W pk) (\<lambda>key.
     and_then
       (case mk_codec k of
          Bls12381 g BPriv \<Rightarrow>
            and_then (ssh_encoding (put_string X secret)) (\<lambda>secret_buf.
            and_then (ssh_encoding (put_string X key)) (\<lambda>public_buf.
            Ok (secret_buf, public_buf, bls_algorithm_name g False)))
        | Bls12381 g BPrivShare \<Rightarrow>
            and_then (ssh_key_share F W B k secret) (\<lambda>secret_share.
            and_then (ssh_key_share F W B pk key) (\<lambda>public_share.
            and_then (ssh_encoding (put_string X secret_share)) (\<lambda>secret_buf.
            and_then (ssh_encoding (put_string X public_share)) (\<lambda>public_buf.
            Ok (secret_buf, public_buf, bls_algorithm_name g True)))))
        | _ \<Rightarrow> Err (Conversions (CvUnsupportedCodec (mk_codec k)))) (\<lambda>(secret_buf, public_buf, name).
     and_then (ssh_key_error (get_opaque_private X secret_buf)) (\<lambda>opaque_secret.
     and_then (ssh_key_error (get_opaque_public X public_buf)) (\<lambda>opaque_key.
     other_private_key X name opaque_key opaque_secret (mk_comment k)))))))"

section \<open>The export of a module\<close>

record ssh_ops =
  so_public :: "multikey \<Rightarrow> ssh_public_key res"
  so_private :: "multikey \<Rightarrow> ssh_private_key res"

text \<open>The key types without an SSH form refuse the conversion.\<close>

definition no_ssh_form :: "string \<Rightarrow> ssh_ops" where
  "no_ssh_form s = \<lparr>so_public = \<lambda>_. Err (unsupported_algorithm (s @ '' not supported in SSH key format'')),
     so_private = \<lambda>_. Err (unsupported_algorithm (s @ '' not supported in SSH key format''))\<rparr>"

definition ml_kem_ssh :: ssh_ops where "ml_kem_ssh = no_ssh_form ''ML-KEM''"
definition sntrup_ssh :: ssh_ops where "sntrup_ssh = no_ssh_form ''sntrup''"
definition mceliece_ssh :: ssh_ops where "mceliece_ssh = no_ssh_form ''classic mceliece''"
definition frodokem_ssh :: ssh_ops where "frodokem_ssh = no_ssh_form ''FrodoKEM''"
definition x25519_ssh :: ssh_ops where "x25519_ssh = no_ssh_form ''X25519''"
definition x25519_sntrup761_ssh :: ssh_ops where "x25519_sntrup761_ssh = no_ssh_form ''X25519-sntrup761''"
definition x25519_frodokem640_ssh :: ssh_ops where "x25519_frodokem640_ssh = no_ssh_form ''X25519-FrodoKEM-640''"
definition x25519_mceliece_ssh :: ssh_ops where "x25519_mceliece_ssh = no_ssh_form ''X25519-Classic-McEliece-348864''"
definition x25519_mlkem768_ssh :: ssh_ops where "x25519_mlkem768_ssh = no_ssh_form ''X25519-ML-KEM-768''"
definition ed25519_mayo2_ssh :: ssh_ops where "ed25519_mayo2_ssh = no_ssh_form ''Ed25519-MAYO2''"
definition ed25519_mldsa65_ssh :: ssh_ops where "ed25519_mldsa65_ssh = no_ssh_form ''Ed25519-ML-DSA-65''"
definition ed25519_fndsa512_ssh :: ssh_ops where "ed25519_fndsa512_ssh = no_ssh_form ''Ed25519-FN-DSA-512''"
definition bls12381_g1_mldsa65_ssh :: ssh_ops where "bls12381_g1_mldsa65_ssh = no_ssh_form ''BLS12-381-G1-ML-DSA-65''"
definition bls12381_g1_fndsa512_ssh :: ssh_ops where "bls12381_g1_fndsa512_ssh = no_ssh_form ''BLS12-381-G1-FN-DSA-512''"
definition bls12381_g1_mayo1_ssh :: ssh_ops where "bls12381_g1_mayo1_ssh = no_ssh_form ''BLS12-381-G1-MAYO-1''"
definition bls12381_g1_mayo2_ssh :: ssh_ops where "bls12381_g1_mayo2_ssh = no_ssh_form ''BLS12-381-G1-MAYO-2''"
definition lamport_ssh :: ssh_ops where "lamport_ssh = no_ssh_form ''Lamport''"
definition merkle_ssh :: ssh_ops where "merkle_ssh = no_ssh_form ''Merkle-Lamport''"
definition xmss_ssh :: ssh_ops where "xmss_ssh = no_ssh_form ''XMSS''"
definition xeddsa_ssh :: ssh_ops where "xeddsa_ssh = no_ssh_form ''X25519''"

lemmas no_ssh_views = ml_kem_ssh_def sntrup_ssh_def mceliece_ssh_def frodokem_ssh_def x25519_ssh_def
  x25519_sntrup761_ssh_def x25519_frodokem640_ssh_def x25519_mceliece_ssh_def x25519_mlkem768_ssh_def
  ed25519_mayo2_ssh_def ed25519_mldsa65_ssh_def ed25519_fndsa512_ssh_def bls12381_g1_mldsa65_ssh_def
  bls12381_g1_fndsa512_ssh_def bls12381_g1_mayo1_ssh_def bls12381_g1_mayo2_ssh_def lamport_ssh_def merkle_ssh_def
  xmss_ssh_def xeddsa_ssh_def

fun ssh_view :: "features \<Rightarrow> wire \<Rightarrow> 'p sign_libs \<Rightarrow> ssh_lib \<Rightarrow> view \<Rightarrow> ssh_ops option" where
  "ssh_view F W L X VEd25519 = Some \<lparr>so_public = ed25519_to_ssh_public_key F W (sl_hybrid L), so_private = ed25519_to_ssh_private_key F W (sl_hybrid L) X\<rparr>"
| "ssh_view F W L X VNistP = Some \<lparr>so_public = nist_to_ssh_public_key F W (sl_hybrid L) X, so_private = nist_to_ssh_private_key F W (sl_hybrid L) X\<rparr>"
| "ssh_view F W L X VBls12381 = Some \<lparr>so_public = bls_to_ssh_public_key F W (sl_bls L) X, so_private = bls_to_ssh_private_key F W (sl_bls L) X\<rparr>"
| "ssh_view F W L X VSecp256K1 = Some \<lparr>so_public = secp256k1_to_ssh_public_key F W (sl_hybrid L) X, so_private = secp256k1_to_ssh_private_key F W (sl_hybrid L) X\<rparr>"
| "ssh_view F W L X VRsa = Some \<lparr>so_public = rsa_to_ssh_public_key F W (sl_hybrid L) X, so_private = rsa_to_ssh_private_key F W (sl_hybrid L) X\<rparr>"
| "ssh_view F W L X VMlDsa = Some \<lparr>so_public = ml_dsa_to_ssh_public_key F W (sl_hybrid L) X, so_private = ml_dsa_to_ssh_private_key F W (sl_hybrid L) X\<rparr>"
| "ssh_view F W L X VFnDsa = Some \<lparr>so_public = fn_dsa_to_ssh_public_key F W (sl_hybrid L) X, so_private = fn_dsa_to_ssh_private_key F W (sl_hybrid L) X\<rparr>"
| "ssh_view F W L X VSlhDsa = Some \<lparr>so_public = slh_dsa_to_ssh_public_key F W (sl_hybrid L) X, so_private = slh_dsa_to_ssh_private_key F W (sl_hybrid L) X\<rparr>"
| "ssh_view F W L X VMayo = Some \<lparr>so_public = mayo_to_ssh_public_key F W (sl_hybrid L) X, so_private = mayo_to_ssh_private_key F W (sl_hybrid L) X\<rparr>"
| "ssh_view F W L X VMlKem = Some ml_kem_ssh"
| "ssh_view F W L X VSntrup = Some sntrup_ssh"
| "ssh_view F W L X VClassicMceliece = Some mceliece_ssh"
| "ssh_view F W L X VFrodokem = Some frodokem_ssh"
| "ssh_view F W L X VX25519 = Some x25519_ssh"
| "ssh_view F W L X VX25519Sntrup761 = Some x25519_sntrup761_ssh"
| "ssh_view F W L X VX25519Frodokem640 = Some x25519_frodokem640_ssh"
| "ssh_view F W L X VX25519Mceliece348864 = Some x25519_mceliece_ssh"
| "ssh_view F W L X VX25519Mlkem768 = Some x25519_mlkem768_ssh"
| "ssh_view F W L X VEd25519Mayo2 = Some ed25519_mayo2_ssh"
| "ssh_view F W L X VEd25519Mldsa65 = Some ed25519_mldsa65_ssh"
| "ssh_view F W L X VEd25519Fndsa512 = Some ed25519_fndsa512_ssh"
| "ssh_view F W L X VBlsG1Mldsa65 = Some bls12381_g1_mldsa65_ssh"
| "ssh_view F W L X VBlsG1Fndsa512 = Some bls12381_g1_fndsa512_ssh"
| "ssh_view F W L X VBlsG1Mayo1 = Some bls12381_g1_mayo1_ssh"
| "ssh_view F W L X VBlsG1Mayo2 = Some bls12381_g1_mayo2_ssh"
| "ssh_view F W L X VLamport = Some lamport_ssh"
| "ssh_view F W L X VLamportMerkle = Some merkle_ssh"
| "ssh_view F W L X VXmss = Some xmss_ssh"
| "ssh_view F W L X VXeddsa = Some xeddsa_ssh"
| "ssh_view F W L X _ = None"

section \<open>Names\<close>

text \<open>Each name leads to the codec that is exported under it.\<close>

lemmas import_arms_public = import_named_public_def import_secp256k1_public_def import_bls_public_def import_ml_dsa_public_def
  import_fn_dsa_public_def import_slh_dsa_sha2_public_def import_slh_dsa_shake_public_def

lemmas import_arms_private = import_named_private_def import_secp256k1_private_def import_bls_private_def import_ml_dsa_private_def
  import_fn_dsa_private_def import_slh_dsa_sha2_private_def import_slh_dsa_shake_private_def

lemmas fixed_names = SECP256K1_ALGORITHM_NAME_def RSA_ALGORITHM_NAME_def

lemma first_arm_if [simp]: "first_arm ((if P then a else b) # xs) d = (if P then first_arm (a # xs) d else first_arm (b # xs) d)"
  by simp

lemma named_public_secp256k1: "FSecp256k1 \<in> F \<Longrightarrow> import_named_public F W B X key SECP256K1_ALGORITHM_NAME = import_opaque_public X key (Secp256K1 Pub)"
  by (simp add: import_arms_public fixed_names)

lemma named_public_bls: "FBls12381 \<in> F \<Longrightarrow> import_named_public F W B X key (bls_algorithm_name g False) = import_opaque_public X key (Bls12381 g BPub)"
  by (cases g) (simp_all add: import_arms_public fixed_names)

lemma named_public_bls_share: "FBls12381 \<in> F \<Longrightarrow> import_named_public F W B X key (bls_algorithm_name g True) = import_share_public W B X key (Bls12381 g BPubShare)"
  by (cases g) (simp_all add: import_arms_public fixed_names)

lemma named_public_ml_dsa: "FMlDsa \<in> F \<Longrightarrow> import_named_public F W B X key (ml_dsa_algorithm_name s) = import_opaque_public X key (MlDsa s SPub)"
  by (cases s) (simp_all add: import_arms_public fixed_names)

lemma named_public_fn_dsa: "FFnDsa \<in> F \<Longrightarrow> import_named_public F W B X key (fn_dsa_algorithm_name s) = import_opaque_public X key (FnDsa s SPub)"
  by (cases s) (simp_all add: import_arms_public fixed_names)

lemma named_public_slh_dsa: "FSlhDsa \<in> F \<Longrightarrow> import_named_public F W B X key (slh_dsa_algorithm_name s) = import_opaque_public X key (SlhDsa s SPub)"
  by (cases s) (simp_all add: import_arms_public fixed_names)

lemma named_public_rsa: "import_named_public F W B X key RSA_ALGORITHM_NAME = Err (unsupported_algorithm RSA_ALGORITHM_NAME)"
  by (simp add: import_arms_public fixed_names)

lemma named_public_mayo: "import_named_public F W B X key (mayo_algorithm_name s) = Err (unsupported_algorithm (mayo_algorithm_name s))"
  by (cases s) (simp_all add: import_arms_public fixed_names)

lemma named_private_secp256k1: "FSecp256k1 \<in> F \<Longrightarrow> import_named_private F W B X key SECP256K1_ALGORITHM_NAME = import_opaque_private X key (Secp256K1 Priv)"
  by (simp add: import_arms_private fixed_names)

lemma named_private_bls: "FBls12381 \<in> F \<Longrightarrow> import_named_private F W B X key (bls_algorithm_name g False) = import_opaque_private X key (Bls12381 g BPriv)"
  by (cases g) (simp_all add: import_arms_private fixed_names)

lemma named_private_bls_share: "FBls12381 \<in> F \<Longrightarrow> import_named_private F W B X key (bls_algorithm_name g True) = import_share_private W B X key (Bls12381 g BPrivShare)"
  by (cases g) (simp_all add: import_arms_private fixed_names)

lemma named_private_ml_dsa: "FMlDsa \<in> F \<Longrightarrow> import_named_private F W B X key (ml_dsa_algorithm_name s) = import_opaque_private X key (MlDsa s SPriv)"
  by (cases s) (simp_all add: import_arms_private fixed_names)

lemma named_private_fn_dsa: "FFnDsa \<in> F \<Longrightarrow> import_named_private F W B X key (fn_dsa_algorithm_name s) = import_opaque_private X key (FnDsa s SPriv)"
  by (cases s) (simp_all add: import_arms_private fixed_names)

lemma named_private_slh_dsa: "FSlhDsa \<in> F \<Longrightarrow> import_named_private F W B X key (slh_dsa_algorithm_name s) = import_opaque_private X key (SlhDsa s SPriv)"
  by (cases s) (simp_all add: import_arms_private fixed_names)

lemma named_private_rsa: "import_named_private F W B X key RSA_ALGORITHM_NAME = Err (unsupported_algorithm RSA_ALGORITHM_NAME)"
  by (simp add: import_arms_private fixed_names)

lemma named_private_mayo: "import_named_private F W B X key (mayo_algorithm_name s) = Err (unsupported_algorithm (mayo_algorithm_name s))"
  by (cases s) (simp_all add: import_arms_private fixed_names)

section \<open>What an export holds\<close>

lemma ssh_lib_algorithms:
  assumes "ssh_lib_ok S X"
  shows "public_algorithm X (PubEcdsa c p) = AlgEcdsa c" "public_algorithm X (PubEd25519 p) = AlgEd25519"
    "public_algorithm X (PubOther n p) = AlgOther n" "private_algorithm X (KpEcdsa c p s) = AlgEcdsa c"
    "private_algorithm X (KpEd25519 p s) = AlgEd25519" "private_algorithm X (KpOther n p s) = AlgOther n"
    "ecdsa_private X c s = s" "length s = 32 \<Longrightarrow> length (ed_public S s) = 32"
  using assms by (simp_all add: ssh_lib_ok_def)

lemma ssh_libD:
  assumes "ssh_lib_ok S X"
  shows "put_string X b = Ok buf \<Longrightarrow> get_opaque_public X buf = Ok b' \<Longrightarrow> b' = b"
    and "put_string X b = Ok buf \<Longrightarrow> get_opaque_private X buf = Ok b' \<Longrightarrow> b' = b"
    and "algorithm_name X n = Ok n' \<Longrightarrow> n' = n"
    and "new_private_key X d comment = Ok k \<Longrightarrow> k = \<lparr>sk_data = d, sk_comment = comment\<rparr>"
    and "from_sec1 X c b = Ok p \<Longrightarrow> ssh_point X c p = Ok q \<Longrightarrow> from_sec1 X c q = Ok p"
    and "ec_secret S e b = Ok () \<Longrightarrow> from_sec1 X (ssh_curve e) (ec_public S e b) = Ok p \<Longrightarrow> p = ec_public S e b"
  using assms unfolding ssh_lib_ok_def by metis+

lemma ssh_opaque_eq_Ok:
  assumes "ssh_lib_ok S X"
  shows "ssh_opaque_public X b = Ok b' \<Longrightarrow> b' = b" and "ssh_opaque_private X b = Ok b' \<Longrightarrow> b' = b"
  using ssh_libD(1,2)[OF assms]
  by (auto simp: ssh_opaque_public_def ssh_opaque_private_def ssh_encoding_def ssh_key_error_def outcome_simps)

lemma opaque_public_exported:
  assumes "ssh_lib_ok S X" "opaque_to_ssh_public F W X conv names k = Ok key"
    "public_form F W conv k = Ok pk" "dispatched_bytes F W pk = Ok pub"
  shows "\<exists>name. names (mk_codec pk) = Some name \<and> key = \<lparr>sp_data = PubOther name pub, sp_comment = mk_comment pk\<rparr>"
  using assms(2-4) ssh_opaque_eq_Ok(1)[OF assms(1)] ssh_libD(3)[OF assms(1)]
  by (auto simp: opaque_to_ssh_public_def other_public_key_def ssh_label_def outcome_simps)

lemma opaque_private_exported:
  assumes "ssh_lib_ok S X" "opaque_to_ssh_private F W X conv names k = Ok key"
  shows "\<exists>name pub secret. names (mk_codec k) = Some name \<and> dispatched_secret F W k = Ok secret
    \<and> key = \<lparr>sk_data = KpOther name pub secret, sk_comment = mk_comment k\<rparr>"
  using assms(2) ssh_opaque_eq_Ok[OF assms(1)] ssh_libD(3,4)[OF assms(1)]
  by (fastforce simp: opaque_to_ssh_private_def other_private_key_def ssh_label_def ssh_key_error_def outcome_simps)

text \<open>Importing what was exported under a name.\<close>

lemma import_other_public:
  assumes "ssh_lib_ok S X" "import_named_public F W B X \<lparr>sp_data = PubOther n bytes, sp_comment = comment\<rparr> n =
    import_opaque_public X \<lparr>sp_data = PubOther n bytes, sp_comment = comment\<rparr> c"
  shows "new_from_ssh_public_key F W B X \<lparr>sp_data = PubOther n bytes, sp_comment = comment\<rparr> = Ok (imported c comment bytes)"
  using assms(2) ssh_lib_algorithms(3)[OF assms(1)]
  by (simp add: new_from_ssh_public_key_def import_opaque_public_def opaque_public_def)

lemma import_other_private:
  assumes "ssh_lib_ok S X" "import_named_private F W B X \<lparr>sk_data = KpOther n pub bytes, sk_comment = comment\<rparr> n =
    import_opaque_private X \<lparr>sk_data = KpOther n pub bytes, sk_comment = comment\<rparr> c"
  shows "new_from_ssh_private_key F W B X \<lparr>sk_data = KpOther n pub bytes, sk_comment = comment\<rparr> = Ok (imported c comment bytes)"
  using assms(2) ssh_lib_algorithms(6)[OF assms(1)]
  by (simp add: new_from_ssh_private_key_def import_opaque_private_def opaque_private_def)

lemma imported_simps [simp]:
  "try_build F W B (imported c comment bytes) = Ok (built_key (imported c comment bytes))"
  "mk_codec (built_key (imported c comment bytes)) = c" "mk_comment (built_key (imported c comment bytes)) = comment"
  "mk_attributes (built_key (imported c comment bytes)) = [KeyData \<mapsto> bytes]"
  by (simp_all add: try_build_def imported_def builder_new_def built_key_def unwrap_attributes_def attr_insert_def)

lemma imported_public_multikey: "built_key (imported c (mk_comment k) bytes) = public_multikey c k bytes"
  by (simp add: imported_def public_multikey_def builder_new_def built_key_defs attr_insert_def)

section \<open>Round trips\<close>

lemma sign_features:
  "dispatch_sign_view F k = Ok VSecp256K1 \<Longrightarrow> FSecp256k1 \<in> F" "dispatch_sign_view F k = Ok VMlDsa \<Longrightarrow> FMlDsa \<in> F"
  "dispatch_sign_view F k = Ok VFnDsa \<Longrightarrow> FFnDsa \<in> F" "dispatch_sign_view F k = Ok VSlhDsa \<Longrightarrow> FSlhDsa \<in> F"
  "dispatch_sign_view F k = Ok VBls12381 \<Longrightarrow> FBls12381 \<in> F" "dispatch_sign_view F k = Ok VEd25519 \<Longrightarrow> FCurve25519 \<in> F"
  by (cases "mk_codec k"; simp add: dispatch_sign_view_def arm_eq_Ok)+

lemma converted_shape:
  assumes "signing_view F W L v = Some V" "sv_conv V k = Ok pk"
    and "v \<in> {VEd25519, VNistP, VSecp256K1, VRsa, VMlDsa, VFnDsa, VSlhDsa, VMayo}"
  shows "\<exists>c pub. pk = public_multikey c k pub"
  using assms by (cases v) (auto simp: conversion_defs outcome_simps split: option.splits if_splits intro!: exI[of _ "mk_codec pk"] exI[of _ "the (mk_attributes pk KeyData)"])

text \<open>The public key that a key converts to, as the export reads it.\<close>

lemma converted_reads:
  assumes "signing_view F W L v = Some V" "dispatch_sign_view F k = Ok v" "sv_conv V k = Ok pk"
  shows "public_form F W (sv_conv V) k = Ok pk" "dispatched_bytes F W pk = key_data pk"
proof -
  obtain secret where secret: "dispatched_secret F W k = Ok secret"
    using converted_secret[OF assms(1,3)] by blast
  note views = public_pair_views[OF secret converted_pair[OF assms]]
  show "public_form F W (sv_conv V) k = Ok pk" "dispatched_bytes F W pk = key_data pk"
    using views assms(3) by simp_all
qed

lemma opaque_public_round_trip:
  assumes ok: "ssh_lib_ok S X" and v: "signing_view F W L v = Some V" "dispatch_sign_view F k = Ok v"
      "v \<in> {VEd25519, VNistP, VSecp256K1, VRsa, VMlDsa, VFnDsa, VSlhDsa, VMayo}"
    and conv: "sv_conv V k = Ok pk" and key: "opaque_to_ssh_public F W X (sv_conv V) names k = Ok key"
    and named: "\<And>n key. names (mk_codec pk) = Some n \<Longrightarrow>
      import_named_public F W B X key n = import_opaque_public X key (mk_codec pk)"
  shows "\<exists>b. new_from_ssh_public_key F W B X key = Ok b \<and> try_build F W B b = Ok pk"
proof -
  obtain c pub where pk: "pk = public_multikey c k pub"
    using converted_shape[OF v(1) conv v(3)] by blast
  then have "dispatched_bytes F W pk = Ok pub"
    using converted_reads(2)[OF v(1,2) conv] by simp
  then obtain name where name: "names (mk_codec pk) = Some name" and key': "key = \<lparr>sp_data = PubOther name pub, sp_comment = mk_comment pk\<rparr>"
    using opaque_public_exported[OF ok key converted_reads(1)[OF v(1,2) conv]] by blast
  have "new_from_ssh_public_key F W B X key = Ok (imported (mk_codec pk) (mk_comment pk) pub)"
    unfolding key' by (rule import_other_public[OF ok named[OF name]])
  then show ?thesis
    by (simp add: pk imported_public_multikey)
qed

text \<open>The codecs that the conversions of the opaque views lead to.\<close>

lemma opaque_public_codecs:
  assumes "signing_view F W L v = Some V" "dispatch_sign_view F k = Ok v" "sv_conv V k = Ok pk"
  shows "v = VSecp256K1 \<Longrightarrow> mk_codec pk = Secp256K1 Pub" "v = VMlDsa \<Longrightarrow> \<exists>s. mk_codec pk = MlDsa s SPub"
    "v = VFnDsa \<Longrightarrow> \<exists>s. mk_codec pk = FnDsa s SPub" "v = VSlhDsa \<Longrightarrow> \<exists>s. mk_codec pk = SlhDsa s SPub"
    "v = VRsa \<Longrightarrow> \<exists>s. mk_codec pk = Rsa s Pub" "v = VMayo \<Longrightarrow> \<exists>s. mk_codec pk = Mayo s SPub"
proof -
  obtain secret where secret: "dispatched_secret F W k = Ok secret"
    using converted_secret[OF assms(1,3)] by blast
  note codec = owned_private[OF assms(2) secret] and pair = converted_pair[OF assms]
  show "v = VSecp256K1 \<Longrightarrow> mk_codec pk = Secp256K1 Pub" "v = VMlDsa \<Longrightarrow> \<exists>s. mk_codec pk = MlDsa s SPub"
    "v = VFnDsa \<Longrightarrow> \<exists>s. mk_codec pk = FnDsa s SPub" "v = VSlhDsa \<Longrightarrow> \<exists>s. mk_codec pk = SlhDsa s SPub"
    "v = VRsa \<Longrightarrow> \<exists>s. mk_codec pk = Rsa s Pub" "v = VMayo \<Longrightarrow> \<exists>s. mk_codec pk = Mayo s SPub"
    using codec pair by (auto simp: public_pair_def)
qed

lemmas opaque_exports = secp256k1_to_ssh_public_key_def rsa_to_ssh_public_key_def ml_dsa_to_ssh_public_key_def
  fn_dsa_to_ssh_public_key_def slh_dsa_to_ssh_public_key_def mayo_to_ssh_public_key_def
  secp256k1_to_ssh_private_key_def rsa_to_ssh_private_key_def ml_dsa_to_ssh_private_key_def
  fn_dsa_to_ssh_private_key_def slh_dsa_to_ssh_private_key_def mayo_to_ssh_private_key_def

lemmas opaque_names = ml_dsa_names_def fn_dsa_names_def slh_dsa_names_def mayo_names_def

lemma opaque_view_public:
  assumes ok: "ssh_lib_ok (sl_hybrid L) X" and v: "signing_view F W L v = Some V" "dispatch_sign_view F k = Ok v"
    and conv: "sv_conv V k = Ok pk" and E: "ssh_view F W L X v = Some E" "so_public E k = Ok key"
    and "v \<in> {VSecp256K1, VMlDsa, VFnDsa, VSlhDsa}"
  shows "\<exists>b. new_from_ssh_public_key F W B X key = Ok b \<and> try_build F W B b = Ok pk"
proof -
  note codecs = opaque_public_codecs[OF v conv] and features = sign_features[of F k]
  note round = opaque_public_round_trip[OF ok v _ conv]
  consider "v = VSecp256K1" | "v = VMlDsa" | "v = VFnDsa" | "v = VSlhDsa"
    using assms(7) by blast
  then show ?thesis
  proof cases
    case 1
    show ?thesis
      by (rule round[where names = "\<lambda>_. Some SECP256K1_ALGORITHM_NAME"])
        (use 1 v E codecs features in \<open>auto simp: opaque_exports named_public_secp256k1\<close>)
  next
    case 2
    show ?thesis
      by (rule round[where names = "ml_dsa_names SPub"])
        (use 2 v E codecs features in \<open>auto simp: opaque_exports opaque_names named_public_ml_dsa\<close>)
  next
    case 3
    show ?thesis
      by (rule round[where names = "fn_dsa_names SPub"])
        (use 3 v E codecs features in \<open>auto simp: opaque_exports opaque_names named_public_fn_dsa\<close>)
  next
    case 4
    show ?thesis
      by (rule round[where names = "slh_dsa_names SPub"])
        (use 4 v E codecs features in \<open>auto simp: opaque_exports opaque_names named_public_slh_dsa\<close>)
  qed
qed

lemma ed25519_public_round_trip:
  assumes ok: "ssh_lib_ok S X" and k: "dispatch_sign_view F k = Ok VEd25519" and conv: "ed25519_to_public_key F W S k = Ok pk"
    and key: "ed25519_to_ssh_public_key F W S k = Ok key"
  shows "\<exists>b. new_from_ssh_public_key F W B X key = Ok b \<and> try_build F W B b = Ok pk"
proof -
  obtain secret where secret: "dispatched_secret F W k = Ok secret" "32 \<le> length secret"
    and reads: "public_form F W (ed25519_to_public_key F W S) k = Ok pk" "dispatched_bytes F W pk = Ok (ed_public S (take 32 secret))"
    using k conv by (rule ed25519_converted)
  have pk: "pk = public_multikey (Ed25519 Pub) k (ed_public S (take 32 secret))"
    using conv secret by (auto simp: ed25519_to_public_key_def outcome_simps SECRET_KEY_LENGTH_def)
  have "length (ed_public S (take 32 secret)) = 32"
    using ssh_lib_algorithms(8)[OF ok] secret by simp
  then have "key = \<lparr>sp_data = PubEd25519 (ed_public S (take 32 secret)), sp_comment = mk_comment k\<rparr>"
    using key reads by (simp add: ed25519_to_ssh_public_key_def prefix_of_def PUBLIC_KEY_LENGTH_def pk)
  then show ?thesis
    using ssh_lib_algorithms(2)[OF ok] sign_features(6)[OF k]
    by (simp add: new_from_ssh_public_key_def import_ed25519_public_def pk imported_public_multikey)
qed

lemma nist_curves:
  assumes "nist_curve F Priv c = Some (curve, len)"
  shows "ssh_curve curve = NistP256 \<and> curve = Ec_P256 \<and> c = P256 Priv \<and> FP256 \<in> F \<and> len = 32
    \<or> ssh_curve curve = NistP384 \<and> curve = Ec_P384 \<and> c = P384 Priv \<and> FP384 \<in> F \<and> len = 48
    \<or> ssh_curve curve = NistP521 \<and> curve = Ec_P521 \<and> c = P521 Priv \<and> FP521 \<in> F \<and> len = 66"
  using assms by (cases c) (auto simp: nist_curve_def split: if_splits)

lemma nist_public_round_trip:
  assumes ok: "ssh_lib_ok S X" and k: "dispatch_sign_view F k = Ok VNistP" and conv: "nist_to_public_key F W S k = Ok pk"
    and key: "nist_to_ssh_public_key F W S X k = Ok key"
  shows "\<exists>b. new_from_ssh_public_key F W B X key = Ok b \<and> try_build F W B b = Ok pk"
proof -
  obtain secret curve len where secret: "dispatched_secret F W k = Ok secret" and sk: "ec_secret S curve (take len secret) = Ok ()"
    and curve: "nist_curve F Priv (mk_codec k) = Some (curve, len)"
    and pk: "pk = public_multikey (nist_pub_codec (mk_codec k)) k (ec_public S curve (take len secret))"
    using conv by (auto simp: nist_to_public_key_def outcome_simps split: option.splits)
  note codec = nist_public_pair[OF curve]
  have "public_pair (mk_codec k) (mk_codec pk)"
    using codec by (simp add: pk)
  note views = public_pair_views[OF secret this]
  have reads: "public_form F W (nist_to_public_key F W S) k = Ok pk" "dispatched_bytes F W pk = Ok (ec_public S curve (take len secret))"
    using views conv by (simp_all add: pk)
  obtain vk point where vk: "from_sec1 X (ssh_curve curve) (ec_public S curve (take len secret)) = Ok vk"
    and point: "ssh_point X (ssh_curve curve) vk = Ok point"
    and key': "key = \<lparr>sp_data = PubEcdsa (ssh_curve curve) point, sp_comment = mk_comment pk\<rparr>"
    using key codec by (auto simp: nist_to_ssh_public_key_def reads outcome_simps)
  have "from_sec1 X (ssh_curve curve) point = Ok (ec_public S curve (take len secret))"
    using ssh_libD(5)[OF ok vk point] ssh_libD(6)[OF ok sk vk] by simp
  then show ?thesis
    using nist_curves[OF curve] ssh_lib_algorithms(1)[OF ok]
    by (auto simp: key' new_from_ssh_public_key_def import_ecdsa_public_def pk imported_public_multikey)
qed

text \<open>What a share needs to survive its wire form: its parameters are \<^verbatim>\<open>usize\<close> values, its point is not too long.\<close>

definition ssh_share_fits :: "wire \<Rightarrow> multikey \<Rightarrow> bool" where
  "ssh_share_fits W k \<longleftrightarrow>
     (\<forall>e n. usize_attr W e (get_attr k Threshold) = Ok n \<longrightarrow> n < 2 ^ 64) \<and> (\<forall>e n. usize_attr W e (get_attr k Limit) = Ok n \<longrightarrow> n < 2 ^ 64)
   \<and> (\<forall>v. get_attr k KeyData = Some v \<longrightarrow> length v \<le> MAX_DECODED_SIZE)"

lemma ssh_key_share_read:
  assumes "wire_ok W" "bls_lib_ok B" "FBls12381 \<in> F" "mk_codec k = Bls12381 g p" "bls_key p" "ssh_key_share F W B k bytes = Ok share"
    "ssh_share_fits W k" "length bytes \<le> MAX_DECODED_SIZE"
  shows "\<exists>s. key_share_try_from W B share = Ok s \<and> ks_value s = bytes \<and> get_attr k ShareIdentifier = Some (ks_identifier s)
    \<and> usize_attr W (Attributes AMissingThreshold) (get_attr k Threshold) = Ok (ks_threshold s)
    \<and> usize_attr W (Attributes AMissingLimit) (get_attr k Limit) = Ok (ks_limit s)"
proof -
  note view = bls_view[OF assms(4,5,3), of W]
  obtain bs ident t n where ident: "get_attr k ShareIdentifier = Some bs" "bytes_to_identifier B bs = Ok ident"
    and t: "usize_attr W (Attributes AMissingThreshold) (get_attr k Threshold) = Ok t"
    and n: "usize_attr W (Attributes AMissingLimit) (get_attr k Limit) = Ok n"
    and share: "share = key_share_encode W \<lparr>ks_identifier = ident, ks_threshold = t, ks_limit = n, ks_value = bytes\<rparr>"
    using assms(6) by (auto simp: ssh_key_share_def view bls_threshold_view_def outcome_simps)
  have bs: "ident = bs"
    using bls_identifier_Ok[OF ident(2)] by simp
  have "share_wf B \<lparr>ks_identifier = ident, ks_threshold = t, ks_limit = n, ks_value = bytes\<rparr>"
    using ident(2) t n assms(7,8) bs
    by (auto simp: share_wf_def ssh_share_fits_def bytes_to_identifier_def SECRET_KEY_BYTES_def split: if_splits)
  then have "key_share_try_from W B share = Ok \<lparr>ks_identifier = ident, ks_threshold = t, ks_limit = n, ks_value = bytes\<rparr>"
    using key_share_wire.dec_enc_nil[of W B] assms(1,2) by (simp add: key_share_try_from_def share)
  then show ?thesis
    using ident t n bs by simp
qed

lemma imported_share_simps [simp]:
  "try_build F W B (imported_share W c comment s) = Ok (built_key (imported_share W c comment s))"
  "mk_codec (built_key (imported_share W c comment s)) = c" "mk_comment (built_key (imported_share W c comment s)) = comment"
  "mk_attributes (built_key (imported_share W c comment s)) = [ShareIdentifier \<mapsto> ks_identifier s, Threshold \<mapsto> put_uint W (ks_threshold s),
     Limit \<mapsto> put_uint W (ks_limit s), KeyData \<mapsto> ks_value s]"
  by (simp_all add: try_build_def imported_share_def builder_new_def built_key_def unwrap_attributes_def attr_insert_def)

lemma import_other_share_public:
  assumes "ssh_lib_ok S X" "FBls12381 \<in> F" "key_share_try_from W B bytes = Ok s"
  shows "new_from_ssh_public_key F W B X \<lparr>sp_data = PubOther (bls_algorithm_name g True) bytes, sp_comment = comment\<rparr> =
    Ok (imported_share W (Bls12381 g BPubShare) comment s)"
  using assms(3) ssh_lib_algorithms(3)[OF assms(1)]
  by (simp add: new_from_ssh_public_key_def named_public_bls_share[OF assms(2)] import_share_public_def opaque_public_def)

lemma import_other_share_private:
  assumes "ssh_lib_ok S X" "FBls12381 \<in> F" "key_share_try_from W B bytes = Ok s"
  shows "new_from_ssh_private_key F W B X \<lparr>sk_data = KpOther (bls_algorithm_name g True) pub bytes, sk_comment = comment\<rparr> =
    Ok (imported_share W (Bls12381 g BPrivShare) comment s)"
  using assms(3) ssh_lib_algorithms(6)[OF assms(1)]
  by (simp add: new_from_ssh_private_key_def named_private_bls_share[OF assms(2)] import_share_private_def opaque_private_def)

lemma bls_public_round_trip:
  assumes ok: "ssh_lib_ok S X" "bls_lib_ok B" "wire_ok W" and k: "dispatch_sign_view F k = Ok VBls12381"
    and conv: "bls_to_public_key F W B k = Ok pk" and key: "bls_to_ssh_public_key F W B X k = Ok key"
    and fits: "ssh_share_fits W k" "ssh_share_fits W pk"
  shows "\<exists>b. new_from_ssh_public_key F W B X key = Ok b \<and> try_build F W B b = Ok pk"
proof -
  obtain secret where secret: "dispatched_secret F W k = Ok secret"
    using bls_secret_dispatched[OF conv] by blast
  note views = public_pair_views[OF secret bls_pair[OF k conv]]
  have pk: "public_form F W (bls_to_public_key F W B) k = Ok pk" "dispatched_bytes F W pk = key_data pk"
    using views conv by simp_all
  have F: "FBls12381 \<in> F"
    by (rule sign_features(5)[OF k])
  note lib = ssh_libD(1,3)[OF ok(1)]
  show ?thesis
    using k conv
  proof (rule bls_to_public_eq_Ok)
    fix g secret sk
    assume whole: "pk = public_multikey (Bls12381 g BPub) k (bls_public B g sk)"
    have "key = \<lparr>sp_data = PubOther (bls_algorithm_name g False) (bls_public B g sk), sp_comment = mk_comment k\<rparr>"
      using key lib pk by (auto simp: bls_to_ssh_public_key_def whole outcome_simps ssh_encoding_def ssh_key_error_def ssh_label_def)
    then show ?thesis
      using import_other_public[OF ok(1) named_public_bls[OF F]] by (simp add: whole imported_public_multikey)
  next
    fix g secret av t n ident val pk_ident point
    assume av: "threshold_attr_view F W k = Ok av" "ta_threshold av = Ok t" "ta_limit av = Ok n" and kc: "mk_codec k = Bls12381 g BPrivShare"
      and share: "pk = built_key (with_identifier (with_limit W (with_threshold W (with_key_bytes
         (with_comment (builder_new (Bls12381 g BPubShare)) (mk_comment k)) point) t) n) pk_ident)"
    have attrs: "mk_attributes pk = [KeyData \<mapsto> point, Threshold \<mapsto> put_uint W t, Limit \<mapsto> put_uint W n, ShareIdentifier \<mapsto> pk_ident]"
      and c: "mk_codec pk = Bls12381 g BPubShare" "mk_comment pk = mk_comment k"
      by (simp_all add: share built_key_defs attr_insert_def with_identifier_def)
    obtain bytes where bytes: "ssh_key_share F W B pk point = Ok bytes"
      and key': "key = \<lparr>sp_data = PubOther (bls_algorithm_name g True) bytes, sp_comment = mk_comment k\<rparr>"
      using key lib by (auto simp: bls_to_ssh_public_key_def pk c key_data_def get_attr_def attrs outcome_simps ssh_encoding_def ssh_key_error_def ssh_label_def)
    have "length point \<le> MAX_DECODED_SIZE"
      using fits(2) by (simp add: ssh_share_fits_def get_attr_def attrs)
    then obtain s where s: "key_share_try_from W B bytes = Ok s" "ks_value s = point" "get_attr pk ShareIdentifier = Some (ks_identifier s)"
      "usize_attr W (Attributes AMissingThreshold) (get_attr pk Threshold) = Ok (ks_threshold s)"
      "usize_attr W (Attributes AMissingLimit) (get_attr pk Limit) = Ok (ks_limit s)"
      using ssh_key_share_read[OF ok(3,2) F c(1) _ bytes fits(2)] by auto
    have "t < 2 ^ 64" "n < 2 ^ 64"
      using av fits(1) bls_view[OF kc _ F, of W] by (auto simp: bls_threshold_view_def ssh_share_fits_def)
    then have "ks_threshold s = t" "ks_limit s = n"
      using s(4,5) wire_ok_usize_of[OF ok(3)] by (simp_all add: usize_attr_def get_attr_def attrs)
    then have "built_key (imported_share W (Bls12381 g BPubShare) (mk_comment k) s) = pk"
      using s(2,3) c by (intro multikey.equality) (auto simp: attrs get_attr_def)
    then show ?thesis
      using import_other_share_public[OF ok(1) F s(1)] by (simp add: key')
  qed
qed

section \<open>Private keys\<close>

text \<open>Ed25519 and the NIST curves export the front of the secret bytes.\<close>

definition ssh_secret_bytes :: "codec \<Rightarrow> bytes \<Rightarrow> bytes" where
  "ssh_secret_bytes c secret =
     (case c of Ed25519 _ \<Rightarrow> take 32 secret | P256 _ \<Rightarrow> take 32 secret | P384 _ \<Rightarrow> take 48 secret | P521 _ \<Rightarrow> take 66 secret
      | _ \<Rightarrow> secret)"

text \<open>
  The key is not encrypted and has the codec, the comment and the exported secret bytes of the other, and for a BLS
  share its identifier, threshold and limit.
\<close>

definition same_secret :: "features \<Rightarrow> wire \<Rightarrow> multikey \<Rightarrow> multikey \<Rightarrow> bool" where
  "same_secret F W k k' \<longleftrightarrow>
     mk_codec k' = mk_codec k \<and> mk_comment k' = mk_comment k \<and> get_attr k' KeyIsEncrypted = None
   \<and> (\<exists>secret. dispatched_secret F W k = Ok secret \<and> get_attr k' KeyData = Some (ssh_secret_bytes (mk_codec k) secret))
   \<and> (mk_codec k \<in> {Bls12381 G1 BPrivShare, Bls12381 G2 BPrivShare} \<longrightarrow>
        get_attr k' ShareIdentifier = get_attr k ShareIdentifier
      \<and> usize_attr W (Attributes AMissingThreshold) (get_attr k' Threshold) = usize_attr W (Attributes AMissingThreshold) (get_attr k Threshold)
      \<and> usize_attr W (Attributes AMissingLimit) (get_attr k' Limit) = usize_attr W (Attributes AMissingLimit) (get_attr k Limit))"

lemma opaque_view_private:
  assumes ok: "ssh_lib_ok (sl_hybrid L) X" and v: "dispatch_sign_view F k = Ok v"
    and E: "ssh_view F W L X v = Some E" "so_private E k = Ok key"
    and "v \<in> {VSecp256K1, VMlDsa, VFnDsa, VSlhDsa}"
  shows "\<exists>b k'. new_from_ssh_private_key F W B X key = Ok b \<and> try_build F W B b = Ok k' \<and> same_secret F W k k'"
proof -
  obtain conv names where "opaque_to_ssh_private F W X conv names k = Ok key"
    and n: "names = (case v of VSecp256K1 \<Rightarrow> \<lambda>_. Some SECP256K1_ALGORITHM_NAME | VMlDsa \<Rightarrow> ml_dsa_names SPriv
       | VFnDsa \<Rightarrow> fn_dsa_names SPriv | _ \<Rightarrow> slh_dsa_names SPriv)"
    using assms(5) E by (auto simp: opaque_exports)
  then obtain name pub secret where name: "names (mk_codec k) = Some name" and secret: "dispatched_secret F W k = Ok secret"
    and key: "key = \<lparr>sk_data = KpOther name pub secret, sk_comment = mk_comment k\<rparr>"
    using opaque_private_exported[OF ok] by blast
  note codec = owned_private[OF v secret] and features = sign_features[of F k]
  have "import_named_private F W B X key name = import_opaque_private X key (mk_codec k)"
    using assms(5) codec v features name unfolding n
    by (auto simp: named_private_secp256k1 named_private_ml_dsa named_private_fn_dsa named_private_slh_dsa opaque_names)
  then have new: "new_from_ssh_private_key F W B X key = Ok (imported (mk_codec k) (mk_comment k) secret)"
    unfolding key by (rule import_other_private[OF ok])
  have "ssh_secret_bytes (mk_codec k) secret = secret"
    using assms(5) codec by (auto simp: ssh_secret_bytes_def)
  moreover have "mk_codec k \<notin> {Bls12381 G1 BPrivShare, Bls12381 G2 BPrivShare}"
    using assms(5) codec by auto
  ultimately have "same_secret F W k (built_key (imported (mk_codec k) (mk_comment k) secret))"
    using secret by (simp add: same_secret_def get_attr_def)
  then show ?thesis
    using new by simp
qed

lemma ed25519_private_round_trip:
  assumes ok: "ssh_lib_ok S X" and k: "dispatch_sign_view F k = Ok VEd25519" and key: "ed25519_to_ssh_private_key F W S X k = Ok key"
  shows "\<exists>b k'. new_from_ssh_private_key F W B X key = Ok b \<and> try_build F W B b = Ok k' \<and> same_secret F W k k'"
proof -
  obtain secret pub where secret: "dispatched_secret F W k = Ok secret"
    and key': "key = \<lparr>sk_data = KpEd25519 pub (take 32 secret), sk_comment = mk_comment k\<rparr>"
    using key ssh_libD(4)[OF ok]
    by (fastforce simp: ed25519_to_ssh_private_key_def ssh_key_error_def outcome_simps SECRET_KEY_LENGTH_def)
  have "mk_codec k = Ed25519 Priv"
    using owned_private[OF k secret] by simp
  then have "same_secret F W k (built_key (imported (Ed25519 Priv) (mk_comment k) (take 32 secret)))"
    using secret by (simp add: same_secret_def get_attr_def ssh_secret_bytes_def)
  moreover have "new_from_ssh_private_key F W B X key = Ok (imported (Ed25519 Priv) (mk_comment k) (take 32 secret))"
    using ssh_lib_algorithms(5)[OF ok] sign_features(6)[OF k]
    by (simp add: key' new_from_ssh_private_key_def import_ed25519_private_def)
  ultimately show ?thesis
    by simp
qed

lemma nist_private_round_trip:
  assumes ok: "ssh_lib_ok S X" and key: "nist_to_ssh_private_key F W S X k = Ok key"
  shows "\<exists>b k'. new_from_ssh_private_key F W B X key = Ok b \<and> try_build F W B b = Ok k' \<and> same_secret F W k k'"
proof -
  obtain secret curve len point where secret: "dispatched_secret F W k = Ok secret"
    and curve: "nist_curve F Priv (mk_codec k) = Some (curve, len)"
    and key': "key = \<lparr>sk_data = KpEcdsa (ssh_curve curve) point (take len secret), sk_comment = mk_comment k\<rparr>"
    using key ssh_libD(4)[OF ok] ssh_lib_algorithms(7)[OF ok]
    by (fastforce simp: nist_to_ssh_private_key_def ssh_key_error_def outcome_simps split: option.splits)
  have "same_secret F W k (built_key (imported (mk_codec k) (mk_comment k) (take len secret)))"
    using secret nist_curves[OF curve] by (auto simp: same_secret_def get_attr_def ssh_secret_bytes_def)
  moreover have "new_from_ssh_private_key F W B X key = Ok (imported (mk_codec k) (mk_comment k) (take len secret))"
    using ssh_lib_algorithms(4)[OF ok] nist_curves[OF curve]
    by (auto simp: key' new_from_ssh_private_key_def import_ecdsa_private_def)
  ultimately show ?thesis
    by simp
qed

lemma bls_private_round_trip:
  assumes ok: "ssh_lib_ok S X" "bls_lib_ok B" "wire_ok W" and k: "dispatch_sign_view F k = Ok VBls12381"
    and key: "bls_to_ssh_private_key F W B X k = Ok key" and fits: "ssh_share_fits W k"
  shows "\<exists>b k'. new_from_ssh_private_key F W B X key = Ok b \<and> try_build F W B b = Ok k' \<and> same_secret F W k k'"
proof -
  obtain secret where secret: "dispatched_secret F W k = Ok secret"
    using key by (auto simp: bls_to_ssh_private_key_def outcome_simps)
  have F: "FBls12381 \<in> F"
    by (rule sign_features(5)[OF k])
  note lib = ssh_libD(1-4)[OF ok(1)]
  from owned_private[OF k secret] obtain g where "mk_codec k = Bls12381 g BPriv \<or> mk_codec k = Bls12381 g BPrivShare"
    by auto
  then show ?thesis
  proof
    assume c: "mk_codec k = Bls12381 g BPriv"
    obtain pub where key': "key = \<lparr>sk_data = KpOther (bls_algorithm_name g False) pub secret, sk_comment = mk_comment k\<rparr>"
      using key lib secret
      by (fastforce simp: bls_to_ssh_private_key_def c outcome_simps ssh_encoding_def ssh_key_error_def ssh_label_def other_private_key_def)
    have "same_secret F W k (built_key (imported (Bls12381 g BPriv) (mk_comment k) secret))"
      using secret c by (simp add: same_secret_def get_attr_def ssh_secret_bytes_def)
    then show ?thesis
      using import_other_private[OF ok(1) named_private_bls[OF F]] by (simp add: key')
  next
    assume c: "mk_codec k = Bls12381 g BPrivShare"
    obtain share pub where share: "ssh_key_share F W B k secret = Ok share"
      and key': "key = \<lparr>sk_data = KpOther (bls_algorithm_name g True) pub share, sk_comment = mk_comment k\<rparr>"
      using key lib secret
      by (fastforce simp: bls_to_ssh_private_key_def c outcome_simps ssh_encoding_def ssh_key_error_def ssh_label_def other_private_key_def)
    have "length secret \<le> MAX_DECODED_SIZE"
      using secret fits bls_data_view[OF c _ F, of W]
      by (auto simp: dispatched_secret_def bls12381_view_def sealed_view_def ssh_share_fits_def key_data_def outcome_simps split: if_splits)
    then obtain s where s: "key_share_try_from W B share = Ok s" "ks_value s = secret" "get_attr k ShareIdentifier = Some (ks_identifier s)"
      "usize_attr W (Attributes AMissingThreshold) (get_attr k Threshold) = Ok (ks_threshold s)"
      "usize_attr W (Attributes AMissingLimit) (get_attr k Limit) = Ok (ks_limit s)"
      using ssh_key_share_read[OF ok(3,2) F c _ share fits] by auto
    then have "ks_threshold s < 2 ^ 64" "ks_limit s < 2 ^ 64"
      using fits by (auto simp: ssh_share_fits_def)
    then have "usize_attr W e (Some (put_uint W (ks_threshold s))) = Ok (ks_threshold s)"
      "usize_attr W e (Some (put_uint W (ks_limit s))) = Ok (ks_limit s)" for e
      using wire_ok_usize_of[OF ok(3)] by (simp_all add: usize_attr_def)
    then have "same_secret F W k (built_key (imported_share W (Bls12381 g BPrivShare) (mk_comment k) s))"
      using secret c s(2-5) by (simp add: same_secret_def get_attr_def ssh_secret_bytes_def)
    then show ?thesis
      using import_other_share_private[OF ok(1) F s(1)] by (simp add: key')
  qed
qed

text \<open>Such a key has the same public key.\<close>

lemma prefix_of_take [simp]: "prefix_of n (take n bs) = prefix_of n bs"
  by (simp add: prefix_of_def)

lemma same_secret_public:
  assumes "dispatch_sign_view F k = Ok v" and "signing_view F W L v = Some V" and "sv_conv V k = Ok pk"
    and "v \<in> {VSecp256K1, VMlDsa, VFnDsa, VSlhDsa, VEd25519, VNistP, VBls12381}" and "same_secret F W k k'"
  shows "sv_conv V k' = Ok pk"
proof -
  obtain secret where secret: "dispatched_secret F W k = Ok secret"
    and data: "mk_attributes k' KeyData = Some (ssh_secret_bytes (mk_codec k) secret)"
    and k': "mk_codec k' = mk_codec k" "mk_comment k' = mk_comment k" "mk_attributes k' KeyIsEncrypted = None"
    using assms(5) by (auto simp: same_secret_def get_attr_def)
  note secret' = bare_secret[OF secret k'(1) data k'(3)]
  note codec = owned_private[OF assms(1) secret]
  show ?thesis
  proof (cases "v = VBls12381")
    case True
    have F: "FBls12381 \<in> F"
      using sign_features(5)[of F k] assms(1) True by simp
    from codec True obtain g p where c: "mk_codec k = Bls12381 g p" "p = BPriv \<or> p = BPrivShare"
      by auto
    have view: "threshold_attr_view F W k = Ok (bls_threshold_view W k)" "threshold_attr_view F W k' = Ok (bls_threshold_view W k')"
      using bls_view[OF c(1) _ F] bls_view[of k' g p F] c k'(1) F by auto
    have "bls_to_public_key F W (sl_bls L) k' = bls_to_public_key F W (sl_bls L) k"
      using assms(5) secret secret' c k'(1,2) unfolding bls_to_public_key_def view
      by (cases g) (auto simp: dispatched_secret_def ssh_secret_bytes_def same_secret_def bls_threshold_view_def)
    then show ?thesis
      using assms(2,3) True by auto
  next
    case False
    then show ?thesis
      using assms(2,3,4) codec
      by (cases v) (auto simp: conversion_defs secret secret' k'(1,2) ssh_secret_bytes_def public_multikey_def nist_curve_def
          outcome_simps split: if_splits option.splits)
  qed
qed

section \<open>RSA and MAYO keys are not imported\<close>

lemma not_imported:
  assumes "ssh_lib_ok S X"
  shows "import_named_public F W B X \<lparr>sp_data = PubOther n bytes, sp_comment = comment\<rparr> n = Err e \<Longrightarrow>
      new_from_ssh_public_key F W B X \<lparr>sp_data = PubOther n bytes, sp_comment = comment\<rparr> = Err e"
    and "import_named_private F W B X \<lparr>sk_data = KpOther n pub bytes, sk_comment = comment\<rparr> n = Err e \<Longrightarrow>
      new_from_ssh_private_key F W B X \<lparr>sk_data = KpOther n pub bytes, sk_comment = comment\<rparr> = Err e"
  using ssh_lib_algorithms(3,6)[OF assms] by (simp_all add: new_from_ssh_public_key_def new_from_ssh_private_key_def)

lemma rsa_mayo_public:
  assumes ok: "ssh_lib_ok (sl_hybrid L) X" and v: "signing_view F W L v = Some V" "dispatch_sign_view F k = Ok v"
    and conv: "sv_conv V k = Ok pk" and E: "ssh_view F W L X v = Some E" "so_public E k = Ok key"
    and "v = VRsa \<or> v = VMayo"
  shows "\<exists>name. new_from_ssh_public_key F W B X key = Err (unsupported_algorithm name)"
proof -
  obtain names where "opaque_to_ssh_public F W X (sv_conv V) names k = Ok key"
    and names: "names = (case v of VRsa \<Rightarrow> \<lambda>_. Some RSA_ALGORITHM_NAME | _ \<Rightarrow> mayo_names SPub)"
    using assms(7) E v(1) by (auto simp: opaque_exports)
  moreover obtain c pub where pk: "pk = public_multikey c k pub"
    using converted_shape[OF v(1) conv] assms(7) by blast
  then have "dispatched_bytes F W pk = Ok pub"
    using converted_reads(2)[OF v conv] by simp
  ultimately obtain name where name: "names (mk_codec pk) = Some name"
    and key: "key = \<lparr>sp_data = PubOther name pub, sp_comment = mk_comment pk\<rparr>"
    using opaque_public_exported[OF ok _ converted_reads(1)[OF v conv]] by blast
  have "import_named_public F W B X key name = Err (unsupported_algorithm name)"
    using name opaque_public_codecs(6)[OF v conv] assms(7) unfolding names
    by (auto simp: named_public_rsa named_public_mayo mayo_names_def split: if_splits)
  then show ?thesis
    using not_imported(1)[OF ok] unfolding key by blast
qed

lemma rsa_mayo_private:
  assumes ok: "ssh_lib_ok (sl_hybrid L) X" and v: "dispatch_sign_view F k = Ok v"
    and E: "ssh_view F W L X v = Some E" "so_private E k = Ok key" and "v = VRsa \<or> v = VMayo"
  shows "\<exists>name. new_from_ssh_private_key F W B X key = Err (unsupported_algorithm name)"
proof -
  obtain conv names where "opaque_to_ssh_private F W X conv names k = Ok key"
    and names: "names = (case v of VRsa \<Rightarrow> \<lambda>_. Some RSA_ALGORITHM_NAME | _ \<Rightarrow> mayo_names SPriv)"
    using assms(5) E by (auto simp: opaque_exports)
  then obtain name pub secret where name: "names (mk_codec k) = Some name" and secret: "dispatched_secret F W k = Ok secret"
    and key: "key = \<lparr>sk_data = KpOther name pub secret, sk_comment = mk_comment k\<rparr>"
    using opaque_private_exported[OF ok] by blast
  have "import_named_private F W B X key name = Err (unsupported_algorithm name)"
    using name owned_private[OF v secret] assms(5) unfolding names
    by (auto simp: named_private_rsa named_private_mayo mayo_names_def split: if_splits)
  then show ?thesis
    using not_imported(2)[OF ok] unfolding key by blast
qed

section \<open>An example\<close>

definition toy_ssh :: ssh_lib where
  "toy_ssh =
     \<lparr>public_algorithm = \<lambda>d. case d of PubEcdsa c _ \<Rightarrow> AlgEcdsa c | PubEd25519 _ \<Rightarrow> AlgEd25519 | PubOther n _ \<Rightarrow> AlgOther n | PubMore n \<Rightarrow> AlgMore n,
      private_algorithm = \<lambda>d. case d of KpEcdsa c _ _ \<Rightarrow> AlgEcdsa c | KpEd25519 _ _ \<Rightarrow> AlgEd25519 | KpOther n _ _ \<Rightarrow> AlgOther n | KpMore n \<Rightarrow> AlgMore n,
      algorithm_text = \<lambda>a. ''algorithm'', put_string = Ok, get_opaque_public = Ok, get_opaque_private = Ok, algorithm_name = Ok,
      new_private_key = \<lambda>d c. Ok \<lparr>sk_data = d, sk_comment = c\<rparr>, from_sec1 = \<lambda>c b. Ok b, ssh_point = \<lambda>c b. Ok b,
      ecdsa_private = \<lambda>c b. b, ed25519_from_seed = \<lambda>b. (b, b)\<rparr>"

lemma toy_ssh_ok: "ssh_lib_ok toy_hybrid toy_ssh"
  by (simp add: ssh_lib_ok_def toy_ssh_def toy_hybrid_def)

lemma toy_ssh_libs_ok: "ssh_lib_ok (sl_hybrid toy_libs) toy_ssh" "bls_lib_ok (sl_bls toy_libs)"
proof -
  have "bls_lib_ok toy_bls_points"
    using toy_bls_ok by (simp add: bls_lib_ok_def bls_sharing_def toy_bls_points_def)
  then show "ssh_lib_ok (sl_hybrid toy_libs) toy_ssh" "bls_lib_ok (sl_bls toy_libs)"
    using toy_ssh_ok by (simp_all add: toy_libs_def)
qed

definition example_ssh_public :: ssh_public_key where
  "example_ssh_public = \<lparr>sp_data = PubOther SECP256K1_ALGORITHM_NAME (replicate 33 2), sp_comment = []\<rparr>"

definition example_ssh_private :: ssh_private_key where
  "example_ssh_private = \<lparr>sk_data = KpOther SECP256K1_ALGORITHM_NAME (replicate 33 2) (replicate 32 9), sk_comment = []\<rparr>"

lemma example_secp256k1_sign: "dispatch_sign_view {FSecp256k1} example_secp256k1 = Ok VSecp256K1"
  by (simp add: dispatch_sign_view_def arm_def example_secp256k1_def)

lemma example_secp256k1_secret: "dispatched_secret {FSecp256k1} leb_wire example_secp256k1 = Ok (replicate 32 9)"
  by (simp add: dispatched_secret_def data_view_def dispatch_data_view_def example_secp256k1_def
    arm_def secp256k1_view_def sealed_view_def encrypted_flag_def key_data_def get_attr_def)

lemma example_ssh_exports:
  "secp256k1_to_ssh_public_key {FSecp256k1} leb_wire toy_hybrid toy_ssh example_secp256k1 = Ok example_ssh_public"
  "secp256k1_to_ssh_private_key {FSecp256k1} leb_wire toy_hybrid toy_ssh example_secp256k1 = Ok example_ssh_private"
proof -
  let ?F = "{FSecp256k1}" and ?pk = "public_multikey (Secp256K1 Pub) example_secp256k1 (replicate 33 2)"
  have "public_pair (mk_codec example_secp256k1) (mk_codec ?pk)"
    by (simp add: example_secp256k1_def public_pair_def)
  note views = public_pair_views[OF example_secp256k1_secret this]
  then have reads: "public_form ?F leb_wire (secp256k1_to_public_key ?F leb_wire toy_hybrid) example_secp256k1 = Ok ?pk"
    "dispatched_bytes ?F leb_wire ?pk = Ok (replicate 33 2)"
    by (simp_all add: example_secp256k1_public)
  have comment: "mk_comment ?pk = []" "mk_comment example_secp256k1 = []"
    by (simp_all add: example_secp256k1_def)
  show "secp256k1_to_ssh_public_key ?F leb_wire toy_hybrid toy_ssh example_secp256k1 = Ok example_ssh_public"
    "secp256k1_to_ssh_private_key ?F leb_wire toy_hybrid toy_ssh example_secp256k1 = Ok example_ssh_private"
    by (simp_all add: opaque_exports opaque_to_ssh_public_def opaque_to_ssh_private_def reads example_secp256k1_secret example_secp256k1_public
      other_public_key_def other_private_key_def ssh_opaque_public_def ssh_opaque_private_def ssh_encoding_def ssh_key_error_def ssh_label_def
      toy_ssh_def example_ssh_public_def example_ssh_private_def comment)
qed

section \<open>Properties\<close>

text \<open>
  C36: The public key that a signing key of a kind with an import arm (every exported kind but RSA and MAYO) exports
  to SSH is imported again as the public key that the key converts to, with codec, comment and key bytes, and for a
  BLS share with its identifier, threshold and limit.
\<close>

theorem ssh_public_round_trip:
  assumes "ssh_lib_ok (sl_hybrid L) X" and "bls_lib_ok (sl_bls L)" and "wire_ok W"
    and "dispatch_sign_view F k = Ok v" and "signing_view F W L v = Some V" and "sv_conv V k = Ok pk"
    and "ssh_view F W L X v = Some E" and "so_public E k = Ok key"
    and "v = VBls12381 \<longrightarrow> ssh_share_fits W k \<and> ssh_share_fits W pk" and "v \<notin> {VRsa, VMayo}"
  shows "\<exists>b. new_from_ssh_public_key F W (sl_bls L) X key = Ok b \<and> try_build F W (sl_bls L) b = Ok pk"
proof -
  consider "v \<in> {VSecp256K1, VMlDsa, VFnDsa, VSlhDsa}" | "v = VEd25519" | "v = VNistP" | "v = VBls12381"
    using assms(7,8,10) by (cases v) (auto simp: no_ssh_views no_ssh_form_def)
  then show ?thesis
  proof cases
    case 1
    then show ?thesis
      using opaque_view_public[OF assms(1,5,4,6,7,8)] by auto
  next
    case 2
    then show ?thesis
      using ed25519_public_round_trip[OF assms(1), of F k W pk] assms by auto
  next
    case 3
    then show ?thesis
      using nist_public_round_trip[OF assms(1), of F k W pk] assms by auto
  next
    case 4
    then show ?thesis
      using bls_public_round_trip[OF assms(1-3), of F k pk] assms by auto
  qed
qed

theorem ssh_public_round_trip_witness:
  "\<exists>b. new_from_ssh_public_key {FSecp256k1} leb_wire toy_bls_points toy_ssh example_ssh_public = Ok b
     \<and> try_build {FSecp256k1} leb_wire toy_bls_points b = Ok (public_multikey (Secp256K1 Pub) example_secp256k1 (replicate 33 2))"
proof -
  let ?F = "{FSecp256k1}" and ?pk = "public_multikey (Secp256K1 Pub) example_secp256k1 (replicate 33 2)"
  obtain V where V: "signing_view ?F leb_wire toy_libs VSecp256K1 = Some V" "sv_conv V example_secp256k1 = Ok ?pk"
    by (simp add: example_secp256k1_public toy_libs_def)
  obtain E where E: "ssh_view ?F leb_wire toy_libs toy_ssh VSecp256K1 = Some E" "so_public E example_secp256k1 = Ok example_ssh_public"
    by (simp add: example_ssh_exports toy_libs_def)
  show ?thesis
    using ssh_public_round_trip[OF toy_ssh_libs_ok leb_wire_ok example_secp256k1_sign V E] by (simp add: toy_libs_def)
qed

text \<open>
  C37: The private key that a signing key of a kind with an import arm (every exported kind but RSA and MAYO) exports
  to SSH is imported again as a key that has the same public key and agrees with the exported one in codec, comment
  and exported secret: all the secret bytes, but the 32-byte seed of an Ed25519 key and as many bytes of a NIST key as
  a scalar of its curve has; for a BLS share also in identifier, threshold and limit.
\<close>

theorem ssh_private_round_trip:
  assumes "ssh_lib_ok (sl_hybrid L) X" and "bls_lib_ok (sl_bls L)" and "wire_ok W"
    and "dispatch_sign_view F k = Ok v" and "signing_view F W L v = Some V" and "sv_conv V k = Ok pk"
    and "ssh_view F W L X v = Some E" and "so_private E k = Ok key"
    and "v = VBls12381 \<longrightarrow> ssh_share_fits W k" and "v \<notin> {VRsa, VMayo}"
  shows "\<exists>b k'. new_from_ssh_private_key F W (sl_bls L) X key = Ok b \<and> try_build F W (sl_bls L) b = Ok k'
    \<and> same_secret F W k k' \<and> sv_conv V k' = Ok pk"
proof -
  have kinds: "v \<in> {VSecp256K1, VMlDsa, VFnDsa, VSlhDsa, VEd25519, VNistP, VBls12381}"
    using assms(7,8,10) by (cases v) (auto simp: no_ssh_views no_ssh_form_def)
  then consider "v \<in> {VSecp256K1, VMlDsa, VFnDsa, VSlhDsa}" | "v = VEd25519" | "v = VNistP" | "v = VBls12381"
    by blast
  then have "\<exists>b k'. new_from_ssh_private_key F W (sl_bls L) X key = Ok b \<and> try_build F W (sl_bls L) b = Ok k' \<and> same_secret F W k k'"
  proof cases
    case 1
    then show ?thesis
      using opaque_view_private[OF assms(1,4,7,8)] by auto
  next
    case 2
    then show ?thesis
      using ed25519_private_round_trip[OF assms(1), of F k W key] assms by auto
  next
    case 3
    then show ?thesis
      using nist_private_round_trip[OF assms(1), of F W k key] assms by auto
  next
    case 4
    then show ?thesis
      using bls_private_round_trip[OF assms(1-3), of F k key] assms by auto
  qed
  then show ?thesis
    using same_secret_public[OF assms(4-6) kinds] by blast
qed

theorem ssh_private_round_trip_witness:
  "\<exists>b k'. new_from_ssh_private_key {FSecp256k1} leb_wire toy_bls_points toy_ssh example_ssh_private = Ok b
     \<and> try_build {FSecp256k1} leb_wire toy_bls_points b = Ok k' \<and> same_secret {FSecp256k1} leb_wire example_secp256k1 k'"
proof -
  obtain V where V: "signing_view {FSecp256k1} leb_wire toy_libs VSecp256K1 = Some V"
      "sv_conv V example_secp256k1 = Ok (public_multikey (Secp256K1 Pub) example_secp256k1 (replicate 33 2))"
    by (simp add: example_secp256k1_public toy_libs_def)
  obtain E where E: "ssh_view {FSecp256k1} leb_wire toy_libs toy_ssh VSecp256K1 = Some E" "so_private E example_secp256k1 = Ok example_ssh_private"
    by (simp add: example_ssh_exports toy_libs_def)
  have "\<exists>b k'. new_from_ssh_private_key {FSecp256k1} leb_wire (sl_bls toy_libs) toy_ssh example_ssh_private = Ok b
      \<and> try_build {FSecp256k1} leb_wire (sl_bls toy_libs) b = Ok k' \<and> same_secret {FSecp256k1} leb_wire example_secp256k1 k'"
    using ssh_private_round_trip[OF toy_ssh_libs_ok leb_wire_ok example_secp256k1_sign V E] by auto
  then show ?thesis
    by (simp add: toy_libs_def)
qed

end
