(* ===== verification/Mk_ViewBuilder.thy ===== *)
theory Mk_ViewBuilder
  imports Mk_Dispatch
begin

text \<open>
  \<^verbatim>\<open>src/views/builder.rs\<close>: the fluent \<^verbatim>\<open>ViewBuilder\<close>. A builder is created over a key, a kind of view is
  selected, factories are registered for codecs, and \<^verbatim>\<open>build\<close> opens the built-in view or falls through
  to a factory. The kind is a type parameter in the source; here each kind is the record of its two
  methods, and the factories are of the type of the kind. A view that a factory boxes is of any type \<open>'w\<close>.
\<close>

section \<open>Builders\<close>

type_synonym 'w factory = "multikey \<Rightarrow> 'w res"
type_synonym 'w second_factory = "multikey \<Rightarrow> multikey \<Rightarrow> 'w res"

record 'f view_builder =
  vb_mk :: multikey
  vb_second :: multikey
  vb_local :: "(codec \<rightharpoonup> 'f) option"

definition view_builder_new :: "multikey \<Rightarrow> unit view_builder" where
  "view_builder_new k = \<lparr>vb_mk = k, vb_second = k, vb_local = None\<rparr>"

text \<open>The selectors \<^verbatim>\<open>attr\<close>, \<^verbatim>\<open>sign\<close> and so on differ in the type of their result only.\<close>

definition select_kind :: "'e view_builder \<Rightarrow> 'f view_builder" where
  "select_kind b = \<lparr>vb_mk = vb_mk b, vb_second = vb_second b, vb_local = None\<rparr>"

definition select_cipher :: "multikey \<Rightarrow> 'e view_builder \<Rightarrow> 'f view_builder" where
  "select_cipher cipher b = \<lparr>vb_mk = vb_mk b, vb_second = cipher, vb_local = None\<rparr>"

definition select_kdf :: "multikey \<Rightarrow> 'e view_builder \<Rightarrow> 'f view_builder" where
  "select_kdf kdf b = \<lparr>vb_mk = vb_mk b, vb_second = kdf, vb_local = None\<rparr>"

definition with_local_codec :: "codec \<Rightarrow> 'f \<Rightarrow> 'f view_builder \<Rightarrow> 'f view_builder" where
  "with_local_codec c f b =
     b\<lparr>vb_local := Some ((case vb_local b of None \<Rightarrow> Map.empty | Some m \<Rightarrow> m)(c \<mapsto> f))\<rparr>"

definition local_factory :: "'f view_builder \<Rightarrow> codec \<Rightarrow> 'f option" where
  "local_factory b c = (case vb_local b of None \<Rightarrow> None | Some m \<Rightarrow> m c)"

section \<open>Building\<close>

text \<open>What a built-in dispatch boxes, for whatever kind.\<close>

datatype built_in =
    Module view
  | ThresholdAttrs threshold_attr_impl
  | DkgKeyView
  | Chacha20View
  | BcryptView
  | DisclosureView multikey

datatype 'w opened = BuiltIn built_in | Local 'w

definition boxed :: "('v \<Rightarrow> built_in) \<Rightarrow> 'v res \<Rightarrow> built_in res" where
  "boxed box r = and_then r (\<lambda>v. Ok (box v))"

definition dispatch_disclosure_view :: "multikey \<Rightarrow> built_in" where
  "dispatch_disclosure_view k = DisclosureView k"

text \<open>The errors on which the arms of \<^verbatim>\<open>build\<close> fall through, with the codec they carry.\<close>

fun attributes_codec :: "error \<Rightarrow> codec option" where
  "attributes_codec (Attributes (AUnsupportedCodec c)) = Some c"
| "attributes_codec _ = None"

fun conversions_codec :: "error \<Rightarrow> codec option" where
  "conversions_codec (Conversions (CvUnsupportedCodec c)) = Some c"
| "conversions_codec _ = None"

fun cipher_codec :: "error \<Rightarrow> codec option" where
  "cipher_codec (Cipher (CiUnsupportedCodec c)) = Some c"
| "cipher_codec _ = None"

fun kdf_codec :: "error \<Rightarrow> codec option" where
  "kdf_codec (Kdf (KdUnsupportedCodec c)) = Some c"
| "kdf_codec _ = None"

definition not_encryption_key :: "multikey \<Rightarrow> error \<Rightarrow> codec option" where
  "not_encryption_key k e = (if e = Seal SeNotEncryptionKey then Some (mk_codec k) else None)"

text \<open>The frame of \<^verbatim>\<open>build\<close>: \<open>dispatched\<close> is the result of the built-in dispatch.\<close>

definition build_view ::
  "(error \<Rightarrow> codec option) \<Rightarrow> ('f \<Rightarrow> 'w res) \<Rightarrow> built_in res \<Rightarrow> 'f view_builder \<Rightarrow> 'w opened res" where
  "build_view fallthrough run dispatched b =
     (case dispatched of
        Ok v \<Rightarrow> Ok (BuiltIn v)
      | Err e \<Rightarrow>
          (case fallthrough e of
             Some c \<Rightarrow>
               (case local_factory b c of
                  Some f \<Rightarrow> and_then (run f) (\<lambda>w. Ok (Local w))
                | None \<Rightarrow> Err e)
           | None \<Rightarrow> Err e)
      | Panic \<Rightarrow> Panic)"

record ('f, 'w) kind_ops =
  ko_with_local_codec :: "codec \<Rightarrow> 'f \<Rightarrow> 'f view_builder \<Rightarrow> 'f view_builder"
  ko_build :: "'f view_builder \<Rightarrow> 'w opened res"

definition attr_kind :: "features \<Rightarrow> ('w factory, 'w) kind_ops" where
  "attr_kind F = \<lparr>ko_with_local_codec = with_local_codec,
     ko_build = \<lambda>b. build_view attributes_codec (\<lambda>f. f (vb_mk b)) (boxed Module (dispatch_attr_view F (vb_mk b))) b\<rparr>"

definition cipher_attr_kind :: "features \<Rightarrow> wire \<Rightarrow> ('w factory, 'w) kind_ops" where
  "cipher_attr_kind F W = \<lparr>ko_with_local_codec = with_local_codec,
     ko_build = \<lambda>b. build_view cipher_codec (\<lambda>f. f (vb_mk b)) (boxed (\<lambda>_. Chacha20View) (dispatch_cipher_attr_view F W (vb_mk b))) b\<rparr>"

definition data_kind :: "features \<Rightarrow> ('w factory, 'w) kind_ops" where
  "data_kind F = \<lparr>ko_with_local_codec = with_local_codec,
     ko_build = \<lambda>b. build_view conversions_codec (\<lambda>f. f (vb_mk b)) (boxed Module (dispatch_data_view F (vb_mk b))) b\<rparr>"

definition kdf_attr_kind :: "features \<Rightarrow> wire \<Rightarrow> ('w factory, 'w) kind_ops" where
  "kdf_attr_kind F W = \<lparr>ko_with_local_codec = with_local_codec,
     ko_build = \<lambda>b. build_view kdf_codec (\<lambda>f. f (vb_mk b)) (boxed (\<lambda>_. BcryptView) (dispatch_kdf_attr_view F W (vb_mk b))) b\<rparr>"

definition threshold_attr_kind :: "features \<Rightarrow> ('w factory, 'w) kind_ops" where
  "threshold_attr_kind F = \<lparr>ko_with_local_codec = with_local_codec,
     ko_build = \<lambda>b. build_view conversions_codec (\<lambda>f. f (vb_mk b)) (boxed ThresholdAttrs (dispatch_threshold_attr_view F (vb_mk b))) b\<rparr>"

definition threshold_key_kind :: "features \<Rightarrow> ('w factory, 'w) kind_ops" where
  "threshold_key_kind F = \<lparr>ko_with_local_codec = with_local_codec,
     ko_build = \<lambda>b. build_view conversions_codec (\<lambda>f. f (vb_mk b)) (boxed (\<lambda>_. DkgKeyView) (dispatch_threshold_key_view F (vb_mk b))) b\<rparr>"

definition conv_kind :: "features \<Rightarrow> ('w factory, 'w) kind_ops" where
  "conv_kind F = \<lparr>ko_with_local_codec = with_local_codec,
     ko_build = \<lambda>b. build_view conversions_codec (\<lambda>f. f (vb_mk b)) (boxed Module (dispatch_conv_view F (vb_mk b))) b\<rparr>"

definition fingerprint_kind :: "features \<Rightarrow> ('w factory, 'w) kind_ops" where
  "fingerprint_kind F = \<lparr>ko_with_local_codec = with_local_codec,
     ko_build = \<lambda>b. build_view conversions_codec (\<lambda>f. f (vb_mk b)) (boxed Module (dispatch_fingerprint_view F (vb_mk b))) b\<rparr>"

definition sign_kind :: "features \<Rightarrow> ('w factory, 'w) kind_ops" where
  "sign_kind F = \<lparr>ko_with_local_codec = with_local_codec,
     ko_build = \<lambda>b. build_view conversions_codec (\<lambda>f. f (vb_mk b)) (boxed Module (dispatch_sign_view F (vb_mk b))) b\<rparr>"

definition verify_kind :: "features \<Rightarrow> ('w factory, 'w) kind_ops" where
  "verify_kind F = \<lparr>ko_with_local_codec = with_local_codec,
     ko_build = \<lambda>b. build_view conversions_codec (\<lambda>f. f (vb_mk b)) (boxed Module (dispatch_verify_view F (vb_mk b))) b\<rparr>"

definition seal_kind :: "features \<Rightarrow> ('w factory, 'w) kind_ops" where
  "seal_kind F = \<lparr>ko_with_local_codec = with_local_codec,
     ko_build = \<lambda>b. build_view (not_encryption_key (vb_mk b)) (\<lambda>f. f (vb_mk b)) (boxed Module (dispatch_seal_view F (vb_mk b))) b\<rparr>"

definition open_kind :: "features \<Rightarrow> ('w factory, 'w) kind_ops" where
  "open_kind F = \<lparr>ko_with_local_codec = with_local_codec,
     ko_build = \<lambda>b. build_view (not_encryption_key (vb_mk b)) (\<lambda>f. f (vb_mk b)) (boxed Module (dispatch_open_view F (vb_mk b))) b\<rparr>"

definition cipher_kind :: "features \<Rightarrow> ('w second_factory, 'w) kind_ops" where
  "cipher_kind F = \<lparr>ko_with_local_codec = with_local_codec,
     ko_build = \<lambda>b. build_view cipher_codec (\<lambda>f. f (vb_mk b) (vb_second b))
       (boxed (\<lambda>_. Chacha20View) (dispatch_cipher_view F (vb_mk b) (vb_second b))) b\<rparr>"

definition kdf_kind :: "features \<Rightarrow> ('w second_factory, 'w) kind_ops" where
  "kdf_kind F = \<lparr>ko_with_local_codec = with_local_codec,
     ko_build = \<lambda>b. build_view kdf_codec (\<lambda>f. f (vb_mk b) (vb_second b))
       (boxed (\<lambda>_. BcryptView) (dispatch_kdf_view F (vb_mk b) (vb_second b))) b\<rparr>"

definition threshold_kind_ops :: "features \<Rightarrow> ('w factory, 'w) kind_ops" where
  "threshold_kind_ops F = \<lparr>ko_with_local_codec = with_local_codec,
     ko_build = \<lambda>b. build_view conversions_codec (\<lambda>f. f (vb_mk b)) (boxed Module (dispatch_threshold_view F (vb_mk b))) b\<rparr>"

definition disclosure_kind :: "('w factory, 'w) kind_ops" where
  "disclosure_kind = \<lparr>ko_with_local_codec = with_local_codec,
     ko_build = \<lambda>b. Ok (BuiltIn (dispatch_disclosure_view (vb_mk b)))\<rparr>"

definition merkle_state_kind :: "features \<Rightarrow> ('w factory, 'w) kind_ops" where
  "merkle_state_kind F = \<lparr>ko_with_local_codec = with_local_codec,
     ko_build = \<lambda>b. build_view conversions_codec (\<lambda>f. f (vb_mk b)) (boxed Module (dispatch_merkle_state_view F (vb_mk b))) b\<rparr>"

section \<open>All kinds\<close>

text \<open>The kinds whose view takes one key, and the two whose view takes a second key.\<close>

datatype single_kind =
    AttrKind | CipherAttrKind | DataKind | KdfAttrKind | ThresholdAttrKind | ThresholdKeyKind | ConvKind
  | FingerprintKind | SignKind | VerifyKind | SealKind | OpenKind | ThresholdKind | DisclosureKind | MerkleStateKind

datatype second_kind = CipherKind | KdfKind

fun single_ops :: "features \<Rightarrow> wire \<Rightarrow> single_kind \<Rightarrow> ('w factory, 'w) kind_ops" where
  "single_ops F W AttrKind = attr_kind F"
| "single_ops F W CipherAttrKind = cipher_attr_kind F W"
| "single_ops F W DataKind = data_kind F"
| "single_ops F W KdfAttrKind = kdf_attr_kind F W"
| "single_ops F W ThresholdAttrKind = threshold_attr_kind F"
| "single_ops F W ThresholdKeyKind = threshold_key_kind F"
| "single_ops F W ConvKind = conv_kind F"
| "single_ops F W FingerprintKind = fingerprint_kind F"
| "single_ops F W SignKind = sign_kind F"
| "single_ops F W VerifyKind = verify_kind F"
| "single_ops F W SealKind = seal_kind F"
| "single_ops F W OpenKind = open_kind F"
| "single_ops F W ThresholdKind = threshold_kind_ops F"
| "single_ops F W DisclosureKind = disclosure_kind"
| "single_ops F W MerkleStateKind = merkle_state_kind F"

fun second_ops :: "features \<Rightarrow> second_kind \<Rightarrow> ('w second_factory, 'w) kind_ops" where
  "second_ops F CipherKind = cipher_kind F"
| "second_ops F KdfKind = kdf_kind F"

fun select_second :: "second_kind \<Rightarrow> multikey \<Rightarrow> 'e view_builder \<Rightarrow> 'f view_builder" where
  "select_second CipherKind = select_cipher"
| "select_second KdfKind = select_kdf"

section \<open>The specification\<close>

text \<open>The built-in views of a kind, and the codec that a kind goes by.\<close>

fun single_built_in :: "features \<Rightarrow> wire \<Rightarrow> single_kind \<Rightarrow> multikey \<Rightarrow> built_in res" where
  "single_built_in F W AttrKind k = boxed Module (dispatch_attr_view F k)"
| "single_built_in F W CipherAttrKind k = boxed (\<lambda>_. Chacha20View) (dispatch_cipher_attr_view F W k)"
| "single_built_in F W DataKind k = boxed Module (dispatch_data_view F k)"
| "single_built_in F W KdfAttrKind k = boxed (\<lambda>_. BcryptView) (dispatch_kdf_attr_view F W k)"
| "single_built_in F W ThresholdAttrKind k = boxed ThresholdAttrs (dispatch_threshold_attr_view F k)"
| "single_built_in F W ThresholdKeyKind k = boxed (\<lambda>_. DkgKeyView) (dispatch_threshold_key_view F k)"
| "single_built_in F W ConvKind k = boxed Module (dispatch_conv_view F k)"
| "single_built_in F W FingerprintKind k = boxed Module (dispatch_fingerprint_view F k)"
| "single_built_in F W SignKind k = boxed Module (dispatch_sign_view F k)"
| "single_built_in F W VerifyKind k = boxed Module (dispatch_verify_view F k)"
| "single_built_in F W SealKind k = boxed Module (dispatch_seal_view F k)"
| "single_built_in F W OpenKind k = boxed Module (dispatch_open_view F k)"
| "single_built_in F W ThresholdKind k = boxed Module (dispatch_threshold_view F k)"
| "single_built_in F W DisclosureKind k = Ok (DisclosureView k)"
| "single_built_in F W MerkleStateKind k = boxed Module (dispatch_merkle_state_view F k)"

fun second_built_in :: "features \<Rightarrow> second_kind \<Rightarrow> multikey \<Rightarrow> multikey \<Rightarrow> built_in res" where
  "second_built_in F CipherKind k s = boxed (\<lambda>_. Chacha20View) (dispatch_cipher_view F k s)"
| "second_built_in F KdfKind k s = boxed (\<lambda>_. BcryptView) (dispatch_kdf_view F k s)"

fun view_codec :: "wire \<Rightarrow> single_kind \<Rightarrow> multikey \<Rightarrow> codec option" where
  "view_codec W CipherAttrKind k = (case attr_or_own_codec W CipherCodec k of Ok c \<Rightarrow> Some c | _ \<Rightarrow> None)"
| "view_codec W KdfAttrKind k = (case attr_or_own_codec W KdfCodec k of Ok c \<Rightarrow> Some c | _ \<Rightarrow> None)"
| "view_codec W _ k = Some (mk_codec k)"

text \<open>
  A builder is specified as a function of the key and of the list of registrations: the built-in view
  if there is one, otherwise the last factory registered for the codec, otherwise the built-in error.
\<close>

definition build_spec :: "built_in res \<Rightarrow> codec option \<Rightarrow> ('f \<Rightarrow> 'w res) \<Rightarrow> (codec \<times> 'f) list \<Rightarrow> 'w opened res" where
  "build_spec builtin c run registered =
     (case builtin of
        Ok v \<Rightarrow> Ok (BuiltIn v)
      | Err e \<Rightarrow>
          (case Option.bind c (map_of (rev registered)) of
             Some f \<Rightarrow> and_then (run f) (\<lambda>w. Ok (Local w))
           | None \<Rightarrow> Err e)
      | Panic \<Rightarrow> Panic)"

definition register_all :: "('f, 'w) kind_ops \<Rightarrow> (codec \<times> 'f) list \<Rightarrow> 'f view_builder \<Rightarrow> 'f view_builder" where
  "register_all ops registered b = fold (\<lambda>(c, f). ko_with_local_codec ops c f) registered b"

lemma local_factory_simps [simp]:
  "local_factory (with_local_codec c f b) = (local_factory b)(c \<mapsto> f)"
  "local_factory (select_kind b') = Map.empty" "local_factory (select_second K s b') = Map.empty"
  "vb_mk (with_local_codec c f b) = vb_mk b" "vb_second (with_local_codec c f b) = vb_second b"
  "vb_mk (select_kind b') = vb_mk b'" "vb_mk (select_second K s b') = vb_mk b'" "vb_second (select_second K s b') = s"
  by (cases K; auto simp: local_factory_def with_local_codec_def select_kind_def select_cipher_def select_kdf_def fun_eq_iff split: option.splits)+

locale view_kind =
  fixes ops :: "('f, 'w) kind_ops" and builtin :: "multikey \<Rightarrow> multikey \<Rightarrow> built_in res"
    and goes_by :: "multikey \<Rightarrow> multikey \<Rightarrow> codec option" and run :: "'f \<Rightarrow> multikey \<Rightarrow> multikey \<Rightarrow> 'w res"
  assumes register: "ko_with_local_codec ops = with_local_codec"
    and build_ok: "builtin (vb_mk b) (vb_second b) = Ok v \<Longrightarrow> ko_build ops b = Ok (BuiltIn v)"
    and build_local: "builtin (vb_mk b) (vb_second b) = Err e \<Longrightarrow> goes_by (vb_mk b) (vb_second b) = Some c \<Longrightarrow>
      local_factory b c = Some f \<Longrightarrow> ko_build ops b = and_then (run f (vb_mk b) (vb_second b)) (\<lambda>w. Ok (Local w))"
    and build_bad: "builtin (vb_mk b) (vb_second b) = Err e \<Longrightarrow>
      Option.bind (goes_by (vb_mk b) (vb_second b)) (local_factory b) = None \<Longrightarrow> ko_build ops b = Err e"
    and build_panic: "builtin (vb_mk b) (vb_second b) = Panic \<Longrightarrow> ko_build ops b = Panic"
begin

lemma registered:
  "local_factory (register_all ops fs b) = local_factory b ++ map_of (rev fs)
   \<and> vb_mk (register_all ops fs b) = vb_mk b \<and> vb_second (register_all ops fs b) = vb_second b"
  by (induction fs arbitrary: b) (auto simp: register_all_def register map_add_upds map_add_assoc[symmetric])

lemma build_registered:
  assumes "local_factory b = Map.empty"
  shows "ko_build ops (register_all ops fs b) =
    build_spec (builtin (vb_mk b) (vb_second b)) (goes_by (vb_mk b) (vb_second b)) (\<lambda>f. run f (vb_mk b) (vb_second b)) fs"
proof -
  let ?b = "register_all ops fs b" and ?c = "goes_by (vb_mk b) (vb_second b)"
  have b: "vb_mk ?b = vb_mk b" "vb_second ?b = vb_second b" "local_factory ?b = map_of (rev fs)"
    using registered[of fs b] assms by simp_all
  show ?thesis
  proof (cases "builtin (vb_mk b) (vb_second b)")
    case (Ok v)
    then show ?thesis
      using build_ok[of ?b v] b by (simp add: build_spec_def)
  next
    case (Err e)
    then show ?thesis
      using build_local[of ?b e] build_bad[of ?b e] b
      by (cases "Option.bind ?c (map_of (rev fs))") (auto simp: build_spec_def bind_eq_Some_conv)
  next
    case Panic
    then show ?thesis
      using build_panic[of ?b] b by (simp add: build_spec_def)
  qed
qed

end

section \<open>The kinds meet the specification\<close>

text \<open>A dispatch fails with its error for an unsupported codec, and with no other.\<close>

lemma arm_eq_Err: "arm F (Err e) g fs v = Err e' \<longleftrightarrow> \<not> (g \<and> set fs \<subseteq> F) \<and> e' = e"
  by (auto simp: arm_def)

lemma dispatch_errors:
  "dispatch_attr_view F k = Err e \<Longrightarrow> e = Attributes (AUnsupportedCodec (mk_codec k))"
  "dispatch_data_view F k = Err e \<Longrightarrow> e = Conversions (CvUnsupportedCodec (mk_codec k))"
  "dispatch_conv_view F k = Err e \<Longrightarrow> e = Conversions (CvUnsupportedCodec (mk_codec k))"
  "dispatch_fingerprint_view F k = Err e \<Longrightarrow> e = Conversions (CvUnsupportedCodec (mk_codec k))"
  "dispatch_sign_view F k = Err e \<Longrightarrow> e = Conversions (CvUnsupportedCodec (mk_codec k))"
  "dispatch_verify_view F k = Err e \<Longrightarrow> e = Conversions (CvUnsupportedCodec (mk_codec k))"
  "dispatch_seal_view F k = Err e \<Longrightarrow> e = Seal SeNotEncryptionKey"
  "dispatch_open_view F k = Err e \<Longrightarrow> e = Seal SeNotEncryptionKey"
  "dispatch_threshold_view F k = Err e \<Longrightarrow> e = Conversions (CvUnsupportedCodec (mk_codec k))"
  "dispatch_merkle_state_view F k = Err e \<Longrightarrow> e = Conversions (CvUnsupportedCodec (mk_codec k))"
  "dispatch_threshold_attr_view F k = Err e \<Longrightarrow> e = Conversions (CvUnsupportedCodec (mk_codec k))"
  "dispatch_threshold_key_view F k = Err e \<Longrightarrow> e = Conversions (CvUnsupportedCodec (mk_codec k))"
  by (cases "mk_codec k"; simp add: dispatch_table_defs dispatch_threshold_attr_view_def dispatch_threshold_key_view_def arm_eq_Err)+

lemma boxed_eq [simp]:
  "boxed box r = Ok w \<longleftrightarrow> (\<exists>v. r = Ok v \<and> w = box v)" "boxed box r = Err e \<longleftrightarrow> r = Err e" "boxed box r = Panic \<longleftrightarrow> r = Panic"
  by (cases r; auto simp: boxed_def)+

lemma build_view_cases:
  "dispatched = Ok v \<Longrightarrow> build_view fallthrough run dispatched b = Ok (BuiltIn v)"
  "dispatched = Err e \<Longrightarrow> fallthrough e = Some c \<Longrightarrow> local_factory b c = Some f \<Longrightarrow>
     build_view fallthrough run dispatched b = and_then (run f) (\<lambda>w. Ok (Local w))"
  "dispatched = Err e \<Longrightarrow> Option.bind (fallthrough e) (local_factory b) = None \<Longrightarrow>
     build_view fallthrough run dispatched b = Err e"
  "dispatched = Panic \<Longrightarrow> build_view fallthrough run dispatched b = Panic"
  by (auto simp: build_view_def split: option.splits)

lemmas kind_defs = attr_kind_def cipher_attr_kind_def data_kind_def kdf_attr_kind_def threshold_attr_kind_def
  threshold_key_kind_def conv_kind_def fingerprint_kind_def sign_kind_def verify_kind_def seal_kind_def open_kind_def
  cipher_kind_def kdf_kind_def threshold_kind_ops_def disclosure_kind_def merkle_state_kind_def

text \<open>The error of a single-key dispatch carries the codec of \<open>view_codec\<close>, or it is not a fallthrough error.\<close>

lemma attr_or_own_not_fallthrough:
  "attr_or_own_codec W a k = Err e \<Longrightarrow> cipher_codec e = None \<and> kdf_codec e = None"
proof (cases "get_attr k a")
  case (Some bs)
  then show "attr_or_own_codec W a k = Err e \<Longrightarrow> ?thesis"
    by (cases "codec_of W bs") (auto simp: attr_or_own_codec_def)
qed (simp add: attr_or_own_codec_def)

lemma attr_dispatch_errors:
  "dispatch_cipher_attr_view F W k = Err e \<Longrightarrow>
     cipher_codec e = (case attr_or_own_codec W CipherCodec k of Ok c \<Rightarrow> Some c | _ \<Rightarrow> None)"
  "dispatch_kdf_attr_view F W k = Err e \<Longrightarrow>
     kdf_codec e = (case attr_or_own_codec W KdfCodec k of Ok c \<Rightarrow> Some c | _ \<Rightarrow> None)"
  using attr_or_own_not_fallthrough
  by (auto simp: dispatch_cipher_attr_view_def dispatch_kdf_attr_view_def and_then_eq_Err arm_eq_Err)

text \<open>How a kind builds: its frame with the codec that its error carries.\<close>

lemma single_ops_build:
  "\<exists>fallthrough. ko_build (single_ops F W K) b =
       build_view fallthrough (\<lambda>f. f (vb_mk b)) (single_built_in F W K (vb_mk b)) b
     \<and> (\<forall>e. single_built_in F W K (vb_mk b) = Err e \<longrightarrow> fallthrough e = view_codec W K (vb_mk b))"
proof (cases K)
  case DisclosureKind
  then show ?thesis
    by (simp add: kind_defs build_view_def dispatch_disclosure_view_def)
next
  case CipherAttrKind
  then show ?thesis
    using attr_dispatch_errors(1) by (intro exI[of _ cipher_codec]) (simp add: kind_defs)
next
  case KdfAttrKind
  then show ?thesis
    using attr_dispatch_errors(2) by (intro exI[of _ kdf_codec]) (simp add: kind_defs)
next
  case AttrKind
  then show ?thesis
    by (intro exI[of _ attributes_codec]) (auto simp: kind_defs dest!: dispatch_errors(1))
next
  case SealKind
  then show ?thesis
    by (intro exI[of _ "not_encryption_key (vb_mk b)"]) (auto simp: kind_defs not_encryption_key_def dest!: dispatch_errors(7))
next
  case OpenKind
  then show ?thesis
    by (intro exI[of _ "not_encryption_key (vb_mk b)"]) (auto simp: kind_defs not_encryption_key_def dest!: dispatch_errors(8))
qed (intro exI[of _ conversions_codec], auto simp: kind_defs dest!: dispatch_errors)+

lemma second_ops_build:
  "\<exists>fallthrough. ko_build (second_ops F K) b =
       build_view fallthrough (\<lambda>f. f (vb_mk b) (vb_second b)) (second_built_in F K (vb_mk b) (vb_second b)) b
     \<and> (\<forall>e. second_built_in F K (vb_mk b) (vb_second b) = Err e \<longrightarrow> fallthrough e = Some (mk_codec (vb_second b)))"
proof (cases K)
  case CipherKind
  then show ?thesis
    by (intro exI[of _ cipher_codec]) (auto simp: kind_defs dispatch_cipher_view_def arm_eq_Err)
next
  case KdfKind
  then show ?thesis
    by (intro exI[of _ kdf_codec]) (auto simp: kind_defs dispatch_kdf_view_def arm_eq_Err)
qed

lemma view_kind_laws:
  assumes "\<And>b. \<exists>fallthrough. ko_build ops b = build_view fallthrough (\<lambda>f. run f (vb_mk b) (vb_second b)) (builtin (vb_mk b) (vb_second b)) b
     \<and> (\<forall>e. builtin (vb_mk b) (vb_second b) = Err e \<longrightarrow> fallthrough e = goes_by (vb_mk b) (vb_second b))"
    and "ko_with_local_codec ops = with_local_codec"
  shows "view_kind ops builtin goes_by run"
proof
  fix b
  obtain fallthrough where build: "ko_build ops b = build_view fallthrough (\<lambda>f. run f (vb_mk b) (vb_second b)) (builtin (vb_mk b) (vb_second b)) b"
    and codec: "builtin (vb_mk b) (vb_second b) = Err e \<Longrightarrow> fallthrough e = goes_by (vb_mk b) (vb_second b)" for e
    using assms(1)[of b] by blast
  show "builtin (vb_mk b) (vb_second b) = Ok v \<Longrightarrow> ko_build ops b = Ok (BuiltIn v)" for v
    by (simp add: build build_view_cases)
  show "builtin (vb_mk b) (vb_second b) = Err e \<Longrightarrow> goes_by (vb_mk b) (vb_second b) = Some c \<Longrightarrow>
      local_factory b c = Some f \<Longrightarrow> ko_build ops b = and_then (run f (vb_mk b) (vb_second b)) (\<lambda>w. Ok (Local w))" for e c f
    using codec by (simp add: build build_view_cases)
  show "builtin (vb_mk b) (vb_second b) = Err e \<Longrightarrow>
      Option.bind (goes_by (vb_mk b) (vb_second b)) (local_factory b) = None \<Longrightarrow> ko_build ops b = Err e" for e
    using codec by (simp add: build build_view_cases)
  show "builtin (vb_mk b) (vb_second b) = Panic \<Longrightarrow> ko_build ops b = Panic"
    by (simp add: build build_view_cases)
qed (rule assms(2))

interpretation single: view_kind "single_ops F W K" "\<lambda>k s. single_built_in F W K k" "\<lambda>k s. view_codec W K k" "\<lambda>f k s. f k"
  for F W K
  by (rule view_kind_laws[OF single_ops_build]) (cases K; simp add: kind_defs)

interpretation second: view_kind "second_ops F K" "second_built_in F K" "\<lambda>k s. Some (mk_codec s)" "\<lambda>f. f"
  for F K
  by (rule view_kind_laws[OF second_ops_build]) (cases K; simp add: kind_defs)

lemma registered_view:
  "ko_build (single_ops F W K) (register_all (single_ops F W K) registered (select_kind (view_builder_new k))) =
   build_spec (single_built_in F W K k) (view_codec W K k) (\<lambda>f. f k) registered"
  using single.build_registered[of "select_kind (view_builder_new k)" F W K registered] by (simp add: view_builder_new_def)

text \<open>
  A corrupt cipher codec on a key keeps every registered factory from being asked.
\<close>

lemma corrupt_codec_blocks_factories:
  assumes "get_attr k CipherCodec = Some bs" "codec_of W bs = Err e"
  shows "ko_build (cipher_attr_kind F W) (register_all (cipher_attr_kind F W) registered (select_kind (view_builder_new k))) = Err (Multicodec e)"
  using registered_view[of F W CipherAttrKind registered k] assms
  by (simp add: build_spec_def dispatch_cipher_attr_view_def attr_or_own_codec_def boxed_def)

section \<open>Properties\<close>

text \<open>
  C38: A view builder of a one-key kind with any sequence of registered factories opens the built-in view
  if the key has one; otherwise it asks the last factory registered for the codec that the kind goes by,
  and without one it returns the error of the dispatcher.
\<close>

theorem view_builder_spec:
  "ko_build (single_ops F W K) (register_all (single_ops F W K) registered (select_kind (view_builder_new k))) =
   build_spec (single_built_in F W K k) (view_codec W K k) (\<lambda>f. f k) registered"
  by (rule registered_view)

text \<open>
  The same for the two kinds with a second key, which go by its codec.
\<close>

lemma second_view_builder_spec:
  "ko_build (second_ops F K) (register_all (second_ops F K) registered (select_second K s (view_builder_new k))) =
   build_spec (second_built_in F K k s) (Some (mk_codec s)) (\<lambda>f. f k s) registered"
  using second.build_registered[of "select_second K s (view_builder_new k)" F K registered] by (simp add: view_builder_new_def)

end
