(* ===== verification/Mk_Serde.thy ===== *)
theory Mk_Serde
  imports Mk_Nonce
begin

text \<open>
  Serialization (\<^verbatim>\<open>src/serde/ser.rs\<close>, \<^verbatim>\<open>src/serde/de.rs\<close>). A serializer is told a value of the \<^verbatim>\<open>serde\<close>
  data model, and a deserializer hands such a value to a visitor; the format in between is external, and
  so are the forms of \<^verbatim>\<open>Codec\<close> and \<^verbatim>\<open>EncodedVarbytes\<close>. The flag \<open>human\<close> is \<^verbatim>\<open>is_human_readable()\<close>. A Rust string is
  the list of its bytes as characters. \<open>SvStr\<close> is also a single character, which visitors take as a string.
\<close>

section \<open>The data model\<close>

datatype serde_value =
    SvBytes bytes
  | SvStr string
  | SvU8 byte
  | SvU64 nat  \<comment> \<open>the wider unsigned integers, which visitors take as \<^verbatim>\<open>u64\<close>\<close>
  | SvSeq "serde_value list"
  | SvTuple "serde_value list"
  | SvStruct string "(serde_value \<times> serde_value) list"
  | SvOther string

datatype serde_error =
    Custom error                  \<comment> \<open>\<^verbatim>\<open>Error::custom\<close>\<close>
  | DuplicateField string
  | MissingField string
  | UnknownField string
  | InvalidType
  | InvalidValue
  | FormatError string

type_synonym 'a de = "(serde_error, 'a) outcome"

record serde_lib =
  codec_str :: "codec \<Rightarrow> string"                     \<comment> \<open>\<^verbatim>\<open>Codec::as_str\<close>\<close>
  codec_value :: "codec \<Rightarrow> serde_value"
  codec_of_value :: "serde_value \<Rightarrow> codec de"
  encoded_value :: "char \<Rightarrow> bytes \<Rightarrow> serde_value"     \<comment> \<open>\<^verbatim>\<open>Varbytes::encoded_new\<close>, with its base\<close>
  bytes_of_encoded :: "serde_value \<Rightarrow> bytes de"       \<comment> \<open>\<^verbatim>\<open>EncodedVarbytes\<close>, unwrapped twice\<close>

text \<open>Documented behaviour: what they write they read.\<close>

definition serde_lib_ok :: "serde_lib \<Rightarrow> bool" where
  "serde_lib_ok S \<longleftrightarrow>
     (\<forall>c. codec_of_value S (codec_value S c) = Ok c) \<and> (\<forall>base bs. bytes_of_encoded S (encoded_value S base bs) = Ok bs)"

definition bytes_to_string :: "bytes \<Rightarrow> string" where
  "bytes_to_string = map (\<lambda>b. char_of (unat b))"

definition string_to_bytes :: "string \<Rightarrow> bytes" where
  "string_to_bytes = map (\<lambda>c. of_nat (of_char c))"

section \<open>Serializing\<close>

definition nonce_serialize :: "wire \<Rightarrow> serde_lib \<Rightarrow> bool \<Rightarrow> nonce \<Rightarrow> serde_value" where
  "nonce_serialize W S human n =
     (if human then SvStruct (codec_str S NONCE_SIGIL) [(SvStr ''nonce'', encoded_value S nonce_preferred_encoding (nc_nonce n))]
      else SvBytes (nonce_encode W n))"

definition attr_serialize :: "bool \<Rightarrow> attr_id \<Rightarrow> serde_value" where
  "attr_serialize human a = (if human then SvStr (attr_as_str a) else SvU8 (attr_code a))"

text \<open>\<^verbatim>\<open>Multikey::preferred_encoding\<close>: \<^verbatim>\<open>Base::Base16Lower\<close>, by its one-character code.\<close>

definition multikey_preferred_encoding :: char where
  "multikey_preferred_encoding = CHR ''f''"

definition attribute_pair :: "serde_lib \<Rightarrow> attr_id \<times> bytes \<Rightarrow> serde_value" where
  "attribute_pair S = (\<lambda>(id, attr). SvTuple [SvStr (attr_as_str id), encoded_value S multikey_preferred_encoding attr])"

definition multikey_serialize :: "wire \<Rightarrow> serde_lib \<Rightarrow> bool \<Rightarrow> multikey \<Rightarrow> serde_value" where
  "multikey_serialize W S human k =
     (if human then
        let attributes = map (attribute_pair S) (attr_entries (mk_attributes k)) in
        SvStruct (codec_str S SIGIL)
          [(SvStr ''codec'', codec_value S (mk_codec k)),
           (SvStr ''comment'', SvStr (bytes_to_string (mk_comment k))),
           (SvStr ''attributes'', SvSeq attributes)]
      else SvBytes (multikey_encode W k))"

section \<open>Deserializing\<close>

text \<open>The visitor of the binary form, for a type with a decoder.\<close>

definition byte_buf_visit :: "(bytes \<Rightarrow> 'a res) \<Rightarrow> serde_value \<Rightarrow> 'a de" where
  "byte_buf_visit try_from v =
     (case v of SvBytes bs \<Rightarrow> map_err Custom (try_from bs) | _ \<Rightarrow> Err InvalidType)"

text \<open>
  The derived field identifiers (\<^verbatim>\<open>#[serde(field_identifier)]\<close>): a key is the name of a field, as a string or as
  bytes, or its position.
\<close>

definition field_of_key :: "string list \<Rightarrow> serde_value \<Rightarrow> string de" where
  "field_of_key names key =
     (case key of
        SvStr s \<Rightarrow> if s \<in> set names then Ok s else Err (UnknownField s)
      | SvBytes bs \<Rightarrow> if bytes_to_string bs \<in> set names then Ok (bytes_to_string bs) else Err (UnknownField (bytes_to_string bs))
      | SvU8 i \<Rightarrow> if unat i < length names then Ok (names ! unat i) else Err InvalidValue
      | SvU64 i \<Rightarrow> if i < length names then Ok (names ! i) else Err InvalidValue
      | _ \<Rightarrow> Err InvalidType)"

text \<open>The loop over the entries of a map: the fields that were read so far, and the entries to come.\<close>

fun nonce_fields :: "serde_lib \<Rightarrow> bytes option \<Rightarrow> (serde_value \<times> serde_value) list \<Rightarrow> bytes option de" where
  "nonce_fields S nonce [] = Ok nonce"
| "nonce_fields S nonce ((key, v) # entries) =
     and_then (field_of_key [''nonce''] key) (\<lambda>_.
     if nonce \<noteq> None then Err (DuplicateField ''nonce'')
     else and_then (bytes_of_encoded S v) (\<lambda>bs. nonce_fields S (Some bs) entries))"

definition nonce_visit_map :: "serde_lib \<Rightarrow> (serde_value \<times> serde_value) list \<Rightarrow> nonce de" where
  "nonce_visit_map S entries =
     and_then (nonce_fields S None entries) (\<lambda>nonce.
     and_then (ok_or (MissingField ''hash'') nonce) (\<lambda>bs.
     Ok \<lparr>nc_nonce = bs\<rparr>))"

definition nonce_deserialize :: "wire \<Rightarrow> serde_lib \<Rightarrow> bool \<Rightarrow> serde_value \<Rightarrow> nonce de" where
  "nonce_deserialize W S human v =
     (if human then case v of SvStruct _ entries \<Rightarrow> nonce_visit_map S entries | _ \<Rightarrow> Err InvalidType
      else byte_buf_visit (nonce_try_from W) v)"

definition attr_deserialize :: "serde_value \<Rightarrow> attr_id de" where
  "attr_deserialize v =
     (case v of
        SvU8 c \<Rightarrow> map_err Custom (attr_of_code c)
      | SvStr s \<Rightarrow> map_err Custom (attr_from_str s)
      | _ \<Rightarrow> Err InvalidType)"

text \<open>The visitors of \<^verbatim>\<open>Vec\<close>, of a pair and of \<^verbatim>\<open>String\<close>.\<close>

fun elements :: "serde_value \<Rightarrow> serde_value list de" where
  "elements (SvSeq vs) = Ok vs"
| "elements (SvTuple vs) = Ok vs"
| "elements _ = Err InvalidType"

definition pair_of_value :: "serde_lib \<Rightarrow> serde_value \<Rightarrow> (attr_id \<times> bytes) de" where
  "pair_of_value S v =
     and_then (elements v) (\<lambda>vs.
     case vs of
       [a, b] \<Rightarrow> and_then (attr_deserialize a) (\<lambda>id. and_then (bytes_of_encoded S b) (\<lambda>bs. Ok (id, bs)))
     | _ \<Rightarrow> Err InvalidType)"

definition text_of_value :: "serde_value \<Rightarrow> bytes de" where
  "text_of_value v =
     (case v of
        SvStr s \<Rightarrow> Ok (string_to_bytes s)
      | SvBytes bs \<Rightarrow> if utf8_valid bs then Ok bs else Err InvalidValue
      | _ \<Rightarrow> Err InvalidType)"

fun insert_attributes :: "attributes \<Rightarrow> (attr_id \<times> bytes) list \<Rightarrow> attributes de" where
  "insert_attributes a [] = Ok a"
| "insert_attributes a ((i, v) # ps) =
     (if a i \<noteq> None then Err (DuplicateField ''duplicate attribute id'') else insert_attributes (a(i \<mapsto> v)) ps)"

definition attributes_of_value :: "serde_lib \<Rightarrow> serde_value \<Rightarrow> attributes de" where
  "attributes_of_value S v =
     and_then (elements v) (\<lambda>vs.
     and_then (collect (pair_of_value S) vs) (\<lambda>ps.
     insert_attributes Map.empty ps))"

definition multikey_field_names :: "string list" where
  "multikey_field_names = [''codec'', ''comment'', ''attributes'']"

fun multikey_fields ::
  "serde_lib \<Rightarrow> codec option \<Rightarrow> bytes option \<Rightarrow> attributes option \<Rightarrow> (serde_value \<times> serde_value) list \<Rightarrow>
   (codec option \<times> bytes option \<times> attributes option) de" where
  "multikey_fields S c m a [] = Ok (c, m, a)"
| "multikey_fields S c m a ((key, v) # entries) =
     and_then (field_of_key multikey_field_names key) (\<lambda>field.
     if field = ''codec'' then
       if c \<noteq> None then Err (DuplicateField ''codec'')
       else and_then (codec_of_value S v) (\<lambda>x. multikey_fields S (Some x) m a entries)
     else if field = ''comment'' then
       if m \<noteq> None then Err (DuplicateField ''comment'')
       else and_then (text_of_value v) (\<lambda>x. multikey_fields S c (Some x) a entries)
     else
       if a \<noteq> None then Err (DuplicateField ''attributes'')
       else and_then (attributes_of_value S v) (\<lambda>x. multikey_fields S c m (Some x) entries))"

definition multikey_visit_map :: "serde_lib \<Rightarrow> (serde_value \<times> serde_value) list \<Rightarrow> multikey de" where
  "multikey_visit_map S entries =
     and_then (multikey_fields S None None None entries) (\<lambda>(c, m, a).
     and_then (ok_or (MissingField ''codec'') c) (\<lambda>codec.
     and_then (ok_or (MissingField ''comment'') m) (\<lambda>comment.
     and_then (ok_or (MissingField ''attributes'') a) (\<lambda>attributes.
     Ok \<lparr>mk_codec = codec, mk_comment = comment, mk_attributes = attributes\<rparr>))))"

definition multikey_deserialize :: "wire \<Rightarrow> serde_lib \<Rightarrow> bool \<Rightarrow> serde_value \<Rightarrow> multikey de" where
  "multikey_deserialize W S human v =
     (if human then case v of SvStruct _ entries \<Rightarrow> multikey_visit_map S entries | _ \<Rightarrow> Err InvalidType
      else byte_buf_visit (multikey_try_from W) v)"

section \<open>Strings and attributes\<close>

lemma string_bytes [simp]: "string_to_bytes (bytes_to_string bs) = bs"
proof -
  have "unat b mod 256 = unat b" for b :: byte
    using unsigned_less[of b, where 'a = nat] by simp
  then show ?thesis
    by (induction bs) (simp_all add: string_to_bytes_def bytes_to_string_def)
qed

lemma attr_from_own_name [simp]: "attr_from_str (attr_as_str a) = Ok a"
  by (simp add: attr_from_str_iff)

lemma attr_round_trip: "attr_deserialize (attr_serialize human a) = Ok a"
  by (simp add: attr_serialize_def attr_deserialize_def)

lemma insert_attributes_eq_Ok:
  "insert_attributes m ps = Ok m' \<longleftrightarrow> distinct (map fst ps) \<and> fst ` set ps \<inter> dom m = {} \<and> m' = m ++ map_of ps"
proof (induction ps arbitrary: m)
  case (Cons p ps)
  obtain i v where p: "p = (i, v)"
    by (cases p)
  have "m ++ map_of (p # ps) = m(i \<mapsto> v) ++ map_of ps" if "i \<notin> fst ` set ps"
  proof -
    have "map_of ps i = None"
      using that by (simp add: map_of_eq_None_iff)
    then show ?thesis
      by (auto simp: p map_add_def fun_eq_iff split: option.splits)
  qed
  moreover have "fst ` set ps \<inter> dom (m(i \<mapsto> v)) = {} \<longleftrightarrow> i \<notin> fst ` set ps \<and> fst ` set ps \<inter> dom m = {}"
    by auto
  moreover have "fst ` set (p # ps) \<inter> dom m = {} \<longleftrightarrow> m i = None \<and> fst ` set ps \<inter> dom m = {}"
    by (auto simp: p)
  moreover have "insert_attributes m (p # ps) = Ok m' \<longleftrightarrow> m i = None \<and> insert_attributes (m(i \<mapsto> v)) ps = Ok m'"
    by (simp add: p)
  ultimately show ?case
    unfolding Cons.IH by (simp add: p del: map_add_upd fun_upd_apply) metis
qed auto

lemma insert_attributes_twice:
  "\<not> (distinct (map fst ps) \<and> fst ` set ps \<inter> dom m = {}) \<Longrightarrow> insert_attributes m ps = Err (DuplicateField ''duplicate attribute id'')"
proof (induction ps arbitrary: m)
  case (Cons p ps)
  obtain i v where p: "p = (i, v)"
    by (cases p)
  show ?case
  proof (cases "m i = None")
    case True
    then have "\<not> (distinct (map fst ps) \<and> fst ` set ps \<inter> dom (m(i \<mapsto> v)) = {})"
      using Cons.prems by (auto simp: p)
    then show ?thesis
      using Cons.IH True by (simp add: p)
  qed (simp add: p)
qed simp

text \<open>A sequence of written attributes is read as their map, unless an identifier comes twice.\<close>

lemma attributes_listed:
  assumes "serde_lib_ok S"
  shows "attributes_of_value S (SvSeq (map (attribute_pair S) ps)) =
    (if distinct (map fst ps) then Ok (map_of ps) else Err (DuplicateField ''duplicate attribute id''))"
proof -
  have "collect (pair_of_value S) (map (attribute_pair S) ps) = Ok ps"
    using assms
    by (induction ps) (auto simp: serde_lib_ok_def attribute_pair_def pair_of_value_def attr_deserialize_def)
  then have "attributes_of_value S (SvSeq (map (attribute_pair S) ps)) = insert_attributes Map.empty ps"
    by (simp add: attributes_of_value_def)
  moreover have "insert_attributes Map.empty ps = Ok (map_of ps)" if "distinct (map fst ps)"
    using that by (simp add: insert_attributes_eq_Ok)
  ultimately show ?thesis
    using insert_attributes_twice[of ps Map.empty] by simp
qed

lemma attributes_written:
  assumes "serde_lib_ok S"
  shows "attributes_of_value S (SvSeq (map (attribute_pair S) (attr_entries m))) = Ok m"
  using attributes_listed[OF assms] by (simp add: distinct_attr_entries)

section \<open>The fields of a map\<close>

text \<open>The loop has read a field exactly if one entry has named it; an entry that names none is an error.\<close>

definition field_named :: "serde_value \<Rightarrow> string option" where
  "field_named key = (case field_of_key multikey_field_names key of Ok f \<Rightarrow> Some f | _ \<Rightarrow> None)"

lemma field_named_cases:
  obtains f where "field_of_key multikey_field_names key = Ok f" "f \<in> {''codec'', ''comment'', ''attributes''}"
  | e where "field_of_key multikey_field_names key = Err e"
  | "field_of_key multikey_field_names key = Panic"
proof (cases "field_of_key multikey_field_names key")
  case (Ok f)
  have "f \<in> set multikey_field_names"
    using Ok by (auto simp: field_of_key_def split: serde_value.splits if_splits)
  then show ?thesis
    using that(1)[OF Ok] by (simp add: multikey_field_names_def)
qed (use that(2,3) in blast)+

definition field_count :: "string \<Rightarrow> (serde_value \<times> serde_value) list \<Rightarrow> nat" where
  "field_count f entries = length (filter (\<lambda>(key, _). field_named key = Some f) entries)"

lemma field_count_simps [simp]:
  "field_count f [] = 0"
  "field_count f ((key, v) # entries) = (if field_named key = Some f then Suc (field_count f entries) else field_count f entries)"
  by (simp_all add: field_count_def)

fun given :: "'a option \<Rightarrow> nat" where
  "given None = 0"
| "given (Some x) = 1"

lemma multikey_fields_once:
  "multikey_fields S c m a entries = Ok (c', m', a') \<Longrightarrow>
     (\<forall>(key, _) \<in> set entries. field_named key \<noteq> None)
   \<and> given c' = given c + field_count ''codec'' entries
   \<and> given m' = given m + field_count ''comment'' entries
   \<and> given a' = given a + field_count ''attributes'' entries"
proof (induction S c m a entries rule: multikey_fields.induct)
  case (1 S c m a)
  then show ?case
    by simp
next
  case (2 S c m a key v entries)
  show ?case
  proof (cases key rule: field_named_cases)
    case (1 f)
    have named: "field_named key = Some f"
      by (simp add: field_named_def 1(1))
    consider "f = ''codec''" | "f = ''comment''" | "f = ''attributes''"
      using 1(2) by auto
    then show ?thesis
    proof cases
      case f: 1
      obtain x where "c = None" "codec_of_value S v = Ok x" "multikey_fields S (Some x) m a entries = Ok (c', m', a')"
        using 2(4) by (auto simp: 1(1) f outcome_simps split: if_splits)
      then show ?thesis
        using 2(1)[OF 1(1), of x] by (simp add: f named)
    next
      case f: 2
      obtain x where "m = None" "text_of_value v = Ok x" "multikey_fields S c (Some x) a entries = Ok (c', m', a')"
        using 2(4) by (auto simp: 1(1) f outcome_simps split: if_splits)
      then show ?thesis
        using 2(2)[OF 1(1), of x] by (simp add: f named)
    next
      case f: 3
      obtain x where "a = None" "attributes_of_value S v = Ok x" "multikey_fields S c m (Some x) entries = Ok (c', m', a')"
        using 2(4) by (auto simp: 1(1) f outcome_simps split: if_splits)
      then show ?thesis
        using 2(3)[OF 1(1), of x] by (simp add: f named)
    qed
  qed (use 2(4) in simp_all)
qed

lemma read_once:
  assumes "multikey_visit_map S entries = Ok k"
  shows "mset (map (field_named \<circ> fst) entries) = mset (map Some multikey_field_names)"
proof -
  obtain c m a where "multikey_fields S None None None entries = Ok (Some c, Some m, Some a)"
    using assms by (auto simp: multikey_visit_map_def outcome_simps)
  from multikey_fields_once[OF this]
  have known: "\<forall>(key, _) \<in> set entries. field_named key \<noteq> None"
    and once: "\<And>f. f \<in> {''codec'', ''comment'', ''attributes''} \<Longrightarrow> field_count f entries = 1"
    by auto
  have "count (mset (map (field_named \<circ> fst) entries)) x = count (mset (map Some multikey_field_names)) x" for x
  proof -
    have total: "count (mset (map (field_named \<circ> fst) entries)) x = length (filter (\<lambda>(key, _). field_named key = x) entries)"
      by (induction entries) auto
    consider "x = None" | f where "x = Some f" "f \<in> {''codec'', ''comment'', ''attributes''}"
      | f where "x = Some f" "f \<notin> {''codec'', ''comment'', ''attributes''}"
      by (cases x) auto
    then show ?thesis
    proof cases
      case 1
      then show ?thesis
        using known unfolding total by (auto simp: multikey_field_names_def filter_empty_conv)
    next
      case 2
      then show ?thesis
        using once[OF 2(2)] unfolding total by (auto simp: multikey_field_names_def field_count_def)
    next
      case 3
      have "field_named key \<noteq> Some f" for key
        using 3(2) by (cases key rule: field_named_cases) (auto simp: field_named_def)
      then show ?thesis
        using 3 unfolding total by (auto simp: multikey_field_names_def)
    qed
  qed
  then show ?thesis
    by (rule multiset_eqI)
qed

lemma mset_three: "mset xs = {#a, b, c#} \<Longrightarrow> xs \<in> {[a, b, c], [a, c, b], [b, a, c], [b, c, a], [c, a, b], [c, b, a]}"
proof -
  assume xs: "mset xs = {#a, b, c#}"
  then have "length xs = 3"
    by (metis size_mset size_add_mset size_empty numeral_3_eq_3)
  then obtain x y z where "xs = [x, y, z]"
    by (auto simp: numeral_3_eq_3 length_Suc_conv)
  then show ?thesis
    using xs by (auto simp: add_eq_conv_ex)
qed

text \<open>The three fields in any order, the attributes in any order.\<close>

lemma written_fields_read:
  assumes "serde_lib_ok S"
    and "mset entries = {#(SvStr ''codec'', codec_value S c), (SvStr ''comment'', SvStr (bytes_to_string m)),
      (SvStr ''attributes'', SvSeq (map (attribute_pair S) ps))#}"
  shows "multikey_visit_map S entries =
    (if distinct (map fst ps) then Ok \<lparr>mk_codec = c, mk_comment = m, mk_attributes = map_of ps\<rparr>
     else Err (DuplicateField ''duplicate attribute id''))"
proof -
  have codec: "codec_of_value S (codec_value S c) = Ok c"
    using assms(1) by (simp add: serde_lib_ok_def)
  have keys: "field_of_key multikey_field_names (SvStr f) = Ok f" if "f \<in> {''codec'', ''comment'', ''attributes''}" for f
    using that by (simp add: field_of_key_def multikey_field_names_def)
  show ?thesis
    using mset_three[OF assms(2)]
    by (auto simp: multikey_visit_map_def keys codec text_of_value_def attributes_listed[OF assms(1)])
qed

section \<open>Round trips\<close>

lemma human_round_trip:
  assumes "serde_lib_ok S"
  shows "multikey_deserialize W S True (multikey_serialize W S True k) = Ok k"
  using written_fields_read[OF assms, of "[(SvStr ''codec'', codec_value S (mk_codec k)),
      (SvStr ''comment'', SvStr (bytes_to_string (mk_comment k))),
      (SvStr ''attributes'', SvSeq (map (attribute_pair S) (attr_entries (mk_attributes k))))]"
      "mk_codec k" "mk_comment k" "attr_entries (mk_attributes k)"]
  by (simp add: multikey_deserialize_def multikey_serialize_def distinct_attr_entries)

text \<open>The binary form is read by the decoder, which ignores what follows the key.\<close>

lemma binary_round_trip:
  assumes "wire_ok W" "multikey_wf W k"
  shows "multikey_deserialize W S False (SvBytes (multikey_encode W k @ rest)) = Ok k"
  using multikey_roundtrip_rest[OF assms, of rest]
  by (simp add: multikey_deserialize_def byte_buf_visit_def multikey_try_from_def)

lemma nonce_serde_round_trip:
  assumes "wire_ok W" "serde_lib_ok S" "nonce_len n \<le> MAX_DECODED_SIZE"
  shows "nonce_deserialize W S human (nonce_serialize W S human n) = Ok n"
proof (cases human)
  case True
  have "bytes_of_encoded S (encoded_value S nonce_preferred_encoding (nc_nonce n)) = Ok (nc_nonce n)"
    using assms(2) by (simp add: serde_lib_ok_def)
  then show ?thesis
    using True by (simp add: nonce_deserialize_def nonce_serialize_def nonce_visit_map_def field_of_key_def)
next
  case False
  then show ?thesis
    using nonce_wire.dec_enc_nil[of W n] assms(1,3)
    by (simp add: nonce_deserialize_def nonce_serialize_def byte_buf_visit_def nonce_try_from_def)
qed

text \<open>A nonce without its field: the error names another field.\<close>

lemma nonce_missing_field: "nonce_deserialize W S True (SvStruct name []) = Err (MissingField ''hash'')"
  by (simp add: nonce_deserialize_def nonce_visit_map_def)

section \<open>An example\<close>

definition toy_serde :: serde_lib where
  "toy_serde =
     \<lparr>codec_str = \<lambda>c. ''codec'', codec_value = \<lambda>c. SvBytes (put_codec leb_wire c),
      codec_of_value = \<lambda>v. case v of SvBytes bs \<Rightarrow> map_err FormatError (codec_of leb_wire bs) | _ \<Rightarrow> Err InvalidType,
      encoded_value = \<lambda>base bs. SvBytes bs,
      bytes_of_encoded = \<lambda>v. case v of SvBytes bs \<Rightarrow> Ok bs | _ \<Rightarrow> Err InvalidType\<rparr>"

lemma toy_serde_ok: "serde_lib_ok toy_serde"
  using wire_ok_codec_of[OF leb_wire_ok] by (simp add: serde_lib_ok_def toy_serde_def)

section \<open>Properties\<close>

text \<open>
  C26: A well-formed multikey that is serialized, in the human-readable or in the binary form, is
  deserialized as the same key with codec, comment and every attribute.
\<close>

theorem serde_round_trip:
  assumes "wire_ok W" and "serde_lib_ok S" and "multikey_wf W k"
  shows "multikey_deserialize W S human (multikey_serialize W S human k) = Ok k"
proof (cases human)
  case True
  then show ?thesis
    using human_round_trip[OF assms(2)] by simp
next
  case False
  then show ?thesis
    using binary_round_trip[OF assms(1,3), of S "[]"] by (simp add: multikey_serialize_def)
qed

theorem serde_round_trip_witness:
  "multikey_deserialize leb_wire toy_serde True (multikey_serialize leb_wire toy_serde True example_key) = Ok example_key"
  by (rule serde_round_trip[OF leb_wire_ok toy_serde_ok example_key_wf])

text \<open>
  C34: The fields of the human-readable form may come in any order, and so may the attributes: the codec, comment and
  attributes that were written are the key, and an attribute that is written twice is refused. An accepted form names
  each of the three fields once and nothing else: none is missing, given twice or unknown.
\<close>

theorem serde_fields_spec:
  assumes "serde_lib_ok S"
  shows "(mset entries = {#(SvStr ''codec'', codec_value S c), (SvStr ''comment'', SvStr (bytes_to_string m)),
        (SvStr ''attributes'', SvSeq (map (attribute_pair S) ps))#} \<longrightarrow>
      multikey_deserialize W S True (SvStruct name entries) =
        (if distinct (map fst ps) then Ok \<lparr>mk_codec = c, mk_comment = m, mk_attributes = map_of ps\<rparr>
         else Err (DuplicateField ''duplicate attribute id'')))
    \<and> (multikey_deserialize W S True (SvStruct name entries) = Ok k \<longrightarrow>
      mset (map (field_named \<circ> fst) entries) = mset (map Some multikey_field_names))"
  using written_fields_read[OF assms] read_once by (simp add: multikey_deserialize_def)

theorem serde_fields_spec_witness:
  "multikey_deserialize leb_wire toy_serde True (SvStruct ''key''
     [(SvStr ''attributes'', SvSeq (map (attribute_pair toy_serde) [(KeyData, [7]), (CipherNonce, [1])])),
      (SvStr ''codec'', codec_value toy_serde (Ed25519 Pub)), (SvStr ''comment'', SvStr (bytes_to_string [65]))]) =
   Ok \<lparr>mk_codec = Ed25519 Pub, mk_comment = [65], mk_attributes = [KeyData \<mapsto> [7], CipherNonce \<mapsto> [1]]\<rparr>"
  using serde_fields_spec[OF toy_serde_ok, of
      "[(SvStr ''attributes'', SvSeq (map (attribute_pair toy_serde) [(KeyData, [7]), (CipherNonce, [1])])),
        (SvStr ''codec'', codec_value toy_serde (Ed25519 Pub)), (SvStr ''comment'', SvStr (bytes_to_string [65]))]"
      "Ed25519 Pub" "[65]" "[(KeyData, [7]), (CipherNonce, [1])]" leb_wire "''key''"]
  by (simp add: fun_upd_twist)

end
