(* ===== verification/Mk_Types.thy ===== *)
theory Mk_Types
  imports Mk_Serde Mk_ThresholdMeta
begin

text \<open>
  The type-safe wrappers of \<^verbatim>\<open>src/types.rs\<close>, the traits that say codec and encoding of a key and of a nonce,
  and the texts that \<^verbatim>\<open>Debug\<close> and \<^verbatim>\<open>Display\<close> write. What the texts of foreign types look like is external.
\<close>

section \<open>Public and private key bytes\<close>

record public_key_bytes = pub_inner :: bytes
record private_key_bytes = priv_inner :: bytes

definition pub_new :: "bytes \<Rightarrow> public_key_bytes" where "pub_new bytes = \<lparr>pub_inner = bytes\<rparr>"
definition pub_as_bytes :: "public_key_bytes \<Rightarrow> bytes" where "pub_as_bytes p = pub_inner p"
definition pub_len :: "public_key_bytes \<Rightarrow> nat" where "pub_len p = length (pub_inner p)"
definition pub_is_empty :: "public_key_bytes \<Rightarrow> bool" where "pub_is_empty p \<longleftrightarrow> pub_inner p = []"
definition pub_into_bytes :: "public_key_bytes \<Rightarrow> bytes" where "pub_into_bytes p = pub_inner p"

definition pub_from_vec :: "bytes \<Rightarrow> public_key_bytes" where "pub_from_vec bytes = \<lparr>pub_inner = bytes\<rparr>"
definition pub_as_ref :: "public_key_bytes \<Rightarrow> bytes" where "pub_as_ref p = pub_inner p"

definition priv_new :: "bytes \<Rightarrow> private_key_bytes" where "priv_new bytes = \<lparr>priv_inner = bytes\<rparr>"
definition priv_as_bytes :: "private_key_bytes \<Rightarrow> bytes" where "priv_as_bytes p = priv_inner p"
definition priv_len :: "private_key_bytes \<Rightarrow> nat" where "priv_len p = length (priv_inner p)"
definition priv_is_empty :: "private_key_bytes \<Rightarrow> bool" where "priv_is_empty p \<longleftrightarrow> priv_inner p = []"
definition priv_to_vec :: "private_key_bytes \<Rightarrow> bytes" where "priv_to_vec p = priv_inner p"

definition priv_from_vec :: "bytes \<Rightarrow> private_key_bytes" where "priv_from_vec bytes = \<lparr>priv_inner = bytes\<rparr>"
definition priv_as_ref :: "private_key_bytes \<Rightarrow> bytes" where "priv_as_ref p = priv_inner p"

section \<open>Texts\<close>

text \<open>The texts of foreign types.\<close>

record text_lib =
  codec_name :: "codec \<Rightarrow> string"           \<comment> \<open>\<^verbatim>\<open>Into<&'static str> for Codec\<close>\<close>
  codec_debug :: "codec \<Rightarrow> string"          \<comment> \<open>\<^verbatim>\<open>Debug for Codec\<close>\<close>
  hex_encode :: "bytes \<Rightarrow> string"
  error_text :: "lib_error \<Rightarrow> string"       \<comment> \<open>\<^verbatim>\<open>Display\<close> of the errors of the SSH crates\<close>

datatype fmt_error = FmtError

definition private_key_debug :: "private_key_bytes \<Rightarrow> string" where
  "private_key_debug p = ''PrivateKeyBytes([REDACTED '' @ decimal (length (priv_inner p)) @ '' bytes])''"

record key_scheme = ks_codec :: codec

definition scheme_new :: "codec \<Rightarrow> key_scheme" where "scheme_new c = \<lparr>ks_codec = c\<rparr>"
definition scheme_codec :: "key_scheme \<Rightarrow> codec" where "scheme_codec s = ks_codec s"
definition scheme_name :: "text_lib \<Rightarrow> key_scheme \<Rightarrow> string" where "scheme_name T s = codec_name T (ks_codec s)"
definition scheme_code :: "wire \<Rightarrow> key_scheme \<Rightarrow> nat" where "scheme_code W s = codec_code W (ks_codec s)"
definition scheme_display :: "text_lib \<Rightarrow> key_scheme \<Rightarrow> string" where "scheme_display T s = scheme_name T s"

definition scheme_from_codec :: "codec \<Rightarrow> key_scheme" where "scheme_from_codec c = \<lparr>ks_codec = c\<rparr>"
definition codec_from_scheme :: "key_scheme \<Rightarrow> codec" where "codec_from_scheme s = ks_codec s"

definition attr_display :: "attr_id \<Rightarrow> string" where "attr_display a = attr_as_str a"
definition attr_try_from_str :: "string \<Rightarrow> attr_id res" where "attr_try_from_str s = attr_from_str s"

definition ssh_errors_display :: "text_lib \<Rightarrow> ssh_errors \<Rightarrow> string" where
  "ssh_errors_display T e =
     (case e of SshKey err \<Rightarrow> error_text T err | SshKeyLabel err \<Rightarrow> error_text T err | SshEncoding err \<Rightarrow> error_text T err)"

definition nonce_debug :: "text_lib \<Rightarrow> nonce \<Rightarrow> string" where
  "nonce_debug T n = codec_debug T NONCE_SIGIL @ '' - '' @ hex_encode T (nc_nonce n)"

section \<open>Codec and encoding of a multikey\<close>

definition multikey_preferred_codec :: codec where "multikey_preferred_codec = SIGIL"
definition multikey_codec :: "multikey \<Rightarrow> codec" where "multikey_codec k = mk_codec k"
definition multikey_encoding :: "multikey \<Rightarrow> char" where "multikey_encoding k = multikey_preferred_encoding"

definition nonce_encoding :: "nonce \<Rightarrow> char" where "nonce_encoding n = nonce_preferred_encoding"
definition nonce_as_ref :: "nonce \<Rightarrow> bytes" where "nonce_as_ref n = nc_nonce n"

text \<open>\<^verbatim>\<open>Debug\<close> of a multikey asks the attribute view whether the key is encrypted.\<close>

definition multikey_debug :: "text_lib \<Rightarrow> features \<Rightarrow> wire \<Rightarrow> multikey \<Rightarrow> (fmt_error, string) outcome" where
  "multikey_debug T F W k =
     and_then (map_err (\<lambda>_. FmtError) (attr_view F W k)) (\<lambda>attr.
     Ok (codec_debug T SIGIL @ '' - '' @ codec_debug T (multikey_codec k) @ '' - Encrypted: ''
         @ (if is_encrypted attr then ''true'' else ''false'')))"

section \<open>Facts\<close>

lemmas wrapper_defs = pub_new_def pub_as_bytes_def pub_len_def pub_is_empty_def pub_into_bytes_def
  priv_new_def priv_as_bytes_def priv_len_def priv_is_empty_def priv_to_vec_def
  scheme_new_def scheme_codec_def scheme_name_def scheme_code_def scheme_display_def
  pub_from_vec_def pub_as_ref_def priv_from_vec_def priv_as_ref_def scheme_from_codec_def codec_from_scheme_def

lemma pub_accessors:
  "pub_as_bytes (pub_new bs) = bs" "pub_into_bytes (pub_new bs) = bs" "pub_len (pub_new bs) = length bs"
  "pub_is_empty p \<longleftrightarrow> pub_len p = 0"
  by (simp_all add: wrapper_defs)

lemma priv_accessors:
  "priv_as_bytes (priv_new bs) = bs" "priv_to_vec (priv_new bs) = bs" "priv_len (priv_new bs) = length bs"
  "priv_is_empty p \<longleftrightarrow> priv_len p = 0"
  by (simp_all add: wrapper_defs)

text \<open>The conversion traits do what constructors and accessors do.\<close>

lemma conversions_agree:
  "pub_from_vec = pub_new" "pub_as_ref = pub_as_bytes" "priv_from_vec = priv_new" "priv_as_ref = priv_as_bytes"
  "scheme_from_codec = scheme_new" "codec_from_scheme = scheme_codec"
  by (simp_all add: fun_eq_iff wrapper_defs)

lemma scheme_code_inject:
  assumes "wire_ok W"
  shows "scheme_code W s = scheme_code W t \<longleftrightarrow> s = t"
proof
  assume "scheme_code W s = scheme_code W t"
  then have "codec_of_code W (codec_code W (ks_codec s)) = codec_of_code W (codec_code W (ks_codec t))"
    by (simp add: scheme_code_def)
  then show "s = t"
    by (simp add: wire_ok_codec_of_code[OF assms])
qed simp

lemma attr_text_round_trip: "attr_try_from_str (attr_display a) = Ok a"
  by (simp add: attr_try_from_str_def attr_display_def)

text \<open>Whether a key is encrypted depends on one attribute only.\<close>

lemma is_encrypted_by_flag:
  assumes "get_attr k KeyIsEncrypted = get_attr l KeyIsEncrypted"
  shows "is_encrypted (view_methods W v k) = is_encrypted (view_methods W v l)"
proof -
  have "encrypted_flag W k = encrypted_flag W l" "bls_encrypted_flag W k = bls_encrypted_flag W l"
    using assms by (simp_all add: encrypted_flag_def bls_encrypted_flag_def)
  then show ?thesis
    by (cases v) (simp_all add: view_defs sealed_view_def plain_view_def)
qed

lemma multikey_debug_eq:
  assumes "mk_codec k = mk_codec l" "get_attr k KeyIsEncrypted = get_attr l KeyIsEncrypted"
  shows "multikey_debug T F W k = multikey_debug T F W l"
  using dispatch_attr_codec[OF assms(1), of F] is_encrypted_by_flag[OF assms(2), of W] assms(1)
  by (cases "dispatch_attr_view F l") (simp_all add: multikey_debug_def attr_view_def multikey_codec_def)

text \<open>The null key has no text: formatting it with \<^verbatim>\<open>format!\<close> panics.\<close>

lemma null_key_debug: "multikey_debug T F leb_wire (multikey_null leb_wire) = Err FmtError"
  by (simp add: multikey_debug_def attr_view_def dispatch_attr_view_def multikey_null_def leb_wire_def)

text \<open>A key has a text exactly if a view module of the build takes it.\<close>

lemma debug_total: "is_ok (multikey_debug T F W k) \<longleftrightarrow> is_ok (dispatch_attr_view F k)"
  by (cases "dispatch_attr_view F k") (simp_all add: multikey_debug_def attr_view_def)

text \<open>
  The debug texts give nothing away: the text of a multikey depends on its codec and on the flag of encryption
  only, not on key data, comment or any other attribute, and that of private key bytes on their number only.
\<close>

lemma debug_hides_secrets:
  assumes "mk_codec k = mk_codec l" and "get_attr k KeyIsEncrypted = get_attr l KeyIsEncrypted"
    and "priv_len p = priv_len q"
  shows "multikey_debug T F W k = multikey_debug T F W l \<and> private_key_debug p = private_key_debug q"
  using multikey_debug_eq[OF assms(1,2)] assms(3) by (simp add: private_key_debug_def priv_len_def)

end
