(* ===== verification/Mk_AttrView.thy ===== *)
theory Mk_AttrView
  imports Mk_Cipher
begin

text \<open>
  \<^verbatim>\<open>CipherAttrView\<close> and \<^verbatim>\<open>KdfAttrView\<close> of the view modules that have them: how a key says with which cipher,
  nonce, kdf, salt and rounds it was encrypted. Five modules read what the key stores; the ChaCha20 and the
  bcrypt module answer for the algorithm that they implement and check lengths.
\<close>

record cipher_attrs =
  ca_codec :: "codec res"
  ca_nonce_bytes :: "bytes res"
  ca_key_length :: "nat res"

record kdf_attrs =
  ka_codec :: "codec res"
  ka_salt_bytes :: "bytes res"
  ka_rounds :: "nat res"

section \<open>What the key stores\<close>

definition stored_codec :: "wire \<Rightarrow> attr_id \<Rightarrow> error \<Rightarrow> multikey \<Rightarrow> codec res" where
  "stored_codec W a missing k =
     and_then (ok_or missing (get_attr k a)) (\<lambda>codec. map_err Multicodec (codec_of W codec))"

definition stored_usize :: "wire \<Rightarrow> attr_id \<Rightarrow> error \<Rightarrow> multikey \<Rightarrow> nat res" where
  "stored_usize W a missing k =
     and_then (ok_or missing (get_attr k a)) (\<lambda>n. map_err Multiutil (usize_of W n))"

definition stored_cipher_attrs :: "wire \<Rightarrow> multikey \<Rightarrow> cipher_attrs" where
  "stored_cipher_attrs W k =
     \<lparr>ca_codec = stored_codec W CipherCodec (Cipher CiMissingCodec) k,
      ca_nonce_bytes = ok_or (Cipher CiMissingNonce) (get_attr k CipherNonce),
      ca_key_length = stored_usize W CipherKeyLen (Cipher CiMissingKeyLen) k\<rparr>"

definition stored_kdf_attrs :: "wire \<Rightarrow> multikey \<Rightarrow> kdf_attrs" where
  "stored_kdf_attrs W k =
     \<lparr>ka_codec = stored_codec W KdfCodec (Kdf KdMissingCodec) k,
      ka_salt_bytes = ok_or (Kdf KdMissingSalt) (get_attr k KdfSalt),
      ka_rounds = stored_usize W KdfRounds (Kdf KdMissingRounds) k\<rparr>"

section \<open>The modules\<close>

definition ed25519_cipher_attrs :: "wire \<Rightarrow> multikey \<Rightarrow> cipher_attrs" where
  "ed25519_cipher_attrs W k = stored_cipher_attrs W k"
definition secp256k1_cipher_attrs :: "wire \<Rightarrow> multikey \<Rightarrow> cipher_attrs" where
  "secp256k1_cipher_attrs W k = stored_cipher_attrs W k"
definition rsa_cipher_attrs :: "wire \<Rightarrow> multikey \<Rightarrow> cipher_attrs" where
  "rsa_cipher_attrs W k = stored_cipher_attrs W k"
definition nist_cipher_attrs :: "wire \<Rightarrow> multikey \<Rightarrow> cipher_attrs" where
  "nist_cipher_attrs W k = stored_cipher_attrs W k"
definition bls_cipher_attrs :: "wire \<Rightarrow> multikey \<Rightarrow> cipher_attrs" where
  "bls_cipher_attrs W k = stored_cipher_attrs W k"

definition chacha20_cipher_attrs :: "wire \<Rightarrow> multikey \<Rightarrow> cipher_attrs" where
  "chacha20_cipher_attrs W k =
     \<lparr>ca_codec = Ok Chacha20Poly1305, ca_nonce_bytes = cipher_nonce_bytes k, ca_key_length = cipher_key_length k\<rparr>"

definition ed25519_kdf_attrs :: "wire \<Rightarrow> multikey \<Rightarrow> kdf_attrs" where
  "ed25519_kdf_attrs W k = stored_kdf_attrs W k"
definition secp256k1_kdf_attrs :: "wire \<Rightarrow> multikey \<Rightarrow> kdf_attrs" where
  "secp256k1_kdf_attrs W k = stored_kdf_attrs W k"
definition rsa_kdf_attrs :: "wire \<Rightarrow> multikey \<Rightarrow> kdf_attrs" where
  "rsa_kdf_attrs W k = stored_kdf_attrs W k"
definition nist_kdf_attrs :: "wire \<Rightarrow> multikey \<Rightarrow> kdf_attrs" where
  "nist_kdf_attrs W k = stored_kdf_attrs W k"
definition bls_kdf_attrs :: "wire \<Rightarrow> multikey \<Rightarrow> kdf_attrs" where
  "bls_kdf_attrs W k = stored_kdf_attrs W k"

text \<open>The ChaCha20 module reads the codec of the kdf, the bcrypt module is the kdf.\<close>

definition chacha20_kdf_attrs :: "wire \<Rightarrow> multikey \<Rightarrow> kdf_attrs" where
  "chacha20_kdf_attrs W k =
     \<lparr>ka_codec = stored_codec W KdfCodec (Kdf KdMissingCodec) k,
      ka_salt_bytes = and_then (ok_or (Kdf KdMissingSalt) (get_attr k KdfSalt)) (\<lambda>salt.
        if length salt \<noteq> SALT_LENGTH then Err (Kdf KdInvalidSaltLen) else Ok salt),
      ka_rounds = stored_usize W KdfRounds (Kdf KdMissingRounds) k\<rparr>"

definition bcrypt_kdf_attrs :: "wire \<Rightarrow> multikey \<Rightarrow> kdf_attrs" where
  "bcrypt_kdf_attrs W k =
     \<lparr>ka_codec = kdf_codec_attr k, ka_salt_bytes = kdf_salt_bytes k, ka_rounds = kdf_rounds W k\<rparr>"

section \<open>The views that the dispatchers open\<close>

text \<open>
  Whatever the codec of the key, \<^verbatim>\<open>dispatch_cipher_attr_view\<close> opens the ChaCha20 module and
  \<^verbatim>\<open>dispatch_kdf_attr_view\<close> the bcrypt module, if the key names these algorithms.
\<close>

definition cipher_attr_view :: "features \<Rightarrow> wire \<Rightarrow> multikey \<Rightarrow> cipher_attrs res" where
  "cipher_attr_view F W k = and_then (dispatch_cipher_attr_view F W k) (\<lambda>_. Ok (chacha20_cipher_attrs W k))"

definition kdf_attr_view :: "features \<Rightarrow> wire \<Rightarrow> multikey \<Rightarrow> kdf_attrs res" where
  "kdf_attr_view F W k = and_then (dispatch_kdf_attr_view F W k) (\<lambda>_. Ok (bcrypt_kdf_attrs W k))"

text \<open>The views of ChaCha20 and bcrypt are at least as strict as the plain ones, and read the same.\<close>

lemma chacha20_nonce_strict:
  "ca_nonce_bytes (chacha20_cipher_attrs W k) = Ok n \<longleftrightarrow> ca_nonce_bytes (stored_cipher_attrs W k) = Ok n \<and> length n = 12"
  by (cases "get_attr k CipherNonce")
     (auto simp: chacha20_cipher_attrs_def stored_cipher_attrs_def cipher_nonce_bytes_def nonce_clone_from_slice_def ok_or_def)

lemma bcrypt_salt_strict:
  "ka_salt_bytes (bcrypt_kdf_attrs W k) = Ok s \<longleftrightarrow> ka_salt_bytes (stored_kdf_attrs W k) = Ok s \<and> length s = SALT_LENGTH"
  by (cases "get_attr k KdfSalt") (auto simp: bcrypt_kdf_attrs_def stored_kdf_attrs_def kdf_salt_bytes_def ok_or_def)

lemma bcrypt_rounds_same: "ka_rounds (bcrypt_kdf_attrs W k) = ka_rounds (stored_kdf_attrs W k)"
  by (simp add: bcrypt_kdf_attrs_def stored_kdf_attrs_def stored_usize_def kdf_rounds_def)

section \<open>What encryption leaves to be read\<close>

lemma stored_attrs_sealed:
  assumes "wire_ok W" "rounds < 2 ^ 64" "mk_attributes k = sealed_attributes W c enc nonce salt rounds attrs"
  shows "stored_cipher_attrs W k = \<lparr>ca_codec = Ok c, ca_nonce_bytes = Ok nonce, ca_key_length = Ok KEY_SIZE\<rparr>"
    and "stored_kdf_attrs W k = \<lparr>ka_codec = Ok BcryptPbkdf, ka_salt_bytes = Ok salt, ka_rounds = Ok rounds\<rparr>"
  using wire_ok_usize_of[OF assms(1,2)] wire_ok_usize_of[OF assms(1), of KEY_SIZE] wire_ok_codec_of[OF assms(1)] assms(3)
  by (simp_all add: stored_cipher_attrs_def stored_kdf_attrs_def stored_codec_def stored_usize_def get_attr_def
      sealed_attributes_apply KEY_SIZE_def ok_or_def)

lemma opened_attrs_sealed:
  assumes "wire_ok W" "rounds < 2 ^ 64"
    and "mk_attributes k = sealed_attributes W Chacha20Poly1305 enc nonce salt rounds attrs"
    and "length nonce = 12" "length salt = SALT_LENGTH" "FChacha20 \<in> F" "FBcrypt \<in> F"
  shows "cipher_attr_view F W k = Ok \<lparr>ca_codec = Ok Chacha20Poly1305, ca_nonce_bytes = Ok nonce, ca_key_length = Ok KEY_SIZE\<rparr>"
    and "kdf_attr_view F W k = Ok \<lparr>ka_codec = Ok BcryptPbkdf, ka_salt_bytes = Ok salt, ka_rounds = Ok rounds\<rparr>"
  using wire_ok_usize_of[OF assms(1,2)] wire_ok_codec_of[OF assms(1)] assms(3-)
  by (simp_all add: cipher_attr_view_def kdf_attr_view_def dispatch_cipher_attr_view_def dispatch_kdf_attr_view_def
      attr_or_own_codec_def arm_def chacha20_cipher_attrs_def bcrypt_kdf_attrs_def get_attr_def sealed_attributes_apply
      cipher_nonce_bytes_def cipher_key_length_def nonce_clone_from_slice_def kdf_codec_attr_def kdf_salt_bytes_def
      kdf_rounds_def ok_or_def)

section \<open>Properties\<close>

text \<open>
  C33: An encrypted key says how it was encrypted, whatever its codec: the cipher and the kdf attribute view that the
  dispatchers open for it read back the cipher codec, the nonce and the key length, the kdf codec, the salt and the
  rounds of the ChaCha20 cipher key that it was encrypted with.
\<close>

theorem encryption_metadata_read_back:
  assumes "wire_ok W" and "encrypt F W A k (Some cipher) = Ok k'" and "mk_codec cipher = Chacha20Poly1305"
    and "kdf_rounds W cipher = Ok rounds" and "rounds < 2 ^ 64"
  shows "cipher_attr_view F W k' =
       Ok \<lparr>ca_codec = Ok Chacha20Poly1305, ca_nonce_bytes = cipher_nonce F W cipher, ca_key_length = Ok KEY_SIZE\<rparr>
     \<and> kdf_attr_view F W k' =
       Ok \<lparr>ka_codec = Ok BcryptPbkdf, ka_salt_bytes = kdf_salt_bytes cipher, ka_rounds = Ok rounds\<rparr>"
proof -
  obtain nonce salt enc where n: "cipher_nonce F W cipher = Ok nonce" and s: "kdf_salt_bytes cipher = Ok salt"
    and d: "dispatch_kdf_attr_view F W cipher = Ok ()"
    and k: "mk_attributes k' = sealed_attributes W Chacha20Poly1305 enc nonce salt rounds (mk_attributes k)"
    using assms(2-4) by (auto simp: encrypt_eq_Ok)
  have lens: "length nonce = 12" "length salt = SALT_LENGTH"
    using n s by (auto simp: cipher_nonce_def cipher_nonce_bytes_def nonce_clone_from_slice_def kdf_salt_bytes_def outcome_simps
        split: if_splits)
  have "FChacha20 \<in> F" "FBcrypt \<in> F"
    using n d by (auto simp: cipher_nonce_def dispatch_cipher_attr_view_def dispatch_kdf_attr_view_def arm_def outcome_simps
        split: if_splits)
  then show ?thesis
    using opened_attrs_sealed[OF assms(1,5) k lens] n s by simp
qed

theorem encryption_metadata_read_back_witness:
  "cipher_attr_view test_features leb_wire (example_sealed example_secret) =
       Ok \<lparr>ca_codec = Ok Chacha20Poly1305, ca_nonce_bytes = cipher_nonce test_features leb_wire example_cipher,
             ca_key_length = Ok KEY_SIZE\<rparr>
   \<and> kdf_attr_view test_features leb_wire (example_sealed example_secret) =
       Ok \<lparr>ka_codec = Ok BcryptPbkdf, ka_salt_bytes = kdf_salt_bytes example_cipher, ka_rounds = Ok 10\<rparr>"
  by (rule encryption_metadata_read_back[OF leb_wire_ok example_secret_encrypt example_cipher_parts(6,4)]) simp

end
