(* ===== verification/Mk_Generate.thy ===== *)
theory Mk_Generate
  imports Mk_HybridSeal Mk_Lamport Mk_Xmss Mk_Merkle
begin

text \<open>
  Key generation in full: the generators behind the builder (\<^verbatim>\<open>src/mk.rs\<close>) down to the calls of the
  libraries, and the wrapper of the Merkle-tree library (\<^verbatim>\<open>merkle_wrapper\<close> of
  \<^verbatim>\<open>views/lamport_merkle.rs\<close>) over keys and signatures as values of their own. The wrapper is shown to
  be what \<open>Mk_Merkle\<close> asks of its library, so that what holds for a signing key holds from its generation on.
\<close>

section \<open>The tree library with its types\<close>

record ('sk, 'pk, 'sig, 'share) mt_types =
  generate_mt_keys :: "lamport_digest \<Rightarrow> byte \<Rightarrow> (string, 'sk \<times> 'pk) outcome"
  sk_from_bytes :: "lamport_digest \<Rightarrow> bytes \<Rightarrow> (string, 'sk) outcome"
  sk_to_bytes :: "lamport_digest \<Rightarrow> 'sk \<Rightarrow> bytes"
  sk_sign :: "lamport_digest \<Rightarrow> 'sk \<Rightarrow> bytes \<Rightarrow> (string, 'sig \<times> 'sk) outcome"   \<comment> \<open>the signature, and the key after it\<close>
  sk_split :: "lamport_digest \<Rightarrow> 'sk \<Rightarrow> nat \<Rightarrow> nat \<Rightarrow> (string, 'share list) outcome"
  pk_of_sk :: "lamport_digest \<Rightarrow> 'sk \<Rightarrow> 'pk"
  pk_from_bytes :: "lamport_digest \<Rightarrow> bytes \<Rightarrow> (string, 'pk) outcome"
  pk_to_bytes :: "lamport_digest \<Rightarrow> 'pk \<Rightarrow> bytes"
  pk_verify :: "lamport_digest \<Rightarrow> 'pk \<Rightarrow> 'sig \<Rightarrow> bytes \<Rightarrow> (string, unit) outcome"
  sig_from_bytes :: "lamport_digest \<Rightarrow> bytes \<Rightarrow> (string, 'sig) outcome"
  sig_to_bytes :: "lamport_digest \<Rightarrow> 'sig \<Rightarrow> bytes"
  share_from_bytes :: "lamport_digest \<Rightarrow> bytes \<Rightarrow> (string, 'share) outcome"
  share_to_bytes :: "lamport_digest \<Rightarrow> 'share \<Rightarrow> bytes"
  share_sign_bytes :: "lamport_digest \<Rightarrow> 'share \<Rightarrow> bytes \<Rightarrow> (string, bytes) outcome" \<comment> \<open>\<^verbatim>\<open>share.sign(msg)?.to_bytes()\<close>\<close>

definition mt_wrapper_keypair :: "('sk, 'pk, 'sig, 'share) mt_types \<Rightarrow> lamport_digest \<Rightarrow> byte \<Rightarrow> (string, bytes \<times> bytes) outcome" where
  "mt_wrapper_keypair T d depth =
     and_then (generate_mt_keys T d depth) (\<lambda>(sk, pk). Ok (pk_to_bytes T d pk, sk_to_bytes T d sk))"

definition mt_wrapper_public :: "('sk, 'pk, 'sig, 'share) mt_types \<Rightarrow> lamport_digest \<Rightarrow> bytes \<Rightarrow> (string, bytes) outcome" where
  "mt_wrapper_public T d secret =
     and_then (sk_from_bytes T d secret) (\<lambda>sk. Ok (pk_to_bytes T d (pk_of_sk T d sk)))"

definition mt_wrapper_sign :: "('sk, 'pk, 'sig, 'share) mt_types \<Rightarrow> lamport_digest \<Rightarrow> bytes \<Rightarrow> bytes \<Rightarrow> (string, bytes \<times> bytes) outcome" where
  "mt_wrapper_sign T d secret msg =
     and_then (sk_from_bytes T d secret) (\<lambda>sk.
     and_then (sk_sign T d sk msg) (\<lambda>(sig, sk).
     let sig_bytes = sig_to_bytes T d sig;
         advanced = sk_to_bytes T d sk
     in Ok (sig_bytes, advanced)))"

definition mt_wrapper_verify ::
  "('sk, 'pk, 'sig, 'share) mt_types \<Rightarrow> lamport_digest \<Rightarrow> bytes \<Rightarrow> bytes \<Rightarrow> bytes \<Rightarrow> (string, unit) outcome" where
  "mt_wrapper_verify T d pub signature msg =
     and_then (pk_from_bytes T d pub) (\<lambda>pk.
     and_then (sig_from_bytes T d signature) (\<lambda>sig.
     pk_verify T d pk sig msg))"

definition mt_wrapper_split ::
  "('sk, 'pk, 'sig, 'share) mt_types \<Rightarrow> lamport_digest \<Rightarrow> bytes \<Rightarrow> nat \<Rightarrow> nat \<Rightarrow> (string, bytes list) outcome" where
  "mt_wrapper_split T d secret threshold limit =
     and_then (sk_from_bytes T d secret) (\<lambda>sk.
     and_then (sk_split T d sk threshold limit) (\<lambda>shares.
     Ok (map (share_to_bytes T d) shares)))"

definition mt_wrapper_share_sign :: "('sk, 'pk, 'sig, 'share) mt_types \<Rightarrow> lamport_digest \<Rightarrow> bytes \<Rightarrow> bytes \<Rightarrow> (string, bytes) outcome" where
  "mt_wrapper_share_sign T d share_bytes msg =
     and_then (share_from_bytes T d share_bytes) (\<lambda>share. share_sign_bytes T d share msg)"

text \<open>
  The functions for each digest, which \<^verbatim>\<open>variant!\<close> writes out, as the library of \<open>Mk_Merkle\<close>.
  \<open>V\<close> is the crate that multisigs belong to.
\<close>

definition merkle_wrapper ::
  "('sk, 'pk, 'sig, 'share) mt_types \<Rightarrow> ms_lib \<Rightarrow> merkle_lib" where
  "merkle_wrapper T V =
     \<lparr>ms_try_build = ms_try_build V, ms_view = ms_view V, ms_sig_bytes = ms_sig_bytes V, mt_public = mt_wrapper_public T, mt_sign = mt_wrapper_sign T, mt_verify = mt_wrapper_verify T,
      mt_split = mt_wrapper_split T, mt_share_sign = mt_wrapper_share_sign T\<rparr>"

definition merkle_keypair :: "('sk, 'pk, 'sig, 'share) mt_types \<Rightarrow> codec \<Rightarrow> byte \<Rightarrow> (bytes \<times> bytes) res" where
  "merkle_keypair T c depth =
     (let bad = Err (Conversions (CvSecretKeyFailure ''not a merkle-Lamport private key'')) in
      case c of
        LamportMerkle d p \<Rightarrow>
          if p = LPriv then map_err (\<lambda>e. Conversions (CvSecretKeyFailure e)) (mt_wrapper_keypair T d depth) else bad
      | _ \<Rightarrow> bad)"

text \<open>
  Documented behaviour: bytes and values are converted into each other; a signature takes the leaf at
  the index and leaves the key with the next one, the public key stays the same and verifies the signature;
  depth and index stand in the bytes; a generated key has all its leaves.
\<close>

definition mt_types_ok :: "('sk, 'pk, 'sig, 'share) mt_types \<Rightarrow> bool" where
  "mt_types_ok T \<longleftrightarrow>
     (\<forall>d bs sk. sk_from_bytes T d bs = Ok sk \<longrightarrow> sk_to_bytes T d sk = bs)
   \<and> (\<forall>d sk. pk_from_bytes T d (pk_to_bytes T d (pk_of_sk T d sk)) = Ok (pk_of_sk T d sk))
   \<and> (\<forall>d bs sk. sk_from_bytes T d bs = Ok sk \<longrightarrow> (\<exists>t. pk_to_bytes T d (pk_of_sk T d sk) = bs ! 1 # t))
   \<and> (\<forall>d bs sk msg sig sk'. sk_from_bytes T d bs = Ok sk \<longrightarrow> sk_sign T d sk msg = Ok (sig, sk') \<longrightarrow>
        unat (bs ! 2) < 2 ^ unat (bs ! 1) \<and> mt_state d (sk_to_bytes T d sk') \<and> sk_to_bytes T d sk' ! 1 = bs ! 1
        \<and> unat (sk_to_bytes T d sk' ! 2) = Suc (unat (bs ! 2))
        \<and> sk_from_bytes T d (sk_to_bytes T d sk') = Ok sk' \<and> pk_of_sk T d sk' = pk_of_sk T d sk
        \<and> (\<exists>t. sig_to_bytes T d sig = bs ! 1 # t) \<and> sig_from_bytes T d (sig_to_bytes T d sig) = Ok sig
        \<and> pk_verify T d (pk_of_sk T d sk) sig msg = Ok ())
   \<and> (\<forall>d depth sk pk. generate_mt_keys T d depth = Ok (sk, pk) \<longrightarrow>
        mt_state d (sk_to_bytes T d sk) \<and> sk_to_bytes T d sk ! 1 = depth \<and> sk_to_bytes T d sk ! 2 = 0
        \<and> sk_from_bytes T d (sk_to_bytes T d sk) = Ok sk \<and> pk = pk_of_sk T d sk)"

text \<open>A well-formed state is a key, and a key with an unused leaf signs.\<close>

definition mt_types_live :: "('sk, 'pk, 'sig, 'share) mt_types \<Rightarrow> bool" where
  "mt_types_live T \<longleftrightarrow>
     (\<forall>d bs. mt_state d bs \<longrightarrow> (\<exists>sk. sk_from_bytes T d bs = Ok sk))
   \<and> (\<forall>d bs sk msg. sk_from_bytes T d bs = Ok sk \<longrightarrow> unat (bs ! 2) < 2 ^ unat (bs ! 1) \<longrightarrow>
        (\<exists>sig sk'. sk_sign T d sk msg = Ok (sig, sk')))"

lemma mt_types_signD:
  assumes "mt_types_ok T" "sk_from_bytes T d bs = Ok sk" "sk_sign T d sk msg = Ok (sig, sk')"
  shows "unat (bs ! 2) < 2 ^ unat (bs ! 1) \<and> mt_state d (sk_to_bytes T d sk') \<and> sk_to_bytes T d sk' ! 1 = bs ! 1
    \<and> unat (sk_to_bytes T d sk' ! 2) = Suc (unat (bs ! 2))
    \<and> sk_from_bytes T d (sk_to_bytes T d sk') = Ok sk' \<and> pk_of_sk T d sk' = pk_of_sk T d sk
    \<and> (\<exists>t. sig_to_bytes T d sig = bs ! 1 # t) \<and> sig_from_bytes T d (sig_to_bytes T d sig) = Ok sig
    \<and> pk_verify T d (pk_of_sk T d sk) sig msg = Ok ()"
  using assms unfolding mt_types_ok_def by blast

lemma mt_types_pkD:
  assumes "mt_types_ok T"
  shows "pk_from_bytes T d (pk_to_bytes T d (pk_of_sk T d sk)) = Ok (pk_of_sk T d sk)"
    and "sk_from_bytes T d bs = Ok sk \<Longrightarrow> \<exists>t. pk_to_bytes T d (pk_of_sk T d sk) = bs ! 1 # t"
  using assms unfolding mt_types_ok_def by blast+

lemma mt_types_generateD:
  assumes "mt_types_ok T" "generate_mt_keys T d depth = Ok (sk, pk)"
  shows "mt_state d (sk_to_bytes T d sk)" "sk_to_bytes T d sk ! 1 = depth" "sk_to_bytes T d sk ! 2 = 0"
    and "sk_from_bytes T d (sk_to_bytes T d sk) = Ok sk" "pk = pk_of_sk T d sk"
  using assms unfolding mt_types_ok_def by blast+

lemma mt_wrapper_sign_eq_Ok:
  "mt_wrapper_sign T d st msg = Ok (sig, st') \<longleftrightarrow>
     (\<exists>sk s sk'. sk_from_bytes T d st = Ok sk \<and> sk_sign T d sk msg = Ok (s, sk')
       \<and> sig = sig_to_bytes T d s \<and> st' = sk_to_bytes T d sk')"
  by (auto simp: mt_wrapper_sign_def outcome_simps Let_def)

text \<open>The wrapper is the library that the view of Merkle-tree keys relies on.\<close>

lemma merkle_wrapper_ok:
  assumes "mt_types_ok T" "depth_ms_ok V"
  shows "merkle_lib_ok (merkle_wrapper T V)"
  unfolding merkle_lib_ok_def
proof (intro conjI allI impI)
  fix d st msg sig st'
  assume "mt_sign (merkle_wrapper T V) d st msg = Ok (sig, st')"
  then obtain sk s sk' where sk: "sk_from_bytes T d st = Ok sk" and s: "sk_sign T d sk msg = Ok (s, sk')"
    and out: "sig = sig_to_bytes T d s" "st' = sk_to_bytes T d sk'"
    by (auto simp: merkle_wrapper_def mt_wrapper_sign_eq_Ok)
  note ok = mt_types_signD[OF assms(1) sk s] mt_types_pkD(1)[OF assms(1)]
  show "unat (st ! 2) < 2 ^ unat (st ! 1)" "mt_state d st'" "st' ! 1 = st ! 1" "unat (st' ! 2) = Suc (unat (st ! 2))"
    "mt_public (merkle_wrapper T V) d st' = mt_public (merkle_wrapper T V) d st" "sig \<noteq> []" "sig ! 0 = st ! 1"
    using ok sk by (auto simp: out merkle_wrapper_def mt_wrapper_public_def)
  show "mt_verify (merkle_wrapper T V) d pub sig msg = Ok ()" if "mt_public (merkle_wrapper T V) d st = Ok pub" for pub
    using that ok sk by (auto simp: out merkle_wrapper_def mt_wrapper_public_def mt_wrapper_verify_def)
next
  fix d st pub
  assume "mt_public (merkle_wrapper T V) d st = Ok pub"
  then obtain sk where sk: "sk_from_bytes T d st = Ok sk" and pub: "pub = pk_to_bytes T d (pk_of_sk T d sk)"
    by (auto simp: merkle_wrapper_def mt_wrapper_public_def outcome_simps)
  show "pub \<noteq> []" "pub ! 0 = st ! 1"
    using mt_types_pkD(2)[OF assms(1) sk] pub by auto
next
  show "depth_ms_ok (merkle_wrapper T V)"
    using assms(2) by (simp add: depth_ms_ok_def merkle_wrapper_def)
qed

lemma merkle_wrapper_live:
  assumes "mt_types_live T"
  shows "merkle_lib_live (merkle_wrapper T V)"
  unfolding merkle_lib_live_def
proof (intro allI impI)
  fix d st msg
  assume st: "mt_state d st" "unat (st ! 2) < 2 ^ unat (st ! 1)"
  obtain sk where sk: "sk_from_bytes T d st = Ok sk"
    using assms st(1) unfolding mt_types_live_def by blast
  then obtain s sk' where "sk_sign T d sk msg = Ok (s, sk')"
    using assms st(2) unfolding mt_types_live_def by blast
  then show "\<exists>sig st'. mt_sign (merkle_wrapper T V) d st msg = Ok (sig, st')"
    using sk by (auto simp: merkle_wrapper_def mt_wrapper_sign_eq_Ok)
qed

section \<open>The libraries that keys are generated with\<close>

text \<open>The sources of a key besides the generator that the caller passes (\<open>rng_fill\<close>).\<close>

record key_sources =
  rng_fill :: "nat \<Rightarrow> bytes"
  os_random :: "nat \<Rightarrow> (string, bytes) outcome"                   \<comment> \<open>\<^verbatim>\<open>getrandom::fill\<close>\<close>
  thread_rng :: "nat \<Rightarrow> bytes"                                     \<comment> \<open>\<^verbatim>\<open>rand::rng()\<close>\<close>
  ed25519_random :: bytes
  ecdsa_random :: "codec \<Rightarrow> (lib_error, bytes) outcome"             \<comment> \<open>\<^verbatim>\<open>EcdsaKeypair::random\<close>\<close>
  secp256k1_random :: bytes
  bls_new_secret :: "bls_group \<Rightarrow> bytes"
  fn_dsa_sign_key :: "fn_set \<Rightarrow> bytes"
  rsa_new :: "nat \<Rightarrow> (string, bytes) outcome"                      \<comment> \<open>\<^verbatim>\<open>RsaPrivateKey::new\<close>\<close>
  rsa_to_pkcs1 :: "bytes \<Rightarrow> (string, bytes) outcome"
  slh_dsa_new :: "slh_set \<Rightarrow> bytes"
  lamport_new :: "lamport_digest \<Rightarrow> bytes \<times> bytes"                 \<comment> \<open>\<^verbatim>\<open>generate_keys\<close>: secret and public key\<close>
  xmss_new :: "xmss_height \<Rightarrow> (string, bytes \<times> bytes) outcome"      \<comment> \<open>\<^verbatim>\<open>KeyPair::generate\<close>: signing and verifying key\<close>

section \<open>RSA, SLH-DSA\<close>

text \<open>\<^verbatim>\<open>OsRng\<close> hands on the failure of the operating system, with its name before the text.\<close>

definition rng_error_display :: "string \<Rightarrow> string" where
  "rng_error_display e = ''getrandom: '' @ e"

definition os_fill_bytes :: "key_sources \<Rightarrow> nat \<Rightarrow> (string, bytes) outcome" where
  "os_fill_bytes S n = map_err rng_error_display (os_random S n)"

definition check_entropy :: "key_sources \<Rightarrow> (string, unit) outcome" where
  "check_entropy S = and_then (os_fill_bytes S 1) (\<lambda>probe. Ok ())"

definition rsa_bits :: "rsa_size \<Rightarrow> nat" where
  "rsa_bits s = (case s of Rsa2048 \<Rightarrow> 2048 | Rsa3072 \<Rightarrow> 3072 | Rsa4096 \<Rightarrow> 4096)"

definition rsa_key_bytes :: "key_sources \<Rightarrow> rsa_size \<Rightarrow> bytes res" where
  "rsa_key_bytes S s =
     and_then (map_err (\<lambda>e. Conversions (CvSecretKeyFailure e)) (check_entropy S)) (\<lambda>_.
     and_then (map_err (\<lambda>e. Conversions (CvSecretKeyFailure e)) (rsa_new S (rsa_bits s))) (\<lambda>key.
     map_err (\<lambda>e. Conversions (CvSecretKeyFailure e)) (rsa_to_pkcs1 S key)))"

definition gen_slh_dsa_key :: "key_sources \<Rightarrow> slh_set \<Rightarrow> bytes" where
  "gen_slh_dsa_key S p = slh_dsa_new S p"

section \<open>Lamport, XMSS, FrodoKEM\<close>

definition lamport_wrapper_keypair :: "key_sources \<Rightarrow> lamport_digest \<Rightarrow> bytes \<times> bytes" where
  "lamport_wrapper_keypair S d = (case lamport_new S d of (sk, pk) \<Rightarrow> (pk, sk))"

definition lamport_keypair :: "key_sources \<Rightarrow> codec \<Rightarrow> (bytes \<times> bytes) res" where
  "lamport_keypair S c =
     (case c of Lamport d LPriv \<Rightarrow> Ok (lamport_wrapper_keypair S d)
      | _ \<Rightarrow> Err (secret_failure ''not a Lamport private key''))"

definition lamport_generate_private_key :: "key_sources \<Rightarrow> codec \<Rightarrow> bytes res" where
  "lamport_generate_private_key S c = and_then (lamport_keypair S c) (\<lambda>(pk, sk). Ok sk)"

definition xmss_wrapper_keypair :: "key_sources \<Rightarrow> xmss_height \<Rightarrow> (string, bytes \<times> bytes) outcome" where
  "xmss_wrapper_keypair S h = and_then (xmss_new S h) (\<lambda>(sk, vk). Ok (vk, sk))"

definition xmss_keypair :: "key_sources \<Rightarrow> codec \<Rightarrow> (bytes \<times> bytes) res" where
  "xmss_keypair S c =
     (case c of Xmss h SPriv \<Rightarrow> map_err secret_failure (xmss_wrapper_keypair S h)
      | _ \<Rightarrow> Err (secret_failure ''not an XMSS private key''))"

definition xmss_generate_private_key :: "key_sources \<Rightarrow> codec \<Rightarrow> bytes res" where
  "xmss_generate_private_key S c = and_then (xmss_keypair S c) (\<lambda>(pk, sk). Ok sk)"

definition frodokem_keypair :: "frodo_lib \<Rightarrow> codec \<Rightarrow> (bytes \<times> bytes) res" where
  "frodokem_keypair R c =
     (case c of FrodoKem s Priv \<Rightarrow> Ok (frodo_keypair R s)
      | _ \<Rightarrow> Err (Conversions (CvSecretKeyFailure ''not a FrodoKEM private key'')))"

definition frodokem_generate_private_key :: "frodo_lib \<Rightarrow> codec \<Rightarrow> bytes res" where
  "frodokem_generate_private_key R c = and_then (frodokem_keypair R c) (\<lambda>(pk, sk). Ok sk)"

section \<open>The functions for each parameter\<close>

text \<open>What \<^verbatim>\<open>variant!\<close> and \<^verbatim>\<open>param_api!\<close> write out for a digest or a height.\<close>

record lamport_variant =
  lv_keypair :: "bytes \<times> bytes"
  lv_public_from_private :: "bytes \<Rightarrow> (string, bytes) outcome"
  lv_sign :: "bytes \<Rightarrow> bytes \<Rightarrow> (string, bytes) outcome"
  lv_verify :: "bytes \<Rightarrow> bytes \<Rightarrow> bytes \<Rightarrow> (string, unit) outcome"
  lv_split :: "bytes \<Rightarrow> nat \<Rightarrow> nat \<Rightarrow> (string, bytes list) outcome"
  lv_share_sign :: "bytes \<Rightarrow> bytes \<Rightarrow> (string, bytes) outcome"

definition lamport_variant_of :: "key_sources \<Rightarrow> lamport_lib \<Rightarrow> lamport_digest \<Rightarrow> lamport_variant" where
  "lamport_variant_of S L digest =
     \<lparr>lv_keypair = lamport_wrapper_keypair S digest, lv_public_from_private = lamport_wrapper_public L digest,
      lv_sign = lamport_wrapper_sign L digest, lv_verify = lamport_wrapper_verify L digest,
      lv_split = lamport_wrapper_split L digest, lv_share_sign = lamport_wrapper_share_sign L digest\<rparr>"

record xmss_param_api =
  xp_keypair :: "(string, bytes \<times> bytes) outcome"
  xp_sign :: "bytes \<Rightarrow> bytes \<Rightarrow> (string, xmss_signature) outcome"
  xp_verify :: "bytes \<Rightarrow> bytes \<Rightarrow> bytes \<Rightarrow> (string, unit) outcome"
  xp_public_from_private :: "bytes \<Rightarrow> (string, bytes) outcome"

definition xmss_param_api_of :: "key_sources \<Rightarrow> xmss_lib \<Rightarrow> xmss_height \<Rightarrow> xmss_param_api" where
  "xmss_param_api_of S X param =
     \<lparr>xp_keypair = xmss_wrapper_keypair S param, xp_sign = xmss_wrapper_sign X param,
      xp_verify = xmss_wrapper_verify X param, xp_public_from_private = xmss_wrapper_public X param\<rparr>"

section \<open>The generators of the builder\<close>

definition ecdsa_key_bytes :: "key_sources \<Rightarrow> codec \<Rightarrow> bytes res" where
  "ecdsa_key_bytes S c = map_err (\<lambda>e. Conversions (CvSsh (SshKey e))) (ecdsa_random S c)"

definition source_secret :: "key_sources \<Rightarrow> frodo_lib \<Rightarrow> codec \<Rightarrow> bytes res" where
  "source_secret S R c =
     (case c of
        Ed25519 _ \<Rightarrow> Ok (ed25519_random S)
      | P256 _ \<Rightarrow> ecdsa_key_bytes S c
      | P384 _ \<Rightarrow> ecdsa_key_bytes S c
      | P521 _ \<Rightarrow> ecdsa_key_bytes S c
      | Secp256K1 _ \<Rightarrow> Ok (secp256k1_random S)
      | Bls12381 g _ \<Rightarrow> Ok (bls_new_secret S g)
      | FnDsa s _ \<Rightarrow> Ok (fn_dsa_sign_key S s)
      | FrodoKem _ _ \<Rightarrow> frodokem_generate_private_key R c
      | X25519Frodokem640 _ _ \<Rightarrow> Ok (x25519_frodokem640_generate R (thread_rng S) c)
      | Rsa s _ \<Rightarrow> rsa_key_bytes S s
      | SlhDsa s _ \<Rightarrow> Ok (gen_slh_dsa_key S s)
      | Lamport _ _ \<Rightarrow> lamport_generate_private_key S c
      | Xmss _ _ \<Rightarrow> xmss_generate_private_key S c
      | _ \<Rightarrow> Err (Conversions (CvUnsupportedCodec c)))"

definition key_generators :: "('sk, 'pk, 'sig, 'share) mt_types \<Rightarrow> key_sources \<Rightarrow> frodo_lib \<Rightarrow> generators" where
  "key_generators T S R =
     \<lparr>fill = rng_fill S, lib_secret = source_secret S R, bls_g1_secret = bls_new_secret S G1,
      fn_dsa_512_secret = fn_dsa_sign_key S Fn512,
      merkle_secret = \<lambda>c depth. case c of
         LamportMerkle d _ \<Rightarrow> and_then (mt_wrapper_keypair T d depth) (\<lambda>(pk, sk). Ok sk) | _ \<Rightarrow> Err []\<rparr>"

text \<open>The Merkle arm, as \<^verbatim>\<open>generate_private_key_with_depth\<close> and \<^verbatim>\<open>keypair\<close> have it.\<close>

lemma generate_with_keypair:
  "generate_private_key_with_depth (key_generators T S R) c depth =
     (if \<not> depth_in_range depth then Err (error.Threshold (ThInvalidThresholdLimit (unat depth) 3))
      else and_then (merkle_keypair T c depth) (\<lambda>(pk, sk). Ok sk))"
proof (cases c)
  case (LamportMerkle d p)
  then show ?thesis
    by (cases "mt_wrapper_keypair T d depth")
      (auto simp: generate_private_key_with_depth_def merkle_keypair_def key_generators_def)
qed (simp_all add: generate_private_key_with_depth_def merkle_keypair_def)

text \<open>A failure of the operating system is an error of the key, with its text.\<close>

lemma rsa_entropy_failure:
  "os_random S 1 = Err e \<Longrightarrow> rsa_key_bytes S s = Err (Conversions (CvSecretKeyFailure (''getrandom: '' @ e)))"
  by (simp add: rsa_key_bytes_def check_entropy_def os_fill_bytes_def rng_error_display_def)

section \<open>Generated key pairs\<close>

text \<open>Documented behaviour: the generated public key is that of the generated secret key.\<close>

definition key_sources_ok :: "key_sources \<Rightarrow> lamport_lib \<Rightarrow> xmss_lib \<Rightarrow> bool" where
  "key_sources_ok S L X \<longleftrightarrow>
     (\<forall>d sk pk. lamport_new S d = (sk, pk) \<longrightarrow> lm_secret L d sk = Ok () \<and> pk = lm_public L d sk)
   \<and> (\<forall>h sk vk. xmss_new S h = Ok (sk, vk) \<longrightarrow> xm_secret X h sk = Ok () \<and> vk = xm_public X h sk)"

text \<open>The key pair of the wrapper is the one that conversion to the public key finds again.\<close>

lemma lamport_pair:
  assumes "key_sources_ok S L X" "lamport_keypair S c = Ok (pk, sk)"
  shows "lamport_public_from_private L c sk = Ok pk"
  using assms
  by (auto simp: key_sources_ok_def lamport_keypair_def lamport_wrapper_keypair_def lamport_public_from_private_def
      lamport_wrapper_public_def split: codec.splits lpart.splits prod.splits)

lemma xmss_pair:
  assumes "key_sources_ok S L X" "xmss_keypair S c = Ok (pk, sk)"
  shows "xmss_public_from_private X c sk = Ok pk"
  using assms
  by (auto simp: key_sources_ok_def xmss_keypair_def xmss_wrapper_keypair_def xmss_public_from_private_def
      xmss_wrapper_public_def outcome_simps split: codec.splits spart.splits prod.splits)

lemma merkle_pair:
  assumes "mt_types_ok T" "merkle_keypair T c depth = Ok (pk, sk)"
  shows "merkle_public_from_private (merkle_wrapper T V) c sk = Ok pk"
proof -
  obtain d where c: "c = LamportMerkle d LPriv" and pair: "mt_wrapper_keypair T d depth = Ok (pk, sk)"
    using assms(2) by (cases c) (auto simp: merkle_keypair_def outcome_simps split: if_splits)
  then obtain s p where g: "generate_mt_keys T d depth = Ok (s, p)" and out: "pk = pk_to_bytes T d p" "sk = sk_to_bytes T d s"
    by (auto simp: mt_wrapper_keypair_def outcome_simps)
  show ?thesis
    using mt_types_generateD[OF assms(1) g]
    by (simp add: c out merkle_public_from_private_def merkle_wrapper_def mt_wrapper_public_def)
qed

section \<open>A fresh Merkle-tree key\<close>

lemma fresh_merkle_key:
  assumes "mt_types_ok T" "new_from_random_bytes_with_depth (key_generators T S R) c depth = Ok b"
  obtains d st where "merkle_key d st (built_key b)" "st ! 1 = depth" "st ! 2 = 0"
proof -
  obtain d key where c: "c = LamportMerkle d LPriv" and key: "merkle_secret (key_generators T S R) c depth = Ok key"
    and b: "b = (builder_new c)\<lparr>b_attributes := Some (attr_insert Depth [depth] (attr_insert KeyData key Map.empty))\<rparr>"
    using assms(2)
    by (cases c) (auto simp: new_from_random_bytes_with_depth_def outcome_simps generate_depth_eq_Ok lamport_merkle_codec_def
        split: if_splits)
  obtain sk pk where g: "generate_mt_keys T d depth = Ok (sk, pk)" and st: "key = sk_to_bytes T d sk"
    using key by (auto simp: key_generators_def c mt_wrapper_keypair_def outcome_simps)
  note ok = mt_types_generateD[OF assms(1) g]
  have "merkle_key d key (built_key b)"
    using ok by (simp add: merkle_key_def b c built_key_defs attr_insert_def st)
  then show ?thesis
    using ok that by (simp add: st)
qed

section \<open>A concrete library and a concrete key\<close>

definition fresh_state :: "lamport_digest \<Rightarrow> byte \<Rightarrow> bytes" where
  "fresh_state d depth = [1, depth, 0] @ replicate (2 ^ unat depth * digest_bytes d + 2 ^ unat depth * material_size d) 0"

definition toy_types :: "(bytes, byte, bytes, bytes) mt_types" where
  "toy_types =
     \<lparr>generate_mt_keys = \<lambda>d depth. if depth_in_range depth then Ok (fresh_state d depth, depth) else Err ''depth'',
      sk_from_bytes = \<lambda>d bs. if mt_state d bs then Ok bs else Err ''state'', sk_to_bytes = \<lambda>d sk. sk,
      sk_sign = \<lambda>d sk msg. if unat (sk ! 2) < 2 ^ unat (sk ! 1) then Ok (sk ! 1 # msg, toy_advance d sk) else Err ''exhausted'',
      sk_split = \<lambda>d sk t n. Ok (replicate n sk), pk_of_sk = \<lambda>d sk. sk ! 1,
      pk_from_bytes = \<lambda>d bs. case bs of [b] \<Rightarrow> Ok b | _ \<Rightarrow> Err ''key'', pk_to_bytes = \<lambda>d pk. [pk],
      pk_verify = \<lambda>d pk sig msg. if sig = pk # msg then Ok () else Err ''bad'',
      sig_from_bytes = \<lambda>d bs. Ok bs, sig_to_bytes = \<lambda>d sig. sig,
      share_from_bytes = \<lambda>d bs. Ok bs, share_to_bytes = \<lambda>d sh. sh, share_sign_bytes = \<lambda>d sh msg. Ok (sh ! 1 # msg)\<rparr>"

lemma fresh_state_ok: "depth_in_range depth \<Longrightarrow> mt_state d (fresh_state d depth)"
  by (simp add: mt_state_def fresh_state_def MT_STATE_FORMAT_VERSION_def)

lemma toy_types_ok: "mt_types_ok toy_types"
  unfolding mt_types_ok_def
  by (auto simp: toy_types_def toy_advance_state fresh_state_ok split: if_splits simp del: One_nat_def)
     (simp_all add: fresh_state_def)

lemma toy_types_live: "mt_types_live toy_types"
  by (simp add: mt_types_live_def toy_types_def)

definition toy_sources :: key_sources where
  "toy_sources =
     \<lparr>rng_fill = \<lambda>n. replicate n 9, os_random = \<lambda>n. Ok (replicate n 1), thread_rng = \<lambda>n. replicate n 2,
      ed25519_random = [1], ecdsa_random = \<lambda>c. Ok [2], secp256k1_random = [3], bls_new_secret = \<lambda>g. replicate 32 4,
      fn_dsa_sign_key = \<lambda>s. [5], rsa_new = \<lambda>n. Ok [6], rsa_to_pkcs1 = Ok, slh_dsa_new = \<lambda>s. [7],
      lamport_new = \<lambda>d. ([8], [9]), xmss_new = \<lambda>h. Ok ([10], [11])\<rparr>"

definition toy_frodo :: frodo_lib where
  "toy_frodo =
     \<lparr>fr_generate = \<lambda>s. ([1], [2]), fr_public = \<lambda>s bs. Ok (), fr_secret = \<lambda>s bs. Ok (), fr_ct = \<lambda>s bs. Ok (),
      fr_public_of = \<lambda>s bs. bs, fr_encapsulate = \<lambda>s bs. Ok (bs, bs), fr_decapsulate = \<lambda>s bs ct. Ok (ct, [])\<rparr>"

definition fresh_example :: builder where
  "fresh_example = (builder_new (LamportMerkle Sha3_256 LPriv))\<lparr>b_attributes :=
     Some (attr_insert Depth [1] (attr_insert KeyData (fresh_state Sha3_256 1) Map.empty))\<rparr>"

lemma fresh_example_generated:
  "new_from_random_bytes_with_depth (key_generators toy_types toy_sources toy_frodo) (LamportMerkle Sha3_256 LPriv) 1
     = Ok fresh_example"
  by (simp add: new_from_random_bytes_with_depth_def lamport_merkle_codec_def generate_private_key_with_depth_def
      key_generators_def mt_wrapper_keypair_def toy_types_def depth_in_range_def fresh_example_def)

definition toy_multisigs :: ms_lib where
  "toy_multisigs = \<lparr>ms_try_build = toy_ms_build, ms_view = \<lambda>ms. Ok (), ms_sig_bytes = toy_ms_bytes\<rparr>"

lemma toy_multisigs_ok: "depth_ms_ok toy_multisigs"
  by (simp add: depth_ms_ok_def toy_multisigs_def toy_ms_build_def toy_ms_bytes_def)

section \<open>Properties\<close>

text \<open>
  C15: From its generation to its end: a Merkle-tree key that the builder generates with a depth signs any
  messages, up to as many as the tree has leaves, one after the other; it reports what is left; and when all leaves
  are used, it signs nothing more.
\<close>

theorem fresh_merkle_key_lifetime:
  assumes "mt_types_ok T" and "mt_types_live T" and "depth_ms_ok V" and "FLamport \<in> F"
    and "new_from_random_bytes_with_depth (key_generators T S R) c depth = Ok b" and "length msgs \<le> 2 ^ unat depth"
  shows "\<exists>log k'. signs (\<lambda>k (msg, combined). merkle_sign_advance F W (merkle_wrapper T V) k msg combined) (built_key b) log k'
    \<and> map (\<lambda>e. fst (snd e)) log = msgs
    \<and> merkle_remaining_signatures F W k' = Ok (2 ^ unat depth - length msgs)
    \<and> (length msgs = 2 ^ unat depth \<longrightarrow>
         (\<forall>msg combined r. merkle_sign_advance F W (merkle_wrapper T V) k' msg combined \<noteq> Ok r))"
proof -
  let ?M = "merkle_wrapper T V"
  note M = merkle_wrapper_ok[OF assms(1,3)]
  obtain d st where k: "merkle_key d st (built_key b)" and st: "st ! 1 = depth" "st ! 2 = 0"
    using fresh_merkle_key[OF assms(1,5)] .
  have good: "usable_key F ?M (built_key b) \<and> merkle_lib_live ?M"
    using k M assms(4) merkle_wrapper_live[OF assms(2)] by (auto simp: usable_key_def)
  have "leaves_left (built_key b) = 2 ^ unat depth"
    using k st by (simp add: leaves_left_def merkle_key_def get_attr_def)
  then obtain log k' where log: "signs (\<lambda>k (msg, combined). merkle_sign_advance F W ?M k msg combined) (built_key b) log k'"
    "map (\<lambda>e. fst (snd e)) log = msgs" "leaves_left k' = 2 ^ unat depth - length msgs"
    using merkle_live.signs_all[OF good, of msgs W] assms(6) by auto
  have good': "usable_key F ?M k'"
    by (rule merkle.signs_good[OF log(1) conjunct1[OF good]])
  have "merkle_sign_advance F W ?M k' msg combined \<noteq> Ok r" if "leaves_left k' = 0" for msg combined r
    using usable_sign[OF good', of W msg combined "fst r" "snd r"] that by auto
  then show ?thesis
    using log usable_reads(2)[OF good', of W] by (intro exI[of _ log] exI[of _ k']) auto
qed

theorem fresh_merkle_key_lifetime_witness:
  "\<exists>log k'. signs (\<lambda>k (msg, combined).
       merkle_sign_advance {FLamport} leb_wire (merkle_wrapper toy_types toy_multisigs) k msg combined)
       (built_key fresh_example) log k'
    \<and> map (\<lambda>e. fst (snd e)) log = [([7], True), ([8], False)]
    \<and> merkle_remaining_signatures {FLamport} leb_wire k' = Ok 0"
proof -
  note life = fresh_merkle_key_lifetime[where V = toy_multisigs and F = "{FLamport}" and W = leb_wire
      and msgs = "[([7], True), ([8], False)]", OF toy_types_ok toy_types_live toy_multisigs_ok insertI1 fresh_example_generated]
  have len: "length [([7 :: byte], True), ([8], False)] \<le> 2 ^ unat (1 :: byte)"
    by simp
  obtain log k' where log: "signs (\<lambda>k (msg, combined).
       merkle_sign_advance {FLamport} leb_wire (merkle_wrapper toy_types toy_multisigs) k msg combined)
       (built_key fresh_example) log k'" "map (\<lambda>e. fst (snd e)) log = [([7], True), ([8], False)]"
    and left: "merkle_remaining_signatures {FLamport} leb_wire k' = Ok (2 ^ unat (1 :: byte) - length [([7 :: byte], True), ([8], False)])"
    using life[OF len] by (elim exE conjE) (rule that)
  then show ?thesis
    by (intro exI[of _ log] exI[of _ k'] conjI) simp_all
qed

end
