(* ===== verification/Mk_Lifecycle.thy ===== *)
theory Mk_Lifecycle
  imports Mk_KeySplit Mk_Signing Mk_Serde
begin

text \<open>
  Components used one after the other: a key that was locked, stored and read back is unlocked
  (\<^verbatim>\<open>src/cipher.rs\<close>, \<^verbatim>\<open>src/kdf.rs\<close>, \<^verbatim>\<open>src/serde\<close>), and a key recombined from the stored shares of another
  (\<^verbatim>\<open>src/keysplit.rs\<close>) takes its place as a signing key (\<^verbatim>\<open>views/dispatch.rs\<close> and the signing views).
\<close>

section \<open>Verifying without a comment\<close>

text \<open>Verifying with a public key does not look at its comment.\<close>

lemmas verifier_defs =
  ed25519_verify_def secp256k1_verify_def nist_verify_def rsa_view_verify_def ml_dsa_verify_def slh_dsa_verify_def
  fn_dsa_verify_def mayo_view_verify_def hybrid_verify_def ed25519_mldsa65_verify_def ed25519_fndsa512_verify_def
  ed25519_mayo2_verify_def bls12381_g1_mldsa65_verify_def bls12381_g1_fndsa512_verify_def bls12381_g1_mayo1_verify_def
  bls12381_g1_mayo2_verify_def xmss_verify_def lamport_verify_def xeddsa_verify_def

lemma same_verdict:
  assumes "signing_view F W L v = Some V" "dispatched_secret F W k = Ok secret"
    and "public_pair (mk_codec k) (mk_codec pk)" "\<And>g. mk_codec pk \<noteq> Bls12381 g BPubShare" "v \<noteq> VLamportMerkle"
  shows "sv_verify V (pk\<lparr>mk_comment := c\<rparr>) ms msg = sv_verify V pk ms msg"
proof -
  let ?pk = "pk\<lparr>mk_comment := c\<rparr>"
  have pair: "public_pair (mk_codec k) (mk_codec ?pk)" and data: "key_data ?pk = key_data pk"
    using assms(3) by (simp_all add: key_data_def get_attr_def)
  note views = public_pair_views(2)[OF assms(2,3)] public_pair_views(3)[OF assms(2,3)]
    public_pair_views(2)[OF assms(2) pair] public_pair_views(3)[OF assms(2) pair, unfolded data]
  show ?thesis
  proof (cases "v = VBls12381")
    case True
    then show ?thesis
      using assms(1,4) by (auto simp: bls_verify_def views intro!: and_then_cong split: codec.splits bpart.splits)
  next
    case False
    then show ?thesis
      using assms(1,5) by (cases v) (auto simp: verifier_defs views split: option.split intro!: and_then_cong)
  qed
qed

section \<open>Stored keys\<close>

text \<open>Every element is written in the human-readable form and read back.\<close>

definition stored_keys :: "wire \<Rightarrow> serde_lib \<Rightarrow> multikey list \<Rightarrow> (serde_error, multikey list) outcome" where
  "stored_keys W D ks = collect (\<lambda>k. multikey_deserialize W D True (multikey_serialize W D True k)) ks"

lemma stored_keys_kept: "serde_lib_ok D \<Longrightarrow> stored_keys W D ks = Ok ks"
  by (simp add: stored_keys_def human_round_trip collect_all_Ok)

section \<open>What splitting loses and shows\<close>

text \<open>
  A recombined key has no attribute but its key data. The views of Merkle-tree keys ask for the depth, so the
  recombined key of such a key has no public key and signs nothing; nor does the one of a BLS key share.
\<close>

lemma recombined_merkle_key_unusable:
  assumes "split_lib_ok S" "wire_ok W" "split_key F W S k t n = Ok shares" "chosen t n is"
    and "mk_codec k = LamportMerkle d LPriv"
  shows "\<exists>k'. combine_shares F W S (map ((!) shares) is) = Ok k' \<and> mk_codec k' = mk_codec k
    \<and> (\<forall>pk. merkle_to_public_key F W M k' \<noteq> Ok pk) \<and> (\<forall>m combined r. merkle_sign_advance F W M k' m combined \<noteq> Ok r)"
proof -
  obtain secret where combine: "combine_shares F W S (map ((!) shares) is) =
      Ok \<lparr>mk_codec = mk_codec k, mk_comment = [], mk_attributes = attr_insert KeyData secret Map.empty\<rparr>"
    using shares_combine[OF assms(1-4)] by blast
  have "depth_attr_value \<lparr>mk_codec = mk_codec k, mk_comment = [], mk_attributes = attr_insert KeyData secret Map.empty\<rparr> =
      Err (Attributes AMissingThreshold)"
    by (simp add: depth_attr_value_def depth_byte_def get_attr_def attr_insert_def)
  then show ?thesis
    using combine assms(5)
    by (auto simp: merkle_to_public_key_def merkle_sign_advance_def check_depth_attribute_def is_merkle_priv_share_def
        outcome_simps split: if_splits)
qed

lemma recombined_bls_share_unusable:
  assumes "split_lib_ok S" "wire_ok W" "split_key F W S k t n = Ok shares" "chosen t n is"
    and "mk_codec k = Bls12381 g BPrivShare"
  shows "\<exists>k'. combine_shares F W S (map ((!) shares) is) = Ok k' \<and> mk_codec k' = mk_codec k
    \<and> (\<forall>pk. bls_to_public_key F W B k' \<noteq> Ok pk)"
proof -
  obtain secret where combine: "combine_shares F W S (map ((!) shares) is) =
      Ok \<lparr>mk_codec = mk_codec k, mk_comment = [], mk_attributes = attr_insert KeyData secret Map.empty\<rparr>"
    using shares_combine[OF assms(1-4)] by blast
  let ?k = "\<lparr>mk_codec = mk_codec k, mk_comment = [], mk_attributes = attr_insert KeyData secret Map.empty\<rparr>"
  have "bls_to_public_key F W B ?k \<noteq> Ok pk" for pk
    using assms(5)
    by (auto simp: bls_to_public_key_def threshold_attr_view_def dispatch_threshold_attr_view_def bls_threshold_view_def
        get_attr_def attr_insert_def arm_def outcome_simps split: if_splits)
  then show ?thesis
    using combine by auto
qed

text \<open>Threshold and limit are readable in every share, whatever disclosure is asked for elsewhere.\<close>

lemma share_shows_parameters:
  assumes "split_lib_ok S" "split_key F W S k t n = Ok shares" "share \<in> set shares"
  shows "\<exists>p. unwrap_share S share = Ok p \<and> unat (sp_threshold p) = t \<and> unat (sp_limit p) = n"
proof -
  obtain secret ps where t: "t \<le> n" "n \<le> 255" and ps: "build_payloads F W S (mk_codec k) secret t n = Ok ps"
    and shares: "collect (wrap_share S k) ps = Ok shares"
    using assms(2) by (auto simp: split_key_eq_Ok)
  obtain i where i: "i < length shares" "share = shares ! i"
    using assms(3) by (auto simp: in_set_conv_nth)
  define p where "p = ps ! i"
  have p: "p \<in> set ps" "wrap_share S k p = Ok share"
    using shares i by (auto simp: p_def collect_eq_Ok list_all2_conv_all_nth)
  have "sp_threshold p = of_nat t" "sp_limit p = of_nat n"
    using ps p(1) by (auto simp: build_payloads_def Let_def outcome_simps split: if_splits)
  then show ?thesis
    using wrap_unwrap[OF assms(1) p(2)] t by (simp add: unat_of_nat)
qed

section \<open>An example\<close>

definition hybrid_payload :: "byte \<Rightarrow> share_payload" where
  "hybrid_payload i = \<lparr>sp_codec = codec_code leb_wire (Ed25519Mldsa65 SPriv), sp_threshold = 2, sp_limit = 3,
     sp_scheme = Gf256, sp_identifier = [i], sp_value = replicate 64 0, sp_verifiers = None, sp_dual = None\<rparr>"

definition hybrid_split :: split_lib where
  "hybrid_split = toy_split
     \<lparr>cbor_encode := \<lambda>p. if p = hybrid_payload (hd (sp_identifier p)) then Ok [hd (sp_identifier p)] else Err ''bad'',
      cbor_decode := \<lambda>bs. Ok (hybrid_payload (hd bs))\<rparr>"

lemma hybrid_split_ok: "split_lib_ok hybrid_split"
  unfolding split_lib_ok_def feldman_sharing_def gf256_sharing_def
  by (auto simp: hybrid_split_def toy_split_def split: if_splits dest!: chosen_Cons)

lemma example_hybrid_split:
  "split_key {FCurve25519, FMlDsa} leb_wire hybrid_split example_hybrid_key 2 3 = Ok [toy_share 1, toy_share 2, toy_share 3]"
  by (simp add: split_key_def data_view_def dispatch_data_view_def example_hybrid_key_def arm_def
      spart_key_def ed25519_mldsa65_view_def plain_view_def key_data_def get_attr_def
      build_payloads_def Let_def is_feldman_codec_def gf256_split_def hybrid_split_def toy_split_def
      wrap_share_def cbor_to_vec_def hybrid_payload_def toy_share_def upt_conv_Cons)

section \<open>Properties\<close>

text \<open>
  C12: A signing key other than a Merkle-tree key or a BLS key share that was split is replaced by the key recombined
  from any threshold-many of its shares, in any order, after these were serialized and read back: the dispatchers
  choose the same view for it, it has the same public key but for the comment, and what it signs verifies under the
  public key of the split key.
\<close>

theorem recombined_key_signs:
  assumes "split_lib_ok S" and "wire_ok W" and "serde_lib_ok D" and "sign_libs_ok L"
    and "split_key F W S k t n = Ok shares" and "chosen t n is"
    and "dispatch_sign_view F k = Ok v" and "signing_view F W L v = Some V" and "sv_conv V k = Ok pk"
    and "\<And>g. mk_codec k \<noteq> Bls12381 g BPrivShare" and "v \<noteq> VLamportMerkle"
  shows "\<exists>read k'. stored_keys W D (map ((!) shares) is) = Ok read \<and> combine_shares F W S read = Ok k'
    \<and> dispatch_sign_view F k' = Ok v \<and> sv_conv V k' = Ok (pk\<lparr>mk_comment := []\<rparr>)
    \<and> (\<forall>m combined ms. no_zero_nonce F W L v k' m \<longrightarrow> sv_sign V k' m combined = Ok ms \<longrightarrow> sv_verify V pk ms (Some m) = Ok ())"
proof -
  obtain secret where secret: "dispatched_secret F W k = Ok secret"
    using converted_secret[OF assms(8,9)] by blast
  define k' where "k' = \<lparr>mk_codec = mk_codec k, mk_comment = [], mk_attributes = [KeyData \<mapsto> secret]\<rparr>"
  have combine: "combine_shares F W S (map ((!) shares) is) = Ok k'"
    using shares_combine[OF assms(1,2,5,6)] dispatched_key_data[OF secret] by (auto simp: attr_insert_def k'_def)
  have k': "mk_codec k' = mk_codec k" "mk_comment k' = []" "mk_attributes k' = [KeyData \<mapsto> secret]"
    by (simp_all add: k'_def)
  have secret': "dispatched_secret F W k' = Ok secret"
    by (rule bare_secret[OF secret k'(1)]) (simp_all add: k'(3))
  have conv: "sv_conv V k' = Ok (pk\<lparr>mk_comment := []\<rparr>)"
    using same_public[OF assms(8,9) k'(1) _ assms(10,11)] secret secret' k'(2) by simp
  have view: "dispatch_sign_view F k' = Ok v"
    using same_dispatch(1)[OF k'(1)] assms(7) by simp
  note pair = converted_pair[OF assms(8,7,9)]
  have whole: "mk_codec pk \<noteq> Bls12381 g BPubShare" for g
    using pair assms(10) by (auto simp: public_pair_def split: codec.splits)
  have "sv_verify V pk ms (Some m) = Ok ()"
    if "no_zero_nonce F W L v k' m" "sv_sign V k' m combined = Ok ms" for m combined ms
  proof -
    have "sv_verify V (pk\<lparr>mk_comment := []\<rparr>) ms (Some m) = Ok ()"
      using signature_view.verifies(1)[OF signing_contract[OF assms(4,8)] that(1) view conv that(2)] by blast
    then show ?thesis
      using same_verdict[OF assms(8) secret pair whole assms(11)] by simp
  qed
  then show ?thesis
    using stored_keys_kept[OF assms(3)] combine view conv by blast
qed

theorem recombined_key_signs_witness:
  "\<exists>read k'. stored_keys leb_wire toy_serde [toy_share 3, toy_share 1] = Ok read
     \<and> combine_shares {FCurve25519, FMlDsa} leb_wire hybrid_split read = Ok k'
     \<and> ed25519_mldsa65_to_public_key {FCurve25519, FMlDsa} leb_wire toy_hybrid k' = Ok (example_hybrid_public\<lparr>mk_comment := []\<rparr>)"
proof -
  let ?F = "{FCurve25519, FMlDsa}"
  let ?V = "\<lparr>sv_conv = ed25519_mldsa65_to_public_key ?F leb_wire toy_hybrid, sv_sign = ed25519_mldsa65_sign ?F leb_wire toy_hybrid,
      sv_verify = ed25519_mldsa65_verify ?F leb_wire toy_hybrid,
      sv_fingerprint = \<lambda>mhash. ed25519_mldsa65_fingerprint mhash ?F leb_wire toy_hybrid\<rparr>"
  have view: "signing_view ?F leb_wire toy_libs VEd25519Mldsa65 = Some ?V" and conv: "sv_conv ?V example_hybrid_key = Ok example_hybrid_public"
    by (simp_all add: toy_libs_def example_hybrid_conv)
  have chosen: "chosen 2 3 [2, 0]" and codec: "mk_codec example_hybrid_key \<noteq> Bls12381 g BPrivShare" for g
    by (simp_all add: chosen_def example_hybrid_key_def)
  show ?thesis
    using recombined_key_signs[OF hybrid_split_ok leb_wire_ok toy_serde_ok toy_libs_ok example_hybrid_split chosen
        example_hybrid_views(4) view conv codec]
    by simp blast
qed

text \<open>
  C22: A sealable key (a BLS, Ed25519, secp256k1, NIST, RSA or ChaCha20 key without cipher and kdf attributes) whose
  view gives out its secret bytes can be locked with a passphrase; stored in the human-readable form, or in the binary
  one if the locked key is well-formed, and read back, it is unlocked with that passphrase and nothing else but what
  was stored: salt, rounds, nonce and the two codecs come from its attributes. Unlocking returns the same key.
\<close>

theorem stored_key_unlocks:
  assumes "cipher_lib_ok A" and "wire_ok W" and "serde_lib_ok D" and "{FChacha20, FBcrypt} \<subseteq> F"
    and "sealable F k" and "attr_view F W k = Ok kv" and "secret_bytes kv = Ok msg"
    and "length nonce = 12" and "length salt = 32" and "rounds < 2 ^ 64"
    and "bcrypt_pbkdf A passphrase salt (rounds mod 2 ^ 32) 32 = Ok key"
    and "chacha_encrypt A key nonce msg = Some ct"
  shows "\<exists>k'. lock_key F W A nonce salt rounds passphrase k = Ok k' \<and>
    (human \<or> multikey_wf W k' \<longrightarrow>
     (\<exists>read. multikey_deserialize W D human (multikey_serialize W D human k') = Ok read \<and> unlock_key F W A passphrase read = Ok k))"
proof -
  obtain k' where lock: "lock_key F W A nonce salt rounds passphrase k = Ok k'" and unlock: "unlock_key F W A passphrase k' = Ok k"
    using lock_then_unlock[OF assms(1,2,4-12)] by blast
  have "multikey_deserialize W D human (multikey_serialize W D human k') = Ok k'" if "human \<or> multikey_wf W k'"
  proof (cases human)
    case True
    then show ?thesis
      using human_round_trip[OF assms(3)] by simp
  next
    case False
    then show ?thesis
      using that binary_round_trip[OF assms(2), of k' D "[]"] by (simp add: multikey_serialize_def)
  qed
  then show ?thesis
    using lock unlock by blast
qed

theorem stored_key_unlocks_witness:
  "\<exists>k'. lock_key test_features leb_wire toy_lib (replicate 12 2) (replicate 32 3) 10 [112] Mk_Cipher.example_secret = Ok k' \<and>
     (\<exists>read. multikey_deserialize leb_wire toy_serde True (multikey_serialize leb_wire toy_serde True k') = Ok read
       \<and> unlock_key test_features leb_wire toy_lib [112] read = Ok Mk_Cipher.example_secret)"
proof -
  have features: "{FChacha20, FBcrypt} \<subseteq> test_features" and len: "length (replicate 12 (2 :: byte)) = 12" "length (replicate 32 (3 :: byte)) = 32"
    and rounds: "(10 :: nat) < 2 ^ 64"
    by (simp_all add: test_features_def)
  note stored = stored_key_unlocks[OF toy_lib_ok leb_wire_ok toy_serde_ok features example_secret_view(3,4,2) len rounds,
      of "[112]" _ _ True]
  show ?thesis
    using stored by (simp add: toy_lib_def)
qed

end
