(* ===== verification/Spec2Isabelle.thy ===== *)
theory Spec2Isabelle
  imports Mk_Prelude Mk_Codec Mk_Error Mk_Attr Mk_Wire Mk_Multikey Mk_Views Mk_Dispatch Mk_Cipher
    Mk_Builder Mk_Convert Mk_Multisig Mk_Stateful Mk_Aead Mk_Kem Mk_ThresholdMeta Mk_KeySplit Mk_Threshold
    Mk_Merkle Mk_HybridSeal Mk_Sign Mk_Hybrid Mk_Ecies Mk_Bls Mk_Xmss Mk_Lamport Mk_Xeddsa Mk_Signing Mk_Nonce Mk_Marker
    Mk_Ssh Mk_ViewBuilder Mk_Serde Mk_Types Mk_AttrView Mk_Generate Mk_Lifecycle
begin

text \<open>
  A verification development for the \<^verbatim>\<open>multi-key\<close> crate: cryptographic keys as self-describing
  byte strings (multikeys) and the operations on them. Paths are relative to the repository.

  \<^bold>\<open>The program.\<close> A multikey is a codec, a comment and a map of attributes (\<^verbatim>\<open>src/mk.rs\<close>,
  \<^verbatim>\<open>src/attrid.rs\<close>) with a binary encoding. What can be done with a key depends on its codec: a
  dispatcher (\<^verbatim>\<open>src/views/dispatch.rs\<close>) picks the view module of \<^verbatim>\<open>src/views/\<close> that implements the
  asked operation, if the build has its cargo feature. Keys are generated by the builder
  (\<^verbatim>\<open>src/mk.rs\<close>), encrypted at rest under a key that a kdf derives from a passphrase
  (\<^verbatim>\<open>src/cipher.rs\<close>, \<^verbatim>\<open>src/kdf.rs\<close>, \<^verbatim>\<open>views/chacha20.rs\<close>, \<^verbatim>\<open>views/bcrypt.rs\<close>), used to seal
  messages (\<^verbatim>\<open>views/aead.rs\<close> and the KEM views), split into shares (\<^verbatim>\<open>src/keysplit.rs\<close>) whose
  parameters may be confidential (\<^verbatim>\<open>views/threshold_meta.rs\<close>, \<^verbatim>\<open>views/bls12381.rs\<close>), used to sign and
  verify (the signing views), and, for Merkle-tree and XMSS keys, advanced with every signature
  (\<^verbatim>\<open>views/lamport_merkle.rs\<close>, \<^verbatim>\<open>views/xmss.rs\<close>).

  \<^bold>\<open>The theories.\<close>
  \<^item> \<open>Mk_Prelude\<close>: bytes, the outcome of a fallible call (a value, an error or a panic), the \<^verbatim>\<open>?\<close>
    operator, fallible maps and loops, and the simplification rules that walk through them.
  \<^item> \<open>Mk_Codec\<close>, \<open>Mk_Error\<close>: the key codecs by family, parameter set and part; the error enums.
  \<^item> \<open>Mk_Attr\<close>: attribute identifiers, codes, names, and the attribute map. Its properties say that
    codes and names are read back to the attribute and that nothing else is accepted.
  \<^item> \<open>Mk_Wire\<close>: the external wire primitives as the record \<open>wire\<close>, their documented behaviour
    \<open>wire_ok\<close>, and the contract of an encoder and its decoder (locale \<open>prefix_codec\<close>).
  \<^item> \<open>Mk_Multikey\<close>: encoding and decoding of a key with every check of the decoder; round trip,
    equivalence with the field by field layout, order independence, bounds, totality, rejections.
  \<^item> \<open>Mk_Views\<close>, \<open>Mk_Dispatch\<close>: the attribute and data views of all thirty modules; the dispatchers,
    with the features of the build as a parameter; which operations come together.
  \<^item> \<open>Mk_Cipher\<close>: the cipher and kdf builders, key derivation, encryption and decryption of a key;
    round trips of a key and of a passphrase, what an encrypted key still gives out, error paths. They
    hold for the keys of the views that read the encryption mark (\<open>sealable\<close>: BLS, Ed25519, secp256k1, NIST, RSA,
    ChaCha20); a key of any other view is encrypted without a mark and lost.
    The contract of sealing is the locale \<open>sealing\<close>, interpreted at two layers and again for messages.
  \<^item> \<open>Mk_AttrView\<close>: the cipher and kdf attributes of a key in every view module, and in the views that the dispatchers
    open (ChaCha20 and bcrypt); what an encrypted key says of how it was encrypted.
  \<^item> \<open>Mk_Builder\<close>: the setters, key generation, and the published lists of codecs.
  \<^item> \<open>Mk_Aead\<close>, \<open>Mk_Kem\<close>: the AEAD layer and wire form of sealed messages; sealing, opening,
    conversion and fingerprints of the ML-KEM, sntrup, FrodoKEM and X25519 views. What the three
    KEM views have in common is the locale \<open>kem_view\<close>.
  \<^item> \<open>Mk_ThresholdMeta\<close>: the disclosure modes of threshold parameters; what is read back, what is
    never left in plaintext, conversion.
  \<^item> \<open>Mk_KeySplit\<close>: splitting, verification and recombination of keys.
  \<^item> \<open>Mk_Threshold\<close>: BLS key shares. Splitting, the wire form of shares and of the shares collected
    so far, exactly which threshold data is accepted, adding shares in any order, combining; adding a
    share refines the update of a map (the locale \<open>share_collector\<close>).
  \<^item> \<open>Mk_Convert\<close>, \<open>Mk_Multisig\<close>: what the conversion, signing and sealing views share: key bytes,
    public form, fingerprints, and the external type of signatures.
  \<^item> \<open>Mk_Stateful\<close>: stateful signing. The use of a key over time is the step relation \<open>signs\<close>; the
    locales \<open>key_chain\<close>, \<open>advancing_signer\<close> and \<open>stateful_signer\<close> give its invariants.
  \<^item> \<open>Mk_Merkle\<close>: Merkle-tree Lamport keys, a \<open>stateful_signer\<close>: no leaf is used twice, the
    signatures verify, the depth is checked.
  \<^item> \<open>Mk_Sign\<close>: Ed25519, secp256k1, NIST, RSA, ML-DSA, SLH-DSA, FN-DSA and MAYO. What a signing view
    promises is the locale \<open>signature_view\<close>, interpreted for every view.
  \<^item> \<open>Mk_Hybrid\<close>: the seven hybrids, each a pair of components; two signers make a signer (locales
    \<open>signer\<close>, \<open>signer_pair\<close>), and such a pair is a \<open>signature_view\<close>.
  \<^item> \<open>Mk_HybridSeal\<close>, \<open>Mk_Ecies\<close>: sealing with Classic McEliece and with the X25519 hybrids (locale
    \<open>x25519_hybrid\<close>), with secp256k1 and NIST keys and with RSA.
  \<^item> \<open>Mk_Bls\<close>: signing and verifying with BLS keys and key shares, a \<open>signature_view\<close>; TimeCrypt messages.
  \<^item> \<open>Mk_Xmss\<close>, \<open>Mk_Lamport\<close>, \<open>Mk_Xeddsa\<close>: XMSS keys (an \<open>advancing_signer\<close>), Lamport keys and key
    shares, XEdDSA with its scalar arithmetic; each a \<open>signature_view\<close>.
  \<^item> \<open>Mk_Generate\<close>: the generators behind the builder, the pairs they make, and the wrapper of the Merkle-tree
    library over typed keys, shown to be what \<open>Mk_Merkle\<close> relies on; a key from generation to its last leaf.
  \<^item> \<open>Mk_Signing\<close>: the views behind the sign and verify dispatchers, those of the Merkle-tree keys included (their
    \<^verbatim>\<open>sign\<close> always fails, they sign with \<^verbatim>\<open>sign_advance\<close>): signing and verifying for whatever key,
    fingerprints, malformed keys; the use of a stateful key comes to an end.
  \<^item> \<open>Mk_ViewBuilder\<close>: the fluent view builder and its local factories (\<^verbatim>\<open>views/builder.rs\<close>); what a builder
    opens after any sequence of registrations (locale \<open>view_kind\<close>).
  \<^item> \<open>Mk_Ssh\<close>: export of keys to SSH by every view module, import by the builder (\<^verbatim>\<open>src/mk.rs\<close>), keys from
    seeds; the round trips, and the algorithms (RSA, MAYO) that are exported but not imported.
  \<^item> \<open>Mk_Nonce\<close>, \<open>Mk_Marker\<close>: nonces on the wire; the signed markers of threshold keys.
  \<^item> \<open>Mk_Serde\<close>: serialization in both forms (\<^verbatim>\<open>src/serde\<close>): round trips, and the fields and attributes
    that an accepted human-readable form has.
  \<^item> \<open>Mk_Types\<close>: the wrappers of \<^verbatim>\<open>src/types.rs\<close> and the texts of keys; what a text depends on.
  \<^item> \<open>Mk_Lifecycle\<close>: components one after the other: a locked key that is stored, read back and unlocked; a
    key recombined from stored shares in place of the one that was split.

  \<^bold>\<open>What is a parameter.\<close> Code outside the repository is a record of functions with its
  documented behaviour as a predicate: \<open>wire\<close> (varuint, varbytes, codec codes), \<open>cipher_lib\<close>
  (ChaCha20-Poly1305, bcrypt), \<open>generators\<close> (key generators), \<open>aead_lib\<close>, \<open>kem_lib\<close>,
  \<open>meta_lib\<close> (threshold metadata), \<open>split_lib\<close> (Feldman and byte sharing, CBOR), \<open>bls_lib\<close>,
  \<open>bls_sign_lib\<close>, \<open>merkle_lib\<close>, \<open>ms_lib\<close> (multisigs), \<open>sign_lib\<close>, \<open>hybrid_lib\<close>, \<open>ecies_lib\<close>,
  \<open>xmss_lib\<close>, \<open>lamport_lib\<close>, \<open>curve_lib\<close>, \<open>marker_lib\<close>, \<open>ssh_lib\<close>,
  \<open>mt_types\<close> (tree keys), \<open>key_sources\<close> (random keys), \<open>serde_lib\<close> (forms of codecs and encoded bytes) and \<open>text_lib\<close> (texts of foreign types).
  Each has a concrete instance on which the properties are evaluated. Randomness is an argument.

  \<^bold>\<open>Bounds.\<close> Bytes are \<open>8 word\<close>; \<^verbatim>\<open>usize\<close> values are natural numbers with the bound \<open>2 ^ 64\<close>
  where they are encoded, subtracted, shifted or cast. Every loop of the program is a recursion on a
  list or on a number that was read before; the one recursion through the dispatchers is
  \<open>fingerprint_via\<close>, whose bound of two is enough because a converted key is not secret.

  \<^bold>\<open>What is not modelled.\<close> The texts of the error enums. Secret memory handling (\<^verbatim>\<open>Zeroizing\<close>)
  has no observable effect.
\<close>

end
